(* ===== verification/GpspPrelude.thy ===== *)
theory GpspPrelude
  imports Main "HOL-Library.Word" "HOL-Library.Monad_Syntax"
begin

text \<open>
  Shared ground of the development: the machine integers of the emulator, byte
  order, C arrays with explicit bounds (an access outside the array is the value
  \<^term>\<open>None\<close>), the first-match search loops the code writes by hand, and the
  contract of a bounded packet queue as a locale.
\<close>

unbundle bit_operations_syntax

type_synonym u8 = "8 word"
type_synonym u16 = "16 word"
type_synonym u32 = "32 word"
type_synonym s32 = "32 word"

named_theorems arr_defs "the C array primitives, unfolded to their bounds checks"

section \<open>Arrays with bounds\<close>

definition arr_get :: "'a list \<Rightarrow> nat \<Rightarrow> 'a option" where
  [arr_defs]: "arr_get xs i = (if i < length xs then Some (xs ! i) else None)"

definition arr_set :: "'a list \<Rightarrow> nat \<Rightarrow> 'a \<Rightarrow> 'a list option" where
  [arr_defs]: "arr_set xs i v = (if i < length xs then Some (xs[i := v]) else None)"

definition arr_blit :: "'a list \<Rightarrow> nat \<Rightarrow> 'a list \<Rightarrow> 'a list option" where
  [arr_defs]: "arr_blit dst off src =
     (if off + length src \<le> length dst
      then Some (take off dst @ src @ drop (off + length src) dst) else None)"

definition arr_slice :: "'a list \<Rightarrow> nat \<Rightarrow> nat \<Rightarrow> 'a list option" where
  [arr_defs]: "arr_slice xs off n =
     (if off + n \<le> length xs then Some (take n (drop off xs)) else None)"

lemma arr_get_Some [simp]: "i < length xs \<Longrightarrow> arr_get xs i = Some (xs ! i)"
  by (simp add: arr_get_def)

lemma arr_set_Some [simp]: "i < length xs \<Longrightarrow> arr_set xs i v = Some (xs[i := v])"
  by (simp add: arr_set_def)

lemma arr_slice_Some [simp]:
  "off + n \<le> length xs \<Longrightarrow> arr_slice xs off n = Some (take n (drop off xs))"
  by (simp add: arr_slice_def)

lemma arr_get_eq_Some: "arr_get xs i = Some v \<longleftrightarrow> i < length xs \<and> v = xs ! i"
  by (auto simp: arr_get_def)

lemma arr_set_eq_Some: "arr_set xs i v = Some ys \<longleftrightarrow> i < length xs \<and> ys = xs[i := v]"
  by (auto simp: arr_set_def)

lemma arr_blit_eq_Some:
  "arr_blit dst off src = Some ys \<longleftrightarrow>
     off + length src \<le> length dst \<and> ys = take off dst @ src @ drop (off + length src) dst"
  by (auto simp: arr_blit_def)

lemma arr_slice_eq_Some:
  "arr_slice xs off n = Some ys \<longleftrightarrow> off + n \<le> length xs \<and> ys = take n (drop off xs)"
  by (auto simp: arr_slice_def)

lemmas arr_eq_Some = arr_get_eq_Some arr_set_eq_Some arr_blit_eq_Some arr_slice_eq_Some

lemma arr_blit_length: "arr_blit dst off src = Some ys \<Longrightarrow> length ys = length dst"
  by (auto simp: arr_blit_eq_Some)

lemma arr_blit_total: "off + length src \<le> length dst \<Longrightarrow> \<exists>ys. arr_blit dst off src = Some ys"
  by (simp add: arr_blit_def)

lemma arr_blit_Nil [simp]: "off \<le> length dst \<Longrightarrow> arr_blit dst off [] = Some dst"
  by (simp add: arr_blit_def)

lemma arr_blit_Cons:
  "off < length dst \<Longrightarrow> arr_blit dst off (x # xs) = arr_blit (dst[off := x]) (Suc off) xs"
  by (auto simp: arr_blit_def take_Suc_conv_app_nth list_update_append drop_update_cancel
      nth_append add_ac Suc_diff_Suc)

lemma arr_blit_append:
  "off + length xs + length ys \<le> length dst \<Longrightarrow>
     arr_blit dst off (xs @ ys) =
     do { d \<leftarrow> arr_blit dst off xs; arr_blit d (off + length xs) ys }"
  by (simp add: arr_blit_def add.assoc add.left_commute [of "length ys"] add.commute [of "length ys"])

lemma arr_blit_take:
  "arr_blit dst off src = Some ys \<Longrightarrow> take (off + length src) ys = take off dst @ src"
  by (auto simp: arr_blit_eq_Some)

lemma arr_blit_zero_take: "arr_blit dst 0 src = Some ys \<Longrightarrow> take (length src) ys = src"
  by (auto simp: arr_blit_eq_Some)

section \<open>First-match loops\<close>

text \<open>\<^term>\<open>find_idx P xs\<close> is the loop \<^verbatim>\<open>for (i = 0; i < n; i++) if (P(x[i])) return i;\<close>.\<close>

fun find_idx :: "('a \<Rightarrow> bool) \<Rightarrow> 'a list \<Rightarrow> nat option" where
  "find_idx P [] = None"
| "find_idx P (x # xs) = (if P x then Some 0 else map_option Suc (find_idx P xs))"

lemma find_idx_None: "find_idx P xs = None \<longleftrightarrow> (\<forall>x \<in> set xs. \<not> P x)"
  by (induction xs) auto

lemma find_idx_SomeD:
  "find_idx P xs = Some i \<Longrightarrow> i < length xs \<and> P (xs ! i) \<and> (\<forall>j < i. \<not> P (xs ! j))"
proof (induction xs arbitrary: i)
  case (Cons x xs)
  then show ?case
    by (auto simp: nth_Cons split: if_splits nat.splits)
qed simp

lemma find_idx_Some_iff:
  "find_idx P xs = Some i \<longleftrightarrow> i < length xs \<and> P (xs ! i) \<and> (\<forall>j < i. \<not> P (xs ! j))"
proof
  assume r: "i < length xs \<and> P (xs ! i) \<and> (\<forall>j < i. \<not> P (xs ! j))"
  then obtain k where k: "find_idx P xs = Some k"
    by (cases "find_idx P xs") (auto simp: find_idx_None)
  from find_idx_SomeD [OF this] r have "k = i"
    by (meson linorder_neqE_nat)
  with k show "find_idx P xs = Some i" by simp
qed (rule find_idx_SomeD)

lemma find_idx_append_hit:
  "\<forall>x \<in> set xs. \<not> P x \<Longrightarrow> P y \<Longrightarrow> find_idx P (xs @ y # ys) = Some (length xs)"
  by (induction xs) auto

section \<open>Byte order\<close>

definition upack32 :: "u8 list \<Rightarrow> u32" where
  "upack32 p = ucast (p ! 3) OR push_bit 8 (ucast (p ! 2)) OR push_bit 16 (ucast (p ! 1))
                 OR push_bit 24 (ucast (p ! 0))"

definition leupack32 :: "u8 list \<Rightarrow> u32" where
  "leupack32 p = ucast (p ! 0) OR push_bit 8 (ucast (p ! 1)) OR push_bit 16 (ucast (p ! 2))
                   OR push_bit 24 (ucast (p ! 3))"

definition le_bytes :: "u32 \<Rightarrow> u8 list" where
  "le_bytes w = [ucast w, ucast (drop_bit 8 w), ucast (drop_bit 16 w), ucast (drop_bit 24 w)]"

definition be_bytes :: "u32 \<Rightarrow> u8 list" where
  "be_bytes w = [ucast (drop_bit 24 w), ucast (drop_bit 16 w), ucast (drop_bit 8 w), ucast w]"

definition netorder32 :: "u32 \<Rightarrow> u32" where
  "netorder32 w = leupack32 (be_bytes w)"

lemma length_le_bytes [simp]: "length (le_bytes w) = 4" by (simp add: le_bytes_def)
lemma length_be_bytes [simp]: "length (be_bytes w) = 4" by (simp add: be_bytes_def)

lemma leupack_le_bytes [simp]: "leupack32 (le_bytes w @ r) = w"
proof (rule bit_word_eqI)
  fix n assume "n < LENGTH(32)"
  then consider "n < 8" | "8 \<le> n \<and> n < 16" | "16 \<le> n \<and> n < 24" | "24 \<le> n \<and> n < 32" by force
  then show "bit (leupack32 (le_bytes w @ r)) n = bit w n"
    by cases (auto simp: leupack32_def le_bytes_def bit_simps)
qed

lemma upack_be_bytes [simp]: "upack32 (be_bytes w @ r) = w"
proof (rule bit_word_eqI)
  fix n assume "n < LENGTH(32)"
  then consider "n < 8" | "8 \<le> n \<and> n < 16" | "16 \<le> n \<and> n < 24" | "24 \<le> n \<and> n < 32" by force
  then show "bit (upack32 (be_bytes w @ r)) n = bit w n"
    by cases (auto simp: upack32_def be_bytes_def bit_simps)
qed

lemma word_xor_zeroD: "(x :: 'a :: len word) XOR y = 0 \<Longrightarrow> x = y"
  by (metis xor.assoc xor.right_neutral xor_self_eq)

lemma unat_u8_le: "unat (w :: u8) \<le> 255"
proof -
  have "unat w < 2 ^ LENGTH(8)" by (rule unsigned_less)
  then show ?thesis by simp
qed

lemma bit_u8_high [simp]: "8 \<le> n \<Longrightarrow> \<not> bit (w :: u8) n"
  by (auto dest: bit_imp_le_length)

lemma le_bytes_leupack [simp]: "le_bytes (leupack32 (a # b # c # d # r)) = [a, b, c, d]"
  by (auto simp: le_bytes_def leupack32_def bit_simps intro!: bit_word_eqI)

lemma le_bytes_netorder32 [simp]: "le_bytes (netorder32 w) = be_bytes w"
  by (simp add: netorder32_def be_bytes_def)

lemma be_bytes_rev: "be_bytes w = rev (le_bytes w)"
  by (simp add: be_bytes_def le_bytes_def)

lemma netorder_leupack [simp]: "netorder32 (leupack32 p) = upack32 p"
proof -
  have "leupack32 p = leupack32 [p ! 0, p ! 1, p ! 2, p ! 3]"
    by (simp add: leupack32_def)
  then have "be_bytes (leupack32 p) = [p ! 3, p ! 2, p ! 1, p ! 0]"
    by (simp add: be_bytes_rev)
  then show ?thesis by (simp add: netorder32_def) (simp add: upack32_def leupack32_def)
qed

lemma drop_be_bytes [simp]: "drop 4 (be_bytes a @ r) = r" "drop 8 (be_bytes a @ r) = drop 4 r"
  "drop 12 (be_bytes a @ r) = drop 8 r" "drop 4 (be_bytes a) = []"
  by (simp_all add: be_bytes_def)

lemma upack_be_bytes_only [simp]: "upack32 (be_bytes w) = w"
  using upack_be_bytes [of w "[]"] by simp

lemma bit_u16_high [simp]: "16 \<le> n \<Longrightarrow> \<not> bit (w :: u16) n"
  by (auto dest: bit_imp_le_length)

lemma u8_inc: "unat (c :: u8) < 255 \<Longrightarrow> unat (c + 1) = unat c + 1"
  by (simp add: unat_word_ariths)

lemma u8_dec: "(c :: u8) \<noteq> 0 \<Longrightarrow> unat (c - 1) = unat c - 1"
  by (metis One_nat_def unat_minus_one)

section \<open>The bits of a byte, most significant first\<close>

definition byte_bits :: "u8 \<Rightarrow> bool list" where
  "byte_bits w = map (\<lambda>j. bit w (7 - j)) [0..<8]"

lemma byte_bits_take:
  "k < 8 \<Longrightarrow> take (Suc k) (byte_bits w) = take k (byte_bits w) @ [bit w (7 - k)]"
  by (simp add: byte_bits_def take_Suc_conv_app_nth)

lemma byte_bits_length [simp]: "length (byte_bits w) = 8"
  by (simp add: byte_bits_def)

end
