(* ===== verification/PacketQueue.thy ===== *)
theory PacketQueue
  imports GpspPrelude
begin

text \<open>
  The contract of the bounded packet queues the adapters keep between the game
  and the network, and the array-of-slots implementation the wireless adapter uses.
  \<^item> \<open>packet_queue\<close>: the interface. A full queue drops the new packet, a pop removes
    the oldest one; a run of operations refines the list model \<open>qspec\<close>.
  \<^item> \<open>slot_queue\<close>: a slot carries its own length field, zero means free. Its
    operations \<open>slots_put\<close> (first free slot) and \<open>slots_pop\<close> (memmove down, clear
    the last) implement the contract.
\<close>

datatype 'a qop = Put 'a | Pop

fun qput :: "nat \<Rightarrow> 'a \<Rightarrow> 'a list \<Rightarrow> 'a list" where
  "qput cap x xs = (if length xs < cap then xs @ [x] else xs)"

fun qspec :: "nat \<Rightarrow> 'a qop list \<Rightarrow> 'a list \<Rightarrow> 'a list" where
  "qspec cap [] xs = xs"
| "qspec cap (Put x # ops) xs = qspec cap ops (qput cap x xs)"
| "qspec cap (Pop # ops) xs = qspec cap ops (tl xs)"

fun qrun :: "('a \<Rightarrow> 'q \<Rightarrow> 'q option) \<Rightarrow> ('q \<Rightarrow> 'q) \<Rightarrow> 'a qop list \<Rightarrow> 'q \<Rightarrow> 'q option" where
  "qrun put pop [] q = Some q"
| "qrun put pop (Put x # ops) q = do { q' \<leftarrow> put x q; qrun put pop ops q' }"
| "qrun put pop (Pop # ops) q = qrun put pop ops (pop q)"

fun qputs :: "'a qop list \<Rightarrow> 'a list" where
  "qputs [] = []"
| "qputs (Put x # ops) = x # qputs ops"
| "qputs (Pop # ops) = qputs ops"

lemma qspec_bound: "length xs \<le> cap \<Longrightarrow> length (qspec cap ops xs) \<le> cap"
  by (induction cap ops xs rule: qspec.induct) auto

lemma qspec_puts: "length xs + length ys \<le> cap \<Longrightarrow> qspec cap (map Put ys) xs = xs @ ys"
  by (induction ys arbitrary: xs) auto

lemma qspec_pops: "qspec cap (replicate n Pop) xs = drop n xs"
  by (induction n arbitrary: xs) (auto simp: drop_Suc)

lemma qspec_append: "qspec cap (a @ b) xs = qspec cap b (qspec cap a xs)"
  by (induction cap a xs rule: qspec.induct) auto

locale packet_queue =
  fixes q_inv :: "'q \<Rightarrow> bool"
    and view :: "'q \<Rightarrow> 'a list"
    and cap :: nat
    and msg_ok :: "'a \<Rightarrow> bool"
    and put :: "'a \<Rightarrow> 'q \<Rightarrow> 'q option"
    and pop :: "'q \<Rightarrow> 'q"
  assumes put_refines:
      "q_inv q \<Longrightarrow> msg_ok x \<Longrightarrow> \<exists>q'. put x q = Some q' \<and> q_inv q' \<and> view q' = qput cap x (view q)"
    and pop_refines: "q_inv q \<Longrightarrow> q_inv (pop q) \<and> view (pop q) = tl (view q)"
    and within_cap: "q_inv q \<Longrightarrow> length (view q) \<le> cap"
begin

lemma run_refines:
  "q_inv q \<Longrightarrow> list_all msg_ok (qputs ops) \<Longrightarrow>
     \<exists>q'. qrun put pop ops q = Some q' \<and> q_inv q' \<and> view q' = qspec cap ops (view q)"
proof (induction ops arbitrary: q)
  case (Cons a ops)
  show ?case
  proof (cases a)
    case (Put x)
    with Cons.prems put_refines [of q x] obtain q1
      where q1: "put x q = Some q1" "q_inv q1" "view q1 = qput cap x (view q)" by auto
    with Cons.IH [of q1] Cons.prems Put show ?thesis by auto
  next
    case Pop
    with Cons.IH [of "pop q"] Cons.prems pop_refines [of q] show ?thesis by auto
  qed
qed simp

lemma fifo:
  assumes "q_inv q" "view q = []" "list_all msg_ok xs" "length xs \<le> cap" "n \<le> length xs"
  shows "\<exists>q'. qrun put pop (map Put xs @ replicate n Pop) q = Some q' \<and> view q' = drop n xs"
proof -
  have "qputs (map Put xs @ replicate n Pop) = xs" for n
    by (induction xs) (induction n; simp)+
  with run_refines [of q "map Put xs @ replicate n Pop"] assms show ?thesis
    by (auto simp: qspec_append qspec_puts qspec_pops)
qed

end

definition slots_put :: "('s \<Rightarrow> nat) \<Rightarrow> ('a \<Rightarrow> 's \<Rightarrow> 's option) \<Rightarrow> 'a \<Rightarrow> 's list \<Rightarrow> 's list option" where
  "slots_put len fill x ps =
     (case find_idx (\<lambda>p. len p = 0) ps of
        Some i \<Rightarrow> do { p \<leftarrow> fill x (ps ! i); Some (ps[i := p]) }
      | None \<Rightarrow> Some ps)"

definition slots_pop :: "('s \<Rightarrow> 's) \<Rightarrow> 's list \<Rightarrow> 's list" where
  "slots_pop clear ps = tl ps @ [clear (last ps)]"

definition slots_view :: "('s \<Rightarrow> nat) \<Rightarrow> ('s \<Rightarrow> 'a) \<Rightarrow> 's list \<Rightarrow> 'a list" where
  "slots_view len content ps = map content (takeWhile (\<lambda>p. len p \<noteq> 0) ps)"

definition slots_inv :: "('s \<Rightarrow> bool) \<Rightarrow> ('s \<Rightarrow> nat) \<Rightarrow> nat \<Rightarrow> 's list \<Rightarrow> bool" where
  "slots_inv ok len n ps \<longleftrightarrow> length ps = n \<and> list_all ok ps \<and>
     list_all (\<lambda>p. len p = 0) (dropWhile (\<lambda>p. len p \<noteq> 0) ps)"

lemma slots_inv_split:
  "slots_inv ok len n ps \<longleftrightarrow> length ps = n \<and> list_all ok ps \<and>
     (\<exists>a b. ps = a @ b \<and> list_all (\<lambda>p. len p \<noteq> 0) a \<and> list_all (\<lambda>p. len p = 0) b)"
proof -
  have "list_all (\<lambda>p. len p = 0) (dropWhile (\<lambda>p. len p \<noteq> 0) (a @ b))"
    if "list_all (\<lambda>p. len p \<noteq> 0) a" "list_all (\<lambda>p. len p = 0) b" for a b :: "'a list"
    using that by (auto simp: list_all_iff dropWhile_append dest!: set_dropWhileD)
  moreover have "list_all (\<lambda>p. len p \<noteq> 0) (takeWhile (\<lambda>p. len p \<noteq> 0) ps)"
    by (auto simp: list_all_iff dest: set_takeWhileD)
  moreover have "ps = takeWhile (\<lambda>p. len p \<noteq> 0) ps @ dropWhile (\<lambda>p. len p \<noteq> 0) ps" by simp
  ultimately show ?thesis unfolding slots_inv_def by blast
qed

lemma slots_view_split:
  assumes "list_all (\<lambda>p. len p \<noteq> 0) a" "list_all (\<lambda>p. len p = 0) b"
  shows "slots_view len content (a @ b) = map content a"
proof -
  have "takeWhile (\<lambda>p. len p \<noteq> 0) b = []"
    using assms(2) by (cases b) auto
  with assms(1) show ?thesis
    by (auto simp: slots_view_def list_all_iff takeWhile_append2)
qed

locale slot_queue =
  fixes slot_ok :: "'s \<Rightarrow> bool"
    and len :: "'s \<Rightarrow> nat"
    and content :: "'s \<Rightarrow> 'a"
    and fill :: "'a \<Rightarrow> 's \<Rightarrow> 's option"
    and clear :: "'s \<Rightarrow> 's"
    and msg_ok :: "'a \<Rightarrow> bool"
    and cap :: nat
  assumes fill_ok: "slot_ok s \<Longrightarrow> msg_ok x \<Longrightarrow>
      \<exists>s'. fill x s = Some s' \<and> slot_ok s' \<and> len s' \<noteq> 0 \<and> content s' = x"
    and clear_ok: "slot_ok s \<Longrightarrow> slot_ok (clear s) \<and> len (clear s) = 0"
    and cap_pos: "0 < cap"
begin

lemma slots_put_refines:
  assumes "slots_inv slot_ok len cap ps" "msg_ok x"
  shows "\<exists>ps'. slots_put len fill x ps = Some ps' \<and> slots_inv slot_ok len cap ps' \<and>
     slots_view len content ps' = qput cap x (slots_view len content ps)"
proof -
  from assms obtain a b where ab: "ps = a @ b" "list_all (\<lambda>p. len p \<noteq> 0) a"
      "list_all (\<lambda>p. len p = 0) b" "list_all slot_ok ps" "length ps = cap"
    by (auto simp: slots_inv_split)
  show ?thesis
  proof (cases b)
    case Nil
    with ab have "find_idx (\<lambda>p. len p = 0) ps = None" by (auto simp: find_idx_None list_all_iff)
    with Nil ab assms(1) show ?thesis
      using slots_view_split [of len ps "[]" content] by (simp add: slots_put_def)
  next
    case (Cons s bs)
    with ab have f: "find_idx (\<lambda>p. len p = 0) ps = Some (length a)"
      by (auto simp: list_all_iff intro!: find_idx_append_hit)
    from fill_ok [of s x] Cons ab assms(2) obtain s' where
      s': "fill x s = Some s'" "slot_ok s'" "len s' \<noteq> 0" "content s' = x" by auto
    have "slots_put len fill x ps = Some ((a @ [s']) @ bs)"
      using f Cons ab s' by (simp add: slots_put_def)
    moreover have "slots_inv slot_ok len cap ((a @ [s']) @ bs)"
      unfolding slots_inv_split using ab s' Cons
      by (intro conjI exI [of _ "a @ [s']"] exI [of _ bs]) auto
    moreover have "slots_view len content ((a @ [s']) @ bs) = map content a @ [x]"
      by (subst slots_view_split) (use ab s' Cons in auto)
    ultimately show ?thesis using ab Cons by (auto simp: slots_view_split)
  qed
qed

lemma slots_pop_refines:
  assumes "slots_inv slot_ok len cap ps"
  shows "slots_inv slot_ok len cap (slots_pop clear ps) \<and>
     slots_view len content (slots_pop clear ps) = tl (slots_view len content ps)"
proof -
  from assms obtain a b where ab: "ps = a @ b" "list_all (\<lambda>p. len p \<noteq> 0) a"
      "list_all (\<lambda>p. len p = 0) b" "list_all slot_ok ps" "length ps = cap"
    by (auto simp: slots_inv_split)
  have ne: "ps \<noteq> []" using ab cap_pos by auto
  then have lst: "slot_ok (last ps)" using ab(4) by (simp add: list_all_iff)
  define b' where "b' = (if a = [] then tl b else b) @ [clear (last ps)]"
  have eq: "slots_pop clear ps = tl a @ b'"
    using ab(1) by (cases a) (auto simp: slots_pop_def b'_def)
  have a': "list_all (\<lambda>p. len p \<noteq> 0) (tl a)" using ab(2) by (cases a) auto
  have b': "list_all (\<lambda>p. len p = 0) b'"
    using ab(3) clear_ok [OF lst] by (cases b) (auto simp: b'_def)
  have "list_all slot_ok (slots_pop clear ps)"
    using ab(4) ne clear_ok [OF lst] by (cases ps) (auto simp: slots_pop_def)
  moreover have "length (slots_pop clear ps) = cap"
    using ab(5) cap_pos by (simp add: slots_pop_def)
  ultimately have "slots_inv slot_ok len cap (slots_pop clear ps)"
    unfolding slots_inv_split using eq a' b' by blast
  moreover have "slots_view len content (slots_pop clear ps) = tl (slots_view len content ps)"
    using eq a' b' ab by (simp add: slots_view_split map_tl)
  ultimately show ?thesis by simp
qed

lemma slots_view_cap: "slots_inv slot_ok len cap ps \<Longrightarrow> length (slots_view len content ps) \<le> cap"
  using length_takeWhile_le [of "\<lambda>p. len p \<noteq> 0" ps] by (auto simp: slots_inv_def slots_view_def)

end

sublocale slot_queue \<subseteq> pq: packet_queue "slots_inv slot_ok len cap" "slots_view len content" cap
    msg_ok "slots_put len fill" "slots_pop clear"
  by unfold_locales (use slots_put_refines slots_pop_refines slots_view_cap in auto)

end
