(* ===== verification/RfuState.thy ===== *)
theory RfuState
  imports PacketQueue
begin

text \<open>
  The wireless adapter of \<^verbatim>\<open>rfu.c\<close>: its static state, the packet builders of its
  network protocol and its random generator (\<^verbatim>\<open>main.c\<close>). Packets handed to
  \<^verbatim>\<open>netpacket_send\<close> are appended to the field \<open>rfu_sent\<close> as (destination, bytes).
  Lengths that only ever hold small counts are \<^typ>\<open>nat\<close>; everything that wraps,
  shifts or is masked is kept at its width.
\<close>

datatype rfu_comstate_t =
    RFU_COMSTATE_RESET | RFU_COMSTATE_HANDSHAKE | RFU_COMSTATE_WAITCMD | RFU_COMSTATE_WAITDAT
  | RFU_COMSTATE_RESPCMD | RFU_COMSTATE_RESPDAT | RFU_COMSTATE_RESPERR | RFU_COMSTATE_RESPERR2
  | RFU_COMSTATE_WAITEVENT | RFU_COMSTATE_WAITRESP

datatype rfu_state_t = RFU_STATE_IDLE | RFU_STATE_HOST | RFU_STATE_CONNECTING | RFU_STATE_CLIENT

abbreviation (input) RFU_CMD_INIT1 :: u8 where "RFU_CMD_INIT1 \<equiv> 0x10"
abbreviation (input) RFU_CMD_INIT2 :: u8 where "RFU_CMD_INIT2 \<equiv> 0x3d"
abbreviation (input) RFU_CMD_SYSCFG :: u8 where "RFU_CMD_SYSCFG \<equiv> 0x17"
abbreviation (input) RFU_CMD_LINKPWR :: u8 where "RFU_CMD_LINKPWR \<equiv> 0x11"
abbreviation (input) RFU_CMD_SYSVER :: u8 where "RFU_CMD_SYSVER \<equiv> 0x12"
abbreviation (input) RFU_CMD_SYSSTAT :: u8 where "RFU_CMD_SYSSTAT \<equiv> 0x13"
abbreviation (input) RFU_CMD_SLOTSTAT :: u8 where "RFU_CMD_SLOTSTAT \<equiv> 0x14"
abbreviation (input) RFU_CMD_BCST_DATA :: u8 where "RFU_CMD_BCST_DATA \<equiv> 0x16"
abbreviation (input) RFU_CMD_HOST_START :: u8 where "RFU_CMD_HOST_START \<equiv> 0x19"
abbreviation (input) RFU_CMD_HOST_ACCEPT :: u8 where "RFU_CMD_HOST_ACCEPT \<equiv> 0x1a"
abbreviation (input) RFU_CMD_HOST_STOP :: u8 where "RFU_CMD_HOST_STOP \<equiv> 0x1b"
abbreviation (input) RFU_CMD_BCRD_START :: u8 where "RFU_CMD_BCRD_START \<equiv> 0x1c"
abbreviation (input) RFU_CMD_BCRD_FETCH :: u8 where "RFU_CMD_BCRD_FETCH \<equiv> 0x1d"
abbreviation (input) RFU_CMD_BCRD_STOP :: u8 where "RFU_CMD_BCRD_STOP \<equiv> 0x1e"
abbreviation (input) RFU_CMD_CONNECT :: u8 where "RFU_CMD_CONNECT \<equiv> 0x1f"
abbreviation (input) RFU_CMD_ISCONNECTED :: u8 where "RFU_CMD_ISCONNECTED \<equiv> 0x20"
abbreviation (input) RFU_CMD_CONCOMPL :: u8 where "RFU_CMD_CONCOMPL \<equiv> 0x21"
abbreviation (input) RFU_CMD_SEND_DATA :: u8 where "RFU_CMD_SEND_DATA \<equiv> 0x24"
abbreviation (input) RFU_CMD_SEND_DATAW :: u8 where "RFU_CMD_SEND_DATAW \<equiv> 0x25"
abbreviation (input) RFU_CMD_RECV_DATA :: u8 where "RFU_CMD_RECV_DATA \<equiv> 0x26"
abbreviation (input) RFU_CMD_WAIT :: u8 where "RFU_CMD_WAIT \<equiv> 0x27"
abbreviation (input) RFU_CMD_RTX_WAIT :: u8 where "RFU_CMD_RTX_WAIT \<equiv> 0x37"
abbreviation (input) RFU_CMD_DISCONNECT :: u8 where "RFU_CMD_DISCONNECT \<equiv> 0x30"

abbreviation (input) RFU_CMD_RESP_TIMEO :: u32 where "RFU_CMD_RESP_TIMEO \<equiv> 0x27"
abbreviation (input) RFU_CMD_RESP_DATA :: u32 where "RFU_CMD_RESP_DATA \<equiv> 0x28"
abbreviation (input) RFU_CMD_RESP_DISC :: u32 where "RFU_CMD_RESP_DISC \<equiv> 0x29"

abbreviation (input) RFU_CONN_INPROGRESS :: u32 where "RFU_CONN_INPROGRESS \<equiv> 0x01000000"
abbreviation (input) RFU_CONN_FAILED :: u32 where "RFU_CONN_FAILED \<equiv> 0x02000000"
abbreviation (input) RFU_CONN_COMP_FAIL :: u32 where "RFU_CONN_COMP_FAIL \<equiv> 0x01000000"

abbreviation (input) NET_RFU_HEADER :: u32 where "NET_RFU_HEADER \<equiv> 0x52465531"
abbreviation (input) NET_RFU_BROADCAST :: u32 where "NET_RFU_BROADCAST \<equiv> 0"
abbreviation (input) NET_RFU_CONNECT_REQ :: u32 where "NET_RFU_CONNECT_REQ \<equiv> 1"
abbreviation (input) NET_RFU_CONNECT_ACK :: u32 where "NET_RFU_CONNECT_ACK \<equiv> 2"
abbreviation (input) NET_RFU_CONNECT_NACK :: u32 where "NET_RFU_CONNECT_NACK \<equiv> 3"
abbreviation (input) NET_RFU_DISCONNECT :: u32 where "NET_RFU_DISCONNECT \<equiv> 4"
abbreviation (input) NET_RFU_HOST_SEND :: u32 where "NET_RFU_HOST_SEND \<equiv> 5"
abbreviation (input) NET_RFU_CLIENT_SEND :: u32 where "NET_RFU_CLIENT_SEND \<equiv> 6"
abbreviation (input) NET_RFU_CLIENT_ACK :: u32 where "NET_RFU_CLIENT_ACK \<equiv> 7"

abbreviation (input) BCST_ANNOUNCE_VB :: u8 where "BCST_ANNOUNCE_VB \<equiv> 30"
abbreviation (input) MAX_RFU_PEERS :: nat where "MAX_RFU_PEERS \<equiv> 32"

section \<open>State\<close>

record rfu_tx_buf_t =
  tx_buf :: "u32 list"
  tx_blen :: nat

record rfu_host_pkt =
  datalen :: nat
  data :: "u8 list"

record rfu_host_client =
  hc_client_id :: u16
  hc_devid :: u16
  hc_clttl :: u16
  hc_pkts :: "rfu_host_pkt list"

record rfu_host_t =
  h_devid :: u16
  h_tx_ttl :: u8
  h_bdata :: "u32 list"
  h_clients :: "rfu_host_client list"

record rfu_client_pkt =
  hblen :: nat
  hdata :: "u8 list"

record rfu_client_t =
  c_devid :: u16
  c_clnum :: u16
  c_host_id :: u16
  c_pkts :: "rfu_client_pkt list"

record t_client_broadcast =
  b_valid :: bool
  b_ttl :: u8
  b_device_id :: u16
  b_data :: "u32 list"

record rfu =
  rfu_prev_data :: u32
  rfu_comstate :: rfu_comstate_t
  rfu_cnt :: nat
  rfu_state :: rfu_state_t
  rfu_buf :: "u32 list"
  rfu_cmd :: u8
  rfu_plen :: u8
  rfu_timeout_cycles :: u32
  rfu_resp_timeout :: u32
  rfu_timeout :: u8
  rfu_rtx_max :: u8
  rfu_tx_buf :: rfu_tx_buf_t
  rfu_host :: rfu_host_t
  rfu_client :: rfu_client_t
  rfu_peer_bcst :: "t_client_broadcast list"
  random_state :: u32
  rfu_sent :: "(u16 \<times> u8 list) list"

text \<open>The values \<^verbatim>\<open>memset(.., 0, ..)\<close> gives each structure.\<close>

definition zero_host_pkt :: rfu_host_pkt where
  "zero_host_pkt = \<lparr>datalen = 0, data = replicate 16 0\<rparr>"

definition zero_host_client :: rfu_host_client where
  "zero_host_client = \<lparr>hc_client_id = 0, hc_devid = 0, hc_clttl = 0,
                       hc_pkts = replicate 4 zero_host_pkt\<rparr>"

definition zero_host :: rfu_host_t where
  "zero_host = \<lparr>h_devid = 0, h_tx_ttl = 0, h_bdata = replicate 6 0,
                h_clients = replicate 4 zero_host_client\<rparr>"

definition zero_client_pkt :: rfu_client_pkt where
  "zero_client_pkt = \<lparr>hblen = 0, hdata = replicate 128 0\<rparr>"

definition zero_client :: rfu_client_t where
  "zero_client = \<lparr>c_devid = 0, c_clnum = 0, c_host_id = 0, c_pkts = replicate 4 zero_client_pkt\<rparr>"

definition zero_broadcast :: t_client_broadcast where
  "zero_broadcast = \<lparr>b_valid = False, b_ttl = 0, b_device_id = 0, b_data = replicate 6 0\<rparr>"

text \<open>The static variables as the C runtime initialises them.\<close>

definition rfu_boot :: rfu where
  "rfu_boot = \<lparr>rfu_prev_data = 0, rfu_comstate = RFU_COMSTATE_RESET, rfu_cnt = 0,
     rfu_state = RFU_STATE_IDLE, rfu_buf = replicate 255 0, rfu_cmd = 0, rfu_plen = 0,
     rfu_timeout_cycles = 0, rfu_resp_timeout = 0, rfu_timeout = 0, rfu_rtx_max = 0,
     rfu_tx_buf = \<lparr>tx_buf = replicate 23 0, tx_blen = 0\<rparr>, rfu_host = zero_host,
     rfu_client = zero_client, rfu_peer_bcst = replicate MAX_RFU_PEERS zero_broadcast,
     random_state = 0, rfu_sent = []\<rparr>"

section \<open>Random numbers and device identifiers\<close>

definition rand_gen :: "u32 \<Rightarrow> u16 \<times> u32" where
  "rand_gen r = (let r' = (r * 1103515245 + 12345) AND 0x7fffffff in (ucast r', r'))"

definition rand_seed :: "u32 \<Rightarrow> u32 \<Rightarrow> u32" where
  "rand_seed d r = (let (n, r') = rand_gen r in r' XOR (ucast n XOR d))"

text \<open>
  C leaves open whether \<^verbatim>\<open>random_state ^= rand_gen() ^ data\<close> reads the variable before
  or after the call; the model reads it after, and no lemma depends on the choice.

  \<open>new_devid\<close> draws until the mixed value is not zero. The low bit of the generator
  alternates, so at most two draws are needed; that is the termination measure.
\<close>

lemma odd_rand_gen: "odd (snd (rand_gen r)) \<longleftrightarrow> even r"
  by (simp add: rand_gen_def Let_def even_and_iff)

lemma rand_gen_fst: "fst (rand_gen r) = ucast (snd (rand_gen r))"
  by (simp add: rand_gen_def Let_def)

lemma even_ucast_u16: "even (ucast (r :: u32) :: u16) \<longleftrightarrow> even r"
  using bit_0 [of "ucast r :: u16"] bit_0 [of r] by (simp only: bit_ucast_iff) simp

function new_devid :: "u32 \<Rightarrow> u32 \<Rightarrow> u16 \<times> u32" where
  "new_devid ticks r =
     (let n = fst (rand_gen r) XOR ucast ticks
      in if n \<noteq> 0 then (n, snd (rand_gen r)) else new_devid ticks (snd (rand_gen r)))"
  by auto
termination
proof (relation "measure (\<lambda>(t, r). if odd r = odd t then 0 else 1)", goal_cases)
  case (2 ticks r n)
  then have eq: "ucast (snd (rand_gen r)) = (ucast ticks :: u16)"
    by (auto simp: rand_gen_fst dest: word_xor_zeroD)
  have "odd (snd (rand_gen r)) = odd ticks"
    using arg_cong [OF eq, of odd] by (simp add: even_ucast_u16)
  with odd_rand_gen [of r] show ?case by auto
qed simp

declare new_devid.simps [simp del]

lemma new_devid_nonzero [simp]: "fst (new_devid t r) \<noteq> 0"
proof (induction t r rule: new_devid.induct)
  case (1 t r)
  then show ?case by (subst new_devid.simps) (auto simp: Let_def)
qed

section \<open>Packets\<close>

definition rfu_net_send :: "u16 \<Rightarrow> u8 list \<Rightarrow> rfu \<Rightarrow> rfu" where
  "rfu_net_send dst pkt s = s\<lparr>rfu_sent := rfu_sent s @ [(dst, pkt)]\<rparr>"

definition cmd_pkt :: "u32 \<Rightarrow> u32 \<Rightarrow> u8 list" where
  "cmd_pkt ptype h = concat (map (le_bytes \<circ> netorder32) [NET_RFU_HEADER, ptype, h]) @ le_bytes 0"

definition rfu_net_send_cmd :: "u16 \<Rightarrow> u32 \<Rightarrow> u32 \<Rightarrow> rfu \<Rightarrow> rfu" where
  "rfu_net_send_cmd client_id ptype h = rfu_net_send client_id (cmd_pkt ptype h)"

definition bcst_pkt :: "u32 \<Rightarrow> u32 \<Rightarrow> u32 list \<Rightarrow> u8 list" where
  "bcst_pkt ptype h pload =
     concat (map (le_bytes \<circ> netorder32) ([NET_RFU_HEADER, ptype, h] @ map ((!) pload) [0..<6]))"

definition rfu_net_send_bcast :: "u32 \<Rightarrow> u32 \<Rightarrow> u32 list \<Rightarrow> rfu \<Rightarrow> rfu" where
  "rfu_net_send_bcast ptype h pload = rfu_net_send 0xffff (bcst_pkt ptype h pload)"

text \<open>The payload bytes of a data packet; \<^verbatim>\<open>data8\<close> has 92 bytes, the rest is cleared.\<close>

definition word_byte :: "u32 list \<Rightarrow> nat \<Rightarrow> u8" where
  "word_byte ws i = ucast (drop_bit (8 * (i mod 4)) (ws ! (i div 4)))"

definition data_pkt :: "u32 \<Rightarrow> u32 \<Rightarrow> u32 list \<Rightarrow> nat \<Rightarrow> u8 list" where
  "data_pkt ptype h pload plen =
     concat (map (le_bytes \<circ> netorder32) [NET_RFU_HEADER, ptype, h]) @
     map (word_byte pload) [0..<plen] @ replicate (92 - plen) 0"

definition rfu_net_send_data :: "u16 \<Rightarrow> u32 \<Rightarrow> u32 \<Rightarrow> u32 list \<Rightarrow> nat \<Rightarrow> rfu \<Rightarrow> rfu option" where
  "rfu_net_send_data client_id ptype h pload plen s =
     (if plen \<le> 92 \<and> plen \<le> 4 * length pload
      then Some (rfu_net_send client_id (data_pkt ptype h pload plen) s) else None)"

section \<open>Reset\<close>

definition rfu_reset :: "u32 \<Rightarrow> rfu \<Rightarrow> rfu" where
  "rfu_reset ticks s = s\<lparr>rfu_prev_data := 0, rfu_cnt := 0, rfu_state := RFU_STATE_IDLE,
     rfu_comstate := RFU_COMSTATE_RESET, rfu_timeout_cycles := 0, rfu_resp_timeout := 0,
     rfu_timeout := 32, rfu_rtx_max := 4, rfu_host := zero_host,
     rfu_peer_bcst := replicate MAX_RFU_PEERS zero_broadcast,
     random_state := rand_seed ticks (random_state s)\<rparr>"

section \<open>Reading a packet back\<close>

lemma cmd_pkt_eq: "cmd_pkt p h = be_bytes NET_RFU_HEADER @ be_bytes p @ be_bytes h @ le_bytes 0"
  by (simp add: cmd_pkt_def)

lemma data_pkt_eq: "data_pkt p h ws n = be_bytes NET_RFU_HEADER @ be_bytes p @ be_bytes h @
    map (word_byte ws) [0..<n] @ replicate (92 - n) 0"
  by (simp add: data_pkt_def)

lemma bcst_pkt_eq: "bcst_pkt p h ws = be_bytes NET_RFU_HEADER @ be_bytes p @ be_bytes h @
    concat (map (\<lambda>j. be_bytes (ws ! j)) [0..<6])"
  by (simp add: bcst_pkt_def comp_def)

lemma pkt_fields [simp]:
  "upack32 (cmd_pkt p h) = NET_RFU_HEADER" "upack32 (drop 4 (cmd_pkt p h)) = p"
  "upack32 (drop 8 (cmd_pkt p h)) = h" "length (cmd_pkt p h) = 16"
  "upack32 (data_pkt p h ws n) = NET_RFU_HEADER" "upack32 (drop 4 (data_pkt p h ws n)) = p"
  "upack32 (drop 8 (data_pkt p h ws n)) = h" "n \<le> 92 \<Longrightarrow> length (data_pkt p h ws n) = 104"
  "drop 12 (data_pkt p h ws n) = map (word_byte ws) [0..<n] @ replicate (92 - n) 0"
  "upack32 (bcst_pkt p h ws) = NET_RFU_HEADER" "upack32 (drop 4 (bcst_pkt p h ws)) = p"
  "upack32 (drop 8 (bcst_pkt p h ws)) = h"
  "drop 12 (bcst_pkt p h ws) = concat (map (\<lambda>j. be_bytes (ws ! j)) [0..<6])"
  by (simp_all add: cmd_pkt_eq data_pkt_eq bcst_pkt_eq)

lemma length_bcst_pkt [simp]: "length (bcst_pkt p h ws) = 36"
  by (simp add: bcst_pkt_eq upt_rec)

end
