(* ===== verification/RfuCommand.thy ===== *)
theory RfuCommand
  imports RfuState
begin

text \<open>
  \<^verbatim>\<open>rfu_process_command\<close> of \<^verbatim>\<open>rfu.c\<close>, one definition per \<^verbatim>\<open>case\<close>. A command returns the
  number of response words it left in \<open>rfu_buf\<close>, or -1 for an error; \<^term>\<open>None\<close> is an
  access outside an array or a shift by 32 or more.
\<close>

type_synonym rfu_result = "(int \<times> rfu) option"

definition shr32 :: "u32 \<Rightarrow> nat \<Rightarrow> u32 option" where
  "shr32 w n = (if n < 32 then Some (drop_bit n w) else None)"

definition shl32 :: "u32 \<Rightarrow> nat \<Rightarrow> u32 option" where
  "shl32 w n = (if n < 32 then Some (push_bit n w) else None)"

definition set_clients :: "rfu_host_client list \<Rightarrow> rfu \<Rightarrow> rfu" where
  "set_clients cs s = s\<lparr>rfu_host := (rfu_host s)\<lparr>h_clients := cs\<rparr>\<rparr>"

section \<open>Configuration and status\<close>

definition cmd_syscfg :: "rfu \<Rightarrow> rfu_result" where
  "cmd_syscfg s = do {
     w \<leftarrow> arr_get (rfu_buf s) 0;
     Some (0, s\<lparr>rfu_timeout := ucast w, rfu_rtx_max := ucast (drop_bit 8 w)\<rparr>) }"

definition respond1 :: "u32 \<Rightarrow> rfu \<Rightarrow> rfu_result" where
  "respond1 w s = do { b \<leftarrow> arr_set (rfu_buf s) 0 w; Some (1, s\<lparr>rfu_buf := b\<rparr>) }"

definition cmd_sysver :: "rfu \<Rightarrow> rfu_result" where
  "cmd_sysver s = respond1 0x00830117 s"

definition cmd_sysstat :: "rfu \<Rightarrow> rfu_result" where
  "cmd_sysstat s =
     (case rfu_state s of
        RFU_STATE_HOST \<Rightarrow> respond1 (push_bit 24 1 OR ucast (h_devid (rfu_host s))) s
      | RFU_STATE_CLIENT \<Rightarrow> do {
          b \<leftarrow> shl32 1 (unat (c_clnum (rfu_client s)));
          respond1 (push_bit 24 5 OR push_bit 16 b OR ucast (c_devid (rfu_client s))) s }
      | _ \<Rightarrow> respond1 0 s)"

definition slot_word :: "nat \<Rightarrow> rfu_host_client \<Rightarrow> u32" where
  "slot_word i c = ucast (hc_devid c) OR push_bit 16 (of_nat i)"

fun slotstat_loop :: "nat \<Rightarrow> rfu_host_client list \<Rightarrow> nat \<Rightarrow> u32 list \<Rightarrow> (nat \<times> u32 list) option" where
  "slotstat_loop i [] cnt b = Some (cnt, b)"
| "slotstat_loop i (c # cs) cnt b =
     (if hc_devid c \<noteq> 0 then do {
        n \<leftarrow> arr_get b 0;
        b \<leftarrow> arr_set b 0 (n + 1);
        b \<leftarrow> arr_set b cnt (slot_word i c);
        slotstat_loop (Suc i) cs (Suc cnt) b }
      else slotstat_loop (Suc i) cs cnt b)"

definition cmd_slotstat :: "rfu \<Rightarrow> rfu_result" where
  "cmd_slotstat s =
     (if rfu_state s = RFU_STATE_HOST then do {
        b \<leftarrow> arr_set (rfu_buf s) 0 0;
        (cnt, b) \<leftarrow> slotstat_loop 0 (h_clients (rfu_host s)) 1 b;
        Some (int cnt, s\<lparr>rfu_buf := b\<rparr>) }
      else Some (0, s))"

definition cmd_linkpwr :: "rfu \<Rightarrow> rfu_result" where
  "cmd_linkpwr s =
     (let used = (\<lambda>i m. if hc_devid (h_clients (rfu_host s) ! i) \<noteq> 0 then m else 0 :: u32)
      in case rfu_state s of
           RFU_STATE_HOST \<Rightarrow>
             respond1 (used 0 0x000000ff OR used 1 0x0000ff00 OR used 2 0x00ff0000 OR used 3 0xff000000) s
         | RFU_STATE_CLIENT \<Rightarrow> respond1 0xffffffff s
         | _ \<Rightarrow> respond1 0 s)"

section \<open>Broadcasts\<close>

text \<open>At most four valid peers, seven words each, from a random starting entry.\<close>

fun bcrd_loop :: "t_client_broadcast list \<Rightarrow> nat \<Rightarrow> nat \<Rightarrow> nat \<Rightarrow> nat \<Rightarrow> u32 list
                    \<Rightarrow> (nat \<times> u32 list) option" where
  "bcrd_loop peers i 0 j cnt b = Some (cnt, b)"
| "bcrd_loop peers i (Suc n) j cnt b =
     (if cnt < 4 * 7 then do {
        p \<leftarrow> arr_get peers ((i + j) mod MAX_RFU_PEERS);
        if b_valid p then do {
          b \<leftarrow> arr_set b cnt (ucast (b_device_id p));
          b \<leftarrow> arr_blit b (Suc cnt) (b_data p);
          bcrd_loop peers i n (Suc j) (Suc cnt + 6) b }
        else bcrd_loop peers i n (Suc j) cnt b }
      else Some (cnt, b))"

definition cmd_bcrd_fetch :: "rfu \<Rightarrow> rfu_result" where
  "cmd_bcrd_fetch s = (let (g, r) = rand_gen (random_state s) in do {
     (cnt, b) \<leftarrow> bcrd_loop (rfu_peer_bcst s) (unat g mod MAX_RFU_PEERS) MAX_RFU_PEERS 0 0 (rfu_buf s);
     Some (int cnt, s\<lparr>rfu_buf := b, random_state := r\<rparr>) })"

definition cmd_bcst_data :: "rfu \<Rightarrow> rfu_result" where
  "cmd_bcst_data s =
     (if rfu_plen s = 6 then do {
        d \<leftarrow> arr_slice (rfu_buf s) 0 6;
        Some (0, s\<lparr>rfu_host := (rfu_host s)\<lparr>h_bdata := d\<rparr>\<rparr>) }
      else Some (0, s))"

section \<open>Hosting\<close>

definition cmd_host_start :: "u32 \<Rightarrow> rfu \<Rightarrow> rfu_result" where
  "cmd_host_start ticks s =
     (if rfu_state s = RFU_STATE_CLIENT then Some (-1, s)
      else
        (let s' = (if rfu_state s = RFU_STATE_IDLE
                   then (let (n, r) = new_devid ticks (random_state s)
                         in s\<lparr>random_state := r,
                              rfu_host := (rfu_host s)\<lparr>h_devid := n,
                                h_clients := replicate 4 zero_host_client\<rparr>,
                              rfu_state := RFU_STATE_HOST\<rparr>)
                   else s)
         in Some (0, s'\<lparr>rfu_host := (rfu_host s')\<lparr>h_tx_ttl := 0xff\<rparr>\<rparr>)))"

definition cmd_host_stop :: "rfu \<Rightarrow> rfu_result" where
  "cmd_host_stop s =
     (if rfu_state s = RFU_STATE_IDLE then Some (-1, s)
      else if rfu_state s = RFU_STATE_HOST then
        (if list_ex (\<lambda>c. hc_devid c \<noteq> 0) (h_clients (rfu_host s)) then Some (0, s)
         else Some (0, s\<lparr>rfu_state := RFU_STATE_IDLE\<rparr>))
      else Some (0, s))"

fun accept_loop :: "nat \<Rightarrow> rfu_host_client list \<Rightarrow> nat \<Rightarrow> u32 list \<Rightarrow> (nat \<times> u32 list) option" where
  "accept_loop i [] cnt b = Some (cnt, b)"
| "accept_loop i (c # cs) cnt b =
     (if hc_devid c \<noteq> 0 then do {
        b \<leftarrow> arr_set b cnt (slot_word i c);
        accept_loop (Suc i) cs (Suc cnt) b }
      else accept_loop (Suc i) cs cnt b)"

definition cmd_host_accept :: "rfu \<Rightarrow> rfu_result" where
  "cmd_host_accept s =
     (if rfu_state s = RFU_STATE_IDLE then Some (-1, s)
      else do {
        (cnt, b) \<leftarrow> accept_loop 0 (h_clients (rfu_host s)) 0 (rfu_buf s);
        Some (int cnt, s\<lparr>rfu_buf := b\<rparr>) })"

section \<open>Joining a host\<close>

definition cmd_connect :: "rfu \<Rightarrow> rfu_result" where
  "cmd_connect s =
     (if rfu_state s = RFU_STATE_HOST then Some (-1, s)
      else do {
        w \<leftarrow> arr_get (rfu_buf s) 0;
        let reqid = (ucast w :: u16);
        (case find_idx (\<lambda>p. b_valid p \<and> b_device_id p = reqid) (rfu_peer_bcst s) of
           Some i \<Rightarrow> Some (0, (rfu_net_send_cmd (of_nat i) NET_RFU_CONNECT_REQ (ucast reqid) s)
                               \<lparr>rfu_state := RFU_STATE_CONNECTING\<rparr>)
         | None \<Rightarrow> Some (0, s)) })"

definition client_word :: "rfu \<Rightarrow> u32" where
  "client_word s = ucast (c_devid (rfu_client s)) OR push_bit 16 (ucast (c_clnum (rfu_client s)))"

definition cmd_isconnected :: "rfu \<Rightarrow> rfu_result" where
  "cmd_isconnected s =
     (case rfu_state s of
        RFU_STATE_HOST \<Rightarrow> Some (-1, s)
      | RFU_STATE_CONNECTING \<Rightarrow> respond1 RFU_CONN_INPROGRESS s
      | RFU_STATE_IDLE \<Rightarrow> respond1 RFU_CONN_FAILED s
      | RFU_STATE_CLIENT \<Rightarrow> respond1 (client_word s) s)"

definition cmd_concompl :: "rfu \<Rightarrow> rfu_result" where
  "cmd_concompl s =
     (case rfu_state s of
        RFU_STATE_HOST \<Rightarrow> Some (-1, s)
      | RFU_STATE_CLIENT \<Rightarrow> respond1 (client_word s) s
      | _ \<Rightarrow> respond1 RFU_CONN_COMP_FAIL (s\<lparr>rfu_state := RFU_STATE_IDLE\<rparr>))"

section \<open>Sending\<close>

text \<open>Fills the transmit buffer; the copy length is the one the game declared.\<close>

definition load_tx :: "rfu \<Rightarrow> rfu option" where
  "load_tx s = do {
     w \<leftarrow> arr_get (rfu_buf s) 0;
     (case rfu_state s of
       RFU_STATE_HOST \<Rightarrow> do {
         ws \<leftarrow> arr_slice (rfu_buf s) 1 (unat (rfu_plen s) - 1);
         b \<leftarrow> arr_blit (tx_buf (rfu_tx_buf s)) 0 ws;
         Some (s\<lparr>rfu_tx_buf := \<lparr>tx_buf = b, tx_blen = unat (w AND 0x7F)\<rparr>\<rparr>) }
     | RFU_STATE_CLIENT \<Rightarrow> do {
         h \<leftarrow> shr32 w (8 + unat (c_clnum (rfu_client s)) * 5);
         ws \<leftarrow> arr_slice (rfu_buf s) 1 (unat (rfu_plen s) - 1);
         b \<leftarrow> arr_blit (tx_buf (rfu_tx_buf s)) 0 ws;
         Some (s\<lparr>rfu_tx_buf := \<lparr>tx_buf = b, tx_blen = unat (h AND 0x1F)\<rparr>\<rparr>) }
     | _ \<Rightarrow> Some s) }"

fun send_clients :: "rfu_host_client list \<Rightarrow> rfu \<Rightarrow> rfu option" where
  "send_clients [] s = Some s"
| "send_clients (c # cs) s =
     (if hc_devid c \<noteq> 0 then do {
        s \<leftarrow> rfu_net_send_data (hc_client_id c) NET_RFU_HOST_SEND (of_nat (tx_blen (rfu_tx_buf s)))
              (tx_buf (rfu_tx_buf s)) (tx_blen (rfu_tx_buf s)) s;
        send_clients cs s }
      else send_clients cs s)"

definition cmd_rtx :: "rfu \<Rightarrow> rfu_result" where
  "cmd_rtx s =
     (let blen = tx_blen (rfu_tx_buf s) in
      case rfu_state s of
        RFU_STATE_HOST \<Rightarrow>
          if blen \<le> 90 then do { s \<leftarrow> send_clients (h_clients (rfu_host s)) s; Some (0, s) }
          else Some (0, s)
      | RFU_STATE_CLIENT \<Rightarrow>
          if blen \<le> 16 then do {
            s \<leftarrow> rfu_net_send_data (c_host_id (rfu_client s)) NET_RFU_CLIENT_SEND
                  (push_bit 24 (of_nat blen) OR push_bit 16 (ucast (c_clnum (rfu_client s)))
                    OR ucast (c_devid (rfu_client s)))
                  (tx_buf (rfu_tx_buf s)) blen s;
            Some (0, s) }
          else Some (0, s)
      | _ \<Rightarrow> Some (-1, s))"

definition cmd_send_data :: "rfu \<Rightarrow> rfu_result" where
  "cmd_send_data s = (if rfu_plen s = 0 then Some (0, s) else do { s \<leftarrow> load_tx s; cmd_rtx s })"

section \<open>Receiving\<close>

fun copy_words :: "u8 list \<Rightarrow> nat \<Rightarrow> nat \<Rightarrow> nat \<Rightarrow> u32 list \<Rightarrow> u32 list option" where
  "copy_words src j 0 cnt b = Some b"
| "copy_words src j (Suc n) cnt b = do {
     p \<leftarrow> arr_slice src (j * 4) 4;
     b \<leftarrow> arr_set b cnt (leupack32 p);
     copy_words src (Suc j) n (Suc cnt) b }"

definition host_pkts_pop :: "rfu_host_pkt list \<Rightarrow> rfu_host_pkt list" where
  "host_pkts_pop = slots_pop (\<lambda>p. p\<lparr>datalen := 0\<rparr>)"

definition client_pkts_pop :: "rfu_client_pkt list \<Rightarrow> rfu_client_pkt list" where
  "client_pkts_pop = slots_pop (\<lambda>p. p\<lparr>hblen := 0\<rparr>)"

text \<open>
  One round of the host's loop: the front packet of client \<open>i\<close> is appended to the
  temporary buffer, its length is added to the header word, and its queue moves up.
\<close>

fun recv_loop :: "nat \<Rightarrow> rfu_host_client list \<Rightarrow> u8 list \<Rightarrow> nat \<Rightarrow> u32 list
                    \<Rightarrow> (rfu_host_client list \<times> u8 list \<times> nat \<times> u32 list) option" where
  "recv_loop i [] tmp n b = Some ([], tmp, n, b)"
| "recv_loop i (c # cs) tmp n b =
     (let dlen = min 16 (datalen (hc_pkts c ! 0)) in
      if hc_devid c \<noteq> 0 \<and> dlen \<noteq> 0 then do {
        bytes \<leftarrow> arr_slice (data (hc_pkts c ! 0)) 0 dlen;
        tmp \<leftarrow> arr_blit tmp n bytes;
        h \<leftarrow> arr_get b 0;
        l \<leftarrow> shl32 (of_nat dlen) (8 + i * 5);
        b \<leftarrow> arr_set b 0 (h OR l);
        (cs, tmp, n, b) \<leftarrow> recv_loop (Suc i) cs tmp (n + dlen) b;
        Some (c\<lparr>hc_pkts := host_pkts_pop (hc_pkts c)\<rparr> # cs, tmp, n, b) }
      else do {
        (cs, tmp, n, b) \<leftarrow> recv_loop (Suc i) cs tmp n b;
        Some (c # cs, tmp, n, b) })"

definition recv_host :: "rfu \<Rightarrow> rfu_result" where
  "recv_host s = do {
     b \<leftarrow> arr_set (rfu_buf s) 0 0;
     (cs, tmp, n, b) \<leftarrow> recv_loop 0 (h_clients (rfu_host s)) (replicate (16 * 4) 0) 0 b;
     b \<leftarrow> copy_words tmp 0 ((n + 3) div 4) 1 b;
     Some (int (1 + (n + 3) div 4), set_clients cs (s\<lparr>rfu_buf := b\<rparr>)) }"

definition recv_client :: "rfu \<Rightarrow> rfu_result" where
  "recv_client s = (let p = c_pkts (rfu_client s) ! 0; dlen = hblen p in do {
     b \<leftarrow> arr_set (rfu_buf s) 0 (of_nat dlen);
     b \<leftarrow> copy_words (hdata p) 0 ((dlen + 3) div 4) 1 b;
     Some (int (1 + (dlen + 3) div 4),
           s\<lparr>rfu_buf := b,
             rfu_client := (rfu_client s)\<lparr>c_pkts := client_pkts_pop (c_pkts (rfu_client s))\<rparr>\<rparr>) })"

definition cmd_recv_data :: "rfu \<Rightarrow> rfu_result" where
  "cmd_recv_data s =
     (case rfu_state s of
        RFU_STATE_HOST \<Rightarrow> recv_host s
      | RFU_STATE_CLIENT \<Rightarrow> recv_client s
      | _ \<Rightarrow> Some (0, s))"

section \<open>Disconnecting\<close>

fun disconnect_loop :: "nat \<Rightarrow> rfu_host_client list \<Rightarrow> u32 \<Rightarrow> rfu \<Rightarrow> rfu_host_client list \<times> rfu" where
  "disconnect_loop i [] w s = ([], s)"
| "disconnect_loop i (c # cs) w s =
     (if w AND push_bit i 1 \<noteq> 0 then
        (let s = rfu_net_send_cmd (hc_client_id c) NET_RFU_DISCONNECT (slot_word i c) s;
             (cs, s) = disconnect_loop (Suc i) cs w s
         in (zero_host_client # cs, s))
      else (let (cs, s) = disconnect_loop (Suc i) cs w s in (c # cs, s)))"

definition cmd_disconnect :: "rfu \<Rightarrow> rfu_result" where
  "cmd_disconnect s =
     (case rfu_state s of
        RFU_STATE_CLIENT \<Rightarrow>
          Some (0, (rfu_net_send_cmd (c_host_id (rfu_client s)) NET_RFU_DISCONNECT (client_word s) s)
                     \<lparr>rfu_state := RFU_STATE_IDLE\<rparr>)
      | RFU_STATE_HOST \<Rightarrow> do {
          w \<leftarrow> arr_get (rfu_buf s) 0;
          let (cs, s') = disconnect_loop 0 (h_clients (rfu_host s)) w s;
          Some (0, set_clients cs s') }
      | _ \<Rightarrow> Some (0, s))"

section \<open>The dispatcher\<close>

definition rfu_process_command :: "u32 \<Rightarrow> rfu \<Rightarrow> rfu_result" where
  "rfu_process_command ticks s =
     (let c = rfu_cmd s in
      if c = RFU_CMD_INIT1 \<or> c = RFU_CMD_INIT2 then Some (0, s)
      else if c = RFU_CMD_SYSCFG then cmd_syscfg s
      else if c = RFU_CMD_SYSVER then cmd_sysver s
      else if c = RFU_CMD_SYSSTAT then cmd_sysstat s
      else if c = RFU_CMD_SLOTSTAT then cmd_slotstat s
      else if c = RFU_CMD_LINKPWR then cmd_linkpwr s
      else if c = RFU_CMD_BCRD_START then Some (0, s)
      else if c = RFU_CMD_BCRD_STOP \<or> c = RFU_CMD_BCRD_FETCH then cmd_bcrd_fetch s
      else if c = RFU_CMD_BCST_DATA then cmd_bcst_data s
      else if c = RFU_CMD_HOST_START then cmd_host_start ticks s
      else if c = RFU_CMD_HOST_STOP then cmd_host_stop s
      else if c = RFU_CMD_HOST_ACCEPT then cmd_host_accept s
      else if c = RFU_CMD_CONNECT then cmd_connect s
      else if c = RFU_CMD_ISCONNECTED then cmd_isconnected s
      else if c = RFU_CMD_CONCOMPL then cmd_concompl s
      else if c = RFU_CMD_SEND_DATAW \<or> c = RFU_CMD_SEND_DATA then cmd_send_data s
      else if c = RFU_CMD_RTX_WAIT then cmd_rtx s
      else if c = RFU_CMD_RECV_DATA then cmd_recv_data s
      else if c = RFU_CMD_WAIT then Some (0, s)
      else if c = RFU_CMD_DISCONNECT then cmd_disconnect s
      else Some (0, s))"

end
