(* ===== verification/IoRegs.thy ===== *)
theory IoRegs
  imports GpspPrelude
begin

text \<open>
  The memory mapped I/O registers of \<^verbatim>\<open>gba_memory.h\<close>: an array of 16 bit registers the
  devices read and write by constant index, modelled as a function (every constant
  is below the array size 512). The accessor macros are those of \<^verbatim>\<open>common.h\<close>.
\<close>

type_synonym ioregs = "nat \<Rightarrow> u16"

definition read_ioreg :: "ioregs \<Rightarrow> nat \<Rightarrow> u16" where
  "read_ioreg regs r = regs r"

definition write_ioreg :: "nat \<Rightarrow> u16 \<Rightarrow> ioregs \<Rightarrow> ioregs" where
  "write_ioreg r v regs = regs(r := v)"

definition read_ioreg32 :: "ioregs \<Rightarrow> nat \<Rightarrow> u32" where
  "read_ioreg32 regs r = ucast (read_ioreg regs r) OR push_bit 16 (ucast (read_ioreg regs (r + 1)))"

lemma read_write_ioreg [simp]:
  "read_ioreg (write_ioreg r v regs) q = (if q = r then v else read_ioreg regs q)"
  by (simp add: read_ioreg_def write_ioreg_def)

abbreviation (input) REG_DISPSTAT :: nat where "REG_DISPSTAT \<equiv> 0x02"
abbreviation (input) REG_VCOUNT :: nat where "REG_VCOUNT \<equiv> 0x03"
abbreviation (input) REG_SIODATA32_L :: nat where "REG_SIODATA32_L \<equiv> 0x90"
abbreviation (input) REG_SIODATA32_H :: nat where "REG_SIODATA32_H \<equiv> 0x91"
abbreviation (input) REG_SIOMULTI0 :: nat where "REG_SIOMULTI0 \<equiv> 0x90"
abbreviation (input) REG_SIOMULTI1 :: nat where "REG_SIOMULTI1 \<equiv> 0x91"
abbreviation (input) REG_SIOMULTI2 :: nat where "REG_SIOMULTI2 \<equiv> 0x92"
abbreviation (input) REG_SIOMULTI3 :: nat where "REG_SIOMULTI3 \<equiv> 0x93"
abbreviation (input) REG_SIOCNT :: nat where "REG_SIOCNT \<equiv> 0x94"
abbreviation (input) REG_SIOMLT_SEND :: nat where "REG_SIOMLT_SEND \<equiv> 0x95"
abbreviation (input) REG_P1 :: nat where "REG_P1 \<equiv> 0x98"
abbreviation (input) REG_P1CNT :: nat where "REG_P1CNT \<equiv> 0x99"
abbreviation (input) REG_RCNT :: nat where "REG_RCNT \<equiv> 0x9A"
abbreviation (input) REG_IE :: nat where "REG_IE \<equiv> 0x100"
abbreviation (input) REG_IF :: nat where "REG_IF \<equiv> 0x101"
abbreviation (input) REG_WAITCNT :: nat where "REG_WAITCNT \<equiv> 0x102"
abbreviation (input) REG_IME :: nat where "REG_IME \<equiv> 0x104"

end
