(* ===== verification/RfuLink.thy ===== *)
theory RfuLink
  imports RfuCommand IoRegs
begin

text \<open>
  The four entry points of \<^verbatim>\<open>rfu.c\<close> the emulator calls: \<open>rfu_transfer\<close> (one 32 bit
  exchange started by the game), \<open>rfu_frame_update\<close> (once per frame),
  \<open>rfu_net_receive\<close> (a network packet) and \<open>rfu_update\<close> (elapsed cycles).
\<close>

section \<open>The word exchange\<close>

text \<open>What \<open>rfu_transfer\<close> does with the value returned by the command.\<close>

definition finish_command :: "int \<times> rfu \<Rightarrow> rfu" where
  "finish_command r = (case r of (ret, s) \<Rightarrow>
     if ret < 0 then s\<lparr>rfu_comstate := RFU_COMSTATE_RESPERR, rfu_cmd := of_int (- ret), rfu_plen := 1\<rparr>
     else s\<lparr>rfu_comstate := RFU_COMSTATE_RESPCMD, rfu_plen := of_int ret\<rparr>)"

definition waits :: "u8 \<Rightarrow> bool" where
  "waits c \<longleftrightarrow> c = RFU_CMD_WAIT \<or> c = RFU_CMD_RTX_WAIT \<or> c = RFU_CMD_SEND_DATAW"

definition xfer_waitcmd :: "u32 \<Rightarrow> u32 \<Rightarrow> rfu \<Rightarrow> rfu option" where
  "xfer_waitcmd ticks v s =
     (if drop_bit 16 v = 0x9966 then
        (let s = s\<lparr>rfu_plen := ucast (drop_bit 8 v), rfu_cmd := ucast v, rfu_cnt := 0\<rparr> in
         if rfu_plen s = 0 then map_option finish_command (rfu_process_command ticks s)
         else Some (s\<lparr>rfu_comstate := RFU_COMSTATE_WAITDAT\<rparr>))
      else Some s)"

definition xfer_waitdat :: "u32 \<Rightarrow> u32 \<Rightarrow> rfu \<Rightarrow> rfu option" where
  "xfer_waitdat ticks v s = do {
     b \<leftarrow> arr_set (rfu_buf s) (rfu_cnt s) v;
     let s' = s\<lparr>rfu_buf := b, rfu_cnt := rfu_cnt s + 1\<rparr>;
     if rfu_cnt s' = unat (rfu_plen s') then do {
       r \<leftarrow> rfu_process_command ticks s';
       Some ((finish_command r)\<lparr>rfu_cnt := 0\<rparr>) }
     else Some s' }"

definition xfer_respcmd :: "rfu \<Rightarrow> u32 \<times> rfu" where
  "xfer_respcmd s =
     (0x99660080 OR ucast (rfu_cmd s) OR push_bit 8 (ucast (rfu_plen s)),
      if waits (rfu_cmd s)
      then s\<lparr>rfu_comstate := RFU_COMSTATE_WAITEVENT,
             rfu_timeout_cycles := ucast (rfu_timeout s) * (16777216 div 60),
             rfu_resp_timeout := ucast (rfu_rtx_max s) * (16777216 div 60 div 6)\<rparr>
      else s\<lparr>rfu_comstate := (if rfu_plen s \<noteq> 0 then RFU_COMSTATE_RESPDAT else RFU_COMSTATE_WAITCMD)\<rparr>)"

definition xfer_respdat :: "rfu \<Rightarrow> (u32 \<times> rfu) option" where
  "xfer_respdat s = do {
     w \<leftarrow> arr_get (rfu_buf s) (rfu_cnt s);
     let s' = s\<lparr>rfu_cnt := rfu_cnt s + 1\<rparr>;
     Some (w, if rfu_cnt s' = unat (rfu_plen s') then s'\<lparr>rfu_comstate := RFU_COMSTATE_WAITCMD\<rparr>
              else s') }"

definition rfu_transfer_step :: "u32 \<Rightarrow> u32 \<Rightarrow> rfu \<Rightarrow> (u32 \<times> rfu) option" where
  "rfu_transfer_step ticks v s =
     (case rfu_comstate s of
        RFU_COMSTATE_RESET \<Rightarrow>
          Some (0, if v AND 0xFFFF = 0x494E then s\<lparr>rfu_comstate := RFU_COMSTATE_HANDSHAKE\<rparr> else s)
      | RFU_COMSTATE_HANDSHAKE \<Rightarrow>
          Some (push_bit 16 v OR (NOT (rfu_prev_data s) AND 0xFFFF),
                if v = 0xB0BB8001 then s\<lparr>rfu_comstate := RFU_COMSTATE_WAITCMD\<rparr> else s)
      | RFU_COMSTATE_WAITCMD \<Rightarrow> map_option (Pair 0x80000000) (xfer_waitcmd ticks v s)
      | RFU_COMSTATE_WAITDAT \<Rightarrow> map_option (Pair 0x80000000) (xfer_waitdat ticks v s)
      | RFU_COMSTATE_RESPCMD \<Rightarrow> Some (xfer_respcmd s)
      | RFU_COMSTATE_RESPDAT \<Rightarrow> xfer_respdat s
      | RFU_COMSTATE_WAITEVENT \<Rightarrow> Some (0x80000000, s)
      | RFU_COMSTATE_WAITRESP \<Rightarrow> Some (0x80000000, s)
      | RFU_COMSTATE_RESPERR \<Rightarrow> Some (0x996601ee, s\<lparr>rfu_comstate := RFU_COMSTATE_RESPERR2\<rparr>)
      | RFU_COMSTATE_RESPERR2 \<Rightarrow>
          Some (ucast (rfu_cmd s), s\<lparr>rfu_comstate := RFU_COMSTATE_WAITCMD\<rparr>))"

definition rfu_transfer :: "u32 \<Rightarrow> u32 \<Rightarrow> rfu \<Rightarrow> (u32 \<times> rfu) option" where
  "rfu_transfer ticks v s = do {
     (ret, s) \<leftarrow> rfu_transfer_step ticks v s;
     Some (ret, s\<lparr>rfu_prev_data := v\<rparr>) }"

section \<open>Once per frame\<close>

definition expire_peer :: "t_client_broadcast \<Rightarrow> t_client_broadcast" where
  "expire_peer p =
     (if b_valid p then (let p = p\<lparr>b_ttl := b_ttl p - 1\<rparr>
                         in if b_ttl p = 0 then p\<lparr>b_valid := False\<rparr> else p)
      else p)"

definition announce :: "rfu \<Rightarrow> rfu" where
  "announce s =
     (if rfu_state s = RFU_STATE_HOST then
        (let t = h_tx_ttl (rfu_host s); s = s\<lparr>rfu_host := (rfu_host s)\<lparr>h_tx_ttl := t + 1\<rparr>\<rparr> in
         if BCST_ANNOUNCE_VB \<le> t then
           rfu_net_send_bcast NET_RFU_BROADCAST (ucast (h_devid (rfu_host s))) (h_bdata (rfu_host s))
             (s\<lparr>rfu_host := (rfu_host s)\<lparr>h_tx_ttl := 0\<rparr>\<rparr>)
         else s)
      else s)"

definition age_client :: "rfu_host_client \<Rightarrow> rfu_host_client" where
  "age_client c =
     (if hc_devid c \<noteq> 0 then
        (let t = hc_clttl c + 1 in if 240 \<le> t then zero_host_client else c\<lparr>hc_clttl := t\<rparr>)
      else c)"

definition rfu_frame_update :: "rfu \<Rightarrow> rfu" where
  "rfu_frame_update s =
     (if rfu_comstate s \<noteq> RFU_COMSTATE_RESET then
        (let s = announce (s\<lparr>rfu_peer_bcst := map expire_peer (rfu_peer_bcst s)\<rparr>) in
         if rfu_state s = RFU_STATE_HOST then set_clients (map age_client (h_clients (rfu_host s))) s
         else s)
      else s)"

section \<open>Network packets\<close>

definition net_broadcast :: "u8 list \<Rightarrow> u16 \<Rightarrow> u32 \<Rightarrow> rfu \<Rightarrow> rfu option" where
  "net_broadcast buf client_id h s =
     (if unat client_id < MAX_RFU_PEERS then do {
        p \<leftarrow> arr_get (rfu_peer_bcst s) (unat client_id);
        payl \<leftarrow> arr_slice buf 12 24;
        Some (s\<lparr>rfu_peer_bcst := (rfu_peer_bcst s)[unat client_id :=
                \<lparr>b_valid = True, b_ttl = 0xff, b_device_id = ucast h,
                 b_data = map (\<lambda>j. upack32 (drop (j * 4) payl)) [0..<6]\<rparr>]\<rparr>) }
      else Some s)"

definition net_connect_req :: "u32 \<Rightarrow> u16 \<Rightarrow> rfu \<Rightarrow> rfu" where
  "net_connect_req ticks client_id s =
     (let cs = h_clients (rfu_host s) in
      if rfu_state s = RFU_STATE_HOST then
        (if list_ex (\<lambda>c. hc_devid c \<noteq> 0 \<and> hc_client_id c = client_id) cs then s
         else case find_idx (\<lambda>c. hc_devid c = 0) cs of
                Some i \<Rightarrow>
                  (let (newid, r) = new_devid ticks (random_state s) in
                   rfu_net_send_cmd client_id NET_RFU_CONNECT_ACK
                     (ucast newid OR push_bit 16 (of_nat i))
                     (set_clients (cs[i := (cs ! i)\<lparr>hc_devid := newid, hc_client_id := client_id\<rparr>])
                        (s\<lparr>random_state := r\<rparr>)))
              | None \<Rightarrow> rfu_net_send_cmd client_id NET_RFU_CONNECT_NACK 0 s)
      else rfu_net_send_cmd client_id NET_RFU_CONNECT_NACK 0 s)"

definition net_connect_ack :: "u16 \<Rightarrow> u32 \<Rightarrow> rfu \<Rightarrow> rfu" where
  "net_connect_ack client_id h s =
     (if rfu_state s = RFU_STATE_CONNECTING then
        s\<lparr>rfu_client := zero_client\<lparr>c_devid := ucast h, c_clnum := ucast (drop_bit 16 h),
                                    c_host_id := client_id\<rparr>,
          rfu_state := RFU_STATE_CLIENT\<rparr>
      else s)"

definition net_connect_nack :: "rfu \<Rightarrow> rfu" where
  "net_connect_nack s =
     (if rfu_state s = RFU_STATE_CONNECTING then s\<lparr>rfu_state := RFU_STATE_IDLE\<rparr> else s)"

definition slot_of :: "u32 \<Rightarrow> nat" where
  "slot_of h = unat (drop_bit 16 h AND 0x3)"

definition net_disconnect :: "u32 \<Rightarrow> rfu \<Rightarrow> rfu" where
  "net_disconnect h s =
     (case rfu_state s of
        RFU_STATE_HOST \<Rightarrow>
          (let cs = h_clients (rfu_host s); i = slot_of h in
           if hc_devid (cs ! i) = ucast h then set_clients (cs[i := zero_host_client]) s else s)
      | RFU_STATE_CLIENT \<Rightarrow> s\<lparr>rfu_client := zero_client, rfu_state := RFU_STATE_IDLE\<rparr>
      | _ \<Rightarrow> s)"

text \<open>Storing received bytes in a queue slot: the copy, then the length.\<close>

definition host_pkt_fill :: "u8 list \<Rightarrow> rfu_host_pkt \<Rightarrow> rfu_host_pkt option" where
  "host_pkt_fill bs p = do { d \<leftarrow> arr_blit (data p) 0 bs; Some (p\<lparr>data := d, datalen := length bs\<rparr>) }"

definition client_pkt_fill :: "u8 list \<Rightarrow> rfu_client_pkt \<Rightarrow> rfu_client_pkt option" where
  "client_pkt_fill bs p = do { d \<leftarrow> arr_blit (hdata p) 0 bs; Some (p\<lparr>hdata := d, hblen := length bs\<rparr>) }"

definition net_host_send :: "u8 list \<Rightarrow> u16 \<Rightarrow> u32 \<Rightarrow> rfu \<Rightarrow> rfu option" where
  "net_host_send buf client_id h s =
     (let blen = unat (h AND 0x7f) in
      if rfu_state s = RFU_STATE_CLIENT \<and> blen + 12 \<le> length buf then do {
        let s = rfu_net_send_cmd client_id NET_RFU_CLIENT_ACK (client_word s) s;
        ps \<leftarrow> slots_put hblen client_pkt_fill (take blen (drop 12 buf)) (c_pkts (rfu_client s));
        Some (s\<lparr>rfu_client := (rfu_client s)\<lparr>c_pkts := ps\<rparr>\<rparr>) }
      else Some s)"

definition net_client_ack :: "u32 \<Rightarrow> rfu \<Rightarrow> rfu" where
  "net_client_ack h s =
     (let cs = h_clients (rfu_host s); i = slot_of h in
      if rfu_state s = RFU_STATE_HOST \<and> hc_devid (cs ! i) = ucast h
      then set_clients (cs[i := (cs ! i)\<lparr>hc_clttl := 0\<rparr>]) s else s)"

text \<open>
  A full queue drops the packet and falls through to the acknowledgement case, as a
  packet for another device does; both write the same counter again.
\<close>

definition net_client_send :: "u8 list \<Rightarrow> u32 \<Rightarrow> rfu \<Rightarrow> rfu option" where
  "net_client_send buf h s =
     (let cs = h_clients (rfu_host s); i = slot_of h; c = (cs ! i)\<lparr>hc_clttl := 0\<rparr> in
      if rfu_state s = RFU_STATE_HOST \<and> hc_devid (cs ! i) = ucast h then
        (if find_idx (\<lambda>p. datalen p = 0) (hc_pkts c) = None
         then Some (net_client_ack h (set_clients (cs[i := c]) s))
         else do {
           bs \<leftarrow> arr_slice buf 12 (unat (drop_bit 24 h));
           ps \<leftarrow> slots_put datalen host_pkt_fill bs (hc_pkts c);
           Some (set_clients (cs[i := c\<lparr>hc_pkts := ps\<rparr>]) s) })
      else Some (net_client_ack h s))"

definition rfu_net_receive :: "u32 \<Rightarrow> u8 list \<Rightarrow> u16 \<Rightarrow> rfu \<Rightarrow> rfu option" where
  "rfu_net_receive ticks buf client_id s =
     (if 12 \<le> length buf \<and> upack32 buf = NET_RFU_HEADER then
        (let ptype = upack32 (drop 4 buf); h = upack32 (drop 8 buf) in
         if ptype = NET_RFU_BROADCAST then net_broadcast buf client_id h s
         else if ptype = NET_RFU_CONNECT_REQ then Some (net_connect_req ticks client_id s)
         else if ptype = NET_RFU_CONNECT_ACK then Some (net_connect_ack client_id h s)
         else if ptype = NET_RFU_CONNECT_NACK then Some (net_connect_nack s)
         else if ptype = NET_RFU_DISCONNECT then Some (net_disconnect h s)
         else if ptype = NET_RFU_HOST_SEND then net_host_send buf client_id h s
         else if ptype = NET_RFU_CLIENT_SEND then net_client_send buf h s
         else if ptype = NET_RFU_CLIENT_ACK then Some (net_client_ack h s)
         else Some s)
      else Some s)"

section \<open>Elapsed cycles\<close>

definition rfu_data_avail :: "rfu \<Rightarrow> bool" where
  "rfu_data_avail s =
     (case rfu_state s of
        RFU_STATE_CLIENT \<Rightarrow> hblen (c_pkts (rfu_client s) ! 0) \<noteq> 0
      | RFU_STATE_HOST \<Rightarrow>
          list_ex (\<lambda>c. hc_devid c \<noteq> 0 \<and> datalen (hc_pkts c ! 0) \<noteq> 0) (h_clients (rfu_host s))
      | _ \<Rightarrow> False)"

fun poll_receive :: "u32 \<Rightarrow> (u16 \<times> u8 list) list \<Rightarrow> rfu \<Rightarrow> rfu option" where
  "poll_receive ticks [] s = Some s"
| "poll_receive ticks ((cid, buf) # ps) s = do {
     s \<leftarrow> rfu_net_receive ticks buf cid s;
     poll_receive ticks ps s }"

definition event_resp :: "u32 list \<Rightarrow> rfu \<Rightarrow> rfu option" where
  "event_resp ws s = do {
     b \<leftarrow> arr_blit (rfu_buf s) 0 ws;
     Some (s\<lparr>rfu_buf := b, rfu_cnt := 0, rfu_plen := of_nat (length ws),
             rfu_comstate := RFU_COMSTATE_WAITRESP\<rparr>) }"

definition wait_event :: "u32 \<Rightarrow> ioregs \<Rightarrow> rfu \<Rightarrow> rfu option" where
  "wait_event cycles regs s0 =
     (let s = s0\<lparr>rfu_timeout_cycles := rfu_timeout_cycles s0 - min cycles (rfu_timeout_cycles s0),
                 rfu_resp_timeout := rfu_resp_timeout s0 - min cycles (rfu_resp_timeout s0)\<rparr> in
      if read_ioreg regs REG_SIOCNT AND 0x1 = 0 then
        (if rfu_state s = RFU_STATE_IDLE then
           event_resp [0x99660000 OR push_bit 8 1 OR RFU_CMD_RESP_DISC, 0xF, 0x80000000] s
         else if rfu_data_avail s then
           event_resp [0x99660000 OR RFU_CMD_RESP_DATA, 0x80000000] s
         else if rfu_state s = RFU_STATE_HOST \<and> rfu_resp_timeout s = 0 then
           event_resp [0x99660000 OR RFU_CMD_RESP_DATA OR push_bit 8 1, 0x00000F0F, 0x80000000] s
         else if rfu_timeout_cycles s = 0 then
           event_resp [0x99660000 OR RFU_CMD_RESP_TIMEO, 0x80000000] s
         else Some s)
      else Some s)"

definition push_event :: "ioregs \<Rightarrow> rfu \<Rightarrow> (bool \<times> ioregs \<times> rfu) option" where
  "push_event regs s =
     (if read_ioreg regs REG_SIOCNT AND 0xC = 0 \<and> read_ioreg regs REG_SIOCNT AND 0x80 \<noteq> 0 then do {
        w \<leftarrow> arr_get (rfu_buf s) (rfu_cnt s);
        let regs' = write_ioreg REG_SIOCNT (read_ioreg regs REG_SIOCNT AND NOT 0x80)
                      (write_ioreg REG_SIODATA32_L (ucast w)
                        (write_ioreg REG_SIODATA32_H (ucast (drop_bit 16 w)) regs));
        let s' = s\<lparr>rfu_cnt := rfu_cnt s + 1\<rparr>;
        Some (read_ioreg regs' REG_SIOCNT AND 0x4000 \<noteq> 0, regs',
              if rfu_cnt s' = unat (rfu_plen s') then s'\<lparr>rfu_comstate := RFU_COMSTATE_WAITCMD\<rparr>
              else s') }
      else Some (False, regs, s))"

definition rfu_update :: "u32 \<Rightarrow> (u16 \<times> u8 list) list \<Rightarrow> u32 \<Rightarrow> ioregs \<Rightarrow> rfu
                            \<Rightarrow> (bool \<times> ioregs \<times> rfu) option" where
  "rfu_update ticks polled cycles regs s = do {
     s \<leftarrow> (if rfu_comstate s = RFU_COMSTATE_WAITEVENT
          then do { s \<leftarrow> poll_receive ticks polled s; wait_event cycles regs s }
          else Some s);
     if rfu_comstate s = RFU_COMSTATE_WAITRESP then push_event regs s
     else Some (False, regs, s) }"

end
