(* ===== verification/RfuInv.thy ===== *)
theory RfuInv
  imports RfuLink
begin

text \<open>
  The invariant of the wireless adapter. \<open>rfu_shape\<close> fixes the size of every array,
  bounds every stored length and keeps the packet queues without gaps; \<open>rfu_fsm\<close> ties
  the transfer state to the buffer index. Every command keeps the shape and answers
  with at most 33 words; \<open>game_word_ok\<close> and \<open>net_ok\<close> say which words and packets the
  code relies on.
\<close>

section \<open>Definitions\<close>

definition host_pkt_ok :: "rfu_host_pkt \<Rightarrow> bool" where
  "host_pkt_ok p \<longleftrightarrow> length (data p) = 16 \<and> datalen p \<le> 16"

definition client_pkt_ok :: "rfu_client_pkt \<Rightarrow> bool" where
  "client_pkt_ok p \<longleftrightarrow> length (hdata p) = 128 \<and> hblen p \<le> 127"

definition host_client_ok :: "rfu_host_client \<Rightarrow> bool" where
  "host_client_ok c \<longleftrightarrow> slots_inv host_pkt_ok datalen 4 (hc_pkts c)"

definition rfu_shape :: "rfu \<Rightarrow> bool" where
  "rfu_shape s \<longleftrightarrow>
     length (rfu_buf s) = 255 \<and> length (tx_buf (rfu_tx_buf s)) = 23 \<and>
     tx_blen (rfu_tx_buf s) \<le> 127 \<and> length (h_bdata (rfu_host s)) = 6 \<and>
     length (h_clients (rfu_host s)) = 4 \<and> list_all host_client_ok (h_clients (rfu_host s)) \<and>
     slots_inv client_pkt_ok hblen 4 (c_pkts (rfu_client s)) \<and> c_clnum (rfu_client s) < 4 \<and>
     length (rfu_peer_bcst s) = MAX_RFU_PEERS \<and>
     list_all (\<lambda>p. length (b_data p) = 6) (rfu_peer_bcst s)"

definition is_send :: "u8 \<Rightarrow> bool" where
  "is_send c \<longleftrightarrow> c = RFU_CMD_SEND_DATA \<or> c = RFU_CMD_SEND_DATAW"

definition rfu_fsm :: "rfu \<Rightarrow> bool" where
  "rfu_fsm s =
     (case rfu_comstate s of
        RFU_COMSTATE_WAITDAT \<Rightarrow> rfu_cnt s < unat (rfu_plen s) \<and> (is_send (rfu_cmd s) \<longrightarrow> rfu_plen s \<le> 24)
      | RFU_COMSTATE_RESPCMD \<Rightarrow> rfu_cnt s = 0
      | RFU_COMSTATE_RESPDAT \<Rightarrow> rfu_cnt s < unat (rfu_plen s)
      | RFU_COMSTATE_WAITRESP \<Rightarrow> rfu_cnt s < unat (rfu_plen s)
      | _ \<Rightarrow> True)"

definition rfu_wf :: "rfu \<Rightarrow> bool" where
  "rfu_wf s \<longleftrightarrow> rfu_shape s \<and> rfu_fsm s"

text \<open>
  The transmit buffer holds 23 words: a game must not declare more than 24 words
  (header and data) for a send command.
\<close>

definition game_word_ok :: "u32 \<Rightarrow> rfu \<Rightarrow> bool" where
  "game_word_ok v s \<longleftrightarrow>
     (rfu_comstate s = RFU_COMSTATE_WAITCMD \<and> drop_bit 16 v = 0x9966 \<and> is_send (ucast v)
      \<longrightarrow> (ucast (drop_bit 8 v) :: u8) \<le> 24)"

text \<open>The packets the adapter's own senders build (and which the receiver does not check).\<close>

definition net_ok :: "u8 list \<Rightarrow> bool" where
  "net_ok buf \<longleftrightarrow>
     (let ptype = upack32 (drop 4 buf); h = upack32 (drop 8 buf) in
      (ptype = NET_RFU_BROADCAST \<longrightarrow> 36 \<le> length buf) \<and>
      (ptype = NET_RFU_CONNECT_ACK \<longrightarrow> drop_bit 16 h < 4) \<and>
      (ptype = NET_RFU_CLIENT_SEND \<longrightarrow>
         unat (drop_bit 24 h) \<le> 16 \<and> 12 + unat (drop_bit 24 h) \<le> length buf))"

section \<open>The packet queues\<close>

lemma host_fill_ok:
  assumes "host_pkt_ok p" "length bs \<le> 16"
  shows "\<exists>p'. host_pkt_fill bs p = Some p' \<and> host_pkt_ok p' \<and> datalen p' = length bs \<and>
              take (datalen p') (data p') = bs"
  using assms by (auto simp: host_pkt_fill_def host_pkt_ok_def arr_blit_def)

lemma client_fill_ok:
  assumes "client_pkt_ok p" "length bs \<le> 127"
  shows "\<exists>p'. client_pkt_fill bs p = Some p' \<and> client_pkt_ok p' \<and> hblen p' = length bs \<and>
              take (hblen p') (hdata p') = bs"
  using assms by (auto simp: client_pkt_fill_def client_pkt_ok_def arr_blit_def)

definition host_msg_ok :: "u8 list \<Rightarrow> bool" where
  "host_msg_ok bs \<longleftrightarrow> bs \<noteq> [] \<and> length bs \<le> 16"

definition client_msg_ok :: "u8 list \<Rightarrow> bool" where
  "client_msg_ok bs \<longleftrightarrow> bs \<noteq> [] \<and> length bs \<le> 127"

interpretation hq: slot_queue host_pkt_ok datalen "\<lambda>p. take (datalen p) (data p)" host_pkt_fill
    "\<lambda>p. p\<lparr>datalen := 0\<rparr>" host_msg_ok 4
proof (unfold_locales, goal_cases)
  case (1 s x)
  then show ?case using host_fill_ok [of s x] by (auto simp: host_msg_ok_def)
qed (auto simp: host_pkt_ok_def)

interpretation cq: slot_queue client_pkt_ok hblen "\<lambda>p. take (hblen p) (hdata p)" client_pkt_fill
    "\<lambda>p. p\<lparr>hblen := 0\<rparr>" client_msg_ok 4
proof (unfold_locales, goal_cases)
  case (1 s x)
  then show ?case using client_fill_ok [of s x] by (auto simp: client_msg_ok_def)
qed (auto simp: client_pkt_ok_def)

lemma host_put_keeps:
  assumes "slots_inv host_pkt_ok datalen 4 ps" "length bs \<le> 16"
  shows "\<exists>ps'. slots_put datalen host_pkt_fill bs ps = Some ps' \<and> slots_inv host_pkt_ok datalen 4 ps'"
proof (cases "bs = []")
  case True
  have "host_pkt_fill [] p = Some p" if "datalen p = 0" for p
    using that by (simp add: host_pkt_fill_def)
  with True assms show ?thesis
    by (auto simp: slots_put_def split: option.splits dest!: find_idx_SomeD)
next
  case False
  with assms show ?thesis using hq.slots_put_refines [of ps bs] by (auto simp: host_msg_ok_def)
qed

lemma client_put_keeps:
  assumes "slots_inv client_pkt_ok hblen 4 ps" "length bs \<le> 127"
  shows "\<exists>ps'. slots_put hblen client_pkt_fill bs ps = Some ps' \<and> slots_inv client_pkt_ok hblen 4 ps'"
proof (cases "bs = []")
  case True
  have "client_pkt_fill [] p = Some p" if "hblen p = 0" for p
    using that by (simp add: client_pkt_fill_def)
  with True assms show ?thesis
    by (auto simp: slots_put_def split: option.splits dest!: find_idx_SomeD)
next
  case False
  with assms show ?thesis using cq.slots_put_refines [of ps bs] by (auto simp: client_msg_ok_def)
qed

lemma host_pop_keeps:
  "slots_inv host_pkt_ok datalen 4 ps \<Longrightarrow> slots_inv host_pkt_ok datalen 4 (host_pkts_pop ps)"
  using hq.slots_pop_refines by (simp add: host_pkts_pop_def)

lemma client_pop_keeps:
  "slots_inv client_pkt_ok hblen 4 ps \<Longrightarrow> slots_inv client_pkt_ok hblen 4 (client_pkts_pop ps)"
  using cq.slots_pop_refines by (simp add: client_pkts_pop_def)

lemma slots_inv_front: "slots_inv ok len 4 ps \<Longrightarrow> ok (ps ! 0)"
  by (auto simp: slots_inv_def list_all_length)

lemma zero_host_client_ok [simp]: "host_client_ok zero_host_client"
  by (simp add: host_client_ok_def zero_host_client_def slots_inv_def numeral_eq_Suc
      zero_host_pkt_def host_pkt_ok_def)

lemma zero_client_pkts_ok [simp]: "slots_inv client_pkt_ok hblen 4 (c_pkts zero_client)"
  by (simp add: zero_client_def slots_inv_def numeral_eq_Suc zero_client_pkt_def client_pkt_ok_def)

lemma rfu_boot_wf: "rfu_wf rfu_boot"
  by (simp add: rfu_wf_def rfu_shape_def rfu_fsm_def rfu_boot_def zero_host_def zero_broadcast_def
      list_all_length) (simp add: zero_client_def)

lemma rfu_reset_wf: "rfu_shape s \<Longrightarrow> rfu_wf (rfu_reset ticks s)"
  by (auto simp: rfu_wf_def rfu_shape_def rfu_fsm_def rfu_reset_def zero_host_def zero_broadcast_def
      list_all_length)

section \<open>Every command keeps the shape\<close>

text \<open>The transfer state a command must leave alone.\<close>

definition same_link :: "rfu \<Rightarrow> rfu \<Rightarrow> bool" where
  "same_link s t \<longleftrightarrow> rfu_comstate t = rfu_comstate s \<and> rfu_cnt t = rfu_cnt s \<and>
     rfu_cmd t = rfu_cmd s \<and> rfu_plen t = rfu_plen s"

definition cmd_post :: "rfu \<Rightarrow> rfu_result \<Rightarrow> bool" where
  "cmd_post s r \<longleftrightarrow> (\<exists>n t. r = Some (n, t) \<and> -1 \<le> n \<and> n \<le> 33 \<and> rfu_shape t \<and> same_link s t)"

named_theorems cmd_safe "each command of the adapter answers and keeps the shape"

lemma same_link_refl [simp]: "same_link s s" by (simp add: same_link_def)

lemma shapeD:
  assumes "rfu_shape s"
  shows "length (rfu_buf s) = 255" "length (tx_buf (rfu_tx_buf s)) = 23"
    "tx_blen (rfu_tx_buf s) \<le> 127" "length (h_clients (rfu_host s)) = 4"
    "list_all host_client_ok (h_clients (rfu_host s))" "c_clnum (rfu_client s) < 4"
    "slots_inv client_pkt_ok hblen 4 (c_pkts (rfu_client s))"
    "length (rfu_peer_bcst s) = 32" "list_all (\<lambda>p. length (b_data p) = 6) (rfu_peer_bcst s)"
    "length (h_bdata (rfu_host s)) = 6"
  using assms by (auto simp: rfu_shape_def)

lemma unat_clnum: "rfu_shape s \<Longrightarrow> unat (c_clnum (rfu_client s)) < 4"
  using unat_mono [of "c_clnum (rfu_client s)" 4] by (simp add: shapeD)

lemma shape_send [simp]: "rfu_shape (rfu_net_send d p s) = rfu_shape s"
  by (simp add: rfu_shape_def rfu_net_send_def)

lemma shape_send_cmd [simp]: "rfu_shape (rfu_net_send_cmd d a b s) = rfu_shape s"
  by (simp add: rfu_net_send_cmd_def)

lemma same_link_send [simp]: "same_link s (rfu_net_send d p t) = same_link s t"
  by (simp add: same_link_def rfu_net_send_def)

lemma same_link_send_cmd [simp]: "same_link s (rfu_net_send_cmd d a b t) = same_link s t"
  by (simp add: rfu_net_send_cmd_def)

lemma shape_buf [intro]: "rfu_shape s \<Longrightarrow> length b = 255 \<Longrightarrow> rfu_shape (s\<lparr>rfu_buf := b\<rparr>)"
  by (simp add: rfu_shape_def)

lemma shape_set_clients [intro]:
  "rfu_shape s \<Longrightarrow> length cs = 4 \<Longrightarrow> list_all host_client_ok cs \<Longrightarrow> rfu_shape (set_clients cs s)"
  by (simp add: rfu_shape_def set_clients_def)

lemma same_link_set_clients [simp]: "same_link s (set_clients cs t) = same_link s t"
  by (simp add: same_link_def set_clients_def)

lemma cmd_post_same: "rfu_shape s \<Longrightarrow> -1 \<le> n \<Longrightarrow> n \<le> 33 \<Longrightarrow> cmd_post s (Some (n, s))"
  by (simp add: cmd_post_def)

lemma respond1_safe: "rfu_shape s \<Longrightarrow> cmd_post s (respond1 w s)"
  by (auto simp: respond1_def cmd_post_def shapeD same_link_def)

lemma cmd_syscfg_safe [cmd_safe]: "rfu_shape s \<Longrightarrow> cmd_post s (cmd_syscfg s)"
  by (auto simp: cmd_syscfg_def cmd_post_def shapeD same_link_def) (simp add: rfu_shape_def)

lemma cmd_sysver_safe [cmd_safe]: "rfu_shape s \<Longrightarrow> cmd_post s (cmd_sysver s)"
  by (simp add: cmd_sysver_def respond1_safe)

lemma cmd_sysstat_safe [cmd_safe]: "rfu_shape s \<Longrightarrow> cmd_post s (cmd_sysstat s)"
  using unat_clnum [of s]
  by (auto simp: cmd_sysstat_def respond1_safe shl32_def split: rfu_state_t.splits)

lemma slotstat_loop_safe:
  "cnt + length cs \<le> length b \<Longrightarrow> 0 < length b \<Longrightarrow>
     \<exists>n b'. slotstat_loop i cs cnt b = Some (n, b') \<and> length b' = length b \<and> n \<le> cnt + length cs"
  by (induction i cs cnt b rule: slotstat_loop.induct) fastforce+

lemma cmd_slotstat_safe [cmd_safe]:
  assumes "rfu_shape s" shows "cmd_post s (cmd_slotstat s)"
  using slotstat_loop_safe [of 1 "h_clients (rfu_host s)" "(rfu_buf s)[0 := 0]" 0] assms
  by (auto simp: cmd_slotstat_def shapeD cmd_post_def same_link_def)

lemma cmd_linkpwr_safe [cmd_safe]: "rfu_shape s \<Longrightarrow> cmd_post s (cmd_linkpwr s)"
  by (auto simp: cmd_linkpwr_def Let_def respond1_safe split: rfu_state_t.splits)

lemma bcrd_loop_safe:
  assumes "length peers = 32" "list_all (\<lambda>p. length (b_data p) = 6) peers" "length b = 255"
    "cnt \<le> 28" "7 dvd cnt"
  shows "\<exists>m b'. bcrd_loop peers i n j cnt b = Some (m, b') \<and> length b' = 255 \<and> m \<le> 28"
  using assms
proof (induction n arbitrary: j cnt b)
  case (Suc n)
  let ?p = "peers ! ((i + j) mod 32)"
  have i: "(i + j) mod 32 < 32" by simp
  show ?case
  proof (cases "cnt < 28 \<and> b_valid ?p")
    case True
    have c: "cnt + 7 \<le> 28" using conjunct1 [OF True] Suc.prems(5) by presburger
    have l: "length (b_data ?p) = 6" using Suc.prems(1,2) i by (simp add: list_all_length)
    define b1 where "b1 = b[cnt := ucast (b_device_id ?p)]"
    from arr_blit_total [of "Suc cnt" "b_data ?p" b1] obtain b2 where
      b2: "arr_blit b1 (Suc cnt) (b_data ?p) = Some b2"
      using l c Suc.prems(3) by (auto simp: b1_def)
    then have "length b2 = 255" using arr_blit_length Suc.prems(3) by (fastforce simp: b1_def)
    from Suc.IH [OF Suc.prems(1,2) this, of "cnt + 7" "Suc j"] c Suc.prems(5)
    show ?thesis using True b2 Suc.prems i by (simp add: b1_def add.commute)
  next
    case False
    then show ?thesis using Suc.IH [OF Suc.prems(1,2,3,4,5)] Suc.prems i by auto
  qed
qed simp

lemma cmd_bcrd_fetch_safe [cmd_safe]:
  assumes "rfu_shape s" shows "cmd_post s (cmd_bcrd_fetch s)"
proof -
  obtain g r where g: "rand_gen (random_state s) = (g, r)" by fastforce
  from bcrd_loop_safe [of "rfu_peer_bcst s" "rfu_buf s" 0 "unat g mod 32" 32 0] assms
  obtain m b where "bcrd_loop (rfu_peer_bcst s) (unat g mod 32) 32 0 0 (rfu_buf s) = Some (m, b)"
      "length b = 255" "m \<le> 28"
    by (auto simp: shapeD)
  with g assms show ?thesis
    by (simp add: cmd_bcrd_fetch_def cmd_post_def same_link_def rfu_shape_def)
qed

lemma cmd_bcst_data_safe [cmd_safe]: "rfu_shape s \<Longrightarrow> cmd_post s (cmd_bcst_data s)"
  by (auto simp: cmd_bcst_data_def cmd_post_def same_link_def rfu_shape_def)

lemma cmd_host_start_safe [cmd_safe]: "rfu_shape s \<Longrightarrow> cmd_post s (cmd_host_start ticks s)"
  by (auto simp: cmd_host_start_def cmd_post_def same_link_def rfu_shape_def Let_def
      list_all_length split: prod.splits)

lemma cmd_host_stop_safe [cmd_safe]: "rfu_shape s \<Longrightarrow> cmd_post s (cmd_host_stop s)"
  by (auto simp: cmd_host_stop_def cmd_post_def same_link_def rfu_shape_def)

lemma accept_loop_safe:
  "cnt + length cs \<le> length b \<Longrightarrow>
     \<exists>n b'. accept_loop i cs cnt b = Some (n, b') \<and> length b' = length b \<and> n \<le> cnt + length cs"
  by (induction i cs cnt b rule: accept_loop.induct) fastforce+

lemma cmd_host_accept_safe [cmd_safe]:
  assumes "rfu_shape s" shows "cmd_post s (cmd_host_accept s)"
  using accept_loop_safe [of 0 "h_clients (rfu_host s)" "rfu_buf s" 0] assms
  by (auto simp: cmd_host_accept_def shapeD cmd_post_def same_link_def)

lemma shape_state [simp]: "rfu_shape (s\<lparr>rfu_state := x\<rparr>) = rfu_shape s"
  by (simp add: rfu_shape_def)

lemma same_link_state [simp]: "same_link s (t\<lparr>rfu_state := x\<rparr>) = same_link s t"
  by (simp add: same_link_def)

lemma cmd_connect_safe [cmd_safe]: "rfu_shape s \<Longrightarrow> cmd_post s (cmd_connect s)"
  by (auto simp: cmd_connect_def cmd_post_def shapeD Let_def split: option.splits)

lemma cmd_isconnected_safe [cmd_safe]: "rfu_shape s \<Longrightarrow> cmd_post s (cmd_isconnected s)"
  by (auto simp: cmd_isconnected_def cmd_post_same respond1_safe split: rfu_state_t.splits)

lemma same_link_trans: "same_link s t \<Longrightarrow> same_link t u \<Longrightarrow> same_link s u"
  by (simp add: same_link_def)

lemma cmd_post_link: "cmd_post t r \<Longrightarrow> same_link s t \<Longrightarrow> cmd_post s r"
  by (auto simp: cmd_post_def same_link_def)

lemma cmd_concompl_safe [cmd_safe]:
  assumes "rfu_shape s" shows "cmd_post s (cmd_concompl s)"
proof -
  have "cmd_post s (respond1 RFU_CONN_COMP_FAIL (s\<lparr>rfu_state := RFU_STATE_IDLE\<rparr>))"
    by (rule cmd_post_link [OF respond1_safe]) (simp_all add: assms)
  with assms show ?thesis
    by (auto simp: cmd_concompl_def cmd_post_same respond1_safe split: rfu_state_t.splits)
qed

lemma load_tx_safe:
  assumes s: "rfu_shape s" and p: "rfu_plen s \<noteq> 0" "rfu_plen s \<le> 24"
  shows "\<exists>t. load_tx s = Some t \<and> rfu_shape t \<and> same_link s t"
proof -
  have p24: "unat (rfu_plen s) \<le> 24" using p(2) by (simp add: word_le_nat_alt)
  then have sl: "arr_slice (rfu_buf s) 1 (unat (rfu_plen s) - 1)
      = Some (take (unat (rfu_plen s) - 1) (drop 1 (rfu_buf s)))" (is "_ = Some ?ws")
    using s by (simp add: shapeD)
  have "length ?ws \<le> 23" using p24 by simp
  with shapeD(2) [OF s] have "0 + length ?ws \<le> length (tx_buf (rfu_tx_buf s))" by linarith
  then obtain b where b: "arr_blit (tx_buf (rfu_tx_buf s)) 0 ?ws = Some b"
    using arr_blit_total by blast
  then have lb: "length b = 23" using arr_blit_length s by (fastforce simp: shapeD)
  have m: "unat (w AND 0x7F) \<le> 127" "unat (w AND 0x1F) \<le> 127" for w :: u32
    using word_and_le1 [of w "0x7F"] word_and_le1 [of w "0x1F"] by (auto simp: word_le_nat_alt)
  have shp: "rfu_shape (s\<lparr>rfu_tx_buf := \<lparr>tx_buf = b, tx_blen = n\<rparr>\<rparr>)" if "n \<le> 127" for n
    using s lb that by (simp add: rfu_shape_def)
  have g: "arr_get (rfu_buf s) 0 = Some (rfu_buf s ! 0)" using s by (simp add: shapeD)
  have sh: "shr32 w (8 + unat (c_clnum (rfu_client s)) * 5)
      = Some (drop_bit (8 + unat (c_clnum (rfu_client s)) * 5) w)" for w
    using unat_clnum [OF s] by (simp add: shr32_def)
  show ?thesis
    unfolding load_tx_def g sl sh bind.bind_lunit b
    using s shp m by (cases "rfu_state s") (simp_all add: same_link_def)
qed

lemma send_data_ok: "rfu_shape s \<Longrightarrow> n \<le> 92 \<Longrightarrow>
    rfu_net_send_data d a b (tx_buf (rfu_tx_buf s)) n t = Some (rfu_net_send d (data_pkt a b (tx_buf (rfu_tx_buf s)) n) t)"
  by (simp add: rfu_net_send_data_def shapeD)

lemma rfu_tx_buf_send [simp]: "rfu_tx_buf (rfu_net_send d p s) = rfu_tx_buf s"
  by (simp add: rfu_net_send_def)

lemma send_clients_safe:
  "rfu_shape s \<Longrightarrow> tx_blen (rfu_tx_buf s) \<le> 90 \<Longrightarrow>
     \<exists>t. send_clients cs s = Some t \<and> rfu_shape t \<and> same_link s t"
proof (induction cs arbitrary: s)
  case (Cons c cs)
  show ?case
  proof (cases "hc_devid c = 0")
    case False
    define u where "u = rfu_net_send (hc_client_id c) (data_pkt NET_RFU_HOST_SEND
      (of_nat (tx_blen (rfu_tx_buf s))) (tx_buf (rfu_tx_buf s)) (tx_blen (rfu_tx_buf s))) s"
    have u: "rfu_shape u" "tx_blen (rfu_tx_buf u) \<le> 90" "same_link s u"
      using Cons.prems by (simp_all add: u_def)
    from Cons.IH [OF u(1,2)] u(3) False Cons.prems show ?thesis
      by (auto simp: send_data_ok u_def [symmetric] same_link_def)
  qed (use Cons in auto)
qed simp

lemma cmd_rtx_safe [cmd_safe]:
  assumes "rfu_shape s" shows "cmd_post s (cmd_rtx s)"
proof -
  have "cmd_post s (do { t \<leftarrow> send_clients (h_clients (rfu_host s)) s; Some (0, t) })"
    if "tx_blen (rfu_tx_buf s) \<le> 90"
    using send_clients_safe [OF assms that, of "h_clients (rfu_host s)"] by (auto simp: cmd_post_def)
  then show ?thesis using assms
    by (auto simp: cmd_rtx_def Let_def cmd_post_same send_data_ok split: rfu_state_t.splits)
      (auto simp: cmd_post_def)
qed

lemma cmd_send_data_safe:
  assumes "rfu_shape s" "rfu_plen s \<le> 24" shows "cmd_post s (cmd_send_data s)"
proof (cases "rfu_plen s = 0")
  case False
  with load_tx_safe [OF assms(1)] assms obtain t where
    t: "load_tx s = Some t" "rfu_shape t" "same_link s t" by auto
  with cmd_rtx_safe [of t] show ?thesis
    using False by (auto simp: cmd_send_data_def cmd_post_def same_link_def)
qed (use assms in \<open>simp add: cmd_send_data_def cmd_post_same\<close>)

lemma copy_words_safe:
  "(j + n) * 4 \<le> length src \<Longrightarrow> cnt + n \<le> length b \<Longrightarrow>
     \<exists>b'. copy_words src j n cnt b = Some b' \<and> length b' = length b"
  by (induction src j n cnt b rule: copy_words.induct) fastforce+

lemma recv_loop_safe:
  assumes "list_all host_client_ok cs" "i + length cs = 4" "n \<le> 16 * i" "length tmp = 64" "length b = 255"
  shows "\<exists>cs' tmp' n' b'. recv_loop i cs tmp n b = Some (cs', tmp', n', b') \<and> n' \<le> 64 \<and>
     length tmp' = 64 \<and> length b' = 255 \<and> length cs' = length cs \<and> list_all host_client_ok cs'"
  using assms
proof (induction i cs tmp n b rule: recv_loop.induct)
  case (2 i c cs tmp n b)
  let ?p = "hc_pkts c ! 0" and ?d = "min 16 (datalen (hc_pkts c ! 0))"
  have p: "host_pkt_ok ?p" using 2(3) by (auto simp: host_client_ok_def dest: slots_inv_front)
  show ?case
  proof (cases "hc_devid c \<noteq> 0 \<and> ?d \<noteq> 0")
    case True
    have "length (take ?d (data ?p)) \<le> 16" by simp
    with 2(4-6) have "n + length (take ?d (data ?p)) \<le> length tmp" by simp
    then obtain t1 where t1: "arr_blit tmp n (take ?d (data ?p)) = Some t1"
      using arr_blit_total by blast
    then have lt: "length t1 = 64" using arr_blit_length 2 by fastforce
    define b1 where "b1 = b[0 := b ! 0 OR push_bit (8 + i * 5) (of_nat ?d)]"
    have sl: "arr_slice (data ?p) 0 ?d = Some (take ?d (data ?p))"
      using p by (simp add: host_pkt_ok_def)
    have sh: "shl32 (of_nat ?d) (8 + i * 5) = Some (push_bit (8 + i * 5) (of_nat ?d))"
      using 2(4) by (simp add: shl32_def)
    have lb: "length b1 = 255" using 2 by (simp add: b1_def)
    have ok: "host_client_ok (c\<lparr>hc_pkts := host_pkts_pop (hc_pkts c)\<rparr>)"
      using 2(3) by (simp add: host_client_ok_def host_pop_keeps)
    from 2(1) [OF refl True sl t1, of "b ! 0" _ b1] 2(3-7) lt lb sh
    obtain cs' tmp' n' b' where "recv_loop (Suc i) cs t1 (n + ?d) b1 = Some (cs', tmp', n', b')"
      "n' \<le> 64" "length tmp' = 64" "length b' = 255" "length cs' = length cs" "list_all host_client_ok cs'"
      by (fastforce simp: b1_def)
    then show ?thesis using True t1 sl sh ok 2(7) by (simp add: Let_def b1_def)
  next
    case False
    from 2(2) [OF refl False] 2(3-7) False show ?thesis by (auto simp: Let_def)
  qed
qed auto

lemma recv_host_safe:
  assumes "rfu_shape s" shows "cmd_post s (recv_host s)"
proof -
  from recv_loop_safe [of "h_clients (rfu_host s)" 0 0 "replicate 64 0" "(rfu_buf s)[0 := 0]"] assms
  obtain cs tmp n b where r: "recv_loop 0 (h_clients (rfu_host s)) (replicate 64 0) 0 ((rfu_buf s)[0 := 0])
      = Some (cs, tmp, n, b)" "n \<le> 64" "length tmp = 64" "length b = 255" "length cs = 4"
      "list_all host_client_ok cs"
    by (auto simp: shapeD)
  moreover have n4: "(n + 3) div 4 \<le> 16" using r(2) by linarith
  moreover from copy_words_safe [of 0 "(n + 3) div 4" tmp 1 b] r n4 obtain b' where
    "copy_words tmp 0 ((n + 3) div 4) 1 b = Some b'" "length b' = 255" by auto
  ultimately show ?thesis using assms
    by (auto simp: recv_host_def shapeD cmd_post_def same_link_def)
      (auto simp: rfu_shape_def set_clients_def)
qed

lemma recv_client_safe:
  assumes "rfu_shape s" shows "cmd_post s (recv_client s)"
proof -
  let ?p = "c_pkts (rfu_client s) ! 0"
  have p: "client_pkt_ok ?p" using assms shapeD(7) slots_inv_front by blast
  then have n4: "(hblen ?p + 3) div 4 \<le> 32" unfolding client_pkt_ok_def by linarith
  with p copy_words_safe [of 0 "(hblen ?p + 3) div 4" "hdata ?p" 1 "(rfu_buf s)[0 := of_nat (hblen ?p)]"] assms
  obtain b where "copy_words (hdata ?p) 0 ((hblen ?p + 3) div 4) 1 ((rfu_buf s)[0 := of_nat (hblen ?p)])
      = Some b" "length b = 255" by (auto simp: shapeD client_pkt_ok_def)
  then show ?thesis using assms p
    by (auto simp: recv_client_def shapeD Let_def cmd_post_def same_link_def client_pkt_ok_def)
      (auto simp: rfu_shape_def client_pop_keeps)
qed

lemma cmd_recv_data_safe [cmd_safe]: "rfu_shape s \<Longrightarrow> cmd_post s (cmd_recv_data s)"
  by (auto simp: cmd_recv_data_def recv_host_safe recv_client_safe cmd_post_same
      split: rfu_state_t.splits)

lemma disconnect_loop_snd:
  "rfu_shape s \<Longrightarrow> rfu_shape (snd (disconnect_loop i cs w s)) \<and> same_link s (snd (disconnect_loop i cs w s))"
proof (induction cs arbitrary: i s)
  case (Cons c cs)
  from Cons.IH [of s "Suc i"] Cons.prems
    Cons.IH [of "rfu_net_send_cmd (hc_client_id c) NET_RFU_DISCONNECT (slot_word i c) s" "Suc i"]
    same_link_trans [of s "rfu_net_send_cmd (hc_client_id c) NET_RFU_DISCONNECT (slot_word i c) s"]
  show ?case by (auto simp: Let_def case_prod_beta)
qed simp

lemma disconnect_loop_fst:
  "list_all host_client_ok cs \<Longrightarrow> length (fst (disconnect_loop i cs w s)) = length cs \<and>
     list_all host_client_ok (fst (disconnect_loop i cs w s))"
  by (induction cs arbitrary: i s) (auto simp: Let_def case_prod_beta)

lemma disconnect_loop_safe:
  "rfu_shape s \<Longrightarrow> list_all host_client_ok cs \<Longrightarrow> disconnect_loop i cs w s = (cs', t) \<Longrightarrow>
     rfu_shape t \<and> same_link s t \<and> length cs' = length cs \<and> list_all host_client_ok cs'"
  using disconnect_loop_snd [of s i cs w] disconnect_loop_fst [of cs i w s] by simp

lemma cmd_disconnect_safe [cmd_safe]:
  assumes "rfu_shape s" shows "cmd_post s (cmd_disconnect s)"
proof -
  have "cmd_post s (Some (0, set_clients cs t))"
    if "disconnect_loop 0 (h_clients (rfu_host s)) w s = (cs, t)" for w cs t
    using disconnect_loop_safe [OF assms _ that] assms
    by (auto simp: cmd_post_def shapeD)
  then show ?thesis using assms
    by (auto simp: cmd_disconnect_def shapeD Let_def cmd_post_same split: rfu_state_t.splits prod.splits)
      (auto simp: cmd_post_def)
qed

lemma rfu_process_command_safe:
  assumes "rfu_shape s" "is_send (rfu_cmd s) \<Longrightarrow> rfu_plen s \<le> 24"
  shows "cmd_post s (rfu_process_command ticks s)"
  using assms
  by (simp add: rfu_process_command_def Let_def cmd_safe cmd_post_same cmd_send_data_safe is_send_def)

section \<open>The entry points keep the invariant\<close>

lemma fsm_same_link: "same_link s t \<Longrightarrow> rfu_fsm t = rfu_fsm s"
  by (cases "rfu_comstate s") (simp_all add: rfu_fsm_def same_link_def)

lemma finish_command_wf:
  assumes "cmd_post s (Some r)" "rfu_cnt s = 0"
  shows "rfu_wf (finish_command r)"
  using assms by (auto simp: cmd_post_def finish_command_def rfu_wf_def rfu_fsm_def rfu_shape_def
      same_link_def)

lemma finish_command_shape:
  assumes "cmd_post s (Some r)"
  shows "rfu_wf ((finish_command r)\<lparr>rfu_cnt := 0\<rparr>)"
  using assms by (auto simp: cmd_post_def finish_command_def rfu_wf_def rfu_fsm_def rfu_shape_def)

lemma xfer_waitcmd_safe:
  assumes "rfu_wf s" "game_word_ok v s" "rfu_comstate s = RFU_COMSTATE_WAITCMD"
  shows "\<exists>t. xfer_waitcmd ticks v s = Some t \<and> rfu_wf t"
proof (cases "drop_bit 16 v = 0x9966")
  case True
  define u where "u = s\<lparr>rfu_plen := ucast (drop_bit 8 v), rfu_cmd := ucast v, rfu_cnt := 0\<rparr>"
  have sh: "rfu_shape u" using assms(1) by (simp add: u_def rfu_wf_def rfu_shape_def)
  have pl: "is_send (rfu_cmd u) \<Longrightarrow> rfu_plen u \<le> 24"
    using assms(2,3) True by (simp add: u_def game_word_ok_def)
  have x: "xfer_waitcmd ticks v s = (if rfu_plen u = 0 then map_option finish_command (rfu_process_command ticks u)
     else Some (u\<lparr>rfu_comstate := RFU_COMSTATE_WAITDAT\<rparr>))"
    using True by (simp add: xfer_waitcmd_def u_def Let_def)
  show ?thesis
  proof (cases "rfu_plen u = 0")
    case True
    from rfu_process_command_safe [OF sh pl, of ticks] obtain r where
      r: "rfu_process_command ticks u = Some r" "cmd_post u (Some r)" by (auto simp: cmd_post_def)
    with finish_command_wf [OF r(2)] True x show ?thesis by (simp add: u_def)
  next
    case False
    have "rfu_cnt u = 0" by (simp add: u_def)
    with False x sh pl show ?thesis
      by (auto simp: rfu_wf_def rfu_fsm_def rfu_shape_def unat_gt_0)
  qed
qed (use assms in \<open>simp add: xfer_waitcmd_def\<close>)

lemma xfer_waitdat_safe:
  assumes "rfu_wf s" "rfu_comstate s = RFU_COMSTATE_WAITDAT"
  shows "\<exists>t. xfer_waitdat ticks v s = Some t \<and> rfu_wf t"
proof -
  from assms have c: "rfu_cnt s < unat (rfu_plen s)" "is_send (rfu_cmd s) \<Longrightarrow> rfu_plen s \<le> 24"
    and sh: "rfu_shape s" by (auto simp: rfu_wf_def rfu_fsm_def)
  have "unat (rfu_plen s) \<le> 255" by (rule unat_u8_le)
  with c sh have lt: "rfu_cnt s < length (rfu_buf s)" by (simp add: shapeD)
  define u where "u = s\<lparr>rfu_buf := (rfu_buf s)[rfu_cnt s := v], rfu_cnt := rfu_cnt s + 1\<rparr>"
  have shu: "rfu_shape u" using sh by (simp add: u_def rfu_shape_def)
  have x: "xfer_waitdat ticks v s = (if rfu_cnt u = unat (rfu_plen u)
      then do { r \<leftarrow> rfu_process_command ticks u; Some ((finish_command r)\<lparr>rfu_cnt := 0\<rparr>) } else Some u)"
    using lt by (simp add: xfer_waitdat_def u_def Let_def)
  show ?thesis
  proof (cases "rfu_cnt u = unat (rfu_plen u)")
    case True
    from rfu_process_command_safe [OF shu, of ticks] c obtain r where
      r: "rfu_process_command ticks u = Some r" "cmd_post u (Some r)"
      by (auto simp: cmd_post_def u_def)
    with finish_command_shape [OF r(2)] True x show ?thesis by simp
  next
    case False
    then show ?thesis using x shu c assms(2) by (auto simp: u_def rfu_wf_def rfu_fsm_def)
  qed
qed

lemma xfer_respdat_safe:
  assumes "rfu_wf s" "rfu_comstate s = RFU_COMSTATE_RESPDAT"
  shows "\<exists>w t. xfer_respdat s = Some (w, t) \<and> rfu_wf t"
proof -
  from assms have c: "rfu_cnt s < unat (rfu_plen s)" and sh: "rfu_shape s"
    by (auto simp: rfu_wf_def rfu_fsm_def)
  have "unat (rfu_plen s) \<le> 255" by (rule unat_u8_le)
  with c sh have "rfu_cnt s < length (rfu_buf s)" by (simp add: shapeD)
  then show ?thesis using assms c sh
    by (auto simp: xfer_respdat_def Let_def rfu_wf_def rfu_fsm_def rfu_shape_def)
qed

lemma rfu_transfer_step_safe:
  assumes "rfu_wf s" "game_word_ok v s"
  shows "\<exists>w t. rfu_transfer_step ticks v s = Some (w, t) \<and> rfu_wf t"
proof (cases "rfu_comstate s")
  case RFU_COMSTATE_WAITCMD
  from xfer_waitcmd_safe [OF assms this, of ticks] show ?thesis
    by (auto simp: rfu_transfer_step_def RFU_COMSTATE_WAITCMD)
next
  case RFU_COMSTATE_WAITDAT
  from xfer_waitdat_safe [OF assms(1) this, of ticks v] show ?thesis
    by (auto simp: rfu_transfer_step_def RFU_COMSTATE_WAITDAT)
next
  case RFU_COMSTATE_RESPDAT
  from xfer_respdat_safe [OF assms(1) this] show ?thesis
    by (auto simp: rfu_transfer_step_def RFU_COMSTATE_RESPDAT)
next
  case RFU_COMSTATE_RESPCMD
  with assms show ?thesis
    by (auto simp: rfu_transfer_step_def xfer_respcmd_def rfu_wf_def rfu_fsm_def rfu_shape_def unat_gt_0)
qed (use assms in \<open>auto simp: rfu_transfer_step_def rfu_wf_def rfu_fsm_def rfu_shape_def\<close>)

lemma rfu_transfer_total:
  assumes "rfu_wf s" "game_word_ok v s"
  shows "\<exists>w t. rfu_transfer ticks v s = Some (w, t) \<and> rfu_wf t"
proof -
  have "rfu_wf (t\<lparr>rfu_prev_data := v\<rparr>)" if "rfu_wf t" for t
    using that by (cases "rfu_comstate t") (simp_all add: rfu_wf_def rfu_fsm_def rfu_shape_def)
  with rfu_transfer_step_safe [OF assms, of ticks] show ?thesis
    by (auto simp: rfu_transfer_def)
qed

lemma rfu_frame_update_wf:
  assumes "rfu_wf s" shows "rfu_wf (rfu_frame_update s)"
proof -
  have a: "rfu_shape (announce s) \<and> same_link s (announce s)" if "rfu_shape s" for s
    using that by (auto simp: announce_def Let_def rfu_net_send_bcast_def rfu_net_send_def
        same_link_def rfu_shape_def)
  have "host_client_ok c \<Longrightarrow> host_client_ok (age_client c)" for c
    by (auto simp: age_client_def Let_def) (simp add: host_client_ok_def)
  then have c: "list_all host_client_ok cs \<Longrightarrow> list_all host_client_ok (map age_client cs)" for cs
    by (auto simp: list_all_iff)
  have ex: "b_data (expire_peer p) = b_data p" for p by (simp add: expire_peer_def Let_def)
  have e: "rfu_shape (s\<lparr>rfu_peer_bcst := map expire_peer (rfu_peer_bcst s)\<rparr>)"
    using assms by (simp add: rfu_wf_def rfu_shape_def list_all_length ex)
  define u where "u = announce (s\<lparr>rfu_peer_bcst := map expire_peer (rfu_peer_bcst s)\<rparr>)"
  have u: "rfu_shape u" "same_link s u" using a [OF e] by (auto simp: u_def same_link_def)
  moreover have "rfu_shape (set_clients (map age_client (h_clients (rfu_host u))) u)"
    using u(1) by (intro shape_set_clients c) (auto simp: shapeD)
  ultimately show ?thesis
    using assms fsm_same_link [of s u] fsm_same_link [of s "set_clients (map age_client (h_clients (rfu_host u))) u"]
    by (simp add: rfu_frame_update_def Let_def u_def [symmetric] rfu_wf_def)
qed

named_theorems net_safe "each packet handler of the adapter keeps the shape and the transfer state"

definition net_post :: "rfu \<Rightarrow> rfu \<Rightarrow> bool" where
  "net_post s t \<longleftrightarrow> rfu_shape t \<and> same_link s t"

lemma net_broadcast_safe [net_safe]:
  assumes "rfu_shape s" "36 \<le> length buf"
  shows "\<exists>t. net_broadcast buf cid h s = Some t \<and> net_post s t"
  using assms
  by (auto simp: net_broadcast_def shapeD net_post_def same_link_def)
    (auto simp: rfu_shape_def list_all_length nth_list_update)

lemma list_all_update: "list_all P xs \<Longrightarrow> P x \<Longrightarrow> list_all P (xs[i := x])"
  by (auto simp: list_all_iff dest!: set_update_subset_insert [THEN subsetD])

lemma clients_ok_nth: "rfu_shape s \<Longrightarrow> i < 4 \<Longrightarrow> host_client_ok (h_clients (rfu_host s) ! i)"
  by (auto simp: rfu_shape_def list_all_length)

lemma slot_of_less [simp]: "slot_of h < 4"
  using word_and_le1 [of "drop_bit 16 h" 3] by (simp add: slot_of_def word_le_nat_alt)

lemma host_client_ok_fields [simp]:
  "host_client_ok (c\<lparr>hc_clttl := t\<rparr>) = host_client_ok c"
  "host_client_ok (c\<lparr>hc_devid := d, hc_client_id := k\<rparr>) = host_client_ok c"
  by (simp_all add: host_client_ok_def)

lemma shape_random [simp]: "rfu_shape (s\<lparr>random_state := r\<rparr>) = rfu_shape s"
  by (simp add: rfu_shape_def)

lemma same_link_random [simp]: "same_link s (t\<lparr>random_state := r\<rparr>) = same_link s t"
  by (simp add: same_link_def)

lemma net_connect_req_safe [net_safe]:
  assumes "rfu_shape s" shows "net_post s (net_connect_req ticks cid s)"
  using assms
  by (auto simp: net_connect_req_def Let_def net_post_def shapeD clients_ok_nth
      split: option.splits prod.splits dest!: find_idx_SomeD
      intro!: shape_set_clients list_all_update)

lemma clnum_zero_client [simp]: "c_clnum zero_client = 0"
  by (simp add: zero_client_def)

lemma net_connect_ack_safe [net_safe]:
  assumes "rfu_shape s" "drop_bit 16 h < 4" shows "net_post s (net_connect_ack cid h s)"
proof -
  have "unat (drop_bit 16 h) < 4" using unat_mono [OF assms(2)] by simp
  then have "unat (ucast (drop_bit 16 h) :: u16) < 4"
    by (simp add: unsigned_ucast_eq take_bit_nat_less_self_iff take_bit_nat_eq_self)
  then have "(ucast (drop_bit 16 h) :: u16) < 4" by (simp add: word_less_nat_alt)
  with assms(1) show ?thesis
    by (auto simp: net_connect_ack_def net_post_def same_link_def rfu_shape_def)
qed

lemma net_connect_nack_safe [net_safe]: "rfu_shape s \<Longrightarrow> net_post s (net_connect_nack s)"
  by (simp add: net_connect_nack_def net_post_def)

lemma net_disconnect_safe [net_safe]:
  "rfu_shape s \<Longrightarrow> net_post s (net_disconnect h s)"
  by (auto simp: net_disconnect_def net_post_def Let_def shapeD list_all_update
      intro!: shape_set_clients split: rfu_state_t.splits)
    (auto simp: same_link_def rfu_shape_def)

lemma net_client_ack_safe [net_safe]:
  "rfu_shape s \<Longrightarrow> net_post s (net_client_ack h s)"
  by (auto simp: net_client_ack_def net_post_def Let_def shapeD clients_ok_nth list_all_update
      intro!: shape_set_clients)

lemma net_host_send_safe [net_safe]:
  assumes "rfu_shape s"
  shows "\<exists>t. net_host_send buf cid h s = Some t \<and> net_post s t"
proof (cases "rfu_state s = RFU_STATE_CLIENT \<and> unat (h AND 0x7f) + 12 \<le> length buf")
  case True
  have "unat (h AND 0x7f) \<le> 127"
    using word_and_le1 [of h "0x7F"] by (simp add: word_le_nat_alt)
  then have "length (take (unat (h AND 0x7f)) (drop 12 buf)) \<le> 127" by simp
  from client_put_keeps [OF shapeD(7) [OF assms] this] obtain ps where
    ps: "slots_put hblen client_pkt_fill (take (unat (h AND 0x7f)) (drop 12 buf))
       (c_pkts (rfu_client s)) = Some ps" "slots_inv client_pkt_ok hblen 4 ps" by auto
  have c: "rfu_client (rfu_net_send_cmd cid NET_RFU_CLIENT_ACK (client_word s) s) = rfu_client s"
    by (simp add: rfu_net_send_cmd_def rfu_net_send_def)
  show ?thesis using True ps assms
    by (simp add: net_host_send_def Let_def c net_post_def)
      (simp add: rfu_shape_def rfu_net_send_cmd_def rfu_net_send_def same_link_def)
qed (use assms in \<open>auto simp: net_host_send_def net_post_def Let_def\<close>)

lemma net_client_send_safe [net_safe]:
  assumes s: "rfu_shape s" and b: "unat (drop_bit 24 h) \<le> 16" "12 + unat (drop_bit 24 h) \<le> length buf"
  shows "\<exists>t. net_client_send buf h s = Some t \<and> net_post s t"
proof -
  let ?cs = "h_clients (rfu_host s)" let ?c = "(?cs ! slot_of h)\<lparr>hc_clttl := 0\<rparr>"
  let ?bs = "take (unat (drop_bit 24 h)) (drop 12 buf)"
  have c: "host_client_ok ?c" using clients_ok_nth [OF s] by simp
  have "length ?bs \<le> 16" using b(1) by simp
  with host_put_keeps [of "hc_pkts ?c" ?bs] c obtain ps where
    ps: "slots_put datalen host_pkt_fill ?bs (hc_pkts ?c) = Some ps" "slots_inv host_pkt_ok datalen 4 ps"
    unfolding host_client_ok_def by blast
  have upd: "rfu_shape (set_clients (?cs[slot_of h := d]) s)" if "host_client_ok d" for d
    using that s by (intro shape_set_clients list_all_update) (auto simp: shapeD)
  have full: "net_post s (net_client_ack h (set_clients (?cs[slot_of h := ?c]) s))"
    using net_client_ack_safe [OF upd [OF c], of h] by (auto simp: net_post_def same_link_def set_clients_def)
  have sl: "arr_slice buf 12 (unat (drop_bit 24 h)) = Some ?bs" using b(2) by simp
  have ok: "net_post s (set_clients (?cs[slot_of h := ?c\<lparr>hc_pkts := ps\<rparr>]) s)"
    unfolding net_post_def using upd [of "?c\<lparr>hc_pkts := ps\<rparr>"] ps(2) by (simp add: host_client_ok_def)
  show ?thesis
    unfolding net_client_send_def Let_def sl bind.bind_lunit ps(1)
    using full ok net_client_ack_safe [OF s] by auto
qed

lemma rfu_net_receive_total:
  assumes "rfu_shape s" "net_ok buf"
  shows "\<exists>t. rfu_net_receive ticks buf cid s = Some t \<and> net_post s t"
proof -
  have "net_post s s" using assms by (simp add: net_post_def)
  with assms show ?thesis
    unfolding rfu_net_receive_def Let_def net_ok_def
    using net_broadcast_safe [OF assms(1), of buf cid] net_host_send_safe [OF assms(1), of buf cid]
      net_client_send_safe [OF assms(1)] net_connect_ack_safe [OF assms(1)]
    by (auto simp: net_safe)
qed

lemma poll_receive_total:
  "rfu_shape s \<Longrightarrow> list_all (net_ok \<circ> snd) ps \<Longrightarrow>
     \<exists>t. poll_receive ticks ps s = Some t \<and> net_post s t"
proof (induction ps arbitrary: s)
  case (Cons p ps)
  obtain cid buf where p: "p = (cid, buf)" by fastforce
  from rfu_net_receive_total [of s buf ticks cid] Cons.prems p obtain t where
    t: "rfu_net_receive ticks buf cid s = Some t" "net_post s t" by auto
  with Cons.IH [of t] Cons.prems p show ?case
    by (auto simp: net_post_def intro: same_link_trans)
qed (simp add: net_post_def)

lemma event_resp_total:
  assumes "rfu_shape s" "0 < length ws" "length ws \<le> 3"
  shows "\<exists>t. event_resp ws s = Some t \<and> rfu_wf t"
proof -
  have "0 + length ws \<le> length (rfu_buf s)" using assms by (simp add: shapeD)
  from arr_blit_total [OF this] obtain b where b: "arr_blit (rfu_buf s) 0 ws = Some b" ..
  then have "length b = 255" using arr_blit_length assms(1) by (fastforce simp: shapeD)
  moreover have "unat (of_nat (length ws) :: u8) = length ws" using assms(3) by (simp add: unat_of_nat)
  ultimately show ?thesis using assms b
    by (auto simp: event_resp_def rfu_wf_def rfu_fsm_def rfu_shape_def)
qed

lemma wait_event_total:
  assumes "rfu_shape s" "rfu_fsm s"
  shows "\<exists>t. wait_event cycles regs s = Some t \<and> rfu_wf t"
proof -
  define u where "u = s\<lparr>rfu_timeout_cycles := rfu_timeout_cycles s - min cycles (rfu_timeout_cycles s),
              rfu_resp_timeout := rfu_resp_timeout s - min cycles (rfu_resp_timeout s)\<rparr>"
  have sh: "rfu_shape u" using assms by (simp add: u_def rfu_shape_def)
  have "rfu_wf u"
    using sh assms(2) fsm_same_link [of s u] by (simp add: u_def rfu_wf_def same_link_def)
  then show ?thesis
    unfolding wait_event_def Let_def u_def [symmetric]
    using event_resp_total [OF sh] by simp
qed

lemma push_event_total:
  assumes "rfu_wf s" "rfu_comstate s = RFU_COMSTATE_WAITRESP"
  shows "\<exists>irq regs' t. push_event regs s = Some (irq, regs', t) \<and> rfu_wf t"
proof -
  from assms have c: "rfu_cnt s < unat (rfu_plen s)" and sh: "rfu_shape s"
    by (auto simp: rfu_wf_def rfu_fsm_def)
  have "rfu_cnt s < length (rfu_buf s)" using c unat_u8_le [of "rfu_plen s"] sh by (simp add: shapeD)
  then show ?thesis using assms c sh
    by (auto simp: push_event_def Let_def rfu_wf_def rfu_fsm_def rfu_shape_def)
qed

lemma rfu_update_total:
  assumes "rfu_wf s" "list_all (net_ok \<circ> snd) ps"
  shows "\<exists>irq regs' t. rfu_update ticks ps cycles regs s = Some (irq, regs', t) \<and> rfu_wf t"
proof (cases "rfu_comstate s = RFU_COMSTATE_WAITEVENT")
  case True
  from poll_receive_total [of s ps ticks] assms obtain u where
    u: "poll_receive ticks ps s = Some u" "net_post s u" by (auto simp: rfu_wf_def)
  then have "rfu_fsm u" using assms(1) fsm_same_link [of s u] by (simp add: net_post_def rfu_wf_def)
  with wait_event_total [of u cycles regs] u obtain t where
    t: "wait_event cycles regs u = Some t" "rfu_wf t" by (auto simp: net_post_def)
  with push_event_total [of t regs] True u show ?thesis
    by (auto simp: rfu_update_def)
next
  case False
  with push_event_total [of s regs] assms show ?thesis by (auto simp: rfu_update_def)
qed

end
