(* ===== verification/RfuProps.thy ===== *)
theory RfuProps
  imports RfuInv
begin

text \<open>
  What the wireless adapter guarantees: no reachable state leads to an access outside
  an array, commands are answered in frames, data and broadcasts survive the trip
  through the network, silent peers are dropped and waits end.
\<close>

section \<open>Runs of the adapter\<close>

datatype rfu_event =
    EvTransfer u32 u32
  | EvFrame
  | EvNet u32 u16 "u8 list"
  | EvUpdate u32 "(u16 \<times> u8 list) list" u32 ioregs
  | EvReset u32

fun rfu_step :: "rfu_event \<Rightarrow> rfu \<Rightarrow> rfu option" where
  "rfu_step (EvTransfer ticks v) s = map_option snd (rfu_transfer ticks v s)"
| "rfu_step EvFrame s = Some (rfu_frame_update s)"
| "rfu_step (EvNet ticks cid buf) s = rfu_net_receive ticks buf cid s"
| "rfu_step (EvUpdate ticks polled cycles regs) s =
     map_option (snd \<circ> snd) (rfu_update ticks polled cycles regs s)"
| "rfu_step (EvReset ticks) s = Some (rfu_reset ticks s)"

fun env_ok :: "rfu_event \<Rightarrow> rfu \<Rightarrow> bool" where
  "env_ok (EvTransfer ticks v) s = game_word_ok v s"
| "env_ok (EvNet ticks cid buf) s = net_ok buf"
| "env_ok (EvUpdate ticks polled cycles regs) s = list_all (net_ok \<circ> snd) polled"
| "env_ok EvFrame s = True"
| "env_ok (EvReset ticks) s = True"

inductive rfu_reach :: "rfu \<Rightarrow> bool" where
  boot: "rfu_reach rfu_boot"
| step: "rfu_reach s \<Longrightarrow> env_ok e s \<Longrightarrow> rfu_step e s = Some t \<Longrightarrow> rfu_reach t"

lemma rfu_step_total:
  assumes "rfu_wf s" "env_ok e s"
  shows "\<exists>t. rfu_step e s = Some t \<and> rfu_wf t"
proof (cases e)
  case (EvTransfer ticks v)
  with assms rfu_transfer_total [of s v ticks] show ?thesis by auto
next
  case (EvNet ticks cid buf)
  with assms rfu_net_receive_total [of s buf ticks cid] show ?thesis
    by (auto simp: rfu_wf_def net_post_def dest: fsm_same_link)
next
  case (EvUpdate ticks polled cycles regs)
  with assms rfu_update_total [of s polled ticks cycles regs] show ?thesis by auto
qed (use assms in \<open>auto simp: rfu_frame_update_wf rfu_reset_wf rfu_wf_def [of s]\<close>)

lemma rfu_reach_wf: "rfu_reach s \<Longrightarrow> rfu_wf s"
proof (induction rule: rfu_reach.induct)
  case (step s e t)
  with rfu_step_total [of s e] show ?case by auto
qed (rule rfu_boot_wf)

text \<open>C1: in every state the adapter can reach from power-on, any word of a game that
  declares at most 24 words per send, any well-formed packet, a frame tick, a cycle
  update or a reset runs without an access outside an array or an oversized shift, and
  leaves a state with the same array sizes, length bounds and gap-free packet queues.\<close>

theorem rfu_no_undefined_behaviour:
  assumes "rfu_reach s" "env_ok e s"
  shows "\<exists>t. rfu_step e s = Some t \<and> rfu_wf t"
  using rfu_step_total [OF rfu_reach_wf [OF assms(1)] assms(2)] .

lemma rfu_no_undefined_behaviour_witness:
  "\<exists>t. rfu_step (EvNet 0 3 (bcst_pkt NET_RFU_BROADCAST 77 [1, 2, 3, 4, 5, 6])) rfu_boot = Some t \<and> rfu_wf t"
proof (rule rfu_no_undefined_behaviour)
  show "rfu_reach rfu_boot" by (rule rfu_reach.boot)
  show "env_ok (EvNet 0 3 (bcst_pkt NET_RFU_BROADCAST 77 [1, 2, 3, 4, 5, 6])) rfu_boot"
    by (simp add: net_ok_def)
qed

section \<open>Missing bounds\<close>

text \<open>C2: a host whose game declares more than 24 words for a send command makes the
  adapter copy past the 23 words of its transmit buffer.\<close>

theorem send_data_overflow:
  assumes "length (tx_buf (rfu_tx_buf s)) = 23" "rfu_state s = RFU_STATE_HOST" "24 < rfu_plen s"
    "rfu_cmd s = RFU_CMD_SEND_DATA"
  shows "rfu_process_command ticks s = None"
proof -
  have "24 < unat (rfu_plen s)" using assms(3) by (simp add: word_less_nat_alt)
  with assms show ?thesis
    by (auto simp: rfu_process_command_def cmd_send_data_def load_tx_def arr_defs)
qed

lemma send_data_overflow_witness:
  "rfu_process_command 0 (rfu_boot\<lparr>rfu_state := RFU_STATE_HOST, rfu_plen := 25, rfu_cmd := RFU_CMD_SEND_DATA\<rparr>) = None"
  by (rule send_data_overflow) (simp_all add: rfu_boot_def)

text \<open>A data packet from the network whose header claims more than 16 bytes is copied
  past the 16 byte slot of a host's receive queue, whatever the packet really holds.\<close>

lemma client_send_overflow:
  assumes "rfu_shape s" "rfu_state s = RFU_STATE_HOST"
    and "12 \<le> length buf" "upack32 buf = NET_RFU_HEADER" "upack32 (drop 4 buf) = NET_RFU_CLIENT_SEND"
    and "hc_devid (h_clients (rfu_host s) ! slot_of (upack32 (drop 8 buf))) = ucast (upack32 (drop 8 buf))"
    and "\<exists>p \<in> set (hc_pkts (h_clients (rfu_host s) ! slot_of (upack32 (drop 8 buf)))). datalen p = 0"
    and "16 < unat (drop_bit 24 (upack32 (drop 8 buf)))"
  shows "rfu_net_receive ticks buf cid s = None"
proof -
  let ?h = "upack32 (drop 8 buf)" let ?c = "h_clients (rfu_host s) ! slot_of ?h"
  from assms(7) obtain i where i: "find_idx (\<lambda>p. datalen p = 0) (hc_pkts ?c) = Some i"
    by (cases "find_idx (\<lambda>p. datalen p = 0) (hc_pkts ?c)") (auto simp: find_idx_None)
  then have "i < length (hc_pkts ?c)" by (auto dest: find_idx_SomeD)
  then have "length (data (hc_pkts ?c ! i)) = 16"
    using clients_ok_nth [OF assms(1), of "slot_of ?h"]
    by (auto simp: host_client_ok_def slots_inv_def list_all_length host_pkt_ok_def)
  then have full: "host_pkt_fill bs (hc_pkts ?c ! i) = None" if "16 < length bs" for bs
    using that by (simp add: host_pkt_fill_def arr_blit_def)
  have "slots_put datalen host_pkt_fill bs (hc_pkts ?c) = None" if "16 < length bs" for bs
    using i full [OF that] by (simp add: slots_put_def)
  then have "net_client_send buf ?h s = None"
    using assms(2,6,8) i by (auto simp: net_client_send_def Let_def arr_slice_def)
  with assms(3,4,5) show ?thesis by (simp add: rfu_net_receive_def Let_def)
qed

lemma client_send_overflow_witness:
  "rfu_net_receive 0 (be_bytes NET_RFU_HEADER @ be_bytes NET_RFU_CLIENT_SEND @ be_bytes 0x11000007) 9
     (rfu_boot\<lparr>rfu_state := RFU_STATE_HOST,
       rfu_host := zero_host\<lparr>h_clients := zero_host_client\<lparr>hc_devid := 7\<rparr> # replicate 3 zero_host_client\<rparr>\<rparr>) = None"
proof (rule client_send_overflow)
  let ?c = "zero_host_client\<lparr>hc_devid := 7\<rparr> # replicate 3 zero_host_client"
  have "list_all host_client_ok ?c"
    using zero_host_client_ok by (simp add: list_all_iff host_client_ok_def)
  then show "rfu_shape (rfu_boot\<lparr>rfu_state := RFU_STATE_HOST, rfu_host := zero_host\<lparr>h_clients := ?c\<rparr>\<rparr>)"
    using rfu_boot_wf by (simp add: rfu_wf_def rfu_shape_def rfu_boot_def)
qed (simp_all add: slot_of_def zero_host_client_def zero_host_pkt_def)

section \<open>Command exchanges\<close>

fun rfu_xfers :: "u32 \<Rightarrow> u32 list \<Rightarrow> rfu \<Rightarrow> (u32 list \<times> rfu) option" where
  "rfu_xfers ticks [] s = Some ([], s)"
| "rfu_xfers ticks (v # vs) s = do {
     (w, s) \<leftarrow> rfu_transfer ticks v s;
     (ws, s) \<leftarrow> rfu_xfers ticks vs s;
     Some (w # ws, s) }"

definition cmd_header :: "u8 \<Rightarrow> nat \<Rightarrow> u32" where
  "cmd_header c n = 0x99660000 OR push_bit 8 (of_nat n) OR ucast c"

text \<open>The state in which a command with payload \<open>ws\<close> is processed.\<close>

definition cmd_loaded :: "u8 \<Rightarrow> u32 list \<Rightarrow> rfu \<Rightarrow> rfu" where
  "cmd_loaded c ws s = s\<lparr>rfu_cmd := c, rfu_plen := of_nat (length ws), rfu_cnt := length ws,
     rfu_buf := ws @ drop (length ws) (rfu_buf s),
     rfu_comstate := (if ws = [] then RFU_COMSTATE_WAITCMD else RFU_COMSTATE_WAITDAT),
     rfu_prev_data := (if ws = [] then rfu_prev_data s else last (cmd_header c (length ws) # butlast ws))\<rparr>"

lemma cmd_header_fields:
  assumes "n \<le> 255"
  shows "drop_bit 16 (cmd_header c n) = 0x9966" "(ucast (drop_bit 8 (cmd_header c n)) :: u8) = of_nat n"
    "(ucast (cmd_header c n) :: u8) = c"
proof -
  have n: "(of_nat n :: u32) = ucast (of_nat n :: u8)"
    using assms by (simp add: word_unat_eq_iff unsigned_ucast_eq unsigned_of_nat take_bit_nat_eq_self)
  define J :: u16 where "J = 0x9966"
  have J: "0x99660000 = push_bit 16 (ucast J :: u32)" "0x9966 = (ucast J :: u32)" by (simp_all add: J_def)
  show "drop_bit 16 (cmd_header c n) = 0x9966"
    unfolding cmd_header_def n J by (rule bit_word_eqI) (auto simp: bit_simps dest: bit_imp_le_length)
  show "(ucast (drop_bit 8 (cmd_header c n)) :: u8) = of_nat n"
    unfolding cmd_header_def n J by (rule bit_word_eqI) (auto simp: bit_simps dest: bit_imp_le_length)
  show "(ucast (cmd_header c n) :: u8) = c"
    unfolding cmd_header_def n J by (rule bit_word_eqI) (auto simp: bit_simps dest: bit_imp_le_length)
qed

lemma waitdat_loop:
  assumes "rfu_comstate u = RFU_COMSTATE_WAITDAT" "rfu_cnt u + length vs < unat (rfu_plen u)"
    "length (rfu_buf u) = 255"
  shows "rfu_xfers ticks vs u = Some (replicate (length vs) 0x80000000,
     u\<lparr>rfu_cnt := rfu_cnt u + length vs,
       rfu_buf := take (rfu_cnt u) (rfu_buf u) @ vs @ drop (rfu_cnt u + length vs) (rfu_buf u),
       rfu_prev_data := last (rfu_prev_data u # vs)\<rparr>)"
  using assms
proof (induction vs arbitrary: u)
  case (Cons v vs)
  let ?u = "u\<lparr>rfu_buf := (rfu_buf u)[rfu_cnt u := v], rfu_cnt := rfu_cnt u + 1, rfu_prev_data := v\<rparr>"
  have lt: "rfu_cnt u < length (rfu_buf u)"
    using Cons.prems unat_u8_le [of "rfu_plen u"] by simp
  have "rfu_transfer ticks v u = Some (0x80000000, ?u)"
    using Cons.prems lt by (simp add: rfu_transfer_def rfu_transfer_step_def xfer_waitdat_def)
  moreover have "take (rfu_cnt u + 1) ((rfu_buf u)[rfu_cnt u := v]) = take (rfu_cnt u) (rfu_buf u) @ [v]"
    using lt by (simp add: take_Suc_conv_app_nth)
  moreover have "drop (Suc (rfu_cnt u + length vs)) ((rfu_buf u)[rfu_cnt u := v]) = drop (Suc (rfu_cnt u + length vs)) (rfu_buf u)"
    by (rule drop_update_cancel) simp
  ultimately show ?case
    using Cons.IH [of ?u] Cons.prems by simp
qed simp

lemma respdat_loop:
  assumes "rfu_comstate u = RFU_COMSTATE_RESPDAT" "rfu_cnt u + length vs = unat (rfu_plen u)"
    "vs \<noteq> []" "length (rfu_buf u) = 255"
  shows "\<exists>z. rfu_xfers ticks vs u = Some (take (length vs) (drop (rfu_cnt u) (rfu_buf u)), z) \<and>
     rfu_comstate z = RFU_COMSTATE_WAITCMD \<and>
     z = u\<lparr>rfu_cnt := unat (rfu_plen u), rfu_comstate := RFU_COMSTATE_WAITCMD, rfu_prev_data := last vs\<rparr>"
  using assms
proof (induction vs arbitrary: u)
  case (Cons v vs)
  have lt: "rfu_cnt u < length (rfu_buf u)"
    using Cons.prems unat_u8_le [of "rfu_plen u"] by simp
  then have d: "drop (rfu_cnt u) (rfu_buf u) = rfu_buf u ! rfu_cnt u # drop (Suc (rfu_cnt u)) (rfu_buf u)"
    by (simp add: Cons_nth_drop_Suc)
  let ?u = "u\<lparr>rfu_cnt := rfu_cnt u + 1, rfu_prev_data := v\<rparr>"
  show ?case
  proof (cases "vs = []")
    case True
    then show ?thesis using Cons.prems lt d
      by (simp add: rfu_transfer_def rfu_transfer_step_def xfer_respdat_def)
  next
    case False
    then have "Suc (rfu_cnt u) \<noteq> unat (rfu_plen u)" using Cons.prems by (cases vs) auto
    then have "rfu_transfer ticks v u = Some (rfu_buf u ! rfu_cnt u, ?u)"
      using Cons.prems lt by (simp add: rfu_transfer_def rfu_transfer_step_def xfer_respdat_def Let_def)
    then show ?thesis using Cons.IH [of ?u] Cons.prems False d by simp
  qed
qed simp

lemma rfu_xfers_append:
  "rfu_xfers ticks (a @ b) s = do {
     (x, s) \<leftarrow> rfu_xfers ticks a s; (y, s) \<leftarrow> rfu_xfers ticks b s; Some (x @ y, s) }"
  by (induction a arbitrary: s) (auto simp: bind_eq_Some_conv split: prod.splits Option.bind_splits)

lemma cmd_loaded_post:
  assumes "rfu_shape s" "length ws \<le> 255" "is_send c \<Longrightarrow> length ws \<le> 24"
  shows "cmd_post (cmd_loaded c ws s) (rfu_process_command ticks (cmd_loaded c ws s))"
proof (rule rfu_process_command_safe)
  show "rfu_shape (cmd_loaded c ws s)"
    using assms(1,2) by (simp add: cmd_loaded_def rfu_shape_def)
  show "is_send (rfu_cmd (cmd_loaded c ws s)) \<Longrightarrow> rfu_plen (cmd_loaded c ws s) \<le> 24"
    using assms(2,3) by (simp add: cmd_loaded_def word_le_nat_alt unsigned_of_nat take_bit_nat_eq_self)
qed

text \<open>The command as received: header first, then the payload.\<close>

lemma xfers_command:
  assumes w: "rfu_comstate s = RFU_COMSTATE_WAITCMD" "rfu_shape s" "length ws \<le> 255"
    and b: "is_send c \<Longrightarrow> length ws \<le> 24"
    and r: "rfu_process_command ticks (cmd_loaded c ws s) = Some r"
  shows "rfu_xfers ticks (cmd_header c (length ws) # ws) s =
     Some (replicate (length ws + 1) 0x80000000,
       (finish_command r)\<lparr>rfu_cnt := 0, rfu_prev_data := last (cmd_header c (length ws) # ws)\<rparr>)"
proof -
  note h = cmd_header_fields [OF w(3), of c]
  have lb: "length (rfu_buf s) = 255" using w(2) by (simp add: shapeD)
  have un: "unat (of_nat (length ws) :: u8) = length ws"
    using w(3) by (simp add: unsigned_of_nat take_bit_nat_eq_self)
  from cmd_loaded_post [OF w(2,3) b, of c ticks] r
  have cnt: "rfu_cnt (snd r) = length ws" by (auto simp: cmd_post_def same_link_def cmd_loaded_def)
  have pz: "(of_nat (length ws) :: u8) = 0 \<longleftrightarrow> ws = []"
    using un by (cases "ws = []") auto
  let ?h = "cmd_header c (length ws)"
  show ?thesis
  proof (cases ws rule: rev_cases)
    case Nil
    then have "cmd_loaded c ws s = s\<lparr>rfu_plen := 0, rfu_cmd := c, rfu_cnt := 0\<rparr>"
      using w(1) by (simp add: cmd_loaded_def)
    moreover have "rfu_cnt (finish_command r) = 0"
      using cnt Nil by (cases r) (simp add: finish_command_def)
    ultimately show ?thesis using Nil w(1) h r
      by (simp add: rfu_transfer_def rfu_transfer_step_def xfer_waitcmd_def Let_def)
  next
    case (snoc vs v)
    let ?u = "s\<lparr>rfu_plen := of_nat (length ws), rfu_cmd := c, rfu_cnt := 0,
      rfu_comstate := RFU_COMSTATE_WAITDAT, rfu_prev_data := ?h\<rparr>"
    have t0: "rfu_transfer ticks ?h s = Some (0x80000000, ?u)"
      using w(1) h pz snoc by (simp add: rfu_transfer_def rfu_transfer_step_def xfer_waitcmd_def Let_def)
    let ?m = "?u\<lparr>rfu_cnt := length vs, rfu_buf := vs @ drop (length vs) (rfu_buf s),
      rfu_prev_data := last (?h # vs)\<rparr>"
    have t1: "rfu_xfers ticks vs ?u = Some (replicate (length vs) 0x80000000, ?m)"
      using waitdat_loop [of ?u vs ticks] un snoc lb by simp
    have lv: "length vs < 255" using snoc w(3) by simp
    have bu: "(vs @ drop (length vs) (rfu_buf s))[length vs := v] = ws @ drop (length ws) (rfu_buf s)"
      using snoc lv lb by (simp add: list_update_append Cons_nth_drop_Suc [symmetric])
    have ld: "?m\<lparr>rfu_buf := ws @ drop (length ws) (rfu_buf s), rfu_cnt := length ws\<rparr> = cmd_loaded c ws s"
      using snoc by (simp add: cmd_loaded_def)
    have t2: "rfu_transfer ticks v ?m = Some (0x80000000,
        (finish_command r)\<lparr>rfu_cnt := 0, rfu_prev_data := v\<rparr>)"
      using r ld bu lv lb un snoc
      by (simp add: rfu_transfer_def rfu_transfer_step_def xfer_waitdat_def Let_def)
    show ?thesis
      using t0 t1 t2 snoc by (simp add: rfu_xfers_append replicate_append_same)
  qed
qed

text \<open>The answer to a finished command: the acknowledgement with the response words, or the error.\<close>

lemma respond_words:
  assumes "rfu_shape t" "n \<le> 33" "rfu_cmd t = c" "\<not> waits c" "length fill = n + 1"
  shows "\<exists>u. rfu_xfers ticks fill ((finish_command (int n, t))\<lparr>rfu_cnt := 0, rfu_prev_data := v\<rparr>) =
      Some ((0x99660080 OR ucast c OR push_bit 8 (of_nat n)) # take n (rfu_buf t), u) \<and>
    rfu_comstate u = RFU_COMSTATE_WAITCMD"
proof -
  have n8: "unat (of_nat n :: u8) = n" "(ucast (of_nat n :: u8) :: u32) = of_nat n"
    using assms(2) by (simp_all add: word_unat_eq_iff unsigned_ucast_eq unsigned_of_nat take_bit_nat_eq_self)
  have lt: "length (rfu_buf t) = 255" using assms(1) by (simp add: shapeD)
  obtain f fs where fill: "fill = f # fs" "length fs = n" using assms(5) by (cases fill) auto
  let ?z = "(finish_command (int n, t))\<lparr>rfu_cnt := 0, rfu_prev_data := v\<rparr>"
  let ?y = "?z\<lparr>rfu_comstate := (if (of_nat n :: u8) \<noteq> 0 then RFU_COMSTATE_RESPDAT else RFU_COMSTATE_WAITCMD),
    rfu_prev_data := f\<rparr>"
  have ack: "rfu_transfer ticks f ?z = Some (0x99660080 OR ucast c OR push_bit 8 (of_nat n), ?y)"
    using assms(3,4) n8(2)
    by (simp add: rfu_transfer_def rfu_transfer_step_def finish_command_def xfer_respcmd_def)
  have "\<exists>u. rfu_xfers ticks fs ?y = Some (take n (rfu_buf t), u) \<and> rfu_comstate u = RFU_COMSTATE_WAITCMD"
  proof (cases "fs = []")
    case True
    then show ?thesis using fill by (simp add: finish_command_def)
  next
    case False
    then have "(of_nat n :: u8) \<noteq> 0" using fill n8(1) by auto
    then show ?thesis
      using respdat_loop [of ?y fs ticks] False fill n8(1) lt by (auto simp: finish_command_def)
  qed
  then show ?thesis using ack fill by auto
qed

lemma respond_wait:
  assumes "waits c" "rfu_cmd t = c" "0 \<le> ret"
  shows "\<exists>u. rfu_xfers ticks [f] ((finish_command (ret, t))\<lparr>rfu_cnt := 0, rfu_prev_data := v\<rparr>) =
      Some ([0x99660080 OR ucast c OR push_bit 8 (ucast (of_int ret :: u8))], u) \<and>
    rfu_comstate u = RFU_COMSTATE_WAITEVENT"
  using assms by (simp add: rfu_transfer_def rfu_transfer_step_def finish_command_def xfer_respcmd_def)

lemma respond_error:
  assumes "ret < 0"
  shows "\<exists>u. rfu_xfers ticks [f, g] ((finish_command (ret, t))\<lparr>rfu_cnt := 0, rfu_prev_data := v\<rparr>) =
      Some ([0x996601EE, ucast (of_int (- ret) :: u8)], u) \<and> rfu_comstate u = RFU_COMSTATE_WAITCMD"
  using assms by (simp add: rfu_transfer_def rfu_transfer_step_def finish_command_def)

text \<open>C3: every command exchange is framed. From the state that waits for a command, a command
  word with its payload (at most 24 words for a command that sends data, which \<open>send_data_overflow\<close> shows to be
  necessary) is taken word by word and then answered in one of three ways, as the command ends. A
  failed command is answered with the error word and its code. A wait command is answered
  with its acknowledgement, and the adapter then waits for an event. Any other command
  is answered with its acknowledgement, which holds the number of response words, and
  exactly these words. But for the wait commands the adapter is then ready for the next command.\<close>

theorem command_exchange:
  assumes "rfu_wf s" "rfu_comstate s = RFU_COMSTATE_WAITCMD" "length ws \<le> 255" "is_send c \<Longrightarrow> length ws \<le> 24"
  shows "\<exists>ret t. rfu_process_command ticks (cmd_loaded c ws s) = Some (ret, t) \<and>
    (\<forall>fill. length fill = (if ret < 0 then 2 else if waits c then 1 else nat ret + 1) \<longrightarrow>
      (\<exists>u. rfu_xfers ticks (cmd_header c (length ws) # ws @ fill) s =
          Some (replicate (length ws + 1) 0x80000000
            @ (if ret < 0 then [0x996601EE, ucast (of_int (- ret) :: u8)]
               else (0x99660080 OR ucast c OR push_bit 8 (ucast (of_int ret :: u8)))
                 # (if waits c then [] else take (nat ret) (rfu_buf t))), u) \<and>
        rfu_comstate u = (if 0 \<le> ret \<and> waits c then RFU_COMSTATE_WAITEVENT else RFU_COMSTATE_WAITCMD)))"
proof -
  have sh: "rfu_shape s" using assms(1) by (simp add: rfu_wf_def)
  obtain ret t where r: "rfu_process_command ticks (cmd_loaded c ws s) = Some (ret, t)"
    and t: "ret \<le> 33" "rfu_shape t" "rfu_cmd t = c"
    using cmd_loaded_post [OF sh assms(3,4), of c ticks]
    by (auto simp: cmd_post_def same_link_def cmd_loaded_def)
  note x = xfers_command [OF assms(2) sh assms(3,4) r]
  let ?z = "(finish_command (ret, t))\<lparr>rfu_cnt := 0, rfu_prev_data := last (cmd_header c (length ws) # ws)\<rparr>"
  have app: "rfu_xfers ticks (cmd_header c (length ws) # ws @ fill) s =
      Some (replicate (length ws + 1) 0x80000000 @ out, u)" if "rfu_xfers ticks fill ?z = Some (out, u)" for fill out u
    using x that by (simp add: rfu_xfers_append del: rfu_xfers.simps flip: append_Cons)
  show ?thesis
  proof (rule exI [of _ ret], rule exI [of _ t], intro conjI allI impI, rule r)
    fix fill :: "u32 list"
    assume len: "length fill = (if ret < 0 then 2 else if waits c then 1 else nat ret + 1)"
    consider "ret < 0" | "0 \<le> ret" "waits c" | "0 \<le> ret" "\<not> waits c" by linarith
    then show "\<exists>u. rfu_xfers ticks (cmd_header c (length ws) # ws @ fill) s =
          Some (replicate (length ws + 1) 0x80000000
            @ (if ret < 0 then [0x996601EE, ucast (of_int (- ret) :: u8)]
               else (0x99660080 OR ucast c OR push_bit 8 (ucast (of_int ret :: u8)))
                 # (if waits c then [] else take (nat ret) (rfu_buf t))), u) \<and>
        rfu_comstate u = (if 0 \<le> ret \<and> waits c then RFU_COMSTATE_WAITEVENT else RFU_COMSTATE_WAITCMD)"
    proof cases
      case 1
      then obtain f g where f: "fill = [f, g]" using len by (auto simp: numeral_2_eq_2 length_Suc_conv)
      obtain u where "rfu_xfers ticks fill ?z = Some ([0x996601EE, ucast (of_int (- ret) :: u8)], u)"
        "rfu_comstate u = RFU_COMSTATE_WAITCMD" unfolding f using respond_error [OF 1] by blast
      then show ?thesis using 1 app by auto
    next
      case 2
      then obtain f where f: "fill = [f]" using len by (auto simp: length_Suc_conv)
      obtain u where "rfu_xfers ticks fill ?z = Some ([0x99660080 OR ucast c OR push_bit 8 (ucast (of_int ret :: u8))], u)"
        "rfu_comstate u = RFU_COMSTATE_WAITEVENT" unfolding f using respond_wait [OF 2(2) t(3) 2(1)] by blast
      then show ?thesis using 2 app by auto
    next
      case 3
      then have n: "int (nat ret) = ret" "nat ret \<le> 33" "length fill = nat ret + 1" using t(1) len by auto
      have "(of_int ret :: u8) = of_nat (nat ret)" by (metis n(1) of_int_of_nat_eq)
      then have w: "(ucast (of_int ret :: u8) :: u32) = of_nat (nat ret)"
        using n(2) by (simp add: word_unat_eq_iff unsigned_ucast_eq unsigned_of_nat take_bit_nat_eq_self)
      obtain u where "rfu_xfers ticks fill ?z =
          Some ((0x99660080 OR ucast c OR push_bit 8 (of_nat (nat ret))) # take (nat ret) (rfu_buf t), u)"
        "rfu_comstate u = RFU_COMSTATE_WAITCMD"
        using respond_words [OF t(2) n(2) t(3) 3(2) n(3)] unfolding n(1) by blast
      then show ?thesis using 3 app by (auto simp: w)
    qed
  qed
qed

lemma command_exchange_witness:
  "\<exists>u. rfu_xfers 0 [cmd_header RFU_CMD_SYSVER 0, 0, 0] (rfu_boot\<lparr>rfu_comstate := RFU_COMSTATE_WAITCMD\<rparr>)
     = Some ([0x80000000, 0x99660192, 0x00830117], u) \<and> rfu_comstate u = RFU_COMSTATE_WAITCMD"
proof -
  let ?s = "rfu_boot\<lparr>rfu_comstate := RFU_COMSTATE_WAITCMD\<rparr>"
  have "rfu_wf ?s" using rfu_boot_wf by (simp add: rfu_wf_def rfu_shape_def rfu_fsm_def rfu_boot_def)
  moreover have "rfu_process_command 0 (cmd_loaded RFU_CMD_SYSVER [] ?s) =
      Some (1, (cmd_loaded RFU_CMD_SYSVER [] ?s)\<lparr>rfu_buf := (rfu_buf rfu_boot)[0 := 0x00830117]\<rparr>)"
    by (simp add: rfu_process_command_def cmd_sysver_def respond1_def cmd_loaded_def rfu_boot_def)
  moreover have tk: "take (Suc 0) ((replicate 255 0)[0 := 0x00830117]) = [0x00830117 :: u32]"
    by (simp add: take_Suc_conv_app_nth)
  ultimately show ?thesis
    using command_exchange [of ?s "[]" RFU_CMD_SYSVER 0] tk
    by (auto simp: waits_def is_send_def rfu_boot_def simp del: rfu_xfers.simps dest!: spec [of _ "[0, 0]"])
qed

section \<open>Packet queues\<close>

text \<open>The four-slot queue of \<^verbatim>\<open>src/gpsp-master/rfu.c\<close> in which a client keeps the packets of its host
  is a bounded FIFO: any sequence of receptions and reads behaves like a list of at most
  four packets that drops what arrives when it is full.\<close>

theorem client_queue_fifo:
  assumes "slots_inv client_pkt_ok hblen 4 ps" "list_all client_msg_ok (qputs ops)"
  shows "\<exists>qs. qrun (slots_put hblen client_pkt_fill) client_pkts_pop ops ps = Some qs \<and>
     slots_view hblen (\<lambda>p. take (hblen p) (hdata p)) qs =
       qspec 4 ops (slots_view hblen (\<lambda>p. take (hblen p) (hdata p)) ps)"
  using cq.pq.run_refines [OF assms] unfolding client_pkts_pop_def by blast

lemma client_queue_fifo_witness:
  "\<exists>qs. qrun (slots_put hblen client_pkt_fill) client_pkts_pop [Put [1, 2], Put [3], Pop] (c_pkts zero_client) = Some qs \<and>
     slots_view hblen (\<lambda>p. take (hblen p) (hdata p)) qs = [[3]]"
proof -
  have "slots_view hblen (\<lambda>p. take (hblen p) (hdata p)) (c_pkts zero_client) = []"
    by (simp add: zero_client_def zero_client_pkt_def slots_view_def)
  with client_queue_fifo [of "c_pkts zero_client" "[Put [1, 2], Put [3], Pop]"] show ?thesis
    by (simp add: client_msg_ok_def del: qrun.simps)
qed

text \<open>So is the queue a host keeps for each connected client.\<close>

theorem host_queue_fifo:
  assumes "slots_inv host_pkt_ok datalen 4 ps" "list_all host_msg_ok (qputs ops)"
  shows "\<exists>qs. qrun (slots_put datalen host_pkt_fill) host_pkts_pop ops ps = Some qs \<and>
     slots_view datalen (\<lambda>p. take (datalen p) (data p)) qs =
       qspec 4 ops (slots_view datalen (\<lambda>p. take (datalen p) (data p)) ps)"
  using hq.pq.run_refines [OF assms] unfolding host_pkts_pop_def by blast

lemma host_queue_fifo_witness:
  "\<exists>qs. qrun (slots_put datalen host_pkt_fill) host_pkts_pop [Put [9], Put [8, 7], Pop] (hc_pkts zero_host_client) = Some qs \<and>
     slots_view datalen (\<lambda>p. take (datalen p) (data p)) qs = [[8, 7]]"
proof -
  have "slots_inv host_pkt_ok datalen 4 (hc_pkts zero_host_client)"
    using zero_host_client_ok by (simp add: host_client_ok_def)
  moreover have "slots_view datalen (\<lambda>p. take (datalen p) (data p)) (hc_pkts zero_host_client) = []"
    by (simp add: zero_host_client_def zero_host_pkt_def slots_view_def)
  ultimately show ?thesis
    using host_queue_fifo [of "hc_pkts zero_host_client" "[Put [9], Put [8, 7], Pop]"]
    by (simp add: host_msg_ok_def del: qrun.simps)
qed

section \<open>Data through the network\<close>

lemma copy_words_nth:
  assumes "copy_words src j n cnt b = Some b'"
  shows "length b' = length b \<and> (\<forall>k < cnt. k < length b \<longrightarrow> b' ! k = b ! k) \<and>
     (\<forall>k < n. b' ! (cnt + k) = leupack32 (take 4 (drop ((j + k) * 4) src)) \<and> (j + k) * 4 + 4 \<le> length src
        \<and> cnt + k < length b)"
  using assms
proof (induction src j n cnt b arbitrary: b' rule: copy_words.induct)
  case (2 src j n cnt b)
  from 2(2) have j: "j * 4 + 4 \<le> length src" "cnt < length b"
    and r: "copy_words src (Suc j) n (Suc cnt) (b[cnt := leupack32 (take 4 (drop (j * 4) src))]) = Some b'"
    by (auto simp: bind_eq_Some_conv arr_eq_Some)
  note ih = 2(1) [OF _ _ r]
  have ih': "length b' = length b" "\<forall>k < Suc cnt. k < length b \<longrightarrow> b' ! k = b[cnt := leupack32 (take 4 (drop (j * 4) src))] ! k"
    "\<forall>k < n. b' ! (Suc cnt + k) = leupack32 (take 4 (drop ((Suc j + k) * 4) src)) \<and> (Suc j + k) * 4 + 4 \<le> length src \<and> Suc cnt + k < length b"
    using ih [of "take 4 (drop (j * 4) src)"] j by (auto simp: arr_eq_Some)
  have "b' ! (cnt + k) = leupack32 (take 4 (drop ((j + k) * 4) src)) \<and> (j + k) * 4 + 4 \<le> length src \<and> cnt + k < length b"
    if "k < Suc n" for k
  proof (cases k)
    case 0
    then show ?thesis using ih'(2) j by simp
  next
    case (Suc k')
    with ih'(3) that show ?thesis by (auto simp: add.commute)
  qed
  with ih' show ?case by auto
qed simp

lemma word_byte_le: "word_byte ws i = le_bytes (ws ! (i div 4)) ! (i mod 4)"
proof -
  have "i mod 4 = 0 \<or> i mod 4 = 1 \<or> i mod 4 = 2 \<or> i mod 4 = 3" by linarith
  then show ?thesis by (auto simp: word_byte_def le_bytes_def)
qed

lemma take4_drop: "n + 4 \<le> length xs \<Longrightarrow> take 4 (drop n xs) = [xs ! n, xs ! (n + 1), xs ! (n + 2), xs ! (n + 3)]"
proof -
  assume "n + 4 \<le> length xs"
  then have "drop n xs = xs ! n # xs ! Suc n # xs ! Suc (Suc n) # xs ! Suc (Suc (Suc n)) # drop (Suc (Suc (Suc (Suc n)))) xs"
    by (simp add: Cons_nth_drop_Suc)
  then show ?thesis by (simp add: numeral_eq_Suc)
qed

text \<open>The words copied out of a byte array spell its bytes.\<close>

lemma copy_words_bytes:
  assumes "copy_words src 0 n 1 b = Some b'" "i < 4 * n"
  shows "word_byte (drop 1 b') i = src ! i"
proof -
  let ?k = "i div 4"
  have k: "?k < n" using assms(2) by linarith
  from copy_words_nth [OF assms(1)] k
  have w: "b' ! (1 + ?k) = leupack32 (take 4 (drop (?k * 4) src))" "?k * 4 + 4 \<le> length src"
     "1 + ?k < length b'" by auto
  define q where "q = ?k * 4"
  have i: "i = q + i mod 4" by (simp add: q_def)
  have "b' ! (1 + ?k) = leupack32 [src ! q, src ! (q + 1), src ! (q + 2), src ! (q + 3)]"
    using w(1) take4_drop [of q src] w(2) by (simp add: q_def)
  moreover have "i mod 4 = 0 \<or> i mod 4 = 1 \<or> i mod 4 = 2 \<or> i mod 4 = 3" by linarith
  ultimately have "le_bytes (b' ! (1 + ?k)) ! (i mod 4) = src ! (q + i mod 4)" by auto
  then show ?thesis using w(3) i by (simp add: word_byte_le)
qed

end
