(* ===== verification/RfuNetProps.thy ===== *)
theory RfuNetProps
  imports RfuProps
begin

text \<open>
  Two adapters talking: data, connection and broadcast packets built by one side and
  received by the other; the timeouts that end a silent connection and a wait.
\<close>

lemma word_byte_append: "i < 4 * length ws \<Longrightarrow> word_byte (ws @ r) i = word_byte ws i"
proof -
  assume "i < 4 * length ws"
  then have "i div 4 < length ws" by linarith
  then show ?thesis by (simp add: word_byte_def nth_append)
qed

lemma send_clients_sent:
  assumes "tx_blen (rfu_tx_buf s) \<le> 92" "tx_blen (rfu_tx_buf s) \<le> 4 * length (tx_buf (rfu_tx_buf s))"
  shows "\<exists>t. send_clients cs s = Some t \<and> rfu_sent t = rfu_sent s @
     map (\<lambda>c. (hc_client_id c, data_pkt NET_RFU_HOST_SEND (of_nat (tx_blen (rfu_tx_buf s)))
                 (tx_buf (rfu_tx_buf s)) (tx_blen (rfu_tx_buf s))))
       (filter (\<lambda>c. hc_devid c \<noteq> 0) cs)"
  using assms
proof (induction cs arbitrary: s)
  case (Cons c cs)
  show ?case
  proof (cases "hc_devid c = 0")
    case False
    define u where "u = rfu_net_send (hc_client_id c) (data_pkt NET_RFU_HOST_SEND
      (of_nat (tx_blen (rfu_tx_buf s))) (tx_buf (rfu_tx_buf s)) (tx_blen (rfu_tx_buf s))) s"
    have u: "rfu_tx_buf u = rfu_tx_buf s" "rfu_sent u = rfu_sent s @ [(hc_client_id c, data_pkt NET_RFU_HOST_SEND
      (of_nat (tx_blen (rfu_tx_buf s))) (tx_buf (rfu_tx_buf s)) (tx_blen (rfu_tx_buf s)))]"
      by (simp_all add: u_def rfu_net_send_def)
    have "rfu_net_send_data (hc_client_id c) NET_RFU_HOST_SEND (of_nat (tx_blen (rfu_tx_buf s)))
      (tx_buf (rfu_tx_buf s)) (tx_blen (rfu_tx_buf s)) s = Some u"
      using Cons.prems by (simp add: rfu_net_send_data_def u_def)
    with Cons.IH [of u] Cons.prems u False show ?thesis by simp
  qed (use Cons in auto)
qed simp

text \<open>What a host puts on the network for a send command: one packet per connected client.\<close>

lemma host_send_packets:
  assumes s: "rfu_shape s" "rfu_state s = RFU_STATE_HOST"
    and p: "unat (rfu_plen s) = length ws + 1" "length ws \<le> 23"
    and b: "take (length ws + 1) (rfu_buf s) = h # ws"
    and l: "unat (h AND 0x7F) \<le> 90" "unat (h AND 0x7F) \<le> 4 * length ws"
  shows "\<exists>t ws'. cmd_send_data s = Some (0, t) \<and> take (length ws) ws' = ws \<and> length ws' = 23 \<and>
    rfu_sent t = rfu_sent s @
      map (\<lambda>c. (hc_client_id c, data_pkt NET_RFU_HOST_SEND (of_nat (unat (h AND 0x7F))) ws' (unat (h AND 0x7F))))
        (filter (\<lambda>c. hc_devid c \<noteq> 0) (h_clients (rfu_host s)))"
proof -
  have lb: "length (rfu_buf s) = 255" "length (tx_buf (rfu_tx_buf s)) = 23" using s by (auto simp: shapeD)
  have g: "arr_get (rfu_buf s) 0 = Some h" using b lb by (cases "rfu_buf s") auto
  have sl: "arr_slice (rfu_buf s) 1 (unat (rfu_plen s) - 1) = Some ws"
    using b lb p by (cases "rfu_buf s") auto
  obtain ws' where ws': "arr_blit (tx_buf (rfu_tx_buf s)) 0 ws = Some ws'"
    using arr_blit_total [of 0 ws "tx_buf (rfu_tx_buf s)"] lb p by auto
  have tk: "take (length ws) ws' = ws" "length ws' = 23"
    using arr_blit_zero_take [OF ws'] arr_blit_length [OF ws'] lb by auto
  let ?n = "unat (h AND 0x7F)"
  let ?u = "s\<lparr>rfu_tx_buf := \<lparr>tx_buf = ws', tx_blen = ?n\<rparr>\<rparr>"
  have ld: "load_tx s = Some ?u"
    unfolding load_tx_def g sl bind.bind_lunit ws' using s(2) by simp
  from send_clients_sent [of ?u "h_clients (rfu_host s)"] l p tk obtain t where
    "send_clients (h_clients (rfu_host s)) ?u = Some t" "rfu_sent t = rfu_sent s @
      map (\<lambda>c. (hc_client_id c, data_pkt NET_RFU_HOST_SEND (of_nat ?n) ws' ?n))
        (filter (\<lambda>c. hc_devid c \<noteq> 0) (h_clients (rfu_host s)))" by auto
  then have "cmd_send_data s = Some (0, t)"
    using ld s(2) l(1) p(1) by (auto simp: cmd_send_data_def cmd_rtx_def Let_def)
  then show ?thesis using tk \<open>rfu_sent t = _\<close> by blast
qed

text \<open>What a client with an empty queue hands its game after such a packet.\<close>

lemma client_receives:
  assumes c: "rfu_shape c" "rfu_state c = RFU_STATE_CLIENT" "hblen (c_pkts (rfu_client c) ! 0) = 0"
    and n: "0 < n" "n \<le> 90"
  shows "\<exists>c1 c2. rfu_net_receive ticks (data_pkt NET_RFU_HOST_SEND (of_nat n) ws n) cid c = Some c1 \<and>
     cmd_recv_data c1 = Some (int (1 + (n + 3) div 4), c2) \<and> rfu_buf c2 ! 0 = of_nat n \<and>
     (\<forall>i < n. word_byte (drop 1 (rfu_buf c2)) i = word_byte ws i)"
proof -
  let ?p = "data_pkt NET_RFU_HOST_SEND (of_nat n) ws n" and ?ps = "c_pkts (rfu_client c)"
  let ?bs = "map (word_byte ws) [0..<n]"
  have h: "of_nat n AND 0x7f = (of_nat n :: u32)"
  proof -
    have "take_bit 7 (of_nat n :: u32) = of_nat n"
      using n by (simp add: take_bit_of_nat take_bit_nat_eq_self)
    then show ?thesis by (simp add: take_bit_eq_mask mask_eq_exp_minus_1)
  qed
  have un: "unat (of_nat n :: u32) = n" using n by (simp add: unsigned_of_nat take_bit_nat_eq_self)
  have len4: "length ?ps = 4" "client_pkt_ok (?ps ! 0)"
    using shapeD(7) [OF c(1)] slots_inv_front by (simp add: slots_inv_def, blast)
  have f0: "find_idx (\<lambda>p. hblen p = 0) ?ps = Some 0"
    using c(3) len4 by (cases ?ps) auto
  from client_fill_ok [OF len4(2), of ?bs] n obtain q where
    q: "client_pkt_fill ?bs (?ps ! 0) = Some q" "client_pkt_ok q" "hblen q = n" "take n (hdata q) = ?bs"
    by auto
  have put: "slots_put hblen client_pkt_fill ?bs ?ps = Some (?ps[0 := q])"
    using f0 q(1) by (simp add: slots_put_def)
  define a where "a = rfu_net_send_cmd cid NET_RFU_CLIENT_ACK (client_word c) c"
  have a: "rfu_client a = rfu_client c" "rfu_state a = rfu_state c" "rfu_buf a = rfu_buf c"
    by (simp_all add: a_def rfu_net_send_cmd_def rfu_net_send_def)
  let ?c1 = "a\<lparr>rfu_client := (rfu_client a)\<lparr>c_pkts := ?ps[0 := q]\<rparr>\<rparr>"
  have tk: "take n (drop 12 ?p) = ?bs" by simp
  have "net_host_send ?p cid (of_nat n) c = Some ?c1"
    using c(2) n h un put tk by (simp add: net_host_send_def Let_def a(1) a_def [symmetric])
  then have rx: "rfu_net_receive ticks ?p cid c = Some ?c1"
    using n by (simp add: rfu_net_receive_def)
  have lb: "length (rfu_buf c) = 255" using c(1) by (simp add: shapeD)
  have n4: "(n + 3) div 4 \<le> 32" "n \<le> 4 * ((n + 3) div 4)" using n by linarith+
  with copy_words_safe [of 0 "(n + 3) div 4" "hdata q" 1 "(rfu_buf c)[0 := of_nat n]"] q lb
  obtain b where b: "copy_words (hdata q) 0 ((n + 3) div 4) 1 ((rfu_buf c)[0 := of_nat n]) = Some b"
    by (auto simp: client_pkt_ok_def)
  let ?c2 = "?c1\<lparr>rfu_buf := b, rfu_client := (rfu_client ?c1)\<lparr>c_pkts := client_pkts_pop (?ps[0 := q])\<rparr>\<rparr>"
  have rd: "cmd_recv_data ?c1 = Some (int (1 + (n + 3) div 4), ?c2)"
    using c(2) a len4 q(3) b lb by (simp add: cmd_recv_data_def recv_client_def Let_def)
  have "word_byte (drop 1 b) i = word_byte ws i" if "i < n" for i
  proof -
    have "word_byte (drop 1 b) i = hdata q ! i" using copy_words_bytes [OF b, of i] that n4 by simp
    also have "\<dots> = take n (hdata q) ! i" using that by simp
    finally show ?thesis using that q(4) by simp
  qed
  moreover have "b ! 0 = of_nat n" using copy_words_nth [OF b] lb by simp
  ultimately show ?thesis using rx rd by (intro exI [of _ ?c1] exI [of _ ?c2]) simp
qed

text \<open>C4: what a host's game sends is what a client's game receives: for a send command with
  at most 23 data words, every connected client is sent a packet whose reception by a
  client with an empty queue lets its next read return the byte count and the same bytes.\<close>

theorem host_to_client_roundtrip:
  assumes "rfu_shape s" "rfu_state s = RFU_STATE_HOST"
    and "unat (rfu_plen s) = length ws + 1" "length ws \<le> 23"
    and "take (length ws + 1) (rfu_buf s) = h # ws"
    and "0 < unat (h AND 0x7F)" "unat (h AND 0x7F) \<le> 90" "unat (h AND 0x7F) \<le> 4 * length ws"
    and "k < 4" "hc_devid (h_clients (rfu_host s) ! k) \<noteq> 0"
    and "rfu_shape c" "rfu_state c = RFU_STATE_CLIENT" "hblen (c_pkts (rfu_client c) ! 0) = 0"
  shows "\<exists>t pkt c1 c2. cmd_send_data s = Some (0, t) \<and>
     (hc_client_id (h_clients (rfu_host s) ! k), pkt) \<in> set (rfu_sent t) \<and>
     rfu_net_receive ticks pkt cid c = Some c1 \<and>
     cmd_recv_data c1 = Some (int (1 + (unat (h AND 0x7F) + 3) div 4), c2) \<and>
     unat (rfu_buf c2 ! 0) = unat (h AND 0x7F) \<and>
     (\<forall>i < unat (h AND 0x7F). word_byte (drop 1 (rfu_buf c2)) i = word_byte ws i)"
proof -
  let ?n = "unat (h AND 0x7F)"
  from host_send_packets [OF assms(1,2,3,4,5,7,8)] obtain t ws' where
    t: "cmd_send_data s = Some (0, t)" "take (length ws) ws' = ws" "length ws' = 23" and
    snt: "rfu_sent t = rfu_sent s @
      map (\<lambda>c. (hc_client_id c, data_pkt NET_RFU_HOST_SEND (of_nat ?n) ws' ?n))
        (filter (\<lambda>c. hc_devid c \<noteq> 0) (h_clients (rfu_host s)))" by blast
  let ?p = "data_pkt NET_RFU_HOST_SEND (of_nat ?n) ws' ?n"
  have e: "ws' = ws @ drop (length ws) ws'"
    using t(2) append_take_drop_id [of "length ws" ws'] by simp
  have "(hc_client_id (h_clients (rfu_host s) ! k), ?p) \<in> set (rfu_sent t)"
    using snt assms(1,9,10) by (auto simp: shapeD)
  moreover have "word_byte ws' i = word_byte ws i" if "i < ?n" for i
    by (subst e, rule word_byte_append) (use that assms(8) in linarith)
  moreover have "unat (of_nat ?n :: u32) = ?n" by simp
  moreover from client_receives [OF assms(11,12,13,6,7), of ticks ws' cid] obtain c1 c2 where
    "rfu_net_receive ticks ?p cid c = Some c1" "cmd_recv_data c1 = Some (int (1 + (?n + 3) div 4), c2)"
    "rfu_buf c2 ! 0 = of_nat ?n" "\<forall>i < ?n. word_byte (drop 1 (rfu_buf c2)) i = word_byte ws' i"
    by blast
  ultimately show ?thesis
    using t(1) by - (rule exI [of _ t], rule exI [of _ ?p], rule exI [of _ c1], rule exI [of _ c2], simp)
qed

definition sample_host :: rfu where
  "sample_host = rfu_boot\<lparr>rfu_state := RFU_STATE_HOST, rfu_comstate := RFU_COMSTATE_WAITCMD, rfu_plen := 2,
     rfu_cmd := RFU_CMD_SEND_DATA, rfu_buf := 4 # 0xCAFE1234 # replicate 253 0,
     rfu_host := zero_host\<lparr>h_devid := 9,
       h_clients := zero_host_client\<lparr>hc_devid := 7, hc_client_id := 3\<rparr> # replicate 3 zero_host_client\<rparr>\<rparr>"

lemma sample_host_shape: "rfu_shape sample_host"
proof -
  have "list_all host_client_ok (zero_host_client\<lparr>hc_devid := 7, hc_client_id := 3\<rparr> # replicate 3 zero_host_client)"
    using zero_host_client_ok by (simp add: list_all_iff host_client_ok_def)
  then show ?thesis
    using rfu_boot_wf by (simp add: sample_host_def rfu_wf_def rfu_shape_def rfu_boot_def zero_host_def)
qed

definition sample_client :: rfu where
  "sample_client = rfu_boot\<lparr>rfu_state := RFU_STATE_CLIENT, rfu_comstate := RFU_COMSTATE_WAITCMD\<rparr>"

lemma sample_client_shape: "rfu_shape sample_client"
  using rfu_boot_wf by (simp add: sample_client_def rfu_wf_def rfu_shape_def)

lemma host_to_client_roundtrip_witness:
  "\<exists>t pkt c1 c2. cmd_send_data sample_host = Some (0, t) \<and> (3, pkt) \<in> set (rfu_sent t) \<and>
     rfu_net_receive 0 pkt 1 sample_client = Some c1 \<and> cmd_recv_data c1 = Some (2, c2) \<and>
     unat (rfu_buf c2 ! 0) = 4 \<and> (\<forall>i < 4. word_byte (drop 1 (rfu_buf c2)) i = word_byte [0xCAFE1234] i)"
  using host_to_client_roundtrip [of sample_host "[0xCAFE1234]" 4 0 sample_client 0 1]
    sample_host_shape sample_client_shape
  by (simp add: sample_host_def sample_client_def rfu_boot_def zero_client_def zero_client_pkt_def)

section \<open>Connecting\<close>

lemma slot_header:
  assumes "i < 4"
  shows "slot_of (ucast (n :: u16) OR push_bit 16 (of_nat i)) = i"
    "(ucast (ucast n OR push_bit 16 (of_nat i) :: u32) :: u16) = n"
    "unat (ucast (drop_bit 16 (ucast n OR push_bit 16 (of_nat i) :: u32)) :: u16) = i"
proof -
  have d: "drop_bit 16 (ucast n OR push_bit 16 (of_nat i) :: u32) = of_nat i"
  proof (rule bit_word_eqI)
    fix k assume "k < LENGTH(32)"
    have "bit i k \<Longrightarrow> k < 2"
      using assms by (metis bit_take_bit_iff numeral_Bit0 power2_eq_square take_bit_nat_eq_self_iff mult_2
          numeral_One one_add_one)
    then show "bit (drop_bit 16 (ucast n OR push_bit 16 (of_nat i) :: u32)) k = bit (of_nat i :: u32) k"
      using bit_imp_le_length [of n "16 + k"] by (auto simp: bit_simps)
  qed
  have i: "i = 0 \<or> i = 1 \<or> i = 2 \<or> i = 3" using assms by auto
  then show "slot_of (ucast n OR push_bit 16 (of_nat i)) = i"
    unfolding slot_of_def d by auto
  show "(ucast (ucast n OR push_bit 16 (of_nat i) :: u32) :: u16) = n"
    by (rule bit_word_eqI) (auto simp: bit_simps)
  show "unat (ucast (drop_bit 16 (ucast n OR push_bit 16 (of_nat i) :: u32)) :: u16) = i"
    unfolding d using i by auto
qed

text \<open>C5: the connection handshake agrees on both sides. A host that is not full answers a
  request from a device it does not serve with one packet; when the requesting device
  receives it, it becomes a client whose slot number is the slot the host reserved for
  it and whose device identifier is the non-zero one stored there.\<close>

theorem connect_handshake:
  assumes "rfu_shape s" "rfu_state s = RFU_STATE_HOST" "rfu_state c = RFU_STATE_CONNECTING"
    and "\<forall>d \<in> set (h_clients (rfu_host s)). hc_devid d \<noteq> 0 \<longrightarrow> hc_client_id d \<noteq> cid"
    and "\<exists>d \<in> set (h_clients (rfu_host s)). hc_devid d = 0"
  shows "\<exists>t pkt d i. rfu_net_receive ticks (cmd_pkt NET_RFU_CONNECT_REQ h) cid s = Some t \<and>
     rfu_sent t = rfu_sent s @ [(cid, pkt)] \<and> rfu_net_receive ticks' pkt hid c = Some d \<and>
     rfu_state d = RFU_STATE_CLIENT \<and> i < 4 \<and> unat (c_clnum (rfu_client d)) = i \<and>
     c_host_id (rfu_client d) = hid \<and> c_devid (rfu_client d) \<noteq> 0 \<and>
     hc_devid (h_clients (rfu_host s) ! i) = 0 \<and>
     hc_devid (h_clients (rfu_host t) ! i) = c_devid (rfu_client d) \<and>
     hc_client_id (h_clients (rfu_host t) ! i) = cid"
proof -
  let ?cs = "h_clients (rfu_host s)"
  from assms(5) obtain i where i: "find_idx (\<lambda>c. hc_devid c = 0) ?cs = Some i"
    by (cases "find_idx (\<lambda>c. hc_devid c = 0) ?cs") (auto simp: find_idx_None)
  from find_idx_SomeD [OF i] assms(1) have i4: "i < 4" "hc_devid (?cs ! i) = 0" "length ?cs = 4"
    by (auto simp: shapeD)
  obtain n r where nd: "new_devid ticks (random_state s) = (n, r)" by fastforce
  with new_devid_nonzero [of ticks "random_state s"] have n0: "n \<noteq> 0" by simp
  let ?h = "ucast n OR push_bit 16 (of_nat i) :: u32"
  have nu: "\<not> list_ex (\<lambda>c. hc_devid c \<noteq> 0 \<and> hc_client_id c = cid) ?cs"
    using assms(4) by (auto simp: list_ex_iff)
  let ?t = "net_connect_req ticks cid s" and ?d = "net_connect_ack hid ?h c"
  have t: "?t = rfu_net_send_cmd cid NET_RFU_CONNECT_ACK ?h
      (set_clients (?cs[i := (?cs ! i)\<lparr>hc_devid := n, hc_client_id := cid\<rparr>]) (s\<lparr>random_state := r\<rparr>))"
    using assms(2) nu i nd by (simp add: net_connect_req_def Let_def)
  have rt: "rfu_net_receive ticks (cmd_pkt NET_RFU_CONNECT_REQ h) cid s = Some ?t"
    by (simp add: rfu_net_receive_def)
  have st: "rfu_sent ?t = rfu_sent s @ [(cid, cmd_pkt NET_RFU_CONNECT_ACK ?h)]"
    by (simp add: t rfu_net_send_cmd_def rfu_net_send_def set_clients_def)
  have ct: "h_clients (rfu_host ?t) ! i = (?cs ! i)\<lparr>hc_devid := n, hc_client_id := cid\<rparr>"
    using i4 by (simp add: t rfu_net_send_cmd_def rfu_net_send_def set_clients_def)
  have rd: "rfu_net_receive ticks' (cmd_pkt NET_RFU_CONNECT_ACK ?h) hid c = Some ?d"
    by (simp add: rfu_net_receive_def)
  have d: "rfu_state ?d = RFU_STATE_CLIENT" "c_devid (rfu_client ?d) = n" "c_host_id (rfu_client ?d) = hid"
    "unat (c_clnum (rfu_client ?d)) = i"
    using slot_header [OF i4(1), of n] assms(3) by (simp_all add: net_connect_ack_def)
  show ?thesis
    by (rule exI [of _ ?t], rule exI [of _ "cmd_pkt NET_RFU_CONNECT_ACK ?h"], rule exI [of _ ?d],
        rule exI [of _ i]) (simp add: rt st rd d ct i4 n0)
qed

lemma connect_handshake_witness:
  "\<exists>t pkt d i. rfu_net_receive 5 (cmd_pkt NET_RFU_CONNECT_REQ 9) 4 sample_host = Some t \<and>
     rfu_sent t = rfu_sent sample_host @ [(4, pkt)] \<and>
     rfu_net_receive 6 pkt 1 (rfu_boot\<lparr>rfu_state := RFU_STATE_CONNECTING\<rparr>) = Some d \<and>
     rfu_state d = RFU_STATE_CLIENT \<and> i < 4 \<and> unat (c_clnum (rfu_client d)) = i \<and>
     c_host_id (rfu_client d) = 1 \<and> c_devid (rfu_client d) \<noteq> 0 \<and>
     hc_devid (h_clients (rfu_host sample_host) ! i) = 0 \<and>
     hc_devid (h_clients (rfu_host t) ! i) = c_devid (rfu_client d) \<and>
     hc_client_id (h_clients (rfu_host t) ! i) = 4"
  by (rule connect_handshake [OF sample_host_shape])
    (simp_all add: sample_host_def zero_host_client_def)

section \<open>Silence\<close>

lemma frame_clients:
  assumes "rfu_comstate s \<noteq> RFU_COMSTATE_RESET" "rfu_state s = RFU_STATE_HOST"
  shows "h_clients (rfu_host (rfu_frame_update s)) = map age_client (h_clients (rfu_host s)) \<and>
     rfu_comstate (rfu_frame_update s) = rfu_comstate s \<and> rfu_state (rfu_frame_update s) = RFU_STATE_HOST"
  using assms
  by (simp add: rfu_frame_update_def announce_def Let_def rfu_net_send_bcast_def rfu_net_send_def
      set_clients_def)

lemma frames_clients:
  assumes "rfu_comstate s \<noteq> RFU_COMSTATE_RESET" "rfu_state s = RFU_STATE_HOST"
  shows "h_clients (rfu_host ((rfu_frame_update ^^ n) s)) = map (age_client ^^ n) (h_clients (rfu_host s)) \<and>
     rfu_comstate ((rfu_frame_update ^^ n) s) = rfu_comstate s \<and>
     rfu_state ((rfu_frame_update ^^ n) s) = RFU_STATE_HOST"
proof (induction n)
  case (Suc n)
  with assms frame_clients [of "(rfu_frame_update ^^ n) s"] show ?case by simp
qed (use assms in simp)

lemma age_client_n:
  assumes "hc_devid c \<noteq> 0" "hc_clttl c = 0" "n < 240"
  shows "(age_client ^^ n) c = c\<lparr>hc_clttl := of_nat n\<rparr>"
  using assms(3)
proof (induction n)
  case 0
  with assms(2) show ?case by (cases c) simp
next
  case (Suc n)
  have "unat (of_nat (Suc n) :: u16) = Suc n"
    using Suc.prems by (simp add: unsigned_of_nat take_bit_nat_eq_self del: of_nat_Suc)
  moreover have "unat (240 :: u16) = 240" by simp
  moreover have e: "of_nat n + 1 = (of_nat (Suc n) :: u16)" by simp
  ultimately have "\<not> 240 \<le> (of_nat n + 1 :: u16)"
    using Suc.prems unfolding word_le_nat_alt e by linarith
  with Suc assms(1) show ?case by (simp add: age_client_def Let_def add.commute)
qed

text \<open>C6: a client that stays silent is kept for 239 frames and dropped by the 240th: its slot
  is cleared and free for another device.\<close>

theorem silent_client_dropped:
  assumes "rfu_shape s" "rfu_comstate s \<noteq> RFU_COMSTATE_RESET" "rfu_state s = RFU_STATE_HOST"
    and "k < 4" "hc_devid (h_clients (rfu_host s) ! k) \<noteq> 0" "hc_clttl (h_clients (rfu_host s) ! k) = 0"
  shows "(\<forall>n < 240. hc_devid (h_clients (rfu_host ((rfu_frame_update ^^ n) s)) ! k) =
             hc_devid (h_clients (rfu_host s) ! k)) \<and>
     h_clients (rfu_host ((rfu_frame_update ^^ 240) s)) ! k = zero_host_client"
proof -
  let ?c = "h_clients (rfu_host s) ! k"
  have k: "k < length (h_clients (rfu_host s))" using assms(1,4) by (simp add: shapeD)
  have nth: "h_clients (rfu_host ((rfu_frame_update ^^ m) s)) ! k = (age_client ^^ m) ?c" for m
    using frames_clients [OF assms(2,3), of m] k by simp
  have live: "\<forall>n < 240. hc_devid (h_clients (rfu_host ((rfu_frame_update ^^ n) s)) ! k) = hc_devid ?c"
    using nth age_client_n [OF assms(5,6)] by simp
  have "(age_client ^^ 240) ?c = age_client ((age_client ^^ 239) ?c)"
    by (simp add: eval_nat_numeral)
  also have "\<dots> = zero_host_client"
    using age_client_n [OF assms(5,6), of 239] assms(5) by (simp add: age_client_def)
  finally show ?thesis
    using nth live by (simp del: funpow.simps)
qed

lemma silent_client_dropped_witness:
  "h_clients (rfu_host ((rfu_frame_update ^^ 240) sample_host)) ! 0 = zero_host_client"
  using silent_client_dropped [OF sample_host_shape, of 0]
  by (simp add: sample_host_def zero_host_client_def del: funpow.simps)

section \<open>Broadcasts\<close>

lemma frame_peers:
  assumes "rfu_comstate s \<noteq> RFU_COMSTATE_RESET"
  shows "rfu_peer_bcst (rfu_frame_update s) = map expire_peer (rfu_peer_bcst s) \<and>
     rfu_comstate (rfu_frame_update s) = rfu_comstate s"
  using assms
  by (simp add: rfu_frame_update_def announce_def Let_def rfu_net_send_bcast_def rfu_net_send_def
      set_clients_def)

lemma frames_peers:
  assumes "rfu_comstate s \<noteq> RFU_COMSTATE_RESET"
  shows "rfu_peer_bcst ((rfu_frame_update ^^ n) s) = map (expire_peer ^^ n) (rfu_peer_bcst s) \<and>
     rfu_comstate ((rfu_frame_update ^^ n) s) = rfu_comstate s"
proof (induction n)
  case (Suc n)
  with assms frame_peers [of "(rfu_frame_update ^^ n) s"] show ?case by simp
qed simp

lemma expire_peer_n:
  assumes "b_valid p" "b_ttl p = 0xff" "n < 255"
  shows "(expire_peer ^^ n) p = p\<lparr>b_ttl := of_nat (255 - n)\<rparr>"
  using assms(3)
proof (induction n)
  case 0
  with assms(2) show ?case by (cases p) simp
next
  case (Suc n)
  have d: "(of_nat (255 - n) - 1 :: u8) = of_nat (255 - Suc n)"
    using Suc.prems by (simp add: of_nat_diff)
  have "unat (of_nat (255 - Suc n) :: u8) = 255 - Suc n"
    by (simp add: unsigned_of_nat take_bit_nat_eq_self)
  then have "(of_nat (255 - Suc n) :: u8) \<noteq> 0" using Suc.prems by auto
  with Suc d assms(1) show ?case by (simp add: expire_peer_def Let_def)
qed

text \<open>The broadcast a host sends: on the first frame after the command that starts hosting,
  then every 31 frames.\<close>

lemma host_start_announces:
  assumes "rfu_state s = RFU_STATE_HOST" "rfu_comstate s \<noteq> RFU_COMSTATE_RESET"
    "BCST_ANNOUNCE_VB \<le> h_tx_ttl (rfu_host s)"
  shows "rfu_sent (rfu_frame_update s) = rfu_sent s @
     [(0xffff, bcst_pkt NET_RFU_BROADCAST (ucast (h_devid (rfu_host s))) (h_bdata (rfu_host s)))]"
  using assms by (simp add: rfu_frame_update_def announce_def Let_def rfu_net_send_bcast_def
      rfu_net_send_def set_clients_def)

lemma upack_bcst_word:
  assumes "j < 6" "length ws = 6"
  shows "upack32 (drop (j * 4) (concat (map (\<lambda>j. be_bytes (ws ! j)) [0..<6]))) = ws ! j"
proof -
  have e: "concat (map (\<lambda>j. be_bytes (ws ! j)) [0..<6]) =
     be_bytes (ws ! 0) @ be_bytes (ws ! 1) @ be_bytes (ws ! 2) @ be_bytes (ws ! 3) @ be_bytes (ws ! 4) @ be_bytes (ws ! 5)"
    by (simp add: upt_rec numeral_eq_Suc)
  have "drop 16 (be_bytes a @ r) = drop 12 r" "drop 20 (be_bytes a @ r) = drop 16 r" for a r
    by (simp_all add: be_bytes_def)
  moreover have "j = 0 \<or> j = 1 \<or> j = 2 \<or> j = 3 \<or> j = 4 \<or> j = 5" using assms(1) by auto
  ultimately show ?thesis unfolding e by auto
qed

text \<open>C7: a host is found by its peers. The frame after hosting starts broadcasts the host's
  identifier and game data; a peer that receives the packet lists exactly this
  identifier and data for that device for the next 254 frames, and forgets it at the
  255th if nothing else arrives.\<close>

theorem broadcast_roundtrip:
  assumes "rfu_shape s" "rfu_state s = RFU_STATE_HOST" "rfu_comstate s \<noteq> RFU_COMSTATE_RESET"
    and "BCST_ANNOUNCE_VB \<le> h_tx_ttl (rfu_host s)"
    and "rfu_shape c" "rfu_comstate c \<noteq> RFU_COMSTATE_RESET" "unat cid < MAX_RFU_PEERS"
  shows "\<exists>pkt d. rfu_sent (rfu_frame_update s) = rfu_sent s @ [(0xffff, pkt)] \<and>
     rfu_net_receive ticks pkt cid c = Some d \<and>
     (\<forall>n < 255. let p = rfu_peer_bcst ((rfu_frame_update ^^ n) d) ! unat cid in
        b_valid p \<and> b_device_id p = h_devid (rfu_host s) \<and> b_data p = h_bdata (rfu_host s)) \<and>
     \<not> b_valid (rfu_peer_bcst ((rfu_frame_update ^^ 255) d) ! unat cid)"
proof -
  let ?p = "bcst_pkt NET_RFU_BROADCAST (ucast (h_devid (rfu_host s))) (h_bdata (rfu_host s))"
  let ?b = "\<lparr>b_valid = True, b_ttl = 0xff, b_device_id = h_devid (rfu_host s), b_data = h_bdata (rfu_host s)\<rparr>"
  let ?d = "c\<lparr>rfu_peer_bcst := (rfu_peer_bcst c)[unat cid := ?b]\<rparr>"
  have lh: "length (h_bdata (rfu_host s)) = 6" using assms(1) by (simp add: shapeD)
  have lp: "length (rfu_peer_bcst c) = 32" using assms(5) by (simp add: shapeD)
  have ws: "map (\<lambda>j. upack32 (drop (j * 4) (concat (map (\<lambda>j. be_bytes (h_bdata (rfu_host s) ! j)) [0..<6])))) [0..<6]
     = h_bdata (rfu_host s)"
    using upack_bcst_word [OF _ lh] lh by (intro nth_equalityI) auto
  have sl: "arr_slice ?p 12 24 = Some (concat (map (\<lambda>j. be_bytes (h_bdata (rfu_host s) ! j)) [0..<6]))"
    by (simp add: bcst_pkt_eq upt_rec)
  have uc: "(ucast (ucast (h_devid (rfu_host s)) :: u32) :: u16) = h_devid (rfu_host s)"
    by (rule bit_word_eqI) (auto simp: bit_simps)
  have rx: "rfu_net_receive ticks ?p cid c = Some ?d"
    using assms(7) lp sl ws uc
    by (simp add: rfu_net_receive_def net_broadcast_def)
  have cs: "rfu_comstate ?d \<noteq> RFU_COMSTATE_RESET" using assms(6) by simp
  have nth: "rfu_peer_bcst ((rfu_frame_update ^^ n) ?d) ! unat cid = (expire_peer ^^ n) ?b" for n
    using frames_peers [OF cs, of n] assms(7) lp by simp
  have live: "(expire_peer ^^ n) ?b = ?b\<lparr>b_ttl := of_nat (255 - n)\<rparr>" if "n < 255" for n
    using that by (intro expire_peer_n) auto
  have "(expire_peer ^^ 255) ?b = expire_peer ((expire_peer ^^ 254) ?b)"
    by (simp add: eval_nat_numeral)
  also have "\<dots> = expire_peer (?b\<lparr>b_ttl := 1\<rparr>)" using live [of 254] by simp
  finally have dead: "\<not> b_valid ((expire_peer ^^ 255) ?b)" by (simp add: expire_peer_def)
  show ?thesis
    by (rule exI [of _ ?p], rule exI [of _ ?d])
      (simp add: host_start_announces [OF assms(2,3,4)] rx nth live dead del: funpow.simps)
qed

lemma broadcast_roundtrip_witness:
  "\<exists>pkt d. rfu_sent (rfu_frame_update (sample_host\<lparr>rfu_host := (rfu_host sample_host)\<lparr>h_tx_ttl := 0xff\<rparr>\<rparr>))
       = rfu_sent sample_host @ [(0xffff, pkt)] \<and>
     rfu_net_receive 0 pkt 5 sample_client = Some d \<and>
     (\<forall>n < 255. b_device_id (rfu_peer_bcst ((rfu_frame_update ^^ n) d) ! 5) = 9) \<and>
     \<not> b_valid (rfu_peer_bcst ((rfu_frame_update ^^ 255) d) ! 5)"
proof -
  let ?s = "sample_host\<lparr>rfu_host := (rfu_host sample_host)\<lparr>h_tx_ttl := 0xff\<rparr>\<rparr>"
  have "rfu_shape ?s" using sample_host_shape by (simp add: rfu_shape_def)
  from broadcast_roundtrip [OF this _ _ _ sample_client_shape, of 5 0] show ?thesis
    by (simp add: sample_host_def sample_client_def Let_def del: funpow.simps) blast
qed

section \<open>Waiting\<close>

lemma wait_event_slave:
  assumes "read_ioreg regs REG_SIOCNT AND 1 = 0" "wait_event cycles regs s = Some t"
    "rfu_comstate s = RFU_COMSTATE_WAITEVENT" "rfu_comstate t = RFU_COMSTATE_WAITEVENT"
  shows "unat cycles < unat (rfu_timeout_cycles s) \<and>
     unat (rfu_timeout_cycles t) = unat (rfu_timeout_cycles s) - unat cycles"
proof -
  define u where "u = s\<lparr>rfu_timeout_cycles := rfu_timeout_cycles s - min cycles (rfu_timeout_cycles s),
     rfu_resp_timeout := rfu_resp_timeout s - min cycles (rfu_resp_timeout s)\<rparr>"
  have er: "rfu_comstate z = RFU_COMSTATE_WAITRESP" if "event_resp ws u = Some z" for ws z
    using that by (auto simp: event_resp_def bind_eq_Some_conv)
  from assms(2,4) have t: "t = u" "rfu_timeout_cycles u \<noteq> 0"
    unfolding wait_event_def Let_def u_def [symmetric]
    using assms(1) by (auto split: if_splits dest: er)
  from t(2) have "min cycles (rfu_timeout_cycles s) \<noteq> rfu_timeout_cycles s" by (simp add: u_def)
  then have lt: "cycles < rfu_timeout_cycles s" by (simp add: min_def split: if_splits)
  then have "unat (rfu_timeout_cycles s - cycles) = unat (rfu_timeout_cycles s) - unat cycles"
    by (simp add: unat_sub order_less_imp_le)
  moreover have "cycles \<le> rfu_timeout_cycles s" using lt by simp
  ultimately show ?thesis using lt t(1) by (simp add: u_def min_def word_less_nat_alt)
qed

text \<open>Packets do not touch the time that is left.\<close>

lemma timeout_sent: "rfu_timeout_cycles (rfu_net_send_cmd cid ty h s) = rfu_timeout_cycles s"
  by (simp add: rfu_net_send_cmd_def rfu_net_send_def)

lemma net_receive_timeout:
  "rfu_net_receive ticks buf cid s = Some t \<Longrightarrow> rfu_timeout_cycles t = rfu_timeout_cycles s"
  unfolding rfu_net_receive_def Let_def
  by (auto simp: net_broadcast_def net_connect_req_def net_connect_ack_def net_connect_nack_def net_disconnect_def
      net_host_send_def net_client_send_def net_client_ack_def set_clients_def timeout_sent Let_def
      split: if_splits option.splits prod.splits rfu_state_t.splits Option.bind_splits)

lemma poll_receive_timeout:
  "poll_receive ticks ps s = Some t \<Longrightarrow> rfu_timeout_cycles t = rfu_timeout_cycles s"
proof (induction ps arbitrary: s)
  case (Cons p ps)
  then show ?case by (cases p) (auto split: Option.bind_splits dest: net_receive_timeout)
qed simp

text \<open>A run of cycle updates, each with the network packets that arrive in it.\<close>

fun wait_run :: "u32 \<Rightarrow> (u32 \<times> (u16 \<times> u8 list) list) list \<Rightarrow> ioregs \<Rightarrow> rfu \<Rightarrow> (ioregs \<times> rfu) option" where
  "wait_run ticks [] regs s = Some (regs, s)"
| "wait_run ticks ((c, ps) # cs) regs s = do {
     (irq, regs, s) \<leftarrow> rfu_update ticks ps c regs s;
     wait_run ticks cs regs s }"

lemma rfu_update_wait:
  assumes "rfu_wf s" "read_ioreg regs REG_SIOCNT AND 1 = 0" "list_all (net_ok \<circ> snd) ps"
  shows "\<exists>irq regs' t. rfu_update ticks ps c regs s = Some (irq, regs', t) \<and> rfu_wf t \<and>
    read_ioreg regs' REG_SIOCNT AND 1 = 0 \<and>
    (rfu_comstate s \<noteq> RFU_COMSTATE_WAITEVENT \<longrightarrow> rfu_comstate t \<noteq> RFU_COMSTATE_WAITEVENT) \<and>
    (rfu_comstate t = RFU_COMSTATE_WAITEVENT \<longrightarrow> unat c < unat (rfu_timeout_cycles s) \<and>
       unat (rfu_timeout_cycles t) = unat (rfu_timeout_cycles s) - unat c)"
proof -
  have and80: "(r AND - 129) AND 1 = r AND 1" for r :: u16
    by (simp add: and.assoc)
  from rfu_update_total [OF assms(1,3), of ticks c regs] obtain irq regs' t where
    u: "rfu_update ticks ps c regs s = Some (irq, regs', t)" "rfu_wf t" by auto
  have push: "rfu_comstate z = RFU_COMSTATE_WAITRESP \<Longrightarrow> push_event regs z = Some (irq, regs', t) \<Longrightarrow>
      rfu_comstate t \<noteq> RFU_COMSTATE_WAITEVENT \<and> read_ioreg regs' REG_SIOCNT AND 1 = 0" for z
    using assms(2) by (auto simp: push_event_def Let_def bind_eq_Some_conv and80 split: if_splits)
  show ?thesis
  proof (cases "rfu_comstate s = RFU_COMSTATE_WAITEVENT")
    case True
    from poll_receive_total [of s ps ticks] assms(1,3) obtain y where
      y: "poll_receive ticks ps s = Some y" "rfu_comstate y = RFU_COMSTATE_WAITEVENT"
      using True by (auto simp: rfu_wf_def net_post_def same_link_def)
    with u True obtain z where z: "wait_event c regs y = Some z"
      "(if rfu_comstate z = RFU_COMSTATE_WAITRESP then push_event regs z else Some (False, regs, z)) = Some (irq, regs', t)"
      by (auto simp: rfu_update_def bind_eq_Some_conv)
    with push [of z] u assms(2) wait_event_slave [OF assms(2) z(1) y(2)] True poll_receive_timeout [OF y(1)] show ?thesis
      by (auto split: if_splits)
  next
    case False
    with u push [of s] assms(2) show ?thesis
      by (auto simp: rfu_update_def split: if_splits)
  qed
qed

lemma wait_run_ends:
  assumes "rfu_wf s" "read_ioreg regs REG_SIOCNT AND 1 = 0" "\<forall>(c, ps) \<in> set cs. list_all (net_ok \<circ> snd) ps"
  shows "\<exists>regs' t. wait_run ticks cs regs s = Some (regs', t) \<and> rfu_wf t \<and>
    (rfu_comstate s \<noteq> RFU_COMSTATE_WAITEVENT \<longrightarrow> rfu_comstate t \<noteq> RFU_COMSTATE_WAITEVENT) \<and>
    (cs \<noteq> [] \<and> unat (rfu_timeout_cycles s) \<le> (\<Sum>e\<leftarrow>cs. unat (fst e)) \<longrightarrow>
       rfu_comstate t \<noteq> RFU_COMSTATE_WAITEVENT)"
  using assms
proof (induction cs arbitrary: s regs)
  case (Cons e cs)
  obtain c ps where e: "e = (c, ps)" by fastforce
  with Cons.prems have ps: "list_all (net_ok \<circ> snd) ps" "\<forall>(c, ps) \<in> set cs. list_all (net_ok \<circ> snd) ps"
    by (simp_all add: comp_def)
  from rfu_update_wait [OF Cons.prems(1,2) ps(1), of ticks c] obtain irq regs1 s1 where
    u: "rfu_update ticks ps c regs s = Some (irq, regs1, s1)" "rfu_wf s1"
      "read_ioreg regs1 REG_SIOCNT AND 1 = 0"
      "rfu_comstate s \<noteq> RFU_COMSTATE_WAITEVENT \<longrightarrow> rfu_comstate s1 \<noteq> RFU_COMSTATE_WAITEVENT"
      "rfu_comstate s1 = RFU_COMSTATE_WAITEVENT \<longrightarrow> unat c < unat (rfu_timeout_cycles s) \<and>
         unat (rfu_timeout_cycles s1) = unat (rfu_timeout_cycles s) - unat c" by blast
  from Cons.IH [OF u(2,3) ps(2)] obtain regs2 t where
    v: "wait_run ticks cs regs1 s1 = Some (regs2, t)" "rfu_wf t"
      "rfu_comstate s1 \<noteq> RFU_COMSTATE_WAITEVENT \<longrightarrow> rfu_comstate t \<noteq> RFU_COMSTATE_WAITEVENT"
      "cs \<noteq> [] \<and> unat (rfu_timeout_cycles s1) \<le> (\<Sum>e\<leftarrow>cs. unat (fst e)) \<longrightarrow>
         rfu_comstate t \<noteq> RFU_COMSTATE_WAITEVENT" by blast
  have "rfu_comstate t \<noteq> RFU_COMSTATE_WAITEVENT"
    if "unat (rfu_timeout_cycles s) \<le> unat c + (\<Sum>e\<leftarrow>cs. unat (fst e))"
  proof (cases "rfu_comstate s1 = RFU_COMSTATE_WAITEVENT")
    case True
    with u(5) that have "unat (rfu_timeout_cycles s1) \<le> (\<Sum>e\<leftarrow>cs. unat (fst e))" "cs \<noteq> []" by auto
    with v(4) show ?thesis by blast
  qed (use v(3) in blast)
  with u v e show ?case by auto
qed simp

text \<open>C8: a wait command ends once the game has switched the port to the slave clock. However the
  elapsed cycles are cut into updates, and whatever packets of the adapter's own senders arrive in
  them, or none, once the cycles add up to the timeout (at most 255 frames, from the acknowledged
  command) the adapter has left the waiting state. A game that keeps driving the clock
  is not answered; the code waits for it on purpose.\<close>

theorem wait_command_ends:
  assumes "rfu_wf s" "rfu_comstate s = RFU_COMSTATE_RESPCMD" "waits (rfu_cmd s)"
    and "read_ioreg regs REG_SIOCNT AND 1 = 0" and "\<forall>(c, ps) \<in> set cs. list_all (net_ok \<circ> snd) ps"
    and "cs \<noteq> []" "unat (rfu_timeout s) * 279620 \<le> (\<Sum>e\<leftarrow>cs. unat (fst e))"
  shows "\<exists>ret s1 regs' t. rfu_transfer ticks v s = Some (ret, s1) \<and>
     rfu_comstate s1 = RFU_COMSTATE_WAITEVENT \<and>
     wait_run ticks cs regs s1 = Some (regs', t) \<and> rfu_comstate t \<noteq> RFU_COMSTATE_WAITEVENT"
proof -
  have "game_word_ok v s" using assms(2) by (simp add: game_word_ok_def)
  from rfu_transfer_total [OF assms(1) this, of ticks] obtain ret s1 where
    s1: "rfu_transfer ticks v s = Some (ret, s1)" "rfu_wf s1" by blast
  then have w: "rfu_comstate s1 = RFU_COMSTATE_WAITEVENT"
    "rfu_timeout_cycles s1 = ucast (rfu_timeout s) * 279620"
    using assms(2,3) by (auto simp: rfu_transfer_def rfu_transfer_step_def xfer_respcmd_def)
  have "unat (rfu_timeout_cycles s1) \<le> unat (rfu_timeout s) * 279620"
  proof -
    have "unat (ucast (rfu_timeout s) * 279620 :: u32) \<le> unat (ucast (rfu_timeout s) :: u32) * unat (279620 :: u32)"
      by (simp add: unat_word_ariths)
    also have "\<dots> = unat (rfu_timeout s) * 279620"
      using unat_u8_le [of "rfu_timeout s"] by (simp add: unsigned_ucast_eq take_bit_nat_eq_self)
    finally show ?thesis by (simp add: w)
  qed
  with wait_run_ends [OF s1(2) assms(4,5), of ticks] assms(6,7) have
    "\<exists>regs' t. wait_run ticks cs regs s1 = Some (regs', t) \<and> rfu_comstate t \<noteq> RFU_COMSTATE_WAITEVENT"
    by (auto dest: order_trans)
  with s1 w show ?thesis by blast
qed

lemma wait_command_ends_witness:
  "\<exists>ret s1 regs' t. rfu_transfer 0 0 (sample_client\<lparr>rfu_comstate := RFU_COMSTATE_RESPCMD, rfu_cmd := RFU_CMD_WAIT, rfu_timeout := 2\<rparr>) = Some (ret, s1) \<and>
     rfu_comstate s1 = RFU_COMSTATE_WAITEVENT \<and>
     wait_run 0 [(500000, []), (59240, [])] (\<lambda>_. 0) s1 = Some (regs', t) \<and> rfu_comstate t \<noteq> RFU_COMSTATE_WAITEVENT"
proof (rule wait_command_ends)
  let ?s = "sample_client\<lparr>rfu_comstate := RFU_COMSTATE_RESPCMD, rfu_cmd := RFU_CMD_WAIT, rfu_timeout := 2\<rparr>"
  have "rfu_shape ?s" using sample_client_shape by (simp add: rfu_shape_def)
  moreover have "rfu_fsm ?s" by (simp add: rfu_fsm_def sample_client_def rfu_boot_def)
  ultimately show "rfu_wf ?s" by (simp add: rfu_wf_def)
qed (simp_all add: waits_def read_ioreg_def)

end
