(* ===== verification/SerialPoke.thy ===== *)
theory SerialPoke
  imports IoRegs
begin

text \<open>
  The Pokemon link protocol of \<^verbatim>\<open>serial_proto.c\<close>: the \<open>poke\<close> half of the static union,
  the frame packers and the four entry points. \<open>me\<close> is the static
  \<^verbatim>\<open>netplay_client_id\<close>; broadcast packets are appended to \<open>pk_sent\<close>. An access outside
  an array (a peer index above 3, a queue row above 127) is \<^term>\<open>None\<close>.
\<close>

section \<open>Half-word packing\<close>

definition be16 :: "u16 \<Rightarrow> u16 \<Rightarrow> u32" where
  "be16 a b = push_bit 16 (ucast a) OR ucast b"

fun pack16 :: "nat \<Rightarrow> u16 list \<Rightarrow> nat \<Rightarrow> u8 list option" where
  "pack16 i d 0 = Some []"
| "pack16 i d (Suc n) = do {
     a \<leftarrow> arr_get d (i * 2);
     b \<leftarrow> arr_get d (i * 2 + 1);
     r \<leftarrow> pack16 (Suc i) d n;
     Some (le_bytes (netorder32 (be16 a b)) @ r) }"

text \<open>The C function, writing \<^verbatim>\<open>(wcnt+1)/2\<close> words into a buffer of \<open>room\<close> words.\<close>

definition pack16_into :: "nat \<Rightarrow> u16 list \<Rightarrow> nat \<Rightarrow> u8 list option" where
  "pack16_into room d wcnt = (if (wcnt + 1) div 2 \<le> room then pack16 0 d ((wcnt + 1) div 2) else None)"

fun unpack16 :: "nat \<Rightarrow> u8 list \<Rightarrow> nat \<Rightarrow> u16 list option" where
  "unpack16 i d 0 = Some []"
| "unpack16 i d (Suc n) = do {
     w \<leftarrow> arr_slice d (i div 2 * 4) 4;
     r \<leftarrow> unpack16 (Suc i) d n;
     Some (ucast (drop_bit (if odd i then 0 else 16) (netorder32 (leupack32 w))) # r) }"

definition ismemzero :: "u16 list \<Rightarrow> bool" where
  "ismemzero d = list_all (\<lambda>w. w = 0) d"

section \<open>State\<close>

abbreviation (input) MAX_QPACK :: nat where "MAX_QPACK \<equiv> 128"
abbreviation (input) NET_SERPOKE_HEADER :: u32 where "NET_SERPOKE_HEADER \<equiv> 0x4d504b31"
abbreviation (input) STATE_PREINIT :: u16 where "STATE_PREINIT \<equiv> 0"
abbreviation (input) STATE_HANDSHAKE :: u16 where "STATE_HANDSHAKE \<equiv> 1"
abbreviation (input) STATE_CONNECTED :: u16 where "STATE_CONNECTED \<equiv> 2"
abbreviation (input) SEQ_HANDSHAKE_TOKENS :: u8 where "SEQ_HANDSHAKE_TOKENS \<equiv> 18"
abbreviation (input) SLAVE_IRQ_CYCLES_C :: u32 where "SLAVE_IRQ_CYCLES_C \<equiv> 28672"
abbreviation (input) SLAVE_IRQ_CYCLES_H :: u32 where "SLAVE_IRQ_CYCLES_H \<equiv> 280064"
abbreviation (input) MAX_FRAME_TIMEOUT :: u8 where "MAX_FRAME_TIMEOUT \<equiv> 240"
abbreviation (input) MASTER_HANDSHAKE :: u16 where "MASTER_HANDSHAKE \<equiv> 0x8FFF"
abbreviation (input) SLAVE_HANDSHAKE :: u16 where "SLAVE_HANDSHAKE \<equiv> 0xB9A0"

record poke_peer =
  pp_data :: "u16 list list"
  pp_state :: u16
  pp_count :: u8
  pp_recvd :: bool
  pp_timeout :: u8

record poke =
  pk_peers :: "poke_peer list"
  pk_checksum :: u16
  pk_offset :: u8
  pk_hscnt :: u8
  pk_frcnt :: u32
  pk_sent :: "u8 list list"

definition zero_poke_peer :: poke_peer where
  "zero_poke_peer = \<lparr>pp_data = replicate MAX_QPACK (replicate 8 0), pp_state = 0, pp_count = 0,
                     pp_recvd = False, pp_timeout = 0\<rparr>"

definition poke_reset :: "poke \<Rightarrow> poke" where
  "poke_reset s = \<lparr>pk_peers = replicate 4 zero_poke_peer, pk_checksum = 0, pk_offset = 0,
                   pk_hscnt = 0, pk_frcnt = 0, pk_sent = pk_sent s\<rparr>"

definition upd_peer :: "nat \<Rightarrow> (poke_peer \<Rightarrow> poke_peer) \<Rightarrow> poke \<Rightarrow> poke" where
  "upd_peer i f s = s\<lparr>pk_peers := (pk_peers s)[i := f (pk_peers s ! i)]\<rparr>"

section \<open>Sending\<close>

definition serialpoke_senddata :: "u16 \<Rightarrow> u16 list option \<Rightarrow> poke \<Rightarrow> poke option" where
  "serialpoke_senddata st packet s =
     (let hdr = (\<lambda>flags. le_bytes (netorder32 NET_SERPOKE_HEADER) @ le_bytes (netorder32 flags)) in
      case packet of
        None \<Rightarrow> Some (s\<lparr>pk_sent := pk_sent s @ [hdr (ucast st) @ replicate 16 0]\<rparr>)
      | Some p \<Rightarrow> do {
          b \<leftarrow> pack16_into 4 p 8;
          Some (s\<lparr>pk_sent := pk_sent s @ [hdr (ucast st OR 0x80000000) @ b]\<rparr>) })"

text \<open>The frame collected in row 0 of a peer: a data packet, or only the status when empty.\<close>

definition send_frame :: "nat \<Rightarrow> poke \<Rightarrow> poke option" where
  "send_frame i s = do {
     p \<leftarrow> arr_get (pk_peers s) i;
     row \<leftarrow> arr_get (pp_data p) 0;
     serialpoke_senddata STATE_CONNECTED (if ismemzero row then None else Some row) s }"

text \<open>Consuming the front packet of a peer that was being received.\<close>

definition consume_peer :: "poke_peer \<Rightarrow> poke_peer option" where
  "consume_peer p =
     (if pp_recvd p then
        (let c = pp_count p - 1 in
         if c \<noteq> 0 then do {
           rows \<leftarrow> arr_slice (pp_data p) 1 (unat c);
           d \<leftarrow> arr_blit (pp_data p) 0 rows;
           Some (p\<lparr>pp_count := c, pp_data := d\<rparr>) }
         else Some (p\<lparr>pp_count := c\<rparr>))
      else Some p)"

fun consume_peers :: "poke_peer list \<Rightarrow> poke_peer list option" where
  "consume_peers [] = Some []"
| "consume_peers (p # ps) = do { p \<leftarrow> consume_peer p; ps \<leftarrow> consume_peers ps; Some (p # ps) }"

text \<open>Storing a word of the frame under construction.\<close>

definition store_word :: "nat \<Rightarrow> u16 \<Rightarrow> poke \<Rightarrow> poke option" where
  "store_word i v s = do {
     p \<leftarrow> arr_get (pk_peers s) i;
     row \<leftarrow> arr_get (pp_data p) 0;
     row \<leftarrow> arr_set row (unat (pk_offset s) - 1) v;
     d \<leftarrow> arr_set (pp_data p) 0 row;
     Some (upd_peer i (\<lambda>p. p\<lparr>pp_data := d\<rparr>) s) }"

text \<open>The word each peer in the list \<open>is\<close> contributes to the transfer.\<close>

fun peer_words :: "nat list \<Rightarrow> poke \<Rightarrow> ioregs \<Rightarrow> (poke \<times> ioregs) option" where
  "peer_words [] s regs = Some (s, regs)"
| "peer_words (i # is) s regs = do {
     p \<leftarrow> arr_get (pk_peers s) i;
     if pp_recvd p then do {
       row \<leftarrow> arr_get (pp_data p) 0;
       w \<leftarrow> arr_get row (unat (pk_offset s) - 1);
       peer_words is (s\<lparr>pk_checksum := pk_checksum s + w\<rparr>) (write_ioreg (REG_SIOMULTI0 + i) w regs) }
     else peer_words is s (write_ioreg (REG_SIOMULTI0 + i) 0 regs) }"

definition write_multi :: "(nat \<Rightarrow> u16) \<Rightarrow> nat list \<Rightarrow> ioregs \<Rightarrow> ioregs" where
  "write_multi f is regs = fold (\<lambda>i. write_ioreg (REG_SIOMULTI0 + i) (f i)) is regs"

definition handshake_word :: "poke \<Rightarrow> nat \<Rightarrow> u16" where
  "handshake_word s i = (if pp_state (pk_peers s ! i) = STATE_HANDSHAKE then SLAVE_HANDSHAKE else 0xFFFF)"

definition latch_peer :: "poke_peer \<Rightarrow> poke_peer" where
  "latch_peer p = p\<lparr>pp_recvd := (0 < pp_count p)\<rparr>"

text \<open>
  The game repeating the slave handshake word for 19 transfers restarts the handshake.
\<close>

definition count_handshake :: "u16 \<Rightarrow> poke \<Rightarrow> poke" where
  "count_handshake v s = s\<lparr>pk_hscnt := (if v \<noteq> SLAVE_HANDSHAKE then 0 else pk_hscnt s + 1)\<rparr>"

definition restarts :: "u16 \<Rightarrow> poke \<Rightarrow> bool" where
  "restarts v s \<longleftrightarrow> v = SLAVE_HANDSHAKE \<and> SEQ_HANDSHAKE_TOKENS < pk_hscnt s"

text \<open>
  The end of a word exchange: the counter advances; after the eighth word the frame of
  device \<open>me\<close> is sent and the received packets are consumed (a master, device 0, only
  looks at the other three).
\<close>

definition frame_end :: "nat \<Rightarrow> poke \<Rightarrow> poke option" where
  "frame_end me s =
     (let old = pk_offset s; s = s\<lparr>pk_offset := old + 1\<rparr> in
      if 8 \<le> old then do {
        s \<leftarrow> send_frame me s;
        ps \<leftarrow> consume_peers (if me = 0 then drop 1 (pk_peers s) else pk_peers s);
        Some (s\<lparr>pk_offset := 0, pk_peers := (if me = 0 then take 1 (pk_peers s) else []) @ ps\<rparr>) }
      else Some s)"

section \<open>Master\<close>

text \<open>The connected branch: a checksum word, then eight data words.\<close>

definition master_exchange :: "u16 \<Rightarrow> poke \<Rightarrow> ioregs \<Rightarrow> (poke \<times> ioregs) option" where
  "master_exchange mvalue s regs =
     (if pk_offset s = 0 then
        Some (s\<lparr>pk_peers := take 1 (pk_peers s) @ map latch_peer (drop 1 (pk_peers s)),
                pk_offset := pk_offset s + 1, pk_checksum := 0\<rparr>,
              write_multi (\<lambda>_. pk_checksum s) [1, 2, 3] regs)
      else do {
        s \<leftarrow> store_word 0 mvalue s;
        (s, regs) \<leftarrow> peer_words [1, 2, 3] (s\<lparr>pk_checksum := pk_checksum s + mvalue\<rparr>) regs;
        s \<leftarrow> frame_end 0 s;
        Some (s, regs) })"

definition master_connected :: "u16 \<Rightarrow> poke \<Rightarrow> ioregs \<Rightarrow> (poke \<times> ioregs) option" where
  "master_connected mvalue s regs =
     (let s = count_handshake mvalue s in
      if restarts mvalue s then Some (upd_peer 0 (\<lambda>p. p\<lparr>pp_state := STATE_HANDSHAKE\<rparr>) s, regs)
      else master_exchange mvalue s regs)"

definition serialpoke_master_send :: "poke \<Rightarrow> ioregs \<Rightarrow> (poke \<times> ioregs) option" where
  "serialpoke_master_send s regs =
     (let mvalue = read_ioreg regs REG_SIOMLT_SEND; st = pp_state (pk_peers s ! 0);
          regs = write_ioreg REG_SIOMULTI0 mvalue regs in
      if st = STATE_PREINIT then
        (if mvalue = SLAVE_HANDSHAKE then do {
           s \<leftarrow> serialpoke_senddata STATE_HANDSHAKE None (upd_peer 0 (\<lambda>p. p\<lparr>pp_state := STATE_HANDSHAKE\<rparr>) s);
           Some (s, write_multi (\<lambda>_. 0) [1, 2, 3] regs) }
         else Some (s, regs))
      else if st = STATE_HANDSHAKE then
        (let regs = write_multi (handshake_word s) [1, 2, 3] regs;
             s = (if mvalue = MASTER_HANDSHAKE then
                    s\<lparr>pk_checksum := 0, pk_offset := 0, pk_hscnt := 0,
                      pk_peers := (pk_peers s ! 0)\<lparr>pp_state := STATE_CONNECTED\<rparr>
                                    # map (\<lambda>p. p\<lparr>pp_count := 0\<rparr>) (drop 1 (pk_peers s))\<rparr>
                  else s)
         in do { s \<leftarrow> serialpoke_senddata (pp_state (pk_peers s ! 0)) None s; Some (s, regs) })
      else master_connected mvalue s regs)"

section \<open>Frames and slave updates\<close>

definition age_peer :: "poke_peer \<Rightarrow> poke_peer" where
  "age_peer p = (if MAX_FRAME_TIMEOUT \<le> pp_timeout p then zero_poke_peer
                 else p\<lparr>pp_timeout := pp_timeout p + 1\<rparr>)"

definition serialpoke_frame_update :: "nat \<Rightarrow> poke \<Rightarrow> poke" where
  "serialpoke_frame_update me s =
     s\<lparr>pk_peers := map (\<lambda>(i, p). if i \<noteq> me then age_peer p else p) (enumerate 0 (pk_peers s))\<rparr>"

definition others :: "nat \<Rightarrow> nat list \<Rightarrow> nat list" where
  "others me is = filter (\<lambda>i. i \<noteq> me) is"

definition slave_exchange :: "nat \<Rightarrow> u16 \<Rightarrow> poke \<Rightarrow> ioregs \<Rightarrow> (poke \<times> ioregs) option" where
  "slave_exchange me nw s regs =
     (if pk_offset s = 0 then
        Some (s\<lparr>pk_peers := map latch_peer ((pk_peers s)[me := (pk_peers s ! me)\<lparr>pp_count := 1\<rparr>]),
                pk_checksum := 0, pk_offset := pk_offset s + 1\<rparr>,
              write_multi (\<lambda>_. pk_checksum s) [0, 1, 2, 3] regs)
      else do {
        s \<leftarrow> store_word me nw s;
        (s, regs) \<leftarrow> peer_words [0, 1, 2, 3] s regs;
        s \<leftarrow> frame_end me s;
        Some (s, regs) })"

definition slave_connected :: "nat \<Rightarrow> poke \<Rightarrow> ioregs \<Rightarrow> (bool \<times> poke \<times> ioregs) option" where
  "slave_connected me s regs =
     (let nw = read_ioreg regs REG_SIOMLT_SEND; s = count_handshake nw s in
      if restarts nw s then Some (False, upd_peer me (\<lambda>p. p\<lparr>pp_state := STATE_HANDSHAKE\<rparr>) s, regs)
      else map_option (Pair True) (slave_exchange me nw s regs))"

definition slave_handshake :: "nat \<Rightarrow> poke \<Rightarrow> ioregs \<Rightarrow> (bool \<times> poke \<times> ioregs) option" where
  "slave_handshake me s regs =
     (let st = (if read_ioreg regs REG_SIOMLT_SEND = SLAVE_HANDSHAKE then STATE_HANDSHAKE else STATE_PREINIT);
          s = upd_peer me (\<lambda>p. p\<lparr>pp_state := st\<rparr>) s;
          regs = write_multi (handshake_word s) (others me [0, 1, 2, 3]) regs
      in do { s \<leftarrow> serialpoke_senddata st None s; Some (True, s, regs) })"

definition slave_to_connected :: "nat \<Rightarrow> poke \<Rightarrow> ioregs \<Rightarrow> (bool \<times> poke \<times> ioregs) option" where
  "slave_to_connected me s regs =
     (let s = (upd_peer me (\<lambda>p. p\<lparr>pp_state := STATE_CONNECTED\<rparr>) s)
                \<lparr>pk_checksum := 0, pk_offset := 0, pk_hscnt := 0\<rparr>;
          regs = write_multi (handshake_word s) (others me [1, 2, 3])
                   (write_ioreg REG_SIOMULTI0 MASTER_HANDSHAKE regs)
      in do { s \<leftarrow> serialpoke_senddata STATE_CONNECTED None s; Some (True, s, regs) })"

definition serialpoke_update :: "nat \<Rightarrow> u32 \<Rightarrow> poke \<Rightarrow> ioregs \<Rightarrow> (bool \<times> poke \<times> ioregs) option" where
  "serialpoke_update me cycles s regs =
     (let s = s\<lparr>pk_frcnt := pk_frcnt s + cycles\<rparr>; st0 = pp_state (pk_peers s ! 0);
          ev = (if st0 = STATE_CONNECTED then SLAVE_IRQ_CYCLES_C else SLAVE_IRQ_CYCLES_H) in
      if me \<noteq> 0 \<and> ev < pk_frcnt s then
        (let s = s\<lparr>pk_frcnt := 0\<rparr>;
             regs = write_ioreg (REG_SIOMULTI0 + me) (read_ioreg regs REG_SIOMLT_SEND) regs in
         if st0 = STATE_PREINIT then Some (False, s, regs)
         else do {
           p \<leftarrow> arr_get (pk_peers s) me;
           if st0 = STATE_HANDSHAKE then slave_handshake me s regs
           else if pp_state p = STATE_HANDSHAKE then slave_to_connected me s regs
           else if pp_state p = STATE_CONNECTED then slave_connected me s regs
           else Some (False, s, regs) })
      else Some (False, s, regs))"

section \<open>Packets\<close>

text \<open>A frame is queued behind the waiting ones; a full queue drops it.\<close>

definition poke_enqueue :: "u16 list \<Rightarrow> poke_peer \<Rightarrow> poke_peer option" where
  "poke_enqueue ws p =
     (if unat (pp_count p) < MAX_QPACK then do {
        d \<leftarrow> arr_set (pp_data p) (unat (pp_count p)) ws;
        Some (p\<lparr>pp_data := d, pp_count := pp_count p + 1\<rparr>) }
      else Some p)"

definition serialpoke_net_receive :: "u8 list \<Rightarrow> nat \<Rightarrow> poke \<Rightarrow> poke option" where
  "serialpoke_net_receive buf cid s =
     (if length buf = 24 \<and> netorder32 (leupack32 buf) = NET_SERPOKE_HEADER then do {
        p \<leftarrow> arr_get (pk_peers s) cid;
        let flags = netorder32 (leupack32 (drop 4 buf));
        let p = p\<lparr>pp_timeout := 0, pp_state := ucast flags\<rparr>;
        p \<leftarrow> (if flags AND 0x80000000 \<noteq> 0
             then do { ws \<leftarrow> unpack16 0 (drop 8 buf) 8; poke_enqueue ws p } else Some p);
        Some (s\<lparr>pk_peers := (pk_peers s)[cid := p]\<rparr>) }
      else Some s)"

end
