(* ===== verification/SerialAw.thy ===== *)
theory SerialAw
  imports SerialPoke
begin

text \<open>
  The Advance Wars link protocol of \<^verbatim>\<open>serial_proto.c\<close>: the \<open>aw\<close> half of the static
  union, packet parsing on the game's side, queues of length-prefixed frames on the
  network's side. \<open>mode\<close> is the static \<^verbatim>\<open>serial_mode\<close>, \<open>me\<close> is \<^verbatim>\<open>netplay_client_id\<close>.
\<close>

abbreviation (input) MAX_FPACK :: nat where "MAX_FPACK \<equiv> 512"
abbreviation (input) NET_SERADWR_HEADER :: u32 where "NET_SERADWR_HEADER \<equiv> 0x4d415731"
abbreviation (input) STATE_PACKETXG :: u8 where "STATE_PACKETXG \<equiv> 0"
abbreviation (input) STATE_SYNC :: u8 where "STATE_SYNC \<equiv> 1"
abbreviation (input) STATE_INTERSYNC :: u8 where "STATE_INTERSYNC \<equiv> 2"
abbreviation (input) PSTATE_COMMANDS :: u8 where "PSTATE_COMMANDS \<equiv> 0"
abbreviation (input) PSTATE_PACKET_HDR :: u8 where "PSTATE_PACKET_HDR \<equiv> 1"
abbreviation (input) PSTATE_PACKET_BODY :: u8 where "PSTATE_PACKET_BODY \<equiv> 2"
abbreviation (input) SLAVE_IRQ_CYCLES_2P :: u32 where "SLAVE_IRQ_CYCLES_2P \<equiv> 139264"
abbreviation (input) CMD_NONE :: u16 where "CMD_NONE \<equiv> 0x7FFF"
abbreviation (input) CMD_NOP :: u16 where "CMD_NOP \<equiv> 0x5FFF"
abbreviation (input) SERIAL_MODE_SERIAL_AW1 :: nat where "SERIAL_MODE_SERIAL_AW1 \<equiv> 4"
abbreviation (input) SERIAL_MODE_SERIAL_AW2 :: nat where "SERIAL_MODE_SERIAL_AW2 \<equiv> 5"

definition cmd_sync :: "nat \<Rightarrow> u16" where
  "cmd_sync mode = (if mode = SERIAL_MODE_SERIAL_AW1 then 0x5678 else 0x9ABC)"

definition pack_tail_sz :: "nat \<Rightarrow> nat" where
  "pack_tail_sz mode = (if mode = SERIAL_MODE_SERIAL_AW1 then 1 else 2)"

record aw_peer =
  ap_state :: u8
  ap_pstate :: u8
  ap_data :: "u16 list"
  ap_count :: u16
  ap_recvd :: u8
  ap_timeout :: u8

record aw =
  aw_peers :: "aw_peer list"
  aw_lastcmd :: u16
  aw_frcnt :: u32
  aw_sent :: "u8 list list"

definition zero_aw_peer :: aw_peer where
  "zero_aw_peer = \<lparr>ap_state = 0, ap_pstate = 0, ap_data = replicate MAX_FPACK 0, ap_count = 0,
                   ap_recvd = 0, ap_timeout = 0\<rparr>"

definition aw_reset :: "aw \<Rightarrow> aw" where
  "aw_reset s = \<lparr>aw_peers = replicate 4 zero_aw_peer, aw_lastcmd = 0, aw_frcnt = 0, aw_sent = aw_sent s\<rparr>"

definition set_peer :: "nat \<Rightarrow> aw_peer \<Rightarrow> aw \<Rightarrow> aw" where
  "set_peer i p s = s\<lparr>aw_peers := (aw_peers s)[i := p]\<rparr>"

section \<open>Sending\<close>

text \<open>The packet buffer has 2 header and 128 payload words.\<close>

definition serialaw_senddata :: "u16 \<Rightarrow> u8 \<Rightarrow> u16 list \<Rightarrow> nat \<Rightarrow> aw \<Rightarrow> aw option" where
  "serialaw_senddata cmd st packet wcnt s = do {
     b \<leftarrow> pack16_into 128 packet wcnt;
     let flags = push_bit 16 (ucast cmd) OR push_bit 8 (ucast st) OR of_nat wcnt;
     Some (s\<lparr>aw_sent := aw_sent s @
       [le_bytes (netorder32 NET_SERADWR_HEADER) @ le_bytes (netorder32 flags) @ take (wcnt * 2) b]\<rparr>) }"

definition empty_awpeers :: "nat \<Rightarrow> aw \<Rightarrow> bool" where
  "empty_awpeers me s = list_all (\<lambda>i. i \<noteq> me \<longrightarrow> ap_count (aw_peers s ! i) = 0) [0, 1, 2, 3]"

section \<open>Reading the queue of a peer\<close>

text \<open>\<open>start_frame\<close>: begin the next frame. \<open>drop_frame\<close>: remove it from the queue.\<close>

definition start_frame :: "aw_peer \<Rightarrow> aw_peer" where
  "start_frame p = (if ap_recvd p = 0 \<and> ap_count p \<noteq> 0 then p\<lparr>ap_recvd := 1\<rparr> else p)"

definition drop_frame :: "u16 \<Rightarrow> aw_peer \<Rightarrow> aw_peer option" where
  "drop_frame numw p =
     (let c = ap_count p - (numw + 1) in do {
        ws \<leftarrow> arr_slice (ap_data p) (unat numw + 1) (unat c);
        d \<leftarrow> arr_blit (ap_data p) 0 ws;
        Some (p\<lparr>ap_recvd := 0, ap_count := c, ap_data := d\<rparr>) })"

definition process_awpeer_val :: "aw_peer \<Rightarrow> (u16 \<times> aw_peer) option" where
  "process_awpeer_val p0 =
     (let p = start_frame p0 in
      if ap_recvd p \<noteq> 0 then do {
        numw \<leftarrow> arr_get (ap_data p) 0;
        w \<leftarrow> arr_get (ap_data p) (unat (ap_recvd p));
        if unat numw \<le> unat (ap_recvd p) then map_option (Pair w) (drop_frame numw p)
        else Some (w, p\<lparr>ap_recvd := ap_recvd p + 1\<rparr>) }
      else Some (0, p))"

text \<open>\<open>idle\<close> is the word returned when nothing is queued.\<close>

definition process_awpeer :: "u16 \<Rightarrow> aw_peer \<Rightarrow> (u16 \<times> aw_peer) option" where
  "process_awpeer idle p0 =
     (let p = start_frame p0 in
      if ap_recvd p \<noteq> 0 then do {
        numw \<leftarrow> arr_get (ap_data p) 0;
        if unat numw < unat (ap_recvd p) then map_option (Pair CMD_NONE) (drop_frame numw p)
        else do {
          w \<leftarrow> arr_get (ap_data p) (unat (ap_recvd p));
          Some (w, p\<lparr>ap_recvd := ap_recvd p + 1\<rparr>) } }
      else Some (idle, p))"

definition idle_word :: "nat \<Rightarrow> aw \<Rightarrow> nat \<Rightarrow> u16" where
  "idle_word mode s i =
     (if ap_pstate (aw_peers s ! 0) = PSTATE_COMMANDS \<and> ap_state (aw_peers s ! i) = STATE_SYNC
      then cmd_sync mode else CMD_NONE)"

fun peers_vals :: "u16 \<Rightarrow> nat list \<Rightarrow> aw \<Rightarrow> ioregs \<Rightarrow> (aw \<times> ioregs) option" where
  "peers_vals dflt [] s regs = Some (s, regs)"
| "peers_vals dflt (i # is) s regs = do {
     (w, p) \<leftarrow> process_awpeer_val (aw_peers s ! i);
     peers_vals dflt is (set_peer i p s)
       (write_ioreg (REG_SIOMULTI0 + i) (if w \<noteq> 0 then w else dflt) regs) }"

fun peers_words :: "nat \<Rightarrow> nat list \<Rightarrow> aw \<Rightarrow> ioregs \<Rightarrow> (aw \<times> ioregs) option" where
  "peers_words mode [] s regs = Some (s, regs)"
| "peers_words mode (i # is) s regs = do {
     (w, p) \<leftarrow> process_awpeer (idle_word mode s i) (aw_peers s ! i);
     peers_words mode is (set_peer i p s) (write_ioreg (REG_SIOMULTI0 + i) w regs) }"

section \<open>Parsing what the game sends\<close>

text \<open>Both the master and the slave parse their own words alike; \<open>me\<close> is 0 for the master.\<close>

definition push_word :: "nat \<Rightarrow> u16 \<Rightarrow> aw \<Rightarrow> aw option" where
  "push_word me v s = (let p = aw_peers s ! me in do {
     d \<leftarrow> arr_set (ap_data p) (unat (ap_count p)) v;
     Some (set_peer me (p\<lparr>ap_data := d, ap_count := ap_count p + 1\<rparr>) s) })"

definition intersync_step :: "nat \<Rightarrow> nat list \<Rightarrow> u16 \<Rightarrow> aw \<Rightarrow> ioregs \<Rightarrow> (aw \<times> ioregs) option" where
  "intersync_step me is v s regs =
     (if 0x8000 \<le> v \<and> v \<le> 0x9F00 then do {
        (s, regs) \<leftarrow> peers_vals (v AND 0xFC00) is s regs;
        s \<leftarrow> (if v AND 0x3FF \<noteq> 0 then push_word me v s
             else do {
               let p = aw_peers s ! me;
               s \<leftarrow> serialaw_senddata (aw_lastcmd s) STATE_INTERSYNC (ap_data p) (unat (ap_count p)) s;
               Some (set_peer me (p\<lparr>ap_count := 0\<rparr>) s) });
        Some (s\<lparr>aw_lastcmd := v\<rparr>, regs) }
      else if v = CMD_NOP then peers_vals (aw_lastcmd s AND 0xFC00) is s regs
      else Some (set_peer me ((aw_peers s ! me)\<lparr>ap_state := STATE_PACKETXG\<rparr>) s, regs))"

definition packet_step :: "nat \<Rightarrow> nat \<Rightarrow> u16 \<Rightarrow> aw \<Rightarrow> aw option" where
  "packet_step mode me v s =
     (let p = aw_peers s ! me in
      if ap_pstate p = PSTATE_COMMANDS then
        (if drop_bit 8 v = 0x4f then Some (set_peer me (p\<lparr>ap_pstate := PSTATE_PACKET_HDR\<rparr>) s)
         else if v = cmd_sync mode \<and> empty_awpeers me s
         then Some (set_peer me (p\<lparr>ap_state := STATE_SYNC\<rparr>) s)
         else serialaw_senddata v STATE_PACKETXG [] 0 s)
      else if ap_pstate p = PSTATE_PACKET_HDR then do {
        d \<leftarrow> arr_set (ap_data p) 0 (v AND 0xFF);
        Some (set_peer me (p\<lparr>ap_data := d, ap_count := 1, ap_pstate := PSTATE_PACKET_BODY\<rparr>) s) }
      else do {
        n \<leftarrow> arr_get (ap_data p) 0;
        s \<leftarrow> push_word me v s;
        let p = aw_peers s ! me;
        if unat (ap_count p) = unat n + pack_tail_sz mode + 1 then
          serialaw_senddata 0x4fff STATE_PACKETXG (ap_data p) (unat (ap_count p))
            (set_peer me (p\<lparr>ap_pstate := PSTATE_COMMANDS\<rparr>) s)
        else Some s })"

section \<open>Master\<close>

definition sync_words :: "nat \<Rightarrow> nat list \<Rightarrow> aw \<Rightarrow> ioregs \<Rightarrow> ioregs" where
  "sync_words mode is s regs =
     write_multi (\<lambda>i. if STATE_SYNC \<le> ap_state (aw_peers s ! i) then cmd_sync mode else CMD_NONE) is regs"

definition enter_intersync :: "nat \<Rightarrow> aw \<Rightarrow> aw" where
  "enter_intersync me s = set_peer me ((aw_peers s ! me)\<lparr>ap_state := STATE_INTERSYNC, ap_count := 0\<rparr>) s"

definition serialaw_master_send :: "nat \<Rightarrow> aw \<Rightarrow> ioregs \<Rightarrow> (aw \<times> ioregs) option" where
  "serialaw_master_send mode s regs =
     (let v = read_ioreg regs REG_SIOMLT_SEND; st = ap_state (aw_peers s ! 0);
          regs = write_ioreg REG_SIOMULTI0 v regs in do {
      (s, regs) \<leftarrow>
        (if st = STATE_SYNC then
           (if v = CMD_NONE
            then Some (set_peer 0 ((aw_peers s ! 0)\<lparr>ap_state := STATE_PACKETXG\<rparr>) s, regs)
            else
              (let s' = (if v \<noteq> cmd_sync mode \<and> v \<noteq> CMD_NOP then enter_intersync 0 s else s) in do {
               s'' \<leftarrow> serialaw_senddata 0 (ap_state (aw_peers s' ! 0)) [] 0 s';
               Some (s'', sync_words mode [1, 2, 3] s regs) }))
         else if st = STATE_INTERSYNC then intersync_step 0 [1, 2, 3] v s regs
         else do {
           s \<leftarrow> packet_step mode 0 v s;
           peers_words mode [1, 2, 3] s regs });
      Some (s\<lparr>aw_lastcmd := v\<rparr>, regs) })"

section \<open>Slave updates\<close>

definition serialaw_update :: "nat \<Rightarrow> nat \<Rightarrow> u32 \<Rightarrow> aw \<Rightarrow> ioregs \<Rightarrow> (bool \<times> aw \<times> ioregs) option" where
  "serialaw_update mode me cycles s0 regs0 = do {
     let s = s0\<lparr>aw_frcnt := aw_frcnt s0 + cycles\<rparr>;
     p \<leftarrow> arr_get (aw_peers s) me;
     let ev = (if STATE_SYNC \<le> ap_state p then SLAVE_IRQ_CYCLES_H else SLAVE_IRQ_CYCLES_2P);
     if me \<noteq> 0 \<and> ev < aw_frcnt s then do {
       let v = read_ioreg regs0 REG_SIOMLT_SEND;
       let s = s\<lparr>aw_frcnt := 0\<rparr>;
       let regs = write_ioreg (REG_SIOMULTI0 + me) v regs0;
       (s, regs) \<leftarrow>
         (if ap_state p = STATE_SYNC then
            (if v = CMD_NONE then Some (set_peer me (p\<lparr>ap_state := STATE_PACKETXG\<rparr>) s, regs)
             else
               (let poll = (v = cmd_sync mode \<or> v = CMD_NOP);
                    s' = (if poll then s else enter_intersync me s) in do {
                s'' \<leftarrow> serialaw_senddata 0 (ap_state (aw_peers s' ! me)) [] 0 s';
                Some (s'', if poll then sync_words mode (others me [0, 1, 2, 3]) s regs else regs) }))
          else Some (s, regs));
       (s, regs) \<leftarrow>
         (let st = ap_state (aw_peers s ! me) in
          if st = STATE_INTERSYNC then intersync_step me (others me [0, 1, 2, 3]) v s regs
          else if st = STATE_PACKETXG then do {
            s \<leftarrow> packet_step mode me v s;
            peers_words mode (others me [0, 1, 2, 3]) s regs }
          else Some (s, regs));
       Some (True, s, regs) }
     else Some (False, s, regs0) }"

section \<open>Packets\<close>

text \<open>Queues a frame: the values in front, then the unpacked words of the packet.\<close>

definition aw_enqueue :: "u16 list \<Rightarrow> u8 list \<Rightarrow> nat \<Rightarrow> aw_peer \<Rightarrow> aw_peer option" where
  "aw_enqueue front body cnt p =
     (if unat (ap_count p) + cnt + length front < MAX_FPACK then do {
        d \<leftarrow> arr_blit (ap_data p) (unat (ap_count p)) front;
        ws \<leftarrow> unpack16 0 body cnt;
        d \<leftarrow> arr_blit d (unat (ap_count p) + length front) ws;
        Some (p\<lparr>ap_data := d, ap_count := ap_count p + of_nat (length front + cnt)\<rparr>) }
      else Some p)"

definition serialaw_net_receive :: "u8 list \<Rightarrow> nat \<Rightarrow> aw \<Rightarrow> aw option" where
  "serialaw_net_receive buf cid s =
     (if 8 \<le> length buf \<and> netorder32 (leupack32 buf) = NET_SERADWR_HEADER then do {
        p \<leftarrow> arr_get (aw_peers s) cid;
        let flags = netorder32 (leupack32 (drop 4 buf));
        let cmd = (ucast (drop_bit 16 flags) :: u16);
        let ste = (ucast (drop_bit 8 flags) :: u8);
        let cnt = unat (flags AND 0xff);
        let p = p\<lparr>ap_timeout := 0, ap_state := ste\<rparr>;
        p \<leftarrow> (if 2 \<le> cnt \<and> length buf = cnt * 2 + 8 then
               (if ste = STATE_INTERSYNC then aw_enqueue [of_nat cnt] (drop 8 buf) cnt p
                else if ste = STATE_PACKETXG then aw_enqueue [of_nat cnt + 1, cmd] (drop 8 buf) cnt p
                else Some p)
             else Some p);
        Some (set_peer cid p s) }
      else Some s)"

end
