(* ===== verification/SerialPokeProps.thy ===== *)
theory SerialPokeProps
  imports SerialPoke PacketQueue
begin

text \<open>
  What the Pokemon link emulation guarantees: frames are packed and unpacked without
  loss, each peer's queue is a bounded FIFO, the frame counter and queue counters stay
  in bounds whatever is transferred or received, and a master's frame of eight words
  reaches the queue of its peers.
\<close>

section \<open>Packing\<close>

lemma be16_halves:
  "(ucast (drop_bit 16 (be16 a b)) :: u16) = a" "(ucast (be16 a b) :: u16) = b"
  by (auto simp: be16_def bit_simps intro!: bit_word_eqI)

lemma pack16_Some:
  "2 * (i + n) \<le> length d \<Longrightarrow>
     pack16 i d n = Some (concat (map (\<lambda>k. be_bytes (be16 (d ! (2 * k)) (d ! (2 * k + 1)))) [i..<i + n]))"
proof (induction n arbitrary: i)
  case (Suc n)
  have "[i..<i + Suc n] = i # [Suc i..<Suc i + n]" by (simp add: upt_conv_Cons)
  with Suc.IH [of "Suc i"] Suc.prems show ?case by (simp add: mult.commute)
qed simp

lemma take_drop_concat_be:
  assumes "k < length ws"
  shows "upack32 (take 4 (drop (4 * k) (concat (map be_bytes ws)))) = ws ! k"
  using assms
proof (induction ws arbitrary: k)
  case (Cons w ws)
  show ?case
  proof (cases k)
    case 0
    have "take 4 (be_bytes w @ r) = be_bytes w" for r by (simp add: be_bytes_def)
    with 0 show ?thesis by simp
  next
    case (Suc j)
    have "drop (4 * Suc j) (be_bytes w @ r) = drop (4 * j) (drop 4 (be_bytes w @ r))" for r
      by (simp add: add.commute)
    with Suc Cons show ?thesis by simp
  qed
qed simp

lemma unpack16_Some:
  "\<lbrakk>\<forall>k. i \<le> k \<longrightarrow> k < i + n \<longrightarrow> k div 2 * 4 + 4 \<le> length d\<rbrakk> \<Longrightarrow>
     unpack16 i d n = Some (map (\<lambda>k. ucast (drop_bit (if odd k then 0 else 16)
        (upack32 (take 4 (drop (k div 2 * 4) d))))) [i..<i + n])"
proof (induction n arbitrary: i)
  case (Suc n)
  have "[i..<i + Suc n] = i # [Suc i..<Suc i + n]" by (simp add: upt_conv_Cons)
  moreover have "i div 2 * 4 + 4 \<le> length d" using Suc.prems by simp
  moreover have "unpack16 (Suc i) d n = Some (map (\<lambda>k. ucast (drop_bit (if odd k then 0 else 16)
        (upack32 (take 4 (drop (k div 2 * 4) d))))) [Suc i..<Suc i + n])"
    by (rule Suc.IH) (use Suc.prems in auto)
  ultimately show ?case by simp
qed simp

text \<open>Packing then unpacking is the identity on an even number of half-words.\<close>

lemma unpack_pack:
  assumes "length d = 2 * n"
  shows "\<exists>b. pack16 0 d n = Some b \<and> length b = 4 * n \<and> unpack16 0 b (2 * n) = Some d"
proof -
  let ?ws = "map (\<lambda>k. be16 (d ! (2 * k)) (d ! (2 * k + 1))) [0..<n]"
  let ?b = "concat (map be_bytes ?ws)"
  have p: "pack16 0 d n = Some ?b" using pack16_Some [of 0 n d] assms by (simp add: comp_def)
  have l: "length ?b = 4 * n"
    by (simp add: length_concat comp_def sum_list_triv)
  have u: "unpack16 0 ?b (2 * n) = Some (map (\<lambda>k. ucast (drop_bit (if odd k then 0 else 16)
        (upack32 (take 4 (drop (k div 2 * 4) ?b))))) [0..<0 + 2 * n])"
  proof (rule unpack16_Some, intro allI impI)
    fix k assume "k < 0 + 2 * n"
    then have "k div 2 < n" by linarith
    then have "k div 2 * 4 + 4 \<le> 4 * n" by linarith
    with l show "k div 2 * 4 + 4 \<le> length ?b" by simp
  qed
  have "ucast (drop_bit (if odd k then 0 else 16) (upack32 (take 4 (drop (k div 2 * 4) ?b)))) = d ! k"
    if "k < 2 * n" for k
  proof -
    have "k div 2 < n" using that by linarith
    then have "upack32 (take 4 (drop (4 * (k div 2)) ?b)) = be16 (d ! (2 * (k div 2))) (d ! (2 * (k div 2) + 1))"
      using take_drop_concat_be [of "k div 2" ?ws] by simp
    then show ?thesis
      using be16_halves by (cases "odd k") (auto simp: mult.commute elim!: oddE evenE)
  qed
  then have "map (\<lambda>k. ucast (drop_bit (if odd k then 0 else 16)
        (upack32 (take 4 (drop (k div 2 * 4) ?b))))) [0..<0 + 2 * n] = d"
    using assms by (intro nth_equalityI) auto
  with p l u show ?thesis by simp
qed

section \<open>The queue of a peer\<close>

definition poke_peer_ok :: "poke_peer \<Rightarrow> bool" where
  "poke_peer_ok p \<longleftrightarrow> length (pp_data p) = 128 \<and> list_all (\<lambda>r. length r = 8) (pp_data p) \<and>
     unat (pp_count p) \<le> 128"

definition poke_view :: "poke_peer \<Rightarrow> u16 list list" where
  "poke_view p = take (unat (pp_count p)) (pp_data p)"

definition poke_pop :: "poke_peer \<Rightarrow> poke_peer" where
  "poke_pop p = (case consume_peer (latch_peer p) of Some q \<Rightarrow> q | None \<Rightarrow> p)"

lemma poke_enqueue_ok:
  assumes "poke_peer_ok p" "length ws = 8"
  shows "\<exists>q. poke_enqueue ws p = Some q \<and> poke_peer_ok q \<and> poke_view q = qput 128 ws (poke_view p) \<and>
     pp_recvd q = pp_recvd p \<and> (0 < pp_count p \<longrightarrow> 0 < pp_count q)"
proof (cases "unat (pp_count p) < 128")
  case True
  then have c: "unat (pp_count p + 1) = unat (pp_count p) + 1" by (intro u8_inc) simp
  with True assms show ?thesis
    by (auto simp: poke_enqueue_def poke_peer_ok_def poke_view_def take_Suc_conv_app_nth
        word_less_nat_alt list_all_iff dest!: set_update_subset_insert [THEN subsetD])
next
  case False
  with assms show ?thesis by (auto simp: poke_enqueue_def poke_peer_ok_def poke_view_def)
qed

lemma consume_peer_ok:
  assumes "poke_peer_ok p" "pp_recvd p \<Longrightarrow> 0 < pp_count p"
  shows "\<exists>q. consume_peer p = Some q \<and> poke_peer_ok q \<and>
     poke_view q = (if pp_recvd p then tl (poke_view p) else poke_view p)"
proof (cases "pp_recvd p")
  case True
  let ?c = "pp_count p - 1"
  have c0: "pp_count p \<noteq> 0" using assms(2) [OF True] by auto
  have c: "unat ?c = unat (pp_count p) - 1" using c0 by (rule u8_dec)
  have le: "unat (pp_count p) \<le> 128" "0 < unat (pp_count p)"
    using assms(1) c0 by (auto simp: poke_peer_ok_def unat_gt_0)
  have sl: "arr_slice (pp_data p) 1 (unat ?c) = Some (take (unat ?c) (drop 1 (pp_data p)))"
    using assms(1) c le by (simp add: poke_peer_ok_def)
  let ?rows = "take (unat ?c) (drop 1 (pp_data p))"
  have lr: "length ?rows = unat ?c" using assms(1) c le by (simp add: poke_peer_ok_def)
  then have "0 + length ?rows \<le> length (pp_data p)" using assms(1) c le by (simp add: poke_peer_ok_def)
  then have bl: "arr_blit (pp_data p) 0 ?rows = Some (?rows @ drop (unat ?c) (pp_data p))"
    using lr by (simp add: arr_blit_def)
  have sub: "set (?rows @ drop (unat ?c) (pp_data p)) \<subseteq> set (pp_data p)"
    by (auto dest: in_set_takeD in_set_dropD)
  have tl: "take (unat ?c) (?rows @ drop (unat ?c) (pp_data p)) = tl (take (unat (pp_count p)) (pp_data p))"
    using lr c le by (simp add: tl_take drop_Suc)
  have ok: "poke_peer_ok (p\<lparr>pp_count := ?c, pp_data := ?rows @ drop (unat ?c) (pp_data p)\<rparr>)"
    using assms(1) lr sub c le by (auto simp: poke_peer_ok_def list_all_iff)
  show ?thesis
  proof (cases "?c = 0")
    case True
    then have "unat (pp_count p) = 1" using c le by simp
    then show ?thesis using \<open>pp_recvd p\<close> True assms(1)
      by (auto simp: consume_peer_def poke_peer_ok_def poke_view_def tl_take)
  next
    case False
    then show ?thesis using \<open>pp_recvd p\<close> sl bl ok tl
      by (auto simp: consume_peer_def Let_def poke_view_def)
  qed
next
  case False
  with assms show ?thesis by (auto simp: consume_peer_def)
qed

lemma poke_pop_ok:
  assumes "poke_peer_ok p"
  shows "poke_peer_ok (poke_pop p) \<and> poke_view (poke_pop p) = tl (poke_view p)"
proof -
  have l: "poke_peer_ok (latch_peer p)" "poke_view (latch_peer p) = poke_view p"
    using assms by (simp_all add: latch_peer_def poke_peer_ok_def poke_view_def)
  have r: "pp_recvd (latch_peer p) = (0 < pp_count p)" "pp_count (latch_peer p) = pp_count p"
    by (simp_all add: latch_peer_def)
  from consume_peer_ok [OF l(1)] r obtain q where q: "consume_peer (latch_peer p) = Some q" "poke_peer_ok q"
    "poke_view q = (if 0 < pp_count p then tl (poke_view p) else poke_view p)"
    unfolding l(2) by auto
  moreover have "\<not> 0 < pp_count p \<Longrightarrow> poke_view p = []"
    by (simp add: poke_view_def word_greater_zero_iff)
  ultimately show ?thesis by (auto simp: poke_pop_def)
qed

interpretation kq: packet_queue poke_peer_ok poke_view 128 "\<lambda>ws. length ws = 8" poke_enqueue poke_pop
proof (unfold_locales, goal_cases)
  case (1 q x)
  then show ?case using poke_enqueue_ok [of q x] by blast
next
  case (2 q)
  then show ?case by (rule poke_pop_ok)
qed (simp add: poke_peer_ok_def poke_view_def)

section \<open>The invariant\<close>

definition active_peers :: "nat \<Rightarrow> 'a list \<Rightarrow> 'a list" where
  "active_peers me ps = (if me = 0 then drop 1 ps else ps)"

definition receiving_ok :: "poke_peer \<Rightarrow> bool" where
  "receiving_ok p \<longleftrightarrow> (pp_recvd p \<longrightarrow> 0 < pp_count p)"

definition poke_wf :: "nat \<Rightarrow> poke \<Rightarrow> bool" where
  "poke_wf me s \<longleftrightarrow> length (pk_peers s) = 4 \<and> list_all poke_peer_ok (pk_peers s) \<and>
     unat (pk_offset s) \<le> 8 \<and>
     (pk_offset s \<noteq> 0 \<longrightarrow> list_all receiving_ok (active_peers me (pk_peers s)))"

lemma poke_wfI:
  assumes "poke_wf me s" "pk_peers t = pk_peers s" "pk_offset t = pk_offset s"
  shows "poke_wf me t"
  using assms by (simp add: poke_wf_def)

lemma poke_wf_off0:
  assumes "length (pk_peers s) = 4" "list_all poke_peer_ok (pk_peers s)" "pk_offset s = 0"
  shows "poke_wf me s"
  using assms by (simp add: poke_wf_def)

lemma poke_wf_peers:
  assumes "poke_wf me s"
  shows "length (pk_peers s) = 4" "list_all poke_peer_ok (pk_peers s)" "unat (pk_offset s) \<le> 8"
  using assms by (auto simp: poke_wf_def)

lemma poke_wf_nth: "poke_wf me s \<Longrightarrow> i < 4 \<Longrightarrow> poke_peer_ok (pk_peers s ! i)"
  by (auto simp: poke_wf_def list_all_length)

lemma zero_poke_peer_ok [simp]: "poke_peer_ok zero_poke_peer" "receiving_ok zero_poke_peer"
  by (simp_all add: poke_peer_ok_def zero_poke_peer_def receiving_ok_def list_all_length)

lemma poke_reset_wf: "poke_wf me (poke_reset s)"
  by (simp add: poke_wf_def poke_reset_def list_all_length)

text \<open>Replacing one peer by one that is as well formed and no less ready.\<close>

lemma poke_wf_upd:
  assumes "poke_wf me s" "i < 4" "poke_peer_ok q"
    and "receiving_ok (pk_peers s ! i) \<Longrightarrow> receiving_ok q"
  shows "poke_wf me (s\<lparr>pk_peers := (pk_peers s)[i := q]\<rparr>)"
proof -
  have ok: "list_all poke_peer_ok ((pk_peers s)[i := q])"
    using assms by (auto simp: poke_wf_def list_all_iff dest!: set_update_subset_insert [THEN subsetD])
  have "list_all receiving_ok (active_peers me ((pk_peers s)[i := q]))"
    if a: "list_all receiving_ok (active_peers me (pk_peers s))"
  proof (cases "me = 0")
    case True
    show ?thesis
    proof (cases i)
      case 0
      with True a show ?thesis by (cases "pk_peers s") (simp_all add: active_peers_def)
    next
      case (Suc j)
      have "receiving_ok (pk_peers s ! i)"
        using a True Suc assms(1,2) by (auto simp: active_peers_def list_all_length poke_wf_def)
      with a True Suc assms(4) show ?thesis
        by (cases "pk_peers s") (auto simp: active_peers_def list_all_iff
            dest!: set_update_subset_insert [THEN subsetD])
    qed
  next
    case False
    then have "receiving_ok (pk_peers s ! i)"
      using a assms(1,2) by (auto simp: active_peers_def list_all_length poke_wf_def)
    with a False assms(4) show ?thesis
      by (auto simp: active_peers_def list_all_iff dest!: set_update_subset_insert [THEN subsetD])
  qed
  with ok assms(1) show ?thesis by (simp add: poke_wf_def)
qed

lemma poke_wf_upd_state:
  "poke_wf me s \<Longrightarrow> i < 4 \<Longrightarrow> poke_wf me (upd_peer i (\<lambda>p. p\<lparr>pp_state := x\<rparr>) s)"
  unfolding upd_peer_def
  by (rule poke_wf_upd) (auto simp: poke_peer_ok_def receiving_ok_def poke_wf_def list_all_length)

lemma senddata_Some:
  "length row = 8 \<Longrightarrow> \<exists>b. pack16_into 4 row 8 = Some b \<and> length b = 16 \<and> unpack16 0 b 8 = Some row"
  using unpack_pack [of row 4] by (simp add: pack16_into_def)

lemma serialpoke_senddata_ok:
  assumes "poke_wf me s" "\<And>r. packet = Some r \<Longrightarrow> length r = 8"
  shows "\<exists>t. serialpoke_senddata st packet s = Some t \<and> poke_wf me t \<and>
     pk_peers t = pk_peers s \<and> pk_offset t = pk_offset s \<and> pk_checksum t = pk_checksum s"
proof (cases packet)
  case None
  then show ?thesis using assms by (auto simp: serialpoke_senddata_def poke_wf_def)
next
  case (Some r)
  with senddata_Some [of r] assms(2) obtain b where "pack16_into 4 r 8 = Some b" by auto
  with Some assms(1) show ?thesis by (auto simp: serialpoke_senddata_def poke_wf_def)
qed

lemma send_frame_ok:
  assumes "poke_wf me s" "i < 4"
  shows "\<exists>t. send_frame i s = Some t \<and> poke_wf me t \<and>
     pk_peers t = pk_peers s \<and> pk_offset t = pk_offset s \<and> pk_checksum t = pk_checksum s"
proof -
  let ?row = "pp_data (pk_peers s ! i) ! 0"
  have p: "poke_peer_ok (pk_peers s ! i)" using poke_wf_nth [OF assms] .
  then have "length ?row = 8" by (auto simp: poke_peer_ok_def list_all_length)
  with serialpoke_senddata_ok [OF assms(1), of "if ismemzero ?row then None else Some ?row" STATE_CONNECTED]
  show ?thesis using p assms by (auto simp: send_frame_def poke_peer_ok_def poke_wf_peers split: if_splits)
qed

lemma store_word_ok:
  assumes "poke_wf me s" "i < 4" "pk_offset s \<noteq> 0"
  shows "\<exists>t. store_word i v s = Some t \<and> poke_wf me t \<and> pk_offset t = pk_offset s \<and>
     pk_checksum t = pk_checksum s \<and> pk_sent t = pk_sent s"
proof -
  let ?p = "pk_peers s ! i" let ?row = "pp_data ?p ! 0"
  let ?d = "(pp_data ?p)[0 := ?row[unat (pk_offset s) - 1 := v]]"
  have p: "poke_peer_ok ?p" using poke_wf_nth [OF assms(1,2)] .
  then have r: "length ?row = 8" "length (pp_data ?p) = 128" by (auto simp: poke_peer_ok_def list_all_length)
  have o: "unat (pk_offset s) - 1 < 8" using poke_wf_peers(3) [OF assms(1)] by simp
  have "poke_peer_ok (?p\<lparr>pp_data := ?d\<rparr>)"
    using p r by (auto simp: poke_peer_ok_def list_all_iff dest!: set_update_subset_insert [THEN subsetD])
  then have "poke_wf me (upd_peer i (\<lambda>p. p\<lparr>pp_data := ?d\<rparr>) s)"
    unfolding upd_peer_def by (intro poke_wf_upd assms) (simp_all add: receiving_ok_def)
  moreover have "store_word i v s = Some (upd_peer i (\<lambda>p. p\<lparr>pp_data := ?d\<rparr>) s)"
    using r o assms poke_wf_peers(1) [OF assms(1)] by (simp add: store_word_def)
  ultimately show ?thesis by (simp add: upd_peer_def)
qed

lemma peer_words_ok:
  assumes "poke_wf me s" "list_all (\<lambda>i. i < 4) is" "pk_offset s \<noteq> 0"
  shows "\<exists>t regs'. peer_words is s regs = Some (t, regs') \<and> poke_wf me t \<and> pk_peers t = pk_peers s \<and>
     pk_offset t = pk_offset s \<and> pk_sent t = pk_sent s"
  using assms
proof (induction "is" arbitrary: s regs)
  case (Cons i "is")
  let ?p = "pk_peers s ! i"
  have p: "poke_peer_ok ?p" "i < 4" using poke_wf_nth [OF Cons.prems(1)] Cons.prems(2) by auto
  then have r: "length (pp_data ?p ! 0) = 8" "length (pp_data ?p) = 128"
    by (auto simp: poke_peer_ok_def list_all_length)
  have o: "unat (pk_offset s) - 1 < 8" using poke_wf_peers(3) [OF Cons.prems(1)] by simp
  show ?case
  proof (cases "pp_recvd ?p")
    case True
    let ?w = "pp_data ?p ! 0 ! (unat (pk_offset s) - 1)"
    have "poke_wf me (s\<lparr>pk_checksum := pk_checksum s + ?w\<rparr>)" using Cons.prems(1) by (simp add: poke_wf_def)
    from Cons.IH [OF this] Cons.prems True p r o poke_wf_peers(1) [OF Cons.prems(1)]
    show ?thesis by auto
  next
    case False
    with Cons.IH [OF Cons.prems(1)] Cons.prems p poke_wf_peers(1) [OF Cons.prems(1)]
    show ?thesis by auto
  qed
qed simp

lemma consume_peers_ok:
  assumes "list_all poke_peer_ok ps" "list_all receiving_ok ps"
  shows "\<exists>qs. consume_peers ps = Some qs \<and> list_all poke_peer_ok qs \<and> length qs = length ps \<and>
    map poke_view qs = map (\<lambda>p. if pp_recvd p then tl (poke_view p) else poke_view p) ps"
  using assms
proof (induction ps)
  case (Cons p ps)
  then have "pp_recvd p \<Longrightarrow> 0 < pp_count p" "poke_peer_ok p" by (simp_all add: receiving_ok_def)
  from consume_peer_ok [OF this(2,1)] obtain q where
    "consume_peer p = Some q" "poke_peer_ok q"
    "poke_view q = (if pp_recvd p then tl (poke_view p) else poke_view p)" by blast
  moreover from Cons obtain qs where "consume_peers ps = Some qs" "list_all poke_peer_ok qs"
    "length qs = length ps"
    "map poke_view qs = map (\<lambda>p. if pp_recvd p then tl (poke_view p) else poke_view p) ps" by auto
  ultimately show ?case by simp
qed simp

section \<open>Every operation keeps it\<close>

lemma u8_small_inc: "unat (c :: u8) \<le> 8 \<Longrightarrow> unat (c + 1) = unat c + 1"
  by (rule u8_inc) simp

lemma latch_ok [simp]: "poke_peer_ok (latch_peer p) = poke_peer_ok p" "receiving_ok (latch_peer p)"
  by (simp_all add: latch_peer_def poke_peer_ok_def receiving_ok_def)

lemma list_all_map_latch: "list_all poke_peer_ok ps \<Longrightarrow> list_all poke_peer_ok (map latch_peer ps)"
  by (auto simp: list_all_iff)

lemma list_all_take_drop: "list_all P xs \<Longrightarrow> list_all P (take n xs)" "list_all P xs \<Longrightarrow> list_all P (drop n xs)"
  by (auto simp: list_all_iff dest: in_set_takeD in_set_dropD)

text \<open>The end of a word exchange: the counter advances, and after the eighth word the frame
  is sent and the peers that were being received are consumed.\<close>

lemma off_not8:
  assumes "unat (o' :: u8) \<le> 8" "\<not> 8 \<le> o'"
  shows "unat (o' + 1) \<le> 8"
proof -
  have "unat (8 :: u8) = 8" by simp
  then have "unat o' < 8" using assms(2) unfolding word_le_nat_alt by linarith
  then show ?thesis using u8_small_inc [of o'] by simp
qed

lemma count_handshake_wf: "poke_wf me s \<Longrightarrow> poke_wf me (count_handshake v s)"
  by (simp add: count_handshake_def poke_wf_def)

lemma frame_end_ok:
  assumes b: "poke_wf me b" "pk_offset b \<noteq> 0" "me < 4"
  shows "\<exists>t. frame_end me b = Some t \<and> poke_wf me t"
proof -
  have rec: "list_all receiving_ok (active_peers me (pk_peers b))"
    using b by (simp add: poke_wf_def)
  note f = poke_wf_peers [OF b(1)]
  let ?s = "b\<lparr>pk_offset := pk_offset b + 1\<rparr>"
  show ?thesis
  proof (cases "8 \<le> pk_offset b")
    case True
    have "poke_wf me (b\<lparr>pk_offset := 0\<rparr>)" using f by (intro poke_wf_off0) auto
    from send_frame_ok [OF this b(3)] obtain d where
      "send_frame me ?s = Some d" "pk_peers d = pk_peers b"
      by (auto simp: send_frame_def serialpoke_senddata_def Let_def bind_eq_Some_conv
          split: option.splits if_splits)
    moreover have "list_all poke_peer_ok (active_peers me (pk_peers b))"
      using f by (simp add: active_peers_def list_all_take_drop)
    from consume_peers_ok [OF this rec] obtain qs where
      "consume_peers (active_peers me (pk_peers b)) = Some qs" "list_all poke_peer_ok qs"
      "length qs = length (active_peers me (pk_peers b))" by blast
    ultimately show ?thesis using True f
      by (auto simp: frame_end_def Let_def active_peers_def list_all_take_drop intro!: poke_wf_off0
          split: if_splits)
  next
    case False
    then have "poke_wf me ?s"
      using b rec off_not8 [OF f(3)] by (simp add: poke_wf_def)
    with False show ?thesis by (simp add: frame_end_def Let_def)
  qed
qed

lemma master_connected_ok:
  assumes wf: "poke_wf 0 s"
  shows "\<exists>t regs'. master_connected v s regs = Some (t, regs') \<and> poke_wf 0 t"
proof -
  have ex: "\<exists>t regs'. master_exchange v u regs = Some (t, regs') \<and> poke_wf 0 t" if u: "poke_wf 0 u" for u
  proof (cases "pk_offset u = 0")
    case True
    note f = poke_wf_peers [OF u]
    have "list_all receiving_ok (map latch_peer (drop 1 (pk_peers u)))" by (simp add: list_all_iff)
    then have "poke_wf 0 (u\<lparr>pk_peers := take 1 (pk_peers u) @ map latch_peer (drop 1 (pk_peers u)),
        pk_offset := pk_offset u + 1, pk_checksum := 0\<rparr>)" using f True
      by (simp add: poke_wf_def active_peers_def list_all_take_drop list_all_map_latch)
    with True show ?thesis by (simp add: master_exchange_def)
  next
    case False
    from store_word_ok [OF u _ False, of 0 v] obtain a where
      a: "store_word 0 v u = Some a" "poke_wf 0 a" "pk_offset a = pk_offset u" by auto
    have "poke_wf 0 (a\<lparr>pk_checksum := pk_checksum a + v\<rparr>)" using a(2) by (simp add: poke_wf_def)
    from peer_words_ok [OF this, of "[1, 2, 3]" regs] a(3) False obtain b regs' where
      b: "peer_words [1, 2, 3] (a\<lparr>pk_checksum := pk_checksum a + v\<rparr>) regs = Some (b, regs')"
        "poke_wf 0 b" "pk_offset b \<noteq> 0" by auto
    from frame_end_ok [OF b(2,3)] show ?thesis
      unfolding master_exchange_def using False a b by (auto simp del: peer_words.simps)
  qed
  show ?thesis
    using ex [OF count_handshake_wf [OF wf]] poke_wf_upd_state [OF count_handshake_wf [OF wf], of 0]
    by (auto simp: master_connected_def Let_def)
qed

lemma serialpoke_master_send_ok:
  assumes "poke_wf 0 s"
  shows "\<exists>t regs'. serialpoke_master_send s regs = Some (t, regs') \<and> poke_wf 0 t"
proof -
  note f = poke_wf_peers [OF assms]
  have a: "poke_wf 0 (upd_peer 0 (\<lambda>p. p\<lparr>pp_state := STATE_HANDSHAKE\<rparr>) s)"
    using poke_wf_upd_state [OF assms, of 0] by simp
  let ?b = "s\<lparr>pk_checksum := 0, pk_offset := 0, pk_hscnt := 0,
     pk_peers := (pk_peers s ! 0)\<lparr>pp_state := STATE_CONNECTED\<rparr> # map (\<lambda>p. p\<lparr>pp_count := 0\<rparr>) (drop 1 (pk_peers s))\<rparr>"
  have "list_all poke_peer_ok (map (\<lambda>p. p\<lparr>pp_count := 0\<rparr>) (drop 1 (pk_peers s)))"
    using f(2) by (auto simp: list_all_iff poke_peer_ok_def dest!: in_set_dropD)
  then have b: "poke_wf 0 ?b" using f poke_wf_nth [OF assms, of 0]
    by (intro poke_wf_off0) (auto simp: poke_peer_ok_def)
  show ?thesis
    using serialpoke_senddata_ok [OF a, of None STATE_HANDSHAKE] assms
      serialpoke_senddata_ok [OF b, of None STATE_CONNECTED] serialpoke_senddata_ok [OF assms, of None STATE_HANDSHAKE]
      master_connected_ok [OF assms, of "read_ioreg regs REG_SIOMLT_SEND"
        "write_ioreg REG_SIOMULTI0 (read_ioreg regs REG_SIOMLT_SEND) regs"]
    by (cases "pp_state (pk_peers s ! 0) = STATE_PREINIT"; cases "pp_state (pk_peers s ! 0) = STATE_HANDSHAKE")
      (auto simp: serialpoke_master_send_def Let_def)
qed

lemma serialpoke_frame_update_ok:
  assumes "poke_wf me s" shows "poke_wf me (serialpoke_frame_update n s)"
proof -
  let ?f = "\<lambda>(i, p). if i \<noteq> n then age_peer p else p"
  have g: "poke_peer_ok p \<Longrightarrow> poke_peer_ok (age_peer p)" "receiving_ok p \<Longrightarrow> receiving_ok (age_peer p)" for p
    by (auto simp: age_peer_def) (auto simp: poke_peer_ok_def receiving_ok_def)
  have nth: "map ?f (enumerate 0 (pk_peers s)) ! i = ?f (i, pk_peers s ! i)" if "i < 4" for i
    using that poke_wf_peers(1) [OF assms] by (simp add: nth_enumerate_eq)
  show ?thesis
    using assms g nth
    by (auto simp: poke_wf_def serialpoke_frame_update_def list_all_length active_peers_def)
qed


lemma slave_connected_ok:
  assumes wf: "poke_wf me s" and me: "me < 4" "me \<noteq> 0"
  shows "\<exists>irq t regs'. slave_connected me s regs = Some (irq, t, regs') \<and> poke_wf me t"
proof -
  have ex: "\<exists>t regs'. slave_exchange me v u regs = Some (t, regs') \<and> poke_wf me t" if u: "poke_wf me u" for u v
  proof (cases "pk_offset u = 0")
    case True
    note f = poke_wf_peers [OF u]
    let ?ps = "(pk_peers u)[me := (pk_peers u ! me)\<lparr>pp_count := 1\<rparr>]"
    have "list_all receiving_ok (map latch_peer ?ps)" by (simp add: list_all_iff)
    moreover have "list_all poke_peer_ok ?ps" using f poke_wf_nth [OF u me(1)]
      by (auto simp: list_all_iff poke_peer_ok_def dest!: set_update_subset_insert [THEN subsetD])
    ultimately have "poke_wf me (u\<lparr>pk_peers := map latch_peer ?ps, pk_checksum := 0, pk_offset := pk_offset u + 1\<rparr>)"
      using f True me by (simp add: poke_wf_def active_peers_def list_all_map_latch)
    with True show ?thesis by (simp add: slave_exchange_def)
  next
    case False
    from store_word_ok [OF u me(1) False, of v] obtain a where
      a: "store_word me v u = Some a" "poke_wf me a" "pk_offset a = pk_offset u" by auto
    from peer_words_ok [OF a(2), of "[0, 1, 2, 3]" regs] a(3) False obtain b regs' where
      b: "peer_words [0, 1, 2, 3] a regs = Some (b, regs')"
        "poke_wf me b" "pk_offset b \<noteq> 0" by auto
    from frame_end_ok [OF b(2,3) me(1)] show ?thesis
      unfolding slave_exchange_def using False a b by (auto simp del: peer_words.simps)
  qed
  show ?thesis
    using ex [OF count_handshake_wf [OF wf], of "read_ioreg regs REG_SIOMLT_SEND" "read_ioreg regs REG_SIOMLT_SEND"]
      poke_wf_upd_state [OF count_handshake_wf [OF wf] me(1), of STATE_HANDSHAKE "read_ioreg regs REG_SIOMLT_SEND"]
    by (simp add: slave_connected_def Let_def) blast
qed

lemma serialpoke_update_ok:
  assumes wf: "poke_wf me s" and me: "me < 4"
  shows "\<exists>irq t regs'. serialpoke_update me cycles s regs = Some (irq, t, regs') \<and> poke_wf me t"
proof -
  have w: "poke_wf me (s\<lparr>pk_frcnt := c\<rparr>)" for c using wf by (simp add: poke_wf_def)
  let ?s = "s\<lparr>pk_frcnt := 0\<rparr>"
  have h: "\<exists>t. serialpoke_senddata st None (upd_peer me (\<lambda>p. p\<lparr>pp_state := x\<rparr>) ?s) = Some t \<and> poke_wf me t"
    for st x
    using serialpoke_senddata_ok [OF poke_wf_upd_state [OF w me, of x 0], of None st] by auto
  have a: "\<exists>irq t regs'. slave_handshake me ?s regs = Some (irq, t, regs') \<and> poke_wf me t" for regs
    using h [of STATE_HANDSHAKE STATE_HANDSHAKE] h [of STATE_PREINIT STATE_PREINIT]
    by (auto simp: slave_handshake_def Let_def)
  have "poke_wf me ((upd_peer me (\<lambda>p. p\<lparr>pp_state := STATE_CONNECTED\<rparr>) ?s)
      \<lparr>pk_checksum := 0, pk_offset := 0, pk_hscnt := 0\<rparr>)"
    using poke_wf_peers [OF poke_wf_upd_state [OF w me, of STATE_CONNECTED 0]]
    by (intro poke_wf_off0) auto
  from serialpoke_senddata_ok [OF this, of None STATE_CONNECTED]
  have b: "\<exists>irq t regs'. slave_to_connected me ?s regs = Some (irq, t, regs') \<and> poke_wf me t" for regs
    by (auto simp: slave_to_connected_def Let_def)
  have c: "me \<noteq> 0 \<Longrightarrow> \<exists>irq t regs'. slave_connected me ?s regs = Some (irq, t, regs') \<and> poke_wf me t" for regs
    by (rule slave_connected_ok [OF w me])
  show ?thesis
    using w a b c me poke_wf_peers(1) [OF wf]
    by (auto simp: serialpoke_update_def Let_def)
qed

lemma serialpoke_net_receive_ok:
  assumes wf: "poke_wf me s" and cid: "cid < 4"
  shows "\<exists>t. serialpoke_net_receive buf cid s = Some t \<and> poke_wf me t"
proof (cases "length buf = 24 \<and> netorder32 (leupack32 buf) = NET_SERPOKE_HEADER")
  case True
  let ?fl = "netorder32 (leupack32 (drop 4 buf))"
  let ?p = "(pk_peers s ! cid)\<lparr>pp_timeout := 0, pp_state := ucast ?fl\<rparr>"
  have p: "poke_peer_ok ?p" using poke_wf_nth [OF wf cid] by (simp add: poke_peer_ok_def)
  have "unpack16 0 (drop 8 buf) 8 = Some (map (\<lambda>k. ucast (drop_bit (if odd k then 0 else 16)
      (upack32 (take 4 (drop (k div 2 * 4) (drop 8 buf)))))) [0..<0 + 8])" (is "_ = Some ?ws")
  proof (rule unpack16_Some, intro allI impI)
    fix k :: nat assume "k < 0 + 8"
    then have "k div 2 < 4" by linarith
    then show "k div 2 * 4 + 4 \<le> length (drop 8 buf)" using True by simp
  qed
  moreover from poke_enqueue_ok [OF p, of ?ws] obtain q where
    q: "poke_enqueue ?ws ?p = Some q" "poke_peer_ok q" "pp_recvd q = pp_recvd ?p"
      "0 < pp_count ?p \<longrightarrow> 0 < pp_count q" by auto
  moreover have "poke_wf me (s\<lparr>pk_peers := (pk_peers s)[cid := q]\<rparr>)"
    using q by (intro poke_wf_upd [OF wf cid]) (auto simp: receiving_ok_def)
  moreover have "poke_wf me (s\<lparr>pk_peers := (pk_peers s)[cid := ?p]\<rparr>)"
    using p by (intro poke_wf_upd [OF wf cid]) (auto simp: receiving_ok_def)
  ultimately show ?thesis using True cid poke_wf_peers(1) [OF wf]
    by (auto simp: serialpoke_net_receive_def Let_def simp del: netorder_leupack)
qed (use wf in \<open>auto simp: serialpoke_net_receive_def\<close>)

section \<open>Reachable states\<close>

datatype poke_event =
    PkMaster ioregs
  | PkFrame
  | PkUpdate u32 ioregs
  | PkNet "u8 list" nat
  | PkReset

text \<open>Only device 0 sends as a master (\<^verbatim>\<open>serial.c\<close> checks the identifier); a session has
  four devices.\<close>

fun poke_step :: "nat \<Rightarrow> poke_event \<Rightarrow> poke \<Rightarrow> poke option" where
  "poke_step me (PkMaster regs) s = (if me = 0 then map_option fst (serialpoke_master_send s regs) else Some s)"
| "poke_step me PkFrame s = Some (serialpoke_frame_update me s)"
| "poke_step me (PkUpdate cycles regs) s = map_option (fst \<circ> snd) (serialpoke_update me cycles s regs)"
| "poke_step me (PkNet buf cid) s = serialpoke_net_receive buf cid s"
| "poke_step me PkReset s = Some (poke_reset s)"

fun poke_env_ok :: "poke_event \<Rightarrow> bool" where
  "poke_env_ok (PkNet buf cid) = (cid < 4)"
| "poke_env_ok e = True"

definition poke_boot :: poke where
  "poke_boot = \<lparr>pk_peers = replicate 4 zero_poke_peer, pk_checksum = 0, pk_offset = 0, pk_hscnt = 0,
                pk_frcnt = 0, pk_sent = []\<rparr>"

inductive poke_reach :: "nat \<Rightarrow> poke \<Rightarrow> bool" for me where
  poke_start: "poke_reach me poke_boot"
| poke_next: "poke_reach me s \<Longrightarrow> poke_env_ok e \<Longrightarrow> poke_step me e s = Some t \<Longrightarrow> poke_reach me t"

lemma poke_step_total:
  assumes "poke_wf me s" "me < 4" "poke_env_ok e"
  shows "\<exists>t. poke_step me e s = Some t \<and> poke_wf me t"
proof (cases e)
  case (PkMaster regs)
  with assms serialpoke_master_send_ok [of s regs] show ?thesis by auto
next
  case (PkUpdate cycles regs)
  with assms serialpoke_update_ok [of me s cycles regs] show ?thesis by auto
next
  case (PkNet buf cid)
  with assms serialpoke_net_receive_ok [of me s cid buf] show ?thesis by auto
qed (use assms in \<open>auto simp: serialpoke_frame_update_ok poke_reset_wf\<close>)

lemma poke_reach_wf: "poke_reach me s \<Longrightarrow> me < 4 \<Longrightarrow> poke_wf me s"
proof (induction rule: poke_reach.induct)
  case poke_start
  then show ?case by (intro poke_wf_off0) (simp_all add: poke_boot_def list_all_length)
next
  case (poke_next s e t)
  with poke_step_total [of me s e] show ?case by auto
qed

text \<open>C9: the link emulation of a session of four devices never leaves its arrays: in every
  reachable state any transfer, cycle update, frame or packet of a device 0 to 3 succeeds
  and keeps the frame counter within 8 and every queue within its 128 rows, and a queue
  counter is never decremented below zero.\<close>

theorem poke_no_undefined_behaviour:
  assumes "poke_reach me s" "me < 4" "poke_env_ok e"
  shows "\<exists>t. poke_step me e s = Some t \<and> poke_wf me t"
  using poke_step_total [OF poke_reach_wf [OF assms(1,2)] assms(2,3)] .

lemma poke_no_undefined_behaviour_witness:
  "\<exists>t. poke_step 2 (PkNet [1, 2, 3] 3) poke_boot = Some t \<and> poke_wf 2 t"
  by (rule poke_no_undefined_behaviour) (auto intro: poke_start)

text \<open>A packet from a client identifier above 3 indexes past the four peers.\<close>

lemma poke_client_id_unchecked:
  assumes "length (pk_peers s) = 4" "length buf = 24" "upack32 buf = NET_SERPOKE_HEADER" "4 \<le> cid"
  shows "serialpoke_net_receive buf cid s = None"
  using assms by (simp add: serialpoke_net_receive_def arr_get_def)

lemma poke_client_id_unchecked_witness:
  "serialpoke_net_receive (be_bytes NET_SERPOKE_HEADER @ replicate 20 0) 4 poke_boot = None"
  by (rule poke_client_id_unchecked) (simp_all add: poke_boot_def)

text \<open>C11: the received packets of a peer form a bounded FIFO of 128 frames: any sequence of
  receptions and consumed frames behaves like a list that drops what does not fit.\<close>

theorem poke_queue_fifo:
  assumes "poke_peer_ok p" "list_all (\<lambda>ws. length ws = 8) (qputs ops)"
  shows "\<exists>q. qrun poke_enqueue poke_pop ops p = Some q \<and> poke_peer_ok q \<and>
     poke_view q = qspec 128 ops (poke_view p)"
  using kq.run_refines [OF assms] by blast

lemma poke_queue_fifo_witness:
  "\<exists>q. qrun poke_enqueue poke_pop [Put [1, 2, 3, 4, 5, 6, 7, 8], Pop] zero_poke_peer = Some q \<and>
     poke_peer_ok q \<and> poke_view q = []"
  using poke_queue_fifo [of zero_poke_peer "[Put [1, 2, 3, 4, 5, 6, 7, 8], Pop]"]
  by (simp add: poke_view_def [of zero_poke_peer] del: qrun.simps) (simp add: zero_poke_peer_def)

section \<open>A frame from the master to its peers\<close>

fun master_run :: "u16 list \<Rightarrow> poke \<Rightarrow> ioregs \<Rightarrow> (poke \<times> ioregs) option" where
  "master_run [] s regs = Some (s, regs)"
| "master_run (v # vs) s regs = do {
     (s, regs) \<leftarrow> serialpoke_master_send s (write_ioreg REG_SIOMLT_SEND v regs);
     master_run vs s regs }"

definition frame_row :: "poke \<Rightarrow> u16 list" where
  "frame_row s = pp_data (pk_peers s ! 0) ! 0"

text \<open>One data word that does not complete the frame.\<close>

lemma store_word_row:
  assumes "poke_wf me s" "pk_offset s \<noteq> 0"
  shows "\<exists>t. store_word 0 v s = Some t \<and> poke_wf me t \<and> pk_offset t = pk_offset s \<and>
     frame_row t = (frame_row s)[unat (pk_offset s) - 1 := v] \<and> pk_sent t = pk_sent s \<and>
     pp_state (pk_peers t ! 0) = pp_state (pk_peers s ! 0)"
proof -
  from store_word_ok [OF assms(1) _ assms(2), of 0 v] obtain t where
    t: "store_word 0 v s = Some t" "poke_wf me t" "pk_offset t = pk_offset s" "pk_sent t = pk_sent s" by auto
  have l: "length (pk_peers s) = 4" "length (pp_data (pk_peers s ! 0)) = 128"
    using poke_wf_nth [OF assms(1), of 0] poke_wf_peers(1) [OF assms(1)] by (auto simp: poke_peer_ok_def)
  with t(1) have "frame_row t = (frame_row s)[unat (pk_offset s) - 1 := v] \<and>
     pp_state (pk_peers t ! 0) = pp_state (pk_peers s ! 0)"
    by (auto simp: store_word_def bind_eq_Some_conv arr_eq_Some frame_row_def upd_peer_def)
  with t show ?thesis by blast
qed

lemma exchange_word:
  assumes wf: "poke_wf 0 s" and o: "pk_offset s \<noteq> 0"
  shows "\<exists>b regs'. master_exchange v s regs = do { t \<leftarrow> frame_end 0 b; Some (t, regs') } \<and>
     poke_wf 0 b \<and> pk_offset b = pk_offset s \<and>
     frame_row b = (frame_row s)[unat (pk_offset s) - 1 := v] \<and> pk_sent b = pk_sent s \<and>
     pp_state (pk_peers b ! 0) = pp_state (pk_peers s ! 0)"
proof -
  from store_word_row [OF assms, of v] obtain a where
    a: "store_word 0 v s = Some a" "poke_wf 0 a" "pk_offset a = pk_offset s"
      "frame_row a = (frame_row s)[unat (pk_offset s) - 1 := v]" "pk_sent a = pk_sent s"
      "pp_state (pk_peers a ! 0) = pp_state (pk_peers s ! 0)" by blast
  have "poke_wf 0 (a\<lparr>pk_checksum := pk_checksum a + v\<rparr>)" using a(2) by (simp add: poke_wf_def)
  from peer_words_ok [OF this, of "[1, 2, 3]" regs] a o obtain b regs' where
    b: "peer_words [1, 2, 3] (a\<lparr>pk_checksum := pk_checksum a + v\<rparr>) regs = Some (b, regs')" "poke_wf 0 b"
      "pk_peers b = pk_peers a" "pk_offset b = pk_offset a" "pk_sent b = pk_sent a" by auto
  show ?thesis
    by (rule exI [of _ b], rule exI [of _ regs'])
      (use a b o in \<open>simp add: master_exchange_def frame_row_def del: peer_words.simps\<close>)
qed

lemma frame_end_mid:
  assumes "poke_wf 0 b" "pk_offset b \<noteq> 0" "\<not> 8 \<le> pk_offset b"
  shows "frame_end 0 b = Some (b\<lparr>pk_offset := pk_offset b + 1\<rparr>) \<and> poke_wf 0 (b\<lparr>pk_offset := pk_offset b + 1\<rparr>)"
  using frame_end_ok [OF assms(1,2), of] assms(3) by (auto simp: frame_end_def Let_def)

lemma frame_end_last:
  assumes "poke_wf 0 b" "pk_offset b = 8" "\<not> ismemzero (frame_row b)"
  shows "\<exists>t body. frame_end 0 b = Some t \<and> poke_wf 0 t \<and> pk_offset t = 0 \<and>
     pack16_into 4 (frame_row b) 8 = Some body \<and>
     pk_sent t = pk_sent b @ [be_bytes NET_SERPOKE_HEADER @ be_bytes 0x80000002 @ body]"
proof -
  have row: "length (frame_row b) = 8" "length (pp_data (pk_peers b ! 0)) = 128" "length (pk_peers b) = 4"
    using poke_wf_nth [OF assms(1), of 0] poke_wf_peers(1) [OF assms(1)]
    by (auto simp: frame_row_def poke_peer_ok_def list_all_length)
  from senddata_Some [OF row(1)] obtain body where body: "pack16_into 4 (frame_row b) 8 = Some body" by blast
  have sf: "send_frame 0 (b\<lparr>pk_offset := 9\<rparr>) = Some (b\<lparr>pk_offset := 9,
      pk_sent := pk_sent b @ [be_bytes NET_SERPOKE_HEADER @ be_bytes 0x80000002 @ body]\<rparr>)"
    using row body assms(3) by (simp add: send_frame_def serialpoke_senddata_def frame_row_def)
  from frame_end_ok [OF assms(1)] assms(2) obtain t where t: "frame_end 0 b = Some t" "poke_wf 0 t" by auto
  with sf assms(2) body show ?thesis
    by (auto simp: frame_end_def Let_def bind_eq_Some_conv)
qed

lemma master_send_connected:
  assumes "pp_state (pk_peers s ! 0) = STATE_CONNECTED" "v \<noteq> SLAVE_HANDSHAKE"
  shows "serialpoke_master_send s (write_ioreg REG_SIOMLT_SEND v regs) =
     master_exchange v (s\<lparr>pk_hscnt := 0\<rparr>) (write_ioreg REG_SIOMULTI0 v (write_ioreg REG_SIOMLT_SEND v regs))"
  using assms
  by (simp add: serialpoke_master_send_def Let_def master_connected_def count_handshake_def restarts_def)

lemma master_words:
  assumes "poke_wf 0 s" "pp_state (pk_peers s ! 0) = STATE_CONNECTED" "pk_offset s \<noteq> 0"
    and "unat (pk_offset s) + length vs = 9" "SLAVE_HANDSHAKE \<notin> set vs"
    and "\<not> ismemzero (take (unat (pk_offset s) - 1) (frame_row s) @ vs)"
  shows "\<exists>t regs' body. master_run vs s regs = Some (t, regs') \<and> poke_wf 0 t \<and> pk_offset t = 0 \<and>
     pack16_into 4 (take (unat (pk_offset s) - 1) (frame_row s) @ vs) 8 = Some body \<and>
     pk_sent t = pk_sent s @ [be_bytes NET_SERPOKE_HEADER @ be_bytes 0x80000002 @ body]"
  using assms
proof (induction vs arbitrary: s regs)
  case Nil
  then show ?case using poke_wf_peers(3) [OF Nil(1)] by simp
next
  case (Cons v vs)
  let ?u = "s\<lparr>pk_hscnt := 0\<rparr>" and ?r = "write_ioreg REG_SIOMULTI0 v (write_ioreg REG_SIOMLT_SEND v regs)"
  have u: "poke_wf 0 ?u" "pk_offset ?u \<noteq> 0" using Cons.prems by (simp_all add: poke_wf_def)
  from exchange_word [OF u, of v ?r] obtain b regs1 where
    b: "master_exchange v ?u ?r = do { t \<leftarrow> frame_end 0 b; Some (t, regs1) }" "poke_wf 0 b"
      "pk_offset b = pk_offset s" "frame_row b = (frame_row s)[unat (pk_offset s) - 1 := v]"
      "pk_sent b = pk_sent s" "pp_state (pk_peers b ! 0) = STATE_CONNECTED"
    using Cons.prems(2) by (auto simp: frame_row_def)
  have step: "serialpoke_master_send s (write_ioreg REG_SIOMLT_SEND v regs) = do { t \<leftarrow> frame_end 0 b; Some (t, regs1) }"
    using master_send_connected [of s v regs] Cons.prems b(1) by simp
  define o' where "o' = unat (pk_offset s)"
  have o: "1 \<le> o'" "o' \<le> 8" "o' + length vs = 8"
    using Cons.prems(3,4) poke_wf_peers(3) [OF Cons.prems(1)] by (auto simp: o'_def unat_gt_0 Suc_le_eq)
  have lr: "length (frame_row s) = 8"
    using poke_wf_nth [OF Cons.prems(1), of 0] by (auto simp: frame_row_def poke_peer_ok_def list_all_length)
  have tk: "take o' (frame_row b) = take (o' - 1) (frame_row s) @ [v]"
    using b(4) o lr by (cases o') (simp_all add: o'_def [symmetric] take_Suc_conv_app_nth)
  show ?case
  proof (cases vs)
    case Nil
    then have o8: "pk_offset b = 8" using o b(3) by (simp add: o'_def word_unat_eq_iff)
    have fr: "frame_row b = take (o' - 1) (frame_row s) @ [v]"
      using tk o Nil b(4) lr by simp
    have "\<not> ismemzero (frame_row b)" using Cons.prems(6) Nil fr by (simp add: o'_def)
    from frame_end_last [OF b(2) o8 this] show ?thesis
      using step Nil b(5) fr by (auto simp: o'_def)
  next
    case (Cons w ws)
    then have lt: "o' < 8" using o by simp
    have "unat (8 :: u8) = 8" by simp
    then have n8: "\<not> 8 \<le> pk_offset b" using lt b(3) unfolding word_le_nat_alt o'_def by simp
    have b0: "pk_offset b \<noteq> 0" using b(3) u(2) by simp
    let ?b = "b\<lparr>pk_offset := pk_offset b + 1\<rparr>"
    from frame_end_mid [OF b(2) b0 n8] have e: "frame_end 0 b = Some ?b" "poke_wf 0 ?b" by auto
    have uo: "unat (pk_offset ?b) = o' + 1" using u8_small_inc [of "pk_offset b"] b(3) o by (simp add: o'_def)
    have row': "take (unat (pk_offset ?b) - 1) (frame_row ?b) @ vs = take (o' - 1) (frame_row s) @ v # vs"
      using uo tk by (simp add: frame_row_def)
    have nz: "pk_offset ?b \<noteq> 0" using uo by auto
    have st: "pp_state (pk_peers ?b ! 0) = STATE_CONNECTED" using b(6) by simp
    have "unat (pk_offset ?b) + length vs = 9" "SLAVE_HANDSHAKE \<notin> set vs"
      using uo o Cons.prems(5) by auto
    moreover have "\<not> ismemzero (take (unat (pk_offset ?b) - 1) (frame_row ?b) @ vs)"
      unfolding row' using Cons.prems(6) by (simp add: o'_def)
    ultimately obtain t regs' body where
      "master_run vs ?b regs1 = Some (t, regs')" "poke_wf 0 t" "pk_offset t = 0"
      "pack16_into 4 (take (o' - 1) (frame_row s) @ v # vs) 8 = Some body"
      "pk_sent t = pk_sent s @ [be_bytes NET_SERPOKE_HEADER @ be_bytes 0x80000002 @ body]"
      using Cons.IH [OF e(2) st nz, of regs1] b(5) unfolding row' by auto
    then show ?thesis using step e by (auto simp: o'_def)
  qed
qed

lemma receive_data_packet:
  assumes wf: "poke_wf me r" and cid: "cid < 4" and ws: "length ws = 8"
    and body: "pack16_into 4 ws 8 = Some body"
  shows "\<exists>t. serialpoke_net_receive (be_bytes NET_SERPOKE_HEADER @ be_bytes 0x80000002 @ body) cid r = Some t \<and>
     poke_view (pk_peers t ! cid) = qput 128 ws (poke_view (pk_peers r ! cid)) \<and>
     pp_state (pk_peers t ! cid) = STATE_CONNECTED \<and> pp_timeout (pk_peers t ! cid) = 0"
proof -
  from senddata_Some [OF ws] body have b: "length body = 16" "unpack16 0 body 8 = Some ws" by auto
  let ?p = "(pk_peers r ! cid)\<lparr>pp_timeout := 0, pp_state := 2\<rparr>"
  have p: "poke_peer_ok ?p" using poke_wf_nth [OF wf cid] by (simp add: poke_peer_ok_def)
  have v: "poke_view ?p = poke_view (pk_peers r ! cid)" by (simp add: poke_view_def)
  from poke_enqueue_ok [OF p ws] obtain q where
    q: "poke_enqueue ws ?p = Some q" "poke_view q = qput 128 ws (poke_view (pk_peers r ! cid))"
    unfolding v by auto
  then have "pp_state q = 2 \<and> pp_timeout q = 0"
    by (auto simp: poke_enqueue_def bind_eq_Some_conv split: if_splits)
  moreover have e: "(2147483650 :: u16) = 2" by simp
  ultimately show ?thesis using q b cid poke_wf_peers(1) [OF wf]
    by (simp add: serialpoke_net_receive_def e del: qput.simps)
qed

text \<open>C10: a master's frame reaches its peers. When a connected master, at the start of a frame,
  exchanges a first word and then eight data words that are not all zero, exactly one
  packet is broadcast, and a device 0 to 3 that receives it appends exactly these eight words to
  the queue it keeps for the sender, or drops them when this queue holds 128 frames. None of the
  words is the handshake token 0xB9A0, which starts a new handshake.\<close>

theorem poke_frame_delivery:
  assumes "poke_wf 0 s" "pp_state (pk_peers s ! 0) = STATE_CONNECTED" "pk_offset s = 0"
    and "length vs = 8" "SLAVE_HANDSHAKE \<notin> set (v # vs)" "\<not> ismemzero vs"
    and "poke_wf me r" "cid < 4"
  shows "\<exists>t regs' pkt r'. master_run (v # vs) s regs = Some (t, regs') \<and> pk_offset t = 0 \<and>
     pk_sent t = pk_sent s @ [pkt] \<and> serialpoke_net_receive pkt cid r = Some r' \<and>
     poke_view (pk_peers r' ! cid) = qput 128 vs (poke_view (pk_peers r ! cid))"
proof -
  let ?u = "s\<lparr>pk_hscnt := 0\<rparr>" and ?r = "write_ioreg REG_SIOMULTI0 v (write_ioreg REG_SIOMLT_SEND v regs)"
  have u: "poke_wf 0 ?u" using assms(1) by (simp add: poke_wf_def)
  let ?a = "?u\<lparr>pk_peers := take 1 (pk_peers s) @ map latch_peer (drop 1 (pk_peers s)),
      pk_offset := 1, pk_checksum := 0\<rparr>"
  have x: "serialpoke_master_send s (write_ioreg REG_SIOMLT_SEND v regs) =
      Some (?a, write_multi (\<lambda>_. pk_checksum s) [1, 2, 3] ?r)"
    using master_send_connected [of s v regs] assms(2,3,5) by (simp add: master_exchange_def)
  have "serialpoke_master_send s (write_ioreg REG_SIOMLT_SEND v regs) = Some (a, q) \<Longrightarrow> poke_wf 0 a" for a q
    using serialpoke_master_send_ok [OF assms(1), of "write_ioreg REG_SIOMLT_SEND v regs"] by auto
  with x have wa: "poke_wf 0 ?a" by blast
  have st: "pp_state (pk_peers ?a ! 0) = STATE_CONNECTED"
    using assms(2) poke_wf_peers(1) [OF assms(1)] by (cases "pk_peers s") auto
  from master_words [OF wa st, of vs "write_multi (\<lambda>_. pk_checksum s) [1, 2, 3] ?r"] assms(4,5,6) obtain t regs' body where
    t: "master_run vs ?a (write_multi (\<lambda>_. pk_checksum s) [1, 2, 3] ?r) = Some (t, regs')" "pk_offset t = 0"
      "pack16_into 4 vs 8 = Some body"
      "pk_sent t = pk_sent s @ [be_bytes NET_SERPOKE_HEADER @ be_bytes 0x80000002 @ body]" by auto
  from receive_data_packet [OF assms(7,8,4) t(3)] t x show ?thesis by auto
qed

lemma poke_frame_delivery_witness:
  "\<exists>t regs' pkt r'. master_run [5, 1, 2, 3, 4, 5, 6, 7, 8]
       (poke_boot\<lparr>pk_peers := zero_poke_peer\<lparr>pp_state := 2\<rparr> # replicate 3 zero_poke_peer\<rparr>) (\<lambda>_. 0) = Some (t, regs') \<and>
     pk_offset t = 0 \<and> pk_sent t = [pkt] \<and> serialpoke_net_receive pkt 0 poke_boot = Some r' \<and>
     poke_view (pk_peers r' ! 0) = qput 128 [1, 2, 3, 4, 5, 6, 7, 8] (poke_view (pk_peers poke_boot ! 0))"
proof -
  let ?s = "poke_boot\<lparr>pk_peers := zero_poke_peer\<lparr>pp_state := 2\<rparr> # replicate 3 zero_poke_peer\<rparr>"
  have "poke_wf 0 ?s"
    using zero_poke_peer_ok(1) by (intro poke_wf_off0) (simp_all add: poke_boot_def poke_peer_ok_def list_all_iff)
  moreover have "poke_wf 1 poke_boot"
    by (rule poke_wf_off0) (auto simp: poke_boot_def list_all_length)
  ultimately show ?thesis
    using poke_frame_delivery [of ?s "[1, 2, 3, 4, 5, 6, 7, 8]" 5 1 poke_boot 0 "\<lambda>_. 0"]
    by (simp add: poke_boot_def ismemzero_def del: master_run.simps qput.simps)
qed

end
