(* ===== verification/SerialAwProps.thy ===== *)
theory SerialAwProps
  imports SerialAw SerialPokeProps
begin

text \<open>
  What the Advance Wars link emulation guarantees: a peer's queue is a list of
  length-prefixed frames; a received packet appends one, the game reads them word by
  word in order. Frames longer than 254 words and packets with an odd word count break
  this, as stated at the end.
\<close>

section \<open>The frames of a queue\<close>

fun frames :: "u16 list \<Rightarrow> u16 list list option" where
  "frames [] = Some []"
| "frames (n # ws) =
     (if 0 < unat n \<and> unat n \<le> length ws
      then map_option (Cons (take (unat n) ws)) (frames (drop (unat n) ws)) else None)"

definition aw_view :: "aw_peer \<Rightarrow> u16 list list option" where
  "aw_view p = frames (take (unat (ap_count p)) (ap_data p))"

definition aw_peer_ok :: "aw_peer \<Rightarrow> bool" where
  "aw_peer_ok p \<longleftrightarrow> length (ap_data p) = 512 \<and> unat (ap_count p) < 512 \<and> aw_view p \<noteq> None"

lemma frames_append:
  "frames xs = Some fs \<Longrightarrow> unat n = length ws \<Longrightarrow> ws \<noteq> [] \<Longrightarrow> frames (xs @ n # ws) = Some (fs @ [ws])"
  by (induction xs arbitrary: fs rule: frames.induct) (auto split: if_splits)

lemma frames_Cons:
  assumes "frames xs = Some (f # fs)"
  shows "\<exists>n r. xs = n # f @ r \<and> unat n = length f \<and> f \<noteq> [] \<and> frames r = Some fs"
  using assms
proof (cases xs)
  case (Cons n ws)
  with assms have "0 < unat n" "unat n \<le> length ws" "f = take (unat n) ws" "frames (drop (unat n) ws) = Some fs"
    by (auto split: if_splits)
  with Cons show ?thesis
    by (intro exI [of _ n] exI [of _ "drop (unat n) ws"]) auto
qed simp

section \<open>Receiving a packet\<close>

lemma u16_of_nat: "n < 65536 \<Longrightarrow> unat (of_nat n :: u16) = n"
  by (simp add: unsigned_of_nat take_bit_nat_eq_self)

lemma u16_add: "unat (a :: u16) + unat b < 65536 \<Longrightarrow> unat (a + b) = unat a + unat b"
  by (simp add: unat_word_ariths)

lemma aw_enqueue_frame:
  assumes ok: "aw_peer_ok p" "aw_view p = Some fs"
    and body: "unpack16 0 body cnt = Some ws" "length ws = cnt"
    and front: "front = n # h" "unat n = length h + cnt" "0 < length h + cnt"
    and room: "unat (ap_count p) + cnt + length front < 512"
  shows "\<exists>q. aw_enqueue front body cnt p = Some q \<and> aw_peer_ok q \<and> aw_view q = Some (fs @ [h @ ws]) \<and>
     ap_recvd q = ap_recvd p"
proof -
  let ?c = "unat (ap_count p)" let ?l = "length front"
  have l: "length (ap_data p) = 512" using ok(1) by (simp add: aw_peer_ok_def)
  obtain d where d: "arr_blit (ap_data p) ?c front = Some d"
    using arr_blit_total [of ?c front "ap_data p"] room l by auto
  have ld: "length d = 512" using arr_blit_length [OF d] l by simp
  obtain e where e: "arr_blit d (?c + ?l) ws = Some e"
    using arr_blit_total [of "?c + ?l" ws d] room ld body(2) by auto
  have le: "length e = 512" using arr_blit_length [OF e] ld by simp
  have t1: "take (?c + ?l) d = take ?c (ap_data p) @ front" using arr_blit_take [OF d] .
  have t2: "take (?c + ?l + cnt) e = take ?c (ap_data p) @ front @ ws"
    using arr_blit_take [OF e] t1 body(2) by simp
  let ?q = "p\<lparr>ap_data := e, ap_count := ap_count p + of_nat (?l + cnt)\<rparr>"
  have cq: "unat (ap_count ?q) = ?c + ?l + cnt"
    using u16_add [of "ap_count p" "of_nat (?l + cnt)"] u16_of_nat [of "?l + cnt"] room by simp
  have v: "aw_view ?q = Some (fs @ [h @ ws])"
    unfolding aw_view_def cq
    using t2 frames_append [of "take ?c (ap_data p)" fs n "h @ ws"] ok(2) front body(2)
    by (auto simp: aw_view_def)
  have "aw_enqueue front body cnt p = Some ?q"
    using room d body e by (simp add: aw_enqueue_def)
  moreover have "aw_peer_ok ?q" using cq v room le by (simp add: aw_peer_ok_def)
  ultimately show ?thesis using v by auto
qed

text \<open>The packet of \<open>serialaw_senddata\<close>.\<close>

definition aw_pkt :: "u16 \<Rightarrow> u8 \<Rightarrow> nat \<Rightarrow> u8 list \<Rightarrow> u8 list" where
  "aw_pkt cmd st wcnt b = be_bytes NET_SERADWR_HEADER
     @ be_bytes (push_bit 16 (ucast cmd) OR push_bit 8 (ucast st) OR of_nat wcnt) @ b"

lemma aw_flags:
  assumes "wcnt \<le> 255"
  shows "(ucast (drop_bit 16 (push_bit 16 (ucast cmd) OR push_bit 8 (ucast (st :: u8)) OR of_nat wcnt :: u32)) :: u16) = cmd"
    "(ucast (drop_bit 8 (push_bit 16 (ucast (cmd :: u16)) OR push_bit 8 (ucast st) OR of_nat wcnt :: u32)) :: u8) = st"
    "unat ((push_bit 16 (ucast (cmd :: u16)) OR push_bit 8 (ucast (st :: u8)) OR of_nat wcnt :: u32) AND 0xff) = wcnt"
proof -
  define w where "w = (of_nat wcnt :: u8)"
  have w: "(of_nat wcnt :: u32) = ucast w"
    using assms by (simp add: w_def word_unat_eq_iff unsigned_ucast_eq unsigned_of_nat take_bit_nat_eq_self)
  show "(ucast (drop_bit 16 (push_bit 16 (ucast cmd) OR push_bit 8 (ucast (st :: u8)) OR of_nat wcnt :: u32)) :: u16) = cmd"
    unfolding w by (rule bit_word_eqI) (auto simp: bit_simps)
  show "(ucast (drop_bit 8 (push_bit 16 (ucast (cmd :: u16)) OR push_bit 8 (ucast st) OR of_nat wcnt :: u32)) :: u8) = st"
    unfolding w by (rule bit_word_eqI) (auto simp: bit_simps)
  have "(push_bit 16 (ucast (cmd :: u16)) OR push_bit 8 (ucast (st :: u8)) OR of_nat wcnt :: u32) AND mask 8 = ucast w"
    unfolding w by (rule bit_word_eqI) (auto simp: bit_simps dest: bit_imp_le_length)
  moreover have "unat (ucast w :: u32) = wcnt" unfolding w [symmetric] using assms
    by (simp add: unsigned_of_nat take_bit_nat_eq_self)
  ultimately show "unat ((push_bit 16 (ucast (cmd :: u16)) OR push_bit 8 (ucast (st :: u8)) OR of_nat wcnt :: u32) AND 0xff) = wcnt"
    by (simp add: mask_numeral)
qed

text \<open>C12: an Advance Wars packet is queued as one frame. What the sender
  broadcasts for an even number of words (2 to 254) makes a receiver with room append one frame to
  the sender's queue: the command and the words in packet mode.\<close>

theorem aw_send_receive:
  assumes "length ws = 2 * n" "1 \<le> n" "n \<le> 127" "length packet \<ge> 2 * n" "take (2 * n) packet = ws"
    and "length (aw_peers r) = 4" "cid < 4" "aw_peer_ok (aw_peers r ! cid)"
    and "aw_view (aw_peers r ! cid) = Some fs" "unat (ap_count (aw_peers r ! cid)) + 2 * n + 2 < 512"
  shows "\<exists>t pkt u. serialaw_senddata cmd STATE_PACKETXG packet (2 * n) s = Some t \<and>
     aw_sent t = aw_sent s @ [pkt] \<and> serialaw_net_receive pkt cid r = Some u \<and>
     aw_peer_ok (aw_peers u ! cid) \<and> aw_view (aw_peers u ! cid) = Some (fs @ [cmd # ws]) \<and>
     (\<forall>i. i \<noteq> cid \<longrightarrow> aw_peers u ! i = aw_peers r ! i)"
proof -
  have p: "pack16 0 packet n = pack16 0 ws n"
  proof -
    have nth: "packet ! j = ws ! j" if "j < 2 * n" for j using that assms(4,5) by (metis nth_take)
    have e: "map (\<lambda>k. be_bytes (be16 (packet ! (2 * k)) (packet ! (2 * k + 1)))) [0..<0 + n] =
      map (\<lambda>k. be_bytes (be16 (ws ! (2 * k)) (ws ! (2 * k + 1)))) [0..<0 + n]"
      by (rule map_cong) (auto simp: nth)
    have "pack16 0 packet n = Some (concat (map (\<lambda>k. be_bytes (be16 (packet ! (2 * k)) (packet ! (2 * k + 1)))) [0..<0 + n]))"
      by (rule pack16_Some) (use assms(4) in simp)
    also have "\<dots> = pack16 0 ws n"
      unfolding e by (rule pack16_Some [symmetric]) (use assms(1) in simp)
    finally show ?thesis .
  qed
  from unpack_pack [OF assms(1)] obtain b where
    b: "pack16 0 ws n = Some b" "length b = 4 * n" "unpack16 0 b (2 * n) = Some ws" by blast
  let ?pkt = "aw_pkt cmd STATE_PACKETXG (2 * n) b"
  have sd: "serialaw_senddata cmd STATE_PACKETXG packet (2 * n) s = Some (s\<lparr>aw_sent := aw_sent s @ [?pkt]\<rparr>)"
    using b p assms(3) by (simp add: serialaw_senddata_def pack16_into_def aw_pkt_def)
  let ?p = "(aw_peers r ! cid)\<lparr>ap_timeout := 0, ap_state := STATE_PACKETXG\<rparr>"
  have ok: "aw_peer_ok ?p" "aw_view ?p = Some fs" "unat (ap_count ?p) + 2 * n + 2 < 512"
    using assms(8,9,10) by (simp_all add: aw_peer_ok_def aw_view_def)
  have "unat (of_nat (2 * n) + 1 :: u16) = 1 + 2 * n"
    using u16_of_nat [of "2 * n + 1"] assms(3) by (simp add: add.commute)
  then obtain q where q: "aw_enqueue [of_nat (2 * n) + 1, cmd] b (2 * n) ?p = Some q" "aw_peer_ok q"
    "aw_view q = Some (fs @ [cmd # ws])"
    using aw_enqueue_frame [OF ok(1,2) b(3) assms(1), of "[of_nat (2 * n) + 1, cmd]" "of_nat (2 * n) + 1" "[cmd]"]
      ok(3) by auto
  have l: "length ?pkt = 2 * n * 2 + 8" using b by (simp add: aw_pkt_def)
  have f: "upack32 (drop 4 ?pkt) = push_bit 16 (ucast cmd) OR push_bit 8 (ucast STATE_PACKETXG) OR of_nat (2 * n)"
    "upack32 ?pkt = NET_SERADWR_HEADER" "drop 8 ?pkt = b" by (simp_all add: aw_pkt_def)
  have n255: "2 * n \<le> 255" using assms(3) by simp
  have "serialaw_net_receive ?pkt cid r = Some (set_peer cid q r)"
    unfolding serialaw_net_receive_def netorder_leupack f(1,2,3) Let_def aw_flags [OF n255]
    using l q(1) assms(2,6,7) by simp
  then show ?thesis using sd q assms(6,7)
    by (intro exI [of _ "s\<lparr>aw_sent := aw_sent s @ [?pkt]\<rparr>"] exI [of _ ?pkt] exI [of _ "set_peer cid q r"])
      (simp add: set_peer_def)
qed

section \<open>Reading a frame\<close>

fun read_words :: "nat \<Rightarrow> u16 \<Rightarrow> aw_peer \<Rightarrow> (u16 list \<times> aw_peer) option" where
  "read_words 0 idle p = Some ([], p)"
| "read_words (Suc n) idle p = do {
     (w, p) \<leftarrow> process_awpeer idle p;
     (ws, p) \<leftarrow> read_words n idle p;
     Some (w # ws, p) }"

lemma aw_view_split:
  assumes "aw_peer_ok p" "aw_view p = Some (f # fs)"
  shows "\<exists>n r tail. ap_data p = n # f @ r @ tail \<and> unat n = length f \<and> f \<noteq> [] \<and> frames r = Some fs \<and>
     unat (ap_count p) = 1 + length f + length r"
proof -
  from frames_Cons [of "take (unat (ap_count p)) (ap_data p)" f fs] assms(2) obtain n r where
    n: "take (unat (ap_count p)) (ap_data p) = n # f @ r" "unat n = length f" "f \<noteq> []" "frames r = Some fs"
    by (auto simp: aw_view_def)
  have "ap_data p = (n # f @ r) @ drop (unat (ap_count p)) (ap_data p)"
    using n(1) append_take_drop_id [of "unat (ap_count p)" "ap_data p"] by simp
  moreover have "unat (ap_count p) = 1 + length f + length r"
    using arg_cong [OF n(1), of length] assms(1) by (simp add: aw_peer_ok_def)
  ultimately show ?thesis using n by auto
qed

lemma drop_frame_ok:
  assumes "ap_data p = n # f @ r @ tail" "unat n = length f" "unat (ap_count p) = 1 + length f + length r"
    "length (ap_data p) = 512" "frames r = Some fs"
  shows "\<exists>q. drop_frame n p = Some q \<and> aw_peer_ok q \<and> aw_view q = Some fs \<and> ap_recvd q = 0"
proof -
  have l: "1 + length f + length r \<le> 512" using assms(1,4) by simp
  have "unat (n + 1) = length f + 1" using u16_add [of n 1] assms(2) l by simp
  then have "unat (ap_count p - (n + 1)) = length r"
    using assms(3) by (simp add: unat_sub word_le_nat_alt)
  moreover have "arr_slice (ap_data p) (unat n + 1) (length r) = Some r"
    using assms(1,2,4) by simp
  moreover obtain d where d: "arr_blit (ap_data p) 0 r = Some d"
    using arr_blit_total [of 0 r "ap_data p"] assms(4) l by auto
  ultimately have "drop_frame n p = Some (p\<lparr>ap_recvd := 0, ap_count := ap_count p - (n + 1), ap_data := d\<rparr>)"
    "unat (ap_count p - (n + 1)) = length r"
    by (simp_all add: drop_frame_def Let_def)
  moreover have "take (length r) d = r" "length d = 512"
    using arr_blit_zero_take [OF d] arr_blit_length [OF d] assms(4) by auto
  ultimately show ?thesis using assms(5) l assms(2,3) by (auto simp: aw_peer_ok_def aw_view_def)
qed

lemma read_rest:
  assumes "ap_data p = n # f @ r @ tail" "unat n = length f" "length f \<le> 254"
    "unat (ap_count p) = 1 + length f + length r" "length (ap_data p) = 512" "frames r = Some fs"
    and "unat (ap_recvd p) = k" "1 \<le> k" "k \<le> length f + 1"
  shows "\<exists>q. read_words (length f + 2 - k) idle p = Some (drop (k - 1) f @ [CMD_NONE], q) \<and>
     aw_peer_ok q \<and> aw_view q = Some fs \<and> ap_recvd q = 0"
  using assms(1,4,5,7,8,9)
proof (induction "length f + 1 - k" arbitrary: k p)
  case 0
  then have k: "k = length f + 1" by simp
  have r0: "ap_recvd p \<noteq> 0" using 0 by auto
  from drop_frame_ok [OF 0(2) assms(2) 0(3,4) assms(6)] obtain q where
    "drop_frame n p = Some q" "aw_peer_ok q" "aw_view q = Some fs" "ap_recvd q = 0" by blast
  moreover have "arr_get (ap_data p) 0 = Some n" using 0(2) by simp
  ultimately show ?case using k r0 0(5) assms(2)
    by (simp add: process_awpeer_def start_frame_def Let_def)
next
  case (Suc m)
  let ?p = "p\<lparr>ap_recvd := ap_recvd p + 1\<rparr>"
  have k: "k \<le> length f" "1 \<le> k" using Suc.hyps(2) Suc.prems by auto
  have r0: "ap_recvd p \<noteq> 0" using Suc.prems(4) k by auto
  have u: "unat (ap_recvd p + 1) = k + 1" using u8_inc [of "ap_recvd p"] Suc.prems(4) k assms(3) by simp
  have g: "arr_get (ap_data p) 0 = Some n" "arr_get (ap_data p) k = Some (f ! (k - 1))"
    using Suc.prems(1) k by (auto simp: arr_get_def nth_append nth_Cons')
  have st: "process_awpeer idle p = Some (f ! (k - 1), ?p)"
    using r0 g k Suc.prems(4) assms(2) by (simp add: process_awpeer_def start_frame_def Let_def)
  have e: "length f + 2 - k = Suc (length f + 2 - (k + 1))" using k by simp
  have d: "drop (k - 1) f = f ! (k - 1) # drop k f" using k Cons_nth_drop_Suc [of "k - 1" f] by simp
  have m: "m = length f + 1 - (k + 1)" using Suc.hyps(2) k by simp
  from Suc.hyps(1) [OF m, of ?p] Suc.prems u k obtain q where
    "read_words (length f + 2 - (k + 1)) idle ?p = Some (drop k f @ [CMD_NONE], q)" "aw_peer_ok q"
    "aw_view q = Some fs" "ap_recvd q = 0" by auto
  then show ?case unfolding e using st d by simp
qed

text \<open>the game reads a queued frame word by word. For a frame of at most 254 words, as
  many reads as it has words plus one return exactly these words and then the idle
  command, and leave the rest of the queue.\<close>

theorem aw_frame_read:
  assumes "aw_peer_ok p" "aw_view p = Some (f # fs)" "ap_recvd p = 0" "length f \<le> 254"
  shows "\<exists>q. read_words (length f + 1) idle p = Some (f @ [CMD_NONE], q) \<and>
     aw_peer_ok q \<and> aw_view q = Some fs \<and> ap_recvd q = 0"
proof -
  from aw_view_split [OF assms(1,2)] obtain n r tail where
    s: "ap_data p = n # f @ r @ tail" "unat n = length f" "f \<noteq> []" "frames r = Some fs"
       "unat (ap_count p) = 1 + length f + length r" by blast
  let ?p = "p\<lparr>ap_recvd := 1\<rparr>"
  have l: "length (ap_data ?p) = 512" using assms(1) by (simp add: aw_peer_ok_def)
  have "ap_count p \<noteq> 0" using s(5) by auto
  then have "start_frame p = ?p" "start_frame ?p = ?p" using assms(3) by (simp_all add: start_frame_def)
  then have "process_awpeer idle p = process_awpeer idle ?p" by (simp add: process_awpeer_def)
  then have "read_words (length f + 1) idle p = read_words (length f + 1) idle ?p" by simp
  moreover have "\<exists>q. read_words (length f + 2 - 1) idle ?p = Some (drop (1 - 1) f @ [CMD_NONE], q) \<and>
     aw_peer_ok q \<and> aw_view q = Some fs \<and> ap_recvd q = 0"
    by (rule read_rest [of ?p n f r tail fs 1 idle]) (use s l assms(4) in simp_all)
  ultimately show ?thesis by simp
qed

lemma sample_frame_ok: "aw_peer_ok (zero_aw_peer\<lparr>ap_data := 2 # 7 # 8 # replicate 509 0, ap_count := 3\<rparr>)"
  "aw_view (zero_aw_peer\<lparr>ap_data := 2 # 7 # 8 # replicate 509 0, ap_count := 3\<rparr>) = Some [[7, 8]]"
proof -
  have "take 3 (2 # 7 # 8 # replicate 509 (0 :: u16)) = [2, 7, 8]" by (simp add: numeral_eq_Suc)
  moreover have "frames [2, 7, 8 :: u16] = Some [[7, 8]]" by simp
  ultimately show v: "aw_view (zero_aw_peer\<lparr>ap_data := 2 # 7 # 8 # replicate 509 0, ap_count := 3\<rparr>) = Some [[7, 8]]"
    by (simp add: aw_view_def)
  show "aw_peer_ok (zero_aw_peer\<lparr>ap_data := 2 # 7 # 8 # replicate 509 0, ap_count := 3\<rparr>)"
    using v by (simp add: aw_peer_ok_def)
qed

lemma aw_frame_read_witness:
  "\<exists>q. read_words (length [7, 8 :: u16] + 1) 0 (zero_aw_peer\<lparr>ap_data := 2 # 7 # 8 # replicate 509 0, ap_count := 3\<rparr>)
     = Some ([7, 8] @ [CMD_NONE], q) \<and> aw_peer_ok q \<and> aw_view q = Some [] \<and> ap_recvd q = 0"
  by (rule aw_frame_read) (use sample_frame_ok in \<open>simp_all add: zero_aw_peer_def\<close>)

lemma zero_aw_peer_ok: "aw_peer_ok zero_aw_peer" "aw_view zero_aw_peer = Some []"
  by (simp_all add: zero_aw_peer_def aw_peer_ok_def aw_view_def)

definition aw_boot :: aw where
  "aw_boot = \<lparr>aw_peers = replicate 4 zero_aw_peer, aw_lastcmd = 0, aw_frcnt = 0, aw_sent = []\<rparr>"

lemma aw_send_receive_witness:
  "\<exists>t pkt u. serialaw_senddata 0x4fff STATE_PACKETXG [3, 10, 11, 12] 4 aw_boot = Some t \<and>
     aw_sent t = [pkt] \<and> serialaw_net_receive pkt 2 aw_boot = Some u \<and>
     aw_view (aw_peers u ! 2) = Some [[0x4fff, 3, 10, 11, 12]]"
proof -
  have "\<exists>t pkt u. serialaw_senddata 0x4fff STATE_PACKETXG [3, 10, 11, 12] (2 * 2) aw_boot = Some t \<and>
     aw_sent t = aw_sent aw_boot @ [pkt] \<and> serialaw_net_receive pkt 2 aw_boot = Some u \<and>
     aw_peer_ok (aw_peers u ! 2) \<and> aw_view (aw_peers u ! 2) = Some ([] @ [0x4fff # [3, 10, 11, 12]]) \<and>
     (\<forall>i. i \<noteq> 2 \<longrightarrow> aw_peers u ! i = aw_peers aw_boot ! i)"
    by (rule aw_send_receive) (use zero_aw_peer_ok in \<open>simp_all add: aw_boot_def zero_aw_peer_def\<close>)
  then show ?thesis by (auto simp: aw_boot_def)
qed

section \<open>What goes wrong\<close>

lemma process_long_frame:
  assumes "length (ap_data p) = 512" "255 \<le> unat (ap_data p ! 0)" "ap_count p \<noteq> 0"
  shows "\<exists>w r. process_awpeer idle p = Some (w, p\<lparr>ap_recvd := r\<rparr>)"
proof -
  have r: "unat (ap_recvd (start_frame p)) \<le> 255" by (rule unat_u8_le)
  have s: "ap_recvd (start_frame p) \<noteq> 0" "ap_data (start_frame p) = ap_data p"
    "\<exists>r. start_frame p = p\<lparr>ap_recvd := r\<rparr>"
    using assms(3) by (auto simp: start_frame_def intro: exI [of _ "ap_recvd p"])
  then obtain r0 where "start_frame p = p\<lparr>ap_recvd := r0\<rparr>" by blast
  with s r assms(1,2) show ?thesis by (auto simp: process_awpeer_def Let_def)
qed

text \<open>A frame of 255 or 256 words is never consumed: the read position is a byte, so it
  wraps before it passes the end, and the game reads the same frame again for ever.\<close>

theorem aw_long_frame_stuck:
  assumes "aw_peer_ok p" "aw_view p = Some (f # fs)" "255 \<le> length f"
  shows "\<exists>ws q. read_words k idle p = Some (ws, q) \<and> aw_view q = Some (f # fs)"
proof -
  from aw_view_split [OF assms(1,2)] obtain n r tail where
    s: "ap_data p = n # f @ r @ tail" "unat n = length f" "unat (ap_count p) = 1 + length f + length r" by blast
  have c: "ap_count p \<noteq> 0" using s(3) by auto
  have "\<exists>ws r. read_words k idle (p\<lparr>ap_recvd := r0\<rparr>) = Some (ws, p\<lparr>ap_recvd := r\<rparr>)" for r0
  proof (induction k arbitrary: r0)
    case (Suc k)
    from process_long_frame [of "p\<lparr>ap_recvd := r0\<rparr>" idle] assms(1,3) s c obtain w r1 where
      "process_awpeer idle (p\<lparr>ap_recvd := r0\<rparr>) = Some (w, p\<lparr>ap_recvd := r1\<rparr>)"
      by (auto simp: aw_peer_ok_def)
    with Suc.IH [of r1] show ?case by auto
  qed auto
  from this [of "ap_recvd p"] assms(2) show ?thesis by (auto simp: aw_view_def)
qed

lemma aw_long_frame_stuck_witness:
  "\<exists>ws q. read_words 1000 0 (zero_aw_peer\<lparr>ap_data := 255 # replicate 255 1 @ replicate 256 0, ap_count := 256\<rparr>) = Some (ws, q)
     \<and> aw_view q = Some [replicate 255 1]"
proof -
  let ?p = "zero_aw_peer\<lparr>ap_data := 255 # replicate 255 1 @ replicate 256 0, ap_count := 256\<rparr>"
  have "take 256 (255 # replicate 255 1 @ replicate 256 (0 :: u16)) = 255 # replicate 255 1"
    by (subst take_Cons') simp
  then have v: "aw_view ?p = Some [replicate 255 1]" by (simp add: aw_view_def)
  then have "aw_peer_ok ?p" by (simp add: aw_peer_ok_def)
  from aw_long_frame_stuck [OF this v, of 1000 0] show ?thesis by simp
qed

lemma unpack16_odd:
  assumes "odd n" "length d = 2 * n"
  shows "unpack16 0 d n = None"
proof -
  have "unpack16 i d m = None" if "i + m = n" "0 < m" for i m
    using that
  proof (induction m arbitrary: i)
    case (Suc m)
    show ?case
    proof (cases "m = 0")
      case True
      then have i: "i = n - 1" using Suc.prems by simp
      from assms(1) obtain k where "n = 2 * k + 1" by (auto elim: oddE)
      then have "\<not> i div 2 * 4 + 4 \<le> length d" using i assms(2) by simp
      then show ?thesis by (simp add: arr_slice_def)
    next
      case False
      then show ?thesis using Suc.IH [of "Suc i"] Suc.prems by (cases "arr_slice d (i div 2 * 4) 4") auto
    qed
  qed simp
  from this [of 0 n] show ?thesis using assms(1) by (cases n) auto
qed

text \<open>A packet with an odd number of words, exactly as the sender builds it, makes the
  receiver read two bytes past the end of the packet.\<close>

theorem aw_odd_packet_overread:
  assumes "odd n" "3 \<le> n" "n \<le> 255" "length body = 2 * n"
    and "length (aw_peers r) = 4" "cid < 4" "aw_peer_ok (aw_peers r ! cid)"
    and "unat (ap_count (aw_peers r ! cid)) + n + 2 < 512"
  shows "serialaw_net_receive (aw_pkt cmd STATE_PACKETXG n body) cid r = None"
proof -
  let ?pkt = "aw_pkt cmd STATE_PACKETXG n body"
  let ?p = "(aw_peers r ! cid)\<lparr>ap_timeout := 0, ap_state := STATE_PACKETXG\<rparr>"
  have f: "upack32 (drop 4 ?pkt) = push_bit 16 (ucast cmd) OR push_bit 8 (ucast STATE_PACKETXG) OR of_nat n"
    "upack32 ?pkt = NET_SERADWR_HEADER" "drop 8 ?pkt = body" "length ?pkt = n * 2 + 8"
    using assms(4) by (simp_all add: aw_pkt_def)
  have "aw_enqueue [of_nat n + 1, cmd] body n ?p = None"
    using unpack16_odd [OF assms(1,4)] assms(8) by (auto simp: aw_enqueue_def)
  then show ?thesis
    unfolding serialaw_net_receive_def netorder_leupack f Let_def aw_flags [OF assms(3)]
    using assms(2,5,6) by simp
qed

lemma aw_odd_packet_overread_witness:
  "serialaw_net_receive (aw_pkt 0x4fff STATE_PACKETXG 3 [0, 1, 0, 2, 0, 3]) 1 aw_boot = None"
  by (rule aw_odd_packet_overread) (use zero_aw_peer_ok in \<open>simp_all add: aw_boot_def zero_aw_peer_def\<close>)

text \<open>A game that announces a packet of 254 or 255 words makes the second protocol
  version send more words than its packet buffer holds.\<close>

theorem aw_oversized_packet:
  assumes "me < 4" "length (aw_peers s) = 4" "ap_pstate (aw_peers s ! me) = PSTATE_PACKET_BODY"
    and "length (ap_data (aw_peers s ! me)) = 512" "ap_data (aw_peers s ! me) ! 0 = n"
    and "254 \<le> unat n" "unat n \<le> 255" "unat (ap_count (aw_peers s ! me)) = unat n + 2"
  shows "packet_step SERIAL_MODE_SERIAL_AW2 me v s = None"
proof -
  let ?p = "aw_peers s ! me"
  have c: "unat (ap_count ?p + 1) = unat n + 3" using u16_add [of "ap_count ?p" 1] assms(7,8) by simp
  have "push_word me v s = Some (set_peer me (?p\<lparr>ap_data := (ap_data ?p)[unat n + 2 := v], ap_count := ap_count ?p + 1\<rparr>) s)"
    using assms(4,7,8) by (simp add: push_word_def Let_def)
  moreover have "\<not> (4 + unat n) div 2 \<le> 128" using assms(6) by linarith
  ultimately show ?thesis
    using assms c by (simp add: packet_step_def set_peer_def pack_tail_sz_def serialaw_senddata_def
        pack16_into_def Let_def)
qed

lemma aw_oversized_packet_witness:
  "packet_step SERIAL_MODE_SERIAL_AW2 0 9
     (aw_boot\<lparr>aw_peers := zero_aw_peer\<lparr>ap_pstate := 2, ap_data := 255 # replicate 511 0, ap_count := 257\<rparr> # replicate 3 zero_aw_peer\<rparr>) = None"
  by (rule aw_oversized_packet [of 0 _ 255]) simp_all

end
