(* ===== verification/Gpio.thy ===== *)
theory Gpio
  imports GpspPrelude
begin

text \<open>
  The general purpose I/O port of the cartridge in \<^verbatim>\<open>gba_memory.c\<close>: the real time clock,
  a serial device clocked by three pins of the port, and the rumble motor on the fourth.
  \<open>now\<close> is \<^verbatim>\<open>localtime\<close> of the emulated time, a value of the C library.
\<close>

section \<open>Rumble\<close>

record rumble =
  rumble_enable_tick :: u32
  rumble_ticks :: u32

definition write_rumble :: "u32 \<Rightarrow> bool \<Rightarrow> bool \<Rightarrow> rumble \<Rightarrow> rumble" where
  "write_rumble ticks oldv newv r =
     (if newv \<and> \<not> oldv then r\<lparr>rumble_enable_tick := ticks\<rparr>
      else if \<not> newv \<and> oldv then
        r\<lparr>rumble_ticks := rumble_ticks r + (ticks - rumble_enable_tick r), rumble_enable_tick := 0\<rparr>
      else r)"

definition rumble_frame_reset :: "u32 \<Rightarrow> rumble \<Rightarrow> rumble" where
  "rumble_frame_reset ticks r =
     (let r = r\<lparr>rumble_ticks := 0\<rparr> in
      if rumble_enable_tick r \<noteq> 0 then r\<lparr>rumble_enable_tick := ticks\<rparr> else r)"

section \<open>Real time clock\<close>

datatype rtc_state_t = RTC_DISABLED | RTC_IDLE | RTC_COMMAND | RTC_OUTPUT_DATA | RTC_INPUT_DATA

abbreviation (input) RTC_COMMAND_RESET :: u32 where "RTC_COMMAND_RESET \<equiv> 0x60"
abbreviation (input) RTC_COMMAND_WRITE_STATUS :: u32 where "RTC_COMMAND_WRITE_STATUS \<equiv> 0x62"
abbreviation (input) RTC_COMMAND_READ_STATUS :: u32 where "RTC_COMMAND_READ_STATUS \<equiv> 0x63"
abbreviation (input) RTC_COMMAND_OUTPUT_TIME_FULL :: u32 where "RTC_COMMAND_OUTPUT_TIME_FULL \<equiv> 0x65"
abbreviation (input) RTC_COMMAND_OUTPUT_TIME :: u32 where "RTC_COMMAND_OUTPUT_TIME \<equiv> 0x67"

abbreviation (input) GPIO_RTC_CLK :: u8 where "GPIO_RTC_CLK \<equiv> 0x1"
abbreviation (input) GPIO_RTC_CSS :: u8 where "GPIO_RTC_CSS \<equiv> 0x4"

text \<open>The fields of \<^verbatim>\<open>struct tm\<close> the clock reports.\<close>

record tm =
  tm_sec :: int
  tm_min :: int
  tm_hour :: int
  tm_mday :: int
  tm_mon :: int
  tm_year :: int
  tm_wday :: int

text \<open>
  The port and the clock behind it. \<open>gpio_data\<close>, \<open>gpio_dir\<close> and \<open>gpio_ctl\<close> are the three
  elements of \<^verbatim>\<open>gpio_regs\<close>; \<open>gpio_rom\<close> is what the ROM page at 0x8000000 shows at offsets
  0xC4, 0xC6 and 0xC8, when it is mapped.
\<close>

record gpio =
  rtc_enabled :: bool
  rumble_enabled :: bool
  gpio_data :: u8
  gpio_dir :: u8
  gpio_ctl :: u8
  gpio_rom :: "(u16 \<times> u16 \<times> u16) option"
  rtc_state :: rtc_state_t
  rtc_command :: u32
  rtc_data :: "64 word"
  rtc_data_bits :: u32
  rtc_status :: u32
  rtc_bit_count :: int
  gp_rumble :: rumble

definition encode_bcd :: "u8 \<Rightarrow> u8" where
  "encode_bcd value =
     (let value = value mod 100; l = value mod 10; h = value div 10 in h * 16 + l)"

definition time_full :: "tm \<Rightarrow> 64 word" where
  "time_full t =
     ucast (encode_bcd (of_int (tm_year t)))
     OR push_bit 8 (ucast (encode_bcd (of_int (tm_mon t + 1))))
     OR push_bit 16 (ucast (encode_bcd (of_int (tm_mday t))))
     OR push_bit 24 (ucast (encode_bcd (of_int (tm_wday t))))
     OR push_bit 32 (ucast (encode_bcd (of_int (tm_hour t))))
     OR push_bit 40 (ucast (encode_bcd (of_int (tm_min t))))
     OR push_bit 48 (ucast (encode_bcd (of_int (tm_sec t))))"

definition time_short :: "tm \<Rightarrow> 64 word" where
  "time_short t =
     ucast (encode_bcd (of_int (tm_hour t)))
     OR push_bit 8 (ucast (encode_bcd (of_int (tm_min t))))
     OR push_bit 16 (ucast (encode_bcd (of_int (tm_sec t))))"

text \<open>The command byte has been received.\<close>

definition rtc_start :: "tm \<Rightarrow> gpio \<Rightarrow> gpio" where
  "rtc_start now s =
     (if rtc_command s = RTC_COMMAND_RESET \<or> rtc_command s = RTC_COMMAND_WRITE_STATUS
      then s\<lparr>rtc_state := RTC_INPUT_DATA, rtc_data := 0, rtc_data_bits := 8\<rparr>
      else if rtc_command s = RTC_COMMAND_READ_STATUS
      then s\<lparr>rtc_state := RTC_OUTPUT_DATA, rtc_data_bits := 8, rtc_data := ucast (rtc_status s)\<rparr>
      else if rtc_command s = RTC_COMMAND_OUTPUT_TIME_FULL
      then s\<lparr>rtc_state := RTC_OUTPUT_DATA, rtc_data_bits := 56, rtc_data := time_full now\<rparr>
      else if rtc_command s = RTC_COMMAND_OUTPUT_TIME
      then s\<lparr>rtc_state := RTC_OUTPUT_DATA, rtc_data_bits := 24, rtc_data := time_short now\<rparr>
      else s)"

text \<open>A rising clock edge with the chip selected.\<close>

definition rtc_clock :: "tm \<Rightarrow> u8 \<Rightarrow> gpio \<Rightarrow> gpio" where
  "rtc_clock now new s =
     (case rtc_state s of
        RTC_COMMAND \<Rightarrow>
          (let s = s\<lparr>rtc_command := push_bit 1 (rtc_command s) OR (ucast (drop_bit 1 new) AND 1),
                     rtc_bit_count := rtc_bit_count s + 1\<rparr> in
           if rtc_bit_count s = 8 then (rtc_start now s)\<lparr>rtc_bit_count := 0\<rparr> else s)
      | RTC_INPUT_DATA \<Rightarrow>
          (let s = s\<lparr>rtc_data := push_bit 1 (rtc_data s) OR (ucast (drop_bit 1 new) AND 1),
                     rtc_data_bits := rtc_data_bits s - 1\<rparr> in
           if rtc_data_bits s = 0 then s\<lparr>rtc_status := ucast (rtc_data s), rtc_state := RTC_IDLE\<rparr> else s)
      | RTC_OUTPUT_DATA \<Rightarrow>
          (let s = (if gpio_dir s AND 0x2 = 0
                    then s\<lparr>gpio_data := (new AND NOT 0x2) OR push_bit 1 (ucast (rtc_data s) AND 1)\<rparr> else s);
               s = s\<lparr>rtc_data := drop_bit 1 (rtc_data s), rtc_data_bits := rtc_data_bits s - 1\<rparr> in
           if rtc_data_bits s = 0 then s\<lparr>rtc_state := RTC_IDLE\<rparr> else s)
      | _ \<Rightarrow> s)"

definition write_rtc :: "tm \<Rightarrow> u8 \<Rightarrow> u8 \<Rightarrow> gpio \<Rightarrow> gpio" where
  "write_rtc now old new s =
     (if new AND GPIO_RTC_CSS = 0 then s\<lparr>rtc_state := RTC_IDLE, rtc_command := 0, rtc_bit_count := 0\<rparr>
      else (let s = (if old AND GPIO_RTC_CSS = 0 then s\<lparr>rtc_state := RTC_COMMAND\<rparr> else s) in
            if old AND GPIO_RTC_CLK = 0 \<and> new AND GPIO_RTC_CLK \<noteq> 0 then rtc_clock now new s else s))"

section \<open>The port\<close>

definition update_gpio_romregs :: "gpio \<Rightarrow> gpio" where
  "update_gpio_romregs s =
     (if (rtc_enabled s \<or> rumble_enabled s) \<and> gpio_rom s \<noteq> None
      then s\<lparr>gpio_rom := Some (if gpio_ctl s \<noteq> 0 then (ucast (gpio_data s), ucast (gpio_dir s), ucast (gpio_ctl s))
                                else (0, 0, 0))\<rparr>
      else s)"

text \<open>\<open>ticks\<close> is \<^verbatim>\<open>cpu_ticks\<close>.\<close>

definition write_gpio :: "u32 \<Rightarrow> tm \<Rightarrow> u32 \<Rightarrow> u32 \<Rightarrow> gpio \<Rightarrow> gpio" where
  "write_gpio ticks now address value s =
     (let prev = gpio_data s;
          s = (if address = 0xC4 then
                 s\<lparr>gpio_data := (gpio_data s AND NOT (gpio_dir s)) OR (ucast value AND gpio_dir s)\<rparr>
               else if address = 0xC6 then s\<lparr>gpio_dir := ucast value AND 0xF\<rparr>
               else if address = 0xC8 then s\<lparr>gpio_ctl := ucast value AND 1\<rparr>
               else s);
          s = (if rtc_enabled s \<and> prev AND 0x7 \<noteq> gpio_data s AND 0x7
               then write_rtc now (prev AND 0x7) (gpio_data s AND 0x7) s else s);
          s = (if rumble_enabled s \<and> prev AND 0x8 \<noteq> gpio_data s AND 0x8
               then s\<lparr>gp_rumble := write_rumble ticks (prev AND 0x8 \<noteq> 0) (gpio_data s AND 0x8 \<noteq> 0) (gp_rumble s)\<rparr>
               else s)
      in update_gpio_romregs s)"

text \<open>The part of \<^verbatim>\<open>init_memory\<close> about the port; the clock keeps its data and status.\<close>

definition gpio_reset :: "gpio \<Rightarrow> gpio" where
  "gpio_reset s = s\<lparr>gp_rumble := \<lparr>rumble_enable_tick = 0, rumble_ticks = 0\<rparr>, rtc_state := RTC_DISABLED,
                    gpio_data := 0, gpio_dir := 0, gpio_ctl := 0\<rparr>"

end
