(* ===== verification/SerialPort.thy ===== *)
theory SerialPort
  imports RfuNetProps SerialAwProps Gpio
begin

text \<open>
  The serial port (\<^verbatim>\<open>serial.c\<close>), the Game Boy Player device (\<^verbatim>\<open>gbp.c\<close>), which drives
  the rumble accounting of theory \<open>Gpio\<close>, and the dispatch of network packets
  (\<^verbatim>\<open>libretro.c\<close>). \<open>ticks\<close> is \<^verbatim>\<open>cpu_ticks\<close>, \<open>pc\<close> the program counter, \<open>me\<close> and \<open>num\<close>
  the client identifier and the number of clients of the session.
\<close>

section \<open>Game Boy Player\<close>

record gbp =
  gbp_seq_n :: nat
  gbp_rumble :: bool
  gbp_allow_rumble :: bool

definition gbp_seq :: "u32 list" where
  "gbp_seq = [0x0000494E, 0x0000494E, 0xB6B1494E, 0xB6B1544E, 0xABB1544E, 0xABB14E45, 0xB1BA4E45,
     0xB1BA4F44, 0xB0BB4F44, 0xB0BB8002, 0x10000010, 0x20000013, 0x30000003, 0x30000003,
     0x30000003, 0x30000003]"

definition gbp_get_state :: "gbp \<Rightarrow> u32" where
  "gbp_get_state g = (of_nat (gbp_seq_n g) AND 0xF)
     OR (if gbp_rumble g then 0x10 else 0) OR (if gbp_allow_rumble g then 0x20 else 0)"

definition gbp_set_state :: "u32 \<Rightarrow> gbp" where
  "gbp_set_state v = \<lparr>gbp_seq_n = unat (v AND 0xF), gbp_rumble = (v AND 0x10 \<noteq> 0),
                      gbp_allow_rumble = (v AND 0x20 \<noteq> 0)\<rparr>"

definition gbp_reset :: "u32 \<Rightarrow> gbp \<Rightarrow> rumble \<Rightarrow> gbp \<times> rumble" where
  "gbp_reset ticks g r =
     (\<lparr>gbp_seq_n = 0, gbp_rumble = False, gbp_allow_rumble = False\<rparr>,
      write_rumble ticks (gbp_rumble g) False r)"

definition gbp_transfer :: "u32 \<Rightarrow> u32 \<Rightarrow> u32 \<Rightarrow> gbp \<Rightarrow> rumble \<Rightarrow> (u32 \<times> gbp \<times> rumble) option" where
  "gbp_transfer ticks pc value g r = do {
     ret \<leftarrow> arr_get gbp_seq (gbp_seq_n g);
     let g = g\<lparr>gbp_seq_n := gbp_seq_n g + 1,
               gbp_allow_rumble := gbp_allow_rumble g \<or> (0x08000000 \<le> pc \<and> pc < 0x0E000000)\<rparr>;
     Some (ret,
       if gbp_seq_n g = 16 then
         (if \<not> gbp_allow_rumble g then
            (if gbp_rumble g
             then (g\<lparr>gbp_rumble := False, gbp_seq_n := 0\<rparr>, write_rumble ticks True False r)
             else (g\<lparr>gbp_seq_n := 0\<rparr>, r))
          else
            (let active = (value AND 2 \<noteq> 0)
             in (g\<lparr>gbp_rumble := active, gbp_seq_n := 0\<rparr>, write_rumble ticks (gbp_rumble g) active r)))
       else (g, r)) }"

section \<open>Serial port state\<close>

datatype serial_kind = SERIAL_NORMAL | SERIAL_MULTI | SERIAL_UART | SERIAL_GPIO | SERIAL_JOYBUS

abbreviation (input) SERIAL_MODE_DISABLED :: nat where "SERIAL_MODE_DISABLED \<equiv> 0"
abbreviation (input) SERIAL_MODE_GBP :: nat where "SERIAL_MODE_GBP \<equiv> 1"
abbreviation (input) SERIAL_MODE_RFU :: nat where "SERIAL_MODE_RFU \<equiv> 2"
abbreviation (input) SERIAL_MODE_SERIAL_POKE :: nat where "SERIAL_MODE_SERIAL_POKE \<equiv> 3"
abbreviation (input) SERIAL_MODE_AUTO :: nat where "SERIAL_MODE_AUTO \<equiv> 6"

record serial =
  serial_irq_cycles :: u32
  sr_regs :: ioregs
  sr_rfu :: rfu
  sr_poke :: poke
  sr_aw :: aw
  sr_gbp :: gbp
  sr_rumble :: rumble

text \<open>What does not change while the port is used.\<close>

record session =
  serial_mode :: nat
  netplay_client_id :: u32
  netplay_num_clients :: u32

definition get_serial_mode :: "u16 \<Rightarrow> u16 \<Rightarrow> serial_kind" where
  "get_serial_mode siocnt rcnt =
     (if rcnt AND 0x8000 \<noteq> 0 then (if rcnt AND 0x4000 \<noteq> 0 then SERIAL_JOYBUS else SERIAL_GPIO)
      else if siocnt AND 0x2000 \<noteq> 0 then (if siocnt AND 0x1000 \<noteq> 0 then SERIAL_UART else SERIAL_MULTI)
      else SERIAL_NORMAL)"

definition serial_mul_siocnt :: "session \<Rightarrow> u16" where
  "serial_mul_siocnt ss =
     ucast (0x8 OR push_bit 4 (netplay_client_id ss) OR (if netplay_client_id ss \<noteq> 0 then 0x4 else 0))"

definition serialproto_reset :: "serial \<Rightarrow> serial" where
  "serialproto_reset s = s\<lparr>sr_poke := poke_reset (sr_poke s), sr_aw := aw_reset (sr_aw s)\<rparr>"

abbreviation (input) sreg :: "serial \<Rightarrow> nat \<Rightarrow> u16" where "sreg s r \<equiv> read_ioreg (sr_regs s) r"

definition wreg :: "nat \<Rightarrow> u16 \<Rightarrow> serial \<Rightarrow> serial" where
  "wreg r v s = s\<lparr>sr_regs := write_ioreg r v (sr_regs s)\<rparr>"

section \<open>Register writes\<close>

definition write_rcnt :: "session \<Rightarrow> u32 \<Rightarrow> u16 \<Rightarrow> serial \<Rightarrow> serial" where
  "write_rcnt ss ticks value s =
     (let oldval = sreg s REG_RCNT;
          pvmode = get_serial_mode oldval (sreg s REG_RCNT);
          nwmode = get_serial_mode value (sreg s REG_RCNT);
          s = wreg REG_RCNT value s in
      case nwmode of
        SERIAL_GPIO \<Rightarrow>
          (if serial_mode ss = SERIAL_MODE_RFU \<and> value AND 0x20 \<noteq> 0 \<and> oldval AND 0x02 = 0
           then s\<lparr>sr_rfu := rfu_reset ticks (sr_rfu s)\<rparr> else s)
      | SERIAL_MULTI \<Rightarrow>
          (let s = (if pvmode \<noteq> nwmode then serialproto_reset s else s)
           in wreg REG_SIOCNT ((sreg s REG_SIOCNT AND 0xFF83) OR serial_mul_siocnt ss) s)
      | _ \<Rightarrow> s)"

definition put_data32 :: "u32 \<Rightarrow> serial \<Rightarrow> serial" where
  "put_data32 v s = wreg REG_SIODATA32_H (ucast (drop_bit 16 v)) (wreg REG_SIODATA32_L (ucast (v AND 0xFFFF)) s)"

text \<open>The SI/SO acknowledge logic of the adapter, on the value about to be written.\<close>

definition rfu_ack :: "u16 \<Rightarrow> u16 \<Rightarrow> u16" where
  "rfu_ack oldval newval =
     (if newval AND 0x1 \<noteq> 0 then
        (if newval AND 0x8 \<noteq> 0 \<and> oldval AND 0x8 = 0 then newval AND NOT 0x4 else newval)
      else
        (let nv = (if newval AND 0x8 \<noteq> 0 \<and> oldval AND 0x8 = 0 then newval OR 0x4 else newval)
         in if nv AND 0x8 = 0 \<and> oldval AND 0x8 \<noteq> 0 then nv AND NOT 0x4 else nv))"

definition siocnt_rfu :: "u32 \<Rightarrow> u16 \<Rightarrow> serial \<Rightarrow> serial option" where
  "siocnt_rfu ticks newval s =
     (if newval AND 0x80 \<noteq> 0 \<and> newval AND 0x1 \<noteq> 0 \<and> serial_irq_cycles s = 0 then do {
        (rval, rf) \<leftarrow> rfu_transfer ticks (read_ioreg32 (sr_regs s) REG_SIODATA32_L) (sr_rfu s);
        let c = (if newval AND 0x2 \<noteq> 0 then 67 else 524 :: u32);
        Some ((put_data32 rval (s\<lparr>sr_rfu := rf\<rparr>))
          \<lparr>serial_irq_cycles := (if newval AND 0x1000 \<noteq> 0 then push_bit 2 c else c)\<rparr>) }
      else Some s)"

definition siocnt_gbp :: "u32 \<Rightarrow> u32 \<Rightarrow> u16 \<Rightarrow> serial \<Rightarrow> serial option" where
  "siocnt_gbp ticks pc newval s =
     (if newval AND 0x80 \<noteq> 0 \<and> newval AND 0x1 = 0 \<and> serial_irq_cycles s = 0 then do {
        (rval, g, r) \<leftarrow> gbp_transfer ticks pc (read_ioreg32 (sr_regs s) REG_SIODATA32_L) (sr_gbp s) (sr_rumble s);
        Some ((put_data32 rval (s\<lparr>sr_gbp := g, sr_rumble := r\<rparr>))\<lparr>serial_irq_cycles := 8192\<rparr>) }
      else Some s)"

definition multi_cycles :: "u16 \<Rightarrow> u32" where
  "multi_cycles newval = [31457, 7864, 5242, 2621] ! unat (newval AND 0x3)"

definition siocnt_multi :: "session \<Rightarrow> u16 \<Rightarrow> serial \<Rightarrow> serial option" where
  "siocnt_multi ss newval s =
     (if newval AND 0x80 \<noteq> 0 \<and> netplay_client_id ss = 0 \<and> serial_irq_cycles s = 0 then
        (let s = s\<lparr>serial_irq_cycles := multi_cycles newval * (netplay_num_clients ss + 1)\<rparr> in
         if serial_mode ss = SERIAL_MODE_SERIAL_POKE then do {
           (p, regs) \<leftarrow> serialpoke_master_send (sr_poke s) (sr_regs s);
           Some (s\<lparr>sr_poke := p, sr_regs := regs\<rparr>) }
         else if serial_mode ss = SERIAL_MODE_SERIAL_AW1 \<or> serial_mode ss = SERIAL_MODE_SERIAL_AW2 then do {
           (a, regs) \<leftarrow> serialaw_master_send (serial_mode ss) (sr_aw s) (sr_regs s);
           Some (s\<lparr>sr_aw := a, sr_regs := regs\<rparr>) }
         else Some s)
      else Some s)"

definition write_siocnt :: "session \<Rightarrow> u32 \<Rightarrow> u32 \<Rightarrow> u16 \<Rightarrow> serial \<Rightarrow> serial option" where
  "write_siocnt ss ticks pc value s =
     (let oldval = sreg s REG_SIOCNT;
          newval = (value AND 0x7F8B) OR (oldval AND 0x4);
          pvmode = get_serial_mode oldval (sreg s REG_RCNT);
          nwmode = get_serial_mode newval (sreg s REG_RCNT) in do {
      (newval, s) \<leftarrow>
        (case nwmode of
           SERIAL_NORMAL \<Rightarrow>
             (if serial_mode ss = SERIAL_MODE_RFU
              then map_option (Pair (rfu_ack oldval newval)) (siocnt_rfu ticks newval s)
              else if serial_mode ss = SERIAL_MODE_GBP
              then map_option (Pair newval) (siocnt_gbp ticks pc newval s)
              else Some (newval, s))
         | SERIAL_MULTI \<Rightarrow>
             (let s = (if pvmode \<noteq> nwmode then serialproto_reset s else s);
                  newval = (newval AND 0xFF83) OR serial_mul_siocnt ss
              in map_option (Pair newval) (siocnt_multi ss newval s))
         | _ \<Rightarrow> Some (newval, s));
      Some (wreg REG_SIOCNT newval s) })"

section \<open>Events\<close>

definition serial_next_event :: "serial \<Rightarrow> u32" where
  "serial_next_event s = (if serial_irq_cycles s \<noteq> 0 then serial_irq_cycles s else NOT 0)"

text \<open>What the connected device does with the cycles; \<open>polled\<close> are the packets the frontend
  delivers when the wireless adapter asks for them.\<close>

definition device_update :: "session \<Rightarrow> u32 \<Rightarrow> (u16 \<times> u8 list) list \<Rightarrow> u32 \<Rightarrow> serial \<Rightarrow> (bool \<times> serial) option" where
  "device_update ss ticks polled cycles s =
     (if serial_mode ss = SERIAL_MODE_RFU then do {
        (irq, regs, r) \<leftarrow> rfu_update ticks polled cycles (sr_regs s) (sr_rfu s);
        Some (irq, s\<lparr>sr_regs := regs, sr_rfu := r\<rparr>) }
      else if serial_mode ss = SERIAL_MODE_SERIAL_POKE then do {
        (irq, p, regs) \<leftarrow> serialpoke_update (unat (netplay_client_id ss)) cycles (sr_poke s) (sr_regs s);
        Some (irq, s\<lparr>sr_regs := regs, sr_poke := p\<rparr>) }
      else if serial_mode ss = SERIAL_MODE_SERIAL_AW1 \<or> serial_mode ss = SERIAL_MODE_SERIAL_AW2 then do {
        (irq, a, regs) \<leftarrow> serialaw_update (serial_mode ss) (unat (netplay_client_id ss)) cycles (sr_aw s) (sr_regs s);
        Some (irq, s\<lparr>sr_regs := regs, sr_aw := a\<rparr>) }
      else Some (False, s))"

definition count_irq :: "u32 \<Rightarrow> serial \<Rightarrow> bool \<times> serial" where
  "count_irq cycles s =
     (if serial_irq_cycles s \<noteq> 0 then
        (if cycles < serial_irq_cycles s
         then (False, s\<lparr>serial_irq_cycles := serial_irq_cycles s - cycles\<rparr>)
         else (True, s\<lparr>serial_irq_cycles := 0\<rparr>))
      else (False, s))"

definition finish_transfer :: "serial \<Rightarrow> bool \<times> serial" where
  "finish_transfer s =
     (case get_serial_mode (sreg s REG_SIOCNT) (sreg s REG_RCNT) of
        SERIAL_NORMAL \<Rightarrow>
          (let s = wreg REG_SIOCNT ((sreg s REG_SIOCNT AND NOT 0x80) OR 0x04) s
           in (sreg s REG_SIOCNT AND 0x4000 \<noteq> 0, s))
      | SERIAL_MULTI \<Rightarrow>
          (let s = wreg REG_SIOCNT (sreg s REG_SIOCNT AND NOT 0x80) s
           in (sreg s REG_SIOCNT AND 0x4000 \<noteq> 0, s))
      | _ \<Rightarrow> (False, s))"

definition update_serial :: "session \<Rightarrow> u32 \<Rightarrow> (u16 \<times> u8 list) list \<Rightarrow> u32 \<Rightarrow> serial \<Rightarrow> (bool \<times> serial) option" where
  "update_serial ss ticks polled cycles s = do {
     (irq, s) \<leftarrow> device_update ss ticks polled cycles s;
     if irq then Some (True, s)
     else (let (trigger, s) = count_irq cycles s
           in Some (if trigger then finish_transfer s else (False, s))) }"

section \<open>Network session\<close>

definition netpacket_receive :: "session \<Rightarrow> u32 \<Rightarrow> u8 list \<Rightarrow> u16 \<Rightarrow> serial \<Rightarrow> serial option" where
  "netpacket_receive ss ticks buf cid s =
     (if serial_mode ss = SERIAL_MODE_RFU
      then map_option (\<lambda>r. s\<lparr>sr_rfu := r\<rparr>) (rfu_net_receive ticks buf cid (sr_rfu s))
      else if serial_mode ss = SERIAL_MODE_SERIAL_POKE
      then map_option (\<lambda>p. s\<lparr>sr_poke := p\<rparr>) (serialpoke_net_receive buf (unat cid) (sr_poke s))
      else if serial_mode ss = SERIAL_MODE_SERIAL_AW1 \<or> serial_mode ss = SERIAL_MODE_SERIAL_AW2
      then map_option (\<lambda>a. s\<lparr>sr_aw := a\<rparr>) (serialaw_net_receive buf (unat cid) (sr_aw s))
      else Some s)"

definition netpacket_start :: "u16 \<Rightarrow> session \<Rightarrow> session" where
  "netpacket_start cid ss = ss\<lparr>netplay_num_clients := 0, netplay_client_id := ucast cid\<rparr>"

definition max_clients :: "nat \<Rightarrow> u32 option" where
  "max_clients mode = do { m \<leftarrow> arr_get [0, 0, 32, 4, 4, 4, 0] mode; Some (m - 1) }"

definition netpacket_connected :: "session \<Rightarrow> (bool \<times> session) option" where
  "netpacket_connected ss = do {
     m \<leftarrow> max_clients (serial_mode ss);
     Some (if m \<le> netplay_num_clients ss then (False, ss)
           else (True, ss\<lparr>netplay_num_clients := netplay_num_clients ss + 1\<rparr>)) }"

definition netpacket_disconnected :: "session \<Rightarrow> session" where
  "netpacket_disconnected ss = ss\<lparr>netplay_num_clients := netplay_num_clients ss - 1\<rparr>"

end
