(* ===== verification/EmuState.thy ===== *)
theory EmuState
  imports SerialPort
begin

text \<open>
  The state of the emulated machine that a savestate holds, one record per section: the
  registers of \<^verbatim>\<open>cpu.cc\<close>, the variables of \<^verbatim>\<open>input.c\<close> and \<^verbatim>\<open>main.c\<close>, the memories, backup
  and DMA channels of \<^verbatim>\<open>gba_memory.c\<close>, and the channels of \<^verbatim>\<open>sound.c\<close>. Variables the code
  declares \<^verbatim>\<open>u32\<close> are words here, also the enumerations, since a savestate can hold any word.
\<close>

record cpu_state =
  regs :: "u32 list"
  spsr :: "u32 list"
  reg_mode :: "u32 list"
  bus_value :: u32

record input_state =
  old_key :: u32
  turbo_a_counter :: u32
  turbo_b_counter :: u32
  gbp_keypad_frames :: u32
  gbp_keypad_sent :: bool

record timer_type =
  tm_count :: u32
  tm_reload :: u32
  tm_prescale :: u32
  tm_frequency_step :: u32
  tm_direct_sound_channels :: u32
  tm_irq :: u32
  tm_status :: u32

record main_state =
  frame_counter :: u32
  cpu_ticks :: u32
  execute_cycles :: u32
  video_count :: u32
  sleep_cycles :: u32
  irq_cycles :: u32
  random_state :: u32
  gbp_dev :: gbp
  timers :: "timer_type list"

record dma_transfer =
  source_address :: u32
  dest_address :: u32
  dma_length :: u32
  repeat_type :: u32
  direct_sound_chan :: u32
  source_direction :: u32
  dest_direction :: u32
  length_type :: u32
  start_type :: u32
  dma_irq :: u32

record memory_state =
  iwram :: "u8 list"
  ewram :: "u8 list"
  vram :: "u8 list"
  oam_ram :: "u8 list"
  palette_ram :: "u8 list"
  io_registers :: "u8 list"
  dma_bus_val :: u32
  v_backup_type :: u32
  v_flash_mode :: u32
  v_flash_command_position :: u32
  v_flash_bank_num :: u32
  v_flash_device_id :: u32
  v_flash_bank_cnt :: u32
  v_eeprom_size :: u32
  v_eeprom_mode :: u32
  v_eeprom_address :: u32
  v_eeprom_counter :: u32
  v_gpio_regs :: "u8 list"
  v_rtc_state :: u32
  v_rtc_write_mode :: u32
  v_rtc_command :: u32
  v_rtc_status :: u32
  v_rtc_data_bits :: u32
  v_rtc_bit_count :: u32
  v_rtc_data :: "64 word"
  v_rtc_base_time :: "64 word"
  dma_channels :: "dma_transfer list"

record direct_sound =
  fifo :: "u8 list"
  fifo_base :: u32
  fifo_top :: u32
  fifo_fractional :: u32
  buffer_index :: u32
  ds_status :: u32
  volume_halve :: u32

record gbc_sound =
  rate :: u32
  frequency_step :: u32
  sample_index :: u32
  tick_counter :: u32
  total_volume :: u32
  envelope_initial_volume :: u32
  envelope_volume :: u32
  envelope_direction :: u32
  envelope_status :: u32
  envelope_ticks :: u32
  envelope_initial_ticks :: u32
  sweep_status :: u32
  sweep_direction :: u32
  sweep_ticks :: u32
  sweep_initial_ticks :: u32
  sweep_shift :: u32
  length_status :: u32
  length_ticks :: u32
  noise_type :: u32
  wave_type :: u32
  wave_bank :: u32
  wave_volume :: u32
  gs_status :: u32
  active_flag :: u32
  master_enable :: u32
  sample_table_idx :: u32

record sound_state =
  sound_on :: u32
  sound_buffer_base :: u32
  gbc_sound_buffer_index :: u32
  gbc_sound_last_cpu_ticks :: u32
  gbc_sound_partial_ticks :: u32
  gbc_sound_master_volume_left :: u32
  gbc_sound_master_volume_right :: u32
  gbc_sound_master_volume :: u32
  wave_samples :: "u8 list"
  direct_sound_channel :: "direct_sound list"
  gbc_sound_channel :: "gbc_sound list"
  sound_buffer :: "u32 list"

record machine =
  m_cpu :: cpu_state
  m_input :: input_state
  m_main :: main_state
  m_memory :: memory_state
  m_sound :: sound_state

section \<open>Well-formed states: the sizes of the C arrays\<close>

definition cpu_wf :: "cpu_state \<Rightarrow> bool" where
  "cpu_wf s \<longleftrightarrow> length (regs s) = 19 \<and> length (spsr s) = 6 \<and> length (reg_mode s) = 49"

definition main_wf :: "main_state \<Rightarrow> bool" where
  "main_wf s \<longleftrightarrow> length (timers s) = 4 \<and> gbp_seq_n (gbp_dev s) < 16"

definition memory_wf :: "memory_state \<Rightarrow> bool" where
  "memory_wf s \<longleftrightarrow> length (iwram s) = 0x8000 \<and> length (ewram s) = 0x40000 \<and> length (vram s) = 0x18000
     \<and> length (oam_ram s) = 1024 \<and> length (palette_ram s) = 1024 \<and> length (io_registers s) = 1024
     \<and> length (v_gpio_regs s) = 3 \<and> length (dma_channels s) = 4"

abbreviation (input) BUFFER_SIZE :: nat where "BUFFER_SIZE \<equiv> 65536"

definition sound_wf :: "sound_state \<Rightarrow> bool" where
  "sound_wf s \<longleftrightarrow> length (wave_samples s) = 64
     \<and> length (direct_sound_channel s) = 2 \<and> (\<forall>c \<in> set (direct_sound_channel s). length (fifo c) = 32)
     \<and> length (gbc_sound_channel s) = 4 \<and> length (sound_buffer s) = BUFFER_SIZE"

definition machine_wf :: "machine \<Rightarrow> bool" where
  "machine_wf s \<longleftrightarrow> cpu_wf (m_cpu s) \<and> main_wf (m_main s) \<and> memory_wf (m_memory s) \<and> sound_wf (m_sound s)"

end
