(* ===== verification/Sound.thy ===== *)
theory Sound
  imports EmuState
begin

text \<open>
  The sound generators of \<^verbatim>\<open>sound.c\<close>: the sample queues of direct sound, the four tone
  channels with their envelope, sweep and length counters, the noise tables, and the mixing
  of both into the ring of samples. Signed words are words whose right shift is arithmetic.
  \<open>bits\<close> is \<^verbatim>\<open>sound_freq_bits\<close>; a division by zero and an index outside a table are \<open>None\<close>.
\<close>

section \<open>Frequency steps\<close>

definition u32_div :: "u32 \<Rightarrow> u32 \<Rightarrow> u32 option" where
  "u32_div a b = (if b = 0 then None else Some (a div b))"

definition psg_tone_step :: "nat \<Rightarrow> u32 \<Rightarrow> u32 option" where
  "psg_tone_step bits r = u32_div (push_bit (36 - bits) 1) (2048 - r)"

definition psg_wave_step :: "nat \<Rightarrow> u32 \<Rightarrow> u32 option" where
  "psg_wave_step bits r = u32_div (push_bit (37 - bits) 1) (2048 - r)"

definition psg_noise_step :: "nat \<Rightarrow> u32 \<Rightarrow> nat \<Rightarrow> u32 option" where
  "psg_noise_step bits dividing_ratio freq_shift =
     (if dividing_ratio = 0 then Some (drop_bit (freq_shift + 1) (push_bit (36 - bits) 1))
      else u32_div (push_bit (35 - bits) 1) (push_bit (freq_shift + 1) dividing_ratio))"

section \<open>Direct sound\<close>

definition fifo_push :: "u8 \<Rightarrow> direct_sound \<Rightarrow> direct_sound option" where
  "fifo_push b ds = do {
     q \<leftarrow> arr_set (fifo ds) (unat (fifo_top ds)) b;
     Some (ds\<lparr>fifo := q, fifo_top := (fifo_top ds + 1) AND 31\<rparr>) }"

definition ds_queue32 :: "u32 \<Rightarrow> direct_sound \<Rightarrow> direct_sound option" where
  "ds_queue32 value ds = do {
     ds \<leftarrow> fifo_push (ucast (value AND 0xFF)) ds;
     ds \<leftarrow> fifo_push (ucast (drop_bit 8 value AND 0xFF)) ds;
     ds \<leftarrow> fifo_push (ucast (drop_bit 16 value AND 0xFF)) ds;
     fifo_push (ucast (drop_bit 24 value)) ds }"

definition sound_timer_queue32 :: "nat \<Rightarrow> u32 \<Rightarrow> sound_state \<Rightarrow> sound_state option" where
  "sound_timer_queue32 chn value s = do {
     ds \<leftarrow> arr_get (direct_sound_channel s) chn;
     ds \<leftarrow> ds_queue32 value ds;
     Some (s\<lparr>direct_sound_channel := (direct_sound_channel s)[chn := ds]\<rparr>) }"

definition sound_reset_fifo :: "nat \<Rightarrow> sound_state \<Rightarrow> sound_state option" where
  "sound_reset_fifo chn s = do {
     ds \<leftarrow> arr_get (direct_sound_channel s) chn;
     Some (s\<lparr>direct_sound_channel := (direct_sound_channel s)[chn := ds\<lparr>fifo := replicate 32 0\<rparr>]\<rparr>) }"

text \<open>The interpolated sample, in 64 bit arithmetic.\<close>

definition interpolate :: "u32 \<Rightarrow> u32 \<Rightarrow> u32 \<Rightarrow> u32" where
  "interpolate cur nxt frac =
     cur + ucast (signed_drop_bit 16 (scast (nxt - cur) * ucast (drop_bit 8 frac) + push_bit 15 1 :: 64 word))"

definition add_sample :: "nat \<Rightarrow> u32 \<Rightarrow> u32 list \<Rightarrow> u32 list option" where
  "add_sample i v buf = do { x \<leftarrow> arr_get buf i; arr_set buf i (x + v) }"

definition next_slot :: "u32 \<Rightarrow> u32" where
  "next_slot i = (i + 2) mod of_nat BUFFER_SIZE"

abbreviation (input) DIRECT_SOUND_RIGHT :: u32 where "DIRECT_SOUND_RIGHT \<equiv> 1"
abbreviation (input) DIRECT_SOUND_LEFT :: u32 where "DIRECT_SOUND_LEFT \<equiv> 2"
abbreviation (input) DIRECT_SOUND_LEFTRIGHT :: u32 where "DIRECT_SOUND_LEFTRIGHT \<equiv> 3"

text \<open>One sample placed left and right as the channel is routed.\<close>

definition place_sample :: "u32 \<Rightarrow> u32 \<Rightarrow> nat \<Rightarrow> u32 list \<Rightarrow> u32 list option" where
  "place_sample status v i buf = do {
     buf \<leftarrow> (if status = DIRECT_SOUND_LEFT \<or> status = DIRECT_SOUND_LEFTRIGHT then add_sample i v buf else Some buf);
     if status = DIRECT_SOUND_RIGHT \<or> status = DIRECT_SOUND_LEFTRIGHT then add_sample (i + 1) v buf else Some buf }"

text \<open>
  The output loop \<^verbatim>\<open>while(fifo_fractional <= 0xFFFFFF)\<close>. Nothing in it bounds the rounds: with a
  step of zero it never ends.
\<close>

partial_function (option) ds_render ::
    "u32 \<Rightarrow> u32 \<Rightarrow> u32 \<Rightarrow> u32 \<Rightarrow> u32 \<Rightarrow> u32 \<Rightarrow> u32 list \<Rightarrow> (u32 \<times> u32 \<times> u32 list) option" where
  "ds_render status cur nxt step frac idx buf =
     (if frac \<le> 0xFFFFFF
      then do {
        buf \<leftarrow> (if status = 0 \<or> 3 < status then Some buf
               else place_sample status (interpolate cur nxt frac) (unat idx) buf);
        ds_render status cur nxt step (frac + step) (next_slot idx) buf }
      else Some (frac, idx, buf))"

definition fifo_sample :: "direct_sound \<Rightarrow> u32 option" where
  "fifo_sample ds = map_option (\<lambda>b. scast b * 256) (arr_get (fifo ds) (unat (fifo_base ds)))"

text \<open>
  A timer overflow takes one sample. The flag tells that at most half of the queue is left,
  when the caller transfers more. A status above 3 selects no loop.
\<close>

definition ds_timer :: "u32 \<Rightarrow> u32 \<Rightarrow> u32 list \<Rightarrow> direct_sound \<Rightarrow> (bool \<times> u32 list \<times> direct_sound) option" where
  "ds_timer on step buf ds = do {
     cur \<leftarrow> fifo_sample ds;
     let ds = ds\<lparr>fifo_base := (fifo_base ds + 1) mod 32\<rparr>;
     nxt \<leftarrow> fifo_sample ds;
     let halve = unat (volume_halve ds);
     let (cur, nxt, status) =
       (if on = 1 then (signed_drop_bit halve cur, signed_drop_bit halve nxt, ds_status ds) else (cur, nxt, 0));
     (frac, idx, buf) \<leftarrow>
       (if 3 < status then Some (fifo_fractional ds, buffer_index ds, buf)
        else ds_render status cur nxt step (fifo_fractional ds) (buffer_index ds) buf);
     let ds = ds\<lparr>buffer_index := idx, fifo_fractional := frac AND 0xFFFFFF\<rparr>;
     Some ((fifo_top ds - fifo_base ds) mod 32 \<le> 16, buf, ds) }"

definition sound_timer_sample :: "u32 \<Rightarrow> nat \<Rightarrow> sound_state \<Rightarrow> (bool \<times> sound_state) option" where
  "sound_timer_sample step chn s = do {
     ds \<leftarrow> arr_get (direct_sound_channel s) chn;
     (low, buf, ds) \<leftarrow> ds_timer (sound_on s) step (sound_buffer s) ds;
     Some (low, s\<lparr>direct_sound_channel := (direct_sound_channel s)[chn := ds], sound_buffer := buf\<rparr>) }"

section \<open>Tables\<close>

definition square_pattern_duty :: "u8 list list" where
  "square_pattern_duty =
     [[-8, -8, -8, -8, 7, -8, -8, -8], [-8, -8, -8, -8, 7, 7, -8, -8],
      [-8, -8, 7, 7, 7, 7, -8, -8], [7, 7, 7, 7, -8, -8, 7, 7]]"

definition fixed_div :: "nat \<Rightarrow> nat \<Rightarrow> nat \<Rightarrow> u32" where
  "fixed_div n d bits = of_nat ((n * 2 ^ bits + d div 2) div d)"

definition master_volume_table :: "u32 list" where
  "master_volume_table = [1, 2, 4, 0]"

definition channel_volume_table :: "u32 list" where
  "channel_volume_table = map (\<lambda>i. fixed_div i 7 12) [0..<8]"

definition envelope_volume_table :: "u32 list" where
  "envelope_volume_table = map (\<lambda>i. fixed_div i 15 14) [0..<16]"

text \<open>The shift register of the noise generator, \<open>n\<close> bits of it from the top of a word.\<close>

definition lfsr_step :: "nat \<Rightarrow> u32 \<Rightarrow> u32" where
  "lfsr_step bit_length r =
     push_bit bit_length (1 AND (r XOR drop_bit 1 r)) OR (drop_bit 1 r AND NOT (push_bit bit_length 1))"

fun noise_word :: "nat \<Rightarrow> nat \<Rightarrow> u32 \<Rightarrow> u32 \<Rightarrow> u32 \<times> u32" where
  "noise_word bit_length 0 r acc = (acc, r)"
| "noise_word bit_length (Suc n) r acc =
     noise_word bit_length n (lfsr_step bit_length r) (acc OR push_bit n (r AND 1))"

fun noise_words :: "nat \<Rightarrow> nat \<Rightarrow> u32 \<Rightarrow> u32 list" where
  "noise_words bit_length 0 r = []"
| "noise_words bit_length (Suc n) r =
     (let (w, r) = noise_word bit_length 32 r 0 in w # noise_words bit_length n r)"

definition init_noise_table :: "nat \<Rightarrow> nat \<Rightarrow> u32 list" where
  "init_noise_table period bit_length = noise_words bit_length ((period + 31) div 32) 0xFF"

section \<open>Tone channels\<close>

text \<open>The local variables of \<^verbatim>\<open>render_gbc_sound\<close> for one channel, and the ring it writes to.\<close>

record render =
  r_gs :: gbc_sound
  r_index :: u32
  r_step :: u32
  r_tick :: u32
  r_slot :: u32
  r_envelope :: u32
  r_left :: u32
  r_right :: u32
  r_out :: "u32 list"

text \<open>The master volumes left, right and common.\<close>

type_synonym volumes = "u32 \<times> u32 \<times> u32"

definition channel_volume :: "u32 \<Rightarrow> u32 \<Rightarrow> u32 \<Rightarrow> u32 option" where
  "channel_volume v side master = do {
     a \<leftarrow> arr_get channel_volume_table (unat side);
     b \<leftarrow> arr_get master_volume_table (unat master);
     Some (v * a * b) }"

definition update_volume :: "bool \<Rightarrow> volumes \<Rightarrow> render \<Rightarrow> render option" where
  "update_volume envelope = (\<lambda>(left, right, master) r. do {
     v \<leftarrow> (if envelope then arr_get envelope_volume_table (unat (r_envelope r)) else Some (wave_volume (r_gs r)));
     l \<leftarrow> channel_volume v left master;
     m \<leftarrow> channel_volume v right master;
     Some (r\<lparr>r_left := l, r_right := m\<rparr>) })"

definition update_tone_envelope :: "volumes \<Rightarrow> render \<Rightarrow> render option" where
  "update_tone_envelope vols r =
     (let g = r_gs r; ticks = envelope_ticks g - 1 in
      if envelope_status g = 0 then Some r
      else if ticks \<noteq> 0 then Some (r\<lparr>r_envelope := envelope_volume g, r_gs := g\<lparr>envelope_ticks := ticks\<rparr>\<rparr>)
      else (let v = (if envelope_direction g \<noteq> 0
                     then (if envelope_volume g \<noteq> 15 then envelope_volume g + 1 else envelope_volume g)
                     else (if envelope_volume g \<noteq> 0 then envelope_volume g - 1 else envelope_volume g))
            in do {
              r \<leftarrow> update_volume True vols (r\<lparr>r_envelope := v\<rparr>);
              Some (r\<lparr>r_gs := g\<lparr>envelope_volume := v, envelope_ticks := envelope_initial_ticks g\<rparr>\<rparr>) }))"

text \<open>The sweep of channel 0; \<open>True\<close> leaves the render loop.\<close>

definition update_tone_sweep :: "nat \<Rightarrow> render \<Rightarrow> (bool \<times> render) option" where
  "update_tone_sweep bits r =
     (let g = r_gs r; ticks = sweep_ticks g - 1 in
      if sweep_status g = 0 then Some (False, r)
      else if ticks \<noteq> 0 then Some (False, r\<lparr>r_gs := g\<lparr>sweep_ticks := ticks\<rparr>\<rparr>)
      else (let shifted = drop_bit (unat (sweep_shift g)) (rate g);
                f = (if sweep_direction g \<noteq> 0 then rate g - shifted else rate g + shifted)
            in if 2047 < f then Some (True, r\<lparr>r_gs := g\<lparr>active_flag := 0\<rparr>\<rparr>)
               else do {
                 st \<leftarrow> psg_tone_step bits f;
                 Some (False, r\<lparr>r_step := st,
                   r_gs := g\<lparr>frequency_step := st, rate := f, sweep_ticks := sweep_initial_ticks g\<rparr>\<rparr>) }))"

definition tick_step :: u32 where "tick_step = 256"

definition update_tone_counters :: "nat \<Rightarrow> bool \<Rightarrow> bool \<Rightarrow> volumes \<Rightarrow> render \<Rightarrow> (bool \<times> render) option" where
  "update_tone_counters bits envelope sweep vols r =
     (let r = r\<lparr>r_tick := r_tick r + tick_step\<rparr> in
      if r_tick r \<le> 0xFFFF then Some (False, r)
      else (let g = r_gs r; len = length_ticks g - 1;
                r = (if length_status g \<noteq> 0 then r\<lparr>r_gs := g\<lparr>length_ticks := len\<rparr>\<rparr> else r) in
            if length_status g \<noteq> 0 \<and> len = 0 then Some (True, r\<lparr>r_gs := (r_gs r)\<lparr>active_flag := 0\<rparr>\<rparr>)
            else do {
              r \<leftarrow> (if envelope then update_tone_envelope vols r else Some r);
              (stop, r) \<leftarrow> (if sweep then update_tone_sweep bits r else Some (False, r));
              Some (stop, if stop then r else r\<lparr>r_tick := r_tick r AND 0xFFFF\<rparr>) }))"

definition mix :: "u32 \<Rightarrow> u32 \<Rightarrow> u32" where
  "mix sample volume = signed_drop_bit 18 (sample * volume + push_bit 17 1)"

text \<open>The sample goes right first when it goes to both sides.\<close>

definition render_sample :: "u32 \<Rightarrow> u32 \<Rightarrow> render \<Rightarrow> render option" where
  "render_sample status sample r = do {
     let i = unat (r_slot r);
     out \<leftarrow> (if status = DIRECT_SOUND_RIGHT \<or> status = DIRECT_SOUND_LEFTRIGHT
            then add_sample (i + 1) (mix sample (r_right r)) (r_out r) else Some (r_out r));
     out \<leftarrow> (if status = DIRECT_SOUND_LEFT \<or> status = DIRECT_SOUND_LEFTRIGHT
            then add_sample i (mix sample (r_left r)) out else Some out);
     Some (r\<lparr>r_out := out\<rparr>) }"

text \<open>A tone channel reads a period of samples, the noise channel the bits of its table.\<close>

datatype source = Samples "u8 list" nat | Noise_full | Noise_half

definition noise_wrap :: "source \<Rightarrow> u32" where
  "noise_wrap src = (case src of Noise_half \<Rightarrow> 126 | _ \<Rightarrow> 32767)"

definition noise_sample :: "u32 list \<Rightarrow> u32 \<Rightarrow> u32 option" where
  "noise_sample table i = do {
     w \<leftarrow> arr_get table (unat (drop_bit 5 i));
     Some (signed_drop_bit 31 (push_bit (unat (i AND 0x1F)) w) XOR 0x07) }"

definition source_sample :: "source \<Rightarrow> u32 \<Rightarrow> u32 option" where
  "source_sample src index =
     (let i = drop_bit 16 index in
      case src of
        Samples d len \<Rightarrow> map_option scast (arr_get d (unat i mod len))
      | Noise_full \<Rightarrow> noise_sample (init_noise_table 32767 14) i
      | Noise_half \<Rightarrow> noise_sample (init_noise_table 127 6) i)"

definition advance_index :: "source \<Rightarrow> u32 \<Rightarrow> u32 \<Rightarrow> u32" where
  "advance_index src step index =
     (let index = index + step; top = push_bit 16 (noise_wrap src) in
      case src of Samples _ _ \<Rightarrow> index | _ \<Rightarrow> (if top \<le> index then index - top else index))"

fun render_loop :: "nat \<Rightarrow> nat \<Rightarrow> u32 \<Rightarrow> source \<Rightarrow> bool \<Rightarrow> bool \<Rightarrow> volumes \<Rightarrow> render \<Rightarrow> render option" where
  "render_loop 0 bits status src envelope sweep vols r = Some r"
| "render_loop (Suc n) bits status src envelope sweep vols r = do {
     v \<leftarrow> source_sample src (r_index r);
     r \<leftarrow> render_sample status v r;
     let r = r\<lparr>r_index := advance_index src (r_step r) (r_index r), r_slot := next_slot (r_slot r)\<rparr>;
     (stop, r) \<leftarrow> update_tone_counters bits envelope sweep vols r;
     if stop then Some r else render_loop n bits status src envelope sweep vols r }"

text \<open>One channel for \<open>n\<close> samples from the slot \<open>slot\<close>. A status outside 1 to 3 renders nothing.\<close>

definition render_channel ::
    "nat \<Rightarrow> nat \<Rightarrow> source \<Rightarrow> bool \<Rightarrow> bool \<Rightarrow> volumes \<Rightarrow> u32 \<Rightarrow> u32 list \<Rightarrow> gbc_sound \<Rightarrow> (u32 list \<times> gbc_sound) option" where
  "render_channel n bits src envelope sweep vols slot out g = do {
     r \<leftarrow> update_volume envelope vols
            \<lparr>r_gs = g, r_index = sample_index g, r_step = frequency_step g, r_tick = tick_counter g,
             r_slot = slot, r_envelope = envelope_volume g, r_left = 0, r_right = 0, r_out = out\<rparr>;
     r \<leftarrow> (if gs_status g \<in> {1, 2, 3} then render_loop n bits (gs_status g) src envelope sweep vols r else Some r);
     Some (r_out r, (r_gs r)\<lparr>sample_index := r_index r, tick_counter := r_tick r\<rparr>) }"

section \<open>The mixer\<close>

definition wave_nibbles :: "u8 \<Rightarrow> u8 list" where
  "wave_nibbles b = [(drop_bit 4 b AND 0x0F) - 8, (b AND 0x0F) - 8]"

text \<open>A changed wave RAM is unpacked into the bank the channel plays.\<close>

definition update_wave :: "u8 list \<Rightarrow> sound_state \<Rightarrow> sound_state option" where
  "update_wave wave_ram s = do {
     g \<leftarrow> arr_get (gbc_sound_channel s) 2;
     w \<leftarrow> arr_blit (wave_samples s) (if wave_bank g = 1 then 32 else 0) (concat (map wave_nibbles wave_ram));
     Some (s\<lparr>wave_samples := w\<rparr>) }"

definition channel_source :: "nat \<Rightarrow> sound_state \<Rightarrow> gbc_sound \<Rightarrow> source option" where
  "channel_source i s g =
     (if i < 2 then do { d \<leftarrow> arr_get square_pattern_duty (unat (sample_table_idx g)); Some (Samples d 8) }
      else if i = 2 then
        Some (if wave_type g = 0
              then Samples (if wave_bank g = 1 then drop 32 (wave_samples s) else wave_samples s) 32
              else Samples (wave_samples s) 64)
      else Some (if noise_type g = 1 then Noise_half else Noise_full))"

text \<open>Channel \<open>i\<close> when it is on; the bit is its flag in \<^verbatim>\<open>SOUNDCNT_X\<close>.\<close>

definition mix_channel :: "nat \<Rightarrow> nat \<Rightarrow> nat \<Rightarrow> sound_state \<Rightarrow> (u16 \<times> sound_state) option" where
  "mix_channel n bits i s = do {
     g \<leftarrow> arr_get (gbc_sound_channel s) i;
     if active_flag g = 0 \<or> (i = 2 \<and> master_enable g = 0) then Some (0, s)
     else do {
       src \<leftarrow> channel_source i s g;
       (out, g) \<leftarrow> render_channel n bits src (i \<noteq> 2) (i = 0)
                    (gbc_sound_master_volume_left s, gbc_sound_master_volume_right s, gbc_sound_master_volume s)
                    (gbc_sound_buffer_index s) (sound_buffer s) g;
       Some (push_bit i 1, s\<lparr>gbc_sound_channel := (gbc_sound_channel s)[i := g], sound_buffer := out\<rparr>) } }"

definition base_rate :: "64 word" where "base_rate = 16 * 1024 * 1024"

definition sound_frequency :: "nat \<Rightarrow> 64 word" where "sound_frequency bits = push_bit bits 1"

text \<open>
  \<open>ticks\<close> is \<^verbatim>\<open>cpu_ticks\<close>, \<open>status\<close> the register \<^verbatim>\<open>SOUNDCNT_X\<close>, \<open>wave_ram\<close> the wave registers when
  they were written since the last time. The register is returned when it is rewritten.
\<close>

definition render_gbc_sound ::
    "u32 \<Rightarrow> nat \<Rightarrow> u16 \<Rightarrow> u8 list option \<Rightarrow> sound_state \<Rightarrow> ((u16 \<times> bool) option \<times> sound_state) option" where
  "render_gbc_sound ticks bits status wave_ram s =
     (let tick_delta = ticks - gbc_sound_last_cpu_ticks s;
          fine = ucast (push_bit 16 (ucast tick_delta * sound_frequency bits) div base_rate) :: u32;
          partial = gbc_sound_partial_ticks s + (fine AND 0xFFFF);
          samples = drop_bit 16 fine + (if 0xFFFF < partial then 1 else 0);
          n = unat samples in
      if tick_delta = 0 then Some (None, s)
      else do {
        let s = s\<lparr>gbc_sound_partial_ticks := (if 0xFFFF < partial then partial AND 0xFFFF else partial)\<rparr>;
        let status = status AND 0xFFF0;
        let on = (sound_on s = 1);
        (flags, s) \<leftarrow>
          (if on then do {
             (f0, s) \<leftarrow> mix_channel n bits 0 s;
             (f1, s) \<leftarrow> mix_channel n bits 1 s;
             s \<leftarrow> (case wave_ram of None \<Rightarrow> Some s | Some w \<Rightarrow> update_wave w s);
             (f2, s) \<leftarrow> mix_channel n bits 2 s;
             (f3, s) \<leftarrow> mix_channel n bits 3 s;
             Some (f0 OR f1 OR f2 OR f3, s) }
           else Some (0, s));
        Some (Some (status OR flags, on),
          s\<lparr>gbc_sound_last_cpu_ticks := ticks,
            gbc_sound_buffer_index := (gbc_sound_buffer_index s + samples * 2) mod of_nat BUFFER_SIZE\<rparr>) })"

section \<open>Reading the ring\<close>

definition clamp16 :: "u32 \<Rightarrow> u16" where
  "clamp16 v = (if 32767 <s v then 32767 else if v <s -32768 then -32768 else ucast v)"

definition readable_samples :: "sound_state \<Rightarrow> u32" where
  "readable_samples s =
     (let a = (gbc_sound_buffer_index s - sound_buffer_base s) AND 0xFFFF;
          a = (if 512 < a then a - 512 else 0)
      in push_bit 1 (drop_bit 1 a))"

fun read_ring :: "nat \<Rightarrow> u32 \<Rightarrow> u32 list \<Rightarrow> (u16 list \<times> u32 list) option" where
  "read_ring 0 pos buf = Some ([], buf)"
| "read_ring (Suc n) pos buf = do {
     let i = unat (pos AND 0xFFFF);
     v \<leftarrow> arr_get buf i;
     buf \<leftarrow> arr_set buf i 0;
     (out, buf) \<leftarrow> read_ring n (pos + 1) buf;
     Some (clamp16 v # out, buf) }"

text \<open>The samples copied to the frontend, two for each frame it asked for.\<close>

definition sound_read_samples :: "u32 \<Rightarrow> sound_state \<Rightarrow> (u16 list \<times> sound_state) option" where
  "sound_read_samples nframes s = do {
     let n = min (push_bit 1 nframes) (readable_samples s);
     (out, buf) \<leftarrow> read_ring (unat n) (sound_buffer_base s) (sound_buffer s);
     Some (out, s\<lparr>sound_buffer := buf, sound_buffer_base := (sound_buffer_base s + n) AND 0xFFFF\<rparr>) }"

definition sound_flush_ring :: "sound_state \<Rightarrow> sound_state" where
  "sound_flush_ring s =
     s\<lparr>sound_buffer := replicate BUFFER_SIZE 0, sound_buffer_base := gbc_sound_buffer_index s,
       direct_sound_channel := map (\<lambda>ds. ds\<lparr>buffer_index := gbc_sound_buffer_index s\<rparr>) (direct_sound_channel s)\<rparr>"

definition silent_tone :: gbc_sound where
  "silent_tone =
     \<lparr>rate = 0, frequency_step = 0, sample_index = 0, tick_counter = 0, total_volume = 0,
      envelope_initial_volume = 0, envelope_volume = 0, envelope_direction = 0, envelope_status = 0,
      envelope_ticks = 0, envelope_initial_ticks = 0, sweep_status = 0, sweep_direction = 0,
      sweep_ticks = 0, sweep_initial_ticks = 0, sweep_shift = 0, length_status = 0, length_ticks = 0,
      noise_type = 0, wave_type = 0, wave_bank = 0, wave_volume = 0, gs_status = 0, active_flag = 0,
      master_enable = 0, sample_table_idx = 2\<rparr>"

definition reset_sound :: sound_state where
  "reset_sound =
     \<lparr>sound_on = 0, sound_buffer_base = 0, gbc_sound_buffer_index = 0, gbc_sound_last_cpu_ticks = 0,
      gbc_sound_partial_ticks = 0, gbc_sound_master_volume_left = 0, gbc_sound_master_volume_right = 0,
      gbc_sound_master_volume = 0, wave_samples = replicate 64 0,
      direct_sound_channel = replicate 2
        \<lparr>fifo = replicate 32 0, fifo_base = 0, fifo_top = 0, fifo_fractional = 0, buffer_index = 0,
         ds_status = 0, volume_halve = 1\<rparr>,
      gbc_sound_channel = replicate 4 silent_tone, sound_buffer = replicate BUFFER_SIZE 0\<rparr>"

end
