(* ===== verification/Cpu.thy ===== *)
theory Cpu
  imports GpspPrelude
begin

text \<open>
  The processor state of \<^verbatim>\<open>cpu.cc\<close> and \<^verbatim>\<open>cpu.h\<close>: registers, banked registers, condition flags,
  modes and interrupts. Register numbers are masked or constant in the code, all below the
  64 elements of \<^verbatim>\<open>reg\<close>, so the array is a function; the banks \<^verbatim>\<open>reg_mode[7][7]\<close> and
  \<^verbatim>\<open>spsr[6]\<close> are indexed by mode, which can leave them: \<open>None\<close>. The flags are the local
  variables of \<^verbatim>\<open>execute_arm\<close>, and \<open>mem\<close> is whatever memory the processor is attached to.
\<close>

abbreviation (input) REG_SP :: nat where "REG_SP \<equiv> 13"
abbreviation (input) REG_LR :: nat where "REG_LR \<equiv> 14"
abbreviation (input) REG_PC :: nat where "REG_PC \<equiv> 15"
abbreviation (input) REG_CPSR :: nat where "REG_CPSR \<equiv> 16"
abbreviation (input) CPU_MODE :: nat where "CPU_MODE \<equiv> 17"
abbreviation (input) CPU_HALT_STATE :: nat where "CPU_HALT_STATE \<equiv> 18"
abbreviation (input) REG_BUS_VALUE :: nat where "REG_BUS_VALUE \<equiv> 19"
abbreviation (input) REG_SLEEP_CYCLES :: nat where "REG_SLEEP_CYCLES \<equiv> 24"
abbreviation (input) OAM_UPDATED :: nat where "OAM_UPDATED \<equiv> 25"

abbreviation (input) MODE_USER :: u32 where "MODE_USER \<equiv> 0x00"
abbreviation (input) MODE_SYSTEM :: u32 where "MODE_SYSTEM \<equiv> 0x10"
abbreviation (input) MODE_IRQ :: u32 where "MODE_IRQ \<equiv> 0x11"
abbreviation (input) MODE_FIQ :: u32 where "MODE_FIQ \<equiv> 0x12"
abbreviation (input) MODE_SUPERVISOR :: u32 where "MODE_SUPERVISOR \<equiv> 0x13"
abbreviation (input) MODE_ABORT :: u32 where "MODE_ABORT \<equiv> 0x14"
abbreviation (input) MODE_UNDEFINED :: u32 where "MODE_UNDEFINED \<equiv> 0x15"
abbreviation (input) MODE_INVALID :: u32 where "MODE_INVALID \<equiv> 0x16"

abbreviation (input) CPU_ACTIVE :: u32 where "CPU_ACTIVE \<equiv> 0"
abbreviation (input) CPU_HALT :: u32 where "CPU_HALT \<equiv> 1"
abbreviation (input) CPU_STOP :: u32 where "CPU_STOP \<equiv> 2"
abbreviation (input) CPU_DMA :: u32 where "CPU_DMA \<equiv> 3"

abbreviation (input) CPU_ALERT_NONE :: u8 where "CPU_ALERT_NONE \<equiv> 0"
abbreviation (input) CPU_ALERT_HALT :: u8 where "CPU_ALERT_HALT \<equiv> 1"
abbreviation (input) CPU_ALERT_SMC :: u8 where "CPU_ALERT_SMC \<equiv> 2"
abbreviation (input) CPU_ALERT_IRQ :: u8 where "CPU_ALERT_IRQ \<equiv> 4"

record 'm cpu =
  reg :: "nat \<Rightarrow> u32"
  spsr_regs :: "u32 list"
  banks :: "u32 list list"
  n_flag :: bool
  z_flag :: bool
  c_flag :: bool
  v_flag :: bool
  cycles :: u32
  cpu_alert :: u8
  mem :: 'm

definition set_reg :: "nat \<Rightarrow> u32 \<Rightarrow> 'm cpu \<Rightarrow> 'm cpu" where
  "set_reg r v s = s\<lparr>reg := (reg s)(r := v)\<rparr>"

definition pc_offset :: "u32 \<Rightarrow> 'm cpu \<Rightarrow> 'm cpu" where
  "pc_offset d s = set_reg REG_PC (reg s REG_PC + d) s"

text \<open>What the rest of the machine offers the processor: memory, wait states, pending interrupts,
  the instruction at the program counter, the cheats run when it reaches their hook.\<close>

datatype access = U8 | S8 | U16 | S16 | U32 | Aligned32

record 'm bus =
  load :: "access \<Rightarrow> u32 \<Rightarrow> 'm cpu \<Rightarrow> (u32 \<times> 'm cpu) option"
  store :: "access \<Rightarrow> u32 \<Rightarrow> u32 \<Rightarrow> 'm cpu \<Rightarrow> 'm cpu option"
  nseq_cycles :: "'m \<Rightarrow> (u32 \<times> u32) list"
  seq_cycles :: "'m \<Rightarrow> (u32 \<times> u32) list"
  irq_pending :: "'m \<Rightarrow> bool"
  fetch :: "access \<Rightarrow> 'm cpu \<Rightarrow> (u32 \<times> 'm cpu) option"
  cheat_hook :: "'m cpu \<Rightarrow> 'm cpu option"
  idle_loop_target :: "'m \<Rightarrow> u32"

section \<open>Flags\<close>

definition extract_flags :: "'m cpu \<Rightarrow> 'm cpu" where
  "extract_flags s = (let w = reg s REG_CPSR in
     s\<lparr>n_flag := bit w 31, z_flag := bit w 30, c_flag := bit w 29, v_flag := bit w 28\<rparr>)"

definition flag_word :: "bool \<Rightarrow> bool \<Rightarrow> bool \<Rightarrow> bool \<Rightarrow> u32" where
  "flag_word n z c v = push_bit 31 (of_bool n) OR push_bit 30 (of_bool z)
     OR push_bit 29 (of_bool c) OR push_bit 28 (of_bool v)"

definition collapse_flags :: "'m cpu \<Rightarrow> 'm cpu" where
  "collapse_flags s = set_reg REG_CPSR
     (flag_word (n_flag s) (z_flag s) (c_flag s) (v_flag s) OR (reg s REG_CPSR AND 0xFF)) s"

section \<open>Modes\<close>

definition cpu_modes :: "u32 \<Rightarrow> u32" where
  "cpu_modes cpsr = [MODE_USER, MODE_FIQ, MODE_IRQ, MODE_SUPERVISOR,
     MODE_INVALID, MODE_INVALID, MODE_INVALID, MODE_ABORT,
     MODE_INVALID, MODE_INVALID, MODE_INVALID, MODE_UNDEFINED,
     MODE_INVALID, MODE_INVALID, MODE_INVALID, MODE_SYSTEM] ! unat (cpsr AND 0xF)"

definition privileged :: "u32 \<Rightarrow> bool" where
  "privileged mode \<longleftrightarrow> drop_bit 4 mode \<noteq> 0"

definition bank_index :: "u32 \<Rightarrow> nat" where
  "bank_index mode = unat (mode AND 0xF)"

definition get_bank :: "u32 \<Rightarrow> 'm cpu \<Rightarrow> u32 list option" where
  "get_bank mode s = arr_get (banks s) (bank_index mode)"

definition put_bank :: "u32 \<Rightarrow> u32 list \<Rightarrow> 'm cpu \<Rightarrow> 'm cpu option" where
  "put_bank mode b s = do { bs \<leftarrow> arr_set (banks s) (bank_index mode) b; Some (s\<lparr>banks := bs\<rparr>) }"

definition get_spsr :: "u32 \<Rightarrow> 'm cpu \<Rightarrow> u32 option" where
  "get_spsr mode s = arr_get (spsr_regs s) (bank_index mode)"

definition put_spsr :: "u32 \<Rightarrow> u32 \<Rightarrow> 'm cpu \<Rightarrow> 'm cpu option" where
  "put_spsr mode v s = do { ps \<leftarrow> arr_set (spsr_regs s) (bank_index mode) v; Some (s\<lparr>spsr_regs := ps\<rparr>) }"

definition retire_bank :: "u32 \<Rightarrow> u32 \<Rightarrow> 'm cpu \<Rightarrow> 'm cpu option" where
  "retire_bank cpu_mode new_mode s = do {
     b \<leftarrow> get_bank cpu_mode s;
     put_bank cpu_mode
       (if new_mode = MODE_FIQ then map (reg s) [8, 9, 10, 11, 12, 13, 14]
        else b[5 := reg s REG_SP, 6 := reg s REG_LR]) s }"

definition load_bank :: "u32 \<Rightarrow> u32 \<Rightarrow> 'm cpu \<Rightarrow> 'm cpu option" where
  "load_bank cpu_mode new_mode s = do {
     b \<leftarrow> get_bank new_mode s;
     Some (if cpu_mode = MODE_FIQ
           then s\<lparr>reg := (reg s)(8 := b ! 0, 9 := b ! 1, 10 := b ! 2, 11 := b ! 3, 12 := b ! 4, 13 := b ! 5, 14 := b ! 6)\<rparr>
           else s\<lparr>reg := (reg s)(13 := b ! 5, 14 := b ! 6)\<rparr>) }"

definition set_cpu_mode :: "u32 \<Rightarrow> 'm cpu \<Rightarrow> 'm cpu option" where
  "set_cpu_mode new_mode s =
     (let cpu_mode = reg s CPU_MODE in
      if cpu_mode = new_mode then Some s
      else do {
        s \<leftarrow> retire_bank cpu_mode new_mode s;
        s \<leftarrow> load_bank cpu_mode new_mode s;
        Some (set_reg CPU_MODE new_mode s) })"

section \<open>Interrupts and exceptions\<close>

definition cpu_has_interrupt :: "'m bus \<Rightarrow> 'm cpu \<Rightarrow> bool" where
  "cpu_has_interrupt M s \<longleftrightarrow> reg s REG_CPSR AND 0x80 = 0 \<and> irq_pending M (mem s)"

definition check_interrupt :: "'m bus \<Rightarrow> 'm cpu \<Rightarrow> u8" where
  "check_interrupt M s = (if cpu_has_interrupt M s then CPU_ALERT_IRQ else CPU_ALERT_NONE)"

definition enter_irq :: "'m cpu \<Rightarrow> 'm cpu option" where
  "enter_irq s = do {
     b \<leftarrow> get_bank MODE_IRQ s;
     s \<leftarrow> put_bank MODE_IRQ (b[6 := reg s REG_PC + 4]) s;
     s \<leftarrow> put_spsr MODE_IRQ (reg s REG_CPSR) s;
     set_cpu_mode MODE_IRQ (set_reg REG_PC 0x18 (set_reg REG_CPSR 0xD2 s)) }"

definition wake_up :: "'m cpu \<Rightarrow> 'm cpu" where
  "wake_up s = (if reg s CPU_HALT_STATE = CPU_STOP \<or> reg s CPU_HALT_STATE = CPU_HALT
                then set_reg CPU_HALT_STATE CPU_ACTIVE s else s)"

definition check_and_raise_interrupts :: "'m bus \<Rightarrow> 'm cpu \<Rightarrow> (bool \<times> 'm cpu) option" where
  "check_and_raise_interrupts M s =
     (if cpu_has_interrupt M s
      then do { s \<leftarrow> enter_irq (set_reg REG_BUS_VALUE 0xe55ec002 s); Some (True, wake_up s) }
      else Some (False, s))"

text \<open>The same check inside the interpreter: \<open>True\<close> is the jump to \<^verbatim>\<open>arm_loop\<close>.\<close>

definition check_for_interrupts :: "'m bus \<Rightarrow> 'm cpu \<Rightarrow> (bool \<times> 'm cpu) option" where
  "check_for_interrupts M s =
     (if irq_pending M (mem s) \<and> reg s REG_CPSR AND 0x80 = 0
      then do { s \<leftarrow> enter_irq s; Some (True, s) } else Some (False, s))"

text \<open>A software interrupt; \<open>ret\<close> is the offset of the return address.\<close>

definition software_interrupt :: "u32 \<Rightarrow> 'm cpu \<Rightarrow> 'm cpu option" where
  "software_interrupt ret s = do {
     let s = collapse_flags s;
     let s = set_reg REG_BUS_VALUE 0xe3a02004 s;
     b \<leftarrow> get_bank MODE_SUPERVISOR s;
     s \<leftarrow> put_bank MODE_SUPERVISOR (b[6 := reg s REG_PC + ret]) s;
     s \<leftarrow> put_spsr MODE_SUPERVISOR (reg s REG_CPSR) s;
     let s = set_reg REG_PC 0x8 s;
     let s = set_reg REG_CPSR ((reg s REG_CPSR AND NOT 0x3F) OR 0x13 OR 0x80) s;
     set_cpu_mode MODE_SUPERVISOR s }"

section \<open>Status register transfers\<close>

definition cpsr_mask :: "nat \<Rightarrow> bool \<Rightarrow> u32" where
  "cpsr_mask psr_pfield priv =
     (let masks = [(0x00000000, 0x00000000), (0x00000020, 0x000000EF), (0xF0000000, 0xF0000000), (0xF0000020, 0xF00000EF)]
      in (if priv then snd else fst) (masks ! psr_pfield))"

definition spsr_mask :: "nat \<Rightarrow> u32" where
  "spsr_mask psr_pfield = [0x00000000, 0x000000EF, 0xF0000000, 0xF00000EF] ! psr_pfield"

text \<open>\<^verbatim>\<open>MSR cpsr\<close> after the program counter was advanced.\<close>

definition arm_psr_store_cpsr :: "'m bus \<Rightarrow> nat \<Rightarrow> u32 \<Rightarrow> 'm cpu \<Rightarrow> (bool \<times> 'm cpu) option" where
  "arm_psr_store_cpsr M psr_pfield source s =
     (let store_mask = cpsr_mask psr_pfield (privileged (reg s CPU_MODE));
          s = extract_flags (set_reg REG_CPSR ((source AND store_mask) OR (reg s REG_CPSR AND NOT store_mask)) s)
      in if store_mask AND 0xFF \<noteq> 0
         then do { s \<leftarrow> set_cpu_mode (cpu_modes (reg s REG_CPSR)) s; check_for_interrupts M s }
         else Some (False, s))"

definition arm_psr_store_spsr :: "nat \<Rightarrow> u32 \<Rightarrow> 'm cpu \<Rightarrow> 'm cpu option" where
  "arm_psr_store_spsr psr_pfield source s =
     (let store_mask = spsr_mask psr_pfield in do {
        psr \<leftarrow> get_spsr (reg s CPU_MODE) s;
        put_spsr (reg s CPU_MODE) ((source AND store_mask) OR (psr AND NOT store_mask)) s })"

text \<open>The two forms of \<^verbatim>\<open>MRS\<close>.\<close>

definition arm_psr_read_cpsr :: "nat \<Rightarrow> 'm cpu \<Rightarrow> 'm cpu" where
  "arm_psr_read_cpsr rd s = (let s = collapse_flags s in set_reg rd (reg s REG_CPSR) s)"

definition arm_psr_read_spsr :: "nat \<Rightarrow> 'm cpu \<Rightarrow> 'm cpu option" where
  "arm_psr_read_spsr rd s = (let s = collapse_flags s in do { v \<leftarrow> get_spsr (reg s CPU_MODE) s; Some (set_reg rd v s) })"

section \<open>Return from an exception\<close>

datatype next_loop = Next | Arm_loop | Thumb_loop

definition arm_spsr_restore :: "'m bus \<Rightarrow> 'm cpu \<Rightarrow> (next_loop \<times> 'm cpu) option" where
  "arm_spsr_restore M s = do {
     (irq, s) \<leftarrow>
       (if reg s CPU_MODE \<noteq> MODE_USER \<and> reg s CPU_MODE \<noteq> MODE_SYSTEM
        then do {
          psr \<leftarrow> get_spsr (reg s CPU_MODE) s;
          let s = extract_flags (set_reg REG_CPSR psr s);
          s \<leftarrow> set_cpu_mode (cpu_modes (reg s REG_CPSR)) s;
          check_for_interrupts M s }
        else Some (False, s));
     Some (if irq then Arm_loop else if reg s REG_CPSR AND 0x20 \<noteq> 0 then Thumb_loop else Next, s) }"

section \<open>Start\<close>

definition init_cpu :: "bool \<Rightarrow> 'm \<Rightarrow> 'm cpu" where
  "init_cpu boot_game m = (let
     r = (\<lambda>_. 0)(REG_SP := 0x03007F00);
     bank = (\<lambda>sp. [0, 0, 0, 0, 0, sp, 0])
   in \<lparr>reg = (if boot_game
          then r(REG_PC := 0x08000000, REG_CPSR := 0x1F, CPU_MODE := MODE_SYSTEM)
          else r(REG_PC := 0, REG_CPSR := 0xD3, CPU_MODE := MODE_SUPERVISOR)),
      spsr_regs = replicate 6 0x10,
      banks = [bank 0x03007F00, bank 0x03007FA0, bank 0x03007FA0, bank 0x03007FE0, bank 0, bank 0, bank 0],
      n_flag = False, z_flag = False, c_flag = False, v_flag = False, cycles = 0, cpu_alert = 0, mem = m\<rparr>)"

end
