(* ===== verification/Gamepak.thy ===== *)
theory Gamepak
  imports Gpio
begin

text \<open>
  ROM paging in \<^verbatim>\<open>gba_memory.c\<close>. The ROM is held in 32 KB blocks; when it does not fit,
  blocks are loaded on demand into the least recently loaded slot, which is found through a
  linked list threaded through \<^verbatim>\<open>gamepak_blk_queue\<close>. A block pointer
  \<^verbatim>\<open>&gamepak_buffers[e / 32][32 * 1024 * (e % 32)]\<close> is the slot number \<open>e\<close>, and the ROM file
  is its list of bytes. \<open>None\<close> is an access outside an array.
\<close>

abbreviation (input) PAGE :: nat where "PAGE \<equiv> 32768"

record blk_entry =
  next_lru :: nat
  phy_rom :: int

record pak =
  blk_queue :: "blk_entry list"
  lru_head :: nat
  lru_tail :: nat
  sticky_bit :: "u32 list"
  memory_map :: "nat option list"
  buffers :: "u8 list list"
  buffer_count :: nat
  gamepak_size :: nat
  file_blocks :: nat
  mirror_1m :: bool

section \<open>Sticky pages\<close>

definition sb_test :: "nat \<Rightarrow> pak \<Rightarrow> bool option" where
  "sb_test idx s = do { w \<leftarrow> arr_get (sticky_bit s) (idx div 32); Some (bit w (idx mod 32)) }"

definition touch_gamepak_page :: "nat \<Rightarrow> pak \<Rightarrow> pak" where
  "touch_gamepak_page physical_index s =
     (let idx = physical_index div 32 mod 32; bof = physical_index mod 32
      in s\<lparr>sticky_bit := (sticky_bit s)[idx := sticky_bit s ! idx OR push_bit bof 1]\<rparr>)"

definition clear_gamepak_stickybits :: "pak \<Rightarrow> pak" where
  "clear_gamepak_stickybits s = s\<lparr>sticky_bit := replicate 32 0\<rparr>"

section \<open>The memory map\<close>

text \<open>
  \<open>map_rom_low\<close> is the loop over the first two mirrors of the ROM, \<open>map_rom_high\<close> the one over
  the third. A step of zero blocks would not end; the callers never pass it.
\<close>

function map_rom_low :: "nat \<Rightarrow> nat \<Rightarrow> nat option \<Rightarrow> nat \<Rightarrow> nat option list \<Rightarrow> nat option list option" where
  "map_rom_low blocks idx ptr mcount mm =
     (if blocks = 0 then None
      else if 1024 \<le> mcount then Some mm
      else do {
        mm \<leftarrow> arr_set mm (0x1000 + idx + mcount) ptr;
        mm \<leftarrow> arr_set mm (0x1400 + idx + mcount) ptr;
        map_rom_low blocks idx ptr (mcount + blocks) mm })"
  by pat_completeness auto
termination by (relation "measure (\<lambda>(b, i, p, n, m). 1024 - n)") auto

function map_rom_high :: "nat \<Rightarrow> nat \<Rightarrow> nat option \<Rightarrow> nat \<Rightarrow> nat option list \<Rightarrow> nat option list option" where
  "map_rom_high blocks idx ptr mcount mm =
     (if blocks = 0 then None
      else if 512 \<le> mcount then Some mm
      else do {
        mm \<leftarrow> arr_set mm (0x1800 + idx + mcount) ptr;
        map_rom_high blocks idx ptr (mcount + blocks) mm })"
  by pat_completeness auto
termination by (relation "measure (\<lambda>(b, i, p, n, m). 512 - n)") auto

definition map_rom_entry :: "nat \<Rightarrow> nat option \<Rightarrow> nat \<Rightarrow> pak \<Rightarrow> pak option" where
  "map_rom_entry idx ptr blocks s = do {
     mm \<leftarrow> map_rom_low blocks idx ptr 0 (memory_map s);
     mm \<leftarrow> map_rom_high blocks idx ptr 0 mm;
     Some (s\<lparr>memory_map := mm\<rparr>) }"

text \<open>\<^verbatim>\<open>map_null(read, 0x8000000, 0xD000000)\<close>.\<close>

definition unmap_rom :: "pak \<Rightarrow> pak" where
  "unmap_rom s = s\<lparr>memory_map :=
     map (\<lambda>m. if 0x1000 \<le> m \<and> m < 0x1A00 then None else memory_map s ! m) [0..<length (memory_map s)]\<rparr>"

section \<open>Eviction\<close>

text \<open>The body of the loop: the head of the list goes to its end.\<close>

definition evict_step :: "pak \<Rightarrow> (nat \<times> int \<times> pak) option" where
  "evict_step s = do {
     h \<leftarrow> arr_get (blk_queue s) (lru_head s);
     t \<leftarrow> arr_get (blk_queue s) (lru_tail s);
     Some (lru_head s, phy_rom h,
       s\<lparr>blk_queue := (blk_queue s)[lru_tail s := t\<lparr>next_lru := lru_head s\<rparr>],
         lru_tail := lru_head s, lru_head := next_lru h\<rparr>) }"

text \<open>
  The loop passes over sticky pages; it does not end when every page is sticky, so it runs on
  fuel, and \<open>None\<close> is running out of it.
\<close>

fun evict_loop :: "nat \<Rightarrow> pak \<Rightarrow> (nat \<times> int \<times> pak) option" where
  "evict_loop 0 s = None"
| "evict_loop (Suc fuel) s = do {
     (e, phyrom, s) \<leftarrow> evict_step s;
     st \<leftarrow> (if 0 \<le> phyrom then sb_test (nat phyrom) s else Some False);
     if st then evict_loop fuel s else Some (e, phyrom, s) }"

definition evict_gamepak_page :: "nat \<Rightarrow> pak \<Rightarrow> (nat \<times> pak) option" where
  "evict_gamepak_page fuel s = do {
     (e, phyrom, s) \<leftarrow> evict_loop fuel s;
     s \<leftarrow> (if 0 \<le> phyrom then map_rom_entry (nat phyrom) None (gamepak_size s div PAGE) s else Some s);
     Some (e, s) }"

section \<open>Loading\<close>

text \<open>The bytes of a block of the file, padded with 0xFF.\<close>

definition file_block :: "u8 list \<Rightarrow> nat \<Rightarrow> u8 list" where
  "file_block f k = (let d = take PAGE (drop (k * PAGE) f) in d @ replicate (PAGE - length d) 0xFF)"

definition set_phy :: "nat \<Rightarrow> int \<Rightarrow> pak \<Rightarrow> pak option" where
  "set_phy e p s = do {
     b \<leftarrow> arr_get (blk_queue s) e;
     q \<leftarrow> arr_set (blk_queue s) e (b\<lparr>phy_rom := p\<rparr>);
     Some (s\<lparr>blk_queue := q\<rparr>) }"

definition halfword :: "u16 \<Rightarrow> u8 list" where
  "halfword w = [ucast w, ucast (drop_bit 8 w)]"

text \<open>The registers as they show in the mapped page 0.\<close>

definition gpio_overlay :: "gpio \<Rightarrow> u8 list \<Rightarrow> u8 list option" where
  "gpio_overlay g blk = arr_blit blk 0xC4
     (if gpio_ctl g \<noteq> 0 then halfword (ucast (gpio_data g)) @ halfword (ucast (gpio_dir g)) @ halfword (ucast (gpio_ctl g))
      else replicate 6 0)"

definition update_page0 :: "gpio \<Rightarrow> pak \<Rightarrow> pak option" where
  "update_page0 g s =
     (if rtc_enabled g \<or> rumble_enabled g then do {
        p \<leftarrow> arr_get (memory_map s) 0x1000;
        (case p of
           None \<Rightarrow> Some s
         | Some e \<Rightarrow> do {
             blk \<leftarrow> arr_get (buffers s) e;
             blk \<leftarrow> gpio_overlay g blk;
             Some (s\<lparr>buffers := (buffers s)[e := blk]\<rparr>) }) }
      else Some s)"

definition load_gamepak_page :: "nat \<Rightarrow> gpio \<Rightarrow> u8 list \<Rightarrow> nat \<Rightarrow> pak \<Rightarrow> (nat \<times> pak) option" where
  "load_gamepak_page fuel g file index s =
     (let rom_blocks = gamepak_size s div PAGE in
      if rom_blocks = 0 then Some (0, s)
      else do {
        let physical_index = (if rom_blocks \<le> index then index mod rom_blocks else index);
        (e, s) \<leftarrow> evict_gamepak_page fuel s;
        s \<leftarrow> set_phy e (int physical_index) s;
        let file_index = (if mirror_1m s \<and> file_blocks s \<noteq> 0 then physical_index mod file_blocks s
                          else physical_index);
        b \<leftarrow> arr_set (buffers s) e (file_block file file_index);
        s \<leftarrow> map_rom_entry physical_index (Some e) rom_blocks (s\<lparr>buffers := b\<rparr>);
        s \<leftarrow> (if physical_index = 0 then update_page0 g s else Some s);
        Some (e, s) })"

definition blank_queue :: "blk_entry list" where
  "blank_queue = map (\<lambda>i. \<lparr>next_lru = i + 1, phy_rom = -1\<rparr>) [0..<1024]"

definition init_gamepak_buffer :: "nat \<Rightarrow> pak \<Rightarrow> pak" where
  "init_gamepak_buffer count s =
     s\<lparr>buffer_count := count, buffers := replicate (32 * count) (replicate PAGE 0),
       blk_queue := blank_queue,
       lru_head := 0, lru_tail := 32 * count - 1\<rparr>"

text \<open>
  \<open>load_chunk\<close> is the inner loop of \<^verbatim>\<open>load_gamepak_raw\<close> over the pages \<open>phyn\<close> of a 1 MB chunk;
  \<open>load_raw\<close> reads \<open>ldblks\<close> chunks and maps them.
\<close>

fun load_chunk :: "nat list \<Rightarrow> nat \<Rightarrow> pak \<Rightarrow> pak option" where
  "load_chunk [] rom_blocks s = Some s"
| "load_chunk (phyn # ps) rom_blocks s =
     (if phyn < file_blocks s then do {
        (e, s) \<leftarrow> evict_gamepak_page 1 s;
        s \<leftarrow> set_phy e (int phyn) s;
        s \<leftarrow> map_rom_entry phyn (Some phyn) rom_blocks s;
        load_chunk ps rom_blocks s }
      else Some s)"

definition read_chunk :: "u8 list \<Rightarrow> nat \<Rightarrow> pak \<Rightarrow> pak option" where
  "read_chunk file i s = do {
     b \<leftarrow> arr_blit (buffers s) (i * 32) (map (\<lambda>j. file_block file (i * 32 + j)) [0..<32]);
     Some (s\<lparr>buffers := b\<rparr>) }"

fun load_chunks :: "u8 list \<Rightarrow> nat list \<Rightarrow> nat \<Rightarrow> pak \<Rightarrow> pak option" where
  "load_chunks file [] rom_blocks s = Some s"
| "load_chunks file (i # is) rom_blocks s = do {
     s \<leftarrow> read_chunk file i s;
     s \<leftarrow> load_chunk (map (\<lambda>j. i * 32 + j) [0..<32]) rom_blocks s;
     load_chunks file is rom_blocks s }"

definition round_size :: "nat \<Rightarrow> nat" where
  "round_size fsize = (fsize + 0x7FFF) div PAGE * PAGE"

text \<open>
  Opening a ROM that is not materialized as a mirrored image. \<open>Inl ()\<close> is the error return for
  a file that is empty or larger than 512 MB.
\<close>

definition load_raw :: "u8 list \<Rightarrow> pak \<Rightarrow> (unit + pak) option" where
  "load_raw file s =
     (if file = [] \<or> 0x20000000 < length file then Some (Inl ())
      else (let raw_size = round_size (length file);
                s = unmap_rom (s\<lparr>file_blocks := raw_size div PAGE, gamepak_size := raw_size, mirror_1m := False\<rparr>);
                buf_blocks = (raw_size + 1024 * 1024 - 1) div (1024 * 1024);
                ldblks = min buf_blocks (buffer_count s)
            in map_option Inr (load_chunks file [0..<ldblks] (gamepak_size s div PAGE) s)))"

definition gamepak_must_swap :: "bool \<Rightarrow> pak \<Rightarrow> bool" where
  "gamepak_must_swap materialized s \<longleftrightarrow> \<not> materialized \<and> buffer_count s * (1024 * 1024) < gamepak_size s"

end
