(* ===== verification/GamepakProps.thy ===== *)
theory GamepakProps
  imports Gamepak
begin

text \<open>
  Correctness of ROM paging: the linked list is a rotating list of slots, eviction takes the
  first page that is not sticky, and a mapped page always shows its part of the ROM file.
\<close>

section \<open>The list of slots\<close>

definition lru_list :: "nat list \<Rightarrow> pak \<Rightarrow> bool" where
  "lru_list q s \<longleftrightarrow> length (blk_queue s) = 1024 \<and> 2 \<le> length q \<and> distinct q \<and> (\<forall>e \<in> set q. e < 1024)
     \<and> lru_head s = hd q \<and> lru_tail s = last q
     \<and> (\<forall>i. Suc i < length q \<longrightarrow> next_lru (blk_queue s ! (q ! i)) = q ! Suc i)"

lemma lru_listE:
  assumes "lru_list q s"
  obtains h n q' where "q = h # n # q'" "lru_head s = h" "next_lru (blk_queue s ! h) = n" "h < 1024"
    "lru_tail s = last (n # q')" "h \<noteq> last (n # q')" "last (n # q') < 1024"
proof -
  obtain h n q' where q: "q = h # n # q'"
    using assms by (auto simp: lru_list_def numeral_eq_Suc Suc_le_length_iff)
  have "last (n # q') \<in> set (n # q')" by (rule last_in_set) simp
  then show thesis
    using assms unfolding lru_list_def q by (intro that [of h n q']) (auto simp: q)
qed

text \<open>One step of the eviction loop is \<^const>\<open>rotate1\<close> on the list of slots.\<close>

lemma evict_step_rotates:
  assumes "lru_list q s"
  shows "\<exists>s'. evict_step s = Some (hd q, phy_rom (blk_queue s ! hd q), s') \<and> lru_list (rotate1 q) s'
     \<and> (\<forall>e < 1024. phy_rom (blk_queue s' ! e) = phy_rom (blk_queue s ! e))
     \<and> s' = s\<lparr>blk_queue := blk_queue s', lru_head := lru_head s', lru_tail := lru_tail s'\<rparr>"
proof -
  from assms obtain h n q' where q: "q = h # n # q'" "lru_head s = h" "next_lru (blk_queue s ! h) = n" "h < 1024"
    "lru_tail s = last (n # q')" "h \<noteq> last (n # q')" "last (n # q') < 1024" by (rule lru_listE)
  let ?t = "last (n # q')" and ?Q = "blk_queue s"
  let ?s = "s\<lparr>blk_queue := ?Q[?t := (?Q ! ?t)\<lparr>next_lru := h\<rparr>], lru_tail := h, lru_head := n\<rparr>"
  have len: "length ?Q = 1024" using assms by (simp add: lru_list_def)
  have e: "evict_step s = Some (h, phy_rom (?Q ! h), ?s)"
    using q len by (simp add: evict_step_def)
  have d: "distinct (h # n # q')" using assms q(1) by (simp add: lru_list_def)
  have step: "next_lru (blk_queue ?s ! ((n # q' @ [h]) ! i)) = (n # q' @ [h]) ! Suc i"
    if "Suc i < length (n # q' @ [h])" for i
  proof (cases "i = length q'")
    case True
    then have "(n # q' @ [h]) ! i = ?t" "(n # q' @ [h]) ! Suc i = h"
      by (cases q' rule: rev_cases; simp add: nth_append)+
    with q len show ?thesis by simp
  next
    case False
    then have i: "i < length q'" using that by simp
    have a: "(n # q' @ [h]) ! i = q ! Suc i" "(n # q' @ [h]) ! Suc i = q ! Suc (Suc i)"
      using i q(1) by (cases i; simp add: nth_append)+
    have "q ! Suc i \<noteq> q ! Suc (length q')"
      using d q(1) i by (subst nth_eq_iff_index_eq) auto
    moreover have "?t = q ! Suc (length q')" using q(1) by (simp add: last_conv_nth)
    ultimately have "(n # q' @ [h]) ! i \<noteq> ?t" using a by simp
    moreover have "next_lru (?Q ! (q ! Suc i)) = q ! Suc (Suc i)"
    proof -
      have "\<forall>i. Suc i < length q \<longrightarrow> next_lru (?Q ! (q ! i)) = q ! Suc i"
        using assms by (simp add: lru_list_def)
      moreover have "Suc (Suc i) < length q" using i q(1) by simp
      ultimately show ?thesis by blast
    qed
    ultimately show ?thesis using a by simp
  qed
  have p: "\<forall>e < 1024. phy_rom (blk_queue ?s ! e) = phy_rom (?Q ! e)"
    using len q(7) by (auto simp: nth_list_update)
  have l: "lru_list (n # q' @ [h]) ?s"
    using assms step len d q(1) unfolding lru_list_def by auto
  show ?thesis
    using e p l q(1) by (intro exI [of _ ?s]) simp
qed

section \<open>Eviction\<close>

definition is_sticky :: "nat \<Rightarrow> pak \<Rightarrow> bool" where
  "is_sticky e s \<longleftrightarrow> 0 \<le> phy_rom (blk_queue s ! e) \<and>
     bit (sticky_bit s ! (nat (phy_rom (blk_queue s ! e)) div 32)) (nat (phy_rom (blk_queue s ! e)) mod 32)"

definition phys_ok :: "pak \<Rightarrow> bool" where
  "phys_ok s \<longleftrightarrow> length (sticky_bit s) = 32 \<and> (\<forall>e < 1024. -1 \<le> phy_rom (blk_queue s ! e) \<and> phy_rom (blk_queue s ! e) < 1024)"

lemma evict_loop_step:
  assumes "lru_list q s" "phys_ok s"
  obtains s' where "lru_list (rotate1 q) s'" "phys_ok s'" "\<forall>e < 1024. phy_rom (blk_queue s' ! e) = phy_rom (blk_queue s ! e)"
    "s' = s\<lparr>blk_queue := blk_queue s', lru_head := lru_head s', lru_tail := lru_tail s'\<rparr>"
    "\<And>fuel. evict_loop (Suc fuel) s = (if is_sticky (hd q) s then evict_loop fuel s' else Some (hd q, phy_rom (blk_queue s ! hd q), s'))"
proof -
  from evict_step_rotates [OF assms(1)] obtain s' where
    s': "evict_step s = Some (hd q, phy_rom (blk_queue s ! hd q), s')" "lru_list (rotate1 q) s'"
      "\<forall>e < 1024. phy_rom (blk_queue s' ! e) = phy_rom (blk_queue s ! e)"
      "s' = s\<lparr>blk_queue := blk_queue s', lru_head := lru_head s', lru_tail := lru_tail s'\<rparr>" by blast
  have "sticky_bit s' = sticky_bit s" by (subst s'(4)) simp
  then have "phys_ok s'" using s'(3) assms(2) by (simp add: phys_ok_def)
  moreover have "hd q < 1024" using assms(1) by (cases q) (auto simp: lru_list_def)
  moreover have "nat (phy_rom (blk_queue s ! hd q)) div 32 < 32"
    using assms(2) \<open>hd q < 1024\<close> by (auto simp: phys_ok_def less_mult_imp_div_less nat_less_iff)
  moreover have "length (sticky_bit s) = 32" using assms(2) by (simp add: phys_ok_def)
  ultimately show thesis
    using s' \<open>sticky_bit s' = sticky_bit s\<close>
    by (intro that [of s']) (auto simp: is_sticky_def sb_test_def)
qed

text \<open>The loop takes the first slot whose page is not sticky and moves the ones before it to the end.\<close>

lemma evict_loop_first:
  assumes "lru_list (xs @ e # ys) s" "phys_ok s" "\<forall>x \<in> set xs. is_sticky x s" "\<not> is_sticky e s" "length xs < fuel"
  shows "\<exists>s'. evict_loop fuel s = Some (e, phy_rom (blk_queue s ! e), s') \<and> lru_list (ys @ xs @ [e]) s' \<and> phys_ok s'
     \<and> (\<forall>e < 1024. phy_rom (blk_queue s' ! e) = phy_rom (blk_queue s ! e))
     \<and> s' = s\<lparr>blk_queue := blk_queue s', lru_head := lru_head s', lru_tail := lru_tail s'\<rparr>"
  using assms
proof (induction xs arbitrary: s ys fuel)
  case Nil
  then obtain f where f: "fuel = Suc f" by (cases fuel) auto
  from Nil.prems(1) have l: "lru_list (e # ys) s" by simp
  show ?case
    by (rule evict_loop_step [OF l Nil.prems(2)]) (use Nil.prems(4) f in auto)
next
  case (Cons x xs)
  then obtain f where f: "fuel = Suc f" "length xs < f" by (cases fuel) auto
  from Cons.prems(1) have l: "lru_list (x # xs @ e # ys) s" by simp
  obtain s1 where s1: "lru_list (rotate1 (x # xs @ e # ys)) s1" "phys_ok s1"
      "\<forall>e < 1024. phy_rom (blk_queue s1 ! e) = phy_rom (blk_queue s ! e)"
      "s1 = s\<lparr>blk_queue := blk_queue s1, lru_head := lru_head s1, lru_tail := lru_tail s1\<rparr>"
      "\<And>fuel. evict_loop (Suc fuel) s = (if is_sticky (hd (x # xs @ e # ys)) s then evict_loop fuel s1
         else Some (hd (x # xs @ e # ys), phy_rom (blk_queue s ! hd (x # xs @ e # ys)), s1))"
    by (rule evict_loop_step [OF l Cons.prems(2)]) blast
  have sb: "sticky_bit s1 = sticky_bit s" by (subst s1(4)) simp
  have st: "is_sticky y s1 = is_sticky y s" if "y < 1024" for y
    using s1(3) that sb by (simp add: is_sticky_def)
  have b: "\<forall>y \<in> set (x # xs @ e # ys). y < 1024" using l unfolding lru_list_def by blast
  have "lru_list (xs @ e # (ys @ [x])) s1" using s1(1) by simp
  moreover have "\<forall>y \<in> set xs. is_sticky y s1" "\<not> is_sticky e s1" using b st Cons.prems(3,4) by auto
  ultimately obtain s' where s': "evict_loop f s1 = Some (e, phy_rom (blk_queue s1 ! e), s')"
      "lru_list ((ys @ [x]) @ xs @ [e]) s'" "phys_ok s'"
      "\<forall>e < 1024. phy_rom (blk_queue s' ! e) = phy_rom (blk_queue s1 ! e)"
      "s' = s1\<lparr>blk_queue := blk_queue s', lru_head := lru_head s', lru_tail := lru_tail s'\<rparr>"
    using Cons.IH [of "ys @ [x]" s1 f] s1(2) f(2) by blast
  have fr: "s' = s\<lparr>blk_queue := blk_queue s', lru_head := lru_head s', lru_tail := lru_tail s'\<rparr>"
  proof -
    have "s' = (s\<lparr>blk_queue := blk_queue s1, lru_head := lru_head s1, lru_tail := lru_tail s1\<rparr>)
        \<lparr>blk_queue := blk_queue s', lru_head := lru_head s', lru_tail := lru_tail s'\<rparr>"
      using s'(5) s1(4) by simp
    then show ?thesis by simp
  qed
  have "evict_loop fuel s = Some (e, phy_rom (blk_queue s1 ! e), s')"
    using s1(5) Cons.prems(3) f s'(1) by simp
  with s1(3) b s' fr show ?case by (intro exI [of _ s']) auto
qed

lemma evict_loop_all_sticky:
  assumes "lru_list q s" "phys_ok s" "\<forall>x \<in> set q. is_sticky x s"
  shows "evict_loop fuel s = None"
  using assms
proof (induction fuel arbitrary: q s)
  case (Suc fuel)
  obtain s1 where s1: "lru_list (rotate1 q) s1" "phys_ok s1"
      "\<forall>e < 1024. phy_rom (blk_queue s1 ! e) = phy_rom (blk_queue s ! e)"
      "s1 = s\<lparr>blk_queue := blk_queue s1, lru_head := lru_head s1, lru_tail := lru_tail s1\<rparr>"
      "\<And>fuel. evict_loop (Suc fuel) s = (if is_sticky (hd q) s then evict_loop fuel s1
         else Some (hd q, phy_rom (blk_queue s ! hd q), s1))"
    by (rule evict_loop_step [OF Suc.prems(1,2)]) blast
  have sb: "sticky_bit s1 = sticky_bit s" by (subst s1(4)) simp
  have "q \<noteq> []" "\<forall>e \<in> set q. e < 1024" using Suc.prems(1) by (auto simp: lru_list_def)
  with s1(3) sb Suc.prems(3) have "\<forall>x \<in> set (rotate1 q). is_sticky x s1" "is_sticky (hd q) s"
    by (auto simp: is_sticky_def)
  with s1 Suc.IH show ?case by auto
qed simp

section \<open>The mirrors of a page\<close>

declare map_rom_low.simps [simp del] map_rom_high.simps [simp del]

lemma stride_step:
  assumes "c < L" "0 < (n :: nat)"
  shows "(\<exists>k. c \<le> k \<and> k < L \<and> n dvd (k - c) \<and> Q k) \<longleftrightarrow>
        (\<exists>k. c + n \<le> k \<and> k < L \<and> n dvd (k - (c + n)) \<and> Q k) \<or> Q c"
proof
  assume "\<exists>k. c \<le> k \<and> k < L \<and> n dvd (k - c) \<and> Q k"
  then obtain k where k: "c \<le> k" "k < L" "n dvd (k - c)" "Q k" by blast
  show "(\<exists>k. c + n \<le> k \<and> k < L \<and> n dvd (k - (c + n)) \<and> Q k) \<or> Q c"
  proof (cases "k = c")
    case True with k show ?thesis by simp
  next
    case False
    then have "n \<le> k - c" using k(1,3) by (intro dvd_imp_le) auto
    then have "c + n \<le> k" "k - (c + n) = (k - c) - n" using k(1) by auto
    moreover have "n dvd (k - c) - n" using k(3) by (rule dvd_diff_nat) simp
    ultimately show ?thesis using k by auto
  qed
next
  assume "(\<exists>k. c + n \<le> k \<and> k < L \<and> n dvd (k - (c + n)) \<and> Q k) \<or> Q c"
  then show "\<exists>k. c \<le> k \<and> k < L \<and> n dvd (k - c) \<and> Q k"
  proof
    assume "\<exists>k. c + n \<le> k \<and> k < L \<and> n dvd (k - (c + n)) \<and> Q k"
    then obtain k where k: "c + n \<le> k" "k < L" "n dvd (k - (c + n))" "Q k" by blast
    then have e: "k - c = (k - (c + n)) + n" by simp
    have "n dvd (k - c)" unfolding e using k(3) by (rule dvd_add) simp
    with k show ?thesis by (intro exI [of _ k]) auto
  qed (use assms in \<open>auto intro!: exI [of _ c]\<close>)
qed

lemma map_rom_low_effect:
  assumes "0 < n" "idx < 1024" "length mm = 8192"
  shows "\<exists>mm'. map_rom_low n idx ptr c mm = Some mm' \<and> length mm' = 8192 \<and>
     (\<forall>m. mm' ! m = (if \<exists>k. c \<le> k \<and> k < 1024 \<and> n dvd (k - c) \<and> (m = 0x1000 + idx + k \<or> m = 0x1400 + idx + k)
                     then ptr else mm ! m))"
  using assms
proof (induction "1024 - c" arbitrary: c mm rule: less_induct)
  case less
  show ?case
  proof (cases "1024 \<le> c")
    case True
    then show ?thesis using less.prems by (subst map_rom_low.simps) auto
  next
    case False
    let ?mm = "(mm[0x1000 + idx + c := ptr])[0x1400 + idx + c := ptr]"
    have r: "map_rom_low n idx ptr c mm = map_rom_low n idx ptr (c + n) ?mm"
      using False less.prems by (subst map_rom_low.simps) simp
    have "1024 - (c + n) < 1024 - c" using False less.prems(1) by simp
    from less.hyps [OF this less.prems(1,2), of ?mm] less.prems(3) obtain mm' where
      m: "map_rom_low n idx ptr (c + n) ?mm = Some mm'" "length mm' = 8192"
        "\<And>m. mm' ! m = (if \<exists>k. c + n \<le> k \<and> k < 1024 \<and> n dvd (k - (c + n)) \<and> (m = 0x1000 + idx + k \<or> m = 0x1400 + idx + k)
                     then ptr else ?mm ! m)" by auto
    note k = stride_step [of c 1024 n, OF _ less.prems(1)]
    have "?mm ! m = (if m = 0x1000 + idx + c \<or> m = 0x1400 + idx + c then ptr else mm ! m)" for m
      using False less.prems by (auto simp: nth_list_update)
    with m(3) k [where Q = "\<lambda>k. m = 0x1000 + idx + k \<or> m = 0x1400 + idx + k" for m] False
    have "mm' ! m = (if \<exists>k. c \<le> k \<and> k < 1024 \<and> n dvd (k - c) \<and> (m = 0x1000 + idx + k \<or> m = 0x1400 + idx + k)
                     then ptr else mm ! m)" for m by auto
    with m(1,2) r show ?thesis by auto
  qed
qed

lemma map_rom_high_effect:
  assumes "0 < n" "idx < 1024" "length mm = 8192"
  shows "\<exists>mm'. map_rom_high n idx ptr c mm = Some mm' \<and> length mm' = 8192 \<and>
     (\<forall>m. mm' ! m = (if \<exists>k. c \<le> k \<and> k < 512 \<and> n dvd (k - c) \<and> m = 0x1800 + idx + k then ptr else mm ! m))"
  using assms
proof (induction "512 - c" arbitrary: c mm rule: less_induct)
  case less
  show ?case
  proof (cases "512 \<le> c")
    case True
    then show ?thesis using less.prems by (subst map_rom_high.simps) auto
  next
    case False
    let ?mm = "mm[0x1800 + idx + c := ptr]"
    have r: "map_rom_high n idx ptr c mm = map_rom_high n idx ptr (c + n) ?mm"
      using False less.prems by (subst map_rom_high.simps) simp
    have "512 - (c + n) < 512 - c" using False less.prems(1) by simp
    from less.hyps [OF this less.prems(1,2), of ?mm] less.prems(3) obtain mm' where
      m: "map_rom_high n idx ptr (c + n) ?mm = Some mm'" "length mm' = 8192"
        "\<And>m. mm' ! m = (if \<exists>k. c + n \<le> k \<and> k < 512 \<and> n dvd (k - (c + n)) \<and> m = 0x1800 + idx + k
                     then ptr else ?mm ! m)" by auto
    note k = stride_step [of c 512 n, OF _ less.prems(1)]
    have "?mm ! m = (if m = 0x1800 + idx + c then ptr else mm ! m)" for m
      using False less.prems by (auto simp: nth_list_update)
    with m(3) k [where Q = "\<lambda>k. m = 0x1800 + idx + k" for m] False
    have "mm' ! m = (if \<exists>k. c \<le> k \<and> k < 512 \<and> n dvd (k - c) \<and> m = 0x1800 + idx + k then ptr else mm ! m)" for m
      by auto
    with m(1,2) r show ?thesis by auto
  qed
qed

text \<open>
  ROM sizes for which the mirrors are exact: a power of two of at most 16 MB, or 32 MB. A slot
  \<open>m\<close> of the memory map in the ROM window then belongs to page \<open>m mod n\<close>.
\<close>

definition geometry :: "nat \<Rightarrow> bool" where
  "geometry n \<longleftrightarrow> n dvd 512 \<or> n = 1024"

definition window :: "nat \<Rightarrow> nat \<Rightarrow> bool" where
  "window n m \<longleftrightarrow> 0x1000 \<le> m \<and> m < (if n = 1024 then 0x1C00 else 0x1A00)"

lemma geometry_facts:
  assumes "geometry n"
  shows "0 < n" "n dvd 1024" "n \<le> 1024"
proof -
  show "n dvd 1024" using assms dvd_trans [of n 512 1024] by (auto simp: geometry_def)
  then show "n \<le> 1024" by (rule dvd_imp_le) simp
  show "0 < n" using \<open>n dvd 1024\<close> by (cases "n = 0") auto
qed

lemma stride_image:
  assumes "n dvd N" "idx < (n :: nat)"
  shows "(\<exists>k. k < N \<and> n dvd k \<and> x = idx + k) \<longleftrightarrow> x < N \<and> x mod n = idx"
proof
  assume "\<exists>k. k < N \<and> n dvd k \<and> x = idx + k"
  then obtain j where j: "n * j < N" "x = idx + n * j" by (auto elim: dvdE)
  obtain c where c: "N = n * c" using assms(1) by (auto elim: dvdE)
  have "j + 1 \<le> c" using j(1) c by simp
  then have "n * (j + 1) \<le> N" unfolding c by (rule mult_le_mono2)
  with j assms(2) show "x < N \<and> x mod n = idx" by simp
next
  assume "x < N \<and> x mod n = idx"
  moreover have "x = x mod n + n * (x div n)" by simp
  moreover have "n * (x div n) \<le> x" by (rule times_div_less_eq_dividend)
  ultimately have "n * (x div n) < N \<and> n dvd n * (x div n) \<and> x = idx + n * (x div n)" by auto
  then show "\<exists>k. k < N \<and> n dvd k \<and> x = idx + k" by blast
qed

lemma mod_sub_base: "n dvd b \<Longrightarrow> b \<le> m \<Longrightarrow> (m - b) mod n = m mod (n :: nat)"
  by (metis add_diff_inverse_nat dvd_imp_mod_0 mod_add_left_eq not_less add_0)

lemma shifted:
  "(\<exists>k. P k \<and> m = b + idx + k) \<longleftrightarrow> b \<le> m \<and> (\<exists>k. P k \<and> m - b = idx + k)" for b m idx :: nat
  by (auto simp: algebra_simps)

lemma mirror_slots:
  assumes "geometry n" "idx < n"
  shows "((\<exists>k. k < 1024 \<and> n dvd k \<and> (m = 0x1000 + idx + k \<or> m = 0x1400 + idx + k)) \<or>
          (\<exists>k. k < 512 \<and> n dvd k \<and> m = 0x1800 + idx + k)) \<longleftrightarrow> window n m \<and> m mod n = idx"
proof -
  note g = geometry_facts [OF assms(1)]
  have low: "(\<exists>k. (k < 1024 \<and> n dvd k) \<and> m = b + idx + k) \<longleftrightarrow> b \<le> m \<and> m < b + 1024 \<and> m mod n = idx"
    if "n dvd b" for b
  proof -
    have "(m - b) mod n = m mod n" if "b \<le> m" using mod_sub_base [OF \<open>n dvd b\<close> that] .
    then show ?thesis
      unfolding shifted [of "\<lambda>k. k < 1024 \<and> n dvd k"] using stride_image [OF g(2) assms(2), of "m - b"] by auto
  qed
  have d: "n dvd 0x1000" "n dvd 0x1400" "n dvd 0x1800"
    using g(2) dvd_trans [of n 1024] by auto
  have high: "(\<exists>k. (k < 512 \<and> n dvd k) \<and> m = 0x1800 + idx + k) \<longleftrightarrow>
      0x1800 \<le> m \<and> m < (if n = 1024 then 0x1C00 else 0x1A00) \<and> m mod n = idx"
  proof (cases "n = 1024")
    case True
    have "(\<exists>k. (k < 512 \<and> (1024 :: nat) dvd k) \<and> m = 0x1800 + idx + k) \<longleftrightarrow> m = 0x1800 + idx"
      by (auto dest: dvd_imp_le)
    also have "\<dots> \<longleftrightarrow> 0x1800 \<le> m \<and> m < 0x1C00 \<and> m mod 1024 = idx"
    proof -
      have "m mod 1024 = m - 0x1800" if "0x1800 \<le> m" "m < 0x1C00"
        using mod_sub_base [of 1024 "0x1800" m] that by simp
      then show ?thesis using assms(2) True by auto
    qed
    finally show ?thesis using True by simp
  next
    case False
    then have n: "n dvd 512" using assms(1) by (simp add: geometry_def)
    have "(m - 0x1800) mod n = m mod n" if "0x1800 \<le> m" using mod_sub_base [OF d(3) that] .
    then show ?thesis
      unfolding shifted [of "\<lambda>k. k < 512 \<and> n dvd k"] using stride_image [OF n assms(2), of "m - 0x1800"] False by auto
  qed
  show ?thesis
    using low [OF d(1)] low [OF d(2)] high unfolding window_def by (auto split: if_splits)
qed

lemma map_rom_entry_effect:
  assumes "geometry n" "idx < n" "length (memory_map s) = 8192"
  shows "\<exists>mm. map_rom_entry idx ptr n s = Some (s\<lparr>memory_map := mm\<rparr>) \<and> length mm = 8192 \<and>
     (\<forall>m. mm ! m = (if window n m \<and> m mod n = idx then ptr else memory_map s ! m))"
proof -
  note g = geometry_facts [OF assms(1)]
  have i: "idx < 1024" using assms(2) g(3) by simp
  obtain mm1 where m1: "map_rom_low n idx ptr 0 (memory_map s) = Some mm1" "length mm1 = 8192"
    "\<And>m. mm1 ! m = (if \<exists>k. k < 1024 \<and> n dvd k \<and> (m = 0x1000 + idx + k \<or> m = 0x1400 + idx + k) then ptr else memory_map s ! m)"
    using map_rom_low_effect [OF g(1) i assms(3), of ptr 0] by auto
  obtain mm2 where m2: "map_rom_high n idx ptr 0 mm1 = Some mm2" "length mm2 = 8192"
    "\<And>m. mm2 ! m = (if \<exists>k. k < 512 \<and> n dvd k \<and> m = 0x1800 + idx + k then ptr else mm1 ! m)"
    using map_rom_high_effect [OF g(1) i m1(2), of ptr 0] by auto
  have "mm2 ! m = (if window n m \<and> m mod n = idx then ptr else memory_map s ! m)" for m
    unfolding mirror_slots [OF assms(1,2), of m, symmetric] m2(3) m1(3) by auto
  with m1(1) m2(1,2) show ?thesis by (intro exI [of _ mm2]) (simp add: map_rom_entry_def)
qed

lemma evict_loop_SomeD:
  assumes "lru_list q s" "phys_ok s" "evict_loop fuel s = Some (e, p, s')"
  shows "\<exists>q'. lru_list q' s' \<and> set q' = set q \<and> phys_ok s' \<and> e \<in> set q \<and> p = phy_rom (blk_queue s ! e)
     \<and> (\<forall>e < 1024. phy_rom (blk_queue s' ! e) = phy_rom (blk_queue s ! e))
     \<and> s' = s\<lparr>blk_queue := blk_queue s', lru_head := lru_head s', lru_tail := lru_tail s'\<rparr>"
  using assms
proof (induction fuel arbitrary: q s)
  case (Suc fuel)
  obtain s1 where s1: "lru_list (rotate1 q) s1" "phys_ok s1"
      "\<forall>e < 1024. phy_rom (blk_queue s1 ! e) = phy_rom (blk_queue s ! e)"
      "s1 = s\<lparr>blk_queue := blk_queue s1, lru_head := lru_head s1, lru_tail := lru_tail s1\<rparr>"
      "\<And>fuel. evict_loop (Suc fuel) s = (if is_sticky (hd q) s then evict_loop fuel s1
         else Some (hd q, phy_rom (blk_queue s ! hd q), s1))"
    by (rule evict_loop_step [OF Suc.prems(1,2)]) blast
  have q: "q \<noteq> []" "\<forall>e \<in> set q. e < 1024" using Suc.prems(1) by (auto simp: lru_list_def)
  show ?case
  proof (cases "is_sticky (hd q) s")
    case True
    with s1(5) Suc.prems(3) have "evict_loop fuel s1 = Some (e, p, s')" by simp
    from Suc.IH [OF s1(1,2) this] obtain q' where q': "lru_list q' s'" "set q' = set q" "phys_ok s'" "e \<in> set q"
      "p = phy_rom (blk_queue s1 ! e)" "\<forall>e < 1024. phy_rom (blk_queue s' ! e) = phy_rom (blk_queue s1 ! e)"
      "s' = s1\<lparr>blk_queue := blk_queue s', lru_head := lru_head s', lru_tail := lru_tail s'\<rparr>" by auto
    have "s' = s\<lparr>blk_queue := blk_queue s', lru_head := lru_head s', lru_tail := lru_tail s'\<rparr>"
    proof -
      have "s' = (s\<lparr>blk_queue := blk_queue s1, lru_head := lru_head s1, lru_tail := lru_tail s1\<rparr>)
          \<lparr>blk_queue := blk_queue s', lru_head := lru_head s', lru_tail := lru_tail s'\<rparr>"
        using q'(7) s1(4) by simp
      then show ?thesis by simp
    qed
    with q' s1(3) q(2) show ?thesis by (intro exI [of _ q']) auto
  next
    case False
    with s1(5) Suc.prems(3) have "e = hd q" "p = phy_rom (blk_queue s ! hd q)" "s' = s1" by auto
    with s1 q show ?thesis by (intro exI [of _ "rotate1 q"]) auto
  qed
qed simp

section \<open>Coherence\<close>

definition rom_blocks :: "pak \<Rightarrow> nat" where
  "rom_blocks s = gamepak_size s div PAGE"

text \<open>A slot shows page \<open>p\<close> of the file, up to the six bytes the port overlays in page 0.\<close>

definition shows_page :: "u8 list \<Rightarrow> nat \<Rightarrow> u8 list \<Rightarrow> bool" where
  "shows_page file p blk \<longleftrightarrow> length blk = PAGE \<and>
     (\<forall>i < PAGE. p = 0 \<and> 0xC4 \<le> i \<and> i < 0xCA \<or> blk ! i = file_block file p ! i)"

definition coherent :: "u8 list \<Rightarrow> pak \<Rightarrow> bool" where
  "coherent file s \<longleftrightarrow> (\<forall>m e. 0x1000 \<le> m \<and> m < 0x1C00 \<and> memory_map s ! m = Some e \<longrightarrow>
     window (rom_blocks s) m \<and> e < length (buffers s) \<and> phy_rom (blk_queue s ! e) = int (m mod rom_blocks s)
     \<and> shows_page file (m mod rom_blocks s) (buffers s ! e))"

definition pak_wf :: "u8 list \<Rightarrow> pak \<Rightarrow> bool" where
  "pak_wf file s \<longleftrightarrow> (\<exists>q. lru_list q s \<and> set q = {..< length (buffers s)}) \<and> length (sticky_bit s) = 32
     \<and> length (memory_map s) = 8192 \<and> geometry (rom_blocks s) \<and> \<not> mirror_1m s
     \<and> (\<forall>e < 1024. -1 \<le> phy_rom (blk_queue s ! e) \<and> phy_rom (blk_queue s ! e) < int (rom_blocks s))
     \<and> coherent file s"

lemma pak_wf_facts:
  assumes "pak_wf file s"
  shows "length (buffers s) \<le> 1024" "length (blk_queue s) = 1024" "phys_ok s"
proof -
  obtain q where q: "lru_list q s" "set q = {..< length (buffers s)}" using assms by (auto simp: pak_wf_def)
  show "length (blk_queue s) = 1024" using q(1) by (simp add: lru_list_def)
  have "{..< length (buffers s)} \<subseteq> {..< 1024}" using q by (auto simp: lru_list_def)
  then show "length (buffers s) \<le> 1024" by simp
  have "rom_blocks s \<le> 1024" using assms geometry_facts(3) by (simp add: pak_wf_def)
  then show "phys_ok s" using assms by (fastforce simp: pak_wf_def phys_ok_def)
qed

lemma evict_wf:
  assumes "pak_wf file s" "evict_gamepak_page fuel s = Some (e, s')"
  shows "pak_wf file s'" and "e < length (buffers s)"
    and "\<And>m. 0x1000 \<le> m \<Longrightarrow> m < 0x1C00 \<Longrightarrow> memory_map s' ! m \<noteq> Some e"
    and "s' = s\<lparr>blk_queue := blk_queue s', lru_head := lru_head s', lru_tail := lru_tail s', memory_map := memory_map s'\<rparr>"
proof -
  note f = pak_wf_facts [OF assms(1)]
  obtain q where q: "lru_list q s" "set q = {..< length (buffers s)}" using assms by (auto simp: pak_wf_def)
  obtain p s1 where l: "evict_loop fuel s = Some (e, p, s1)"
    and mm: "(if 0 \<le> p then map_rom_entry (nat p) None (rom_blocks s1) s1 else Some s1) = Some s'"
    using assms(2) unfolding evict_gamepak_page_def rom_blocks_def [symmetric]
    by (auto split: bind_splits)
  from evict_loop_SomeD [OF q(1) f(3) l] q(2) obtain q' where
    q': "lru_list q' s1" "set q' = {..< length (buffers s)}" "phys_ok s1" "e < length (buffers s)"
      "p = phy_rom (blk_queue s ! e)" "\<forall>e < 1024. phy_rom (blk_queue s1 ! e) = phy_rom (blk_queue s ! e)"
    and fr: "s1 = s\<lparr>blk_queue := blk_queue s1, lru_head := lru_head s1, lru_tail := lru_tail s1\<rparr>" by auto
  have sm: "memory_map s1 = memory_map s" "buffers s1 = buffers s" "sticky_bit s1 = sticky_bit s"
    "rom_blocks s1 = rom_blocks s" "mirror_1m s1 = mirror_1m s"
    by (subst fr, simp add: rom_blocks_def)+
  let ?n = "rom_blocks s"
  have g: "geometry ?n" and m8: "length (memory_map s) = 8192" using assms(1) by (auto simp: pak_wf_def)
  have pr: "-1 \<le> p" "p < int ?n" using assms(1) q'(4,5) f(1) by (auto simp: pak_wf_def)
  have "\<exists>mm. s' = s1\<lparr>memory_map := mm\<rparr> \<and> length mm = 8192 \<and>
     (\<forall>m. mm ! m = (if 0 \<le> p \<and> window ?n m \<and> m mod ?n = nat p then None else memory_map s ! m))"
  proof (cases "0 \<le> p")
    case True
    then have "nat p < ?n" using pr by simp
    from map_rom_entry_effect [OF g this, of s1 None] m8 mm True sm show ?thesis by auto
  next
    case False
    with mm m8 sm show ?thesis by (intro exI [of _ "memory_map s1"]) auto
  qed
  then obtain mm where s': "s' = s1\<lparr>memory_map := mm\<rparr>" "length mm = 8192"
    "\<And>m. mm ! m = (if 0 \<le> p \<and> window ?n m \<and> m mod ?n = nat p then None else memory_map s ! m)" by auto
  have c: "coherent file s" using assms(1) by (simp add: pak_wf_def)
  have fl: "memory_map s' = mm" "buffers s' = buffers s" "sticky_bit s' = sticky_bit s" "rom_blocks s' = ?n"
    "mirror_1m s' = mirror_1m s" "blk_queue s' = blk_queue s1"
    using s'(1) sm by (simp_all add: rom_blocks_def)
  have "coherent file s'"
    unfolding coherent_def fl
  proof (intro allI impI)
    fix m x assume a: "0x1000 \<le> m \<and> m < 0x1C00 \<and> mm ! m = Some x"
    then have "memory_map s ! m = Some x" using s'(3) [of m] by (auto split: if_splits)
    with a c have "window ?n m \<and> x < length (buffers s) \<and> phy_rom (blk_queue s ! x) = int (m mod ?n)
        \<and> shows_page file (m mod ?n) (buffers s ! x)" by (auto simp: coherent_def)
    with q'(6) f(1) show "window ?n m \<and> x < length (buffers s) \<and> phy_rom (blk_queue s1 ! x) = int (m mod ?n)
        \<and> shows_page file (m mod ?n) (buffers s ! x)" by auto
  qed
  moreover have "lru_list q' s'" using q'(1) s'(1) by (simp add: lru_list_def)
  ultimately show "pak_wf file s'"
    using assms(1) q'(2,6) s'(2) fl unfolding pak_wf_def by auto
  show "e < length (buffers s)" by (rule q'(4))
  show "s' = s\<lparr>blk_queue := blk_queue s', lru_head := lru_head s', lru_tail := lru_tail s', memory_map := memory_map s'\<rparr>"
    using s'(1) fr by simp
  show "memory_map s' ! m \<noteq> Some e" if m: "0x1000 \<le> m" "m < 0x1C00" for m
  proof
    assume "memory_map s' ! m = Some e"
    then have a: "mm ! m = Some e" using fl by simp
    then have b: "memory_map s ! m = Some e" using s'(3) [of m] by (auto split: if_splits)
    with m c have "window ?n m" "p = int (m mod ?n)" using q'(5) by (auto simp: coherent_def)
    then show False using a s'(3) [of m] by simp
  qed
qed

lemma arr_blit_nth:
  assumes "arr_blit dst off src = Some d" "i < off \<or> off + length src \<le> i" "i < length dst"
  shows "d ! i = dst ! i"
  using assms by (auto simp: arr_blit_eq_Some nth_append min_def)

lemma gpio_overlay_page:
  assumes "shows_page file 0 blk"
  shows "\<exists>b. gpio_overlay g blk = Some b \<and> shows_page file 0 b"
proof -
  let ?src = "if gpio_ctl g \<noteq> 0 then halfword (ucast (gpio_data g)) @ halfword (ucast (gpio_dir g)) @ halfword (ucast (gpio_ctl g))
      else replicate 6 0"
  have l: "length ?src = 6" by (simp add: halfword_def)
  have p: "length blk = PAGE" using assms by (simp add: shows_page_def)
  obtain b where b: "arr_blit blk 0xC4 ?src = Some b"
    using arr_blit_total [of "0xC4" ?src blk] l p by auto
  have "b ! i = blk ! i" if "i < PAGE" "\<not> (0xC4 \<le> i \<and> i < 0xCA)" for i
    using arr_blit_nth [OF b, of i] l p that by auto
  with assms arr_blit_length [OF b] p have "shows_page file 0 b" unfolding shows_page_def by metis
  with b show ?thesis by (simp add: gpio_overlay_def)
qed

lemma pak_wf_buffer_upd:
  assumes "pak_wf file s" "e < length (buffers s)"
    and "\<And>p. shows_page file p (buffers s ! e) \<Longrightarrow> phy_rom (blk_queue s ! e) = int p \<Longrightarrow> shows_page file p b"
  shows "pak_wf file (s\<lparr>buffers := (buffers s)[e := b]\<rparr>)"
  using assms unfolding pak_wf_def coherent_def rom_blocks_def lru_list_def
  by (auto simp: nth_list_update)

lemma update_page0_wf:
  assumes "pak_wf file s"
  shows "\<exists>s'. update_page0 g s = Some s' \<and> pak_wf file s' \<and> memory_map s' = memory_map s
     \<and> blk_queue s' = blk_queue s \<and> length (buffers s') = length (buffers s) \<and> rom_blocks s' = rom_blocks s
     \<and> (\<forall>e p. e < length (buffers s) \<and> phy_rom (blk_queue s ! e) = int p \<longrightarrow> shows_page file p (buffers s ! e)
          \<longrightarrow> shows_page file p (buffers s' ! e))"
proof (cases "rtc_enabled g \<or> rumble_enabled g")
  case False
  then show ?thesis using assms by (simp add: update_page0_def)
next
  case True
  have l: "0x1000 < length (memory_map s)" using assms by (simp add: pak_wf_def)
  show ?thesis
  proof (cases "memory_map s ! 0x1000")
    case None
    then show ?thesis using True l assms by (simp add: update_page0_def)
  next
    case (Some e)
    let ?n = "rom_blocks s"
    have "?n dvd 1024" using assms geometry_facts(2) by (simp add: pak_wf_def)
    then have z: "0x1000 mod ?n = 0" using dvd_trans [of ?n 1024 "0x1000"] by auto
    have "coherent file s" using assms by (simp add: pak_wf_def)
    with Some z have e: "e < length (buffers s)" "phy_rom (blk_queue s ! e) = 0" "shows_page file 0 (buffers s ! e)"
      unfolding coherent_def by force+
    from gpio_overlay_page [OF e(3), of g] obtain b where b: "gpio_overlay g (buffers s ! e) = Some b" "shows_page file 0 b"
      by auto
    have "pak_wf file (s\<lparr>buffers := (buffers s)[e := b]\<rparr>)"
      using pak_wf_buffer_upd [OF assms e(1), of b] b(2) e(2) by simp
    then show ?thesis
      using True l Some e b by (auto simp: update_page0_def rom_blocks_def nth_list_update)
  qed
qed

lemma file_block_shows: "shows_page file p (file_block file p)"
  by (simp add: shows_page_def file_block_def Let_def)

text \<open>Giving an unmapped slot a new page and mapping it.\<close>

lemma assign_wf:
  assumes "pak_wf file s" "e < length (buffers s)" "p < rom_blocks s" "b = buffers s \<or> b = (buffers s)[e := file_block file p]"
    and "\<And>m. 0x1000 \<le> m \<Longrightarrow> m < 0x1C00 \<Longrightarrow> memory_map s ! m \<noteq> Some e"
    and "shows_page file p (b ! e)"
  shows "\<exists>s1 s2. set_phy e (int p) s = Some s1 \<and> map_rom_entry p (Some e) (rom_blocks s) (s1\<lparr>buffers := b\<rparr>) = Some s2
     \<and> pak_wf file s2 \<and> buffers s2 = b \<and> memory_map s2 ! (0x1000 + p) = Some e \<and> phy_rom (blk_queue s2 ! e) = int p
     \<and> (\<forall>x < 1024. x \<noteq> e \<longrightarrow> phy_rom (blk_queue s2 ! x) = phy_rom (blk_queue s ! x))
     \<and> (\<forall>q. lru_list q s \<longrightarrow> lru_list q s2) \<and> s2 = s\<lparr>blk_queue := blk_queue s2, buffers := b, memory_map := memory_map s2\<rparr>"
proof -
  note f = pak_wf_facts [OF assms(1)]
  let ?n = "rom_blocks s"
  have g: "geometry ?n" and m8: "length (memory_map s) = 8192" using assms(1) by (auto simp: pak_wf_def)
  note gf = geometry_facts [OF g]
  let ?Q = "(blk_queue s)[e := (blk_queue s ! e)\<lparr>phy_rom := int p\<rparr>]"
  have e: "e < 1024" using assms(2) f(1) by simp
  have s1: "set_phy e (int p) s = Some (s\<lparr>blk_queue := ?Q\<rparr>)"
    using e f(2) by (simp add: set_phy_def)
  obtain mm where mm: "map_rom_entry p (Some e) ?n (s\<lparr>blk_queue := ?Q, buffers := b\<rparr>) =
      Some (s\<lparr>blk_queue := ?Q, buffers := b, memory_map := mm\<rparr>)" "length mm = 8192"
      "\<And>m. mm ! m = (if window ?n m \<and> m mod ?n = p then Some e else memory_map s ! m)"
    using map_rom_entry_effect [OF g assms(3), of "s\<lparr>blk_queue := ?Q, buffers := b\<rparr>" "Some e"] m8 by auto
  let ?s2 = "s\<lparr>blk_queue := ?Q, buffers := b, memory_map := mm\<rparr>"
  have phy: "phy_rom (?Q ! x) = (if x = e then int p else phy_rom (blk_queue s ! x))" if "x < 1024" for x
    using that f(2) by (simp add: nth_list_update)
  have lru: "lru_list q ?s2" if "lru_list q s" for q
    using that f(2) e unfolding lru_list_def by (auto simp: nth_list_update)
  have bl: "length b = length (buffers s)" "x \<noteq> e \<Longrightarrow> b ! x = buffers s ! x" for x
    using assms(4) by auto
  have c: "coherent file s" using assms(1) by (simp add: pak_wf_def)
  have "coherent file ?s2"
    unfolding coherent_def
  proof (intro allI impI)
    fix m x assume "0x1000 \<le> m \<and> m < 0x1C00 \<and> memory_map ?s2 ! m = Some x"
    then have m: "0x1000 \<le> m" "m < 0x1C00" "mm ! m = Some x" by simp_all
    have n2: "rom_blocks ?s2 = ?n" by (simp add: rom_blocks_def)
    show "window (rom_blocks ?s2) m \<and> x < length (buffers ?s2) \<and> phy_rom (blk_queue ?s2 ! x) = int (m mod rom_blocks ?s2)
       \<and> shows_page file (m mod rom_blocks ?s2) (buffers ?s2 ! x)"
    proof (cases "window ?n m \<and> m mod ?n = p")
      case True
      then have "x = e" using m(3) mm(3) [of m] by simp
      with True show ?thesis unfolding n2 using phy [OF e] bl(1) assms(2,6) by simp
    next
      case False
      then have o: "memory_map s ! m = Some x" using m(3) mm(3) [of m] by auto
      then have x: "x \<noteq> e" using assms(5) m by blast
      from c o m have w: "window ?n m \<and> x < length (buffers s) \<and> phy_rom (blk_queue s ! x) = int (m mod ?n)
        \<and> shows_page file (m mod ?n) (buffers s ! x)" by (auto simp: coherent_def)
      then show ?thesis unfolding n2 using x bl phy [of x] f(1) by simp
    qed
  qed
  moreover have "\<forall>x < 1024. -1 \<le> phy_rom (?Q ! x) \<and> phy_rom (?Q ! x) < int ?n"
    using phy assms(1,3) by (auto simp: pak_wf_def)
  ultimately have "pak_wf file ?s2"
    using assms(1) lru mm(2) bl(1) unfolding pak_wf_def by (auto simp: rom_blocks_def)
  moreover have "window ?n (0x1000 + p)" using assms(3) gf by (auto simp: window_def)
  moreover have "(0x1000 + p) mod ?n = p"
    using mod_sub_base [of ?n "0x1000" "0x1000 + p"] dvd_trans [OF gf(2), of "0x1000"] assms(3) by simp
  ultimately show ?thesis
    using s1 mm phy [OF e] phy lru by (intro exI [of _ "s\<lparr>blk_queue := ?Q\<rparr>"] exI [of _ ?s2]) auto
qed

section \<open>Loading a page\<close>

lemma load_gamepak_page_wf:
  assumes "pak_wf file s" "load_gamepak_page fuel g file index s = Some (e, s')"
  shows "pak_wf file s' \<and> e < length (buffers s') \<and> rom_blocks s' = rom_blocks s
     \<and> shows_page file (index mod rom_blocks s) (buffers s' ! e)
     \<and> memory_map s' ! (0x1000 + index mod rom_blocks s) = Some e"
proof -
  let ?n = "rom_blocks s" and ?p = "index mod rom_blocks s"
  have n: "0 < ?n" using assms(1) geometry_facts(1) by (simp add: pak_wf_def)
  then have p: "?p < ?n" by simp
  have pi: "(if ?n \<le> index then index mod ?n else index) = ?p" by auto
  obtain s1 where ev: "evict_gamepak_page fuel s = Some (e, s1)"
    and rest: "do { s \<leftarrow> set_phy e (int ?p) s1;
        b \<leftarrow> arr_set (buffers s) e (file_block file (if mirror_1m s \<and> file_blocks s \<noteq> 0 then ?p mod file_blocks s else ?p));
        s \<leftarrow> map_rom_entry ?p (Some e) ?n (s\<lparr>buffers := b\<rparr>);
        s \<leftarrow> (if ?p = 0 then update_page0 g s else Some s); Some (e, s) } = Some (e, s')"
    using assms(2) n unfolding load_gamepak_page_def rom_blocks_def [symmetric] Let_def pi
    by (auto split: bind_splits if_splits)
  note w = evict_wf [OF assms(1) ev]
  have n1: "rom_blocks s1 = ?n" by (subst w(4)) (simp add: rom_blocks_def)
  have nm: "\<not> mirror_1m s1" using w(1) by (simp add: pak_wf_def)
  have e1: "e < length (buffers s1)" using w(2) by (subst w(4)) simp
  let ?b = "(buffers s1)[e := file_block file ?p]"
  obtain s2 s3 where a: "set_phy e (int ?p) s1 = Some s2"
      "map_rom_entry ?p (Some e) (rom_blocks s1) (s2\<lparr>buffers := ?b\<rparr>) = Some s3"
    and w3: "pak_wf file s3" "buffers s3 = ?b" "memory_map s3 ! (0x1000 + ?p) = Some e" "phy_rom (blk_queue s3 ! e) = int ?p"
    and s3: "s3 = s1\<lparr>blk_queue := blk_queue s3, buffers := ?b, memory_map := memory_map s3\<rparr>"
    using assign_wf [OF w(1) e1, of ?p ?b] p n1 w(3) e1 file_block_shows [of "file" ?p] by auto
  have s2: "buffers s2 = buffers s1" "mirror_1m s2 = mirror_1m s1"
    using a(1) by (auto simp: set_phy_def split: bind_splits)
  have n3: "rom_blocks s3 = ?n" using n1 by (subst s3) (simp add: rom_blocks_def)
  have sh: "shows_page file ?p (buffers s3 ! e)" using e1 w3(2) file_block_shows [of "file" ?p] by simp
  have fin: "(if ?p = 0 then update_page0 g s3 else Some s3) = Some s'"
    using rest a(2) s2 e1 nm unfolding a(1) n1 by (auto split: bind_splits if_splits)
  show ?thesis
  proof (cases "?p = 0")
    case False
    with fin have "s' = s3" by simp
    with w3 n3 sh e1 show ?thesis by simp
  next
    case True
    with fin update_page0_wf [OF w3(1), of g] have u: "pak_wf file s'" "memory_map s' = memory_map s3"
      "length (buffers s') = length (buffers s3)" "rom_blocks s' = rom_blocks s3"
      "\<And>e p. e < length (buffers s3) \<Longrightarrow> phy_rom (blk_queue s3 ! e) = int p \<Longrightarrow> shows_page file p (buffers s3 ! e)
          \<Longrightarrow> shows_page file p (buffers s' ! e)" by auto
    with w3 n3 sh e1 show ?thesis by simp
  qed
qed

lemma evict_returns:
  assumes "pak_wf file s" "e < length (buffers s)" "\<not> is_sticky e s" "length (buffers s) \<le> fuel"
  shows "\<exists>x s'. evict_gamepak_page fuel s = Some (x, s')"
proof -
  obtain q where q: "lru_list q s" "set q = {..< length (buffers s)}" using assms by (auto simp: pak_wf_def)
  have "\<exists>x \<in> set q. \<not> is_sticky x s" using assms(2,3) q(2) by auto
  then obtain xs x ys where x: "q = xs @ x # ys" "\<not> is_sticky x s" "\<forall>y \<in> set xs. is_sticky y s"
    by (auto dest!: split_list_first_prop)
  have "distinct q" using q(1) by (simp add: lru_list_def)
  then have "length q = length (buffers s)" using q(2) distinct_card [of q] by simp
  then have "length xs < fuel" using x(1) assms(4) by simp
  from evict_loop_first [OF _ pak_wf_facts(3) [OF assms(1)] x(3,2) this, of ys] q(1) x(1) obtain s1 where
    s1: "evict_loop fuel s = Some (x, phy_rom (blk_queue s ! x), s1)"
      "s1 = s\<lparr>blk_queue := blk_queue s1, lru_head := lru_head s1, lru_tail := lru_tail s1\<rparr>" by auto
  have r: "rom_blocks s1 = rom_blocks s" "memory_map s1 = memory_map s" by (subst s1(2), simp add: rom_blocks_def)+
  have b: "x < 1024" using q(1) x(1) by (auto simp: lru_list_def)
  show ?thesis
  proof (cases "0 \<le> phy_rom (blk_queue s ! x)")
    case True
    have "nat (phy_rom (blk_queue s ! x)) < rom_blocks s" using assms(1) b True by (auto simp: pak_wf_def)
    moreover have "geometry (rom_blocks s)" "length (memory_map s1) = 8192"
      using assms(1) r(2) by (auto simp: pak_wf_def)
    ultimately obtain s2 where "map_rom_entry (nat (phy_rom (blk_queue s ! x))) None (rom_blocks s) s1 = Some s2"
      using map_rom_entry_effect by blast
    with True s1(1) r(1) show ?thesis
      unfolding evict_gamepak_page_def rom_blocks_def [symmetric] by auto
  next
    case False
    with s1(1) show ?thesis by (simp add: evict_gamepak_page_def)
  qed
qed

lemma load_gamepak_page_returns:
  assumes "pak_wf file s" "e < length (buffers s)" "\<not> is_sticky e s" "length (buffers s) \<le> fuel"
  shows "\<exists>x s'. load_gamepak_page fuel g file index s = Some (x, s')"
proof -
  let ?n = "rom_blocks s" and ?p = "index mod rom_blocks s"
  have n: "0 < ?n" using assms(1) geometry_facts(1) by (simp add: pak_wf_def)
  then have p: "?p < ?n" by simp
  have pi: "(if ?n \<le> index then index mod ?n else index) = ?p" by auto
  obtain e s1 where ev: "evict_gamepak_page fuel s = Some (e, s1)" using evict_returns [OF assms] by auto
  note w = evict_wf [OF assms(1) ev]
  have n1: "rom_blocks s1 = ?n" by (subst w(4)) (simp add: rom_blocks_def)
  have nm: "\<not> mirror_1m s1" using w(1) by (simp add: pak_wf_def)
  have e1: "e < length (buffers s1)" using w(2) by (subst w(4)) simp
  let ?b = "(buffers s1)[e := file_block file ?p]"
  obtain s2 s3 where a: "set_phy e (int ?p) s1 = Some s2"
      "map_rom_entry ?p (Some e) (rom_blocks s1) (s2\<lparr>buffers := ?b\<rparr>) = Some s3" "pak_wf file s3"
    using assign_wf [OF w(1) e1, of ?p ?b] p n1 w(3) e1 file_block_shows [of "file" ?p] by auto
  have s2: "buffers s2 = buffers s1" "mirror_1m s2 = mirror_1m s1"
    using a(1) by (auto simp: set_phy_def split: bind_splits)
  have "\<exists>s'. (if ?p = 0 then update_page0 g s3 else Some s3) = Some s'"
    using update_page0_wf [OF a(3), of g] by auto
  with a s2 e1 nm n show ?thesis
    unfolding load_gamepak_page_def rom_blocks_def [symmetric] Let_def pi ev n1 by auto
qed

end
