(* ===== verification/GamepakLoad.thy ===== *)
theory GamepakLoad
  imports GamepakProps
begin

text \<open>
  Loading a ROM file into the slots, every sequence of page loads that follows, and the
  properties of paging.
\<close>

section \<open>Loading a ROM\<close>

text \<open>The first \<open>k\<close> pages are loaded, in slots of the same number.\<close>

definition loading :: "u8 list \<Rightarrow> nat \<Rightarrow> pak \<Rightarrow> bool" where
  "loading file k s \<longleftrightarrow> pak_wf file s \<and> k \<le> length (buffers s)
     \<and> lru_list ([k..< length (buffers s)] @ [0..<k]) s
     \<and> (\<forall>e. k \<le> e \<and> e < length (buffers s) \<longrightarrow> phy_rom (blk_queue s ! e) = -1)
     \<and> (\<forall>p < k. memory_map s ! (0x1000 + p) = Some p)"

lemma unassigned_unmapped:
  assumes "pak_wf file s" "phy_rom (blk_queue s ! e) = -1" "0x1000 \<le> m" "m < 0x1C00"
  shows "memory_map s ! m \<noteq> Some e"
  using assms unfolding pak_wf_def coherent_def by fastforce

lemma load_chunk_step:
  assumes "loading file k s" "k < length (buffers s)" "k < rom_blocks s" "shows_page file k (buffers s ! k)"
  shows "\<exists>s1 s2 s3. evict_gamepak_page 1 s = Some (k, s1) \<and> set_phy k (int k) s1 = Some s2 \<and>
     map_rom_entry k (Some k) (rom_blocks s) s2 = Some s3 \<and> loading file (Suc k) s3 \<and> buffers s3 = buffers s
     \<and> rom_blocks s3 = rom_blocks s \<and> file_blocks s3 = file_blocks s"
proof -
  let ?N = "length (buffers s)"
  have wf: "pak_wf file s" and lru: "lru_list ([k..<?N] @ [0..<k]) s"
    and phy: "phy_rom (blk_queue s ! k) = -1" and mapped: "\<forall>p < k. memory_map s ! (0x1000 + p) = Some p"
    and un: "\<forall>e. k \<le> e \<and> e < ?N \<longrightarrow> phy_rom (blk_queue s ! e) = -1"
    using assms(1,2) by (auto simp: loading_def)
  have q: "[k..<?N] @ [0..<k] = k # [Suc k..<?N] @ [0..<k]" using assms(2) by (simp add: upt_conv_Cons)
  from evict_step_rotates [OF lru] obtain s1 where s1: "evict_step s = Some (k, -1, s1)"
      "lru_list ([Suc k..<?N] @ [0..<Suc k]) s1" "\<forall>e < 1024. phy_rom (blk_queue s1 ! e) = phy_rom (blk_queue s ! e)"
      "s1 = s\<lparr>blk_queue := blk_queue s1, lru_head := lru_head s1, lru_tail := lru_tail s1\<rparr>"
    unfolding q using phy by auto
  have ev: "evict_gamepak_page 1 s = Some (k, s1)"
    using s1(1) by (simp add: evict_gamepak_page_def)
  note w = evict_wf [OF wf ev]
  have sm: "memory_map s1 = memory_map s" "buffers s1 = buffers s" "rom_blocks s1 = rom_blocks s" "file_blocks s1 = file_blocks s"
    by (subst s1(4), simp add: rom_blocks_def)+
  from assign_wf [OF w(1), of k k "buffers s1"] obtain s2 s3 where
    a: "set_phy k (int k) s1 = Some s2" "map_rom_entry k (Some k) (rom_blocks s1) (s2\<lparr>buffers := buffers s1\<rparr>) = Some s3"
    and w3: "pak_wf file s3" "buffers s3 = buffers s1" "memory_map s3 ! (0x1000 + k) = Some k"
      "\<forall>x < 1024. x \<noteq> k \<longrightarrow> phy_rom (blk_queue s3 ! x) = phy_rom (blk_queue s1 ! x)" "\<forall>q. lru_list q s1 \<longrightarrow> lru_list q s3"
    and s3: "s3 = s1\<lparr>blk_queue := blk_queue s3, buffers := buffers s1, memory_map := memory_map s3\<rparr>"
    using assms(2-4) sm w(3) by auto
  have b2: "s2\<lparr>buffers := buffers s1\<rparr> = s2" using a(1) by (auto simp: set_phy_def split: bind_splits)
  have g: "geometry (rom_blocks s)" "length (memory_map s) = 8192" using wf by (auto simp: pak_wf_def)
  have n1024: "?N \<le> 1024" using pak_wf_facts(1) [OF wf] .
  have "memory_map s3 ! (0x1000 + p) = Some p" if "p < Suc k" for p
  proof (cases "p = k")
    case False
    then have p: "p < k" using that by simp
    have s2m: "memory_map s2 = memory_map s" using a(1) sm(1) by (auto simp: set_phy_def split: bind_splits)
    obtain mm where mm: "s3 = s2\<lparr>memory_map := mm\<rparr>"
      "\<And>m. mm ! m = (if window (rom_blocks s) m \<and> m mod rom_blocks s = k then Some k else memory_map s2 ! m)"
      using map_rom_entry_effect [OF g(1) assms(3), of s2 "Some k"] g(2) a(2) sm(3) s2m unfolding b2 by auto
    have "(0x1000 + p) mod rom_blocks s = p mod rom_blocks s"
      using mod_sub_base [of "rom_blocks s" "0x1000" "0x1000 + p"] dvd_trans [OF geometry_facts(2) [OF g(1)], of "0x1000"] by simp
    then have "(0x1000 + p) mod rom_blocks s \<noteq> k" using p assms(3) by simp
    then show ?thesis using mm mapped p s2m by simp
  qed (use w3(3) in simp)
  moreover have "\<forall>e. Suc k \<le> e \<and> e < ?N \<longrightarrow> phy_rom (blk_queue s3 ! e) = -1"
    using w3(4) s1(3) un n1024 by auto
  moreover have "lru_list ([Suc k..<?N] @ [0..<Suc k]) s3" using w3(5) s1(2) by blast
  ultimately have "loading file (Suc k) s3"
    using w3(1,2) sm(2) assms(2) by (simp add: loading_def)
  moreover have "rom_blocks s3 = rom_blocks s" "file_blocks s3 = file_blocks s"
    using sm by (subst s3, simp add: rom_blocks_def)+
  ultimately show ?thesis using ev a w3(2) sm b2 by auto
qed

lemma load_chunk_wf:
  assumes "loading file k s" "m \<le> length (buffers s)" "k \<le> m" "k \<le> rom_blocks s" "file_blocks s = rom_blocks s"
    and "\<forall>e. k \<le> e \<and> e < m \<longrightarrow> shows_page file e (buffers s ! e)"
  shows "\<exists>s'. load_chunk [k..<m] (rom_blocks s) s = Some s' \<and> loading file (min m (rom_blocks s)) s'
     \<and> buffers s' = buffers s \<and> rom_blocks s' = rom_blocks s \<and> file_blocks s' = file_blocks s"
  using assms
proof (induction "m - k" arbitrary: k s)
  case 0
  then show ?case by (simp add: min_absorb1)
next
  case (Suc d)
  then have km: "k < m" and up: "[k..<m] = k # [Suc k..<m]" by (simp_all add: upt_conv_Cons)
  show ?case
  proof (cases "k < rom_blocks s")
    case False
    then have "k = rom_blocks s" using Suc.prems(4) by simp
    then show ?thesis using Suc.prems km up by simp
  next
    case True
    from load_chunk_step [OF Suc.prems(1) _ True] Suc.prems km obtain s1 s2 s3 where
      st: "evict_gamepak_page 1 s = Some (k, s1)" "set_phy k (int k) s1 = Some s2"
        "map_rom_entry k (Some k) (rom_blocks s) s2 = Some s3" "loading file (Suc k) s3" "buffers s3 = buffers s"
        "rom_blocks s3 = rom_blocks s" "file_blocks s3 = file_blocks s" by force
    have "d = m - Suc k" using Suc.hyps(2) by simp
    from Suc.hyps(1) [OF this st(4)] Suc.prems km True st(5,6,7) obtain s' where
      "load_chunk [Suc k..<m] (rom_blocks s) s3 = Some s'" "loading file (min m (rom_blocks s)) s'"
      "buffers s' = buffers s" "rom_blocks s' = rom_blocks s" "file_blocks s' = file_blocks s" by auto
    then show ?thesis using up st(1,2,3) True Suc.prems(5) by auto
  qed
qed

lemma read_chunk_wf:
  assumes "loading file (i * 32) s" "i * 32 + 32 \<le> length (buffers s)"
  shows "\<exists>s'. read_chunk file i s = Some s' \<and> loading file (i * 32) s' \<and> length (buffers s') = length (buffers s)
     \<and> rom_blocks s' = rom_blocks s \<and> file_blocks s' = file_blocks s
     \<and> (\<forall>e. i * 32 \<le> e \<and> e < i * 32 + 32 \<longrightarrow> shows_page file e (buffers s' ! e))"
proof -
  let ?src = "map (\<lambda>j. file_block file (i * 32 + j)) [0..<32]"
  let ?b = "take (i * 32) (buffers s) @ ?src @ drop (i * 32 + 32) (buffers s)"
  have r: "read_chunk file i s = Some (s\<lparr>buffers := ?b\<rparr>)"
    using assms(2) by (simp add: read_chunk_def arr_blit_def)
  have l: "length ?b = length (buffers s)" using assms(2) by simp
  have new: "?b ! e = file_block file e" if "i * 32 \<le> e" "e < i * 32 + 32" for e
    using that assms(2) by (auto simp: nth_append)
  have old: "?b ! e = buffers s ! e" if "e < i * 32" for e
    using that assms(2) by (simp add: nth_append)
  have wf: "pak_wf file s" using assms(1) by (simp add: loading_def)
  have c: "coherent file s" using wf by (simp add: pak_wf_def)
  have "coherent file (s\<lparr>buffers := ?b\<rparr>)"
    unfolding coherent_def
  proof (intro allI impI)
    fix m x assume "0x1000 \<le> m \<and> m < 0x1C00 \<and> memory_map (s\<lparr>buffers := ?b\<rparr>) ! m = Some x"
    then have m: "0x1000 \<le> m" "m < 0x1C00" "memory_map s ! m = Some x" by simp_all
    then have w: "window (rom_blocks s) m \<and> x < length (buffers s) \<and> phy_rom (blk_queue s ! x) = int (m mod rom_blocks s)
        \<and> shows_page file (m mod rom_blocks s) (buffers s ! x)" using c by (auto simp: coherent_def)
    have "x < i * 32"
    proof (rule ccontr)
      assume "\<not> x < i * 32"
      then have "i * 32 \<le> x" by simp
      then have "phy_rom (blk_queue s ! x) = -1" using assms(1) w unfolding loading_def by blast
      with w show False by simp
    qed
    with w old l show "window (rom_blocks (s\<lparr>buffers := ?b\<rparr>)) m \<and> x < length (buffers (s\<lparr>buffers := ?b\<rparr>))
       \<and> phy_rom (blk_queue (s\<lparr>buffers := ?b\<rparr>) ! x) = int (m mod rom_blocks (s\<lparr>buffers := ?b\<rparr>))
       \<and> shows_page file (m mod rom_blocks (s\<lparr>buffers := ?b\<rparr>)) (buffers (s\<lparr>buffers := ?b\<rparr>) ! x)"
      by (simp add: rom_blocks_def)
  qed
  then have "pak_wf file (s\<lparr>buffers := ?b\<rparr>)"
    using wf l unfolding pak_wf_def lru_list_def by (simp add: rom_blocks_def)
  then have "loading file (i * 32) (s\<lparr>buffers := ?b\<rparr>)"
    using assms(1) l unfolding loading_def lru_list_def by simp
  then show ?thesis
    using r l new file_block_shows by (simp add: rom_blocks_def)
qed

lemma load_chunks_wf:
  assumes "loading file (min (i * 32) (rom_blocks s)) s" "L * 32 \<le> length (buffers s)" "i \<le> L"
    and "file_blocks s = rom_blocks s" "(L - 1) * 32 < rom_blocks s"
  shows "\<exists>s'. load_chunks file [i..<L] (rom_blocks s) s = Some s' \<and> loading file (min (L * 32) (rom_blocks s')) s'
     \<and> rom_blocks s' = rom_blocks s \<and> length (buffers s') = length (buffers s)"
  using assms
proof (induction "L - i" arbitrary: i s)
  case (Suc d)
  then have iL: "i < L" and up: "[i..<L] = i # [Suc i..<L]" by (simp_all add: upt_conv_Cons)
  have "i * 32 \<le> (L - 1) * 32" using iL by simp
  then have ib: "i * 32 < rom_blocks s" using Suc.prems(5) by simp
  have "i * 32 + 32 \<le> L * 32" using iL by simp
  then have room: "i * 32 + 32 \<le> length (buffers s)" using Suc.prems(2) by simp
  from read_chunk_wf [OF _ room] Suc.prems(1) ib obtain s1 where s1: "read_chunk file i s = Some s1"
      "loading file (i * 32) s1" "length (buffers s1) = length (buffers s)" "rom_blocks s1 = rom_blocks s"
      "file_blocks s1 = file_blocks s"
      "\<forall>e. i * 32 \<le> e \<and> e < i * 32 + 32 \<longrightarrow> shows_page file e (buffers s1 ! e)"
    by (auto simp: min_absorb1)
  from load_chunk_wf [OF s1(2), of "i * 32 + 32"] s1 room ib Suc.prems(4) obtain s2 where
    s2: "load_chunk [i * 32..<i * 32 + 32] (rom_blocks s) s1 = Some s2" "loading file (min (Suc i * 32) (rom_blocks s2)) s2"
      "buffers s2 = buffers s1" "rom_blocks s2 = rom_blocks s" "file_blocks s2 = file_blocks s"
    by (auto simp: add.commute)
  have sh: "map (\<lambda>j. i * 32 + j) [0..<32] = [i * 32..<i * 32 + 32]"
    by (simp add: map_add_upt add.commute)
  have "d = L - Suc i" using Suc.hyps(2) by simp
  from Suc.hyps(1) [OF this, of s2] s2 s1(3) iL Suc.prems(2,4,5) obtain s' where
    "load_chunks file [Suc i..<L] (rom_blocks s) s2 = Some s'" "loading file (min (L * 32) (rom_blocks s')) s'"
    "rom_blocks s' = rom_blocks s" "length (buffers s') = length (buffers s)" by auto
  then show ?case using up s1(1) s2(1) sh by (simp del: upt_Suc)
qed simp

text \<open>The state in which a ROM is loaded, and the sizes of file the theorems are about.\<close>

definition pak_blank :: "pak \<Rightarrow> bool" where
  "pak_blank s \<longleftrightarrow> length (sticky_bit s) = 32 \<and> length (memory_map s) = 8192
     \<and> (\<forall>m. 0x1A00 \<le> m \<and> m < 0x1C00 \<longrightarrow> memory_map s ! m = None)"

definition rom_file :: "u8 list \<Rightarrow> bool" where
  "rom_file file \<longleftrightarrow> file \<noteq> [] \<and> length file \<le> 0x2000000 \<and> geometry (round_size (length file) div PAGE)"

lemma chunk_count:
  fixes n c :: nat
  assumes "0 < n"
  shows "(min ((n + 31) div 32) c - 1) * 32 < n" "min (min ((n + 31) div 32) c * 32) n = min n (32 * c)"
proof -
  define k where "k = (n + 31) div 32"
  have k: "k * 32 \<le> n + 31" "n \<le> k * 32" "0 < k" unfolding k_def using assms by linarith+
  show "(min ((n + 31) div 32) c - 1) * 32 < n" "min (min ((n + 31) div 32) c * 32) n = min n (32 * c)"
    unfolding k_def [symmetric] using k by (auto simp: min_def)
qed

lemma blank_queue_nth [simp]:
  "length blank_queue = 1024"
  "e < 1024 \<Longrightarrow> blank_queue ! e = \<lparr>next_lru = e + 1, phy_rom = -1\<rparr>"
  by (simp_all only: blank_queue_def length_map length_upt nth_map nth_upt) simp_all

lemma load_raw_wf:
  assumes "rom_file file" "pak_blank s" "1 \<le> count" "count \<le> 32"
  shows "\<exists>s'. load_raw file (init_gamepak_buffer count s) = Some (Inr s') \<and> pak_wf file s'
     \<and> rom_blocks s' = round_size (length file) div PAGE \<and> length (buffers s') = 32 * count
     \<and> (\<forall>p < min (rom_blocks s') (32 * count). memory_map s' ! (0x1000 + p) = Some p)"
proof -
  let ?size = "round_size (length file)" and ?n = "round_size (length file) div PAGE"
  let ?s1 = "unmap_rom ((init_gamepak_buffer count s)\<lparr>file_blocks := ?n, gamepak_size := ?size, mirror_1m := False\<rparr>)"
  let ?L = "min ((?size + 1024 * 1024 - 1) div (1024 * 1024)) count"
  have size: "?size = ?n * PAGE" by (simp add: round_size_def)
  have g: "geometry ?n" and gf: "0 < ?n" "?n \<le> 1024"
    using assms(1) geometry_facts by (auto simp: rom_file_def)
  have rb: "rom_blocks ?s1 = ?n" "file_blocks ?s1 = ?n" "length (buffers ?s1) = 32 * count" "sticky_bit ?s1 = sticky_bit s"
    "buffer_count ?s1 = count" "gamepak_size ?s1 = ?size" "mirror_1m ?s1 = False"
    by (simp_all add: rom_blocks_def unmap_rom_def init_gamepak_buffer_def)
  have L: "(?L - 1) * 32 < ?n" "?L * 32 \<le> 32 * count" "min (?L * 32) ?n = min ?n (32 * count)"
  proof -
    have e: "(?size + 1024 * 1024 - 1) div (1024 * 1024) = (?n + 31) div 32"
    proof -
      have "(n * PAGE + 1024 * 1024 - 1) div (1024 * 1024) = (n + 31) div 32" if "0 < n" for n :: nat
      proof -
        have "n * PAGE + 1024 * 1024 - 1 = (n + 31) * PAGE + (PAGE - 1)" using that by simp
        then have "(n * PAGE + 1024 * 1024 - 1) div PAGE = n + 31" by simp
        moreover have "x div (1024 * 1024) = x div PAGE div 32" for x :: nat by (simp flip: div_mult2_eq)
        ultimately show ?thesis by simp
      qed
      from this [OF gf(1)] size show ?thesis by metis
    qed
    show "(?L - 1) * 32 < ?n" "?L * 32 \<le> 32 * count" "min (?L * 32) ?n = min ?n (32 * count)"
      unfolding e using chunk_count [OF gf(1), of count] by simp_all
  qed
  have q: "blk_queue ?s1 = blank_queue" "lru_head ?s1 = 0"
    "lru_tail ?s1 = 32 * count - 1" by (simp_all add: unmap_rom_def init_gamepak_buffer_def)
  have lru: "lru_list [0..<32 * count] ?s1"
    using assms(3,4) by (auto simp: lru_list_def q)
  have mm: "length (memory_map ?s1) = 8192" "\<And>m. 0x1000 \<le> m \<Longrightarrow> m < 0x1C00 \<Longrightarrow> memory_map ?s1 ! m = None"
    using assms(2) by (auto simp: unmap_rom_def init_gamepak_buffer_def pak_blank_def)
  have "coherent file ?s1" using mm(2) by (auto simp: coherent_def)
  then have "pak_wf file ?s1"
    using lru g gf mm(1) assms(2) rb unfolding pak_wf_def
    by (auto simp: q pak_blank_def intro!: exI [of _ "[0..<32 * count]"])
  then have "loading file (min (0 * 32) (rom_blocks ?s1)) ?s1"
    using lru rb assms(4) by (simp add: loading_def q)
  note ld = this
  have c: "?L * 32 \<le> length (buffers ?s1)" "0 \<le> ?L" "file_blocks ?s1 = rom_blocks ?s1" "(?L - 1) * 32 < rom_blocks ?s1"
    unfolding rb by (rule L(2), rule le0, rule refl, rule L(1))
  from load_chunks_wf [OF ld c] obtain s' where
    s: "load_chunks file [0..<?L] ?n ?s1 = Some s'" "loading file (min (?L * 32) (rom_blocks s')) s'" "rom_blocks s' = ?n"
      "length (buffers s') = 32 * count" unfolding rb by (elim exE conjE)
  have s': "load_chunks file [0..<?L] ?n ?s1 = Some s'" "loading file (min ?n (32 * count)) s'" "rom_blocks s' = ?n"
      "length (buffers s') = 32 * count"
    by (rule s(1), rule s(2) [unfolded s(3) L(3)], rule s(3), rule s(4))
  have "load_raw file (init_gamepak_buffer count s) = Some (Inr s')"
    using assms(1) s'(1) rb unfolding load_raw_def Let_def
    by (simp add: rom_file_def init_gamepak_buffer_def unmap_rom_def del: upt_Suc)
  with s' show ?thesis by (auto simp: loading_def)
qed

section \<open>Every sequence of page loads\<close>

text \<open>
  The states of a running game: a ROM is loaded into \<open>count\<close> buffers of 1 MB, and then pages
  are loaded, touched and released in any order.
\<close>

inductive pak_reach :: "u8 list \<Rightarrow> pak \<Rightarrow> bool" for rom where
  start: "rom_file rom \<Longrightarrow> pak_blank s \<Longrightarrow> 1 \<le> count \<Longrightarrow> count \<le> 32 \<Longrightarrow>
     load_raw rom (init_gamepak_buffer count s) = Some (Inr s') \<Longrightarrow> pak_reach rom s'"
| page: "pak_reach rom s \<Longrightarrow> load_gamepak_page fuel g rom index s = Some (e, s') \<Longrightarrow> pak_reach rom s'"
| touch: "pak_reach rom s \<Longrightarrow> pak_reach rom (touch_gamepak_page index s)"
| clear: "pak_reach rom s \<Longrightarrow> pak_reach rom (clear_gamepak_stickybits s)"

lemma sticky_wf:
  assumes "pak_wf rom s" "length b = 32"
  shows "pak_wf rom (s\<lparr>sticky_bit := b\<rparr>)"
  using assms unfolding pak_wf_def coherent_def lru_list_def rom_blocks_def by auto

lemma pak_reach_wf: "pak_reach rom s \<Longrightarrow> pak_wf rom s"
proof (induction rule: pak_reach.induct)
  case (start s count s')
  from load_raw_wf [OF start(1-4)] start(5) show ?case by auto
next
  case (page s fuel g index e s')
  then show ?case using load_gamepak_page_wf by blast
next
  case (touch s index)
  then show ?case
    unfolding touch_gamepak_page_def Let_def by (intro sticky_wf) (simp_all add: pak_wf_def)
next
  case (clear s)
  then show ?case unfolding clear_gamepak_stickybits_def by (intro sticky_wf) simp_all
qed

lemma sample_rom:
  "rom_file [0]" "pak_blank \<lparr>blk_queue = [], lru_head = 0, lru_tail = 0, sticky_bit = replicate 32 0,
     memory_map = replicate 8192 None, buffers = [], buffer_count = 0, gamepak_size = 0, file_blocks = 0, mirror_1m = False\<rparr>"
  by (simp_all add: rom_file_def round_size_def geometry_def pak_blank_def)

text \<open>C21: a mapped ROM page always shows its part of the ROM file. For ROM sizes that are a power of
  two of at most 16 MB, or 32 MB, and any number of 1 MB buffers from 1 to 32, after any sequence of page
  loads and evictions every entry of the ROM window of the memory map that points to a slot points to one
  that holds the bytes of that page, apart from the six port registers in page 0.\<close>

theorem mapped_pages_coherent:
  assumes "pak_reach rom s" "0x1000 \<le> m" "m < 0x1C00" "memory_map s ! m = Some e"
  shows "e < length (buffers s) \<and> shows_page rom (m mod rom_blocks s) (buffers s ! e)"
  using pak_reach_wf [OF assms(1)] assms(2-4) unfolding pak_wf_def coherent_def by blast

lemma mapped_pages_coherent_witness:
  "\<exists>s. pak_reach [0] s \<and> memory_map s ! 0x1000 = Some 0 \<and>
     0 < length (buffers s) \<and> shows_page [0] (0x1000 mod rom_blocks s) (buffers s ! 0)"
proof -
  from load_raw_wf [OF sample_rom, of 1] obtain s where
    s: "load_raw [0] (init_gamepak_buffer 1 \<lparr>blk_queue = [], lru_head = 0, lru_tail = 0, sticky_bit = replicate 32 0,
     memory_map = replicate 8192 None, buffers = [], buffer_count = 0, gamepak_size = 0, file_blocks = 0, mirror_1m = False\<rparr>)
       = Some (Inr s)"
    and m: "\<forall>p < min (rom_blocks s) (32 * 1). memory_map s ! (0x1000 + p) = Some p"
    and n: "rom_blocks s = round_size (length [0 :: u8]) div PAGE" by auto
  have r: "pak_reach [0] s" by (rule pak_reach.start [OF sample_rom _ _ s]) simp_all
  have "0 < min (rom_blocks s) (32 * 1)" using n by (simp add: round_size_def)
  with m have "memory_map s ! 0x1000 = Some 0" by fastforce
  with mapped_pages_coherent [OF r, of "0x1000" 0] r show ?thesis by auto
qed

text \<open>C22: a page fault is served exactly when some slot may be evicted. The search for a slot
  ends, for some amount of fuel, if and only if some slot holds no sticky page; with every slot
  sticky the loop of the eviction never ends.\<close>

theorem page_load_terminates:
  assumes "pak_reach rom s"
  shows "(\<exists>fuel e s'. load_gamepak_page fuel g rom index s = Some (e, s')) \<longleftrightarrow> (\<exists>e < length (buffers s). \<not> is_sticky e s)"
proof
  note wf = pak_reach_wf [OF assms]
  assume "\<exists>e < length (buffers s). \<not> is_sticky e s"
  then show "\<exists>fuel e s'. load_gamepak_page fuel g rom index s = Some (e, s')"
    using load_gamepak_page_returns [OF wf] by blast
next
  note wf = pak_reach_wf [OF assms]
  obtain q where q: "lru_list q s" "set q = {..< length (buffers s)}" using wf by (auto simp: pak_wf_def)
  assume "\<exists>fuel e s'. load_gamepak_page fuel g rom index s = Some (e, s')"
  then obtain fuel e s' where l: "load_gamepak_page fuel g rom index s = Some (e, s')" by blast
  have "0 < rom_blocks s" using wf geometry_facts(1) by (simp add: pak_wf_def)
  then have "evict_loop fuel s \<noteq> None"
    using l by (auto simp: load_gamepak_page_def evict_gamepak_page_def rom_blocks_def Let_def split: bind_splits)
  then show "\<exists>e < length (buffers s). \<not> is_sticky e s"
    using evict_loop_all_sticky [OF q(1) pak_wf_facts(3) [OF wf], of fuel] q(2) by auto
qed

definition sample_port :: gpio where
  "sample_port = \<lparr>rtc_enabled = True, rumble_enabled = False, gpio_data = 0, gpio_dir = 0, gpio_ctl = 0,
     gpio_rom = None, rtc_state = RTC_DISABLED, rtc_command = 0, rtc_data = 0, rtc_data_bits = 0,
     rtc_status = 0x40, rtc_bit_count = 0, gp_rumble = \<lparr>rumble_enable_tick = 0, rumble_ticks = 0\<rparr>\<rparr>"

lemma sample_reached: "\<exists>s. pak_reach [0] s"
  using load_raw_wf [OF sample_rom, of 1] pak_reach.start [OF sample_rom, of 1] by auto

lemma page_load_terminates_witness:
  "\<exists>s. pak_reach [0] s \<and> ((\<exists>fuel e s'. load_gamepak_page fuel sample_port [0] 0 s = Some (e, s')) \<longleftrightarrow>
     (\<exists>e < length (buffers s). \<not> is_sticky e s))"
  using sample_reached page_load_terminates [of "[0]" _ sample_port 0] by blast

text \<open>The mirrors of a ROM whose size is not a power of two overlap. Mapping the last page of a
  24 MB ROM, 768 pages, also redirects entry 511 of the second mirror, which belongs to page
  511, to the last page.\<close>

lemma odd_rom_mirrors:
  assumes "length (memory_map s) = 8192" "map_rom_entry 767 (Some e) 768 s = Some t"
  shows "memory_map t ! (0x1400 + 511) = Some e"
proof -
  obtain mm1 where m1: "map_rom_low 768 767 (Some e) 0 (memory_map s) = Some mm1" "length mm1 = 8192"
    "\<And>m. mm1 ! m = (if \<exists>k. k < 1024 \<and> 768 dvd k \<and> (m = 0x1000 + 767 + k \<or> m = 0x1400 + 767 + k)
        then Some e else memory_map s ! m)"
    using map_rom_low_effect [of 768 767 "memory_map s" "Some e" 0] assms(1) by auto
  obtain mm2 where m2: "map_rom_high 768 767 (Some e) 0 mm1 = Some mm2"
    "\<And>m. mm2 ! m = (if \<exists>k. k < 512 \<and> 768 dvd k \<and> m = 0x1800 + 767 + k then Some e else mm1 ! m)"
    using map_rom_high_effect [of 768 767 mm1 "Some e" 0] m1(2) by auto
  have "\<exists>k. k < 1024 \<and> 768 dvd k \<and> ((0x1400 + 511 :: nat) = 0x1000 + 767 + k \<or> (0x1400 + 511 :: nat) = 0x1400 + 767 + k)"
    by (rule exI [of _ 768]) simp
  with m1(3) have "mm1 ! (0x1400 + 511) = Some e" by auto
  with m2 have "mm2 ! (0x1400 + 511) = Some e" by auto
  moreover have "t = s\<lparr>memory_map := mm2\<rparr>" using assms(2) m1(1) m2(1) by (simp add: map_rom_entry_def)
  ultimately show ?thesis by simp
qed

lemma odd_rom_mirrors_witness:
  "\<exists>t. map_rom_entry 767 (Some 7) 768 \<lparr>blk_queue = [], lru_head = 0, lru_tail = 0, sticky_bit = [],
     memory_map = replicate 8192 None, buffers = [], buffer_count = 0, gamepak_size = 0, file_blocks = 0, mirror_1m = False\<rparr> = Some t
   \<and> memory_map t ! (0x1400 + 511) = Some 7"
proof -
  let ?s = "\<lparr>blk_queue = [], lru_head = 0, lru_tail = 0, sticky_bit = [],
     memory_map = replicate 8192 None, buffers = [], buffer_count = 0, gamepak_size = 0, file_blocks = 0, mirror_1m = False\<rparr>"
  obtain mm1 where m1: "map_rom_low 768 767 (Some 7) 0 (memory_map ?s) = Some mm1" "length mm1 = 8192"
    using map_rom_low_effect [of 768 767 "memory_map ?s" "Some 7" 0] by auto
  obtain mm2 where "map_rom_high 768 767 (Some 7) 0 mm1 = Some mm2"
    using map_rom_high_effect [of 768 767 mm1 "Some 7" 0] m1(2) by auto
  with m1(1) have r: "map_rom_entry 767 (Some 7) 768 ?s = Some (?s\<lparr>memory_map := mm2\<rparr>)" by (simp add: map_rom_entry_def)
  from odd_rom_mirrors [OF _ r] r show ?thesis by auto
qed

end
