(* ===== verification/Backup.thy ===== *)
theory Backup
  imports GpspPrelude
begin

text \<open>
  The cartridge save memory of \<^verbatim>\<open>gba_memory.c\<close>: 128 KB of bytes that the game sees as
  SRAM, as a flash chip driven by a command protocol, or as a serial EEPROM. \<open>None\<close> is an
  access outside \<^verbatim>\<open>gamepak_backup\<close> or a shift by more than the width of its operand.
\<close>

datatype backup_kind = BACKUP_SRAM | BACKUP_FLASH | BACKUP_EEPROM | BACKUP_UNKN

datatype flash_mode_t =
  FLASH_BASE_MODE | FLASH_ERASE_MODE | FLASH_ID_MODE | FLASH_WRITE_MODE | FLASH_BANKSWITCH_MODE

datatype flash_size_t = FLASH_SIZE_64KB | FLASH_SIZE_128KB

datatype eeprom_mode_t =
  EEPROM_BASE_MODE | EEPROM_READ_MODE | EEPROM_READ_HEADER_MODE | EEPROM_ADDRESS_MODE
| EEPROM_WRITE_MODE | EEPROM_WRITE_ADDRESS_MODE | EEPROM_ADDRESS_FOOTER_MODE
| EEPROM_WRITE_FOOTER_MODE

datatype eeprom_size_t = EEPROM_512_BYTE | EEPROM_8_KBYTE

abbreviation (input) FLASH_DEVICE_PANASONIC_64KB :: u8 where "FLASH_DEVICE_PANASONIC_64KB \<equiv> 0x1B"
abbreviation (input) FLASH_DEVICE_MACRONIX_128KB :: u8 where "FLASH_DEVICE_MACRONIX_128KB \<equiv> 0x09"
abbreviation (input) FLASH_DEVICE_SANYO_128KB :: u8 where "FLASH_DEVICE_SANYO_128KB \<equiv> 0x13"
abbreviation (input) FLASH_MANUFACTURER_MACRONIX :: u8 where "FLASH_MANUFACTURER_MACRONIX \<equiv> 0xC2"
abbreviation (input) FLASH_MANUFACTURER_PANASONIC :: u8 where "FLASH_MANUFACTURER_PANASONIC \<equiv> 0x32"
abbreviation (input) FLASH_MANUFACTURER_SANYO :: u8 where "FLASH_MANUFACTURER_SANYO \<equiv> 0x62"

abbreviation (input) BACKUP_SIZE :: nat where "BACKUP_SIZE \<equiv> 131072"

record backup =
  backup_type :: backup_kind
  flash_mode :: flash_mode_t
  flash_command_position :: nat
  flash_bank_num :: u32
  flash_bank_cnt :: flash_size_t
  flash_device_id :: u8
  eeprom_size :: eeprom_size_t
  eeprom_mode :: eeprom_mode_t
  eeprom_address :: u32
  eeprom_counter :: nat
  gamepak_backup :: "u8 list"

section \<open>SRAM and flash\<close>

definition full_address :: "u32 \<Rightarrow> backup \<Rightarrow> nat" where
  "full_address address s = unat (address + 64 * 1024 * flash_bank_num s)"

text \<open>The chip identification shown at the first two addresses.\<close>

definition flash_id :: "u32 \<Rightarrow> backup \<Rightarrow> u8" where
  "flash_id address s =
     (if flash_bank_cnt s = FLASH_SIZE_128KB then
        (if address = 0 then
           (if flash_device_id s = FLASH_DEVICE_SANYO_128KB then FLASH_MANUFACTURER_SANYO
            else FLASH_MANUFACTURER_MACRONIX)
         else if address = 1 then
           (if flash_device_id s = FLASH_DEVICE_SANYO_128KB then FLASH_DEVICE_SANYO_128KB
            else FLASH_DEVICE_MACRONIX_128KB)
         else 0)
      else if address = 0 then FLASH_MANUFACTURER_PANASONIC
      else if address = 1 then FLASH_DEVICE_PANASONIC_64KB
      else 0)"

definition settle_type :: "backup \<Rightarrow> backup" where
  "settle_type s = (if backup_type s = BACKUP_UNKN then s\<lparr>backup_type := BACKUP_SRAM\<rparr> else s)"

definition read_backup :: "u32 \<Rightarrow> backup \<Rightarrow> (u8 \<times> backup) option" where
  "read_backup address s =
     (if backup_type s = BACKUP_EEPROM then Some (0xff, s)
      else (let s = settle_type s in
        if backup_type s = BACKUP_SRAM
        then map_option (\<lambda>v. (v, s)) (arr_get (gamepak_backup s) (unat address))
        else if flash_mode s = FLASH_ID_MODE then Some (flash_id address s, s)
        else map_option (\<lambda>v. (v, s)) (arr_get (gamepak_backup s) (full_address address s))))"

definition fill_backup :: "nat \<Rightarrow> nat \<Rightarrow> backup \<Rightarrow> backup option" where
  "fill_backup off n s = do {
     b \<leftarrow> arr_blit (gamepak_backup s) off (replicate n 0xFF);
     Some (s\<lparr>gamepak_backup := b\<rparr>) }"

definition store_backup :: "nat \<Rightarrow> u32 \<Rightarrow> backup \<Rightarrow> backup option" where
  "store_backup i value s = do {
     b \<leftarrow> arr_set (gamepak_backup s) i (ucast value);
     Some (s\<lparr>gamepak_backup := b\<rparr>) }"

text \<open>The third write of a command sequence, \<^verbatim>\<open>switch(value)\<close>.\<close>

definition flash_command :: "u32 \<Rightarrow> backup \<Rightarrow> backup option" where
  "flash_command value s =
     (if value = 0x90 then
        Some (if flash_mode s = FLASH_BASE_MODE then s\<lparr>flash_mode := FLASH_ID_MODE\<rparr> else s)
      else if value = 0x80 then
        Some (if flash_mode s = FLASH_BASE_MODE then s\<lparr>flash_mode := FLASH_ERASE_MODE\<rparr> else s)
      else if value = 0xF0 then
        Some (if flash_mode s = FLASH_ID_MODE then s\<lparr>flash_mode := FLASH_BASE_MODE\<rparr> else s)
      else if value = 0xA0 then
        Some (if flash_mode s = FLASH_BASE_MODE then s\<lparr>flash_mode := FLASH_WRITE_MODE\<rparr> else s)
      else if value = 0xB0 then
        (let s = s\<lparr>flash_bank_cnt := FLASH_SIZE_128KB\<rparr> in
         Some (if flash_mode s = FLASH_BASE_MODE then s\<lparr>flash_mode := FLASH_BANKSWITCH_MODE\<rparr> else s))
      else if value = 0x10 then
        (if flash_mode s = FLASH_ERASE_MODE then
           map_option (\<lambda>s. s\<lparr>flash_mode := FLASH_BASE_MODE\<rparr>) (fill_backup 0 BACKUP_SIZE s)
         else Some s)
      else Some s)"

text \<open>A write to 0x5555 outside the programming mode.\<close>

definition write_5555 :: "u32 \<Rightarrow> backup \<Rightarrow> backup option" where
  "write_5555 value s = do {
     let s = (if flash_command_position s = 0 \<and> value = 0xAA
              then s\<lparr>backup_type := BACKUP_FLASH, flash_command_position := 1\<rparr> else s);
     s \<leftarrow> (if flash_command_position s = 2
          then map_option (\<lambda>s. s\<lparr>flash_command_position := 0\<rparr>) (flash_command value s)
          else Some s);
     if backup_type s = BACKUP_SRAM then store_backup 0x5555 value s else Some s }"

definition write_backup :: "u32 \<Rightarrow> u32 \<Rightarrow> backup \<Rightarrow> backup option" where
  "write_backup address val s =
     (let value = val AND 0xFF in
      if backup_type s = BACKUP_EEPROM then Some s
      else (let s = settle_type s in
        if address = 0x5555 \<and> flash_mode s \<noteq> FLASH_WRITE_MODE then write_5555 value s
        else if address = 0x2AAA \<and> value = 0x55 \<and> flash_command_position s = 1
        then Some (s\<lparr>flash_command_position := 2\<rparr>)
        else if flash_command_position s = 2 \<and> flash_mode s = FLASH_ERASE_MODE \<and> value = 0x30
        then map_option (\<lambda>s. s\<lparr>flash_mode := FLASH_BASE_MODE, flash_command_position := 0\<rparr>)
               (fill_backup (full_address (address AND 0xF000) s) 4096 s)
        else if flash_command_position s = 0 \<and> flash_mode s = FLASH_BANKSWITCH_MODE
                \<and> address = 0 \<and> flash_bank_cnt s = FLASH_SIZE_128KB
        then Some (s\<lparr>flash_bank_num := value AND 1, flash_mode := FLASH_BASE_MODE\<rparr>)
        else if flash_command_position s = 0 \<and> flash_mode s = FLASH_WRITE_MODE
        then map_option (\<lambda>s. s\<lparr>flash_mode := FLASH_BASE_MODE\<rparr>)
               (store_backup (full_address address s) value s)
        else if backup_type s = BACKUP_SRAM then store_backup (unat address) value s
        else Some s))"

section \<open>EEPROM\<close>

definition eeprom_bits :: "eeprom_size_t \<Rightarrow> nat" where
  "eeprom_bits z = (if z = EEPROM_512_BYTE then 6 else 14)"

text \<open>The two command bits.\<close>

definition eeprom_command :: "u32 \<Rightarrow> backup \<Rightarrow> backup option" where
  "eeprom_command value s =
     (if 1 < eeprom_counter s then None
      else (let s = s\<lparr>backup_type := BACKUP_EEPROM,
                      eeprom_address := eeprom_address s OR push_bit (1 - eeprom_counter s) (value AND 1),
                      eeprom_counter := eeprom_counter s + 1\<rparr> in
        Some (if eeprom_counter s = 2 then
                s\<lparr>eeprom_mode := (if eeprom_address s AND 3 = 2 then EEPROM_WRITE_ADDRESS_MODE
                                  else if eeprom_address s AND 3 = 3 then EEPROM_ADDRESS_MODE
                                  else eeprom_mode s),
                  eeprom_counter := 0, eeprom_address := 0\<rparr>
              else s)))"

text \<open>The address bits; a write clears the block it addresses.\<close>

definition eeprom_addressing :: "u32 \<Rightarrow> backup \<Rightarrow> backup option" where
  "eeprom_addressing value s =
     (let s = s\<lparr>eeprom_address := eeprom_address s OR push_bit (15 - eeprom_counter s mod 16) (value AND 1),
                eeprom_counter := eeprom_counter s + 1\<rparr> in
      if eeprom_counter s = eeprom_bits (eeprom_size s) then
        (let s = s\<lparr>eeprom_counter := 0,
                   eeprom_address := push_bit 3 (drop_bit (if eeprom_size s = EEPROM_512_BYTE then 10 else 2)
                                                  (eeprom_address s))\<rparr> in
         if eeprom_mode s = EEPROM_ADDRESS_MODE then Some (s\<lparr>eeprom_mode := EEPROM_ADDRESS_FOOTER_MODE\<rparr>)
         else do {
           b \<leftarrow> arr_blit (gamepak_backup s) (unat (eeprom_address s)) (replicate 8 0);
           Some (s\<lparr>eeprom_mode := EEPROM_WRITE_MODE, gamepak_backup := b\<rparr>) })
      else Some s)"

definition eeprom_index :: "backup \<Rightarrow> nat" where
  "eeprom_index s = unat (eeprom_address s + of_nat (eeprom_counter s div 8))"

definition eeprom_store_bit :: "u32 \<Rightarrow> backup \<Rightarrow> backup option" where
  "eeprom_store_bit value s = do {
     x \<leftarrow> arr_get (gamepak_backup s) (eeprom_index s);
     b \<leftarrow> arr_set (gamepak_backup s) (eeprom_index s)
            (x OR push_bit (7 - eeprom_counter s mod 8) (ucast (value AND 1)));
     let s = s\<lparr>gamepak_backup := b, eeprom_counter := eeprom_counter s + 1\<rparr>;
     Some (if eeprom_counter s = 64
           then s\<lparr>eeprom_counter := 0, eeprom_mode := EEPROM_WRITE_FOOTER_MODE\<rparr> else s) }"

definition write_eeprom :: "u32 \<Rightarrow> backup \<Rightarrow> backup option" where
  "write_eeprom value s =
     (case eeprom_mode s of
        EEPROM_BASE_MODE \<Rightarrow> eeprom_command value s
      | EEPROM_ADDRESS_MODE \<Rightarrow> eeprom_addressing value s
      | EEPROM_WRITE_ADDRESS_MODE \<Rightarrow> eeprom_addressing value s
      | EEPROM_WRITE_MODE \<Rightarrow> eeprom_store_bit value s
      | EEPROM_ADDRESS_FOOTER_MODE \<Rightarrow> Some (s\<lparr>eeprom_counter := 0, eeprom_mode := EEPROM_READ_HEADER_MODE\<rparr>)
      | EEPROM_WRITE_FOOTER_MODE \<Rightarrow> Some (s\<lparr>eeprom_counter := 0, eeprom_mode := EEPROM_BASE_MODE\<rparr>)
      | _ \<Rightarrow> Some s)"

definition read_eeprom :: "backup \<Rightarrow> (u32 \<times> backup) option" where
  "read_eeprom s =
     (case eeprom_mode s of
        EEPROM_BASE_MODE \<Rightarrow> Some (1, s)
      | EEPROM_READ_MODE \<Rightarrow> do {
          x \<leftarrow> arr_get (gamepak_backup s) (eeprom_index s);
          let value = ucast (drop_bit (7 - eeprom_counter s mod 8) x) AND 1;
          let s = s\<lparr>eeprom_counter := eeprom_counter s + 1\<rparr>;
          Some (value, if eeprom_counter s = 64
                       then s\<lparr>eeprom_counter := 0, eeprom_mode := EEPROM_BASE_MODE\<rparr> else s) }
      | EEPROM_READ_HEADER_MODE \<Rightarrow>
          (let s = s\<lparr>eeprom_counter := eeprom_counter s + 1\<rparr> in
           Some (0, if eeprom_counter s = 4
                    then s\<lparr>eeprom_mode := EEPROM_READ_MODE, eeprom_counter := 0\<rparr> else s))
      | _ \<Rightarrow> Some (0, s))"

text \<open>What a transfer of channel 3 to the EEPROM says about its size.\<close>

definition detect_eeprom_size :: "u32 \<Rightarrow> u32 \<Rightarrow> u16 \<Rightarrow> backup \<Rightarrow> backup" where
  "detect_eeprom_size dma_number dst_address len s =
     (if dma_number = 3 \<and> drop_bit 24 dst_address = 0x0D \<and> len AND 0x1F = 17
      then s\<lparr>eeprom_size := EEPROM_8_KBYTE\<rparr> else s)"

text \<open>The part of \<^verbatim>\<open>init_memory\<close> about the save memory.\<close>

definition backup_reset :: "backup_kind \<Rightarrow> backup \<Rightarrow> backup" where
  "backup_reset backup_type_reset s =
     s\<lparr>backup_type := backup_type_reset, flash_bank_num := 0, flash_command_position := 0,
       eeprom_size := EEPROM_512_BYTE, eeprom_mode := EEPROM_BASE_MODE, eeprom_address := 0,
       eeprom_counter := 0, flash_mode := FLASH_BASE_MODE\<rparr>"

end
