(* ===== verification/Cheats.thy ===== *)
theory Cheats
  imports GpspPrelude "HOL-Library.Char_ord"
begin

text \<open>
  The cheat list of \<^verbatim>\<open>cheats.c\<close>: parsing Code Breaker codes and switching cheats on and off.
  \<^verbatim>\<open>sscanf\<close> is the one of the C library on its documented behaviour: \<^verbatim>\<open>"%08x %04hx"\<close> skips blanks
  and reads at most eight, then at most four hexadecimal digits. What the codes do to the
  machine is in theory \<open>GbaRun\<close>.
\<close>

abbreviation (input) MAX_CHEATS :: nat where "MAX_CHEATS \<equiv> 20"
abbreviation (input) MAX_CHEAT_CODES :: nat where "MAX_CHEAT_CODES \<equiv> 64"

record cheat =
  cheat_active :: bool
  cheat_codes :: "(u32 \<times> u32) list"
  cheat_count :: nat

record cheat_list =
  cheats :: "cheat list"
  max_cheat :: nat
  cheat_master_hook :: u32

datatype cheat_error =
  CheatNoError | CheatErrorTooMany | CheatErrorTooBig | CheatErrorEncrypted | CheatErrorNotSupported

section \<open>Scanning\<close>

definition hex_digit :: "char \<Rightarrow> nat option" where
  "hex_digit c =
     (let n = of_char c :: nat in
      if 48 \<le> n \<and> n \<le> 57 then Some (n - 48)
      else if 97 \<le> n \<and> n \<le> 102 then Some (n - 87)
      else if 65 \<le> n \<and> n \<le> 70 then Some (n - 55)
      else None)"

definition clean_code :: "string \<Rightarrow> string" where
  "clean_code code = map (\<lambda>c. if hex_digit c = None then CHR '' '' else c) code"

definition skip_blanks :: "string \<Rightarrow> string" where
  "skip_blanks = dropWhile (\<lambda>c. c = CHR '' '')"

text \<open>At most \<open>n\<close> digits added to the value \<open>acc\<close>.\<close>

fun scan_digits :: "nat \<Rightarrow> nat \<Rightarrow> string \<Rightarrow> nat \<times> string" where
  "scan_digits 0 acc cs = (acc, cs)"
| "scan_digits (Suc n) acc [] = (acc, [])"
| "scan_digits (Suc n) acc (c # cs) =
     (case hex_digit c of None \<Rightarrow> (acc, c # cs) | Some d \<Rightarrow> scan_digits n (16 * acc + d) cs)"

definition scan_hex :: "nat \<Rightarrow> string \<Rightarrow> (nat \<times> string) option" where
  "scan_hex n cs =
     (case skip_blanks cs of
        [] \<Rightarrow> None
      | c # r \<Rightarrow> if hex_digit c = None then None else Some (scan_digits n 0 (c # r)))"

definition scan_code :: "string \<Rightarrow> (u32 \<times> u32) option" where
  "scan_code cs = do {
     (a, cs) \<leftarrow> scan_hex 8 cs;
     (v, _) \<leftarrow> scan_hex 4 cs;
     Some (of_nat a, of_nat v) }"

section \<open>Parsing\<close>

text \<open>
  The scan position after a code: 13 characters on, then over the blanks. It may be past the
  end of the text.
\<close>

definition next_code :: "string \<Rightarrow> nat \<Rightarrow> nat" where
  "next_code buf pos =
     (let pos = pos + 13 in
      if length buf \<le> pos then pos else pos + length (takeWhile (\<lambda>c. c = CHR '' '') (drop pos buf)))"

lemma next_code_gt: "pos < next_code buf pos"
  by (simp add: next_code_def Let_def)

function parse_codes :: "string \<Rightarrow> nat \<Rightarrow> nat \<Rightarrow> (u32 \<times> u32) list \<Rightarrow> (nat \<times> nat \<times> (u32 \<times> u32) list) option" where
  "parse_codes buf pos n codes =
     (if length buf \<le> pos then Some (pos, n, codes)
      else case scan_code (drop pos buf) of
        None \<Rightarrow> Some (pos, n, codes)
      | Some code \<Rightarrow> do {
          codes \<leftarrow> arr_set codes n code;
          if MAX_CHEAT_CODES \<le> n + 1 then Some (next_code buf pos, n + 1, codes)
          else parse_codes buf (next_code buf pos) (n + 1) codes })"
  by pat_completeness auto

termination
  by (relation "measure (\<lambda>(buf, pos, n, codes). length buf - pos)") (auto intro: diff_less_mono2 next_code_gt)

definition active_codes :: "cheat \<Rightarrow> (u32 \<times> u32) list" where
  "active_codes c = take (cheat_count c) (cheat_codes c)"

definition has_encrypted_codebreaker :: "cheat \<Rightarrow> bool" where
  "has_encrypted_codebreaker c = list_ex (\<lambda>(a, v). drop_bit 28 a = 9) (active_codes c)"

text \<open>The first master code sets the hook.\<close>

fun find_hook :: "(u32 \<times> u32) list \<Rightarrow> u32 option" where
  "find_hook [] = None"
| "find_hook ((a, v) # cs) =
     (if drop_bit 28 a = 1 then Some (0x08000000 OR (a AND 0xFFFFFFF AND 0x1FFFFFF)) else find_hook cs)"

definition update_hook_codebreaker :: "cheat \<Rightarrow> cheat_list \<Rightarrow> cheat_list" where
  "update_hook_codebreaker c s =
     (case find_hook (active_codes c) of None \<Rightarrow> s | Some h \<Rightarrow> s\<lparr>cheat_master_hook := h\<rparr>)"

text \<open>The whole buffer has 1024 characters with the final zero.\<close>

definition cheat_parse :: "nat \<Rightarrow> string \<Rightarrow> cheat_list \<Rightarrow> (cheat_error \<times> cheat_list) option" where
  "cheat_parse index code s =
     (if MAX_CHEATS \<le> index then Some (CheatErrorTooMany, s)
      else if 1024 \<le> length code then Some (CheatErrorTooBig, s)
      else do {
        c \<leftarrow> arr_get (cheats s) index;
        let buf = clean_code code;
        (pos, n, codes) \<leftarrow> parse_codes buf 0 0 (cheat_codes c);
        let c = c\<lparr>cheat_count := n, cheat_codes := codes\<rparr>;
        let s = s\<lparr>cheats := (cheats s)[index := c], max_cheat := max (max_cheat s) index\<rparr>;
        Some (if length code \<le> pos then
                (if has_encrypted_codebreaker c then (CheatErrorEncrypted, s)
                 else (let c = c\<lparr>cheat_active := True\<rparr>
                       in (CheatNoError, update_hook_codebreaker c (s\<lparr>cheats := (cheats s)[index := c]\<rparr>))))
              else (CheatErrorNotSupported, s)) })"

definition cheat_clear :: "cheat_list \<Rightarrow> cheat_list" where
  "cheat_clear s =
     s\<lparr>cheats := map (\<lambda>c. c\<lparr>cheat_count := 0, cheat_active := False\<rparr>) (cheats s), max_cheat := 0,
       cheat_master_hook := 0xFFFFFFFF\<rparr>"

definition cheat_disable :: "nat \<Rightarrow> cheat_list \<Rightarrow> cheat_list option" where
  "cheat_disable index s =
     (if MAX_CHEATS \<le> index then Some s
      else do { c \<leftarrow> arr_get (cheats s) index;
                Some (s\<lparr>cheats := (cheats s)[index := c\<lparr>cheat_active := False\<rparr>]\<rparr>) })"

end
