(* ===== verification/VideoPixel.thy ===== *)
theory VideoPixel
  imports GpspPrelude
begin

text \<open>
  Pixels of a scan line (\<^verbatim>\<open>video.cc\<close>): the static state of the renderer, the ways a pixel is
  written into a line, and the predicate \<open>draws\<close>, which says that a drawing operation runs
  without an access outside its arrays and changes only an interval of the line. The template
  parameter for the element of a line is the type variable of the lists; the one for the kind of
  rendering is the type \<open>rendtype\<close>. A pointer into a palette is the function from indices to
  colours, undefined past the end of the array.
\<close>

datatype rendtype = FULLCOLOR | INDXCOLOR | STCKCOLOR | PIXCOPY

text \<open>
  \<open>stack_line\<close> is what the stack holds where the effects put their buffer of one line; nothing
  is known of it. \<open>obj_priority_list p r\<close> holds the first \<^verbatim>\<open>obj_priority_count[p][r]\<close> entries of the array of the
  same name; the others are never read.
\<close>

record video =
  gba_screen_pixels :: "u16 list"
  skip_next_frame :: u32
  sprite_limit :: bool
  stack_line :: "u32 list"
  obj_priority_list :: "nat \<Rightarrow> nat \<Rightarrow> nat list"
  obj_alpha_count :: "nat \<Rightarrow> nat"

definition GBA_SCREEN_PITCH :: nat where "GBA_SCREEN_PITCH = 240"

type_synonym 'a line = "'a word list"
type_synonym 'a draw = "'a word list \<Rightarrow> 'a word list option"
type_synonym palette = "nat \<Rightarrow> u16 option"

definition convert_palette :: "u16 \<Rightarrow> u16" where
  "convert_palette v = push_bit 11 (v AND 0x1F) OR push_bit 1 (v AND 0x03E0) OR (drop_bit 10 v AND 0x1F)"

section \<open>Loops\<close>

primrec foldo :: "('b \<Rightarrow> 's \<Rightarrow> 's option) \<Rightarrow> 'b list \<Rightarrow> 's \<Rightarrow> 's option" where
  "foldo f [] s = Some s"
| "foldo f (x # xs) s = do { s \<leftarrow> f x s; foldo f xs s }"

lemma foldo_append [simp]: "foldo f (xs @ ys) s = do { t \<leftarrow> foldo f xs s; foldo f ys t }"
  by (induction xs arbitrary: s) (auto simp: bind_eq_Some_conv split: bind_splits)

lemma foldo_cong [fundef_cong]:
  "xs = ys \<Longrightarrow> s = t \<Longrightarrow> (\<And>x u. x \<in> set ys \<Longrightarrow> f x u = g x u) \<Longrightarrow> foldo f xs s = foldo g ys t"
  by (induction xs arbitrary: ys s t) auto

section \<open>Writing a pixel\<close>

text \<open>
  A background pixel: colour 0 is transparent, or the backdrop in the lowest layer. \<open>attr\<close> are
  the flags kept with an index, \<open>sub\<close> the start of the palette of the tile.
\<close>

definition rend_pix ::
  "rendtype \<Rightarrow> bool \<Rightarrow> palette \<Rightarrow> u32 \<Rightarrow> u32 \<Rightarrow> nat \<Rightarrow> u8 \<Rightarrow> nat \<Rightarrow> 'a::len draw" where
  "rend_pix rd isbase pal bg_comb attr sub pval d buf =
     (if pval \<noteq> 0
      then (case rd of
              FULLCOLOR \<Rightarrow> do { c \<leftarrow> pal (sub + unat pval); arr_set buf d (ucast c) }
            | INDXCOLOR \<Rightarrow> arr_set buf d (ucast (ucast pval OR attr))
            | STCKCOLOR \<Rightarrow> do {
                under \<leftarrow> (if isbase then Some bg_comb else map_option ucast (arr_get buf d));
                arr_set buf d (ucast (ucast pval OR attr OR push_bit 16 under)) }
            | PIXCOPY \<Rightarrow> Some buf)
      else if isbase
      then (if rd = FULLCOLOR then do { c \<leftarrow> pal 0; arr_set buf d (ucast c) } else arr_set buf d (ucast bg_comb))
      else Some buf)"

definition render_bdrop_pixel_8bpp :: "rendtype \<Rightarrow> u32 \<Rightarrow> u16 \<Rightarrow> nat \<Rightarrow> 'a::len draw" where
  "render_bdrop_pixel_8bpp rd bg_comb bgcol d buf =
     (if rd = FULLCOLOR then arr_set buf d (ucast bgcol) else arr_set buf d (ucast bg_comb))"

text \<open>A pixel of a bitmap: in mode 4 an index into the palette, otherwise a colour.\<close>

definition bitmap_pixel_write ::
  "rendtype \<Rightarrow> nat \<Rightarrow> palette \<Rightarrow> u32 \<Rightarrow> u16 \<Rightarrow> nat \<Rightarrow> 'a::len draw" where
  "bitmap_pixel_write rd mode pal px_attr val d buf =
     (if mode \<noteq> 4 then arr_set buf d (ucast (convert_palette val))
      else if val \<noteq> 0
      then (case rd of
              FULLCOLOR \<Rightarrow> do { c \<leftarrow> pal (unat val); arr_set buf d (ucast c) }
            | INDXCOLOR \<Rightarrow> arr_set buf d (ucast (ucast val OR px_attr))
            | STCKCOLOR \<Rightarrow> do {
                old \<leftarrow> arr_get buf d;
                arr_set buf d (ucast (ucast val OR px_attr OR push_bit 16 (ucast old :: u32))) }
            | PIXCOPY \<Rightarrow> Some buf)
      else Some buf)"

text \<open>
  A pixel of an object. An object replaces an object below it and stacks on a background. In the
  copying mode the pixel one line further down is taken.
\<close>

definition obj_pix :: "rendtype \<Rightarrow> palette \<Rightarrow> u32 \<Rightarrow> nat \<Rightarrow> u8 \<Rightarrow> nat \<Rightarrow> 'a::len draw" where
  "obj_pix rd pal px_attr ci pval d buf =
     (if pval \<noteq> 0
      then (case rd of
              FULLCOLOR \<Rightarrow> do { c \<leftarrow> pal ci; arr_set buf d (ucast c) }
            | INDXCOLOR \<Rightarrow> arr_set buf d (ucast (ucast pval OR px_attr))
            | STCKCOLOR \<Rightarrow> do {
                old \<leftarrow> map_option ucast (arr_get buf d);
                arr_set buf d (ucast (ucast pval OR px_attr OR
                  (if old AND 0x100 \<noteq> (0 :: u32) then old AND 0xFFFF0000 else push_bit 16 old))) }
            | PIXCOPY \<Rightarrow> do { c \<leftarrow> arr_get buf (d + 240); arr_set buf d c })
      else Some buf)"

section \<open>Drawing an interval\<close>

definition same_outside :: "nat \<Rightarrow> nat \<Rightarrow> 'a list \<Rightarrow> 'a list \<Rightarrow> bool" where
  "same_outside lo hi b c \<longleftrightarrow> length c = length b \<and> (\<forall>i < length b. i < lo \<or> hi \<le> i \<longrightarrow> c ! i = b ! i)"

text \<open>\<open>n\<close> is the number of elements the line must have at least.\<close>

definition draws :: "nat \<Rightarrow> nat \<Rightarrow> nat \<Rightarrow> ('a list \<Rightarrow> 'a list option) \<Rightarrow> bool" where
  "draws n lo hi f \<longleftrightarrow> (\<forall>b. n \<le> length b \<longrightarrow> (\<exists>c. f b = Some c \<and> same_outside lo hi b c))"

named_theorems draw_rules "drawing operations stay in their interval"

lemma same_outside_refl [simp]: "same_outside lo hi b b"
  by (simp add: same_outside_def)

lemma same_outside_length: "same_outside lo hi b c \<Longrightarrow> length c = length b"
  by (simp add: same_outside_def)

lemma same_outside_trans: "same_outside lo hi b c \<Longrightarrow> same_outside lo hi c d \<Longrightarrow> same_outside lo hi b d"
  by (simp add: same_outside_def)

lemma same_outside_mono: "same_outside lo hi b c \<Longrightarrow> lo' \<le> lo \<Longrightarrow> hi \<le> hi' \<Longrightarrow> same_outside lo' hi' b c"
  by (auto simp: same_outside_def)

lemma drawsI:
  "(\<And>b. n \<le> length b \<Longrightarrow> \<exists>c. f b = Some c \<and> same_outside lo hi b c) \<Longrightarrow> draws n lo hi f"
  by (simp add: draws_def)

lemma drawsD: "draws n lo hi f \<Longrightarrow> n \<le> length b \<Longrightarrow> \<exists>c. f b = Some c \<and> same_outside lo hi b c"
  by (simp add: draws_def)

lemma draws_mono: "draws n lo hi f \<Longrightarrow> n \<le> m \<Longrightarrow> lo' \<le> lo \<Longrightarrow> hi \<le> hi' \<Longrightarrow> draws m lo' hi' f"
  unfolding draws_def by (meson le_trans same_outside_mono)

lemma draws_Some [draw_rules]: "draws n lo hi Some"
  by (simp add: draws_def)

lemma draws_bind [draw_rules]:
  "draws n lo hi f \<Longrightarrow> draws n lo hi g \<Longrightarrow> draws n lo hi (\<lambda>b. do { b \<leftarrow> f b; g b })"
  unfolding draws_def by (metis bind.bind_lunit same_outside_length same_outside_trans)

lemma draws_if [draw_rules]:
  "(P \<Longrightarrow> draws n lo hi f) \<Longrightarrow> (\<not> P \<Longrightarrow> draws n lo hi g) \<Longrightarrow> draws n lo hi (\<lambda>b. if P then f b else g b)"
  by (cases P) auto

lemma draws_foldo [draw_rules]:
  "(\<And>x. x \<in> set xs \<Longrightarrow> draws n lo hi (f x)) \<Longrightarrow> draws n lo hi (foldo f xs)"
proof (induction xs)
  case Nil
  then show ?case by (simp add: draws_def)
next
  case (Cons x xs)
  then have "draws n lo hi (\<lambda>b. do { b \<leftarrow> f x b; foldo f xs b })"
    by (intro draws_bind) auto
  then show ?case by simp
qed

text \<open>A loop that carries a value beside the line.\<close>

lemma draws_foldo_state:
  assumes "\<And>x st. x \<in> set xs \<Longrightarrow> I st \<Longrightarrow> I (h x st) \<and> draws n lo hi (f x st)" and "I st"
  shows "draws n lo hi (\<lambda>b. map_option snd (foldo (\<lambda>x (st, b). do { b \<leftarrow> f x st b; Some (h x st, b) }) xs (st, b)))"
  using assms
proof (induction xs arbitrary: st)
  case Nil
  then show ?case by (simp add: draws_def)
next
  case (Cons x xs)
  let ?loop = "\<lambda>st b. map_option snd (foldo (\<lambda>x (st, b). do { b \<leftarrow> f x st b; Some (h x st, b) }) xs (st, b))"
  have "draws n lo hi (\<lambda>b. do { b \<leftarrow> f x st b; ?loop (h x st) b })"
    using Cons.prems by (intro draws_bind Cons.IH) auto
  then show ?case by (rule back_subst [of "draws n lo hi"]) (auto simp: fun_eq_iff split: bind_splits)
qed

lemma draws_set [draw_rules]: "lo \<le> d \<Longrightarrow> d < hi \<Longrightarrow> hi \<le> n \<Longrightarrow> draws n lo hi (\<lambda>b. arr_set b d v)"
  by (auto simp: draws_def same_outside_def)

lemma draws_get [draw_rules]:
  "d < n \<Longrightarrow> (\<And>v. draws n lo hi (f v)) \<Longrightarrow> draws n lo hi (\<lambda>b. do { v \<leftarrow> arr_get b d; f v b })"
  by (simp add: draws_def)

lemma draws_get_map [draw_rules]:
  "d < n \<Longrightarrow> (\<And>v. draws n lo hi (f v)) \<Longrightarrow> draws n lo hi (\<lambda>b. do { v \<leftarrow> map_option g (arr_get b d); f v b })"
  by (simp add: draws_def)

lemma draws_lookup [draw_rules]:
  "(\<exists>v. x = Some v) \<Longrightarrow> (\<And>v. x = Some v \<Longrightarrow> draws n lo hi (f v)) \<Longrightarrow> draws n lo hi (\<lambda>b. do { v \<leftarrow> x; f v b })"
  by auto

text \<open>A palette of at least \<open>k\<close> colours.\<close>

definition pal_ok :: "nat \<Rightarrow> palette \<Rightarrow> bool" where
  "pal_ok k pal \<longleftrightarrow> (\<forall>i < k. pal i \<noteq> None)"

lemma pal_okD: "pal_ok k pal \<Longrightarrow> i < k \<Longrightarrow> \<exists>c. pal i = Some c"
  by (auto simp: pal_ok_def)

lemma draws_rend_pix [draw_rules]:
  assumes "pal_ok 256 pal" "sub + unat pval < 256" "lo \<le> d" "d < hi" "hi \<le> n"
  shows "draws n lo hi (rend_pix rd isbase pal bg attr sub pval d)"
proof -
  have "\<exists>c. pal (sub + unat pval) = Some c" "\<exists>c. pal 0 = Some c"
    using assms pal_okD by auto
  then show ?thesis using assms
    by (cases rd) (auto simp: draws_def rend_pix_def same_outside_def)
qed

lemma draws_bdrop [draw_rules]:
  "lo \<le> d \<Longrightarrow> d < hi \<Longrightarrow> hi \<le> n \<Longrightarrow> draws n lo hi (render_bdrop_pixel_8bpp rd bg c d)"
  by (auto simp: draws_def render_bdrop_pixel_8bpp_def same_outside_def)

lemma draws_obj_pix [draw_rules]:
  assumes "rd = FULLCOLOR \<Longrightarrow> pal_ok 256 pal" "ci < 256" "lo \<le> d" "d < hi" "hi \<le> n" "rd = PIXCOPY \<Longrightarrow> d + 240 < n"
  shows "draws n lo hi (obj_pix rd pal attr ci pval d)"
proof -
  have "rd = FULLCOLOR \<Longrightarrow> \<exists>c. pal ci = Some c" using assms pal_okD by auto
  then show ?thesis using assms
    by (cases rd) (auto simp: draws_def obj_pix_def same_outside_def)
qed

end
