(* ===== verification/Gba.thy ===== *)
theory Gba
  imports Sound Cpu GamepakLoad Backup Cheats VideoPixel
begin

text \<open>
  The whole machine around the processor: the memories, cartridge, devices, DMA channels and
  timers that \<^verbatim>\<open>gba_memory.c\<close>, \<^verbatim>\<open>main.c\<close> and \<^verbatim>\<open>sound.c\<close> keep in static variables, as the memory
  of the \<open>cpu\<close> record, and the accessors of \<^verbatim>\<open>common.h\<close>. A memory is a function from
  offsets to bytes; every access is checked against the size of the C array.
\<close>

type_synonym bytes = "nat \<Rightarrow> u8"

text \<open>What a pointer of \<^verbatim>\<open>memory_map_read\<close> points into; a ROM page is its slot.\<close>

datatype block = B_bios | B_ewram nat | B_iwram | B_io | B_vram nat | B_rom nat

record gba =
  g_bios :: bytes
  g_ewram :: bytes
  g_iwram :: bytes
  g_vram :: bytes
  g_palette :: bytes
  g_palette_converted :: bytes
  g_oam :: bytes
  g_backup :: backup
  g_gpio :: gpio
  g_pak :: pak
  g_file :: "u8 list"
  g_serial :: serial
  g_session :: session
  g_dma :: "dma_transfer list"
  g_dma_bus :: u32
  g_timers :: "timer_type list"
  g_sound :: sound_state
  g_wave_update :: bool
  g_freq_bits :: nat
  g_ws_seq :: "(u8 \<times> u8) list"
  g_ws_nseq :: "(u8 \<times> u8) list"
  g_affine_x :: "u32 \<times> u32"
  g_affine_y :: "u32 \<times> u32"
  g_cpu_ticks :: u32
  g_frame_counter :: u32
  g_execute_cycles :: u32
  g_video_count :: u32
  g_now :: tm
  g_cheats :: cheat_list
  g_idle_loop_target :: u32
  g_input :: input_state
  g_pc_block :: "(nat \<times> block) option"
  g_video :: video

type_synonym gs = "gba cpu"

definition upd :: "(gba \<Rightarrow> gba) \<Rightarrow> gs \<Rightarrow> gs" where
  "upd f s = s\<lparr>mem := f (mem s)\<rparr>"

section \<open>Accesses of one, two and four bytes\<close>

datatype width = W8 | W16 | W32

definition w_bytes :: "width \<Rightarrow> nat" where
  "w_bytes w = (case w of W8 \<Rightarrow> 1 | W16 \<Rightarrow> 2 | W32 \<Rightarrow> 4)"

definition le_value :: "width \<Rightarrow> bytes \<Rightarrow> nat \<Rightarrow> u32" where
  "le_value w m off =
     (case w of W8 \<Rightarrow> ucast (m off)
      | W16 \<Rightarrow> ucast (m off) OR push_bit 8 (ucast (m (off + 1)))
      | W32 \<Rightarrow> ucast (m off) OR push_bit 8 (ucast (m (off + 1))) OR push_bit 16 (ucast (m (off + 2)))
              OR push_bit 24 (ucast (m (off + 3))))"

definition le_store :: "width \<Rightarrow> u32 \<Rightarrow> nat \<Rightarrow> bytes \<Rightarrow> bytes" where
  "le_store w v off m =
     (\<lambda>i. if off \<le> i \<and> i < off + w_bytes w then ucast (drop_bit (8 * (i - off)) v) else m i)"

text \<open>\<open>sz\<close> is the size of the array in bytes.\<close>

definition readaddress :: "width \<Rightarrow> nat \<Rightarrow> bytes \<Rightarrow> u32 \<Rightarrow> u32 option" where
  "readaddress w sz m off = (if unat off + w_bytes w \<le> sz then Some (le_value w m (unat off)) else None)"

definition writeaddress :: "width \<Rightarrow> nat \<Rightarrow> u32 \<Rightarrow> u32 \<Rightarrow> bytes \<Rightarrow> bytes option" where
  "writeaddress w sz off v m = (if unat off + w_bytes w \<le> sz then Some (le_store w v (unat off) m) else None)"

abbreviation (input) BIOS_SIZE :: nat where "BIOS_SIZE \<equiv> 0x4000"
abbreviation (input) EWRAM_SIZE :: nat where "EWRAM_SIZE \<equiv> 0x80000"
abbreviation (input) IWRAM_SIZE :: nat where "IWRAM_SIZE \<equiv> 0x10000"
abbreviation (input) VRAM_SIZE :: nat where "VRAM_SIZE \<equiv> 0x18000"
abbreviation (input) IO_SIZE :: nat where "IO_SIZE \<equiv> 0x400"

text \<open>The registers as the bytes they occupy.\<close>

definition io_bytes :: "ioregs \<Rightarrow> bytes" where
  "io_bytes io = (\<lambda>i. ucast (drop_bit (8 * (i mod 2)) (io (i div 2))))"

definition ioregs_of :: "gs \<Rightarrow> ioregs" where
  "ioregs_of s = sr_regs (g_serial (mem s))"

definition ior :: "gs \<Rightarrow> nat \<Rightarrow> u16" where
  "ior s r = read_ioreg (ioregs_of s) r"

definition iow :: "nat \<Rightarrow> u16 \<Rightarrow> gs \<Rightarrow> gs" where
  "iow r v = upd (\<lambda>m. m\<lparr>g_serial := (g_serial m)\<lparr>sr_regs := write_ioreg r v (sr_regs (g_serial m))\<rparr>\<rparr>)"

definition ior32 :: "gs \<Rightarrow> nat \<Rightarrow> u32" where
  "ior32 s r = read_ioreg32 (ioregs_of s) r"

text \<open>The registers of DMA channel \<open>n\<close> are six registers apart.\<close>

definition read_dmareg :: "gs \<Rightarrow> nat \<Rightarrow> nat \<Rightarrow> u16" where
  "read_dmareg s r n = ior s (r + n * 6)"

definition write_dmareg :: "nat \<Rightarrow> nat \<Rightarrow> u16 \<Rightarrow> gs \<Rightarrow> gs" where
  "write_dmareg r n v = iow (r + n * 6) v"

section \<open>Registers\<close>

abbreviation (input) REG_DISPCNT :: nat where "REG_DISPCNT \<equiv> 0x00"
abbreviation (input) REG_BG2PA :: nat where "REG_BG2PA \<equiv> 0x10"
abbreviation (input) REG_BG2PD :: nat where "REG_BG2PD \<equiv> 0x13"
abbreviation (input) REG_BG2X_L :: nat where "REG_BG2X_L \<equiv> 0x14"
abbreviation (input) REG_BG2Y_L :: nat where "REG_BG2Y_L \<equiv> 0x16"
abbreviation (input) REG_BG3PA :: nat where "REG_BG3PA \<equiv> 0x18"
abbreviation (input) REG_BG3PD :: nat where "REG_BG3PD \<equiv> 0x1B"
abbreviation (input) REG_BG3X_L :: nat where "REG_BG3X_L \<equiv> 0x1C"
abbreviation (input) REG_BG3Y_L :: nat where "REG_BG3Y_L \<equiv> 0x1E"
abbreviation (input) REG_SOUND1CNT_L :: nat where "REG_SOUND1CNT_L \<equiv> 0x30"
abbreviation (input) REG_SOUND1CNT_H :: nat where "REG_SOUND1CNT_H \<equiv> 0x31"
abbreviation (input) REG_SOUND1CNT_X :: nat where "REG_SOUND1CNT_X \<equiv> 0x32"
abbreviation (input) REG_SOUND2CNT_L :: nat where "REG_SOUND2CNT_L \<equiv> 0x34"
abbreviation (input) REG_SOUND2CNT_H :: nat where "REG_SOUND2CNT_H \<equiv> 0x36"
abbreviation (input) REG_SOUND3CNT_L :: nat where "REG_SOUND3CNT_L \<equiv> 0x38"
abbreviation (input) REG_SOUND3CNT_H :: nat where "REG_SOUND3CNT_H \<equiv> 0x39"
abbreviation (input) REG_SOUND3CNT_X :: nat where "REG_SOUND3CNT_X \<equiv> 0x3A"
abbreviation (input) REG_SOUND4CNT_L :: nat where "REG_SOUND4CNT_L \<equiv> 0x3C"
abbreviation (input) REG_SOUND4CNT_H :: nat where "REG_SOUND4CNT_H \<equiv> 0x3E"
abbreviation (input) REG_SOUNDCNT_L :: nat where "REG_SOUNDCNT_L \<equiv> 0x40"
abbreviation (input) REG_SOUNDCNT_H :: nat where "REG_SOUNDCNT_H \<equiv> 0x41"
abbreviation (input) REG_SOUNDCNT_X :: nat where "REG_SOUNDCNT_X \<equiv> 0x42"
abbreviation (input) REG_DMA0SAD :: nat where "REG_DMA0SAD \<equiv> 0x58"
abbreviation (input) REG_DMA0DAD :: nat where "REG_DMA0DAD \<equiv> 0x5A"
abbreviation (input) REG_DMA0CNT_L :: nat where "REG_DMA0CNT_L \<equiv> 0x5C"
abbreviation (input) REG_DMA0CNT_H :: nat where "REG_DMA0CNT_H \<equiv> 0x5D"
abbreviation (input) REG_TM0D :: nat where "REG_TM0D \<equiv> 0x80"
abbreviation (input) REG_TM0CNT :: nat where "REG_TM0CNT \<equiv> 0x81"

section \<open>Interrupts\<close>

definition irq_pending_gba :: "gba \<Rightarrow> bool" where
  "irq_pending_gba m =
     (let io = sr_regs (g_serial m) in
      read_ioreg io REG_IME \<noteq> 0 \<and> read_ioreg io REG_IE AND read_ioreg io REG_IF \<noteq> 0)"

definition alert_of_interrupt :: "gs \<Rightarrow> u8" where
  "alert_of_interrupt s =
     (if reg s REG_CPSR AND 0x80 = 0 \<and> irq_pending_gba (mem s) then CPU_ALERT_IRQ else CPU_ALERT_NONE)"

definition flag_interrupt :: "u16 \<Rightarrow> gs \<Rightarrow> u8 \<times> gs" where
  "flag_interrupt irq s = (let s = iow REG_IF (ior s REG_IF OR irq) s in (alert_of_interrupt s, s))"

section \<open>Wait states\<close>

definition ws012_nonseq :: "u8 list" where "ws012_nonseq = [4, 3, 2, 8]"
definition ws0_seq :: "u8 list" where "ws0_seq = [2, 1]"
definition ws1_seq :: "u8 list" where "ws1_seq = [4, 1]"
definition ws2_seq :: "u8 list" where "ws2_seq = [8, 1]"

definition ws_cyc_init :: "(u8 \<times> u8) list" where
  "ws_cyc_init = [(1, 1), (1, 1), (3, 6), (1, 1), (1, 1), (1, 2), (1, 2), (1, 2)]
     @ replicate 6 (0, 0) @ [(1, 1), (1, 1)]"

definition def_seq_cycles :: "(u32 \<times> u32) list" where
  "def_seq_cycles = [(1, 1), (1, 1), (3, 6), (1, 1), (1, 1), (1, 2), (1, 2), (1, 2),
     (3, 6), (3, 6), (5, 9), (5, 9), (9, 17), (9, 17), (0, 0), (0, 0)]"

definition rom_seq :: "u16 \<Rightarrow> u8 list" where
  "rom_seq w = (let a = 1 + ws0_seq ! unat (drop_bit 4 w AND 1); b = 1 + ws1_seq ! unat (drop_bit 7 w AND 1);
                    c = 1 + ws2_seq ! unat (drop_bit 10 w AND 1) in [a, a, b, b, c, c])"

definition rom_nonseq :: "u16 \<Rightarrow> u8 list" where
  "rom_nonseq w = (let a = 1 + ws012_nonseq ! unat (drop_bit 2 w AND 3); b = 1 + ws012_nonseq ! unat (drop_bit 5 w AND 3);
                       c = 1 + ws012_nonseq ! unat (drop_bit 8 w AND 3) in [a, a, b, b, c, c])"

definition reload_timing_info :: "gs \<Rightarrow> gs" where
  "reload_timing_info s =
     (let w = ior s REG_WAITCNT;
          seq = map (\<lambda>c. (c, c * 2)) (rom_seq w);
          nseq = map (\<lambda>(n, c). (n, 1 + n + c)) (zip (rom_nonseq w) (rom_seq w))
      in upd (\<lambda>m. m\<lparr>g_ws_seq := take 8 (g_ws_seq m) @ seq @ drop 14 (g_ws_seq m),
                     g_ws_nseq := take 8 (g_ws_nseq m) @ nseq @ drop 14 (g_ws_nseq m)\<rparr>) s)"

end
