(* ===== verification/VideoText.thy ===== *)
theory VideoText
  imports Gba
begin

text \<open>
  Text backgrounds (\<^verbatim>\<open>video.cc\<close>): the partial and the full tile, the fast line of whole tiles, the
  slow line with mosaic, and the choice between them. A pointer into the video memory is its
  offset, checked at every access; the template parameters are arguments.
\<close>

section \<open>Registers and memories of the renderer\<close>

abbreviation (input) REG_BG2CNT :: nat where "REG_BG2CNT \<equiv> 0x06"
abbreviation (input) REG_BG3CNT :: nat where "REG_BG3CNT \<equiv> 0x07"
abbreviation (input) REG_BG2PB :: nat where "REG_BG2PB \<equiv> 0x11"
abbreviation (input) REG_BG2PC :: nat where "REG_BG2PC \<equiv> 0x12"
abbreviation (input) REG_BG3PB :: nat where "REG_BG3PB \<equiv> 0x19"
abbreviation (input) REG_WININ :: nat where "REG_WININ \<equiv> 0x24"
abbreviation (input) REG_WINOUT :: nat where "REG_WINOUT \<equiv> 0x25"
abbreviation (input) REG_MOSAIC :: nat where "REG_MOSAIC \<equiv> 0x26"
abbreviation (input) REG_BLDCNT :: nat where "REG_BLDCNT \<equiv> 0x28"
abbreviation (input) REG_BLDALPHA :: nat where "REG_BLDALPHA \<equiv> 0x29"
abbreviation (input) REG_BLDY :: nat where "REG_BLDY \<equiv> 0x2A"

definition REG_BGxCNT :: "nat \<Rightarrow> nat" where "REG_BGxCNT n = 0x04 + n"
definition REG_WINxH :: "nat \<Rightarrow> nat" where "REG_WINxH n = 0x20 + n"
definition REG_WINxV :: "nat \<Rightarrow> nat" where "REG_WINxV n = 0x22 + n"
definition REG_BGxHOFS :: "nat \<Rightarrow> nat" where "REG_BGxHOFS n = 0x08 + n * 2"
definition REG_BGxVOFS :: "nat \<Rightarrow> nat" where "REG_BGxVOFS n = 0x09 + n * 2"
definition REG_BGxPA :: "nat \<Rightarrow> nat" where "REG_BGxPA n = 0x10 + (n - 2) * 8"
definition REG_BGxPC :: "nat \<Rightarrow> nat" where "REG_BGxPC n = 0x12 + (n - 2) * 8"

definition vget :: "width \<Rightarrow> bytes \<Rightarrow> int \<Rightarrow> u32 option" where
  "vget w vm i = (if 0 \<le> i \<and> i + int (w_bytes w) \<le> int VRAM_SIZE then Some (le_value w vm (nat i)) else None)"

definition vbyte :: "bytes \<Rightarrow> int \<Rightarrow> u8 option" where
  "vbyte vm i = map_option ucast (vget W8 vm i)"

definition vhalf :: "bytes \<Rightarrow> int \<Rightarrow> u16 option" where
  "vhalf vm i = map_option ucast (vget W16 vm i)"

text \<open>The converted palette from colour \<open>base\<close> on.\<close>

definition palette_at :: "nat \<Rightarrow> gs \<Rightarrow> palette" where
  "palette_at base s i =
     (if base + i < 512 then Some (ucast (le_value W16 (g_palette_converted (mem s)) (2 * (base + i)))) else None)"

definition color_flags :: "gs \<Rightarrow> nat \<Rightarrow> u32" where
  "color_flags s layer =
     (let bldcnt = ucast (ior s REG_BLDCNT) :: u32
      in ucast (ucast (push_bit 9 ((drop_bit layer bldcnt AND 0x01) OR (drop_bit (layer + 7) bldcnt AND 0x02))) :: u16))"

definition map_widths :: "nat list" where "map_widths = [256, 512, 256, 512]"

text \<open>
  The horizontal mosaic: the value last looked up is used until the counter runs out; \<open>latch\<close> is
  the lookup before a pixel, \<open>latch_next\<close> the count after it.
\<close>

definition latch :: "bool \<Rightarrow> nat \<Rightarrow> 'v option \<Rightarrow> 'v \<times> nat \<Rightarrow> ('v \<times> nat) option" where
  "latch mosaic mosh look l =
     (if \<not> mosaic \<or> snd l = 0 then map_option (\<lambda>v. (v, mosh)) look else Some l)"

definition latch_next :: "bool \<Rightarrow> 'v \<times> nat \<Rightarrow> 'v \<times> nat" where
  "latch_next mosaic l = (if mosaic then (fst l, snd l - 1) else l)"

section \<open>One tile\<close>

text \<open>
  The row of a tile. \<open>is8\<close>, \<open>isbase\<close>, \<open>hflip\<close> are the template parameters, \<open>d\<close> the first pixel.
\<close>

definition tile_row :: "bool \<Rightarrow> u16 \<Rightarrow> nat \<Rightarrow> int \<Rightarrow> int" where
  "tile_row is8 tile tile_base vflip =
     int (tile_base + unat (tile AND 0x3FF) * (if is8 then 64 else 32)) + (if tile AND 0x800 \<noteq> 0 then vflip else 0)"

definition tile_palette :: "u16 \<Rightarrow> u16" where
  "tile_palette tile = push_bit 4 (drop_bit 12 tile)"

definition tile_flags :: "u32 \<Rightarrow> u16 \<Rightarrow> u32" where
  "tile_flags px_comb tile = ucast (ucast (px_comb OR ucast (tile_palette tile)) :: u16)"

definition rend_part_tile_Nbpp ::
  "rendtype \<Rightarrow> bool \<Rightarrow> bool \<Rightarrow> bool \<Rightarrow> bytes \<Rightarrow> palette \<Rightarrow> u32 \<Rightarrow> u32 \<Rightarrow> nat \<Rightarrow> nat \<Rightarrow> nat \<Rightarrow> u16 \<Rightarrow> nat \<Rightarrow> int \<Rightarrow>
    'a::len draw" where
  "rend_part_tile_Nbpp rd is8 isbase hflip vm pal bg_comb px_comb d start stop tile tile_base vflip buf =
     (let tile_ptr = tile_row is8 tile tile_base vflip in
      if is8
      then foldo (\<lambda>i buf. do {
             pval \<leftarrow> vbyte vm (tile_ptr + int (if hflip then 7 - i else i));
             rend_pix rd isbase pal bg_comb px_comb 0 pval (d + (i - start)) buf }) [start..<stop] buf
      else do {
        tilepix \<leftarrow> vget W32 vm tile_ptr;
        let tilepix = (if hflip then push_bit (start * 4) tilepix else drop_bit (start * 4) tilepix);
        map_option snd (foldo (\<lambda>i (t, buf). do {
          buf \<leftarrow> rend_pix rd isbase pal bg_comb (tile_flags px_comb tile) (unat (tile_palette tile))
                   (ucast (if hflip then drop_bit 28 t else t AND 0xF)) (d + (i - start)) buf;
          Some (if hflip then push_bit 4 t else drop_bit 4 t, buf) }) [start..<stop] (tilepix, buf)) })"

definition fill_base :: "rendtype \<Rightarrow> bool \<Rightarrow> palette \<Rightarrow> u32 \<Rightarrow> nat list \<Rightarrow> 'a::len draw" where
  "fill_base rd isbase pal bg_comb ds buf =
     (if isbase
      then do { bgcolor \<leftarrow> pal 0; foldo (render_bdrop_pixel_8bpp rd bg_comb bgcolor) ds buf }
      else Some buf)"

definition render_tile_Nbpp ::
  "rendtype \<Rightarrow> bool \<Rightarrow> bool \<Rightarrow> bool \<Rightarrow> bytes \<Rightarrow> palette \<Rightarrow> u32 \<Rightarrow> u32 \<Rightarrow> nat \<Rightarrow> u16 \<Rightarrow> nat \<Rightarrow> int \<Rightarrow> 'a::len draw" where
  "render_tile_Nbpp rd is8 isbase hflip vm pal bg_comb px_comb d tile tile_base vflip buf =
     (let tile_ptr = tile_row is8 tile tile_base vflip in
      if is8
      then foldo (\<lambda>j buf. do {
             tilepix \<leftarrow> vget W32 vm (tile_ptr + 4 * int (if hflip then 1 - j else j));
             if tilepix \<noteq> 0
             then foldo (\<lambda>i. rend_pix rd isbase pal bg_comb px_comb 0
                    (ucast (drop_bit (if hflip then 24 - i * 8 else i * 8) tilepix)) (d + 4 * j + i)) [0..<4] buf
             else fill_base rd isbase pal bg_comb [d + 4 * j..<d + 4 * j + 4] buf }) [0..<2] buf
      else do {
        tilepix \<leftarrow> vget W32 vm tile_ptr;
        if tilepix \<noteq> 0
        then foldo (\<lambda>i. rend_pix rd isbase pal bg_comb (tile_flags px_comb tile) (unat (tile_palette tile))
               (ucast (drop_bit (if hflip then (7 - i) * 4 else i * 4) tilepix AND 0xF)) (d + i)) [0..<8] buf
        else fill_base rd isbase pal bg_comb [d..<d + 8] buf })"

section \<open>A line of tiles\<close>

text \<open>
  Where a text layer finds its tiles on this line: offset into the map of the row, of the row to
  go on with at the right edge, the horizontal offset in the block, the tiles with the vertical
  offset, and the distance to the mirrored row. \<open>line\<close> is the line to show.
\<close>

record text_pos =
  map_ptr :: nat
  second_ptr :: nat
  hoffset :: nat
  tile_base :: nat
  vflip_off :: int

definition text_position :: "gs \<Rightarrow> nat \<Rightarrow> bool \<Rightarrow> u16 \<Rightarrow> nat \<Rightarrow> text_pos" where
  "text_position s layer is8 line start =
     (let bg_control = ucast (ior s (REG_BGxCNT layer)) :: u32;
          map_size = drop_bit 14 bg_control AND 0x03;
          map_width = map_widths ! unat map_size;
          hoffset = (start + unat (ior s (REG_BGxHOFS layer))) mod 512;
          voffset = (unat line + unat (ior s (REG_BGxVOFS layer))) mod 512;
          base_block = unat (drop_bit 8 bg_control AND 0x1F);
          map_base = base_block * 2048;
          map_base = (if map_size AND 0x02 \<noteq> 0 \<and> 256 \<le> voffset then map_base + 2 * ((map_width div 8) * 32) else map_base);
          map_base = map_base + 2 * (((voffset mod 256) div 8) * 32);
          (map_ptr, second_ptr, hoffset) =
            (if map_size AND 0x01 \<noteq> 0
             then (if 256 \<le> hoffset then (map_base + 2 * (32 * 32), map_base, hoffset - 256)
                   else (map_base, map_base + 2 * (32 * 32), hoffset))
             else (map_base, map_base, hoffset mod 256));
          tilewidth = (if is8 then 8 else 4);
          vert_pix_offset = (voffset mod 8) * tilewidth
      in \<lparr>map_ptr = map_ptr + 2 * (hoffset div 8), second_ptr = second_ptr, hoffset = hoffset,
          tile_base = unat (drop_bit 2 bg_control AND 0x03) * 16 * 1024 + vert_pix_offset,
          vflip_off = (if is8 then 64 else 32) - 2 * int vert_pix_offset - int tilewidth\<rparr>)"

definition part_tile ::
  "rendtype \<Rightarrow> bool \<Rightarrow> bool \<Rightarrow> gs \<Rightarrow> palette \<Rightarrow> nat \<Rightarrow> text_pos \<Rightarrow> nat \<Rightarrow> nat \<Rightarrow> nat \<Rightarrow> nat \<Rightarrow> 'a::len draw" where
  "part_tile rd isbase is8 s pal layer p ptr d start stop buf = do {
     let vm = g_vram (mem s);
     tile \<leftarrow> vhalf vm (int ptr);
     rend_part_tile_Nbpp rd is8 isbase (tile AND 0x400 \<noteq> 0) vm pal (color_flags s 5) (color_flags s layer)
       d start stop tile (tile_base p) (vflip_off p) buf }"

definition full_tiles ::
  "rendtype \<Rightarrow> bool \<Rightarrow> bool \<Rightarrow> gs \<Rightarrow> palette \<Rightarrow> nat \<Rightarrow> text_pos \<Rightarrow> nat \<Rightarrow> nat \<Rightarrow> nat \<Rightarrow> 'a::len draw" where
  "full_tiles rd isbase is8 s pal layer p ptr d n =
     foldo (\<lambda>i buf. do {
       let vm = g_vram (mem s);
       tile \<leftarrow> vhalf vm (int (ptr + 2 * i));
       render_tile_Nbpp rd is8 isbase (tile AND 0x400 \<noteq> 0) vm pal (color_flags s 5) (color_flags s layer)
         (d + 8 * i) tile (tile_base p) (vflip_off p) buf }) [0..<n]"

text \<open>\<open>cnt\<close> pixels are left, \<open>run\<close> of them in this block of the map; \<open>ptr\<close> is the next tile.\<close>

definition text_tiles ::
  "rendtype \<Rightarrow> bool \<Rightarrow> bool \<Rightarrow> gs \<Rightarrow> palette \<Rightarrow> nat \<Rightarrow> text_pos \<Rightarrow> nat \<Rightarrow> nat \<Rightarrow> nat \<Rightarrow> nat \<Rightarrow> 'a::len draw" where
  "text_tiles rd isbase is8 s pal layer p ptr d cnt run buf =
     (if cnt = 0 then Some buf
      else do {
        let todraw = min cnt run div 8;
        buf \<leftarrow> full_tiles rd isbase is8 s pal layer p ptr d todraw buf;
        let (ptr, d, cnt, run) = (ptr + 2 * todraw, d + 8 * todraw, cnt - 8 * todraw, run - 8 * todraw);
        if cnt = 0 then Some buf
        else do {
          let ptr = (if run = 0 then second_ptr p else ptr);
          let todraw = cnt div 8;
          buf \<leftarrow> full_tiles rd isbase is8 s pal layer p ptr d todraw buf;
          let (ptr, d, cnt) = (ptr + 2 * todraw, d + 8 * todraw, cnt - 8 * todraw);
          if cnt \<noteq> 0 then part_tile rd isbase is8 s pal layer p ptr d 0 cnt buf else Some buf } })"

definition render_scanline_text_fast ::
  "rendtype \<Rightarrow> bool \<Rightarrow> bool \<Rightarrow> gs \<Rightarrow> nat \<Rightarrow> nat \<Rightarrow> nat \<Rightarrow> nat \<Rightarrow> palette \<Rightarrow> 'a::len draw" where
  "render_scanline_text_fast rd isbase is8 s layer start stop at pal buf = do {
     let p = text_position s layer is8 (ior s REG_VCOUNT) start;
     let (d, cnt, run) = (at + start, stop - start, 256 - hoffset p);
     let tile_hoff = hoffset p mod 8;
     if tile_hoff \<noteq> 0
     then do {
       let todraw = min cnt (8 - tile_hoff);
       buf \<leftarrow> part_tile rd isbase is8 s pal layer p (map_ptr p) d tile_hoff (tile_hoff + todraw) buf;
       text_tiles rd isbase is8 s pal layer p (map_ptr p + 2) (d + todraw) (cnt - todraw) (run - todraw) buf }
     else text_tiles rd isbase is8 s pal layer p (map_ptr p) d cnt run buf }"

section \<open>Mosaic\<close>

definition tile_pixel :: "bool \<Rightarrow> bytes \<Rightarrow> u16 \<Rightarrow> nat \<Rightarrow> int \<Rightarrow> nat \<Rightarrow> u8 option" where
  "tile_pixel is8 vm tile base vflip hoff =
     (let tile_ptr = tile_row is8 tile base vflip; hflip = (tile AND 0x400 \<noteq> 0) in
      if is8 then vbyte vm (tile_ptr + int (if hflip then 7 - hoff mod 8 else hoff mod 8))
      else if hflip
      then map_option (\<lambda>b. drop_bit ((1 - hoff mod 2) * 4) b AND 0xF) (vbyte vm (tile_ptr + int ((7 - hoff mod 8) div 2)))
      else map_option (\<lambda>b. drop_bit (hoff mod 2 * 4) b AND 0xF) (vbyte vm (tile_ptr + int ((hoff mod 8) div 2))))"

text \<open>The loop over the pixels carries the colour, the mosaic counter, the offset and the tile.\<close>

definition mosaic_step ::
  "rendtype \<Rightarrow> bool \<Rightarrow> bool \<Rightarrow> gs \<Rightarrow> palette \<Rightarrow> nat \<Rightarrow> text_pos \<Rightarrow> nat \<Rightarrow> nat \<Rightarrow>
    ((u8 \<times> nat) \<times> nat \<times> nat) \<times> 'a::len word list \<Rightarrow> (((u8 \<times> nat) \<times> nat \<times> nat) \<times> 'a word list) option" where
  "mosaic_step rd isbase is8 s pal layer p mosh d x = do {
     let ((l, hoff, ptr), buf) = x;
     let vm = g_vram (mem s);
     tile \<leftarrow> vhalf vm (int ptr);
     l \<leftarrow> latch True mosh (tile_pixel is8 vm tile (tile_base p) (vflip_off p) hoff) l;
     buf \<leftarrow> (if is8 then rend_pix rd isbase pal (color_flags s 5) (color_flags s layer) 0 (fst l) d buf
            else rend_pix rd isbase pal (color_flags s 5) (tile_flags (color_flags s layer) tile)
                   (unat (tile_palette tile)) (fst l) d buf);
     let hoff = hoff + 1;
     let ptr = (if hoff mod 8 = 0 then ptr + 2 else ptr);
     Some ((latch_next True l, if 256 \<le> hoff then (0, second_ptr p) else (hoff, ptr)), buf) }"

definition render_scanline_text_mosaic ::
  "rendtype \<Rightarrow> bool \<Rightarrow> bool \<Rightarrow> gs \<Rightarrow> nat \<Rightarrow> nat \<Rightarrow> nat \<Rightarrow> nat \<Rightarrow> palette \<Rightarrow> 'a::len draw" where
  "render_scanline_text_mosaic rd isbase is8 s layer start stop at pal buf =
     (let mosaic = ior s REG_MOSAIC;
          mosh = unat (mosaic AND 0xF) + 1;
          mosv = (drop_bit 4 mosaic AND 0xF) + 1;
          vcount = ior s REG_VCOUNT;
          p = text_position s layer is8 (vcount - vcount mod mosv) start
      in map_option snd (foldo (\<lambda>i. mosaic_step rd isbase is8 s pal layer p mosh (at + i)) [start..<stop]
           (((0, 0), hoffset p, map_ptr p), buf)))"

definition render_scanline_text ::
  "rendtype \<Rightarrow> bool \<Rightarrow> gs \<Rightarrow> nat \<Rightarrow> nat \<Rightarrow> nat \<Rightarrow> nat \<Rightarrow> palette \<Rightarrow> 'a::len draw" where
  "render_scanline_text rd isbase s layer start stop at pal =
     (let bg_control = ior s (REG_BGxCNT layer);
          is8 = (bg_control AND 0x80 \<noteq> 0);
          has_mosaic = (bg_control AND 0x40 \<noteq> 0 \<and> ior s REG_MOSAIC AND 0xFF \<noteq> 0)
      in if has_mosaic then render_scanline_text_mosaic rd isbase is8 s layer start stop at pal
         else render_scanline_text_fast rd isbase is8 s layer start stop at pal)"

end
