(* ===== verification/VideoAffine.thy ===== *)
theory VideoAffine
  imports VideoText
begin

text \<open>
  Backgrounds that are scaled and rotated, and bitmaps (\<^verbatim>\<open>video.cc\<close>). A source position is a pair
  of fixed point numbers with eight binary digits; a walk goes along it, one step per pixel of
  the line. The loops that skip the pixels outside the source and that draw the ones inside are
  the same in the renderers of backgrounds, bitmaps and objects.
\<close>

type_synonym pos = "u32 \<times> u32"

definition pix_of :: "u32 \<Rightarrow> nat" where
  "pix_of x = unat (signed_drop_bit 8 x)"

definition within :: "nat \<Rightarrow> nat \<Rightarrow> pos \<Rightarrow> bool" where
  "within w h p \<longleftrightarrow> pix_of (fst p) < w \<and> pix_of (snd p) < h"

definition walk :: "bool \<Rightarrow> u32 \<Rightarrow> u32 \<Rightarrow> pos \<Rightarrow> pos" where
  "walk rot dx dy p = (fst p + dx, if rot then snd p + dy else snd p)"

text \<open>
  \<open>cnt\<close> pixels are left, the next is \<open>d\<close>; \<open>bdrop\<close> draws a pixel outside, \<open>look\<close> gives the colour
  at a position and \<open>put\<close> draws it.
\<close>

primrec walk_skip ::
  "(pos \<Rightarrow> bool) \<Rightarrow> (pos \<Rightarrow> pos) \<Rightarrow> (nat \<Rightarrow> 'a::len draw) \<Rightarrow> nat \<Rightarrow> nat \<Rightarrow> pos \<Rightarrow> 'a word list \<Rightarrow>
    (nat \<times> nat \<times> pos \<times> 'a word list) option" where
  "walk_skip inside step bdrop 0 d p buf = Some (0, d, p, buf)"
| "walk_skip inside step bdrop (Suc cnt) d p buf =
     (if inside p then Some (Suc cnt, d, p, buf)
      else do { buf \<leftarrow> bdrop d buf; walk_skip inside step bdrop cnt (d + 1) (step p) buf })"

primrec walk_draw ::
  "(pos \<Rightarrow> bool) \<Rightarrow> (pos \<Rightarrow> pos) \<Rightarrow> bool \<Rightarrow> nat \<Rightarrow> (pos \<Rightarrow> 'v option) \<Rightarrow> ('v \<Rightarrow> nat \<Rightarrow> 'a::len draw) \<Rightarrow>
    nat \<Rightarrow> nat \<Rightarrow> pos \<Rightarrow> 'v \<times> nat \<Rightarrow> 'a word list \<Rightarrow> (nat \<times> nat \<times> 'a word list) option" where
  "walk_draw inside step mosaic mosh look put 0 d p l buf = Some (0, d, buf)"
| "walk_draw inside step mosaic mosh look put (Suc cnt) d p l buf =
     (if \<not> inside p then Some (Suc cnt, d, buf)
      else do {
        l \<leftarrow> latch mosaic mosh (look p) l;
        buf \<leftarrow> put (fst l) d buf;
        walk_draw inside step mosaic mosh look put cnt (d + 1) (step p) (latch_next mosaic l) buf })"

section \<open>Backgrounds\<close>

definition lookup_pix_8bpp :: "bytes \<Rightarrow> nat \<Rightarrow> nat \<Rightarrow> nat \<Rightarrow> nat \<Rightarrow> nat \<Rightarrow> u8 option" where
  "lookup_pix_8bpp vm px py base map_base map_size = do {
     t \<leftarrow> vbyte vm (int (map_base + (px div 8 + (py div 8) * 2 ^ (map_size + 4))));
     vbyte vm (int (base + unat t * 64 + (px mod 8 + (py mod 8) * 8))) }"

definition signed16 :: "u16 \<Rightarrow> u32" where "signed16 v = scast v"

definition affine_reference :: "gs \<Rightarrow> nat \<Rightarrow> pos" where
  "affine_reference s layer =
     (if layer = 2 then (fst (g_affine_x (mem s)), fst (g_affine_y (mem s)))
      else (snd (g_affine_x (mem s)), snd (g_affine_y (mem s))))"

definition mosaic_h :: "bool \<Rightarrow> gs \<Rightarrow> nat" where
  "mosaic_h mosaic s = (if mosaic then unat (ior s REG_MOSAIC AND 0xF) else 0) + 1"

definition render_affine_background ::
  "rendtype \<Rightarrow> bool \<Rightarrow> bool \<Rightarrow> bool \<Rightarrow> bool \<Rightarrow> gs \<Rightarrow> nat \<Rightarrow> nat \<Rightarrow> nat \<Rightarrow> nat \<Rightarrow> nat \<Rightarrow> nat \<Rightarrow> nat \<Rightarrow> palette \<Rightarrow>
    'a::len draw" where
  "render_affine_background rd isbase wrap rot mosaic s layer start cnt map_base map_size base d pal buf =
     (let bg_comb = color_flags s 5;
          px_comb = color_flags s layer;
          dx = signed16 (ior s (REG_BGxPA layer));
          dy = signed16 (ior s (REG_BGxPC layer));
          source = (fst (affine_reference s layer) + of_nat start * dx, snd (affine_reference s layer) + of_nat start * dy);
          width_height = 128 * 2 ^ map_size;
          mosh = mosaic_h mosaic s;
          look = (\<lambda>px py. lookup_pix_8bpp (g_vram (mem s)) px py base map_base map_size);
          put = (\<lambda>v. rend_pix rd isbase pal bg_comb px_comb 0 v)
      in if wrap
         then do {
           (_, _, buf) \<leftarrow> walk_draw (\<lambda>_. True) (walk rot dx dy) mosaic mosh
              (\<lambda>p. look (pix_of (fst p) mod width_height) (pix_of (snd p) mod width_height)) put cnt d source (0, 0) buf;
           Some buf }
         else do {
           bgcol \<leftarrow> pal 0;
           (cnt, d, buf) \<leftarrow>
             (if \<not> rot \<and> width_height \<le> pix_of (snd source) then Some (cnt, d, buf)
              else do {
                (cnt, d, source, buf) \<leftarrow> walk_skip (within width_height width_height) (walk rot dx dy)
                   (\<lambda>d. if isbase then render_bdrop_pixel_8bpp rd bg_comb bgcol d else Some) cnt d source buf;
                walk_draw (within width_height width_height) (walk rot dx dy) mosaic mosh
                   (\<lambda>p. look (pix_of (fst p)) (pix_of (snd p))) put cnt d source (0, 0) buf });
           if isbase then foldo (render_bdrop_pixel_8bpp rd bg_comb bgcol) [d..<d + cnt] buf else Some buf })"

definition render_scanline_affine ::
  "rendtype \<Rightarrow> bool \<Rightarrow> gs \<Rightarrow> nat \<Rightarrow> nat \<Rightarrow> nat \<Rightarrow> nat \<Rightarrow> palette \<Rightarrow> 'a::len draw" where
  "render_scanline_affine rd isbase s layer start stop at pal =
     (let bg_control = ior s (REG_BGxCNT layer);
          map_size = unat (drop_bit 14 bg_control AND 0x03);
          map_base = unat (drop_bit 8 bg_control AND 0x1F) * 2048;
          base = unat (drop_bit 2 bg_control AND 0x03) * 16 * 1024;
          has_mosaic = (bg_control AND 0x40 \<noteq> 0 \<and> ior s REG_MOSAIC AND 0xFF \<noteq> 0);
          has_rotation = (ior s (REG_BGxPC layer) \<noteq> 0);
          has_wrap = (drop_bit 13 bg_control AND 1 \<noteq> 0)
      in render_affine_background rd isbase has_wrap has_rotation has_mosaic s layer start (stop - start)
           map_base map_size base (at + start) pal)"

section \<open>Bitmaps\<close>

datatype bm_rendmode = BLIT | SCALED | ROTATED

definition bitmap_value :: "bool \<Rightarrow> bytes \<Rightarrow> nat \<Rightarrow> nat \<Rightarrow> u16 option" where
  "bitmap_value wide vm src i =
     (if wide then vhalf vm (int (src + 2 * i)) else map_option ucast (vbyte vm (int (src + i))))"

text \<open>
  \<open>wide\<close> says that the pixels of the bitmap have 16 bits. The numbers of pixels of the blitter are
  C unsigned numbers: a bitmap that begins right of the interval makes them wrap.
\<close>

definition blit_bitmap ::
  "rendtype \<Rightarrow> nat \<Rightarrow> bool \<Rightarrow> nat \<Rightarrow> bool \<Rightarrow> nat \<Rightarrow> gs \<Rightarrow> nat \<Rightarrow> u32 \<Rightarrow> u32 \<Rightarrow> nat \<Rightarrow> pos \<Rightarrow> palette \<Rightarrow> 'a::len draw" where
  "blit_bitmap rd mode wide width mosaic mosh s src start stop at source pal buf =
     (let pixel_y = pix_of (snd source);
          (start, x) = (if fst source <s 0 then (start + signed_drop_bit 8 (255 - fst source), 0) else (start, fst source));
          pixel_x = signed_drop_bit 8 x :: u32;
          pixcnt = min (stop - start) (of_nat width - pixel_x)
      in map_option snd (foldo (\<lambda>i (l, buf). do {
           l \<leftarrow> latch mosaic mosh (bitmap_value wide (g_vram (mem s)) src (unat pixel_x + pixel_y * width + i)) l;
           buf \<leftarrow> bitmap_pixel_write rd mode pal (color_flags s 2) (fst l) (at + unat start + i) buf;
           Some (latch_next mosaic l, buf) }) [0..<unat pixcnt] ((0, 0), buf)))"

definition walk_bitmap ::
  "rendtype \<Rightarrow> nat \<Rightarrow> bool \<Rightarrow> nat \<Rightarrow> nat \<Rightarrow> bool \<Rightarrow> bool \<Rightarrow> nat \<Rightarrow> gs \<Rightarrow> nat \<Rightarrow> nat \<Rightarrow> nat \<Rightarrow> nat \<Rightarrow> pos \<Rightarrow> palette \<Rightarrow>
    'a::len draw" where
  "walk_bitmap rd mode wide width height rot mosaic mosh s src start stop at source pal buf =
     (let step = walk rot (signed16 (ior s REG_BG2PA)) (signed16 (ior s REG_BG2PC)) in do {
        (cnt, d, source, buf) \<leftarrow> walk_skip (within width height) step (\<lambda>_. Some) (stop - start) (at + start) source buf;
        (_, _, buf) \<leftarrow> walk_draw (within width height) step mosaic mosh
           (\<lambda>p. bitmap_value wide (g_vram (mem s)) src (pix_of (fst p) + pix_of (snd p) * width))
           (\<lambda>v. bitmap_pixel_write rd mode pal (color_flags s 2) v) cnt d source (0, 0) buf;
        Some buf })"

definition render_scanline_bitmap ::
  "rendtype \<Rightarrow> nat \<Rightarrow> bool \<Rightarrow> nat \<Rightarrow> nat \<Rightarrow> bm_rendmode \<Rightarrow> bool \<Rightarrow> gs \<Rightarrow> nat \<Rightarrow> nat \<Rightarrow> nat \<Rightarrow> palette \<Rightarrow> 'a::len draw" where
  "render_scanline_bitmap rd mode wide width height rdmode mosaic s start stop at pal buf =
     (let dx = signed16 (ior s REG_BG2PA);
          dy = signed16 (ior s REG_BG2PC);
          source = (fst (affine_reference s 2) + of_nat start * dx, snd (affine_reference s 2) + of_nat start * dy);
          second_frame = (4 \<le> mode \<and> ior s REG_DISPCNT AND 0x10 \<noteq> 0);
          src = (if second_frame then 0xA000 else 0);
          mosh = mosaic_h mosaic s
      in if rdmode \<noteq> ROTATED \<and> height \<le> pix_of (snd source) then Some buf
         else if rdmode = BLIT
         then blit_bitmap rd mode wide width mosaic mosh s src (of_nat start) (of_nat stop) at source pal buf
         else walk_bitmap rd mode wide width height (rdmode = ROTATED) mosaic mosh s src start stop at source pal buf)"

end
