(* ===== verification/VideoObj.thy ===== *)
theory VideoObj
  imports VideoAffine
begin

text \<open>
  Objects (\<^verbatim>\<open>video.cc\<close>): tiles of objects, plain objects with and without mosaic, objects that
  are scaled and rotated, the objects of one priority on a line, and the lists of the objects of
  each line. Offsets into the tiles are C unsigned numbers, masked to the last 32 KB of the
  video memory.
\<close>

definition obj_dim_table :: "(int \<times> int) list list" where
  "obj_dim_table =
     [[(8, 8), (16, 16), (32, 32), (64, 64)],
      [(16, 8), (32, 8), (32, 16), (64, 32)],
      [(8, 16), (8, 32), (16, 32), (32, 64)]]"

definition obj_dim :: "u16 \<Rightarrow> u16 \<Rightarrow> (int \<times> int) option" where
  "obj_dim shape sz = do { row \<leftarrow> arr_get obj_dim_table (unat shape); arr_get row (unat sz) }"

record t_sprite =
  obj_x :: int
  obj_y :: int
  obj_w :: int
  obj_h :: int
  attr1 :: u16
  attr2 :: u16
  is_double :: bool

definition oam16 :: "gs \<Rightarrow> nat \<Rightarrow> u16 option" where
  "oam16 s i = map_option ucast (readaddress W16 0x400 (g_oam (mem s)) (of_nat i))"

section \<open>Tiles\<close>

definition obj_tile_ptr :: "u32 \<Rightarrow> int" where
  "obj_tile_ptr tile_offset = 0x10000 + uint (tile_offset AND 0x7FFF)"

definition obj_attr_of :: "u32 \<Rightarrow> u16 \<Rightarrow> u32" where
  "obj_attr_of px_comb pal = px_comb OR ucast pal OR 0x100"

definition render_obj_part_tile_Nbpp ::
  "rendtype \<Rightarrow> bool \<Rightarrow> bool \<Rightarrow> bytes \<Rightarrow> palette \<Rightarrow> u32 \<Rightarrow> nat \<Rightarrow> nat \<Rightarrow> nat \<Rightarrow> u32 \<Rightarrow> u16 \<Rightarrow> 'a::len draw" where
  "render_obj_part_tile_Nbpp rd is8 hflip vm pal px_comb d start stop tile_offset pn =
     (let tile_ptr = obj_tile_ptr tile_offset; px_attr = obj_attr_of px_comb pn in
      if is8
      then foldo (\<lambda>i buf. do {
             pval \<leftarrow> vbyte vm (tile_ptr + int (if hflip then 7 - i else i));
             obj_pix rd pal px_attr (unat pval) pval (d + (i - start)) buf }) [start..<stop]
      else foldo (\<lambda>i buf. do {
             let selb = (if hflip then 3 - i div 2 else i div 2);
             let seln = (if hflip then 1 - i mod 2 else i mod 2);
             b \<leftarrow> vbyte vm (tile_ptr + int selb);
             let pval = drop_bit (seln * 4) b AND 0xF;
             obj_pix rd pal px_attr (unat pn + unat pval) pval (d + (i - start)) buf }) [start..<stop])"

definition render_obj_tile_Nbpp ::
  "rendtype \<Rightarrow> bool \<Rightarrow> bool \<Rightarrow> bytes \<Rightarrow> palette \<Rightarrow> u32 \<Rightarrow> nat \<Rightarrow> u32 \<Rightarrow> u16 \<Rightarrow> 'a::len draw" where
  "render_obj_tile_Nbpp rd is8 hflip vm pal px_comb d tile_offset pn buf =
     (let tile_ptr = obj_tile_ptr tile_offset; px_attr = obj_attr_of px_comb pn in
      if is8
      then foldo (\<lambda>j buf. do {
             tilepix \<leftarrow> vget W32 vm (tile_ptr + 4 * int (if hflip then 1 - j else j));
             if tilepix \<noteq> 0
             then foldo (\<lambda>i buf. do {
                    let pval = ucast (drop_bit (if hflip then 24 - i * 8 else i * 8) tilepix);
                    obj_pix rd pal px_attr (unat pval) pval (d + 4 * j + i) buf }) [0..<4] buf
             else Some buf }) [0..<2] buf
      else do {
        tilepix \<leftarrow> vget W32 vm tile_ptr;
        if tilepix \<noteq> 0
        then foldo (\<lambda>i buf. do {
               let pval = ucast (drop_bit (if hflip then (7 - i) * 4 else i * 4) tilepix AND 0xF);
               obj_pix rd pal px_attr (unat pn + unat pval) pval (d + i) buf }) [0..<8] buf
        else Some buf })"

section \<open>Plain objects\<close>

definition tile_step :: "bool \<Rightarrow> bool \<Rightarrow> u32" where
  "tile_step is8 hflip = (let n = (if is8 then 64 else 32) in if hflip then - n else n)"

text \<open>The full tiles from pixel \<open>d\<close> on and the partial one at the end.\<close>

definition object_tiles ::
  "rendtype \<Rightarrow> bool \<Rightarrow> bool \<Rightarrow> bytes \<Rightarrow> nat \<Rightarrow> nat \<Rightarrow> u32 \<Rightarrow> u32 \<Rightarrow> u16 \<Rightarrow> palette \<Rightarrow> 'a::len draw" where
  "object_tiles rd is8 hflip vm cnt d tile_offset px_comb pn pal buf = do {
     let step = tile_step is8 hflip;
     let num_tiles = cnt div 8;
     buf \<leftarrow> foldo (\<lambda>i. render_obj_tile_Nbpp rd is8 hflip vm pal px_comb (d + 8 * i) (tile_offset + of_nat i * step) pn)
              [0..<num_tiles] buf;
     if cnt mod 8 \<noteq> 0
     then render_obj_part_tile_Nbpp rd is8 hflip vm pal px_comb (d + 8 * num_tiles) 0 (cnt mod 8)
            (tile_offset + of_nat num_tiles * step) pn buf
     else Some buf }"

text \<open>\<open>at\<close> is the first pixel of the interval, \<open>delta_x\<close> the object relative to it.\<close>

definition render_object ::
  "rendtype \<Rightarrow> bool \<Rightarrow> bool \<Rightarrow> bytes \<Rightarrow> int \<Rightarrow> nat \<Rightarrow> nat \<Rightarrow> u32 \<Rightarrow> u32 \<Rightarrow> u16 \<Rightarrow> palette \<Rightarrow> 'a::len draw" where
  "render_object rd is8 hflip vm delta_x cnt at tile_offset px_comb pn pal buf =
     (if delta_x < 0
      then (let offx = nat (- delta_x);
                step = tile_step is8 hflip;
                tile_off = offx mod 8;
                tile_offset = tile_offset + of_nat (offx div 8) * step
            in if tile_off \<noteq> 0
               then do {
                 let maxpix = min (8 - tile_off) cnt;
                 buf \<leftarrow> render_obj_part_tile_Nbpp rd is8 hflip vm pal px_comb at tile_off (tile_off + maxpix)
                          tile_offset pn buf;
                 object_tiles rd is8 hflip vm (cnt - maxpix) (at + maxpix) (tile_offset + step) px_comb pn pal buf }
               else object_tiles rd is8 hflip vm cnt at tile_offset px_comb pn pal buf)
      else object_tiles rd is8 hflip vm cnt (at + nat delta_x) tile_offset px_comb pn pal buf)"

definition obj_pixel :: "bool \<Rightarrow> bool \<Rightarrow> bytes \<Rightarrow> u32 \<Rightarrow> nat \<Rightarrow> u8 option" where
  "obj_pixel is8 hflip vm base_tile_offset offx =
     (let tile_ptr = obj_tile_ptr (base_tile_offset + of_nat (offx div 8) * tile_step is8 hflip) in
      if is8 then vbyte vm (tile_ptr + int (if hflip then 7 - offx mod 8 else offx mod 8))
      else if hflip
      then map_option (\<lambda>b. drop_bit ((1 - offx mod 2) * 4) b AND 0xF) (vbyte vm (tile_ptr + int ((7 - offx mod 8) div 2)))
      else map_option (\<lambda>b. drop_bit (offx mod 2 * 4) b AND 0xF) (vbyte vm (tile_ptr + int ((offx mod 8) div 2))))"

definition render_object_mosaic ::
  "rendtype \<Rightarrow> bool \<Rightarrow> bool \<Rightarrow> bytes \<Rightarrow> int \<Rightarrow> nat \<Rightarrow> nat \<Rightarrow> u32 \<Rightarrow> nat \<Rightarrow> u32 \<Rightarrow> u16 \<Rightarrow> palette \<Rightarrow> 'a::len draw" where
  "render_object_mosaic rd is8 hflip vm delta_x cnt at base_tile_offset mosh px_comb pn pal buf =
     (let offx = nat (- delta_x); d = at + nat delta_x; px_attr = obj_attr_of px_comb pn in
      map_option snd (foldo (\<lambda>i (l, buf). do {
        l \<leftarrow> latch True mosh (obj_pixel is8 hflip vm base_tile_offset (offx + i)) l;
        buf \<leftarrow> obj_pix rd pal px_attr (if is8 then unat (fst l) else unat pn + unat (fst l)) (fst l) (d + i) buf;
        Some (latch_next True l, buf) }) [0..<cnt] ((0, 0), buf)))"

section \<open>Scaled and rotated objects\<close>

record t_affp =
  aff_dx :: u16
  aff_dmx :: u16
  aff_dy :: u16
  aff_dmy :: u16

definition affine_params :: "gs \<Rightarrow> nat \<Rightarrow> t_affp option" where
  "affine_params s pnum = do {
     a \<leftarrow> oam16 s (32 * pnum + 6);
     b \<leftarrow> oam16 s (32 * pnum + 14);
     c \<leftarrow> oam16 s (32 * pnum + 22);
     d \<leftarrow> oam16 s (32 * pnum + 30);
     Some \<lparr>aff_dx = a, aff_dmx = b, aff_dy = c, aff_dmy = d\<rparr> }"

definition affine_obj_pixel :: "bool \<Rightarrow> bytes \<Rightarrow> u32 \<Rightarrow> u32 \<Rightarrow> nat \<Rightarrow> nat \<Rightarrow> u8 option" where
  "affine_obj_pixel is8 vm base_tile tile_pitch px py =
     (let off = base_tile + of_nat (py div 8) * tile_pitch + of_nat (px div 8) * (if is8 then 64 else 32)
              + of_nat (py mod 8) * (if is8 then 8 else 4)
              + of_nat (if is8 then px mod 8 else px div 2 mod 4) :: u32
      in map_option (\<lambda>b. if is8 then b else if px mod 2 = 1 then drop_bit 4 b else b AND 0xF)
           (vbyte vm (0x10000 + uint (off AND 0x7FFF))))"

definition render_affine_object ::
  "rendtype \<Rightarrow> bool \<Rightarrow> bool \<Rightarrow> bool \<Rightarrow> gs \<Rightarrow> t_sprite \<Rightarrow> t_affp \<Rightarrow> nat \<Rightarrow> nat \<Rightarrow> nat \<Rightarrow> nat \<Rightarrow> nat \<Rightarrow> u32 \<Rightarrow> u32 \<Rightarrow> u16 \<Rightarrow>
    palette \<Rightarrow> 'a::len draw" where
  "render_affine_object rd mosaic is8 rot s ob aff start stop at mosv mosh base_tile pxcomb pn pal buf =
     (let dx = signed16 (aff_dx aff); dy = signed16 (aff_dy aff);
          dmx = signed16 (aff_dmx aff); dmy = signed16 (aff_dmy aff);
          middle_x = (if is_double ob then obj_w ob else obj_w ob div 2);
          middle_y = (if is_double ob then obj_h ob else obj_h ob div 2);
          obj_width = (if is_double ob then obj_w ob * 2 else obj_w ob);
          obj_height = (if is_double ob then obj_h ob * 2 else obj_h ob);
          vcount = unat (ior s REG_VCOUNT);
          vcount = (if mosaic then vcount - vcount mod mosv else vcount);
          y_delta = int vcount - (obj_y ob + middle_y);
          middle_x = (if obj_x ob < int start then middle_x - (int start - obj_x ob) else middle_x);
          source_x = of_int (obj_w ob * 128) + of_int y_delta * dmx - of_int middle_x * dx;
          source_y = of_int (obj_h ob * 128) + of_int y_delta * dmy - of_int middle_x * dy;
          d_start = max (int start) (obj_x ob);
          d_end = min (int stop) (obj_x ob + obj_width);
          cnt = of_int (d_end - d_start) :: u32;
          tile_pitch = (if ior s REG_DISPCNT AND 0x40 \<noteq> 0 then of_int (obj_w ob div 8) * (if is8 then 64 else 32) else 1024);
          inside = within (nat (obj_w ob)) (nat (obj_h ob))
      in if \<not> rot \<and> nat obj_height \<le> pix_of source_y then Some buf
         else do {
           (cnt, d, source, buf) \<leftarrow> walk_skip inside (walk rot dx dy) (\<lambda>_. Some) (unat cnt) (at + nat d_start) (source_x, source_y) buf;
           (_, _, buf) \<leftarrow> walk_draw inside (walk rot dx dy) mosaic mosh
              (\<lambda>p. affine_obj_pixel is8 (g_vram (mem s)) base_tile tile_pitch (pix_of (fst p)) (pix_of (snd p)))
              (\<lambda>v. obj_pix rd pal (obj_attr_of pxcomb pn) (unat (ucast v OR pn)) v) cnt d source (0, 0) buf;
           Some buf })"

section \<open>One object\<close>

definition mosaic_obj :: "bool \<Rightarrow> nat \<Rightarrow> gs \<Rightarrow> nat" where
  "mosaic_obj mosaic sh s = (if mosaic then unat (drop_bit sh (ior s REG_MOSAIC) AND 0xF) else 0) + 1"

definition plain_sprite ::
  "rendtype \<Rightarrow> bool \<Rightarrow> bool \<Rightarrow> gs \<Rightarrow> t_sprite \<Rightarrow> nat \<Rightarrow> nat \<Rightarrow> nat \<Rightarrow> nat \<Rightarrow> nat \<Rightarrow> u32 \<Rightarrow> u32 \<Rightarrow> u16 \<Rightarrow> palette \<Rightarrow> 'a::len draw" where
  "plain_sprite rd is8 mosaic s ob start stop at mosv mosh base_tile pxcomb pn pal buf =
     (if int stop \<le> obj_x ob \<or> obj_x ob + obj_w ob \<le> int start then Some buf
      else (let hflip = (attr1 ob AND 0x1000 \<noteq> 0);
                vflip = (attr1 ob AND 0x2000 \<noteq> 0);
                vcount = int (unat (ior s REG_VCOUNT));
                voffset = of_int (if vflip then obj_y ob + obj_h ob - vcount - 1 else vcount - obj_y ob) :: u32;
                voffset = (if mosaic then voffset - voffset mod of_nat mosv else voffset);
                tile_bsize = (if is8 then 64 else 32);
                tile_bwidth = (if is8 then 8 else 4);
                obj_pitch = (if ior s REG_DISPCNT AND 0x40 \<noteq> 0 then of_int (obj_w ob div 8) * tile_bsize else 1024);
                hflip_off = (if hflip then (of_int (obj_w ob div 8) - 1) * tile_bsize else 0);
                tile_offset = base_tile + (voffset div 8) * obj_pitch + (voffset mod 8) * tile_bwidth + hflip_off;
                obj_x_offset = obj_x ob - int start;
                clipped_width = (if 0 \<le> obj_x_offset then obj_w ob else obj_w ob + obj_x_offset);
                max_range = (if 0 \<le> obj_x_offset then int stop - obj_x ob else int stop - int start);
                max_draw = nat (min max_range clipped_width)
            in if mosaic \<and> 1 < mosh
               then render_object_mosaic rd is8 hflip (g_vram (mem s)) obj_x_offset max_draw (at + start) tile_offset mosh
                      pxcomb pn pal buf
               else render_object rd is8 hflip (g_vram (mem s)) obj_x_offset max_draw (at + start) tile_offset pxcomb pn pal buf))"

definition render_sprite ::
  "rendtype \<Rightarrow> bool \<Rightarrow> bool \<Rightarrow> gs \<Rightarrow> t_sprite \<Rightarrow> bool \<Rightarrow> nat \<Rightarrow> nat \<Rightarrow> nat \<Rightarrow> u32 \<Rightarrow> palette \<Rightarrow> 'a::len draw" where
  "render_sprite rd is8 mosaic s ob is_affine start stop at pxcomb pal buf =
     (let obj1dmap = (ior s REG_DISPCNT AND 0x40 \<noteq> 0);
          msk = (if is8 \<and> \<not> obj1dmap then 0x3FE else 0x3FF);
          base_tile = ucast (attr2 ob AND msk) * 32;
          mosv = mosaic_obj mosaic 12 s;
          mosh = mosaic_obj mosaic 8 s;
          pn = (if is8 then 0 else drop_bit 8 (attr2 ob) AND 0xF0)
      in if is_affine
         then do {
           aff \<leftarrow> affine_params s (unat (drop_bit 9 (attr1 ob) AND 0x1F));
           render_affine_object rd mosaic is8 (aff_dy aff \<noteq> 0) s ob aff start stop at mosv mosh base_tile pxcomb pn pal buf }
         else plain_sprite rd is8 mosaic s ob start stop at mosv mosh base_tile pxcomb pn pal buf)"

section \<open>The objects of a line\<close>

definition sprite_of :: "gs \<Rightarrow> nat \<Rightarrow> (u16 \<times> t_sprite) option" where
  "sprite_of s objoff = do {
     attr0 \<leftarrow> oam16 s (8 * objoff);
     a1 \<leftarrow> oam16 s (8 * objoff + 2);
     (w, h) \<leftarrow> obj_dim (drop_bit 14 attr0) (drop_bit 14 a1);
     a2 \<leftarrow> oam16 s (8 * objoff + 4);
     let y = uint (attr0 AND 0xFF);
     Some (attr0, \<lparr>obj_x = sint (signed_drop_bit 23 (push_bit 23 (ucast a1 :: u32))),
       obj_y = (if 160 < y then y - 256 else y), obj_w = w, obj_h = h, attr1 = a1, attr2 = a2,
       is_double = (attr0 AND 0x200 \<noteq> 0)\<rparr>) }"

text \<open>
  One object. In the copying mode \<open>below\<close> first draws the interval of the object with the layers
  of the object window, one line further down.
\<close>

definition render_obj ::
  "rendtype \<Rightarrow> (nat \<Rightarrow> nat \<Rightarrow> nat \<Rightarrow> u16 \<Rightarrow> 'a::len draw) \<Rightarrow> gs \<Rightarrow> nat \<Rightarrow> nat \<Rightarrow> nat \<Rightarrow> palette \<Rightarrow> nat \<Rightarrow> 'a draw" where
  "render_obj rd below s start stop at pal objoff buf = do {
     (attr0, ob) \<leftarrow> sprite_of s objoff;
     let is_affine = (attr0 AND 0x100 \<noteq> 0);
     let is_trans = (drop_bit 10 attr0 AND 3 = 1);
     let maxw = (if is_affine \<and> is_double ob then obj_w ob * 2 else obj_w ob);
     if int stop \<le> obj_x ob \<or> obj_x ob + maxw \<le> int start then Some buf
     else do {
       let pxcomb = (if is_trans \<and> rd \<noteq> FULLCOLOR then 0x800 else 0) OR color_flags s 4;
       buf \<leftarrow> (if rd = PIXCOPY
              then below (nat (max (int start) (obj_x ob))) (nat (min (int stop) (obj_x ob + maxw))) (at + GBA_SCREEN_PITCH)
                     (drop_bit 8 (ior s REG_WINOUT)) buf
              else Some buf);
       let mosaic = (attr0 AND 0x1000 \<noteq> 0 \<and> ior s REG_MOSAIC AND 0xFF00 \<noteq> 0);
       render_sprite rd (attr0 AND 0x2000 \<noteq> 0) mosaic s ob is_affine start stop at pxcomb pal buf } }"

definition line_objs :: "gs \<Rightarrow> nat \<Rightarrow> nat list option" where
  "line_objs s priority =
     (let vcount = unat (ior s REG_VCOUNT) in
      if vcount < 160 \<and> priority < 5 then Some (obj_priority_list (g_video (mem s)) priority vcount) else None)"

definition render_scanline_objs ::
  "rendtype \<Rightarrow> (nat \<Rightarrow> nat \<Rightarrow> nat \<Rightarrow> u16 \<Rightarrow> 'a::len draw) \<Rightarrow> gs \<Rightarrow> nat \<Rightarrow> nat \<Rightarrow> nat \<Rightarrow> nat \<Rightarrow> palette \<Rightarrow> 'a draw" where
  "render_scanline_objs rd below s priority start stop at pal buf = do {
     objlist \<leftarrow> line_objs s priority;
     foldo (render_obj rd below s start stop at pal) (rev objlist) buf }"

end
