(* ===== verification/VideoOrder.thy ===== *)
theory VideoOrder
  imports VideoObj
begin

text \<open>
  The lists made before a line is drawn (\<^verbatim>\<open>video.cc\<close>): the objects of each line by priority, as
  many as the hardware has time for, and the layers of the line from back to front.
\<close>

record obj_entry =
  oe_priority :: nat
  oe_start :: nat
  oe_end :: nat
  oe_cycles :: u16
  oe_alpha :: bool

definition REND_CYC_MAX :: u16 where "REND_CYC_MAX = 32768"
definition REND_CYC_SCANLINE :: u16 where "REND_CYC_SCANLINE = 1210"
definition REND_CYC_REDUCED :: u16 where "REND_CYC_REDUCED = 954"

text \<open>The lines an object is listed on, or \<open>None\<close> for one that is not shown.\<close>

definition order_entry :: "gs \<Rightarrow> nat \<Rightarrow> nat \<Rightarrow> obj_entry option option" where
  "order_entry s video_mode obj_num = do {
     attr0 \<leftarrow> oam16 s (8 * obj_num);
     if attr0 AND 0x0300 = 0x0200 then Some None
     else do {
       let shape = drop_bit 14 attr0;
       let mode = drop_bit 10 attr0 AND 3;
       if shape = 3 \<or> mode = 3 then Some None
       else do {
         a2 \<leftarrow> oam16 s (8 * obj_num + 4);
         if 3 \<le> video_mode \<and> a2 AND 0x200 = 0 then Some None
         else do {
           a1 \<leftarrow> oam16 s (8 * obj_num + 2);
           (w, h) \<leftarrow> obj_dim shape (drop_bit 14 a1);
           let y = uint (attr0 AND 0xFF);
           let y = (if 160 < y then y - 256 else y);
           let (w, h) = (if attr0 AND 0x200 \<noteq> 0 then (w * 2, h * 2) else (w, h));
           let x = sint (signed_drop_bit 23 (push_bit 23 (ucast a1 :: u32)));
           if 0 < y + h \<and> y < 160 \<and> 0 < x + w \<and> x < 240
           then Some (Some \<lparr>oe_priority = (if mode = 2 then 4 else unat (drop_bit 10 a2 AND 3)),
                  oe_start = nat (max y 0), oe_end = nat (min (y + h) 160),
                  oe_cycles = (if attr0 AND 0x100 \<noteq> 0 then of_int (10 + w * 2) else of_int w),
                  oe_alpha = (mode = 1)\<rparr>)
           else Some None } } } }"

type_synonym obj_lists = "(nat \<Rightarrow> nat \<Rightarrow> nat list) \<times> (nat \<Rightarrow> nat) \<times> (nat \<Rightarrow> u16)"

text \<open>Adding an object to a line: 5 lists of 128 numbers for each of 160 lines.\<close>

definition list_obj :: "u16 \<Rightarrow> nat \<Rightarrow> obj_entry \<Rightarrow> nat \<Rightarrow> obj_lists \<Rightarrow> obj_lists option" where
  "list_obj max_rend_cycles obj_num e row st =
     (let (lists, alpha, cyc) = st; p = oe_priority e in
      if cyc row < max_rend_cycles
      then if p < 5 \<and> row < 160 \<and> length (lists p row) < 128
           then Some (lists(p := (lists p)(row := lists p row @ [obj_num])),
                      if oe_alpha e then alpha(row := 1) else alpha,
                      cyc(row := cyc row + oe_cycles e))
           else None
      else Some st)"

definition list_objs :: "gs \<Rightarrow> nat \<Rightarrow> u16 \<Rightarrow> nat \<Rightarrow> obj_lists \<Rightarrow> obj_lists option" where
  "list_objs s video_mode max_rend_cycles obj_num st = do {
     e \<leftarrow> order_entry s video_mode obj_num;
     case e of None \<Rightarrow> Some st
     | Some e \<Rightarrow> foldo (list_obj max_rend_cycles obj_num e) [oe_start e..<oe_end e] st }"

definition max_cycles :: "gs \<Rightarrow> u16" where
  "max_cycles s =
     (if \<not> sprite_limit (g_video (mem s)) then REND_CYC_MAX
      else if ior s REG_DISPCNT AND 0x20 \<noteq> 0 then REND_CYC_REDUCED else REND_CYC_SCANLINE)"

definition order_obj :: "nat \<Rightarrow> gs \<Rightarrow> gs option" where
  "order_obj video_mode s = do {
     (lists, alpha, _) \<leftarrow> foldo (list_objs s video_mode (max_cycles s)) [0..<128] (\<lambda>_ _. [], \<lambda>_. 0, \<lambda>_. 0);
     Some (upd (\<lambda>m. m\<lparr>g_video := (g_video m)\<lparr>obj_priority_list := lists, obj_alpha_count := alpha\<rparr>\<rparr>) s) }"

section \<open>Layers\<close>

text \<open>The number of a background, or 4 and the priority for objects.\<close>

definition priority_layers :: "gs \<Rightarrow> u16 \<Rightarrow> nat \<Rightarrow> nat \<Rightarrow> nat list" where
  "priority_layers s layer_flags vcnt priority =
     filter (\<lambda>lnum. bit layer_flags lnum \<and> unat (ior s (REG_BGxCNT lnum) AND 3) = priority) [3, 2, 1, 0]
     @ (if layer_flags AND 0x10 \<noteq> 0 \<and> obj_priority_list (g_video (mem s)) priority vcnt \<noteq> []
        then [4 + priority] else [])"

text \<open>\<open>None\<close> is a line without object lists or more layers than the array has room for.\<close>

definition order_layers :: "u16 \<Rightarrow> nat \<Rightarrow> gs \<Rightarrow> nat list option" where
  "order_layers layer_flags vcnt s =
     (let ls = concat (map (priority_layers s layer_flags vcnt) [3, 2, 1, 0])
      in if vcnt < 160 \<and> length ls \<le> 16 then Some ls else None)"

end
