(* ===== verification/VideoBlend.thy ===== *)
theory VideoBlend
  imports VideoText
begin

text \<open>
  Colour effects (\<^verbatim>\<open>video.cc\<close>): two pixels blended, brightened or darkened, and the backdrop. A
  colour of 5, 6 and 5 bits is spread over a word of 32 bits so that a multiplication does not
  carry from one channel into the next.
\<close>

definition OVFG_MSK :: u32 where "OVFG_MSK = 0x08000000"
definition OVFR_MSK :: u32 where "OVFR_MSK = 0x00010000"
definition OVFB_MSK :: u32 where "OVFB_MSK = 0x00000020"
definition SATG_MSK :: u32 where "SATG_MSK = 0x07E00000"
definition SATR_MSK :: u32 where "SATR_MSK = 0x0000F800"
definition SATB_MSK :: u32 where "SATB_MSK = 0x0000001F"
definition BLND_MSK :: u32 where "BLND_MSK = SATR_MSK OR SATG_MSK OR SATB_MSK"

datatype blendtype = OBJ_BLEND | BLEND_ONLY | BLEND_BRIGHT | BLEND_DARK

definition spread_color :: "u16 \<Rightarrow> u32" where
  "spread_color p = (ucast p OR push_bit 16 (ucast p)) AND BLND_MSK"

definition join_color :: "u32 \<Rightarrow> u16" where
  "join_color e = ucast (drop_bit 16 e OR e)"

definition factor :: "u16 \<Rightarrow> nat \<Rightarrow> u32" where
  "factor v sh = min 16 (drop_bit sh (ucast v) AND 0x1F)"

definition saturate :: "u32 \<Rightarrow> u32" where
  "saturate pfe =
     (if pfe AND (OVFR_MSK OR OVFG_MSK OR OVFB_MSK) \<noteq> 0
      then (let pfe = (if pfe AND OVFG_MSK \<noteq> 0 then pfe OR SATG_MSK else pfe);
                pfe = (if pfe AND OVFR_MSK \<noteq> 0 then pfe OR SATR_MSK else pfe)
            in if pfe AND OVFB_MSK \<noteq> 0 then pfe OR SATB_MSK else pfe)
      else pfe)"

definition blend_colors :: "bool \<Rightarrow> u32 \<Rightarrow> u32 \<Rightarrow> u16 \<Rightarrow> u16 \<Rightarrow> u16" where
  "blend_colors can_saturate a b p1 p2 =
     (let pfe = drop_bit 4 (spread_color p1 * a + spread_color p2 * b)
      in join_color ((if can_saturate then saturate pfe else pfe) AND BLND_MSK))"

definition fade_color :: "bool \<Rightarrow> u32 \<Rightarrow> u16 \<Rightarrow> u16" where
  "fade_color dark f p =
     (let pa = (if dark then 0 else drop_bit 4 (BLND_MSK * f) AND BLND_MSK);
          pb = drop_bit 4 (spread_color p * (16 - f)) AND BLND_MSK
      in join_color ((pa + pb) AND BLND_MSK))"

definition pal_index :: "u32 \<Rightarrow> nat" where "pal_index v = unat (v AND 0x1FF)"

text \<open>The two pixels of a stacked word become one.\<close>

definition merge_pixel :: "blendtype \<Rightarrow> bool \<Rightarrow> gs \<Rightarrow> u32 \<Rightarrow> u16 option" where
  "merge_pixel bld st_objs s pixpair = do {
     let pal = palette_at 0 s;
     let brightf = factor (ior s REG_BLDY) 0;
     let a = factor (ior s REG_BLDALPHA) 0;
     let b = factor (ior s REG_BLDALPHA) 8;
     let force_blend = (pixpair AND 0x04000800 = 0x04000800);
     let do_blend = (pixpair AND 0x04000200 = 0x04000200);
     p1 \<leftarrow> pal (pal_index pixpair);
     if st_objs \<and> force_blend \<or> do_blend \<and> bld = BLEND_ONLY
     then do { p2 \<leftarrow> pal (pal_index (drop_bit 16 pixpair)); Some (blend_colors (16 < a + b) a b p1 p2) }
     else if (bld = BLEND_DARK \<or> bld = BLEND_BRIGHT) \<and> pixpair AND 0x200 = 0x200
     then Some (fade_color (bld = BLEND_DARK) brightf p1)
     else Some p1 }"

definition merge_blend :: "blendtype \<Rightarrow> bool \<Rightarrow> gs \<Rightarrow> nat \<Rightarrow> nat \<Rightarrow> nat \<Rightarrow> u32 list \<Rightarrow> 16 draw" where
  "merge_blend bld st_objs s start stop at src =
     foldo (\<lambda>i buf. do {
       pixpair \<leftarrow> arr_get src i;
       c \<leftarrow> merge_pixel bld st_objs s pixpair;
       arr_set buf (at + i) c }) [start..<stop]"

definition merge_brightness :: "blendtype \<Rightarrow> gs \<Rightarrow> nat \<Rightarrow> nat \<Rightarrow> nat \<Rightarrow> 16 draw" where
  "merge_brightness bld s start stop at =
     foldo (\<lambda>i buf. do {
       spix \<leftarrow> arr_get buf (at + i);
       pixcol \<leftarrow> palette_at 0 s (pal_index (ucast spix));
       arr_set buf (at + i)
         (if spix AND 0x200 = 0x200 then fade_color (bld = BLEND_DARK) (factor (ior s REG_BLDY) 0) pixcol else pixcol) })
       [start..<stop]"

section \<open>Backdrop\<close>

definition fill_line_background :: "rendtype \<Rightarrow> gs \<Rightarrow> nat \<Rightarrow> nat \<Rightarrow> nat \<Rightarrow> 'a::len draw" where
  "fill_line_background rd s start stop at buf = do {
     bgcol \<leftarrow> palette_at 0 s 0;
     foldo (\<lambda>i buf. arr_set buf (at + i) (if rd = FULLCOLOR then ucast bgcol else ucast (color_flags s 5)))
       [start..<stop] buf }"

definition backdrop_color :: "gs \<Rightarrow> u16 \<Rightarrow> u16" where
  "backdrop_color s pixcol =
     (let bldcnt = ior s REG_BLDCNT;
          effect = drop_bit 6 bldcnt AND 3;
          f = factor (ior s REG_BLDY) 0
      in if bldcnt AND 0x20 \<noteq> 0 \<and> effect = 2 then fade_color False f pixcol
         else if bldcnt AND 0x20 \<noteq> 0 \<and> effect = 3 then fade_color True f pixcol
         else pixcol)"

definition render_backdrop :: "gs \<Rightarrow> nat \<Rightarrow> nat \<Rightarrow> nat \<Rightarrow> 16 draw" where
  "render_backdrop s start stop at buf = do {
     pixcol \<leftarrow> palette_at 0 s 0;
     foldo (\<lambda>i buf. arr_set buf (at + i) (backdrop_color s pixcol)) [start..<stop] buf }"

end
