(* ===== verification/VideoLine.thy ===== *)
theory VideoLine
  imports VideoOrder VideoBlend
begin

text \<open>
  A whole line (\<^verbatim>\<open>video.cc\<close>): the layers in tile and bitmap modes, the colour effects, the
  windows and \<open>update_scanline\<close>. \<open>layers\<close> is the array \<^verbatim>\<open>layer_order\<close> up to \<^verbatim>\<open>layer_count\<close>; \<open>at\<close> is
  the place of the line in the buffer, 0 for a buffer of one line.
\<close>

definition no_copy :: "nat \<Rightarrow> nat \<Rightarrow> nat \<Rightarrow> u16 \<Rightarrow> 'a::len draw" where
  "no_copy st sp at flags = Some"

section \<open>Tile modes\<close>

definition obj_first_target :: "gs \<Rightarrow> bool" where
  "obj_first_target s \<longleftrightarrow> drop_bit 4 (ior s REG_BLDCNT) AND 1 \<noteq> 0"

definition alpha_objs :: "gs \<Rightarrow> bool" where
  "alpha_objs s \<longleftrightarrow> obj_alpha_count (g_video (mem s)) (unat (ior s REG_VCOUNT)) \<noteq> 0"

text \<open>Stacking can be left out for a layer that is never blended.\<close>

definition stack_mode :: "rendtype \<Rightarrow> gs \<Rightarrow> bool \<Rightarrow> rendtype" where
  "stack_mode rd s first_target =
     (if rd = STCKCOLOR \<and> \<not> alpha_objs s \<and> \<not> first_target then INDXCOLOR else rd)"

definition render_tile_layer ::
  "rendtype \<Rightarrow> rendtype \<Rightarrow> gs \<Rightarrow> nat \<Rightarrow> nat \<Rightarrow> nat \<Rightarrow> u16 \<Rightarrow> nat \<Rightarrow> bool \<times> 'a::len word list \<Rightarrow> (bool \<times> 'a word list) option" where
  "render_tile_layer bgmode objmode s start stop at enabled layer x = do {
     let (base_done, buf) = x;
     let video_mode = unat (ior s REG_DISPCNT AND 7);
     let is_obj = (4 \<le> layer);
     if is_obj \<and> enabled AND 0x10 \<noteq> 0
     then do {
       buf \<leftarrow> (if \<not> base_done then fill_line_background bgmode s start stop at buf else Some buf);
       buf \<leftarrow> render_scanline_objs (stack_mode objmode s (obj_first_target s)) no_copy s (layer mod 4) start stop at
                (palette_at 0x100 s) buf;
       Some (True, buf) }
     else if \<not> is_obj \<and> bit enabled layer
     then do {
       let rd = stack_mode bgmode s (drop_bit layer (ior s REG_BLDCNT) AND 1 \<noteq> 0);
       let is_affine = (1 \<le> video_mode \<and> 2 \<le> layer);
       buf \<leftarrow> (if is_affine then render_scanline_affine rd (\<not> base_done) s layer start stop at (palette_at 0 s) buf
              else render_scanline_text rd (\<not> base_done) s layer start stop at (palette_at 0 s) buf);
       Some (True, buf) }
     else Some (base_done, buf) }"

definition tile_render_layers ::
  "rendtype \<Rightarrow> rendtype \<Rightarrow> gs \<Rightarrow> nat list \<Rightarrow> nat \<Rightarrow> nat \<Rightarrow> nat \<Rightarrow> u16 \<Rightarrow> 'a::len draw" where
  "tile_render_layers bgmode objmode s layers start stop at enabled buf = do {
     (base_done, buf) \<leftarrow> foldo (render_tile_layer bgmode objmode s start stop at enabled) layers (False, buf);
     if \<not> base_done then fill_line_background bgmode s start stop at buf else Some buf }"

section \<open>Bitmap modes\<close>

definition bitmap_layer ::
  "rendtype \<Rightarrow> bm_rendmode \<Rightarrow> bool \<Rightarrow> gs \<Rightarrow> nat \<Rightarrow> nat \<Rightarrow> nat \<Rightarrow> palette \<Rightarrow> 'a::len draw" where
  "bitmap_layer rd rdmode mosaic s start stop at pal buf =
     (let mode = unat (ior s REG_DISPCNT AND 7) in
      if mode = 3 then render_scanline_bitmap rd 3 True 240 160 rdmode mosaic s start stop at pal buf
      else if mode = 4 then render_scanline_bitmap rd 4 False 240 160 rdmode mosaic s start stop at pal buf
      else if mode = 5 then render_scanline_bitmap rd 5 True 160 128 rdmode mosaic s start stop at pal buf
      else None)"

definition render_bitmap_layer ::
  "rendtype \<Rightarrow> rendtype \<Rightarrow> gs \<Rightarrow> nat \<Rightarrow> nat \<Rightarrow> nat \<Rightarrow> u16 \<Rightarrow> nat \<Rightarrow> 'a::len draw" where
  "render_bitmap_layer bgmode objmode s start stop at enabled layer buf =
     (if 4 \<le> layer
      then (if enabled AND 0x10 \<noteq> 0
            then render_scanline_objs (stack_mode objmode s (obj_first_target s)) no_copy s (layer mod 4) start stop at
                   (palette_at 0x100 s) buf
            else Some buf)
      else if enabled AND 0x04 \<noteq> 0
      then (let dx = ior s REG_BG2PA; dy = ior s REG_BG2PC;
                rd = stack_mode bgmode s (ior s REG_BLDCNT AND 4 \<noteq> 0);
                mosaic = (ior s REG_BG2CNT AND 0x40 \<noteq> 0 \<and> ior s REG_MOSAIC AND 0xFF \<noteq> 0);
                rdmode = (if dy \<noteq> 0 then ROTATED else if dx = 256 then BLIT else SCALED)
            in bitmap_layer rd rdmode mosaic s start stop at (palette_at 0 s) buf)
      else Some buf)"

definition bitmap_render_layers ::
  "rendtype \<Rightarrow> rendtype \<Rightarrow> gs \<Rightarrow> nat list \<Rightarrow> nat \<Rightarrow> nat \<Rightarrow> nat \<Rightarrow> u16 \<Rightarrow> 'a::len draw" where
  "bitmap_render_layers bgmode objmode s layers start stop at enabled buf = do {
     buf \<leftarrow> fill_line_background bgmode s start stop at buf;
     foldo (render_bitmap_layer bgmode objmode s start stop at enabled) layers buf }"

section \<open>Effects\<close>

type_synonym 'a layers_draw = "gs \<Rightarrow> nat list \<Rightarrow> nat \<Rightarrow> nat \<Rightarrow> nat \<Rightarrow> u16 \<Rightarrow> 'a draw"

record layer_render =
  fullcolor :: "16 layers_draw"
  indexed_u16 :: "16 layers_draw"
  indexed_u32 :: "32 layers_draw"
  stacked :: "32 layers_draw"

definition tile_mode_renderers :: layer_render where
  "tile_mode_renderers =
     \<lparr>fullcolor = tile_render_layers FULLCOLOR FULLCOLOR, indexed_u16 = tile_render_layers INDXCOLOR INDXCOLOR,
      indexed_u32 = tile_render_layers INDXCOLOR STCKCOLOR, stacked = tile_render_layers STCKCOLOR STCKCOLOR\<rparr>"

definition bitmap_mode_renderers :: layer_render where
  "bitmap_mode_renderers =
     \<lparr>fullcolor = bitmap_render_layers FULLCOLOR FULLCOLOR, indexed_u16 = bitmap_render_layers INDXCOLOR INDXCOLOR,
      indexed_u32 = bitmap_render_layers INDXCOLOR STCKCOLOR, stacked = bitmap_render_layers STCKCOLOR STCKCOLOR\<rparr>"

text \<open>Drawing through the buffer of one line on the stack.\<close>

definition through_stack :: "32 layers_draw \<Rightarrow> blendtype \<Rightarrow> bool \<Rightarrow> 16 layers_draw" where
  "through_stack render bld st_objs s layers start stop at flags buf = do {
     tmp_buf \<leftarrow> render s layers start stop 0 flags (stack_line (g_video (mem s)));
     merge_blend bld st_objs s start stop at tmp_buf buf }"

definition render_plain :: "layer_render \<Rightarrow> 16 layers_draw" where
  "render_plain r s layers start stop at flags =
     (if alpha_objs s then through_stack (stacked r) OBJ_BLEND True s layers start stop at flags
      else fullcolor r s layers start stop at flags)"

definition render_fade :: "blendtype \<Rightarrow> layer_render \<Rightarrow> 16 layers_draw" where
  "render_fade bld r s layers start stop at flags buf =
     (if ior s REG_BLDCNT AND 0x3F \<noteq> 0 \<and> ior s REG_BLDY AND 0x1F \<noteq> 0
      then if alpha_objs s then through_stack (indexed_u32 r) bld True s layers start stop at flags buf
           else do { buf \<leftarrow> indexed_u16 r s layers start stop at flags buf; merge_brightness bld s start stop at buf }
      else render_plain r s layers start stop at flags buf)"

definition render_blend :: "layer_render \<Rightarrow> 16 layers_draw" where
  "render_blend r s layers start stop at flags =
     (if ior s REG_BLDCNT AND 0x3F \<noteq> 0 \<and> ior s REG_BLDCNT AND 0x3F00 \<noteq> 0 \<and> ior s REG_BLDALPHA AND 0x1F1F \<noteq> 0x001F
      then through_stack (stacked r) BLEND_ONLY (alpha_objs s) s layers start stop at flags
      else render_plain r s layers start stop at flags)"

definition render_w_effects :: "layer_render \<Rightarrow> 16 layers_draw" where
  "render_w_effects r s layers start stop at flags =
     (let effect_type = (if flags AND 0x20 \<noteq> 0 then drop_bit 6 (ior s REG_BLDCNT) AND 3 else 0) in
      if effect_type = 2 then render_fade BLEND_BRIGHT r s layers start stop at flags
      else if effect_type = 3 then render_fade BLEND_DARK r s layers start stop at flags
      else if effect_type = 1 then render_blend r s layers start stop at flags
      else render_plain r s layers start stop at flags)"

definition render_scanline_conditional :: "16 layers_draw" where
  "render_scanline_conditional s layers start stop at flags =
     (let video_mode = unat (ior s REG_DISPCNT AND 7) in
      if layers \<noteq> [] \<and> flags AND 0x1F \<noteq> 0
      then if video_mode < 3 then render_w_effects tile_mode_renderers s layers start stop at flags
           else if video_mode = 4 then render_w_effects bitmap_mode_renderers s layers start stop at flags
           else fullcolor bitmap_mode_renderers s layers start stop at flags
      else render_backdrop s start stop at)"

section \<open>Windows\<close>

type_synonym pass = "gs \<Rightarrow> nat list \<Rightarrow> nat \<Rightarrow> nat \<Rightarrow> nat \<Rightarrow> 16 draw"

definition render_windowout_pass :: pass where
  "render_windowout_pass s layers at start stop =
     render_scanline_conditional s layers start stop at (ior s REG_WINOUT AND 0x3F)"

definition render_windowobj_pass :: pass where
  "render_windowobj_pass s layers at start stop buf = do {
     buf \<leftarrow> render_scanline_conditional s layers start stop at (ior s REG_WINOUT AND 0x3F) buf;
     render_scanline_objs PIXCOPY (render_scanline_conditional s layers) s 4 start stop at (\<lambda>_. None) buf }"

definition in_window_y :: "nat \<Rightarrow> nat \<Rightarrow> nat \<Rightarrow> bool" where
  "in_window_y vcount wtop wbottom =
     (if 227 < wtop then False
      else if 227 < wbottom then True
      else if wbottom < wtop then wtop < vcount \<or> vcount \<le> wbottom
      else wtop \<le> vcount \<and> vcount < wbottom)"

definition render_window_n_pass :: "pass \<Rightarrow> nat \<Rightarrow> pass" where
  "render_window_n_pass outfn winnum s layers at start stop buf =
     (let vcount = unat (ior s REG_VCOUNT);
          win_top = unat (drop_bit 8 (ior s (REG_WINxV winnum)));
          win_bot = unat (ior s (REG_WINxV winnum) AND 0xFF);
          win_lraw = unat (drop_bit 8 (ior s (REG_WINxH winnum)));
          win_rraw = unat (ior s (REG_WINxH winnum) AND 0xFF);
          win_l = max start (min stop win_lraw);
          win_r = max start (min stop win_rraw)
      in if \<not> in_window_y vcount win_top win_bot \<or> win_lraw = win_rraw then outfn s layers at start stop buf
         else (let enable = drop_bit (8 * winnum) (ior s REG_WININ) AND 0x3F;
                   inside = (\<lambda>l r. render_scanline_conditional s layers l r at enable) in
           if win_lraw < win_rraw
           then do {
             buf \<leftarrow> (if win_l \<noteq> start then outfn s layers at start win_l buf else Some buf);
             buf \<leftarrow> inside win_l win_r buf;
             if win_r \<noteq> stop then outfn s layers at win_r stop buf else Some buf }
           else do {
             buf \<leftarrow> (if win_r \<noteq> start then inside start win_r buf else Some buf);
             buf \<leftarrow> outfn s layers at win_r win_l buf;
             if win_l \<noteq> stop then inside win_l stop buf else Some buf }))"

definition window_pass :: "nat \<Rightarrow> pass" where
  "window_pass win_ctrl =
     (if win_ctrl = 0 then (\<lambda>s layers at start stop. render_scanline_conditional s layers start stop at 0x3F)
      else if win_ctrl = 1 then render_window_n_pass render_windowout_pass 0
      else if win_ctrl = 2 then render_window_n_pass render_windowout_pass 1
      else if win_ctrl = 3 then render_window_n_pass (render_window_n_pass render_windowout_pass 1) 0
      else if win_ctrl = 4 then render_windowobj_pass
      else if win_ctrl = 5 then render_window_n_pass render_windowobj_pass 0
      else if win_ctrl = 6 then render_window_n_pass render_windowobj_pass 1
      else render_window_n_pass (render_window_n_pass render_windowobj_pass 1) 0)"

definition render_scanline_window :: "gs \<Rightarrow> nat list \<Rightarrow> nat \<Rightarrow> 16 draw" where
  "render_scanline_window s layers at = window_pass (unat (drop_bit 13 (ior s REG_DISPCNT))) s layers at 0 240"

section \<open>The line\<close>

definition active_layers :: "u16 list" where
  "active_layers = [0x1F, 0x17, 0x1C, 0x14, 0x14, 0x14, 0, 0]"

definition sort_objs :: "gs \<Rightarrow> gs option" where
  "sort_objs s =
     (if reg s OAM_UPDATED \<noteq> 0
      then map_option (set_reg OAM_UPDATED 0) (order_obj (unat (ior s REG_DISPCNT AND 7)) s)
      else Some s)"

definition draw_line :: "gs \<Rightarrow> gs option" where
  "draw_line s = do {
     let dispcnt = ior s REG_DISPCNT;
     let at = unat (ior s REG_VCOUNT) * GBA_SCREEN_PITCH;
     layers \<leftarrow> order_layers (drop_bit 8 dispcnt AND active_layers ! unat (dispcnt AND 7)) (unat (ior s REG_VCOUNT)) s;
     screen \<leftarrow> (if dispcnt AND 0x80 \<noteq> 0 then arr_blit (gba_screen_pixels (g_video (mem s))) at (replicate 240 0xFFFF)
               else render_scanline_window s layers at (gba_screen_pixels (g_video (mem s))));
     Some (upd (\<lambda>m. m\<lparr>g_video := (g_video m)\<lparr>gba_screen_pixels := screen\<rparr>\<rparr>) s) }"

text \<open>What a line adds to the reference point of a background; with mosaic it is added after the last line of a block.\<close>

definition affine_advance :: "gs \<Rightarrow> nat \<Rightarrow> u16 \<Rightarrow> u32" where
  "affine_advance s cnt delta =
     (let mosv = (drop_bit 4 (ior s REG_MOSAIC) AND 0xF) + 1; vcount = ior s REG_VCOUNT in
      if ior s cnt AND 0x40 \<noteq> 0
      then if vcount mod mosv = mosv - 1 then signed16 delta * ucast mosv else 0
      else signed16 delta)"

definition advance_references :: "gs \<Rightarrow> gs" where
  "advance_references s =
     (let (x2, x3) = g_affine_x (mem s); (y2, y3) = g_affine_y (mem s) in
      upd (\<lambda>m. m\<lparr>g_affine_x := (x2 + affine_advance s REG_BG2CNT (ior s REG_BG2PB), x3 + affine_advance s REG_BG3CNT (ior s REG_BG3PB)),
                 g_affine_y := (y2 + affine_advance s REG_BG2CNT (ior s REG_BG2PD), y3 + affine_advance s REG_BG3CNT (ior s REG_BG3PD))\<rparr>) s)"

definition update_scanline :: "gs \<Rightarrow> gs option" where
  "update_scanline s =
     (if skip_next_frame (g_video (mem s)) \<noteq> 0 then Some s
      else do {
        s \<leftarrow> sort_objs s;
        s \<leftarrow> draw_line s;
        Some (if ior s REG_DISPCNT AND 7 \<noteq> 0 then advance_references s else s) })"

end
