(* ===== verification/VideoOrderProps.thy ===== *)
theory VideoOrderProps
  imports VideoOrder
begin

text \<open>
  The object lists against a reading of the object memory line by line: \<open>order_obj\<close> goes through
  the objects and adds each to all of its lines; the hardware goes through the objects of one
  line until its time is up. Both give the same lists, which never outgrow their arrays.
\<close>

definition line_entry :: "gs \<Rightarrow> nat \<Rightarrow> nat \<Rightarrow> nat \<Rightarrow> obj_entry option" where
  "line_entry s video_mode r n =
     (case order_entry s video_mode n of
        Some (Some e) \<Rightarrow> if oe_start e \<le> r \<and> r < oe_end e then Some e else None
      | _ \<Rightarrow> None)"

text \<open>One object of the line: the objects taken so far and the cycles they need.\<close>

definition line_step :: "gs \<Rightarrow> nat \<Rightarrow> nat \<Rightarrow> nat \<Rightarrow> nat list \<times> u16 \<Rightarrow> nat list \<times> u16" where
  "line_step s video_mode r n st =
     (case line_entry s video_mode r n of
        None \<Rightarrow> st
      | Some e \<Rightarrow> if snd st < max_cycles s then (fst st @ [n], snd st + oe_cycles e) else st)"

definition line_scan :: "gs \<Rightarrow> nat \<Rightarrow> nat \<Rightarrow> nat \<Rightarrow> nat list \<times> u16" where
  "line_scan s video_mode r k = fold (line_step s video_mode r) [0..<k] ([], 0)"

definition has_priority :: "gs \<Rightarrow> nat \<Rightarrow> nat \<Rightarrow> nat \<Rightarrow> bool" where
  "has_priority s video_mode p n \<longleftrightarrow>
     (case order_entry s video_mode n of Some (Some e) \<Rightarrow> oe_priority e = p | _ \<Rightarrow> False)"

definition has_alpha :: "gs \<Rightarrow> nat \<Rightarrow> nat \<Rightarrow> bool" where
  "has_alpha s video_mode n \<longleftrightarrow>
     (case order_entry s video_mode n of Some (Some e) \<Rightarrow> oe_alpha e | _ \<Rightarrow> False)"

section \<open>One object\<close>

lemma list_obj_rows:
  assumes "distinct rows" "\<forall>r \<in> set rows. r < 160 \<and> length (L (oe_priority e) r) < 128" "oe_priority e < 5"
  shows "foldo (list_obj mc n e) rows (L, alpha, cyc) =
    Some (\<lambda>p r. if p = oe_priority e \<and> r \<in> set rows \<and> cyc r < mc then L p r @ [n] else L p r,
          \<lambda>r. if oe_alpha e \<and> r \<in> set rows \<and> cyc r < mc then 1 else alpha r,
          \<lambda>r. if r \<in> set rows \<and> cyc r < mc then cyc r + oe_cycles e else cyc r)"
  using assms
proof (induction rows arbitrary: L alpha cyc)
  case (Cons r rows)
  show ?case
  proof (cases "cyc r < mc")
    case False
    then have "foldo (list_obj mc n e) (r # rows) (L, alpha, cyc) = foldo (list_obj mc n e) rows (L, alpha, cyc)"
      by (simp add: list_obj_def)
    also have "\<dots> = Some (\<lambda>p r. if p = oe_priority e \<and> r \<in> set rows \<and> cyc r < mc then L p r @ [n] else L p r,
          \<lambda>r. if oe_alpha e \<and> r \<in> set rows \<and> cyc r < mc then 1 else alpha r,
          \<lambda>r. if r \<in> set rows \<and> cyc r < mc then cyc r + oe_cycles e else cyc r)"
      using Cons.prems by (intro Cons.IH) auto
    finally show ?thesis using False by (auto simp: fun_eq_iff)
  next
    case True
    let ?l = "L(oe_priority e := (L (oe_priority e))(r := L (oe_priority e) r @ [n]))"
    let ?a = "if oe_alpha e then alpha(r := 1) else alpha"
    let ?c = "cyc(r := cyc r + oe_cycles e)"
    have "foldo (list_obj mc n e) (r # rows) (L, alpha, cyc) = foldo (list_obj mc n e) rows (?l, ?a, ?c)"
      using True Cons.prems by (simp add: list_obj_def Let_def)
    also have "\<dots> = Some (\<lambda>p r. if p = oe_priority e \<and> r \<in> set rows \<and> ?c r < mc then ?l p r @ [n] else ?l p r,
          \<lambda>r. if oe_alpha e \<and> r \<in> set rows \<and> ?c r < mc then 1 else ?a r,
          \<lambda>r. if r \<in> set rows \<and> ?c r < mc then ?c r + oe_cycles e else ?c r)"
      using Cons.prems by (intro Cons.IH) auto
    finally show ?thesis using True Cons.prems(1) by (auto simp: fun_eq_iff)
  qed
qed (auto simp: fun_eq_iff)

lemma oam16_inside: "i + 2 \<le> 1024 \<Longrightarrow> \<exists>v. oam16 s i = Some v"
proof -
  assume "i + 2 \<le> 1024"
  moreover from this have "unat (of_nat i :: u32) = i" by (simp add: unsigned_of_nat take_bit_nat_eq_self)
  ultimately show ?thesis by (simp add: oam16_def readaddress_def w_bytes_def)
qed

lemma obj_dim_Some:
  assumes "shape \<noteq> 3" "shape = drop_bit 14 a"
  shows "\<exists>w h. obj_dim shape (drop_bit 14 b) = Some (w, h)"
proof -
  have less: "unat (drop_bit 14 v) < 4" for v :: u16
    using unsigned_less [of v, where 'a = nat] by (simp only: unat_drop_bit_eq) (simp add: drop_bit_eq_div)
  have "unat shape \<noteq> 3" using assms(1) by (auto simp: word_unat_eq_iff)
  moreover have "unat shape < 4" using less [of a] assms(2) by simp
  ultimately have "unat shape < 3" by presburger
  then have "arr_get obj_dim_table (unat shape) = Some (obj_dim_table ! unat shape)" "length (obj_dim_table ! unat shape) = 4"
    by (auto simp: obj_dim_table_def nth_Cons numeral_eq_Suc less_Suc_eq)
  then show ?thesis using less [of b] by (simp add: obj_dim_def)
qed

lemma order_entry_total: "n < 128 \<Longrightarrow> \<exists>e. order_entry s video_mode n = Some e"
proof -
  assume "n < 128"
  then obtain a b c where "oam16 s (8 * n) = Some a" "oam16 s (8 * n + 2) = Some b" "oam16 s (8 * n + 4) = Some c"
    using oam16_inside [of "8 * n" s] oam16_inside [of "8 * n + 2" s] oam16_inside [of "8 * n + 4" s] by auto
  moreover obtain w h where "drop_bit 14 a \<noteq> 3 \<longrightarrow> obj_dim (drop_bit 14 a) (drop_bit 14 b) = Some (w, h)"
    using obj_dim_Some [of "drop_bit 14 a" a b] by blast
  ultimately show ?thesis by (auto simp: order_entry_def Let_def)
qed

lemma order_entry_bounds:
  assumes "order_entry s video_mode n = Some (Some e)"
  shows "oe_priority e < 5" "oe_end e \<le> 160" "sprite_of s n \<noteq> None"
proof -
  have "unat (w AND 3) < 5" for w :: u16
    using word_and_le1 [of w 3] by (simp add: word_le_nat_alt)
  with assms show "oe_priority e < 5" "oe_end e \<le> 160" "sprite_of s n \<noteq> None"
    by (auto simp: order_entry_def sprite_of_def Let_def split: Option.bind_splits if_splits)
qed

section \<open>All objects\<close>

lemma line_scan_0 [simp]: "line_scan s v r 0 = ([], 0)"
  by (simp add: line_scan_def)

lemma line_scan_Suc [simp]: "line_scan s v r (Suc k) = line_step s v r k (line_scan s v r k)"
  by (simp add: line_scan_def)

lemma line_scan_less: "n \<in> set (fst (line_scan s v r k)) \<Longrightarrow> n < k"
  by (induction k) (auto simp: line_step_def split: option.splits if_splits)

lemma line_scan_entry: "n \<in> set (fst (line_scan s v r k)) \<Longrightarrow> line_entry s v r n \<noteq> None"
  by (induction k) (auto simp: line_step_def split: option.splits if_splits)

lemma line_scan_sorted: "sorted_wrt (<) (fst (line_scan s v r k))"
  by (induction k) (auto simp: line_step_def sorted_wrt_append dest: line_scan_less split: option.splits if_splits)

lemma line_scan_length: "length (fst (line_scan s v r k)) \<le> k"
  by (induction k) (auto simp: line_step_def split: option.splits if_splits)

text \<open>The lists after the first \<open>k\<close> objects.\<close>

definition lists_after :: "gs \<Rightarrow> nat \<Rightarrow> nat \<Rightarrow> obj_lists" where
  "lists_after s v k =
     (\<lambda>p r. if r < 160 then filter (has_priority s v p) (fst (line_scan s v r k)) else [],
      \<lambda>r. if r < 160 \<and> (\<exists>n \<in> set (fst (line_scan s v r k)). has_alpha s v n) then 1 else 0,
      \<lambda>r. if r < 160 then snd (line_scan s v r k) else 0)"

lemma lists_after_Suc:
  assumes "k < 128"
  shows "list_objs s v (max_cycles s) k (lists_after s v k) = Some (lists_after s v (Suc k))"
proof -
  obtain e where e: "order_entry s v k = Some e" using order_entry_total [OF assms] by blast
  show ?thesis
  proof (cases e)
    case None
    then have "line_entry s v r k = None" for r by (simp add: line_entry_def e)
    then show ?thesis by (auto simp: list_objs_def e None lists_after_def line_step_def fun_eq_iff)
  next
    case (Some x)
    have bounds: "oe_priority x < 5" "oe_end x \<le> 160" using order_entry_bounds e Some by blast+
    have entry: "line_entry s v r k = (if oe_start x \<le> r \<and> r < oe_end x then Some x else None)" for r
      by (simp add: line_entry_def e Some)
    have "length (filter (has_priority s v p) (fst (line_scan s v r k))) < 128" for p r
      using le_trans [OF length_filter_le line_scan_length, of "has_priority s v p" s v r k] assms by linarith
    then show ?thesis
      unfolding list_objs_def e Some lists_after_def bind.bind_lunit option.case
      using bounds
      by (subst list_obj_rows)
         (auto simp: fun_eq_iff entry line_step_def has_priority_def has_alpha_def e Some split: if_splits)
  qed
qed

lemma order_obj_lists:
  "order_obj v s = Some (upd (\<lambda>m. m\<lparr>g_video := (g_video m)\<lparr>obj_priority_list := fst (lists_after s v 128),
     obj_alpha_count := fst (snd (lists_after s v 128))\<rparr>\<rparr>) s)"
proof -
  have "foldo (list_objs s v (max_cycles s)) [0..<k] (\<lambda>_ _. [], \<lambda>_. 0, \<lambda>_. 0) = Some (lists_after s v k)" if "k \<le> 128" for k
    using that
  proof (induction k)
    case 0
    then show ?case by (auto simp: lists_after_def fun_eq_iff)
  next
    case (Suc k)
    then show ?case by (simp add: lists_after_Suc)
  qed
  from this [of 128] show ?thesis by (simp add: order_obj_def lists_after_def)
qed

section \<open>Bounds\<close>

text \<open>The lists hold, in the order of the object memory, numbers of objects that have a size.\<close>

definition objs_listed :: "gs \<Rightarrow> bool" where
  "objs_listed s \<longleftrightarrow>
     (\<forall>p r. let l = obj_priority_list (g_video (mem s)) p r in
        sorted_wrt (<) l \<and> length l \<le> 128 \<and> (\<forall>k \<in> set l. k < 128 \<and> sprite_of s k \<noteq> None))"

lemma sprite_of_upd [simp]: "sprite_of (upd (\<lambda>m. m\<lparr>g_video := v m\<rparr>) s) k = sprite_of s k"
  by (simp add: sprite_of_def oam16_def upd_def)

lemma order_obj_listed: "order_obj v s = Some t \<Longrightarrow> objs_listed t"
proof -
  assume "order_obj v s = Some t"
  then have t: "t = upd (\<lambda>m. m\<lparr>g_video := (g_video m)\<lparr>obj_priority_list := fst (lists_after s v 128),
     obj_alpha_count := fst (snd (lists_after s v 128))\<rparr>\<rparr>) s" by (simp add: order_obj_lists)
  have sprite: "sprite_of s k \<noteq> None" if "k \<in> set (fst (line_scan s v r 128))" for k r
    using line_scan_entry [OF that] order_entry_bounds(3) by (auto simp: line_entry_def split: option.splits)
  have "length (filter P (fst (line_scan s v r 128))) \<le> 128" for P r
    by (rule le_trans [OF length_filter_le line_scan_length])
  moreover have "obj_priority_list (g_video (mem t)) p r
      = (if r < 160 then filter (has_priority s v p) (fst (line_scan s v r 128)) else [])" for p r
    by (simp add: t upd_def lists_after_def)
  moreover have "sprite_of t k = sprite_of s k" for k unfolding t by (rule sprite_of_upd)
  ultimately show ?thesis
    using sprite line_scan_less [of _ s v _ 128] sorted_wrt_filter [OF line_scan_sorted]
    by (auto simp: objs_listed_def Let_def)
qed

lemma layer_cases:
  "x \<in> set (priority_layers s flags vcnt p) \<Longrightarrow> x < 4 \<and> unat (ior s (REG_BGxCNT x) AND 3) = p \<or> x = 4 + p"
  by (auto simp: priority_layers_def split: if_splits)

lemma layers_distinct:
  "distinct (concat (map (priority_layers s flags vcnt) [3, 2, 1, 0]))"
  "set (concat (map (priority_layers s flags vcnt) [3, 2, 1, 0])) \<subseteq> {..<8}"
proof -
  have "distinct (priority_layers s flags vcnt p)" for p by (auto simp: priority_layers_def)
  then show "distinct (concat (map (priority_layers s flags vcnt) [3, 2, 1, 0]))"
    by (auto dest!: layer_cases)
  show "set (concat (map (priority_layers s flags vcnt) [3, 2, 1, 0])) \<subseteq> {..<8}"
    by (auto dest!: layer_cases)
qed

lemma order_layers_Some:
  assumes "vcnt < 160"
  shows "order_layers flags vcnt s = Some (concat (map (priority_layers s flags vcnt) [3, 2, 1, 0]))"
    and "length (concat (map (priority_layers s flags vcnt) [3, 2, 1, 0])) \<le> 8"
proof -
  show le: "length (concat (map (priority_layers s flags vcnt) [3, 2, 1, 0])) \<le> 8"
    using card_mono [OF _ layers_distinct(2) [of s flags vcnt]] distinct_card [OF layers_distinct(1) [of s flags vcnt]] by simp
  then show "order_layers flags vcnt s = Some (concat (map (priority_layers s flags vcnt) [3, 2, 1, 0]))"
    using assms by (simp add: order_layers_def Let_def)
qed

section \<open>Properties\<close>

text \<open>C35: the object lists are the ones of a machine that scans the object memory for each line. The
  list of a priority on a line are the objects that machine takes for the line, in order, that
  have the priority; the line is marked when one of them is transparent. It takes the objects that
  meet the line as long as the cycles used so far are below the limit.\<close>

theorem order_obj_by_line:
  "map_option (\<lambda>t. (obj_priority_list (g_video (mem t)) p r, obj_alpha_count (g_video (mem t)) r \<noteq> 0)) (order_obj v s)
   = Some (if r < 160 then filter (has_priority s v p) (fst (line_scan s v r 128)) else [],
           r < 160 \<and> (\<exists>n \<in> set (fst (line_scan s v r 128)). has_alpha s v n))"
  by (simp add: order_obj_lists upd_def lists_after_def)

text \<open>C37: sorting the objects never leaves the arrays, whatever the object memory holds: every list has
  at most 128 numbers below 128, in order; and the layers of a line are at most 8, all different,
  of the 16 the array has room for.\<close>

theorem video_lists_bounded:
  "\<exists>t. order_obj v s = Some t \<and> objs_listed t
     \<and> order_layers flags (n mod 160) t \<noteq> None
     \<and> pred_option (\<lambda>ls. length ls \<le> 8 \<and> distinct ls \<and> set ls \<subseteq> {..<8}) (order_layers flags (n mod 160) t)"
proof -
  obtain t where t: "order_obj v s = Some t" by (simp add: order_obj_lists)
  have "n mod 160 < 160" by simp
  note L = order_layers_Some [OF this, where s = t and flags = flags] layers_distinct [of t flags "n mod 160"]
  show ?thesis using t order_obj_listed [OF t] L by auto
qed

end
