(* ===== verification/VideoSafe.thy ===== *)
theory VideoSafe
  imports VideoLine VideoOrderProps
begin

text \<open>
  Drawing stays inside: every renderer of the tile modes runs without an access outside the
  video memory, the palettes or the line, and changes only the pixels of its interval. The rules
  of \<open>draw_rules\<close> follow the structure of the renderers.
\<close>

lemma vget_Some: "0 \<le> i \<Longrightarrow> i + int (w_bytes w) \<le> int VRAM_SIZE \<Longrightarrow> \<exists>v. vget w vm i = Some v"
  by (simp add: vget_def)

lemma vbyte_Some: "0 \<le> i \<Longrightarrow> i < int VRAM_SIZE \<Longrightarrow> \<exists>v. vbyte vm i = Some v"
  by (simp add: vbyte_def vget_def w_bytes_def)

lemma vhalf_Some: "0 \<le> i \<Longrightarrow> i + 2 \<le> int VRAM_SIZE \<Longrightarrow> \<exists>v. vhalf vm i = Some v"
  by (simp add: vhalf_def vget_def w_bytes_def)

lemma palette_ok [simp]: "base \<le> 256 \<Longrightarrow> pal_ok 256 (palette_at base s)"
  by (simp add: pal_ok_def palette_at_def)

text \<open>A loop that carries a value beside the line, with an invariant of that value.\<close>

lemma foldo_inv:
  fixes f :: "'x \<Rightarrow> 'st \<times> 'a list \<Rightarrow> ('st \<times> 'a list) option"
  assumes "\<And>x st b. x \<in> set xs \<Longrightarrow> I st \<Longrightarrow> n \<le> length b \<Longrightarrow>
      \<exists>st' c. f x (st, b) = Some (st', c) \<and> I st' \<and> same_outside lo hi b c" and "I st" "n \<le> length b"
  shows "\<exists>st' c. foldo f xs (st, b) = Some (st', c) \<and> I st' \<and> same_outside lo hi b c"
  using assms
proof (induction xs arbitrary: st b)
  case (Cons x xs)
  then obtain st' c where c: "f x (st, b) = Some (st', c)" "I st'" "same_outside lo hi b c"
    by (meson list.set_intros(1))
  moreover have "\<exists>st'' d. foldo f xs (st', c) = Some (st'', d) \<and> I st'' \<and> same_outside lo hi c d"
    using Cons.prems c same_outside_length [OF c(3)] by (intro Cons.IH) auto
  ultimately show ?case by (auto intro: same_outside_trans)
qed simp

lemma draws_foldo_inv:
  fixes f :: "'x \<Rightarrow> 'st \<times> 'a list \<Rightarrow> ('st \<times> 'a list) option"
  assumes "\<And>x st b. x \<in> set xs \<Longrightarrow> I st \<Longrightarrow> n \<le> length b \<Longrightarrow>
      \<exists>st' c. f x (st, b) = Some (st', c) \<and> I st' \<and> same_outside lo hi b c" and "I st"
  shows "draws n lo hi (\<lambda>b. map_option snd (foldo f xs (st, b)))"
  using foldo_inv [of xs I n f lo hi st] assms by (fastforce simp: draws_def)

section \<open>Tiles\<close>

text \<open>The row of any tile of a layer lies in the video memory.\<close>

definition rows_inside :: "bool \<Rightarrow> nat \<Rightarrow> int \<Rightarrow> bool" where
  "rows_inside is8 base vflip \<longleftrightarrow>
     (\<forall>tile. 0 \<le> tile_row is8 tile base vflip \<and> tile_row is8 tile base vflip + (if is8 then 8 else 4) \<le> int VRAM_SIZE)"

lemma unat_drop_div: "unat (drop_bit k w) = unat w div 2 ^ k" for w :: "'a::len word"
  by (simp only: unat_drop_bit_eq) (simp only: drop_bit_eq_div)

lemma unat_take_mod: "unat (take_bit k w) = unat w mod 2 ^ k" for w :: "'a::len word"
  by (simp only: unsigned_take_bit_eq) (simp only: take_bit_eq_mod)

lemma nibble_less: "unat (ucast (w AND 0xF :: u32) :: u8) < 16"
proof -
  have "unat (ucast (w AND 0xF :: u32) :: u8) \<le> unat (w AND 0xF)"
    by (simp add: unsigned_ucast_eq take_bit_nat_less_eq_self)
  also have "w AND 0xF \<le> 0xF" by (rule word_and_le1)
  then have "unat (w AND 0xF) < 16" by (simp add: word_le_nat_alt)
  finally show ?thesis .
qed

lemma top_nibble_less: "unat (ucast (drop_bit 28 w :: u32) :: u8) < 16"
proof -
  have "unat (ucast (drop_bit 28 w :: u32) :: u8) \<le> unat (drop_bit 28 w)"
    by (simp add: unsigned_ucast_eq take_bit_nat_less_eq_self)
  also have "\<dots> < 16" using unsigned_less [of w, where 'a = nat] by (simp only: unat_drop_div) simp
  finally show ?thesis .
qed

lemma tile_palette_le: "unat (tile_palette tile) \<le> 240"
proof -
  have "unat tile < 65536" using unsigned_less [of tile, where 'a = nat] by simp
  then have "unat (drop_bit 12 tile) < 16" by (simp only: unat_drop_div) simp
  then show ?thesis
    unfolding tile_palette_def push_bit_eq_mult
    by (subst unat_mult_lem [THEN iffD1]) simp_all
qed

lemma u8_less: "unat (v :: u8) < 256"
  using unsigned_less [of v] by simp

lemma row_byte:
  assumes "rows_inside True base vflip" "k < 8"
  shows "\<exists>v. vbyte vm (tile_row True tile base vflip + int k) = Some v"
proof (rule vbyte_Some)
  have "0 \<le> tile_row True tile base vflip" "tile_row True tile base vflip + 8 \<le> int VRAM_SIZE"
    using assms by (auto simp: rows_inside_def)
  with assms(2) show "0 \<le> tile_row True tile base vflip + int k" "tile_row True tile base vflip + int k < int VRAM_SIZE"
    by linarith+
qed

lemma row_word:
  assumes "rows_inside is8 base vflip" "k < 2" "k = 0 \<or> is8"
  shows "\<exists>v. vget W32 vm (tile_row is8 tile base vflip + 4 * int k) = Some v"
proof (rule vget_Some)
  have r: "0 \<le> tile_row is8 tile base vflip" "tile_row is8 tile base vflip + (if is8 then 8 else 4) \<le> int VRAM_SIZE"
    using assms(1) unfolding rows_inside_def by blast+
  show "0 \<le> tile_row is8 tile base vflip + 4 * int k" using r(1) by simp
  show "tile_row is8 tile base vflip + 4 * int k + int (w_bytes W32) \<le> int VRAM_SIZE"
    using r(2) assms(2,3) by (auto simp: w_bytes_def less_2_cases_iff split: if_splits)
qed

lemmas row_word0 = row_word [where k = 0, simplified]

lemma draws_rend_part_tile:
  assumes "pal_ok 256 pal" "rows_inside is8 base vflip" "start \<le> stop" "stop \<le> 8" "lo \<le> d" "d + (stop - start) \<le> hi" "hi \<le> n"
  shows "draws n lo hi (rend_part_tile_Nbpp rd is8 isbase hflip vm pal bg px d start stop tile base vflip)"
proof (cases is8)
  case True
  have "\<exists>v. vbyte vm (tile_row True tile base vflip + int (if hflip then 7 - i else i)) = Some v" if "i < stop" for i
    using assms True that by (intro row_byte) auto
  then show ?thesis
    using assms True by (auto simp: rend_part_tile_Nbpp_def [abs_def] Let_def intro!: draw_rules u8_less)
next
  case False
  then have is4: "is8 = False" by simp
  obtain t where t: "vget W32 vm (tile_row False tile base vflip) = Some t"
    using row_word0 [of False base vflip vm tile] assms(2) False by auto
  let ?v = "\<lambda>t :: u32. ucast (if hflip then drop_bit 28 t else t AND 0xF) :: u8"
  have "unat (tile_palette tile) + unat (?v t) < 256" for t
    using tile_palette_le [of tile] nibble_less [of t] top_nibble_less [of t] by auto
  then show ?thesis
    unfolding rend_part_tile_Nbpp_def [abs_def] Let_def is4 if_False t bind.bind_lunit
    using assms by (intro draws_foldo_state [where I = "\<lambda>_. True"]) (auto intro!: draw_rules)
qed

lemma draws_fill_base:
  assumes "pal_ok 256 pal" "\<And>x. x \<in> set ds \<Longrightarrow> lo \<le> x \<and> x < hi" "hi \<le> n"
  shows "draws n lo hi (fill_base rd isbase pal bg ds)"
proof -
  obtain c where "pal 0 = Some c" using pal_okD [OF assms(1), of 0] by auto
  then show ?thesis using assms(2,3) by (auto simp: fill_base_def [abs_def] intro!: draw_rules)
qed

lemma draws_render_tile:
  assumes "pal_ok 256 pal" "rows_inside is8 base vflip" "lo \<le> d" "d + 8 \<le> hi" "hi \<le> n"
  shows "draws n lo hi (render_tile_Nbpp rd is8 isbase hflip vm pal bg px d tile base vflip)"
proof (cases is8)
  case True
  have "\<exists>v. vget W32 vm (tile_row True tile base vflip + 4 * int (if hflip then 1 - j else j)) = Some v" if "j < 2" for j
    using assms True that by (intro row_word) auto
  then show ?thesis
    using assms True
    by (auto simp: render_tile_Nbpp_def [abs_def] Let_def intro!: draw_rules draws_fill_base u8_less)
next
  case False
  then have is4: "is8 = False" by simp
  obtain t where t: "vget W32 vm (tile_row False tile base vflip) = Some t"
    using row_word0 [of False base vflip vm tile] assms(2) False by auto
  have "unat (tile_palette tile) + unat (ucast (drop_bit (if hflip then (7 - i) * 4 else i * 4) t AND 0xF) :: u8) < 256" for i
    using tile_palette_le [of tile] nibble_less [of "drop_bit (if hflip then (7 - i) * 4 else i * 4) t"] by auto
  then show ?thesis
    unfolding render_tile_Nbpp_def [abs_def] Let_def is4 if_False t bind.bind_lunit
    using assms by (auto intro!: draw_rules draws_fill_base)
qed

section \<open>Text layers\<close>

lemma and_bound: "unat (w AND m) \<le> unat m" for w :: "'a::len word"
  using word_and_le1 [of w m] by (simp add: word_le_nat_alt)

lemma map_width_le: "map_widths ! unat (w AND 3 :: u32) div 8 \<le> 64"
proof -
  have "unat (w AND 3) \<le> 3" using and_bound [of w 3] by simp
  then have "unat (w AND 3) \<in> {0, 1, 2, 3}" by auto
  then show ?thesis by (auto simp: map_widths_def)
qed

text \<open>
  A tile of the eight bit format may lie past the end of the video memory when its layer uses the
  last character block.
\<close>

definition text_inside :: "gs \<Rightarrow> nat \<Rightarrow> bool" where
  "text_inside s layer \<longleftrightarrow>
     ior s (REG_BGxCNT layer) AND 0x80 \<noteq> 0 \<longrightarrow> drop_bit 2 (ucast (ior s (REG_BGxCNT layer)) :: u32) AND 3 \<noteq> 3"

lemma tile_base_inside:
  assumes "is8 \<Longrightarrow> c \<noteq> 3" "c \<le> 3" "v < 8"
  shows "rows_inside is8 (c * 16 * 1024 + v * (if is8 then 8 else 4))
           ((if is8 then 64 else 32) - 2 * int (v * (if is8 then 8 else 4)) - int (if is8 then 8 else 4))"
  unfolding rows_inside_def
proof
  fix tile :: u16
  have "unat (tile AND 0x3FF) \<le> 1023" using and_bound [of tile "0x3FF"] by simp
  then have t: "uint (tile AND 0x3FF) \<le> 1023" "0 \<le> uint (tile AND 0x3FF)" by (simp_all only: uint_nat)
  show "0 \<le> tile_row is8 tile (c * 16 * 1024 + v * (if is8 then 8 else 4))
             ((if is8 then 64 else 32) - 2 * int (v * (if is8 then 8 else 4)) - int (if is8 then 8 else 4)) \<and>
        tile_row is8 tile (c * 16 * 1024 + v * (if is8 then 8 else 4))
             ((if is8 then 64 else 32) - 2 * int (v * (if is8 then 8 else 4)) - int (if is8 then 8 else 4))
          + (if is8 then 8 else 4) \<le> int VRAM_SIZE"
  proof (cases is8)
    case True
    then have "c \<le> 2" using assms by simp
    then show ?thesis using True t assms(3) by (simp add: tile_row_def) (use t assms(3) in linarith)
  next
    case False
    then show ?thesis using t assms(2,3) by (simp add: tile_row_def) (use t assms(3) in linarith)
  qed
qed

lemma text_position_ok:
  assumes "is8 \<Longrightarrow> drop_bit 2 (ucast (ior s (REG_BGxCNT layer)) :: u32) AND 3 \<noteq> 3"
  shows "hoffset (text_position s layer is8 line start) < 256"
    "map_ptr (text_position s layer is8 line start) \<le> 72000" "second_ptr (text_position s layer is8 line start) \<le> 72000"
    "rows_inside is8 (tile_base (text_position s layer is8 line start)) (vflip_off (text_position s layer is8 line start))"
proof -
  let ?bg = "ucast (ior s (REG_BGxCNT layer)) :: u32"
  let ?w = "map_widths ! unat (drop_bit 14 ?bg AND 3) div 8"
  let ?h = "(start + unat (ior s (REG_BGxHOFS layer))) mod 512"
  let ?v = "(unat line + unat (ior s (REG_BGxVOFS layer))) mod 512"
  have b: "unat (drop_bit 8 ?bg AND 0x1F) \<le> 31" using and_bound [of "drop_bit 8 ?bg" "0x1F"] by simp
  obtain H V W where H: "?h = H" "H < 512" and V: "?v = V" "V < 512" and W: "?w = W" "W \<le> 64"
    using map_width_le by simp
  have bounds: "V mod 256 div 8 \<le> 31" "H mod 256 div 8 \<le> 31" "(H - 256) div 8 \<le> 31"
    using H(2) V(2) by simp_all
  show "hoffset (text_position s layer is8 line start) < 256"
    unfolding text_position_def Let_def H(1) V(1) using H(2) by auto
  show "map_ptr (text_position s layer is8 line start) \<le> 72000" "second_ptr (text_position s layer is8 line start) \<le> 72000"
    unfolding text_position_def Let_def H(1) V(1) W(1) using b W(2) bounds by auto
  have "unat (drop_bit 2 ?bg AND 3) \<le> 3" using and_bound [of "drop_bit 2 ?bg" 3] by simp
  moreover have "is8 \<Longrightarrow> unat (drop_bit 2 ?bg AND 3) \<noteq> 3"
    using assms by (auto simp: word_unat_eq_iff)
  ultimately show "rows_inside is8 (tile_base (text_position s layer is8 line start)) (vflip_off (text_position s layer is8 line start))"
    using tile_base_inside [of is8 "unat (drop_bit 2 ?bg AND 3)" "?v mod 8"] by (simp add: text_position_def Let_def)
qed

lemma draws_part_tile:
  assumes "pal_ok 256 pal" "rows_inside is8 (tile_base p) (vflip_off p)" "ptr \<le> 90000"
    "start \<le> stop" "stop \<le> 8" "lo \<le> d" "d + (stop - start) \<le> hi" "hi \<le> n"
  shows "draws n lo hi (part_tile rd isbase is8 s pal layer p ptr d start stop)"
  using assms vhalf_Some [of "int ptr"]
  by (auto simp: part_tile_def [abs_def] Let_def intro!: draws_lookup draws_rend_part_tile)

lemma draws_full_tiles:
  assumes "pal_ok 256 pal" "rows_inside is8 (tile_base p) (vflip_off p)" "ptr + 2 * k \<le> 90000"
    "lo \<le> d" "d + 8 * k \<le> hi" "hi \<le> n"
  shows "draws n lo hi (full_tiles rd isbase is8 s pal layer p ptr d k)"
proof -
  have "\<exists>v. vhalf vm (int (ptr + 2 * i)) = Some v" if "i < k" for vm i
    using assms(3) that by (intro vhalf_Some) auto
  then show ?thesis
    using assms by (auto simp: full_tiles_def Let_def intro!: draws_foldo draws_lookup draws_render_tile)
qed

lemma draws_text_tiles:
  assumes "pal_ok 256 pal" "rows_inside is8 (tile_base p) (vflip_off p)" "ptr \<le> 80000" "second_ptr p \<le> 80000"
    "cnt \<le> 240" "lo \<le> d" "d + cnt \<le> hi" "hi \<le> n"
  shows "draws n lo hi (text_tiles rd isbase is8 s pal layer p ptr d cnt run)"
proof -
  have "8 * (min cnt run div 8) \<le> cnt" by (meson le_trans min.cobounded1 times_div_less_eq_dividend)
  then obtain a where a: "min cnt run div 8 = a" "8 * a \<le> cnt" by blast
  have "8 * ((cnt - 8 * a) div 8) \<le> cnt - 8 * a \<and> cnt - 8 * a < 8 * ((cnt - 8 * a) div 8) + 8" by linarith
  then obtain b where b: "(cnt - 8 * a) div 8 = b" "8 * b \<le> cnt - 8 * a" "cnt - 8 * a < 8 * b + 8" by blast
  show ?thesis
    unfolding text_tiles_def [abs_def] Let_def prod.case a(1) b(1)
    using a(2) b(2,3) assms
    by (auto intro!: draws_if draws_Some draws_bind draws_full_tiles draws_part_tile)
qed

lemma draws_text_fast:
  assumes "pal_ok 256 pal" "is8 \<Longrightarrow> drop_bit 2 (ucast (ior s (REG_BGxCNT layer)) :: u32) AND 3 \<noteq> 3"
    "start \<le> stop" "stop \<le> 240" "at + stop \<le> n"
  shows "draws n (at + start) (at + stop) (render_scanline_text_fast rd isbase is8 s layer start stop at pal)"
proof -
  define p where "p = text_position s layer is8 (ior s REG_VCOUNT) start"
  have p: "hoffset p < 256" "map_ptr p \<le> 72000" "second_ptr p \<le> 72000" "rows_inside is8 (tile_base p) (vflip_off p)"
    using text_position_ok [of is8 s layer "ior s REG_VCOUNT" start] assms(2) by (simp_all add: p_def)
  show ?thesis
    unfolding render_scanline_text_fast_def [abs_def] Let_def prod.case p_def [symmetric]
    using assms p by (auto intro!: draws_if draws_bind draws_text_tiles draws_part_tile)
qed

lemma nibble_pixel: "unat (drop_bit k b AND 0xF :: u8) < 16"
  using and_bound [of "drop_bit k b" "0xF :: u8"] by simp

lemma tile_pixel_ok:
  assumes "rows_inside is8 base vflip"
  shows "\<exists>v. tile_pixel is8 vm tile base vflip hoff = Some v \<and> (\<not> is8 \<longrightarrow> unat v < 16)"
proof (cases is8)
  case True
  then show ?thesis using row_byte [of base vflip "if tile AND 0x400 \<noteq> 0 then 7 - hoff mod 8 else hoff mod 8" vm tile] assms
    by (auto simp: tile_pixel_def Let_def)
next
  case False
  have row: "0 \<le> tile_row is8 tile base vflip" "tile_row is8 tile base vflip + 4 \<le> int VRAM_SIZE"
    using assms False unfolding rows_inside_def by (auto dest: spec [of _ tile])
  have "\<exists>b. vbyte vm (tile_row is8 tile base vflip + int k) = Some b" if "k < 4" for k
    using row that by (intro vbyte_Some) auto
  moreover have "(7 - hoff mod 8) div 2 < 4" "hoff mod 8 div 2 < 4" by linarith+
  ultimately obtain b c where "vbyte vm (tile_row is8 tile base vflip + int ((7 - hoff mod 8) div 2)) = Some b"
    "vbyte vm (tile_row is8 tile base vflip + int (hoff mod 8 div 2)) = Some c" by meson
  then show ?thesis using False by (simp add: tile_pixel_def Let_def nibble_pixel)
qed

definition mosaic_inv :: "bool \<Rightarrow> (u8 \<times> nat) \<times> nat \<times> nat \<Rightarrow> bool" where
  "mosaic_inv is8 st \<longleftrightarrow>
     (\<not> is8 \<longrightarrow> unat (fst (fst st)) < 16) \<and> fst (snd st) < 256 \<and> snd (snd st) \<le> 72000 + 2 * (fst (snd st) div 8)"

lemma latched_ok:
  assumes "\<exists>v. look = Some v \<and> Q v" "Q (fst l)"
  shows "\<exists>l'. latch mosaic mosh look l = Some l' \<and> Q (fst l')"
  using assms by (cases l) (auto simp: latch_def)

lemma fst_latch_next [simp]: "fst (latch_next mosaic l) = fst l"
  by (simp add: latch_next_def)

lemma mosaic_step_ok:
  assumes "pal_ok 256 pal" "rows_inside is8 (tile_base p) (vflip_off p)" "second_ptr p \<le> 72000"
    "lo \<le> d" "d < hi" "hi \<le> n" "mosaic_inv is8 st" "n \<le> length b"
  shows "\<exists>st' c. mosaic_step rd isbase is8 s pal layer p mosh d (st, b) = Some (st', c) \<and> mosaic_inv is8 st'
    \<and> same_outside lo hi b c"
proof -
  obtain l hoff ptr where st: "st = (l, hoff, ptr)" by (cases st) auto
  have inv: "\<not> is8 \<longrightarrow> unat (fst l) < 16" "hoff < 256" "ptr \<le> 72000 + 2 * (hoff div 8)"
    using assms(7) st by (simp_all add: mosaic_inv_def)
  have "ptr \<le> 98302" using inv(2,3) by linarith
  then obtain tile where tile: "vhalf (g_vram (mem s)) (int ptr) = Some tile"
    using vhalf_Some [of "int ptr" "g_vram (mem s)"] by auto
  obtain l' where l': "latch True mosh (tile_pixel is8 (g_vram (mem s)) tile (tile_base p) (vflip_off p) hoff) l = Some l'"
    "\<not> is8 \<longrightarrow> unat (fst l') < 16"
    using latched_ok [OF tile_pixel_ok [OF assms(2), of "g_vram (mem s)" tile hoff] inv(1)] by blast
  let ?sub = "if is8 then 0 else unat (tile_palette tile)"
  let ?attr = "if is8 then color_flags s layer else tile_flags (color_flags s layer) tile"
  have "?sub + unat (fst l') < 256" using l'(2) tile_palette_le [of tile] u8_less [of "fst l'"] by auto
  then have "draws n lo hi (rend_pix rd isbase pal (color_flags s 5) ?attr ?sub (fst l') d)"
    using assms by (intro draws_rend_pix) auto
  then obtain c where c: "rend_pix rd isbase pal (color_flags s 5) ?attr ?sub (fst l') d b = Some c" "same_outside lo hi b c"
    using assms(8) drawsD by blast
  have "Suc hoff div 8 = (if Suc hoff mod 8 = 0 then Suc (hoff div 8) else hoff div 8)" by (simp add: div_Suc)
  note dv = this
  let ?st = "(latch_next True l', if 256 \<le> hoff + 1 then (0, second_ptr p)
      else (hoff + 1, if (hoff + 1) mod 8 = 0 then ptr + 2 else ptr))"
  have "mosaic_inv is8 ?st" using dv l'(2) inv assms(3) by (auto simp: mosaic_inv_def)
  moreover have "mosaic_step rd isbase is8 s pal layer p mosh d (st, b) = Some (?st, c)"
    using c(1) l'(1) by (cases is8) (simp_all add: mosaic_step_def st tile Let_def)
  ultimately show ?thesis using c(2) by blast
qed

lemma draws_text_mosaic:
  assumes "pal_ok 256 pal" "is8 \<Longrightarrow> drop_bit 2 (ucast (ior s (REG_BGxCNT layer)) :: u32) AND 3 \<noteq> 3"
    "start \<le> stop" "stop \<le> 240" "at + stop \<le> n"
  shows "draws n (at + start) (at + stop) (render_scanline_text_mosaic rd isbase is8 s layer start stop at pal)"
  unfolding render_scanline_text_mosaic_def [abs_def] Let_def
proof (rule draws_foldo_inv [where I = "mosaic_inv is8"], rule mosaic_step_ok)
  let ?p = "text_position s layer is8 (ior s REG_VCOUNT - ior s REG_VCOUNT mod ((drop_bit 4 (ior s REG_MOSAIC) AND 0xF) + 1)) start"
  show "mosaic_inv is8 ((0, 0), hoffset ?p, map_ptr ?p)"
    using text_position_ok [of is8 s layer _ start] assms(2) by (simp add: mosaic_inv_def trans_le_add1)
qed (use assms text_position_ok [of is8 s layer _ start] in auto)

lemma draws_text [draw_rules]:
  assumes "pal_ok 256 pal" "text_inside s layer" "start \<le> stop" "stop \<le> 240" "at + stop \<le> n"
  shows "draws n (at + start) (at + stop) (render_scanline_text rd isbase s layer start stop at pal)"
  using assms
  by (auto simp: render_scanline_text_def Let_def text_inside_def intro!: draws_text_mosaic draws_text_fast)

section \<open>Walks\<close>

lemma walk_skip_ok:
  assumes "\<And>i. lo \<le> i \<Longrightarrow> i < hi \<Longrightarrow> draws n lo hi (bk i)" "lo \<le> d" "d + cnt \<le> hi" "n \<le> length b"
  shows "\<exists>cnt' d' q c. walk_skip inside step bk cnt d p b = Some (cnt', d', q, c)
    \<and> d' + cnt' = d + cnt \<and> d \<le> d' \<and> same_outside lo hi b c"
  using assms(2-)
proof (induction cnt arbitrary: d p b)
  case (Suc cnt)
  show ?case
  proof (cases "inside p")
    case False
    from Suc.prems assms(1) have "draws n lo hi (bk d)" by simp
    then obtain c where c: "bk d b = Some c" "same_outside lo hi b c"
      using Suc.prems drawsD by blast
    moreover obtain cnt' d' q c' where "walk_skip inside step bk cnt (d + 1) (step p) c = Some (cnt', d', q, c')"
      "d' + cnt' = d + 1 + cnt" "d + 1 \<le> d'" "same_outside lo hi c c'"
      using Suc.IH [of "d + 1" c "step p"] Suc.prems same_outside_length [OF c(2)] by auto
    ultimately show ?thesis using False by (auto intro: same_outside_trans)
  qed simp
qed simp

lemma walk_draw_ok:
  assumes "\<And>q. inside q \<Longrightarrow> \<exists>v. look q = Some v \<and> Q v"
    and "\<And>v i. Q v \<Longrightarrow> lo \<le> i \<Longrightarrow> i < hi \<Longrightarrow> draws n lo hi (put v i)"
    and "Q (fst l)" "lo \<le> d" "d + cnt \<le> hi" "n \<le> length b"
  shows "\<exists>cnt' d' c. walk_draw inside step mosaic mosh look put cnt d p l b = Some (cnt', d', c)
    \<and> d' + cnt' = d + cnt \<and> d \<le> d' \<and> same_outside lo hi b c"
  using assms(3-)
proof (induction cnt arbitrary: d p b l)
  case (Suc cnt)
  show ?case
  proof (cases "inside p")
    case True
    obtain l' where l': "latch mosaic mosh (look p) l = Some l'" "Q (fst l')"
      using latched_ok [OF assms(1) [OF True], of l] Suc.prems(1) by blast
    from Suc.prems l' assms(2) have "draws n lo hi (put (fst l') d)" by simp
    then obtain c where c: "put (fst l') d b = Some c" "same_outside lo hi b c"
      using Suc.prems drawsD by blast
    moreover obtain cnt' d' c' where
      "walk_draw inside step mosaic mosh look put cnt (d + 1) (step p) (latch_next mosaic l') c = Some (cnt', d', c')"
      "d' + cnt' = d + 1 + cnt" "d + 1 \<le> d'" "same_outside lo hi c c'"
      using Suc.IH [of "latch_next mosaic l'" "d + 1" c "step p"] Suc.prems l'(2) same_outside_length [OF c(2)] by auto
    ultimately show ?thesis using True l'(1) by (auto intro: same_outside_trans)
  qed simp
qed simp

section \<open>Scaled and rotated backgrounds\<close>

lemma lookup_ok:
  assumes "px < 128 * 2 ^ m" "py < 128 * 2 ^ m" "m \<le> 3" "map_base \<le> 63488" "base \<le> 49152"
  shows "\<exists>v. lookup_pix_8bpp vm px py base map_base m = Some v"
proof -
  let ?k = "2 ^ (m + 4) :: nat"
  have "px div 8 < ?k" "py div 8 < ?k"
    using assms(1,2) by (auto intro!: less_mult_imp_div_less simp: power_add)
  then have "px div 8 + (py div 8) * ?k < ?k + (py div 8) * ?k" "Suc (py div 8) * ?k \<le> ?k * ?k"
    by (simp, intro mult_right_mono) auto
  moreover have "?k * ?k \<le> 2 ^ 7 * 2 ^ 7" using assms(3) by (intro mult_mono power_increasing) auto
  ultimately have "px div 8 + (py div 8) * ?k < 16384" by simp
  then have "int (map_base + (px div 8 + (py div 8) * ?k)) < int VRAM_SIZE" using assms(4) by linarith
  then obtain t where t: "vbyte vm (int (map_base + (px div 8 + (py div 8) * ?k))) = Some t"
    using vbyte_Some [of "int (map_base + (px div 8 + (py div 8) * ?k))" vm] of_nat_0_le_iff by blast
  have "int (base + unat t * 64 + (px mod 8 + (py mod 8) * 8)) < int VRAM_SIZE"
    using u8_less [of t] assms(5) mod_less_divisor [of 8 px] mod_less_divisor [of 8 py] by linarith
  then obtain v where "vbyte vm (int (base + unat t * 64 + (px mod 8 + (py mod 8) * 8))) = Some v"
    using vbyte_Some [of "int (base + unat t * 64 + (px mod 8 + (py mod 8) * 8))" vm] by auto
  with t show ?thesis by (simp only: lookup_pix_8bpp_def bind.bind_lunit) simp
qed

lemma draws_affine_background:
  assumes "pal_ok 256 pal" "m \<le> 3" "map_base \<le> 63488" "base \<le> 49152" "lo \<le> d" "d + cnt \<le> hi" "hi \<le> n"
  shows "draws n lo hi (render_affine_background rd isbase wrap rot mosaic s layer start cnt map_base m base d pal)"
proof (rule drawsI)
  fix b :: "'a line" assume b: "n \<le> length b"
  obtain bgcol where col: "pal 0 = Some bgcol" using pal_okD [OF assms(1), of 0] by auto
  let ?w = "128 * 2 ^ m :: nat"
  let ?look = "\<lambda>px py. lookup_pix_8bpp (g_vram (mem s)) px py base map_base m"
  let ?put = "\<lambda>v. rend_pix rd isbase pal (color_flags s 5) (color_flags s layer) 0 v :: nat \<Rightarrow> 'a draw"
  let ?bdrop = "\<lambda>d. if isbase then render_bdrop_pixel_8bpp rd (color_flags s 5) bgcol d else Some :: 'a draw"
  have put: "draws n lo hi (?put v i)" if "lo \<le> i" "i < hi" for v i
    using that assms u8_less [of v] by (intro draws_rend_pix) auto
  have bdrop: "draws n lo hi (?bdrop i)" if "lo \<le> i" "i < hi" for i
    using that assms by (auto intro!: draw_rules)
  have wrapped: "\<exists>v. ?look (pix_of (fst q) mod ?w) (pix_of (snd q) mod ?w) = Some v" for q
    using assms by (intro lookup_ok) auto
  have inside: "\<exists>v. ?look (pix_of (fst q)) (pix_of (snd q)) = Some v" if "within ?w ?w q" for q
    using assms that by (intro lookup_ok) (auto simp: within_def)
  have tail: "\<exists>e. (if isbase then foldo (render_bdrop_pixel_8bpp rd (color_flags s 5) bgcol) [k..<k + j] c else Some c) = Some e
      \<and> same_outside lo hi b e" if kj: "lo \<le> k" "k + j \<le> hi" and c: "same_outside lo hi b c" for k j c
  proof -
    let ?f = "\<lambda>c :: 'a line. if isbase then foldo (render_bdrop_pixel_8bpp rd (color_flags s 5) bgcol) [k..<k + j] c else Some c"
    have "draws n lo hi ?f" using kj assms by (auto intro!: draw_rules)
    then obtain e where "?f c = Some e" "same_outside lo hi c e"
      using drawsD [of n lo hi ?f c] b same_outside_length [OF c] by auto
    then show ?thesis using same_outside_trans [OF c] by blast
  qed
  let ?dx = "signed16 (ior s (REG_BGxPA layer))" and ?dy = "signed16 (ior s (REG_BGxPC layer))"
  let ?src = "(fst (affine_reference s layer) + of_nat start * ?dx, snd (affine_reference s layer) + of_nat start * ?dy)"
  let ?lookm = "\<lambda>p. ?look (pix_of (fst p) mod ?w) (pix_of (snd p) mod ?w)"
  let ?looks = "\<lambda>p. ?look (pix_of (fst p)) (pix_of (snd p))"
  obtain k e c where draw: "walk_draw (\<lambda>_. True) (walk rot ?dx ?dy) mosaic (mosaic_h mosaic s) ?lookm ?put cnt d ?src (0, 0) b
      = Some (k, e, c)" "same_outside lo hi b c"
    using walk_draw_ok [where Q = "\<lambda>_. True" and inside = "\<lambda>_. True" and look = ?lookm and lo = lo and hi = hi and n = n
        and put = ?put and l = "(0, 0)" and d = d and cnt = cnt and b = b and step = "walk rot ?dx ?dy" and mosaic = mosaic
        and mosh = "mosaic_h mosaic s" and p = ?src] wrapped put assms b by auto
  obtain k1 e1 q c1 where skip: "walk_skip (within ?w ?w) (walk rot ?dx ?dy) ?bdrop cnt d ?src b = Some (k1, e1, q, c1)"
    "e1 + k1 = d + cnt" "d \<le> e1" "same_outside lo hi b c1"
    using walk_skip_ok [where lo = lo and hi = hi and n = n and bk = ?bdrop and d = d and cnt = cnt and b = b and step = "walk rot ?dx ?dy"
        and inside = "within ?w ?w" and p = ?src] bdrop assms b by auto
  obtain k2 e2 c2 where draw2: "walk_draw (within ?w ?w) (walk rot ?dx ?dy) mosaic (mosaic_h mosaic s) ?looks ?put k1 e1 q (0, 0) c1
      = Some (k2, e2, c2)" "e2 + k2 = e1 + k1" "e1 \<le> e2" "same_outside lo hi c1 c2"
    using walk_draw_ok [where Q = "\<lambda>_. True" and inside = "within ?w ?w" and look = ?looks and lo = lo and hi = hi and n = n
        and put = ?put and l = "(0, 0)" and d = e1 and cnt = k1 and b = c1 and step = "walk rot ?dx ?dy" and mosaic = mosaic
        and mosh = "mosaic_h mosaic s" and p = q] inside put assms b skip same_outside_length [OF skip(4)] by auto
  have c2: "same_outside lo hi b c2" using skip(4) draw2(4) by (rule same_outside_trans)
  show "\<exists>c. render_affine_background rd isbase wrap rot mosaic s layer start cnt map_base m base d pal b = Some c
    \<and> same_outside lo hi b c"
    unfolding render_affine_background_def Let_def col
    using draw skip draw2 tail [of e2 k2 c2] tail [of d cnt b] c2 assms by auto
qed

lemma draws_affine [draw_rules]:
  assumes "pal_ok 256 pal" "start \<le> stop" "at + stop \<le> n"
  shows "draws n (at + start) (at + stop) (render_scanline_affine rd isbase s layer start stop at pal)"
proof -
  let ?bg = "ior s (REG_BGxCNT layer)"
  have "unat (drop_bit 14 ?bg AND 3) \<le> 3" "unat (drop_bit 8 ?bg AND 0x1F) \<le> 31" "unat (drop_bit 2 ?bg AND 3) \<le> 3"
    using and_bound [of "drop_bit 14 ?bg" 3] and_bound [of "drop_bit 8 ?bg" "0x1F"] and_bound [of "drop_bit 2 ?bg" 3] by simp_all
  then show ?thesis
    using assms unfolding render_scanline_affine_def Let_def by (intro draws_affine_background) auto
qed

section \<open>Objects\<close>

text \<open>A row of an object tile begins at a multiple of its width, so it ends in the video memory.\<close>

definition obj_row :: "bool \<Rightarrow> u32 \<Rightarrow> bool" where
  "obj_row is8 off \<longleftrightarrow> (if is8 then 8 else 4) dvd unat off"

lemma obj_rowD:
  assumes "obj_row is8 off"
  shows "0 \<le> obj_tile_ptr off" "obj_tile_ptr off + (if is8 then 8 else 4) \<le> int VRAM_SIZE"
proof -
  have m: "unat (off AND 0x7FFF) = unat off mod 0x8000"
    using unat_take_mod [of 15 off] by (simp add: take_bit_eq_mask mask_eq_exp_minus_1)
  let ?w = "if is8 then 8 else 4 :: nat"
  have "unat off mod 0x8000 mod ?w = 0" using assms by (auto simp: obj_row_def dvd_mod split: if_splits)
  moreover have "unat off mod 0x8000 < 0x8000" by simp
  ultimately have "unat off mod 0x8000 + ?w \<le> 0x8000" by (auto split: if_splits)
  then show "obj_tile_ptr off + (if is8 then 8 else 4) \<le> int VRAM_SIZE"
    unfolding obj_tile_ptr_def uint_nat m by (auto split: if_splits)
  show "0 \<le> obj_tile_ptr off" by (simp add: obj_tile_ptr_def)
qed

lemma obj_row_add: "obj_row is8 a \<Longrightarrow> obj_row is8 b \<Longrightarrow> obj_row is8 (a + b)"
  by (auto simp: obj_row_def unat_word_ariths intro!: dvd_mod dvd_add)

lemma obj_row_mult: "obj_row is8 b \<Longrightarrow> obj_row is8 (a * b)"
  by (auto simp: obj_row_def unat_word_ariths intro!: dvd_mod dvd_mult)

lemma obj_row_step [simp]: "obj_row is8 (tile_step is8 hflip)"
  by (simp add: obj_row_def tile_step_def Let_def)

lemma obj_row_sizes: "obj_row is8 (if is8 then 64 else 32)" "obj_row is8 (if is8 then 8 else 4)" "obj_row is8 1024"
    "obj_row is8 0" "obj_row is8 32"
  by (simp_all add: obj_row_def)

lemma obj_row_if: "obj_row is8 a \<Longrightarrow> obj_row is8 b \<Longrightarrow> obj_row is8 (if v then a else b)"
  by simp

lemmas obj_rows = obj_row_add obj_row_mult obj_row_step

text \<open>In the copying mode the line below is read.\<close>

definition copy_room :: "rendtype \<Rightarrow> nat \<Rightarrow> nat \<Rightarrow> palette \<Rightarrow> bool" where
  "copy_room rd n hi pal \<longleftrightarrow> hi \<le> n \<and> (rd = FULLCOLOR \<longrightarrow> pal_ok 256 pal) \<and> (rd = PIXCOPY \<longrightarrow> hi + 240 \<le> n)"

lemma draws_obj_pixel:
  "copy_room rd n hi pal \<Longrightarrow> ci < 256 \<Longrightarrow> lo \<le> d \<Longrightarrow> d < hi \<Longrightarrow> draws n lo hi (obj_pix rd pal attr ci pval d)"
  by (rule draws_obj_pix) (auto simp: copy_room_def)

lemma obj_byte:
  assumes "obj_row is8 off" "k < (if is8 then 8 else 4)"
  shows "\<exists>v. vbyte vm (obj_tile_ptr off + int k) = Some v"
  using obj_rowD [OF assms(1)] assms(2) by (intro vbyte_Some) (auto split: if_splits)

lemma obj_word:
  assumes "obj_row is8 off" "k < (if is8 then 2 else 1)"
  shows "\<exists>v. vget W32 vm (obj_tile_ptr off + 4 * int k) = Some v"
  using obj_rowD [OF assms(1)] assms(2) by (intro vget_Some) (auto simp: w_bytes_def split: if_splits)

lemma draws_obj_part_tile:
  assumes "copy_room rd n hi pal" "obj_row is8 off" "unat pn \<le> 240" "start \<le> stop" "stop \<le> 8"
    "lo \<le> d" "d + (stop - start) \<le> hi"
  shows "draws n lo hi (render_obj_part_tile_Nbpp rd is8 hflip vm pal px d start stop off pn)"
proof (cases is8)
  case True
  have "\<exists>v. vbyte vm (obj_tile_ptr off + int (if hflip then 7 - i else i)) = Some v" if "i < stop" for i
    using assms True that by (intro obj_byte) auto
  then show ?thesis
    using assms True
    by (auto simp: render_obj_part_tile_Nbpp_def Let_def u8_less intro!: draws_foldo draws_lookup draws_obj_pixel)
next
  case False
  have "\<exists>v. vbyte vm (obj_tile_ptr off + int (if hflip then 3 - i div 2 else i div 2)) = Some v" if "i < stop" for i
    using assms False that by (intro obj_byte) auto
  moreover have "unat pn + unat (drop_bit k b AND 0xF) < 256" for k and b :: u8
    using assms(3) nibble_pixel [of k b] by linarith
  ultimately show ?thesis
    using assms False
    by (auto simp: render_obj_part_tile_Nbpp_def Let_def intro!: draws_foldo draws_lookup draws_obj_pixel)
qed

lemma draws_obj_tile:
  assumes "copy_room rd n hi pal" "obj_row is8 off" "unat pn \<le> 240" "lo \<le> d" "d + 8 \<le> hi"
  shows "draws n lo hi (render_obj_tile_Nbpp rd is8 hflip vm pal px d off pn)"
proof (cases is8)
  case True
  have "\<exists>v. vget W32 vm (obj_tile_ptr off + 4 * int (if hflip then 1 - j else j)) = Some v" if "j < 2" for j
    using assms True that by (intro obj_word) auto
  then show ?thesis
    using assms True
    by (auto simp: render_obj_tile_Nbpp_def [abs_def] Let_def u8_less
        intro!: draws_foldo draws_lookup draws_if draws_Some draws_obj_pixel)
next
  case False
  obtain t where "vget W32 vm (obj_tile_ptr off) = Some t" using obj_word [of False off 0 vm] assms(2) False by auto
  moreover have "unat pn + unat (ucast (drop_bit k w AND 0xF) :: u8) < 256" for k and w :: u32
    using assms(3) nibble_less [of "drop_bit k w"] by linarith
  ultimately show ?thesis
    using assms False
    by (auto simp: render_obj_tile_Nbpp_def [abs_def] Let_def intro!: draws_foldo draws_if draws_Some draws_obj_pixel)
qed

lemma draws_object_tiles:
  assumes "copy_room rd n hi pal" "obj_row is8 off" "unat pn \<le> 240" "lo \<le> d" "d + cnt \<le> hi"
  shows "draws n lo hi (object_tiles rd is8 hflip vm cnt d off px pn pal)"
  unfolding object_tiles_def [abs_def] Let_def
proof (intro draws_bind draws_foldo draws_if draws_Some draws_obj_part_tile draws_obj_tile)
  show "d + 8 * i + 8 \<le> hi" if "i \<in> set [0..<cnt div 8]" for i using that assms(5) by auto
  show "d + 8 * (cnt div 8) + (cnt mod 8 - 0) \<le> hi" using assms(5) by simp
qed (use assms obj_rows in auto)

lemma draws_object:
  assumes "copy_room rd n hi pal" "obj_row is8 off" "unat pn \<le> 240" "lo \<le> at + nat dx" "at + nat dx + cnt \<le> hi"
  shows "draws n lo hi (render_object rd is8 hflip vm dx cnt at off px pn pal)"
  unfolding render_object_def [abs_def] Let_def
  by (intro draws_if draws_bind draws_obj_part_tile draws_object_tiles obj_rows assms) (use assms in auto)

lemma obj_pixel_ok:
  assumes "obj_row is8 off"
  shows "\<exists>v. obj_pixel is8 hflip vm off x = Some v \<and> (\<not> is8 \<longrightarrow> unat v < 16)"
proof -
  let ?off = "off + of_nat (x div 8) * tile_step is8 hflip"
  have row: "obj_row is8 ?off" using assms by (intro obj_rows)
  have "(7 - x mod 8) div 2 < 4" "x mod 8 div 2 < 4" by linarith+
  then show ?thesis
    using obj_byte [OF row, of "7 - x mod 8" vm] obj_byte [OF row, of "x mod 8" vm]
      obj_byte [OF row, of "(7 - x mod 8) div 2" vm] obj_byte [OF row, of "x mod 8 div 2" vm]
    by (cases is8) (auto simp: obj_pixel_def Let_def nibble_pixel)
qed

lemma draws_object_mosaic:
  assumes "copy_room rd n hi pal" "obj_row is8 off" "unat pn \<le> 240" "lo \<le> at + nat dx" "at + nat dx + cnt \<le> hi"
  shows "draws n lo hi (render_object_mosaic rd is8 hflip vm dx cnt at off mosh px pn pal)"
  unfolding render_object_mosaic_def [abs_def] Let_def
proof (rule draws_foldo_inv [where I = "\<lambda>l. \<not> is8 \<longrightarrow> unat (fst l) < 16"])
  fix i and l :: "u8 \<times> nat" and b :: "'a line"
  assume i: "i \<in> set [0..<cnt]" and l: "\<not> is8 \<longrightarrow> unat (fst l) < 16" and b: "n \<le> length b"
  obtain l' where l': "latch True mosh (obj_pixel is8 hflip vm off (nat (- dx) + i)) l = Some l'" "\<not> is8 \<longrightarrow> unat (fst l') < 16"
    using latched_ok [OF obj_pixel_ok [OF assms(2)] l] by blast
  have "draws n lo hi (obj_pix rd pal (obj_attr_of px pn) (if is8 then unat (fst l') else unat pn + unat (fst l')) (fst l')
      (at + nat dx + i) :: 'a draw)"
    using i assms l'(2) u8_less [of "fst l'"] by (intro draws_obj_pixel) auto
  then obtain c where "obj_pix rd pal (obj_attr_of px pn) (if is8 then unat (fst l') else unat pn + unat (fst l')) (fst l')
      (at + nat dx + i) b = Some c" "same_outside lo hi b c"
    using b drawsD by blast
  with l' show "\<exists>st' c. (case (l, b) of (l, buf) \<Rightarrow> do {
        l \<leftarrow> latch True mosh (obj_pixel is8 hflip vm off (nat (- dx) + i)) l;
        buf \<leftarrow> obj_pix rd pal (obj_attr_of px pn) (if is8 then unat (fst l) else unat pn + unat (fst l)) (fst l)
          (at + nat dx + i) buf;
        Some (latch_next True l, buf) }) = Some (st', c) \<and> (\<not> is8 \<longrightarrow> unat (fst st') < 16) \<and> same_outside lo hi b c"
    by simp
qed simp

lemma or_less_power: "a < 2 ^ k \<Longrightarrow> b < 2 ^ k \<Longrightarrow> a OR b < (2 ^ k :: nat)"
  by (metis take_bit_nat_eq_self take_bit_nat_less_exp take_bit_or)

lemma affine_index: "unat pn \<le> 240 \<Longrightarrow> unat (ucast v OR pn) < 256" for v :: u8 and pn :: u16
  using or_less_power [of "unat v" 8 "unat pn"] u8_less [of v]
  by (simp add: unsigned_or_eq unsigned_ucast_eq take_bit_nat_eq_self)

lemma affine_obj_pixel_ok: "\<exists>v. affine_obj_pixel is8 vm base pitch px py = Some v"
proof -
  have "\<exists>v. vbyte vm (0x10000 + uint (off AND 0x7FFF)) = Some v" for off :: u32
  proof (rule vbyte_Some)
    have "unat (off AND 0x7FFF) \<le> 0x7FFF" using and_bound [of off "0x7FFF"] by simp
    then show "0x10000 + uint (off AND 0x7FFF) < int VRAM_SIZE" unfolding uint_nat by linarith
  qed simp
  then show ?thesis by (auto simp: affine_obj_pixel_def Let_def)
qed

lemma unat_of_int: "0 \<le> z \<Longrightarrow> z < 2 ^ 32 \<Longrightarrow> unat (of_int z :: u32) = nat z"
  by (simp add: unsigned_of_int take_bit_int_eq_self)

text \<open>The object meets the interval.\<close>

definition meets :: "t_sprite \<Rightarrow> int \<Rightarrow> nat \<Rightarrow> nat \<Rightarrow> bool" where
  "meets ob w start stop \<longleftrightarrow> 0 \<le> w \<and> obj_x ob < int stop \<and> int start < obj_x ob + w \<and> start \<le> stop \<and> stop \<le> 240"

lemma draws_or_skip:
  "\<exists>c. X = Some c \<and> same_outside lo hi b c \<Longrightarrow> \<exists>c. (if P then Some b else X) = Some c \<and> same_outside lo hi b c"
  by simp

lemma draws_affine_object:
  assumes "copy_room rd n (at + stop) pal" "unat pn \<le> 240"
    "meets ob (if is_double ob then obj_w ob * 2 else obj_w ob) start stop"
  shows "draws n (at + start) (at + stop)
    (render_affine_object rd mosaic is8 rot s ob aff start stop at mosv mosh base px pn pal)"
proof (rule drawsI)
  fix b :: "'a line" assume b: "n \<le> length b"
  let ?width = "if is_double ob then obj_w ob * 2 else obj_w ob"
  let ?ds = "max (int start) (obj_x ob)"
  let ?z = "min (int stop) (obj_x ob + ?width) - ?ds"
  let ?inside = "within (nat (obj_w ob)) (nat (obj_h ob))"
  let ?look = "\<lambda>pitch p. affine_obj_pixel is8 (g_vram (mem s)) base pitch (pix_of (fst p)) (pix_of (snd p))"
  let ?put = "\<lambda>v. obj_pix rd pal (obj_attr_of px pn) (unat (ucast v OR pn)) v :: nat \<Rightarrow> 'a draw"
  have z: "0 \<le> ?z" "?z \<le> int stop - ?ds" "?z < 2 ^ 32" using assms(3) by (auto simp: meets_def)
  have cnt: "unat (of_int ?z :: u32) = nat ?z" by (rule unat_of_int [OF z(1,3)])
  have ds: "at + start \<le> at + nat ?ds" "at + nat ?ds + nat ?z \<le> at + stop" using z by linarith+
  have put: "draws n (at + start) (at + stop) (?put v i)" if "at + start \<le> i" "i < at + stop" for v i
    using that assms by (intro draws_obj_pixel affine_index) auto
  have run: "\<exists>cnt' d' q c cnt'' d'' c'. walk_skip ?inside step (\<lambda>_. Some) (nat ?z) (at + nat ?ds) p b = Some (cnt', d', q, c)
      \<and> walk_draw ?inside step mosaic mosh (?look pitch) ?put cnt' d' q (0, 0) c = Some (cnt'', d'', c')
      \<and> same_outside (at + start) (at + stop) b c'" for step p pitch
  proof -
    have "\<exists>cnt' d' q c. walk_skip ?inside step (\<lambda>_. Some) (nat ?z) (at + nat ?ds) p b = Some (cnt', d', q, c)
        \<and> d' + cnt' = at + nat ?ds + nat ?z \<and> at + nat ?ds \<le> d' \<and> same_outside (at + start) (at + stop) b c"
      by (rule walk_skip_ok [OF draws_Some]) (use ds b in auto)
    then obtain cnt' d' q c where skip: "walk_skip ?inside step (\<lambda>_. Some) (nat ?z) (at + nat ?ds) p b = Some (cnt', d', q, c)"
      "d' + cnt' = at + nat ?ds + nat ?z" "at + nat ?ds \<le> d'" "same_outside (at + start) (at + stop) b c" by blast
    have "\<exists>cnt'' d'' c'. walk_draw ?inside step mosaic mosh (?look pitch) ?put cnt' d' q (0, 0) c = Some (cnt'', d'', c')
        \<and> d'' + cnt'' = d' + cnt' \<and> d' \<le> d'' \<and> same_outside (at + start) (at + stop) c c'"
    proof (rule walk_draw_ok [where Q = "\<lambda>_. True"])
      show "at + start \<le> d'" "d' + cnt' \<le> at + stop" using ds skip(2,3) by linarith+
      show "n \<le> length c" using b same_outside_length [OF skip(4)] by simp
    qed (simp_all only: affine_obj_pixel_ok put simp_thms)
    then obtain cnt'' d'' c' where draw: "walk_draw ?inside step mosaic mosh (?look pitch) ?put cnt' d' q (0, 0) c = Some (cnt'', d'', c')"
      "same_outside (at + start) (at + stop) c c'" by blast
    show ?thesis using skip(1,4) draw same_outside_trans by blast
  qed
  have whole: "\<exists>c. do {
        (cnt, d, source, buf) \<leftarrow> walk_skip ?inside step (\<lambda>_. Some) (nat ?z) (at + nat ?ds) p b;
        (_, _, buf) \<leftarrow> walk_draw ?inside step mosaic mosh (?look pitch) ?put cnt d source (0, 0) buf;
        Some buf } = Some c \<and> same_outside (at + start) (at + stop) b c" for step p pitch
    using run [of step p pitch] by (elim exE conjE) simp
  show "\<exists>c. render_affine_object rd mosaic is8 rot s ob aff start stop at mosv mosh base px pn pal b = Some c
      \<and> same_outside (at + start) (at + stop) b c"
    unfolding render_affine_object_def Let_def cnt by (intro draws_or_skip whole)
qed

lemma draws_plain_sprite:
  assumes "copy_room rd n (at + stop) pal" "unat pn \<le> 240" "start \<le> stop" "obj_row is8 base"
  shows "draws n (at + start) (at + stop) (plain_sprite rd is8 mosaic s ob start stop at mosv mosh base px pn pal)"
proof (rule drawsI)
  fix b :: "'a line" assume b: "n \<le> length b"
  let ?z = "nat (min (if 0 \<le> obj_x ob - int start then int stop - obj_x ob else int stop - int start)
      (if 0 \<le> obj_x ob - int start then obj_w ob else obj_w ob + (obj_x ob - int start)))"
  have row: "obj_row is8 (base + a * (if v then of_int k * (if is8 then 64 else 32) else 1024) + c * (if is8 then 8 else 4)
      + (if w then (of_int k - 1) * (if is8 then 64 else 32) else 0))" for a c k v w
    by (intro obj_row_add obj_row_mult obj_row_if obj_row_sizes assms(4))
  have room: "at + start + nat (obj_x ob - int start) + ?z \<le> at + stop"
    if "\<not> (int stop \<le> obj_x ob \<or> obj_x ob + obj_w ob \<le> int start)"
    using that assms(3) by (auto simp: min_def)
  show "\<exists>c. plain_sprite rd is8 mosaic s ob start stop at mosv mosh base px pn pal b = Some c
      \<and> same_outside (at + start) (at + stop) b c"
  proof (cases "int stop \<le> obj_x ob \<or> obj_x ob + obj_w ob \<le> int start")
    case True
    then show ?thesis by (simp add: plain_sprite_def)
  next
    case False
    have "\<exists>c. (if P then render_object_mosaic rd is8 hf vm (obj_x ob - int start) ?z (at + start) off mosh px pn pal b
          else render_object rd is8 hf vm (obj_x ob - int start) ?z (at + start) off px pn pal b) = Some c
        \<and> same_outside (at + start) (at + stop) b c" if "obj_row is8 off" for P hf vm off
    proof -
      have "draws n (at + start) (at + stop) (render_object_mosaic rd is8 hf vm (obj_x ob - int start) ?z (at + start) off mosh px pn pal :: 'a draw)"
        "draws n (at + start) (at + stop) (render_object rd is8 hf vm (obj_x ob - int start) ?z (at + start) off px pn pal :: 'a draw)"
        using that assms room [OF False] by (intro draws_object_mosaic draws_object; simp)+
      from this [THEN drawsD, OF b] show ?thesis by (cases P) simp_all
    qed
    from this [OF row] show ?thesis
      unfolding plain_sprite_def Let_def if_not_P [OF False] .
  qed
qed

lemma base_row: "obj_row is8 (ucast (a :: u16) * 32)"
  by (intro obj_row_mult obj_row_sizes)

lemma draws_render_sprite:
  assumes "copy_room rd n (at + stop) pal" "meets ob (if is_affine \<and> is_double ob then obj_w ob * 2 else obj_w ob) start stop"
  shows "draws n (at + start) (at + stop) (render_sprite rd is8 mosaic s ob is_affine start stop at px pal)"
proof -
  let ?k = "unat (drop_bit 9 (attr1 ob) AND 0x1F)"
  have "?k \<le> 31" using and_bound [of "drop_bit 9 (attr1 ob)" "0x1F"] by simp
  then have "\<exists>v. oam16 s (32 * ?k + 6) = Some v" "\<exists>v. oam16 s (32 * ?k + 14) = Some v"
    "\<exists>v. oam16 s (32 * ?k + 22) = Some v" "\<exists>v. oam16 s (32 * ?k + 30) = Some v"
    by (intro oam16_inside; simp)+
  then obtain aff where aff: "affine_params s ?k = Some aff" by (auto simp: affine_params_def)
  have pn: "unat (if is8 then 0 else drop_bit 8 (attr2 ob) AND 0xF0) \<le> 240"
    using and_bound [of "drop_bit 8 (attr2 ob)" "0xF0"] by simp
  show ?thesis
  proof (cases is_affine)
    case True
    then show ?thesis
      using assms pn aff by (simp add: render_sprite_def [abs_def] Let_def draws_affine_object)
  next
    case False
    then show ?thesis
      using assms pn
      by (simp add: render_sprite_def [abs_def] Let_def draws_plain_sprite base_row meets_def)
  qed
qed

lemma obj_dim_le: "obj_dim a b = Some (w, h) \<Longrightarrow> 8 \<le> w \<and> w \<le> 64 \<and> 8 \<le> h \<and> h \<le> 64"
  by (auto simp: obj_dim_def obj_dim_table_def arr_get_eq_Some nth_Cons numeral_eq_Suc less_Suc_eq split: Option.bind_splits nat.splits)

lemma sprite_of_size: "sprite_of s k = Some (a, ob) \<Longrightarrow> 8 \<le> obj_w ob \<and> obj_w ob \<le> 64"
  by (auto simp: sprite_of_def Let_def split: Option.bind_splits dest!: obj_dim_le)

lemma draws_render_obj:
  assumes "copy_room rd n (at + stop) pal" "start \<le> stop" "stop \<le> 240" "sprite_of s k \<noteq> None"
    "rd = PIXCOPY \<Longrightarrow> \<forall>l r flags. start \<le> l \<and> l \<le> r \<and> r \<le> stop \<longrightarrow> draws n (at + 240 + l) (at + 240 + r) (below l r (at + 240) flags)"
  shows "draws n (at + start) (if rd = PIXCOPY then at + 240 + stop else at + stop) (render_obj rd below s start stop at pal k)"
proof -
  let ?hi = "if rd = PIXCOPY then at + 240 + stop else at + stop"
  obtain attr0 ob where ob: "sprite_of s k = Some (attr0, ob)" using assms(4) by auto
  let ?w = "if attr0 AND 0x100 \<noteq> 0 \<and> is_double ob then obj_w ob * 2 else obj_w ob"
  show ?thesis
  proof (cases "int stop \<le> obj_x ob \<or> obj_x ob + ?w \<le> int start")
    case True
    then show ?thesis by (auto simp: render_obj_def [abs_def] ob Let_def intro: draws_Some)
  next
    case False
    then have meets: "meets ob ?w start stop" using assms(2,3) sprite_of_size [OF ob] by (auto simp: meets_def)
    let ?l = "nat (max (int start) (obj_x ob))" and ?r = "nat (min (int stop) (obj_x ob + ?w))"
    have lr: "start \<le> ?l \<and> ?l \<le> ?r \<and> ?r \<le> stop" using False assms(2) sprite_of_size [OF ob] by auto
    have "draws n (at + start) (at + 240 + stop) (below ?l ?r (at + 240) fl)" if "rd = PIXCOPY" for fl
      by (rule draws_mono [OF assms(5) [OF that, rule_format, OF lr]]) (use lr in auto)
    then have "draws n (at + start) ?hi (\<lambda>buf. if rd = PIXCOPY then below ?l ?r (at + GBA_SCREEN_PITCH) fl buf else Some buf)" for fl
      by (cases "rd = PIXCOPY") (simp_all add: GBA_SCREEN_PITCH_def draws_Some)
    moreover have "draws n (at + start) ?hi (render_sprite rd is8 mosaic s ob (attr0 AND 0x100 \<noteq> 0) start stop at px pal)"
      for is8 mosaic px
      using draws_render_sprite [OF assms(1) meets] by (rule draws_mono) auto
    ultimately show ?thesis
      unfolding render_obj_def [abs_def] ob bind.bind_lunit prod.case Let_def if_not_P [OF False]
      by (intro draws_bind)
  qed
qed

lemma draws_objs:
  assumes "copy_room rd n (at + stop) pal" "start \<le> stop" "stop \<le> 240" "objs_listed s" "priority < 5"
    "unat (ior s REG_VCOUNT) < 160"
    "rd = PIXCOPY \<Longrightarrow> \<forall>l r flags. start \<le> l \<and> l \<le> r \<and> r \<le> stop \<longrightarrow> draws n (at + 240 + l) (at + 240 + r) (below l r (at + 240) flags)"
  shows "draws n (at + start) (if rd = PIXCOPY then at + 240 + stop else at + stop)
    (render_scanline_objs rd below s priority start stop at pal)"
proof -
  let ?list = "obj_priority_list (g_video (mem s)) priority (unat (ior s REG_VCOUNT))"
  have "sprite_of s k \<noteq> None" if "k \<in> set (rev ?list)" for k
    using assms(4) that unfolding objs_listed_def Let_def by auto
  moreover have "render_scanline_objs rd below s priority start stop at pal = foldo (render_obj rd below s start stop at pal) (rev ?list)"
    using assms(5,6) by (simp add: fun_eq_iff render_scanline_objs_def line_objs_def Let_def)
  ultimately show ?thesis
    using assms(1-3,7) by (simp only:) (intro draws_foldo draws_render_obj)
qed

section \<open>Effects and layers\<close>

lemma pal_index_less: "pal_index v < 512"
  using and_bound [of v "0x1FF"] by (simp add: pal_index_def)

lemma palette_total: "i < 512 \<Longrightarrow> \<exists>c. palette_at 0 s i = Some c"
  by (simp add: palette_at_def)

lemma merge_pixel_Some: "\<exists>c. merge_pixel bld st s v = Some c"
  using palette_total [OF pal_index_less, of s v] palette_total [OF pal_index_less, of s "drop_bit 16 v"]
  by (auto simp: merge_pixel_def Let_def)

lemma draws_merge_blend:
  assumes "start \<le> stop" "stop \<le> length src" "at + stop \<le> n"
  shows "draws n (at + start) (at + stop) (merge_blend bld st s start stop at src)"
  using assms merge_pixel_Some by (auto simp: merge_blend_def intro!: draws_foldo draws_lookup draws_set)

lemma draws_merge_brightness:
  assumes "start \<le> stop" "at + stop \<le> n"
  shows "draws n (at + start) (at + stop) (merge_brightness bld s start stop at)"
  using assms palette_total [OF pal_index_less]
  by (auto simp: merge_brightness_def intro!: draws_foldo draws_get draws_lookup draws_set)

lemma draws_fill_line:
  assumes "start \<le> stop" "at + stop \<le> n"
  shows "draws n (at + start) (at + stop) (fill_line_background rd s start stop at)"
  using assms palette_total [of 0 s]
  by (auto simp: fill_line_background_def [abs_def] intro!: draws_lookup draws_foldo draws_set)

lemma draws_backdrop:
  assumes "start \<le> stop" "at + stop \<le> n"
  shows "draws n (at + start) (at + stop) (render_backdrop s start stop at)"
  using assms palette_total [of 0 s]
  by (auto simp: render_backdrop_def [abs_def] intro!: draws_lookup draws_foldo draws_set)

text \<open>The conditions under which a line of the tile modes stays inside its arrays.\<close>

definition tiles_inside :: "gs \<Rightarrow> bool" where
  "tiles_inside s \<longleftrightarrow> (\<forall>layer < 4. ior s REG_DISPCNT AND 7 = 0 \<or> layer < 2 \<longrightarrow> text_inside s layer)"

definition line_ready :: "gs \<Rightarrow> bool" where
  "line_ready s \<longleftrightarrow> unat (ior s REG_DISPCNT AND 7) < 3 \<and> tiles_inside s \<and> objs_listed s \<and> unat (ior s REG_VCOUNT) < 160
     \<and> length (stack_line (g_video (mem s))) = 240"

lemma stack_mode_not_copy: "rd \<noteq> PIXCOPY \<Longrightarrow> stack_mode rd s b \<noteq> PIXCOPY"
  by (simp add: stack_mode_def)

lemma draws_layer_objs:
  assumes "line_ready s" "start \<le> stop" "stop \<le> 240" "at + stop \<le> n" "rd \<noteq> PIXCOPY"
  shows "draws n (at + start) (at + stop) (render_scanline_objs rd no_copy s (layer mod 4) start stop at (palette_at 0x100 s))"
proof -
  have "layer mod 4 < 4" by simp
  then have "layer mod 4 < 5" by linarith
  with draws_objs [of rd n at stop "palette_at 0x100 s" start s "layer mod 4" no_copy] assms show ?thesis
    by (simp add: copy_room_def line_ready_def)
qed

lemma draws_background:
  assumes "line_ready s" "start \<le> stop" "stop \<le> 240" "at + stop \<le> n" "layer < 4"
  shows "draws n (at + start) (at + stop) (\<lambda>buf.
    if 1 \<le> unat (ior s REG_DISPCNT AND 7) \<and> 2 \<le> layer
    then render_scanline_affine rd isbase s layer start stop at (palette_at 0 s) buf
    else render_scanline_text rd isbase s layer start stop at (palette_at 0 s) buf)"
proof (intro draws_if draws_affine draws_text)
  assume "\<not> (1 \<le> unat (ior s REG_DISPCNT AND 7) \<and> 2 \<le> layer)"
  moreover have "unat (ior s REG_DISPCNT AND 7) = 0 \<longleftrightarrow> ior s REG_DISPCNT AND 7 = 0"
    by (simp only: unsigned_eq_0_iff)
  ultimately show "text_inside s layer" using assms(1,5) unfolding line_ready_def tiles_inside_def by force
qed (use assms in auto)

lemma tile_layer_ok:
  assumes "line_ready s" "start \<le> stop" "stop \<le> 240" "at + stop \<le> n" "bgmode \<noteq> PIXCOPY" "objmode \<noteq> PIXCOPY" "n \<le> length b"
  shows "\<exists>done' c. render_tile_layer bgmode objmode s start stop at enabled layer (d, b) = Some (done', c)
    \<and> same_outside (at + start) (at + stop) b c"
proof -
  note D = assms(1-4)
  consider "4 \<le> layer" "enabled AND 0x10 \<noteq> 0" | "layer < 4" "bit enabled layer"
    | "4 \<le> layer" "enabled AND 0x10 = 0" | "layer < 4" "\<not> bit enabled layer" by linarith
  then show ?thesis
  proof cases
    case 1
    have "draws n (at + start) (at + stop) (\<lambda>buf. do {
        buf \<leftarrow> (if \<not> d then fill_line_background bgmode s start stop at buf else Some buf);
        render_scanline_objs (stack_mode objmode s (obj_first_target s)) no_copy s (layer mod 4) start stop at
          (palette_at 0x100 s) buf })"
      using D assms(6) by (intro draws_bind draws_if draws_Some draws_fill_line draws_layer_objs stack_mode_not_copy) auto
    from drawsD [OF this assms(7)] obtain e c where "(if \<not> d then fill_line_background bgmode s start stop at b else Some b) = Some e"
      "render_scanline_objs (stack_mode objmode s (obj_first_target s)) no_copy s (layer mod 4) start stop at (palette_at 0x100 s) e = Some c"
      "same_outside (at + start) (at + stop) b c" by (auto simp: bind_eq_Some_conv)
    then show ?thesis using 1 by (auto simp: render_tile_layer_def Let_def)
  next
    case 2
    let ?rd = "stack_mode bgmode s (drop_bit layer (ior s REG_BLDCNT) AND 1 \<noteq> 0)"
    obtain c where "(if 1 \<le> unat (ior s REG_DISPCNT AND 7) \<and> 2 \<le> layer
        then render_scanline_affine ?rd (\<not> d) s layer start stop at (palette_at 0 s) b
        else render_scanline_text ?rd (\<not> d) s layer start stop at (palette_at 0 s) b) = Some c"
      "same_outside (at + start) (at + stop) b c"
      using drawsD [OF draws_background [OF D 2(1)] assms(7)] by blast
    then show ?thesis using 2 by (auto simp: render_tile_layer_def Let_def)
  qed (auto simp: render_tile_layer_def Let_def)
qed

lemma draws_tile_layers:
  assumes "line_ready s" "start \<le> stop" "stop \<le> 240" "at + stop \<le> n" "bgmode \<noteq> PIXCOPY" "objmode \<noteq> PIXCOPY"
  shows "draws n (at + start) (at + stop) (tile_render_layers bgmode objmode s layers start stop at enabled)"
proof (rule drawsI)
  fix b :: "'a line" assume b: "n \<le> length b"
  have "\<exists>done' c. foldo (render_tile_layer bgmode objmode s start stop at enabled) layers (False, b) = Some (done', c)
      \<and> True \<and> same_outside (at + start) (at + stop) b c"
  proof (rule foldo_inv [where I = "\<lambda>_. True", OF _ TrueI b])
    fix x st and b :: "'a line" assume "n \<le> length b"
    from tile_layer_ok [OF assms this]
    show "\<exists>st' c. render_tile_layer bgmode objmode s start stop at enabled x (st, b) = Some (st', c)
        \<and> True \<and> same_outside (at + start) (at + stop) b c" by simp
  qed
  then obtain done' c where c: "foldo (render_tile_layer bgmode objmode s start stop at enabled) layers (False, b) = Some (done', c)"
    "same_outside (at + start) (at + stop) b c" by blast
  have "\<exists>e. fill_line_background bgmode s start stop at c = Some e \<and> same_outside (at + start) (at + stop) c e"
    by (rule drawsD [OF draws_fill_line [OF assms(2,4)]]) (simp add: b same_outside_length [OF c(2)])
  then show "\<exists>c. tile_render_layers bgmode objmode s layers start stop at enabled b = Some c
      \<and> same_outside (at + start) (at + stop) b c"
    using c by (auto simp: tile_render_layers_def intro: same_outside_trans)
qed

lemma draws_through_stack:
  fixes render :: "32 layers_draw"
  assumes "\<And>at n. at + stop \<le> n \<Longrightarrow> draws n (at + start) (at + stop) (render s layers start stop at flags)"
    "line_ready s" "start \<le> stop" "stop \<le> 240" "at + stop \<le> n"
  shows "draws n (at + start) (at + stop) (through_stack render bld st s layers start stop at flags)"
proof -
  obtain tmp where tmp: "render s layers start stop 0 flags (stack_line (g_video (mem s))) = Some tmp"
    "length tmp = length (stack_line (g_video (mem s)))"
    using drawsD [OF assms(1) [of 0 240], of "stack_line (g_video (mem s))"] assms(2,4) by (auto simp: line_ready_def same_outside_def)
  then show ?thesis
    using assms draws_merge_blend [of start stop tmp at n bld st s] by (simp add: through_stack_def [abs_def] line_ready_def)
qed

lemma draws_conditional:
  assumes "line_ready s" "start \<le> stop" "stop \<le> 240" "at + stop \<le> n"
  shows "draws n (at + start) (at + stop) (render_scanline_conditional s layers start stop at flags)"
proof -
  note T = draws_tile_layers [OF assms(1-3)]
  have stack: "draws n (at + start) (at + stop) (through_stack (tile_render_layers rd STCKCOLOR) bld st s layers start stop at flags)"
    if "rd \<noteq> PIXCOPY" for rd bld st
    using that assms by (intro draws_through_stack T) auto
  have plain: "draws n (at + start) (at + stop) (render_plain tile_mode_renderers s layers start stop at flags)"
    using assms(4) by (auto simp: render_plain_def tile_mode_renderers_def intro!: stack T)
  have fade: "draws n (at + start) (at + stop) (render_fade bld tile_mode_renderers s layers start stop at flags)" for bld
    unfolding render_fade_def [abs_def] tile_mode_renderers_def layer_render.simps
    using assms(2,4) by (auto intro!: draws_if draws_bind draws_merge_brightness stack T plain [unfolded tile_mode_renderers_def])
  have "draws n (at + start) (at + stop) (render_w_effects tile_mode_renderers s layers start stop at flags)"
    using stack plain fade by (simp add: render_w_effects_def render_blend_def Let_def tile_mode_renderers_def)
  then show ?thesis
    using assms draws_backdrop [OF assms(2,4)] by (auto simp: render_scanline_conditional_def Let_def line_ready_def)
qed

section \<open>Windows\<close>

text \<open>A pass changes its part of the line, and one with object windows some of the line below.\<close>

definition pass_inside :: "nat \<Rightarrow> nat \<Rightarrow> (nat \<Rightarrow> nat \<Rightarrow> 16 draw) \<Rightarrow> bool" where
  "pass_inside n at f \<longleftrightarrow> (\<forall>start stop. start \<le> stop \<longrightarrow> stop \<le> 240 \<longrightarrow> draws n at (at + 480) (f start stop))"

lemma windowout_inside:
  "line_ready s \<Longrightarrow> at + 480 \<le> n \<Longrightarrow> pass_inside n at (render_windowout_pass s layers at)"
  unfolding pass_inside_def render_windowout_pass_def
  by (auto intro: draws_mono [OF draws_conditional])

lemma windowobj_inside:
  assumes "line_ready s" "at + 480 \<le> n"
  shows "pass_inside n at (render_windowobj_pass s layers at)"
  unfolding pass_inside_def render_windowobj_pass_def [abs_def]
proof (intro allI impI draws_bind)
  fix start stop :: nat assume b: "start \<le> stop" "stop \<le> 240"
  show "draws n at (at + 480) (render_scanline_conditional s layers start stop at (ior s REG_WINOUT AND 0x3F))"
    by (rule draws_mono [OF draws_conditional [OF assms(1) b]]) (use assms b in auto)
  have "draws n (at + 240 + l) (at + 240 + r) (render_scanline_conditional s layers l r (at + 240) flags)"
    if "start \<le> l \<and> l \<le> r \<and> r \<le> stop" for l r flags
    using that assms b by (intro draws_conditional) auto
  then have "draws n (at + start) (at + 240 + stop)
      (render_scanline_objs PIXCOPY (render_scanline_conditional s layers) s 4 start stop at (\<lambda>_. None))"
    using draws_objs [of PIXCOPY n at stop "\<lambda>_. None" start s 4 "render_scanline_conditional s layers"] assms b
    by (simp add: copy_room_def line_ready_def)
  then show "draws n at (at + 480)
      (render_scanline_objs PIXCOPY (render_scanline_conditional s layers) s 4 start stop at (\<lambda>_. None))"
    by (rule draws_mono) (use b in auto)
qed

lemma window_n_inside:
  assumes "line_ready s" "at + 480 \<le> n" "pass_inside n at (outfn s layers at)"
  shows "pass_inside n at (render_window_n_pass outfn k s layers at)"
proof -
  have out: "draws n at (at + 480) (outfn s layers at l r)" if "l \<le> r" "r \<le> 240" for l r
    using assms(3) that by (simp add: pass_inside_def)
  have ins: "draws n at (at + 480) (render_scanline_conditional s layers l r at fl)" if "l \<le> r" "r \<le> 240" for l r fl
    by (rule draws_mono [OF draws_conditional [OF assms(1) that]]) (use assms(2) that in auto)
  show ?thesis
    unfolding pass_inside_def render_window_n_pass_def [abs_def] Let_def
    by (intro allI impI draws_if draws_bind draws_Some out ins) auto
qed

end
