(* ===== verification/ArmAlu.thy ===== *)
theory ArmAlu
  imports Cpu
begin

text \<open>
  The data processing macros of \<^verbatim>\<open>cpu.cc\<close>: decoding, the barrel shifter with and without its
  carry, the flag computations, and the instruction bodies built from them. An expression of
  the macro call is a function of \<^verbatim>\<open>reg[rn]\<close>, the second operand and the carry.
\<close>

section \<open>Decoding\<close>

definition field :: "u32 \<Rightarrow> nat \<Rightarrow> u32 \<Rightarrow> nat" where
  "field opcode sh m = unat (drop_bit sh opcode AND m)"

abbreviation (input) op_rn :: "u32 \<Rightarrow> nat" where "op_rn opcode \<equiv> field opcode 16 0xF"
abbreviation (input) op_rd :: "u32 \<Rightarrow> nat" where "op_rd opcode \<equiv> field opcode 12 0xF"
abbreviation (input) op_rs :: "u32 \<Rightarrow> nat" where "op_rs opcode \<equiv> field opcode 8 0xF"
abbreviation (input) op_rm :: "u32 \<Rightarrow> nat" where "op_rm opcode \<equiv> field opcode 0 0xF"

text \<open>
  The \<^verbatim>\<open>ror\<close> macro. For the amounts 0 and 32 one of the two C shifts is by the width of the
  word; on every target it gives either the value or zero, and the result is the value.
\<close>

definition ror :: "u32 \<Rightarrow> nat \<Rightarrow> u32 option" where
  "ror value shift = (if shift \<le> 32 then Some (drop_bit shift value OR push_bit (32 - shift) value) else None)"

definition asr :: "u32 \<Rightarrow> nat \<Rightarrow> u32" where
  "asr value shift = signed_drop_bit shift value"

definition rrx :: "u32 \<Rightarrow> bool \<Rightarrow> u32" where
  "rrx value c = drop_bit 1 value OR push_bit 31 (of_bool c)"

definition data_imm :: "u32 \<Rightarrow> u32 option" where
  "data_imm opcode = ror (opcode AND 0xFF) (2 * field opcode 8 0xF)"

section \<open>The barrel shifter\<close>

definition shift_register :: "u32 \<Rightarrow> (nat \<Rightarrow> u32) \<Rightarrow> nat \<times> u32" where
  "shift_register opcode r =
     (unat (r (op_rs opcode) AND 0xFF), r (op_rm opcode) + (if op_rm opcode = 15 then 4 else 0))"

definition reg_sh :: "u32 \<Rightarrow> (nat \<Rightarrow> u32) \<Rightarrow> bool \<Rightarrow> u32 option" where
  "reg_sh opcode r c =
     (let k = field opcode 4 0x7; imm = field opcode 7 0x1F; v = r (op_rm opcode);
          (shift, w) = shift_register opcode r in
      if k = 0 then Some (push_bit imm v)
      else if k = 1 then Some (if shift \<le> 31 then push_bit shift w else 0)
      else if k = 2 then Some (if imm = 0 then 0 else drop_bit imm v)
      else if k = 3 then Some (if shift \<le> 31 then drop_bit shift w else 0)
      else if k = 4 then Some (if imm = 0 then asr v 31 else asr v imm)
      else if k = 5 then Some (if shift \<le> 31 then asr w shift else asr w 31)
      else if k = 6 then (if imm = 0 then Some (rrx v c) else ror v imm)
      else ror w shift)"

definition reg_sh_flags :: "u32 \<Rightarrow> (nat \<Rightarrow> u32) \<Rightarrow> bool \<Rightarrow> (u32 \<times> bool) option" where
  "reg_sh_flags opcode r c =
     (let k = field opcode 4 0x7; imm = field opcode 7 0x1F; v = r (op_rm opcode);
          (shift, w) = shift_register opcode r in
      if k = 0 then Some (if imm \<noteq> 0 then (push_bit imm v, bit v (32 - imm)) else (v, c))
      else if k = 1 then
        Some (if shift \<noteq> 0
              then (if 31 < shift then (0, if shift = 32 then bit w 0 else False)
                    else (push_bit shift w, bit w (32 - shift)))
              else (w, c))
      else if k = 2 then Some (if imm = 0 then (0, bit v 31) else (drop_bit imm v, bit v (imm - 1)))
      else if k = 3 then
        Some (if shift \<noteq> 0
              then (if 31 < shift then (0, if shift = 32 then bit w 31 else False)
                    else (drop_bit shift w, bit w (shift - 1)))
              else (w, c))
      else if k = 4 then Some (if imm = 0 then (asr v 31, bit (asr v 31) 0) else (asr v imm, bit v (imm - 1)))
      else if k = 5 then
        Some (if shift \<noteq> 0
              then (if 31 < shift then (asr w 31, bit (asr w 31) 0) else (asr w shift, bit w (shift - 1)))
              else (w, c))
      else if k = 6 then
        (if imm = 0 then Some (rrx v c, bit v 0)
         else map_option (\<lambda>x. (x, bit v (imm - 1))) (ror v imm))
      else (if shift \<noteq> 0 then map_option (\<lambda>x. (x, bit w (shift - 1))) (ror w shift) else Some (w, c)))"

text \<open>The offset of a load or store, with immediate shift amounts only.\<close>

definition reg_offset :: "u32 \<Rightarrow> (nat \<Rightarrow> u32) \<Rightarrow> bool \<Rightarrow> u32 option" where
  "reg_offset opcode r c =
     (let k = field opcode 5 0x3; imm = field opcode 7 0x1F; v = r (op_rm opcode) in
      if k = 0 then Some (push_bit imm v)
      else if k = 1 then Some (if imm = 0 then 0 else drop_bit imm v)
      else if k = 2 then Some (if imm = 0 then asr v 31 else asr v imm)
      else (if imm = 0 then Some (rrx v c) else ror v imm))"

section \<open>Flags\<close>

definition flags_logic :: "u32 \<Rightarrow> 'm cpu \<Rightarrow> 'm cpu" where
  "flags_logic dest s = s\<lparr>z_flag := (dest = 0), n_flag := bit dest 31\<rparr>"

text \<open>\<^verbatim>\<open>dest = a + b; c = dest < b; dest += carry; c |= dest < carry\<close>, and the overflow.\<close>

definition add_result :: "u32 \<Rightarrow> u32 \<Rightarrow> u32 \<Rightarrow> u32 \<times> bool" where
  "add_result a b carry = (let d = a + b in (d + carry, d < b \<or> d + carry < carry))"

definition flags_add :: "u32 \<Rightarrow> u32 \<Rightarrow> u32 \<Rightarrow> 'm cpu \<Rightarrow> 'm cpu" where
  "flags_add dest a b s = (flags_logic dest s)\<lparr>v_flag := bit (NOT (a XOR b) AND (a XOR dest)) 31\<rparr>"

definition flags_sub :: "u32 \<Rightarrow> u32 \<Rightarrow> u32 \<Rightarrow> bool \<Rightarrow> 'm cpu \<Rightarrow> 'm cpu" where
  "flags_sub dest a b carry s =
     (flags_logic dest s)\<lparr>c_flag := (if carry then b \<le> a else b < a),
        v_flag := bit ((a XOR b) AND (NOT b XOR dest)) 31\<rparr>"

section \<open>Instruction bodies\<close>

datatype operand = Reg | Imm

definition operand2 :: "operand \<Rightarrow> u32 \<Rightarrow> 'm cpu \<Rightarrow> u32 option" where
  "operand2 ty opcode s = (case ty of Reg \<Rightarrow> reg_sh opcode (reg s) (c_flag s) | Imm \<Rightarrow> data_imm opcode)"

text \<open>The second operand of an instruction that takes its carry from the shifter.\<close>

definition operand2_flags :: "operand \<Rightarrow> u32 \<Rightarrow> 'm cpu \<Rightarrow> (u32 \<times> 'm cpu) option" where
  "operand2_flags ty opcode s =
     (case ty of
        Reg \<Rightarrow> map_option (\<lambda>(x, c). (x, s\<lparr>c_flag := c\<rparr>)) (reg_sh_flags opcode (reg s) (c_flag s))
      | Imm \<Rightarrow> map_option (\<lambda>x. (x, if field opcode 8 0xF \<noteq> 0 then s\<lparr>c_flag := bit x 31\<rparr> else s)) (data_imm opcode))"

definition arm_data_proc :: "(u32 \<Rightarrow> u32 \<Rightarrow> u32 \<Rightarrow> u32) \<Rightarrow> operand \<Rightarrow> u32 \<Rightarrow> 'm cpu \<Rightarrow> (next_loop \<times> 'm cpu) option" where
  "arm_data_proc expr ty opcode s = do {
     let s = pc_offset 8 s;
     x \<leftarrow> operand2 ty opcode s;
     let dest = expr (reg s (op_rn opcode)) x (of_bool (c_flag s));
     Some (Next, set_reg (op_rd opcode) dest (pc_offset (- 4) s)) }"

definition spsr_restore_check :: "'m bus \<Rightarrow> nat \<Rightarrow> 'm cpu \<Rightarrow> (next_loop \<times> 'm cpu) option" where
  "spsr_restore_check M rd s = (if rd = REG_PC then arm_spsr_restore M s else Some (Next, s))"

definition arm_data_proc_logic_flags ::
    "'m bus \<Rightarrow> (u32 \<Rightarrow> u32 \<Rightarrow> u32) \<Rightarrow> operand \<Rightarrow> u32 \<Rightarrow> 'm cpu \<Rightarrow> (next_loop \<times> 'm cpu) option" where
  "arm_data_proc_logic_flags M expr ty opcode s = do {
     let s = pc_offset 8 s;
     (x, s) \<leftarrow> operand2_flags ty opcode s;
     let dest = expr (reg s (op_rn opcode)) x;
     spsr_restore_check M (op_rd opcode)
       (set_reg (op_rd opcode) dest (pc_offset (- 4) (flags_logic dest s))) }"

text \<open>\<open>src_a\<close> and \<open>src_b\<close> give the two sources from \<^verbatim>\<open>reg[rn]\<close> and the second operand.\<close>

definition arm_data_proc_add_flags ::
    "'m bus \<Rightarrow> bool \<Rightarrow> operand \<Rightarrow> u32 \<Rightarrow> 'm cpu \<Rightarrow> (next_loop \<times> 'm cpu) option" where
  "arm_data_proc_add_flags M src_c ty opcode s = do {
     let s = pc_offset 8 s;
     x \<leftarrow> operand2 ty opcode s;
     let a = reg s (op_rn opcode);
     let (dest, c) = add_result a x (of_bool src_c);
     spsr_restore_check M (op_rd opcode)
       (set_reg (op_rd opcode) dest (pc_offset (- 4) (flags_add dest a x (s\<lparr>c_flag := c\<rparr>)))) }"

definition arm_data_proc_sub_flags ::
    "'m bus \<Rightarrow> bool \<Rightarrow> bool \<Rightarrow> operand \<Rightarrow> u32 \<Rightarrow> 'm cpu \<Rightarrow> (next_loop \<times> 'm cpu) option" where
  "arm_data_proc_sub_flags M reverse src_c ty opcode s = do {
     let s = pc_offset 8 s;
     x \<leftarrow> operand2 ty opcode s;
     let n = reg s (op_rn opcode);
     let (a, b) = (if reverse then (x, n) else (n, x));
     let dest = a + NOT b + of_bool src_c;
     spsr_restore_check M (op_rd opcode)
       (set_reg (op_rd opcode) dest (pc_offset (- 4) (flags_sub dest a b src_c s))) }"

definition arm_data_proc_test_logic :: "(u32 \<Rightarrow> u32 \<Rightarrow> u32) \<Rightarrow> operand \<Rightarrow> u32 \<Rightarrow> 'm cpu \<Rightarrow> (next_loop \<times> 'm cpu) option" where
  "arm_data_proc_test_logic expr ty opcode s = do {
     let s = pc_offset 8 s;
     (x, s) \<leftarrow> operand2_flags ty opcode s;
     Some (Next, pc_offset (- 4) (flags_logic (expr (reg s (op_rn opcode)) x) s)) }"

definition arm_data_proc_test_add :: "operand \<Rightarrow> u32 \<Rightarrow> 'm cpu \<Rightarrow> (next_loop \<times> 'm cpu) option" where
  "arm_data_proc_test_add ty opcode s = do {
     let s = pc_offset 8 s;
     x \<leftarrow> operand2 ty opcode s;
     let a = reg s (op_rn opcode);
     let dest = a + x;
     Some (Next, pc_offset (- 4) (flags_add dest a x (s\<lparr>c_flag := (dest < x)\<rparr>))) }"

definition arm_data_proc_test_sub :: "operand \<Rightarrow> u32 \<Rightarrow> 'm cpu \<Rightarrow> (next_loop \<times> 'm cpu) option" where
  "arm_data_proc_test_sub ty opcode s = do {
     let s = pc_offset 8 s;
     x \<leftarrow> operand2 ty opcode s;
     let a = reg s (op_rn opcode);
     Some (Next, pc_offset (- 4) (flags_sub (a - x) a x True s)) }"

section \<open>Multiplication\<close>

definition arm_multiply :: "bool \<Rightarrow> bool \<Rightarrow> u32 \<Rightarrow> 'm cpu \<Rightarrow> (next_loop \<times> 'm cpu) option" where
  "arm_multiply accumulate flags opcode s =
     (let rd = field opcode 16 0xF; rn = field opcode 12 0xF; rs = field opcode 8 0xF; rm = field opcode 0 0xF;
          dest = reg s rm * reg s rs + (if accumulate then reg s rn else 0)
      in Some (Next, pc_offset 4 (set_reg rd dest (if flags then flags_logic dest s else s))))"

definition widen :: "bool \<Rightarrow> u32 \<Rightarrow> 64 word" where
  "widen signd w = (if signd then scast w else ucast w)"

definition arm_multiply_long :: "bool \<Rightarrow> bool \<Rightarrow> bool \<Rightarrow> u32 \<Rightarrow> 'm cpu \<Rightarrow> (next_loop \<times> 'm cpu) option" where
  "arm_multiply_long accumulate flags signd opcode s =
     (let rdhi = field opcode 16 0xF; rdlo = field opcode 12 0xF; rn = field opcode 8 0xF; rm = field opcode 0 0xF;
          dest = widen signd (reg s rm) * widen signd (reg s rn)
            + (if accumulate then push_bit 32 (widen signd (reg s rdhi)) OR ucast (reg s rdlo) else 0);
          dest_lo = ucast dest; dest_hi = ucast (drop_bit 32 dest);
          s = (if flags then s\<lparr>z_flag := (dest_lo = 0 \<and> dest_hi = (0 :: u32)), n_flag := bit dest_hi 31\<rparr> else s)
      in Some (Next, pc_offset 4 (set_reg rdhi dest_hi (set_reg rdlo dest_lo s))))"

section \<open>Conditions\<close>

definition cond_passed :: "nat \<Rightarrow> 'm cpu \<Rightarrow> bool" where
  "cond_passed cond s =
     (let n = n_flag s; z = z_flag s; c = c_flag s; v = v_flag s in
      [z, \<not> z, c, \<not> c, n, \<not> n, v, \<not> v, \<not> (\<not> c \<or> z), \<not> (c \<and> \<not> z), \<not> (n \<noteq> v), \<not> (n = v),
       \<not> (z \<or> n \<noteq> v), \<not> (\<not> z \<and> n = v), True, False] ! cond)"

end
