(* ===== verification/GbaRead.thy ===== *)
theory GbaRead
  imports Gba ArmAlu
begin

text \<open>
  Reading memory: the slow path of \<^verbatim>\<open>gba_memory.c\<close> through every region, the open bus, and
  the fast path of \<^verbatim>\<open>cpu.cc\<close> through \<^verbatim>\<open>memory_map_read\<close>. The map entries of the RAM regions
  never change after \<^verbatim>\<open>init_memory\<close>; those of the cartridge are the list of theory
  \<open>Gamepak\<close>. A pointer into an array is the array and an offset.
\<close>

section \<open>Regions\<close>

definition w_mask :: "width \<Rightarrow> u32" where
  "w_mask w = (case w of W8 \<Rightarrow> 0 | W16 \<Rightarrow> 1 | W32 \<Rightarrow> 3)"

definition region :: "u32 \<Rightarrow> nat" where
  "region address = unat (drop_bit 24 address)"

definition vram_offset :: "u32 \<Rightarrow> u32" where
  "vram_offset address = (let a = address AND 0x1FFFF in if 0x18000 \<le> a then a - 0x8000 else a)"

definition read_backup_wide :: "width \<Rightarrow> u32 \<Rightarrow> gs \<Rightarrow> (u32 \<times> gs) option" where
  "read_backup_wide w address s = do {
     (b, bk) \<leftarrow> read_backup (address AND 0xFFFF) (g_backup (mem s));
     let v = ucast b;
     let v = (if w = W8 then v else v OR push_bit 8 v);
     Some (if w = W32 then v OR push_bit 16 v else v, upd (\<lambda>m. m\<lparr>g_backup := bk\<rparr>) s) }"

definition unmapped_rom_read :: "width \<Rightarrow> u32 \<Rightarrow> u32" where
  "unmapped_rom_read w a =
     (case w of
        W8 \<Rightarrow> drop_bit (unat ((a AND 1) * 8)) (drop_bit 1 a) AND 0xFF
      | W16 \<Rightarrow> drop_bit 1 a AND 0xFFFF
      | W32 \<Rightarrow> (drop_bit 1 (a AND NOT 3) AND 0xFFFF) OR push_bit 16 (drop_bit 1 ((a AND NOT 3) + 2)))"

text \<open>A page fault; the eviction loop needs at most one round per slot.\<close>

definition page_fault :: "nat \<Rightarrow> gs \<Rightarrow> (nat \<times> gs) option" where
  "page_fault index s = do {
     let m = mem s;
     (e, p) \<leftarrow> load_gamepak_page (32 * buffer_count (g_pak m)) (g_gpio m) (g_file m) (index mod 1024) (g_pak m);
     Some (e, upd (\<lambda>m. m\<lparr>g_pak := p\<rparr>) s) }"

definition rom_slot :: "u32 \<Rightarrow> gs \<Rightarrow> (nat \<times> gs) option" where
  "rom_slot address s = do {
     let index = unat (drop_bit 15 address);
     p \<leftarrow> arr_get (memory_map (g_pak (mem s))) index;
     case p of Some e \<Rightarrow> Some (e, s) | None \<Rightarrow> page_fault index s }"

definition read_slot :: "width \<Rightarrow> nat \<Rightarrow> u32 \<Rightarrow> gs \<Rightarrow> u32 option" where
  "read_slot w e off s = do {
     blk \<leftarrow> arr_get (buffers (g_pak (mem s))) e;
     readaddress w (length blk) ((!) blk) off }"

definition read_memory_gamepak :: "width \<Rightarrow> u32 \<Rightarrow> gs \<Rightarrow> (u32 \<times> gs) option" where
  "read_memory_gamepak w address s = do {
     (e, s) \<leftarrow> rom_slot address s;
     v \<leftarrow> read_slot w e (address AND 0x7FFF) s;
     Some (v, s) }"

text \<open>The regions other than the open bus.\<close>

definition read_mapped :: "width \<Rightarrow> u32 \<Rightarrow> gs \<Rightarrow> (u32 \<times> gs) option" where
  "read_mapped w address s =
     (let r = region address; m = mem s; pure = map_option (\<lambda>v. (v, s)) in
      if r = 0x00 then
        (if 0x4000 \<le> reg s REG_PC
         then pure (Some (let v = drop_bit (8 * unat (address AND 3)) (reg s REG_BUS_VALUE)
                          in case w of W8 \<Rightarrow> v AND 0xFF | W16 \<Rightarrow> v AND 0xFFFF | W32 \<Rightarrow> v))
         else pure (readaddress w BIOS_SIZE (g_bios m) (address AND 0x3FFF)))
      else if r = 0x02 then pure (readaddress w EWRAM_SIZE (g_ewram m) (address AND 0x3FFFF))
      else if r = 0x03 then pure (readaddress w IWRAM_SIZE (g_iwram m) ((address AND 0x7FFF) + 0x8000))
      else if r = 0x04 then pure (readaddress w IO_SIZE (io_bytes (ioregs_of s)) (address AND 0x3FF))
      else if r = 0x05 then pure (readaddress w 0x400 (g_palette m) (address AND 0x3FF))
      else if r = 0x06 then pure (readaddress w VRAM_SIZE (g_vram m) (vram_offset address))
      else if r = 0x07 then pure (readaddress w 0x400 (g_oam m) (address AND 0x3FF))
      else if r = 0x0D \<and> backup_type (g_backup m) = BACKUP_EEPROM then
        do { (v, bk) \<leftarrow> read_eeprom (g_backup m); Some (v, upd (\<lambda>m. m\<lparr>g_backup := bk\<rparr>) s) }
      else if r < 0x0E then
        (if gamepak_size (g_pak m) \<le> unat (address AND 0x1FFFFFF)
         then pure (Some (unmapped_rom_read w address))
         else read_memory_gamepak w address s)
      else read_backup_wide w address s)"

section \<open>The open bus\<close>

definition is_open :: "u32 \<Rightarrow> bool" where
  "is_open address \<longleftrightarrow>
     (let r = region address in (r = 0x00 \<and> 0x4000 \<le> address) \<or> r = 0x01 \<or> 0x10 \<le> r)"

text \<open>
  The access \<^verbatim>\<open>read_open\<close> makes instead, at the instruction being fetched; the flag tells that
  the halfword read stands for both halves.
\<close>

definition open_access :: "width \<Rightarrow> u32 \<Rightarrow> gs \<Rightarrow> width \<times> u32 \<times> bool" where
  "open_access w address s =
     (let pc = reg s REG_PC; arm = (reg s REG_CPSR AND 0x20 = 0) in
      case w of
        W8 \<Rightarrow> (if arm then (W8, pc + 8 + (address AND 3), False) else (W8, pc + 4 + (address AND 1), False))
      | W16 \<Rightarrow> (if arm then (W16, pc + 8 + (address AND 2), False) else (W16, pc + 4, False))
      | W32 \<Rightarrow> (if arm then (W32, pc + 8, False) else (W16, pc + 4, True)))"

text \<open>The result for an address that was aligned down by the access.\<close>

definition finish_read :: "width \<Rightarrow> u32 \<Rightarrow> u32 \<Rightarrow> u32 option" where
  "finish_read w address v =
     (case w of W8 \<Rightarrow> Some (v AND 0xFF)
      | W16 \<Rightarrow> (if address AND 1 \<noteq> 0 then ror v 8 else Some v)
      | W32 \<Rightarrow> ror v (8 * unat (address AND 3)))"

text \<open>
  \<^verbatim>\<open>read_memory8\<close>, \<^verbatim>\<open>read_memory16\<close> and \<^verbatim>\<open>read_memory32\<close>. Nothing stops the recursion when the
  program counter is itself on the open bus.
\<close>

partial_function (option) read_memory :: "width \<Rightarrow> u32 \<Rightarrow> gs \<Rightarrow> (u32 \<times> gs) option" where
  "read_memory w address s =
     (if is_open (address AND NOT (w_mask w))
      then do {
        (v, s) \<leftarrow> read_memory (fst (open_access w (address AND NOT (w_mask w)) s))
                   (fst (snd (open_access w (address AND NOT (w_mask w)) s))) s;
        v \<leftarrow> finish_read w address
              (if snd (snd (open_access w (address AND NOT (w_mask w)) s)) then v OR push_bit 16 v else v);
        Some (v, s) }
      else do {
        (v, s) \<leftarrow> read_mapped w (address AND NOT (w_mask w)) s;
        v \<leftarrow> finish_read w address v;
        Some (v, s) })"

definition read_memory16_signed :: "u32 \<Rightarrow> gs \<Rightarrow> (u16 \<times> gs) option" where
  "read_memory16_signed address s =
     (if address AND 1 \<noteq> 0
      then map_option (\<lambda>(v, s). (scast (ucast v :: u8), s)) (read_memory W8 address s)
      else map_option (\<lambda>(v, s). (ucast v, s)) (read_memory W16 address s))"

section \<open>The fast path\<close>

text \<open>The entry of \<^verbatim>\<open>memory_map_read\<close>; the outer \<open>None\<close> is an index past its end, the inner one a null pointer.\<close>

definition memory_map_read :: "nat \<Rightarrow> gs \<Rightarrow> block option option" where
  "memory_map_read i s =
     (if i < 0x200 then Some (Some B_bios)
      else if i < 0x400 then Some None
      else if i < 0x600 then Some (Some (B_ewram (i mod 8 * PAGE)))
      else if i < 0x800 then Some (Some B_iwram)
      else if i < 0xA00 then Some (Some B_io)
      else if i < 0xC00 then Some None
      else if i < 0xE00 then Some (Some (B_vram (min (i mod 4) 2 * PAGE)))
      else if i < 0x1000 then Some None
      else if i < 0x1C00 then map_option (map_option B_rom) (arr_get (memory_map (g_pak (mem s))) i)
      else if i < 0x2000 then Some None
      else None)"

definition read_block :: "width \<Rightarrow> block \<Rightarrow> u32 \<Rightarrow> gs \<Rightarrow> u32 option" where
  "read_block w b off s =
     (let m = mem s in
      case b of
        B_bios \<Rightarrow> readaddress w BIOS_SIZE (g_bios m) off
      | B_ewram k \<Rightarrow> readaddress w EWRAM_SIZE (g_ewram m) (of_nat k + off)
      | B_iwram \<Rightarrow> readaddress w IWRAM_SIZE (g_iwram m) (0x8000 + off)
      | B_io \<Rightarrow> readaddress w IO_SIZE (io_bytes (ioregs_of s)) off
      | B_vram k \<Rightarrow> readaddress w VRAM_SIZE (g_vram m) (of_nat k + off)
      | B_rom e \<Rightarrow> read_slot w e off s)"

text \<open>The conversion \<^verbatim>\<open>(type)\<close> of the macro, and the read function of each type.\<close>

definition convert_read :: "access \<Rightarrow> u32 \<Rightarrow> u32" where
  "convert_read acc v =
     (case acc of U8 \<Rightarrow> v AND 0xFF | S8 \<Rightarrow> scast (ucast v :: u8) | U16 \<Rightarrow> v AND 0xFFFF
      | S16 \<Rightarrow> scast (ucast v :: u16) | U32 \<Rightarrow> v | Aligned32 \<Rightarrow> v)"

definition access_width :: "access \<Rightarrow> width" where
  "access_width acc = (case acc of U8 \<Rightarrow> W8 | S8 \<Rightarrow> W8 | U16 \<Rightarrow> W16 | S16 \<Rightarrow> W16 | _ \<Rightarrow> W32)"

definition slow_read :: "access \<Rightarrow> u32 \<Rightarrow> gs \<Rightarrow> (u32 \<times> gs) option" where
  "slow_read acc address s =
     (if acc = S16 then map_option (\<lambda>(v, s). (ucast v, s)) (read_memory16_signed address s)
      else read_memory (access_width acc) address s)"

definition charge :: "(u8 \<times> u8) list \<Rightarrow> bool \<Rightarrow> u32 \<Rightarrow> gs \<Rightarrow> gs option" where
  "charge ws word_access address s =
     (if address < 0x10000000
      then do {
        (half, full) \<leftarrow> arr_get ws (region address);
        Some (s\<lparr>cycles := cycles s - ucast (if word_access then full else half)\<rparr>) }
      else Some s)"

definition fast_read_memory :: "access \<Rightarrow> u32 \<Rightarrow> gs \<Rightarrow> (u32 \<times> gs) option" where
  "fast_read_memory acc address s = do {
     let w = access_width acc;
     s \<leftarrow> charge (g_ws_nseq (mem s)) (w = W32) address s;
     if (region address = 0 \<and> 0x4000 \<le> reg s REG_PC) \<or> address AND (0xF0000000 OR w_mask w) \<noteq> 0
     then map_option (\<lambda>(v, s). (convert_read acc v, s)) (slow_read acc address s)
     else do {
       b \<leftarrow> memory_map_read (unat (drop_bit 15 address)) s;
       case b of
         None \<Rightarrow> map_option (\<lambda>(v, s). (convert_read acc v, s)) (slow_read acc address s)
       | Some blk \<Rightarrow> map_option (\<lambda>v. (convert_read acc v, s)) (read_block w blk (address AND 0x7FFF) s) } }"

text \<open>The map is indexed before the address is compared with its limit.\<close>

definition load_aligned32 :: "u32 \<Rightarrow> gs \<Rightarrow> (u32 \<times> gs) option" where
  "load_aligned32 address s = do {
     b \<leftarrow> memory_map_read (unat (drop_bit 15 address)) s;
     s \<leftarrow> charge (g_ws_seq (mem s)) True address s;
     case b of
       None \<Rightarrow> read_memory W32 address s
     | Some blk \<Rightarrow> map_option (\<lambda>v. (v, s)) (read_block W32 blk (address AND 0x7FFF) s) }"

definition gba_load :: "access \<Rightarrow> u32 \<Rightarrow> gs \<Rightarrow> (u32 \<times> gs) option" where
  "gba_load acc address s = (if acc = Aligned32 then load_aligned32 address s else fast_read_memory acc address s)"

section \<open>Instruction fetch\<close>

definition look_up :: "nat \<Rightarrow> gs \<Rightarrow> (block \<times> gs) option" where
  "look_up pc_region s = do {
     b \<leftarrow> memory_map_read pc_region s;
     let s = upd (\<lambda>m. m\<lparr>g_pak := touch_gamepak_page pc_region (g_pak m)\<rparr>) s;
     (blk, s) \<leftarrow> (case b of Some blk \<Rightarrow> Some (blk, s)
                  | None \<Rightarrow> map_option (\<lambda>(e, s). (B_rom e, s)) (page_fault pc_region s));
     Some (blk, upd (\<lambda>m. m\<lparr>g_pc_block := Some (pc_region, blk)\<rparr>) s) }"

text \<open>
  \<^verbatim>\<open>check_pc_region\<close>: the block of the program counter is looked up when its 32 KB region changes
  and kept in \<open>g_pc_block\<close> otherwise (the locals \<^verbatim>\<open>pc_region\<close> and \<^verbatim>\<open>pc_address_block\<close>).
\<close>

definition check_pc_region :: "gs \<Rightarrow> (block \<times> gs) option" where
  "check_pc_region s =
     (let pc_region = unat (drop_bit 15 (reg s REG_PC)) in
      case g_pc_block (mem s) of
        Some (r, blk) \<Rightarrow> if r = pc_region then Some (blk, s) else look_up pc_region s
      | None \<Rightarrow> look_up pc_region s)"

definition gba_fetch :: "access \<Rightarrow> gs \<Rightarrow> (u32 \<times> gs) option" where
  "gba_fetch acc s = do {
     (blk, s) \<leftarrow> check_pc_region s;
     v \<leftarrow> read_block (access_width acc) blk (reg s REG_PC AND 0x7FFF) s;
     Some (v, s) }"

end
