(* ===== verification/GbaIo.thy ===== *)
theory GbaIo
  imports GbaRead
begin

text \<open>
  Writing the I/O registers (\<^verbatim>\<open>gba_memory.c\<close>): the sound registers, the timers, the DMA control
  registers, and the dispatch \<^verbatim>\<open>write_io_register16\<close>. A DMA that starts at once runs inside the
  write; \<open>dma\<close> is that transfer, of theory \<open>GbaDma\<close>, and gives its alerts and its cycles.
  A write gives the alerts for the processor.
\<close>

type_synonym dma_run = "nat \<Rightarrow> gs \<Rightarrow> (u8 \<times> u32 \<times> gs) option"

section \<open>Sound registers\<close>

definition render_sound :: "gs \<Rightarrow> gs option" where
  "render_sound s = do {
     let m = mem s;
     let wave = map (io_bytes (ioregs_of s)) [0x90..<0xA0];
     (r, snd_st) \<leftarrow> render_gbc_sound (g_cpu_ticks m) (g_freq_bits m) (ior s REG_SOUNDCNT_X)
                     (if g_wave_update m then Some wave else None) (g_sound m);
     let s = upd (\<lambda>m. m\<lparr>g_sound := snd_st\<rparr>) s;
     case r of None \<Rightarrow> Some s
     | Some (v, on) \<Rightarrow> Some (iow REG_SOUNDCNT_X v (if on then upd (\<lambda>m. m\<lparr>g_wave_update := False\<rparr>) s else s)) }"

definition with_sound :: "(sound_state \<Rightarrow> sound_state) \<Rightarrow> gs \<Rightarrow> gs" where
  "with_sound f = upd (\<lambda>m. m\<lparr>g_sound := f (g_sound m)\<rparr>)"

definition with_tone :: "nat \<Rightarrow> (gbc_sound \<Rightarrow> gbc_sound) \<Rightarrow> gs \<Rightarrow> gs option" where
  "with_tone i f s = do {
     g \<leftarrow> arr_get (gbc_sound_channel (g_sound (mem s))) i;
     Some (with_sound (\<lambda>x. x\<lparr>gbc_sound_channel := (gbc_sound_channel x)[i := f g]\<rparr>) s) }"

definition tone_control_low :: "nat \<Rightarrow> nat \<Rightarrow> u32 \<Rightarrow> gs \<Rightarrow> gs option" where
  "tone_control_low i regn value s = do {
     s \<leftarrow> render_sound s;
     let vol = drop_bit 12 value AND 0x0F;
     let ticks = (drop_bit 8 value AND 0x07) * 4;
     s \<leftarrow> with_tone i (\<lambda>g. g\<lparr>length_ticks := 64 - (value AND 0x3F), sample_table_idx := drop_bit 6 value AND 0x03,
            envelope_direction := drop_bit 11 value AND 0x01, envelope_initial_volume := vol, envelope_volume := vol,
            envelope_initial_ticks := ticks, envelope_ticks := ticks,
            envelope_status := of_bool (ticks \<noteq> 0)\<rparr>) s;
     Some (iow regn (ucast value) s) }"

text \<open>The restart bit of a tone or noise channel.\<close>

definition restart_envelope :: "gbc_sound \<Rightarrow> gbc_sound" where
  "restart_envelope g = g\<lparr>envelope_ticks := envelope_initial_ticks g, envelope_volume := envelope_initial_volume g\<rparr>"

definition tone_control_high :: "nat \<Rightarrow> nat \<Rightarrow> u32 \<Rightarrow> gs \<Rightarrow> gs option" where
  "tone_control_high i regn value s = do {
     s \<leftarrow> render_sound s;
     let f = value AND 0x7FF;
     st \<leftarrow> psg_tone_step (g_freq_bits (mem s)) f;
     s \<leftarrow> with_tone i (\<lambda>g. let g = g\<lparr>rate := f, frequency_step := st, length_status := drop_bit 14 value AND 0x01\<rparr> in
            if value AND 0x8000 \<noteq> 0
            then restart_envelope (g\<lparr>active_flag := 1, sample_index := sample_index g - 65536 div 12\<rparr>) else g) s;
     Some (iow regn (ucast (value AND 0x47FF)) s) }"

definition tone_control_sweep :: "u32 \<Rightarrow> gs \<Rightarrow> gs option" where
  "tone_control_sweep value s = do {
     s \<leftarrow> render_sound s;
     let value = value AND 0x007F;
     let ticks = (drop_bit 4 value AND 0x07) * 2;
     s \<leftarrow> with_tone 0 (\<lambda>g. g\<lparr>sweep_shift := value AND 0x07, sweep_direction := drop_bit 3 value AND 0x01,
            sweep_status := of_bool (value \<noteq> 8), sweep_ticks := ticks, sweep_initial_ticks := ticks\<rparr>) s;
     Some (iow REG_SOUND1CNT_L (ucast value) s) }"

definition wave_control :: "u32 \<Rightarrow> gs \<Rightarrow> gs option" where
  "wave_control value s = do {
     s \<leftarrow> render_sound s;
     s \<leftarrow> with_tone 2 (\<lambda>g. g\<lparr>wave_type := drop_bit 5 value AND 0x01, wave_bank := drop_bit 6 value AND 0x01,
            master_enable := of_bool (value AND 0x80 \<noteq> 0)\<rparr>) s;
     Some (iow REG_SOUND3CNT_L (ucast (value AND 0x00E0)) s) }"

definition wave_volume_table :: "u32 list" where
  "wave_volume_table = [0, 16384, 8192, 4096]"

definition tone_control_low_wave :: "u32 \<Rightarrow> gs \<Rightarrow> gs option" where
  "tone_control_low_wave value s = do {
     s \<leftarrow> render_sound s;
     s \<leftarrow> with_tone 2 (\<lambda>g. g\<lparr>length_ticks := 256 - (value AND 0xFF),
            wave_volume := (if drop_bit 15 value AND 0x01 \<noteq> 0 then 12288
                            else wave_volume_table ! unat (drop_bit 13 value AND 0x03))\<rparr>) s;
     Some (iow REG_SOUND3CNT_H (ucast value) s) }"

definition tone_control_high_wave :: "u32 \<Rightarrow> gs \<Rightarrow> gs option" where
  "tone_control_high_wave value s = do {
     s \<leftarrow> render_sound s;
     let f = value AND 0x7FF;
     st \<leftarrow> psg_wave_step (g_freq_bits (mem s)) f;
     s \<leftarrow> with_tone 2 (\<lambda>g. let g = g\<lparr>rate := f, frequency_step := st, length_status := drop_bit 14 value AND 0x01\<rparr> in
            if value AND 0x8000 \<noteq> 0 then g\<lparr>sample_index := 0, active_flag := 1\<rparr> else g) s;
     Some (iow REG_SOUND3CNT_X (ucast value) s) }"

definition noise_control :: "u32 \<Rightarrow> gs \<Rightarrow> gs option" where
  "noise_control value s = do {
     s \<leftarrow> render_sound s;
     st \<leftarrow> psg_noise_step (g_freq_bits (mem s)) (value AND 0x07) (unat (drop_bit 4 value AND 0x0F));
     s \<leftarrow> with_tone 3 (\<lambda>g. let g = g\<lparr>frequency_step := st, noise_type := drop_bit 3 value AND 0x01,
                                      length_status := drop_bit 14 value AND 0x01\<rparr> in
            if value AND 0x8000 \<noteq> 0 then restart_envelope (g\<lparr>sample_index := 0, active_flag := 1\<rparr>) else g) s;
     Some (iow REG_SOUND4CNT_H (ucast (value AND 0x40FF)) s) }"

text \<open>The routing of a tone channel; the mask of the left half is as the code has it.\<close>

definition tone_routing :: "nat \<Rightarrow> u32 \<Rightarrow> u32" where
  "tone_routing i value = (drop_bit (i + 8) value AND 0x1) OR (drop_bit (i + 11) value AND 0x3)"

definition gbc_trigger_sound :: "u32 \<Rightarrow> gs \<Rightarrow> gs option" where
  "gbc_trigger_sound value s = do {
     s \<leftarrow> render_sound s;
     s \<leftarrow> with_tone 0 (\<lambda>g. g\<lparr>gs_status := tone_routing 0 value\<rparr>) s;
     s \<leftarrow> with_tone 1 (\<lambda>g. g\<lparr>gs_status := tone_routing 1 value\<rparr>) s;
     s \<leftarrow> with_tone 2 (\<lambda>g. g\<lparr>gs_status := tone_routing 2 value\<rparr>) s;
     s \<leftarrow> with_tone 3 (\<lambda>g. g\<lparr>gs_status := tone_routing 3 value\<rparr>) s;
     let s = with_sound (\<lambda>x. x\<lparr>gbc_sound_master_volume_right := value AND 0x07,
                               gbc_sound_master_volume_left := drop_bit 4 value AND 0x07\<rparr>) s;
     Some (iow REG_SOUNDCNT_L (ucast (value AND 0xFF77)) s) }"

section \<open>Timers\<close>

abbreviation (input) TIMER_INACTIVE :: u32 where "TIMER_INACTIVE \<equiv> 0"
abbreviation (input) TIMER_PRESCALE :: u32 where "TIMER_PRESCALE \<equiv> 1"
abbreviation (input) TIMER_CASCADE :: u32 where "TIMER_CASCADE \<equiv> 2"

definition get_timer :: "nat \<Rightarrow> gs \<Rightarrow> timer_type option" where
  "get_timer n s = arr_get (g_timers (mem s)) n"

definition put_timer :: "nat \<Rightarrow> timer_type \<Rightarrow> gs \<Rightarrow> gs" where
  "put_timer n t = upd (\<lambda>m. m\<lparr>g_timers := (g_timers m)[n := t]\<rparr>)"

text \<open>\<^verbatim>\<open>sound_update_frequency_step\<close>: the quotient is computed in 64 bits and truncated to 32.\<close>

definition timer_frequency_step :: "nat \<Rightarrow> u32 \<Rightarrow> u32 option" where
  "timer_frequency_step bits timer_reload =
     (let d = sound_frequency bits * ucast timer_reload :: 64 word in
      if d = 0 then None else Some (ucast (push_bit 24 base_rate div d)))"

definition count_timer :: "nat \<Rightarrow> u32 \<Rightarrow> gs \<Rightarrow> gs option" where
  "count_timer n value s = do {
     t \<leftarrow> get_timer n s;
     let t = t\<lparr>tm_reload := 0x10000 - value\<rparr>;
     if n < 2 then do {
       st \<leftarrow> timer_frequency_step (g_freq_bits (mem s)) (push_bit (unat (tm_prescale t)) (tm_reload t));
       Some (put_timer n (t\<lparr>tm_frequency_step := st\<rparr>) s) }
     else Some (put_timer n t s) }"

definition adjust_sound_buffer :: "timer_type \<Rightarrow> nat \<Rightarrow> u32 \<Rightarrow> sound_state \<Rightarrow> sound_state" where
  "adjust_sound_buffer t chn buffer_adjust x =
     (if tm_direct_sound_channels t AND push_bit chn 1 \<noteq> 0
      then x\<lparr>direct_sound_channel := (direct_sound_channel x)[chn :=
             (direct_sound_channel x ! chn)\<lparr>buffer_index :=
               (gbc_sound_buffer_index x + buffer_adjust) mod of_nat BUFFER_SIZE\<rparr>]\<rparr>
      else x)"

definition prescale_table :: "u32 list" where "prescale_table = [0, 6, 8, 10]"

definition start_timer :: "nat \<Rightarrow> u32 \<Rightarrow> timer_type \<Rightarrow> gs \<Rightarrow> gs option" where
  "start_timer n value t s = do {
     let prescale = prescale_table ! unat (value AND 0x03);
     let t = t\<lparr>tm_status := (if drop_bit 2 value AND 0x01 \<noteq> 0 then TIMER_CASCADE else TIMER_PRESCALE),
               tm_prescale := prescale, tm_irq := drop_bit 6 value AND 0x1\<rparr>;
     let s = iow (REG_TM0D + 2 * n) (ucast (- tm_reload t)) s;
     let timer_reload = push_bit (unat prescale) (tm_reload t);
     let t = t\<lparr>tm_count := timer_reload\<rparr>;
     let s = upd (\<lambda>m. m\<lparr>g_execute_cycles := min (g_execute_cycles m) timer_reload\<rparr>) s;
     if n < 2 then do {
       let m = mem s; let x = g_sound m;
       let adj = ucast (ucast (g_cpu_ticks m - gbc_sound_last_cpu_ticks x) * sound_frequency (g_freq_bits m)
                        div base_rate) * 2;
       st \<leftarrow> timer_frequency_step (g_freq_bits m) timer_reload;
       let t = t\<lparr>tm_frequency_step := st\<rparr>;
       Some (with_sound (\<lambda>x. adjust_sound_buffer t 1 adj (adjust_sound_buffer t 0 adj x)) (put_timer n t s)) }
     else Some (put_timer n t s) }"

definition trigger_timer :: "nat \<Rightarrow> u32 \<Rightarrow> gs \<Rightarrow> gs option" where
  "trigger_timer n value s = do {
     t \<leftarrow> get_timer n s;
     s \<leftarrow> (if value AND 0x80 \<noteq> 0
          then (if tm_status t = TIMER_INACTIVE then start_timer n value t s else Some s)
          else Some (put_timer n (t\<lparr>tm_status := TIMER_INACTIVE\<rparr>) s));
     Some (iow (REG_TM0CNT + 2 * n) (ucast value) s) }"

section \<open>Sound control\<close>

definition direct_sound_setup :: "nat \<Rightarrow> u32 \<Rightarrow> u32 \<Rightarrow> sound_state \<Rightarrow> sound_state" where
  "direct_sound_setup chn halve st x =
     x\<lparr>direct_sound_channel := (direct_sound_channel x)[chn :=
        (direct_sound_channel x ! chn)\<lparr>volume_halve := halve, ds_status := st\<rparr>]\<rparr>"

definition timer_routing :: "u32 \<Rightarrow> u32 \<Rightarrow> u32" where
  "timer_routing n value =
     of_bool (drop_bit 10 value AND 0x01 = n) OR push_bit 1 (of_bool (drop_bit 14 value AND 0x01 = n))"

definition trigger_sound :: "u32 \<Rightarrow> gs \<Rightarrow> gs option" where
  "trigger_sound value s = do {
     s \<leftarrow> render_sound s;
     t0 \<leftarrow> get_timer 0 s;
     let s = put_timer 0 (t0\<lparr>tm_direct_sound_channels := timer_routing 0 value\<rparr>) s;
     t1 \<leftarrow> get_timer 1 s;
     let s = put_timer 1 (t1\<lparr>tm_direct_sound_channels := timer_routing 1 value\<rparr>) s;
     let s = with_sound (\<lambda>x. (direct_sound_setup 1 (NOT (drop_bit 3 value) AND 0x01) (drop_bit 12 value AND 0x03)
                (direct_sound_setup 0 (NOT (drop_bit 2 value) AND 0x01) (drop_bit 8 value AND 0x03) x))
                \<lparr>gbc_sound_master_volume := value AND 0x03\<rparr>) s;
     x \<leftarrow> (if drop_bit 11 value AND 0x01 \<noteq> 0 then sound_reset_fifo 0 (g_sound (mem s)) else Some (g_sound (mem s)));
     x \<leftarrow> (if drop_bit 15 value AND 0x01 \<noteq> 0 then sound_reset_fifo 1 x else Some x);
     Some (iow REG_SOUNDCNT_H (ucast (value AND 0x770F)) (with_sound (\<lambda>_. x) s)) }"

definition sound_control_x :: "u32 \<Rightarrow> gs \<Rightarrow> gs option" where
  "sound_control_x value s = do {
     s \<leftarrow> render_sound s;
     let s = (if value AND 0x80 \<noteq> 0 then with_sound (\<lambda>x. x\<lparr>sound_on := 1\<rparr>) s
              else with_sound (\<lambda>x. x\<lparr>gbc_sound_channel := map (\<lambda>g. g\<lparr>active_flag := 0\<rparr>) (gbc_sound_channel x),
                                     sound_on := 0\<rparr>) s);
     Some (iow REG_SOUNDCNT_X ((ucast value AND 0xFFF0) OR (ior s REG_SOUNDCNT_X AND 0x000F)) s) }"

definition sound_wave_write :: "nat \<Rightarrow> u32 \<Rightarrow> gs \<Rightarrow> gs option" where
  "sound_wave_write r value s = do {
     s \<leftarrow> render_sound s;
     Some (iow r (ucast value) (upd (\<lambda>m. m\<lparr>g_wave_update := True\<rparr>) s)) }"

section \<open>DMA control\<close>

abbreviation (input) DMA_START_IMMEDIATELY :: u32 where "DMA_START_IMMEDIATELY \<equiv> 0"
abbreviation (input) DMA_START_VBLANK :: u32 where "DMA_START_VBLANK \<equiv> 1"
abbreviation (input) DMA_START_HBLANK :: u32 where "DMA_START_HBLANK \<equiv> 2"
abbreviation (input) DMA_START_SPECIAL :: u32 where "DMA_START_SPECIAL \<equiv> 3"
abbreviation (input) DMA_INACTIVE :: u32 where "DMA_INACTIVE \<equiv> 4"
abbreviation (input) DMA_NO_DIRECT_SOUND :: u32 where "DMA_NO_DIRECT_SOUND \<equiv> 2"

definition get_dma :: "nat \<Rightarrow> gs \<Rightarrow> dma_transfer option" where
  "get_dma n s = arr_get (g_dma (mem s)) n"

definition put_dma :: "nat \<Rightarrow> dma_transfer \<Rightarrow> gs \<Rightarrow> gs" where
  "put_dma n d = upd (\<lambda>m. m\<lparr>g_dma := (g_dma m)[n := d]\<rparr>)"

definition dma_address :: "nat \<Rightarrow> nat \<Rightarrow> gs \<Rightarrow> u32" where
  "dma_address r n s = 0xFFFFFFF AND (ucast (read_dmareg s r n) OR push_bit 16 (ucast (read_dmareg s (r + 1) n)))"

definition dma_count :: "nat \<Rightarrow> u16 \<Rightarrow> u32" where
  "dma_count n cnt =
     (let len = (if n < 3 then ucast cnt AND 0x3FFF else ucast cnt) in
      if len = 0 then (if n = 3 then 0x10000 else 0x04000) else len)"

definition setup_dma :: "nat \<Rightarrow> u32 \<Rightarrow> gs \<Rightarrow> dma_transfer \<Rightarrow> gs" where
  "setup_dma n value s d =
     (let start = drop_bit 12 value AND 0x03;
          src = dma_address REG_DMA0SAD n s; dst = dma_address REG_DMA0DAD n s;
          d = d\<lparr>source_address := src, dest_address := dst, source_direction := drop_bit 7 value AND 3,
                repeat_type := drop_bit 9 value AND 0x01, start_type := start, dma_irq := drop_bit 14 value AND 0x1\<rparr>;
          cnt = read_dmareg s REG_DMA0CNT_L n in
      if 1 \<le> n \<and> n \<le> 2 \<and> start = DMA_START_SPECIAL
      then put_dma n (d\<lparr>length_type := 1, dma_length := 4, dest_direction := 2,
             direct_sound_chan := (if dst = 0x40000A4 then 1 else 0)\<rparr>) s
      else put_dma n (d\<lparr>dma_length := dma_count n cnt, length_type := drop_bit 10 value AND 0x01,
             dest_direction := drop_bit 5 value AND 3\<rparr>)
             (upd (\<lambda>m. m\<lparr>g_backup := detect_eeprom_size (of_nat n) dst cnt (g_backup m)\<rparr>) s))"

definition trigger_dma :: "dma_run \<Rightarrow> nat \<Rightarrow> u32 \<Rightarrow> gs \<Rightarrow> (u8 \<times> gs) option" where
  "trigger_dma dma n value s = do {
     d \<leftarrow> get_dma n s;
     if value AND 0x8000 = 0 then
       Some (CPU_ALERT_NONE, write_dmareg REG_DMA0CNT_H n (ucast value)
         (put_dma n (d\<lparr>start_type := DMA_INACTIVE, direct_sound_chan := DMA_NO_DIRECT_SOUND\<rparr>) s))
     else if start_type d \<noteq> DMA_INACTIVE then Some (CPU_ALERT_NONE, s)
     else (let s = write_dmareg REG_DMA0CNT_H n (ucast value) (setup_dma n value s d) in
       if drop_bit 12 value AND 0x03 = DMA_START_IMMEDIATELY then do {
         (ret, dma_cycles, s) \<leftarrow> dma n s;
         if dma_cycles = 0 then Some (ret, s)
         else Some (CPU_ALERT_HALT OR ret,
           set_reg REG_SLEEP_CYCLES (0x80000000 OR dma_cycles) (set_reg CPU_HALT_STATE CPU_DMA s)) }
       else Some (CPU_ALERT_NONE, s)) }"

section \<open>The dispatch\<close>

definition signext28 :: "u32 \<Rightarrow> u32" where
  "signext28 v = signed_drop_bit 4 (push_bit 4 v)"

definition no_alert :: "gs option \<Rightarrow> (u8 \<times> gs) option" where
  "no_alert r = map_option (Pair CPU_ALERT_NONE) r"

definition write_affine :: "nat \<Rightarrow> u16 \<Rightarrow> gs \<Rightarrow> gs" where
  "write_affine r v s =
     (let s = iow r v s in
      if r = REG_BG2X_L \<or> r = REG_BG2X_L + 1
      then upd (\<lambda>m. m\<lparr>g_affine_x := (signext28 (ior32 s REG_BG2X_L), snd (g_affine_x m))\<rparr>) s
      else if r = REG_BG2Y_L \<or> r = REG_BG2Y_L + 1
      then upd (\<lambda>m. m\<lparr>g_affine_y := (signext28 (ior32 s REG_BG2Y_L), snd (g_affine_y m))\<rparr>) s
      else if r = REG_BG3X_L \<or> r = REG_BG3X_L + 1
      then upd (\<lambda>m. m\<lparr>g_affine_x := (fst (g_affine_x m), signext28 (ior32 s REG_BG3X_L))\<rparr>) s
      else upd (\<lambda>m. m\<lparr>g_affine_y := (fst (g_affine_y m), signext28 (ior32 s REG_BG3Y_L))\<rparr>) s)"

definition write_dispcnt :: "u16 \<Rightarrow> gs \<Rightarrow> gs" where
  "write_dispcnt v s =
     (let changed = (v AND 0x07 \<noteq> ior s REG_DISPCNT AND 0x07)
      in iow REG_DISPCNT v (set_reg OAM_UPDATED (reg s OAM_UPDATED OR of_bool changed) s))"

text \<open>The serial port; the rumble accounting and the registers are shared with it.\<close>

definition write_serial :: "bool \<Rightarrow> u16 \<Rightarrow> gs \<Rightarrow> gs option" where
  "write_serial siocnt v s = do {
     let m = mem s;
     sr \<leftarrow> (if siocnt then write_siocnt (g_session m) (g_cpu_ticks m) (reg s REG_PC) v (g_serial m)
           else Some (write_rcnt (g_session m) (g_cpu_ticks m) v (g_serial m)));
     Some (upd (\<lambda>m. m\<lparr>g_serial := sr\<rparr>) s) }"

definition write_sound_register :: "nat \<Rightarrow> u32 \<Rightarrow> gs \<Rightarrow> gs option" where
  "write_sound_register r value s =
     (if r = REG_SOUND1CNT_L then tone_control_sweep value s
      else if r = REG_SOUND1CNT_H then tone_control_low 0 REG_SOUND1CNT_H value s
      else if r = REG_SOUND1CNT_X then tone_control_high 0 REG_SOUND1CNT_X value s
      else if r = REG_SOUND2CNT_L then tone_control_low 1 REG_SOUND2CNT_L value s
      else if r = REG_SOUND2CNT_H then tone_control_high 1 REG_SOUND2CNT_H value s
      else if r = REG_SOUND3CNT_L then wave_control value s
      else if r = REG_SOUND3CNT_H then tone_control_low_wave value s
      else if r = REG_SOUND3CNT_X then tone_control_high_wave value s
      else if r = REG_SOUND4CNT_L then tone_control_low 3 REG_SOUND4CNT_L value s
      else if r = REG_SOUND4CNT_H then noise_control value s
      else if r = REG_SOUNDCNT_L then gbc_trigger_sound value s
      else if r = REG_SOUNDCNT_H then trigger_sound value s
      else if r = REG_SOUNDCNT_X then sound_control_x value s
      else sound_wave_write r value s)"

definition is_sound_register :: "nat \<Rightarrow> bool" where
  "is_sound_register r \<longleftrightarrow>
     r \<in> {0x30, 0x31, 0x32, 0x34, 0x36, 0x38, 0x39, 0x3A, 0x3C, 0x3E, 0x40, 0x41, 0x42,
          0x48, 0x49, 0x4A, 0x4B, 0x4C, 0x4D, 0x4E, 0x4F}"

definition write_io_register16 :: "dma_run \<Rightarrow> u32 \<Rightarrow> u32 \<Rightarrow> gs \<Rightarrow> (u8 \<times> gs) option" where
  "write_io_register16 dma address val s =
     (let r = unat (drop_bit 1 (address AND 0xFFFFFF)); value = val AND 0xFFFF; v = ucast value :: u16 in
      if r = REG_DISPCNT then Some (CPU_ALERT_NONE, write_dispcnt v s)
      else if r = REG_DISPSTAT
      then Some (CPU_ALERT_NONE, iow REG_DISPSTAT ((ior s REG_DISPSTAT AND 0x07) OR (v AND NOT 0x07)) s)
      else if r \<in> {0x14, 0x15, 0x16, 0x17, 0x1C, 0x1D, 0x1E, 0x1F} then Some (CPU_ALERT_NONE, write_affine r v s)
      else if is_sound_register r then no_alert (write_sound_register r value s)
      else if r = 0x5D then trigger_dma dma 0 value s
      else if r = 0x63 then trigger_dma dma 1 value s
      else if r = 0x69 then trigger_dma dma 2 value s
      else if r = 0x6F then trigger_dma dma 3 value s
      else if r = 0x80 then no_alert (count_timer 0 value s)
      else if r = 0x82 then no_alert (count_timer 1 value s)
      else if r = 0x84 then no_alert (count_timer 2 value s)
      else if r = 0x86 then no_alert (count_timer 3 value s)
      else if r = 0x81 then no_alert (trigger_timer 0 value s)
      else if r = 0x83 then no_alert (trigger_timer 1 value s)
      else if r = 0x85 then no_alert (trigger_timer 2 value s)
      else if r = 0x87 then no_alert (trigger_timer 3 value s)
      else if r = REG_SIOCNT then no_alert (write_serial True v s)
      else if r = REG_RCNT then no_alert (write_serial False v s)
      else if r = REG_IF then Some (CPU_ALERT_NONE, iow REG_IF (ior s REG_IF AND NOT v) s)
      else if r = REG_IE \<or> r = REG_IME then (let s = iow r v s in Some (alert_of_interrupt s, s))
      else if r = REG_P1 \<or> r = REG_VCOUNT then Some (CPU_ALERT_NONE, s)
      else if r = REG_WAITCNT then Some (CPU_ALERT_NONE, reload_timing_info (iow REG_WAITCNT v s))
      else Some (CPU_ALERT_NONE, if r < 0x200 then iow r v s else s))"

definition write_io_register8 :: "dma_run \<Rightarrow> u32 \<Rightarrow> u32 \<Rightarrow> gs \<Rightarrow> (u8 \<times> gs) option" where
  "write_io_register8 dma address value s =
     (let address = address AND 0xFFFFFF; r = unat (drop_bit 1 address) in
      if address = 0x301
      then Some (CPU_ALERT_HALT, set_reg CPU_HALT_STATE (if value AND 1 \<noteq> 0 then CPU_STOP else CPU_HALT) s)
      else if address < 0x400
      then write_io_register16 dma (address AND NOT 1)
             (if address AND 1 \<noteq> 0 then push_bit 8 value OR (ucast (ior s r) AND 0x00FF)
              else (value AND 0xFF) OR (ucast (ior s r) AND 0xFF00)) s
      else Some (CPU_ALERT_NONE, s))"

definition queue_samples :: "nat \<Rightarrow> u32 \<Rightarrow> gs \<Rightarrow> gs option" where
  "queue_samples chn value s = do {
     x \<leftarrow> sound_timer_queue32 chn value (g_sound (mem s));
     Some (with_sound (\<lambda>_. x) s) }"

definition write_io_register32 :: "dma_run \<Rightarrow> u32 \<Rightarrow> u32 \<Rightarrow> gs \<Rightarrow> (u8 \<times> gs) option" where
  "write_io_register32 dma address value s =
     (let address = address AND 0xFFFFFC in
      if address = 0xA0 then no_alert (queue_samples 0 value s)
      else if address = 0xA4 then no_alert (queue_samples 1 value s)
      else do {
        (low, s) \<leftarrow> write_io_register16 dma address (value AND 0xFFFF) s;
        (high, s) \<leftarrow> write_io_register16 dma (address + 2) (drop_bit 16 value) s;
        Some (low OR high, s) })"

definition write_io_register :: "dma_run \<Rightarrow> width \<Rightarrow> u32 \<Rightarrow> u32 \<Rightarrow> gs \<Rightarrow> (u8 \<times> gs) option" where
  "write_io_register dma w =
     (case w of W8 \<Rightarrow> write_io_register8 dma | W16 \<Rightarrow> write_io_register16 dma | W32 \<Rightarrow> write_io_register32 dma)"

end
