(* ===== verification/GbaDma.thy ===== *)
theory GbaDma
  imports GbaIo
begin

text \<open>
  Writing memory through every region and the DMA engine of \<^verbatim>\<open>gba_memory.c\<close>. A transfer may
  write the DMA control registers and so start another transfer inside itself: the engine is
  the fixed point of that recursion, run on fuel, where \<open>None\<close> is also running out of it.
\<close>

section \<open>Palette, VRAM, port and save memory\<close>

definition store16 :: "nat \<Rightarrow> u32 \<Rightarrow> u16 \<Rightarrow> bytes \<Rightarrow> bytes option" where
  "store16 sz off v = writeaddress W16 sz off (ucast v)"

definition write_palette16 :: "u32 \<Rightarrow> u16 \<Rightarrow> gs \<Rightarrow> gs option" where
  "write_palette16 address v s = do {
     p \<leftarrow> store16 0x400 address v (g_palette (mem s));
     c \<leftarrow> store16 0x400 address (convert_palette v) (g_palette_converted (mem s));
     Some (upd (\<lambda>m. m\<lparr>g_palette := p, g_palette_converted := c\<rparr>) s) }"

definition write_palette32 :: "u32 \<Rightarrow> u32 \<Rightarrow> gs \<Rightarrow> gs option" where
  "write_palette32 address v s = do {
     p \<leftarrow> writeaddress W32 0x400 address v (g_palette (mem s));
     c \<leftarrow> store16 0x400 (address + 2) (convert_palette (ucast (drop_bit 16 v))) (g_palette_converted (mem s));
     c \<leftarrow> store16 0x400 address (convert_palette (ucast v)) c;
     Some (upd (\<lambda>m. m\<lparr>g_palette := p, g_palette_converted := c\<rparr>) s) }"

definition write_palette :: "width \<Rightarrow> u32 \<Rightarrow> u32 \<Rightarrow> gs \<Rightarrow> gs option" where
  "write_palette w address v s =
     (case w of
        W8 \<Rightarrow> write_palette16 (address AND NOT 1) (push_bit 8 (ucast v) OR (ucast v AND 0xFF)) s
      | W16 \<Rightarrow> write_palette16 address (ucast v) s
      | W32 \<Rightarrow> write_palette32 address v s)"

text \<open>A byte fills both halves of its halfword.\<close>

definition write_vram :: "width \<Rightarrow> u32 \<Rightarrow> u32 \<Rightarrow> gs \<Rightarrow> gs option" where
  "write_vram w off v s = do {
     m \<leftarrow> (case w of
            W8 \<Rightarrow> store16 VRAM_SIZE (off AND NOT 1) (push_bit 8 (ucast v) OR (ucast v AND 0xFF)) (g_vram (mem s))
          | _ \<Rightarrow> writeaddress w VRAM_SIZE off v (g_vram (mem s)));
     Some (upd (\<lambda>x. x\<lparr>g_vram := m\<rparr>) s) }"

text \<open>The port of the cartridge; its rumble accounting is the one the serial port uses.\<close>

definition write_gpio16 :: "u32 \<Rightarrow> u32 \<Rightarrow> gs \<Rightarrow> gs option" where
  "write_gpio16 address v s = do {
     let m = mem s;
     let g = write_gpio (g_cpu_ticks m) (g_now m) (address AND 0xFF) v
               ((g_gpio m)\<lparr>gp_rumble := sr_rumble (g_serial m)\<rparr>);
     p \<leftarrow> update_page0 g (g_pak m);
     Some (upd (\<lambda>m. m\<lparr>g_gpio := g, g_serial := (g_serial m)\<lparr>sr_rumble := gp_rumble g\<rparr>, g_pak := p\<rparr>) s) }"

definition with_backup :: "(backup \<Rightarrow> backup option) \<Rightarrow> gs \<Rightarrow> gs option" where
  "with_backup f s = do { b \<leftarrow> f (g_backup (mem s)); Some (upd (\<lambda>m. m\<lparr>g_backup := b\<rparr>) s) }"

section \<open>Writing memory\<close>

definition write_ewram :: "width \<Rightarrow> u32 \<Rightarrow> u32 \<Rightarrow> gs \<Rightarrow> gs option" where
  "write_ewram w address v s = do {
     m \<leftarrow> writeaddress w EWRAM_SIZE (address AND 0x3FFFF) v (g_ewram (mem s));
     Some (upd (\<lambda>x. x\<lparr>g_ewram := m\<rparr>) s) }"

definition write_iwram :: "width \<Rightarrow> u32 \<Rightarrow> u32 \<Rightarrow> gs \<Rightarrow> gs option" where
  "write_iwram w address v s = do {
     m \<leftarrow> writeaddress w IWRAM_SIZE ((address AND 0x7FFF) + 0x8000) v (g_iwram (mem s));
     Some (upd (\<lambda>x. x\<lparr>g_iwram := m\<rparr>) s) }"

definition write_oam :: "width \<Rightarrow> u32 \<Rightarrow> u32 \<Rightarrow> gs \<Rightarrow> gs option" where
  "write_oam w address v s = do {
     m \<leftarrow> writeaddress w 0x400 (address AND 0x3FF) v (g_oam (mem s));
     Some (upd (\<lambda>x. x\<lparr>g_oam := m\<rparr>) s) }"

definition narrow :: "width \<Rightarrow> u32 \<Rightarrow> u32" where
  "narrow w v = (case w of W8 \<Rightarrow> v AND 0xFF | W16 \<Rightarrow> v AND 0xFFFF | W32 \<Rightarrow> v)"

definition write_memory :: "dma_run \<Rightarrow> width \<Rightarrow> u32 \<Rightarrow> u32 \<Rightarrow> gs \<Rightarrow> (u8 \<times> gs) option" where
  "write_memory dma w address val s =
     (let r = region address; v = narrow w val in
      if r = 0x02 then no_alert (write_ewram w address v s)
      else if r = 0x03 then no_alert (write_iwram w address v s)
      else if r = 0x04 then write_io_register dma w address v s
      else if r = 0x05 then no_alert (write_palette w (address AND 0x3FF) v s)
      else if r = 0x06 then no_alert (write_vram w (vram_offset address) v s)
      else if r = 0x07 \<and> w \<noteq> W8 then no_alert (write_oam w address v (set_reg OAM_UPDATED 1 s))
      else if r = 0x08 \<and> w = W16 then no_alert (write_gpio16 address v s)
      else if r = 0x0D \<and> w = W16 then no_alert (with_backup (write_eeprom v) s)
      else if r = 0x0E \<and> w = W8 then no_alert (with_backup (write_backup (address AND 0xFFFF) v) s)
      else Some (CPU_ALERT_NONE, s))"

section \<open>DMA regions\<close>

datatype dma_region =
  R_iwram | R_ewram | R_vram | R_palette_ram | R_oam_ram | R_io | R_ext | R_gamepak | R_bus

definition dma_region_map :: "dma_region list" where
  "dma_region_map = [R_bus, R_bus, R_ewram, R_iwram, R_io, R_palette_ram, R_vram, R_oam_ram,
     R_gamepak, R_gamepak, R_gamepak, R_gamepak, R_gamepak, R_ext, R_ext, R_ext, R_bus]"

definition dma_region_of :: "u32 \<Rightarrow> dma_region" where
  "dma_region_of ptr = dma_region_map ! min (region ptr) 16"

text \<open>
  The block of the cartridge the source pointer is in, looked up when its 32 KB region changes.
  \<^verbatim>\<open>None\<close> inside is the early end of the transfer for a pointer beyond the ROM.
\<close>

definition dma_block :: "u32 \<Rightarrow> gs \<Rightarrow> (block \<times> gs) option" where
  "dma_block ptr s = do {
     let index = unat (drop_bit 15 ptr);
     b \<leftarrow> memory_map_read index s;
     case b of Some blk \<Rightarrow> Some (blk, s) | None \<Rightarrow> map_option (\<lambda>(e, s). (B_rom e, s)) (page_fault index s) }"

definition dma_source_missing :: "u32 \<Rightarrow> gs \<Rightarrow> bool" where
  "dma_source_missing ptr s =
     (memory_map_read (unat (drop_bit 15 ptr)) s = Some None
        \<and> gamepak_size (g_pak (mem s)) \<le> unat (ptr AND 0x1FFFFFF))"

section \<open>One unit of a transfer\<close>

text \<open>\<open>last\<close> is the value read before, which the open bus gives again; \<open>cur\<close> is the current block.\<close>

definition dma_read ::
    "dma_region \<Rightarrow> width \<Rightarrow> u32 \<Rightarrow> u32 \<Rightarrow> (nat \<times> block) option \<Rightarrow> gs \<Rightarrow> (u32 \<times> (nat \<times> block) option \<times> gs) option" where
  "dma_read r w ptr last_value cur s =
     (let m = mem s; pure = map_option (\<lambda>v. (v, cur, s)) in
      case r of
        R_iwram \<Rightarrow> pure (readaddress w IWRAM_SIZE (g_iwram m) (0x8000 + (ptr AND 0x7FFF)))
      | R_ewram \<Rightarrow> pure (readaddress w EWRAM_SIZE (g_ewram m) (ptr AND 0x3FFFF))
      | R_vram \<Rightarrow> pure (readaddress w VRAM_SIZE (g_vram m) (vram_offset ptr))
      | R_palette_ram \<Rightarrow> pure (readaddress w 0x400 (g_palette m) (ptr AND 0x3FF))
      | R_oam_ram \<Rightarrow> pure (readaddress w 0x400 (g_oam m) (ptr AND 0x3FF))
      | R_io \<Rightarrow> pure (readaddress w IO_SIZE (io_bytes (ioregs_of s)) (ptr AND 0x3FF))
      | R_ext \<Rightarrow> map_option (\<lambda>(v, s). (v, cur, s)) (read_memory w ptr s)
      | R_bus \<Rightarrow> Some (last_value, cur, s)
      | R_gamepak \<Rightarrow> do {
          (blk, s) \<leftarrow> (case cur of
              Some (i, blk) \<Rightarrow> if i = unat (drop_bit 15 ptr) then Some (blk, s) else dma_block ptr s
            | None \<Rightarrow> dma_block ptr s);
          v \<leftarrow> read_block w blk (ptr AND 0x7FFF) s;
          Some (v, Some (unat (drop_bit 15 ptr), blk), s) })"

text \<open>Self-modified code is noticed by the marks in the other half of the work memories.\<close>

definition smc_alert :: "width \<Rightarrow> nat \<Rightarrow> bytes \<Rightarrow> u32 \<Rightarrow> u8 option" where
  "smc_alert w sz m off = do { v \<leftarrow> readaddress w sz m off; Some (if v \<noteq> 0 then CPU_ALERT_SMC else CPU_ALERT_NONE) }"

definition dma_write :: "dma_run \<Rightarrow> dma_region \<Rightarrow> width \<Rightarrow> u32 \<Rightarrow> u32 \<Rightarrow> gs \<Rightarrow> (u8 \<times> gs) option" where
  "dma_write dma r w ptr v s =
     (case r of
        R_iwram \<Rightarrow> do {
          s \<leftarrow> write_iwram w ptr v s;
          a \<leftarrow> smc_alert w IWRAM_SIZE (g_iwram (mem s)) (ptr AND 0x7FFF);
          Some (a, s) }
      | R_ewram \<Rightarrow> do {
          s \<leftarrow> write_ewram w ptr v s;
          a \<leftarrow> smc_alert w EWRAM_SIZE (g_ewram (mem s)) ((ptr AND 0x3FFFF) + 0x40000);
          Some (a, s) }
      | R_vram \<Rightarrow> no_alert (write_vram w (vram_offset ptr) v s)
      | R_palette_ram \<Rightarrow> no_alert (write_palette w (ptr AND 0x3FF) v s)
      | R_oam_ram \<Rightarrow> no_alert (write_oam w ptr v s)
      | R_io \<Rightarrow> write_io_register dma w ptr v s
      | R_ext \<Rightarrow> map_option (\<lambda>(_, s). (CPU_ALERT_NONE, s)) (write_memory dma w ptr v s)
      | _ \<Rightarrow> Some (CPU_ALERT_NONE, s))"

text \<open>The macro \<^verbatim>\<open>write_palette16\<close> assigns the converted colour to its argument, the value just read.\<close>

definition value_after_write :: "dma_region \<Rightarrow> width \<Rightarrow> u32 \<Rightarrow> u32" where
  "value_after_write r w v = (if r = R_palette_ram \<and> w = W16 then ucast (convert_palette (ucast v)) else v)"

section \<open>The transfer loop\<close>

record dma_loop =
  l_src :: u32
  l_dst :: u32
  l_value :: u32
  l_block :: "(nat \<times> block) option"
  l_alerts :: u8

fun dma_tfloop ::
    "dma_run \<Rightarrow> dma_region \<Rightarrow> dma_region \<Rightarrow> width \<Rightarrow> u32 \<Rightarrow> u32 \<Rightarrow> nat \<Rightarrow> dma_loop \<Rightarrow> gs \<Rightarrow> (dma_loop \<times> gs) option" where
  "dma_tfloop dma sr dr w ss ds 0 l s = Some (l, s)"
| "dma_tfloop dma sr dr w ss ds (Suc n) l s = do {
     (v, cur, s) \<leftarrow> dma_read sr w (l_src l) (l_value l) (l_block l) s;
     (a, s) \<leftarrow> dma_write dma dr w (l_dst l) v s;
     dma_tfloop dma sr dr w ss ds n
       \<lparr>l_src = l_src l + ss, l_dst = l_dst l + ds, l_value = value_after_write dr w v, l_block = cur,
        l_alerts = l_alerts l OR a\<rparr> s }"

text \<open>
  The pairs of regions without a case (a destination in the ROM or on the bus) do nothing. A
  destination in OAM marks it as changed before the loop.
\<close>

definition dma_tf_loop ::
    "dma_run \<Rightarrow> width \<Rightarrow> u32 \<Rightarrow> u32 \<Rightarrow> u32 \<Rightarrow> u32 \<Rightarrow> bool \<Rightarrow> nat \<Rightarrow> nat \<Rightarrow> gs \<Rightarrow> (u8 \<times> gs) option" where
  "dma_tf_loop dma w src dst ss ds wb n chn s =
     (let sr = dma_region_of src; dr = dma_region_of dst in
      if dr = R_gamepak \<or> dr = R_bus then Some (CPU_ALERT_NONE, s)
      else do {
        let l = \<lparr>l_src = src, l_dst = dst, l_value = g_dma_bus (mem s), l_block = None, l_alerts = CPU_ALERT_NONE\<rparr>;
        let missing = (sr = R_gamepak \<and> dma_source_missing src s);
        (cur, s) \<leftarrow> (if sr = R_gamepak \<and> \<not> missing
                     then map_option (\<lambda>(b, s). (Some (unat (drop_bit 15 src), b), s)) (dma_block src s)
                     else Some (None, s));
        let s = (if dr = R_oam_ram \<and> \<not> missing then set_reg OAM_UPDATED 1 s else s);
        (l, s) \<leftarrow> (if missing then Some (l, s) else dma_tfloop dma sr dr w ss ds n (l\<lparr>l_block := cur\<rparr>) s);
        d \<leftarrow> get_dma chn s;
        let d = d\<lparr>source_address := l_src l, dest_address := (if wb then l_dst l else dest_address d)\<rparr>;
        Some (l_alerts l, put_dma chn d (upd (\<lambda>m. m\<lparr>g_dma_bus := l_value l\<rparr>) s)) })"

definition dma_stride :: "u32 list" where "dma_stride = [1, - 1, 0, 1]"

definition stride :: "u32 \<Rightarrow> u32" where "stride direction = dma_stride ! unat direction"

text \<open>\<open>chn\<close> is the channel; its directions and width are read again for each part.\<close>

definition dma_transfer_copy :: "dma_run \<Rightarrow> nat \<Rightarrow> u32 \<Rightarrow> u32 \<Rightarrow> u32 \<Rightarrow> gs \<Rightarrow> (u8 \<times> gs) option" where
  "dma_transfer_copy dma chn src dst n s = do {
     d \<leftarrow> get_dma chn s;
     if source_direction d < 3
     then (let w = (if length_type d = 0 then W16 else W32); k = of_nat (w_bytes w)
           in dma_tf_loop dma w src dst (k * stride (source_direction d)) (k * stride (dest_direction d))
                (dest_direction d < 3) (unat n) chn s)
     else Some (CPU_ALERT_NONE, s) }"

section \<open>A whole transfer\<close>

definition dma_region_end :: "u32 \<Rightarrow> dma_region" where
  "dma_region_end ptr = dma_region_map ! region (min 0x10000000 ptr)"

text \<open>How much fits before a pointer leaves its 16 MB region.\<close>

definition dma_part :: "u32 \<Rightarrow> u32 \<Rightarrow> u32" where
  "dma_part direction ptr =
     (if direction = 1 then ptr AND 0xFFFFFF else 0x1000000 - (ptr AND 0xFFFFFF))"

definition dma_split :: "dma_run \<Rightarrow> nat \<Rightarrow> u32 \<Rightarrow> u32 \<Rightarrow> u32 \<Rightarrow> u32 \<Rightarrow> nat \<Rightarrow> dma_transfer \<Rightarrow> gs \<Rightarrow> (u8 \<times> gs) option" where
  "dma_split dma chn src dst bytelen blen sh d s = do {
     (a, s) \<leftarrow> dma_transfer_copy dma chn src dst (drop_bit sh blen) s;
     (b, s) \<leftarrow> dma_transfer_copy dma chn (src + blen * stride (source_direction d)) (dst + blen * stride (dest_direction d))
                (drop_bit sh (bytelen - blen)) s;
     Some (a OR b, s) }"

definition dma_copy_parts :: "dma_run \<Rightarrow> nat \<Rightarrow> u32 \<Rightarrow> u32 \<Rightarrow> dma_transfer \<Rightarrow> gs \<Rightarrow> (u8 \<times> gs) option" where
  "dma_copy_parts dma chn src dst d s =
     (let sh = (if length_type d = 0 then 1 else 2); bytelen = push_bit sh (dma_length d);
          src_same = (dma_region_end src = dma_region_end (src + bytelen * stride (source_direction d)));
          dst_same = (dma_region_end dst = dma_region_end (dst + bytelen * stride (dest_direction d))) in
      if src_same \<and> dst_same then dma_transfer_copy dma chn src dst (drop_bit sh bytelen) s
      else if src_same then dma_split dma chn src dst bytelen (dma_part (dest_direction d) dst) sh d s
      else if dst_same then dma_split dma chn src dst bytelen (dma_part (source_direction d) src) sh d s
      else Some (CPU_ALERT_NONE, s))"

definition dma_cycles :: "u32 \<Rightarrow> u32 \<Rightarrow> u32 \<Rightarrow> u32 \<Rightarrow> u32" where
  "dma_cycles type src dst len =
     (let c = (\<lambda>ptr. (if type = 0 then fst else snd) (def_seq_cycles ! region ptr)) in len * (c src + c dst))"

text \<open>The directions index \<^verbatim>\<open>dma_stride\<close>.\<close>

definition dma_body :: "dma_run \<Rightarrow> nat \<Rightarrow> gs \<Rightarrow> (u8 \<times> u32 \<times> gs) option" where
  "dma_body dma chn s = do {
     d0 \<leftarrow> get_dma chn s;
     _ \<leftarrow> arr_get dma_stride (unat (source_direction d0));
     _ \<leftarrow> arr_get dma_stride (unat (dest_direction d0));
     let align = (if length_type d0 = 0 then NOT 1 else NOT 3);
     let src = 0x0FFFFFFF AND source_address d0 AND align;
     let dst = 0x0FFFFFFF AND dest_address d0 AND align;
     (ret, s) \<leftarrow> dma_copy_parts dma chn src dst d0 s;
     d \<leftarrow> get_dma chn s;
     let once = (repeat_type d = 0 \<or> start_type d = DMA_START_IMMEDIATELY);
     let s = (if once
              then put_dma chn (d\<lparr>start_type := DMA_INACTIVE\<rparr>)
                     (write_dmareg REG_DMA0CNT_H chn (read_dmareg s REG_DMA0CNT_H chn AND NOT 0x8000) s)
              else s);
     let (a, s) = (if dma_irq d \<noteq> 0 then flag_interrupt (push_bit chn 0x0100) s else (CPU_ALERT_NONE, s));
     Some (ret OR a, dma_cycles (length_type d0) src dst (dma_length d), s) }"

fun dma_transfer :: "nat \<Rightarrow> dma_run" where
  "dma_transfer 0 = (\<lambda>chn s. None)"
| "dma_transfer (Suc fuel) = dma_body (dma_transfer fuel)"

end
