(* ===== verification/ArmExec.thy ===== *)
theory ArmExec
  imports ArmAlu
begin

text \<open>
  The rest of the ARM interpreter of \<^verbatim>\<open>cpu.cc\<close>: loads and stores, block transfers, swaps,
  status register moves, branches and software interrupts; every case of the instruction
  switch, one definition for each of the cases \<^verbatim>\<open>0x00\<close> to \<^verbatim>\<open>0x1F\<close> (where the multiplies and the
  halfword transfers share the data processing encodings) and one for each group of sixteen
  after that; and one round of the interpreter loop.
\<close>

section \<open>Loads and stores\<close>

datatype direction = Ld | St
datatype off_op = No_op | Plus | Minus
datatype off_type = Off_imm | Off_reg | Half_imm | Half_reg

definition apply_off :: "off_op \<Rightarrow> u32 \<Rightarrow> u32 \<Rightarrow> u32" where
  "apply_off f a off = (case f of No_op \<Rightarrow> a | Plus \<Rightarrow> a + off | Minus \<Rightarrow> a - off)"

definition trans_offset :: "off_type \<Rightarrow> u32 \<Rightarrow> 'm cpu \<Rightarrow> u32 option" where
  "trans_offset ty opcode s =
     (case ty of
        Off_imm \<Rightarrow> Some (opcode AND 0xFFF)
      | Off_reg \<Rightarrow> reg_offset opcode (reg s) (c_flag s)
      | Half_imm \<Rightarrow> Some ((drop_bit 4 opcode AND 0xF0) OR (opcode AND 0xF))
      | Half_reg \<Rightarrow> Some (reg s (op_rm opcode)))"

text \<open>
  The offset of the halfword forms is the macro argument \<^verbatim>\<open>reg[rm]\<close>, read again for the
  writeback, after the program counter moved back.
\<close>

definition arm_access_memory ::
    "'m bus \<Rightarrow> direction \<Rightarrow> off_op \<Rightarrow> off_type \<Rightarrow> access \<Rightarrow> bool \<Rightarrow> off_op \<Rightarrow> u32 \<Rightarrow> 'm cpu \<Rightarrow> (next_loop \<times> 'm cpu) option" where
  "arm_access_memory M dir off_op ty acc wb wb_off_op opcode s = do {
     let rn = op_rn opcode; let rd = op_rd opcode;
     let s = pc_offset 8 s;
     off \<leftarrow> trans_offset ty opcode s;
     let address = apply_off off_op (reg s rn) off;
     let reg_op = reg s rd + (if rd = 15 then 4 else 0);
     let s = pc_offset (- 4) s;
     let off = (if ty = Half_reg then reg s (op_rm opcode) else off);
     let s = (if wb then set_reg rn (apply_off wb_off_op address off) s else s);
     case dir of
       Ld \<Rightarrow> do { (v, s) \<leftarrow> load M acc address s; Some (Next, set_reg rd v s) }
     | St \<Rightarrow> do { s \<leftarrow> store M acc address reg_op s; Some (Next, s) } }"

definition arm_swap :: "'m bus \<Rightarrow> access \<Rightarrow> u32 \<Rightarrow> 'm cpu \<Rightarrow> (next_loop \<times> 'm cpu) option" where
  "arm_swap M acc opcode s = do {
     (temp, s) \<leftarrow> load M acc (reg s (op_rn opcode)) s;
     s \<leftarrow> store M acc (reg s (op_rn opcode)) (reg s (op_rm opcode)) s;
     Some (Next, pc_offset 4 (set_reg (op_rd opcode) temp s)) }"

section \<open>Block transfers\<close>

datatype addr_mode = Pre_inc | Pre_dec | Post_inc | Post_dec

definition bit_count :: "u32 \<Rightarrow> nat" where
  "bit_count w = length (filter (bit w) [0..<8])"

definition block_end :: "addr_mode \<Rightarrow> u32 \<Rightarrow> nat \<Rightarrow> u32" where
  "block_end am base numops = base + (if am = Pre_inc \<or> am = Post_inc then 4 else - 4) * of_nat numops"

definition block_start :: "addr_mode \<Rightarrow> u32 \<Rightarrow> nat \<Rightarrow> u32" where
  "block_start am base numops =
     (case am of Pre_inc \<Rightarrow> base + 4 | Post_inc \<Rightarrow> base
      | Pre_dec \<Rightarrow> block_end am base numops | Post_dec \<Rightarrow> block_end am base numops + 4) AND NOT 3"

definition writeback_first :: "direction \<Rightarrow> nat \<Rightarrow> u32 \<Rightarrow> bool" where
  "writeback_first dir rn reglist =
     (dir = Ld \<or> \<not> (bit reglist rn \<and> (push_bit rn 1 - 1) AND reglist = 0))"

text \<open>The transfer loop over the registers of the list still to look at.\<close>

fun block_loop :: "'m bus \<Rightarrow> direction \<Rightarrow> u32 \<Rightarrow> nat list \<Rightarrow> u32 \<Rightarrow> 'm cpu \<Rightarrow> (u32 \<times> 'm cpu) option" where
  "block_loop M dir reglist [] address s = Some (address, s)"
| "block_loop M dir reglist (i # is) address s =
     (if bit reglist i
      then (case dir of
              Ld \<Rightarrow> do { (v, s) \<leftarrow> load M Aligned32 address s; block_loop M dir reglist is (address + 4) (set_reg i v s) }
            | St \<Rightarrow> do { s \<leftarrow> store M Aligned32 address (if i = REG_PC then reg s REG_PC + 4 else reg s i) s;
                        block_loop M dir reglist is (address + 4) s })
      else block_loop M dir reglist is address s)"

definition exec_arm_block_mem ::
    "'m bus \<Rightarrow> direction \<Rightarrow> bool \<Rightarrow> bool \<Rightarrow> addr_mode \<Rightarrow> nat \<Rightarrow> u32 \<Rightarrow> 'm cpu \<Rightarrow> 'm cpu option" where
  "exec_arm_block_mem M dir writeback sbit am rn reglist s = do {
     let base = reg s rn;
     let numops = bit_count (drop_bit 8 reglist) + bit_count (reglist AND 0xFF);
     let endaddr = block_end am base numops;
     let old_cpsr = reg s REG_CPSR;
     let user = (sbit \<and> (dir = St \<or> rn \<noteq> REG_PC));
     s \<leftarrow> (if user then set_cpu_mode MODE_USER s else Some s);
     let s = (if writeback \<and> writeback_first dir rn reglist then set_reg rn endaddr s else s);
     (_, s) \<leftarrow> block_loop M dir reglist [0..<16] (block_start am base numops) (pc_offset 4 s);
     let s = (if writeback \<and> \<not> writeback_first dir rn reglist then set_reg rn endaddr s else s);
     if user then set_cpu_mode (cpu_modes old_cpsr) s else Some s }"

definition arm_spsr_restore_ldm_check :: "'m bus \<Rightarrow> u32 \<Rightarrow> 'm cpu \<Rightarrow> (next_loop \<times> 'm cpu) option" where
  "arm_spsr_restore_ldm_check M opcode s = (if opcode AND 0x8000 \<noteq> 0 then arm_spsr_restore M s else Some (Next, s))"

text \<open>
  The cases \<^verbatim>\<open>0x80\<close> to \<^verbatim>\<open>0x9F\<close>: the template arguments of each are the bits of its number (load,
  writeback, user registers, up, before).
\<close>

definition arm_block_case :: "nat \<Rightarrow> 'm bus \<Rightarrow> u32 \<Rightarrow> 'm cpu \<Rightarrow> (next_loop \<times> 'm cpu) option" where
  "arm_block_case k M opcode s = do {
     let dir = (if odd k then Ld else St);
     let sbit = odd (k div 4);
     s \<leftarrow> exec_arm_block_mem M dir (odd (k div 2)) sbit
            ([Post_dec, Post_inc, Pre_dec, Pre_inc] ! ((k - 0x80) div 8))
            (op_rn opcode) (opcode AND 0xFFFF) s;
     if dir = Ld \<and> sbit then arm_spsr_restore_ldm_check M opcode s else Some (Next, s) }"

section \<open>Status registers, branches, software interrupts\<close>

definition psr_pfield :: "u32 \<Rightarrow> nat" where
  "psr_pfield opcode = unat ((drop_bit 16 opcode AND 1) OR (drop_bit 18 opcode AND 2))"

definition arm_psr_src :: "operand \<Rightarrow> u32 \<Rightarrow> 'm cpu \<Rightarrow> u32 option" where
  "arm_psr_src ty opcode s =
     (case ty of Reg \<Rightarrow> Some (reg s (op_rm opcode)) | Imm \<Rightarrow> ror (opcode AND 0xFF) (2 * field opcode 8 0xF))"

definition arm_mrs_cpsr :: "u32 \<Rightarrow> 'm cpu \<Rightarrow> (next_loop \<times> 'm cpu) option" where
  "arm_mrs_cpsr opcode s = Some (Next, arm_psr_read_cpsr (op_rd opcode) (pc_offset 4 s))"

definition arm_mrs_spsr :: "u32 \<Rightarrow> 'm cpu \<Rightarrow> (next_loop \<times> 'm cpu) option" where
  "arm_mrs_spsr opcode s = map_option (Pair Next) (arm_psr_read_spsr (op_rd opcode) (pc_offset 4 s))"

definition arm_msr_cpsr :: "'m bus \<Rightarrow> operand \<Rightarrow> u32 \<Rightarrow> 'm cpu \<Rightarrow> (next_loop \<times> 'm cpu) option" where
  "arm_msr_cpsr M ty opcode s = do {
     let s = pc_offset 4 s;
     source \<leftarrow> arm_psr_src ty opcode s;
     (irq, s) \<leftarrow> arm_psr_store_cpsr M (psr_pfield opcode) source s;
     Some (if irq then Arm_loop else Next, s) }"

definition arm_msr_spsr :: "operand \<Rightarrow> u32 \<Rightarrow> 'm cpu \<Rightarrow> (next_loop \<times> 'm cpu) option" where
  "arm_msr_spsr ty opcode s = do {
     let s = pc_offset 4 s;
     source \<leftarrow> arm_psr_src ty opcode s;
     s \<leftarrow> arm_psr_store_spsr (psr_pfield opcode) source s;
     Some (Next, s) }"

text \<open>The wait states of a jump: the table has sixteen rows and is indexed by the top byte of the target.\<close>

definition branch_cycles :: "'m bus \<Rightarrow> bool \<Rightarrow> u32 \<Rightarrow> 'm cpu \<Rightarrow> 'm cpu option" where
  "branch_cycles M word_fetch pc s = do {
     (half, full) \<leftarrow> arr_get (nseq_cycles M (mem s)) (unat (drop_bit 24 pc));
     Some (s\<lparr>cycles := cycles s - (if word_fetch then full else half)\<rparr>) }"

definition arm_bx :: "'m bus \<Rightarrow> u32 \<Rightarrow> 'm cpu \<Rightarrow> (next_loop \<times> 'm cpu) option" where
  "arm_bx M opcode s =
     (let s = pc_offset 8 s; src = reg s (op_rm opcode) in
      if src AND 1 \<noteq> 0
      then Some (Thumb_loop, set_reg REG_CPSR (reg s REG_CPSR OR 0x20) (set_reg REG_PC (src - 1) s))
      else map_option (Pair Next) (branch_cycles M True src (set_reg REG_PC src s)))"

definition arm_branch_offset :: "u32 \<Rightarrow> u32" where
  "arm_branch_offset opcode = signed_drop_bit 6 (push_bit 8 opcode)"

definition arm_b :: "'m bus \<Rightarrow> u32 \<Rightarrow> 'm cpu \<Rightarrow> (next_loop \<times> 'm cpu) option" where
  "arm_b M opcode s =
     (let s = pc_offset (arm_branch_offset opcode + 8) s
      in map_option (Pair Next) (branch_cycles M True (reg s REG_PC) s))"

definition arm_bl :: "'m bus \<Rightarrow> u32 \<Rightarrow> 'm cpu \<Rightarrow> (next_loop \<times> 'm cpu) option" where
  "arm_bl M opcode s =
     (let s = set_reg REG_LR (reg s REG_PC + 4) s; s = pc_offset (arm_branch_offset opcode + 8) s
      in map_option (Pair Next) (branch_cycles M True (reg s REG_PC) s))"

definition arm_swi :: "'m cpu \<Rightarrow> (next_loop \<times> 'm cpu) option" where
  "arm_swi s = map_option (Pair Next) (software_interrupt 4 s)"

section \<open>The instruction switch\<close>

definition arm_case_00 :: "'m bus \<Rightarrow> u32 \<Rightarrow> 'm cpu \<Rightarrow> (next_loop \<times> 'm cpu) option" where
  "arm_case_00 M opcode s =
    (if opcode AND 0x90 = 0x90 then
       (if opcode AND 0x20 \<noteq> 0 then
         arm_access_memory M St No_op Half_reg U16 True Minus opcode s
       else arm_multiply False False opcode s)
     else arm_data_proc (\<lambda>n x c. n AND x) Reg opcode s)"

definition arm_case_01 :: "'m bus \<Rightarrow> u32 \<Rightarrow> 'm cpu \<Rightarrow> (next_loop \<times> 'm cpu) option" where
  "arm_case_01 M opcode s =
    (if opcode AND 0x90 = 0x90 then
       (if field opcode 5 0x3 = 0 then arm_multiply False True opcode s
       else if field opcode 5 0x3 = 1 then arm_access_memory M Ld No_op Half_reg U16 True Minus opcode s
       else if field opcode 5 0x3 = 2 then arm_access_memory M Ld No_op Half_reg S8 True Minus opcode s
       else if field opcode 5 0x3 = 3 then arm_access_memory M Ld No_op Half_reg S16 True Minus opcode s
       else Some (Next, s))
     else arm_data_proc_logic_flags M (\<lambda>n x. n AND x) Reg opcode s)"

definition arm_case_02 :: "'m bus \<Rightarrow> u32 \<Rightarrow> 'm cpu \<Rightarrow> (next_loop \<times> 'm cpu) option" where
  "arm_case_02 M opcode s =
    (if opcode AND 0x90 = 0x90 then
       (if opcode AND 0x20 \<noteq> 0 then
         arm_access_memory M St No_op Half_reg U16 True Minus opcode s
       else arm_multiply True False opcode s)
     else arm_data_proc (\<lambda>n x c. n XOR x) Reg opcode s)"

definition arm_case_03 :: "'m bus \<Rightarrow> u32 \<Rightarrow> 'm cpu \<Rightarrow> (next_loop \<times> 'm cpu) option" where
  "arm_case_03 M opcode s =
    (if opcode AND 0x90 = 0x90 then
       (if field opcode 5 0x3 = 0 then arm_multiply True True opcode s
       else if field opcode 5 0x3 = 1 then arm_access_memory M Ld No_op Half_reg U16 True Minus opcode s
       else if field opcode 5 0x3 = 2 then arm_access_memory M Ld No_op Half_reg S8 True Minus opcode s
       else if field opcode 5 0x3 = 3 then arm_access_memory M Ld No_op Half_reg S16 True Minus opcode s
       else Some (Next, s))
     else arm_data_proc_logic_flags M (\<lambda>n x. n XOR x) Reg opcode s)"

definition arm_case_04 :: "'m bus \<Rightarrow> u32 \<Rightarrow> 'm cpu \<Rightarrow> (next_loop \<times> 'm cpu) option" where
  "arm_case_04 M opcode s =
    (if opcode AND 0x90 = 0x90 then
       arm_access_memory M St No_op Half_imm U16 True Minus opcode s
     else arm_data_proc (\<lambda>n x c. n - x) Reg opcode s)"

definition arm_case_05 :: "'m bus \<Rightarrow> u32 \<Rightarrow> 'm cpu \<Rightarrow> (next_loop \<times> 'm cpu) option" where
  "arm_case_05 M opcode s =
    (if opcode AND 0x90 = 0x90 then
       (if field opcode 5 0x3 = 1 then arm_access_memory M Ld No_op Half_imm U16 True Minus opcode s
       else if field opcode 5 0x3 = 2 then arm_access_memory M Ld No_op Half_imm S8 True Minus opcode s
       else if field opcode 5 0x3 = 3 then arm_access_memory M Ld No_op Half_imm S16 True Minus opcode s
       else Some (Next, s))
     else arm_data_proc_sub_flags M False True Reg opcode s)"

definition arm_case_06 :: "'m bus \<Rightarrow> u32 \<Rightarrow> 'm cpu \<Rightarrow> (next_loop \<times> 'm cpu) option" where
  "arm_case_06 M opcode s =
    (if opcode AND 0x90 = 0x90 then
       arm_access_memory M St No_op Half_imm U16 True Minus opcode s
     else arm_data_proc (\<lambda>n x c. x - n) Reg opcode s)"

definition arm_case_07 :: "'m bus \<Rightarrow> u32 \<Rightarrow> 'm cpu \<Rightarrow> (next_loop \<times> 'm cpu) option" where
  "arm_case_07 M opcode s =
    (if opcode AND 0x90 = 0x90 then
       (if field opcode 5 0x3 = 1 then arm_access_memory M Ld No_op Half_imm U16 True Minus opcode s
       else if field opcode 5 0x3 = 2 then arm_access_memory M Ld No_op Half_imm S8 True Minus opcode s
       else if field opcode 5 0x3 = 3 then arm_access_memory M Ld No_op Half_imm S16 True Minus opcode s
       else Some (Next, s))
     else arm_data_proc_sub_flags M True True Reg opcode s)"

definition arm_case_08 :: "'m bus \<Rightarrow> u32 \<Rightarrow> 'm cpu \<Rightarrow> (next_loop \<times> 'm cpu) option" where
  "arm_case_08 M opcode s =
    (if opcode AND 0x90 = 0x90 then
       (if opcode AND 0x20 \<noteq> 0 then
         arm_access_memory M St No_op Half_reg U16 True Plus opcode s
       else arm_multiply_long False False False opcode s)
     else arm_data_proc (\<lambda>n x c. n + x) Reg opcode s)"

definition arm_case_09 :: "'m bus \<Rightarrow> u32 \<Rightarrow> 'm cpu \<Rightarrow> (next_loop \<times> 'm cpu) option" where
  "arm_case_09 M opcode s =
    (if opcode AND 0x90 = 0x90 then
       (if field opcode 5 0x3 = 0 then arm_multiply_long False True False opcode s
       else if field opcode 5 0x3 = 1 then arm_access_memory M Ld No_op Half_reg U16 True Plus opcode s
       else if field opcode 5 0x3 = 2 then arm_access_memory M Ld No_op Half_reg S8 True Plus opcode s
       else if field opcode 5 0x3 = 3 then arm_access_memory M Ld No_op Half_reg S16 True Plus opcode s
       else Some (Next, s))
     else arm_data_proc_add_flags M False Reg opcode s)"

definition arm_case_0A :: "'m bus \<Rightarrow> u32 \<Rightarrow> 'm cpu \<Rightarrow> (next_loop \<times> 'm cpu) option" where
  "arm_case_0A M opcode s =
    (if opcode AND 0x90 = 0x90 then
       (if opcode AND 0x20 \<noteq> 0 then
         arm_access_memory M St No_op Half_reg U16 True Plus opcode s
       else arm_multiply_long True False False opcode s)
     else arm_data_proc (\<lambda>n x c. n + x + c) Reg opcode s)"

definition arm_case_0B :: "'m bus \<Rightarrow> u32 \<Rightarrow> 'm cpu \<Rightarrow> (next_loop \<times> 'm cpu) option" where
  "arm_case_0B M opcode s =
    (if opcode AND 0x90 = 0x90 then
       (if field opcode 5 0x3 = 0 then arm_multiply_long True True False opcode s
       else if field opcode 5 0x3 = 1 then arm_access_memory M Ld No_op Half_reg U16 True Plus opcode s
       else if field opcode 5 0x3 = 2 then arm_access_memory M Ld No_op Half_reg S8 True Plus opcode s
       else if field opcode 5 0x3 = 3 then arm_access_memory M Ld No_op Half_reg S16 True Plus opcode s
       else Some (Next, s))
     else arm_data_proc_add_flags M (c_flag s) Reg opcode s)"

definition arm_case_0C :: "'m bus \<Rightarrow> u32 \<Rightarrow> 'm cpu \<Rightarrow> (next_loop \<times> 'm cpu) option" where
  "arm_case_0C M opcode s =
    (if opcode AND 0x90 = 0x90 then
       (if opcode AND 0x20 \<noteq> 0 then
         arm_access_memory M St No_op Half_imm U16 True Plus opcode s
       else arm_multiply_long False False True opcode s)
     else arm_data_proc (\<lambda>n x c. n - (x + (c XOR 1))) Reg opcode s)"

definition arm_case_0D :: "'m bus \<Rightarrow> u32 \<Rightarrow> 'm cpu \<Rightarrow> (next_loop \<times> 'm cpu) option" where
  "arm_case_0D M opcode s =
    (if opcode AND 0x90 = 0x90 then
       (if field opcode 5 0x3 = 0 then arm_multiply_long False True True opcode s
       else if field opcode 5 0x3 = 1 then arm_access_memory M Ld No_op Half_imm U16 True Plus opcode s
       else if field opcode 5 0x3 = 2 then arm_access_memory M Ld No_op Half_imm S8 True Plus opcode s
       else if field opcode 5 0x3 = 3 then arm_access_memory M Ld No_op Half_imm S16 True Plus opcode s
       else Some (Next, s))
     else arm_data_proc_sub_flags M False (c_flag s) Reg opcode s)"

definition arm_case_0E :: "'m bus \<Rightarrow> u32 \<Rightarrow> 'm cpu \<Rightarrow> (next_loop \<times> 'm cpu) option" where
  "arm_case_0E M opcode s =
    (if opcode AND 0x90 = 0x90 then
       (if opcode AND 0x20 \<noteq> 0 then
         arm_access_memory M St No_op Half_imm U16 True Plus opcode s
       else arm_multiply_long True False True opcode s)
     else arm_data_proc (\<lambda>n x c. x - n + c - 1) Reg opcode s)"

definition arm_case_0F :: "'m bus \<Rightarrow> u32 \<Rightarrow> 'm cpu \<Rightarrow> (next_loop \<times> 'm cpu) option" where
  "arm_case_0F M opcode s =
    (if opcode AND 0x90 = 0x90 then
       (if field opcode 5 0x3 = 0 then arm_multiply_long True True True opcode s
       else if field opcode 5 0x3 = 1 then arm_access_memory M Ld No_op Half_imm U16 True Plus opcode s
       else if field opcode 5 0x3 = 2 then arm_access_memory M Ld No_op Half_imm S8 True Plus opcode s
       else if field opcode 5 0x3 = 3 then arm_access_memory M Ld No_op Half_imm S16 True Plus opcode s
       else Some (Next, s))
     else arm_data_proc_sub_flags M True (c_flag s) Reg opcode s)"

definition arm_case_10 :: "'m bus \<Rightarrow> u32 \<Rightarrow> 'm cpu \<Rightarrow> (next_loop \<times> 'm cpu) option" where
  "arm_case_10 M opcode s =
    (if opcode AND 0x90 = 0x90 then
       (if opcode AND 0x20 \<noteq> 0 then
         arm_access_memory M St Minus Half_reg U16 False No_op opcode s
       else arm_swap M U32 opcode s)
     else arm_mrs_cpsr opcode s)"

definition arm_case_11 :: "'m bus \<Rightarrow> u32 \<Rightarrow> 'm cpu \<Rightarrow> (next_loop \<times> 'm cpu) option" where
  "arm_case_11 M opcode s =
    (if opcode AND 0x90 = 0x90 then
       (if field opcode 5 0x3 = 1 then arm_access_memory M Ld Minus Half_reg U16 False No_op opcode s
       else if field opcode 5 0x3 = 2 then arm_access_memory M Ld Minus Half_reg S8 False No_op opcode s
       else if field opcode 5 0x3 = 3 then arm_access_memory M Ld Minus Half_reg S16 False No_op opcode s
       else Some (Next, s))
     else arm_data_proc_test_logic (\<lambda>n x. n AND x) Reg opcode s)"

definition arm_case_12 :: "'m bus \<Rightarrow> u32 \<Rightarrow> 'm cpu \<Rightarrow> (next_loop \<times> 'm cpu) option" where
  "arm_case_12 M opcode s =
    (if opcode AND 0x90 = 0x90 then
       arm_access_memory M St Minus Half_reg U16 True No_op opcode s
     else if opcode AND 0x10 \<noteq> 0 then
       arm_bx M opcode s
     else arm_msr_cpsr M Reg opcode s)"

definition arm_case_13 :: "'m bus \<Rightarrow> u32 \<Rightarrow> 'm cpu \<Rightarrow> (next_loop \<times> 'm cpu) option" where
  "arm_case_13 M opcode s =
    (if opcode AND 0x90 = 0x90 then
       (if field opcode 5 0x3 = 1 then arm_access_memory M Ld Minus Half_reg U16 True No_op opcode s
       else if field opcode 5 0x3 = 2 then arm_access_memory M Ld Minus Half_reg S8 True No_op opcode s
       else if field opcode 5 0x3 = 3 then arm_access_memory M Ld Minus Half_reg S16 True No_op opcode s
       else Some (Next, s))
     else arm_data_proc_test_logic (\<lambda>n x. n XOR x) Reg opcode s)"

definition arm_case_14 :: "'m bus \<Rightarrow> u32 \<Rightarrow> 'm cpu \<Rightarrow> (next_loop \<times> 'm cpu) option" where
  "arm_case_14 M opcode s =
    (if opcode AND 0x90 = 0x90 then
       (if opcode AND 0x20 \<noteq> 0 then
         arm_access_memory M St Minus Half_imm U16 False No_op opcode s
       else arm_swap M U8 opcode s)
     else arm_mrs_spsr opcode s)"

definition arm_case_15 :: "'m bus \<Rightarrow> u32 \<Rightarrow> 'm cpu \<Rightarrow> (next_loop \<times> 'm cpu) option" where
  "arm_case_15 M opcode s =
    (if opcode AND 0x90 = 0x90 then
       (if field opcode 5 0x3 = 1 then arm_access_memory M Ld Minus Half_imm U16 False No_op opcode s
       else if field opcode 5 0x3 = 2 then arm_access_memory M Ld Minus Half_imm S8 False No_op opcode s
       else if field opcode 5 0x3 = 3 then arm_access_memory M Ld Minus Half_imm S16 False No_op opcode s
       else Some (Next, s))
     else arm_data_proc_test_sub Reg opcode s)"

definition arm_case_16 :: "'m bus \<Rightarrow> u32 \<Rightarrow> 'm cpu \<Rightarrow> (next_loop \<times> 'm cpu) option" where
  "arm_case_16 M opcode s =
    (if opcode AND 0x90 = 0x90 then
       arm_access_memory M St Minus Half_imm U16 True No_op opcode s
     else arm_msr_spsr Reg opcode s)"

definition arm_case_17 :: "'m bus \<Rightarrow> u32 \<Rightarrow> 'm cpu \<Rightarrow> (next_loop \<times> 'm cpu) option" where
  "arm_case_17 M opcode s =
    (if opcode AND 0x90 = 0x90 then
       (if field opcode 5 0x3 = 1 then arm_access_memory M Ld Minus Half_imm U16 True No_op opcode s
       else if field opcode 5 0x3 = 2 then arm_access_memory M Ld Minus Half_imm S8 True No_op opcode s
       else if field opcode 5 0x3 = 3 then arm_access_memory M Ld Minus Half_imm S16 True No_op opcode s
       else Some (Next, s))
     else arm_data_proc_test_add Reg opcode s)"

definition arm_case_18 :: "'m bus \<Rightarrow> u32 \<Rightarrow> 'm cpu \<Rightarrow> (next_loop \<times> 'm cpu) option" where
  "arm_case_18 M opcode s =
    (if opcode AND 0x90 = 0x90 then
       arm_access_memory M St Plus Half_reg U16 False No_op opcode s
     else arm_data_proc (\<lambda>n x c. n OR x) Reg opcode s)"

definition arm_case_19 :: "'m bus \<Rightarrow> u32 \<Rightarrow> 'm cpu \<Rightarrow> (next_loop \<times> 'm cpu) option" where
  "arm_case_19 M opcode s =
    (if opcode AND 0x90 = 0x90 then
       (if field opcode 5 0x3 = 1 then arm_access_memory M Ld Plus Half_reg U16 False No_op opcode s
       else if field opcode 5 0x3 = 2 then arm_access_memory M Ld Plus Half_reg S8 False No_op opcode s
       else if field opcode 5 0x3 = 3 then arm_access_memory M Ld Plus Half_reg S16 False No_op opcode s
       else Some (Next, s))
     else arm_data_proc_logic_flags M (\<lambda>n x. n OR x) Reg opcode s)"

definition arm_case_1A :: "'m bus \<Rightarrow> u32 \<Rightarrow> 'm cpu \<Rightarrow> (next_loop \<times> 'm cpu) option" where
  "arm_case_1A M opcode s =
    (if opcode AND 0x90 = 0x90 then
       arm_access_memory M St Plus Half_reg U16 True No_op opcode s
     else arm_data_proc (\<lambda>n x c. x) Reg opcode s)"

definition arm_case_1B :: "'m bus \<Rightarrow> u32 \<Rightarrow> 'm cpu \<Rightarrow> (next_loop \<times> 'm cpu) option" where
  "arm_case_1B M opcode s =
    (if opcode AND 0x90 = 0x90 then
       (if field opcode 5 0x3 = 1 then arm_access_memory M Ld Plus Half_reg U16 True No_op opcode s
       else if field opcode 5 0x3 = 2 then arm_access_memory M Ld Plus Half_reg S8 True No_op opcode s
       else if field opcode 5 0x3 = 3 then arm_access_memory M Ld Plus Half_reg S16 True No_op opcode s
       else Some (Next, s))
     else arm_data_proc_logic_flags M (\<lambda>n x. x) Reg opcode s)"

definition arm_case_1C :: "'m bus \<Rightarrow> u32 \<Rightarrow> 'm cpu \<Rightarrow> (next_loop \<times> 'm cpu) option" where
  "arm_case_1C M opcode s =
    (if opcode AND 0x90 = 0x90 then
       arm_access_memory M St Plus Half_imm U16 False No_op opcode s
     else arm_data_proc (\<lambda>n x c. n AND NOT x) Reg opcode s)"

definition arm_case_1D :: "'m bus \<Rightarrow> u32 \<Rightarrow> 'm cpu \<Rightarrow> (next_loop \<times> 'm cpu) option" where
  "arm_case_1D M opcode s =
    (if opcode AND 0x90 = 0x90 then
       (if field opcode 5 0x3 = 1 then arm_access_memory M Ld Plus Half_imm U16 False No_op opcode s
       else if field opcode 5 0x3 = 2 then arm_access_memory M Ld Plus Half_imm S8 False No_op opcode s
       else if field opcode 5 0x3 = 3 then arm_access_memory M Ld Plus Half_imm S16 False No_op opcode s
       else Some (Next, s))
     else arm_data_proc_logic_flags M (\<lambda>n x. n AND NOT x) Reg opcode s)"

definition arm_case_1E :: "'m bus \<Rightarrow> u32 \<Rightarrow> 'm cpu \<Rightarrow> (next_loop \<times> 'm cpu) option" where
  "arm_case_1E M opcode s =
    (if opcode AND 0x90 = 0x90 then
       arm_access_memory M St Plus Half_imm U16 True No_op opcode s
     else arm_data_proc (\<lambda>n x c. NOT x) Reg opcode s)"

definition arm_case_1F :: "'m bus \<Rightarrow> u32 \<Rightarrow> 'm cpu \<Rightarrow> (next_loop \<times> 'm cpu) option" where
  "arm_case_1F M opcode s =
    (if opcode AND 0x90 = 0x90 then
       (if field opcode 5 0x3 = 1 then arm_access_memory M Ld Plus Half_imm U16 True No_op opcode s
       else if field opcode 5 0x3 = 2 then arm_access_memory M Ld Plus Half_imm S8 True No_op opcode s
       else if field opcode 5 0x3 = 3 then arm_access_memory M Ld Plus Half_imm S16 True No_op opcode s
       else Some (Next, s))
     else arm_data_proc_logic_flags M (\<lambda>n x. NOT x) Reg opcode s)"

definition arm_cases_20_2F :: "nat \<Rightarrow> 'm bus \<Rightarrow> u32 \<Rightarrow> 'm cpu \<Rightarrow> (next_loop \<times> 'm cpu) option" where
  "arm_cases_20_2F k M opcode s =
    (if k = 0x20 then arm_data_proc (\<lambda>n x c. n AND x) Imm opcode s
     else if k = 0x21 then arm_data_proc_logic_flags M (\<lambda>n x. n AND x) Imm opcode s
     else if k = 0x22 then arm_data_proc (\<lambda>n x c. n XOR x) Imm opcode s
     else if k = 0x23 then arm_data_proc_logic_flags M (\<lambda>n x. n XOR x) Imm opcode s
     else if k = 0x24 then arm_data_proc (\<lambda>n x c. n - x) Imm opcode s
     else if k = 0x25 then arm_data_proc_sub_flags M False True Imm opcode s
     else if k = 0x26 then arm_data_proc (\<lambda>n x c. x - n) Imm opcode s
     else if k = 0x27 then arm_data_proc_sub_flags M True True Imm opcode s
     else if k = 0x28 then arm_data_proc (\<lambda>n x c. n + x) Imm opcode s
     else if k = 0x29 then arm_data_proc_add_flags M False Imm opcode s
     else if k = 0x2A then arm_data_proc (\<lambda>n x c. n + x + c) Imm opcode s
     else if k = 0x2B then arm_data_proc_add_flags M (c_flag s) Imm opcode s
     else if k = 0x2C then arm_data_proc (\<lambda>n x c. n - x + c - 1) Imm opcode s
     else if k = 0x2D then arm_data_proc_sub_flags M False (c_flag s) Imm opcode s
     else if k = 0x2E then arm_data_proc (\<lambda>n x c. x - n + c - 1) Imm opcode s
     else arm_data_proc_sub_flags M True (c_flag s) Imm opcode s)"

definition arm_cases_30_3F :: "nat \<Rightarrow> 'm bus \<Rightarrow> u32 \<Rightarrow> 'm cpu \<Rightarrow> (next_loop \<times> 'm cpu) option" where
  "arm_cases_30_3F k M opcode s =
    (if k = 0x30 then arm_data_proc_test_logic (\<lambda>n x. n AND x) Imm opcode s
     else if k = 0x31 then arm_data_proc_test_logic (\<lambda>n x. n AND x) Imm opcode s
     else if k = 0x32 then arm_msr_cpsr M Imm opcode s
     else if k = 0x33 then arm_data_proc_test_logic (\<lambda>n x. n XOR x) Imm opcode s
     else if k = 0x34 then arm_data_proc_test_sub Imm opcode s
     else if k = 0x35 then arm_data_proc_test_sub Imm opcode s
     else if k = 0x36 then arm_msr_spsr Imm opcode s
     else if k = 0x37 then arm_data_proc_test_add Imm opcode s
     else if k = 0x38 then arm_data_proc (\<lambda>n x c. n OR x) Imm opcode s
     else if k = 0x39 then arm_data_proc_logic_flags M (\<lambda>n x. n OR x) Imm opcode s
     else if k = 0x3A then arm_data_proc (\<lambda>n x c. x) Imm opcode s
     else if k = 0x3B then arm_data_proc_logic_flags M (\<lambda>n x. x) Imm opcode s
     else if k = 0x3C then arm_data_proc (\<lambda>n x c. n AND NOT x) Imm opcode s
     else if k = 0x3D then arm_data_proc_logic_flags M (\<lambda>n x. n AND NOT x) Imm opcode s
     else if k = 0x3E then arm_data_proc (\<lambda>n x c. NOT x) Imm opcode s
     else arm_data_proc_logic_flags M (\<lambda>n x. NOT x) Imm opcode s)"

definition arm_cases_40_4F :: "nat \<Rightarrow> 'm bus \<Rightarrow> u32 \<Rightarrow> 'm cpu \<Rightarrow> (next_loop \<times> 'm cpu) option" where
  "arm_cases_40_4F k M opcode s =
    (if k = 0x40 then arm_access_memory M St No_op Off_imm U32 True Minus opcode s
     else if k = 0x41 then arm_access_memory M Ld No_op Off_imm U32 True Minus opcode s
     else if k = 0x42 then arm_access_memory M St No_op Off_imm U32 True Minus opcode s
     else if k = 0x43 then arm_access_memory M Ld No_op Off_imm U32 True Minus opcode s
     else if k = 0x44 then arm_access_memory M St No_op Off_imm U8 True Minus opcode s
     else if k = 0x45 then arm_access_memory M Ld No_op Off_imm U8 True Minus opcode s
     else if k = 0x46 then arm_access_memory M St No_op Off_imm U8 True Minus opcode s
     else if k = 0x47 then arm_access_memory M Ld No_op Off_imm U8 True Minus opcode s
     else if k = 0x48 then arm_access_memory M St No_op Off_imm U32 True Plus opcode s
     else if k = 0x49 then arm_access_memory M Ld No_op Off_imm U32 True Plus opcode s
     else if k = 0x4A then arm_access_memory M St No_op Off_imm U32 True Plus opcode s
     else if k = 0x4B then arm_access_memory M Ld No_op Off_imm U32 True Plus opcode s
     else if k = 0x4C then arm_access_memory M St No_op Off_imm U8 True Plus opcode s
     else if k = 0x4D then arm_access_memory M Ld No_op Off_imm U8 True Plus opcode s
     else if k = 0x4E then arm_access_memory M St No_op Off_imm U8 True Plus opcode s
     else arm_access_memory M Ld No_op Off_imm U8 True Plus opcode s)"

definition arm_cases_50_5F :: "nat \<Rightarrow> 'm bus \<Rightarrow> u32 \<Rightarrow> 'm cpu \<Rightarrow> (next_loop \<times> 'm cpu) option" where
  "arm_cases_50_5F k M opcode s =
    (if k = 0x50 then arm_access_memory M St Minus Off_imm U32 False No_op opcode s
     else if k = 0x51 then arm_access_memory M Ld Minus Off_imm U32 False No_op opcode s
     else if k = 0x52 then arm_access_memory M St Minus Off_imm U32 True No_op opcode s
     else if k = 0x53 then arm_access_memory M Ld Minus Off_imm U32 True No_op opcode s
     else if k = 0x54 then arm_access_memory M St Minus Off_imm U8 False No_op opcode s
     else if k = 0x55 then arm_access_memory M Ld Minus Off_imm U8 False No_op opcode s
     else if k = 0x56 then arm_access_memory M St Minus Off_imm U8 True No_op opcode s
     else if k = 0x57 then arm_access_memory M Ld Minus Off_imm U8 True No_op opcode s
     else if k = 0x58 then arm_access_memory M St Plus Off_imm U32 False No_op opcode s
     else if k = 0x59 then arm_access_memory M Ld Plus Off_imm U32 False No_op opcode s
     else if k = 0x5A then arm_access_memory M St Plus Off_imm U32 True No_op opcode s
     else if k = 0x5B then arm_access_memory M Ld Plus Off_imm U32 True No_op opcode s
     else if k = 0x5C then arm_access_memory M St Plus Off_imm U8 False No_op opcode s
     else if k = 0x5D then arm_access_memory M Ld Plus Off_imm U8 False No_op opcode s
     else if k = 0x5E then arm_access_memory M St Plus Off_imm U8 True No_op opcode s
     else arm_access_memory M Ld Plus Off_imm U8 True No_op opcode s)"

definition arm_cases_60_6F :: "nat \<Rightarrow> 'm bus \<Rightarrow> u32 \<Rightarrow> 'm cpu \<Rightarrow> (next_loop \<times> 'm cpu) option" where
  "arm_cases_60_6F k M opcode s =
    (if k = 0x60 then arm_access_memory M St No_op Off_reg U32 True Minus opcode s
     else if k = 0x61 then arm_access_memory M Ld No_op Off_reg U32 True Minus opcode s
     else if k = 0x62 then arm_access_memory M St No_op Off_reg U32 True Minus opcode s
     else if k = 0x63 then arm_access_memory M Ld No_op Off_reg U32 True Minus opcode s
     else if k = 0x64 then arm_access_memory M St No_op Off_reg U8 True Minus opcode s
     else if k = 0x65 then arm_access_memory M Ld No_op Off_reg U8 True Minus opcode s
     else if k = 0x66 then arm_access_memory M St No_op Off_reg U8 True Minus opcode s
     else if k = 0x67 then arm_access_memory M Ld No_op Off_reg U8 True Minus opcode s
     else if k = 0x68 then arm_access_memory M St No_op Off_reg U32 True Plus opcode s
     else if k = 0x69 then arm_access_memory M Ld No_op Off_reg U32 True Plus opcode s
     else if k = 0x6A then arm_access_memory M St No_op Off_reg U32 True Plus opcode s
     else if k = 0x6B then arm_access_memory M Ld No_op Off_reg U32 True Plus opcode s
     else if k = 0x6C then arm_access_memory M St No_op Off_reg U8 True Plus opcode s
     else if k = 0x6D then arm_access_memory M Ld No_op Off_reg U8 True Plus opcode s
     else if k = 0x6E then arm_access_memory M St No_op Off_reg U8 True Plus opcode s
     else arm_access_memory M Ld No_op Off_reg U8 True Plus opcode s)"

definition arm_cases_70_7F :: "nat \<Rightarrow> 'm bus \<Rightarrow> u32 \<Rightarrow> 'm cpu \<Rightarrow> (next_loop \<times> 'm cpu) option" where
  "arm_cases_70_7F k M opcode s =
    (if k = 0x70 then arm_access_memory M St Minus Off_reg U32 False No_op opcode s
     else if k = 0x71 then arm_access_memory M Ld Minus Off_reg U32 False No_op opcode s
     else if k = 0x72 then arm_access_memory M St Minus Off_reg U32 True No_op opcode s
     else if k = 0x73 then arm_access_memory M Ld Minus Off_reg U32 True No_op opcode s
     else if k = 0x74 then arm_access_memory M St Minus Off_reg U8 False No_op opcode s
     else if k = 0x75 then arm_access_memory M Ld Minus Off_reg U8 False No_op opcode s
     else if k = 0x76 then arm_access_memory M St Minus Off_reg U8 True No_op opcode s
     else if k = 0x77 then arm_access_memory M Ld Minus Off_reg U8 True No_op opcode s
     else if k = 0x78 then arm_access_memory M St Plus Off_reg U32 False No_op opcode s
     else if k = 0x79 then arm_access_memory M Ld Plus Off_reg U32 False No_op opcode s
     else if k = 0x7A then arm_access_memory M St Plus Off_reg U32 True No_op opcode s
     else if k = 0x7B then arm_access_memory M Ld Plus Off_reg U32 True No_op opcode s
     else if k = 0x7C then arm_access_memory M St Plus Off_reg U8 False No_op opcode s
     else if k = 0x7D then arm_access_memory M Ld Plus Off_reg U8 False No_op opcode s
     else if k = 0x7E then arm_access_memory M St Plus Off_reg U8 True No_op opcode s
     else arm_access_memory M Ld Plus Off_reg U8 True No_op opcode s)"

text \<open>
  The switch as a whole. The coprocessor encodings \<^verbatim>\<open>0xC0\<close> to \<^verbatim>\<open>0xEF\<close> have no case unless
  \<^verbatim>\<open>HAVE_UNUSED\<close> is defined: the state, with its program counter, stays as it is.
\<close>

definition arm_switch :: "nat \<Rightarrow> 'm bus \<Rightarrow> u32 \<Rightarrow> 'm cpu \<Rightarrow> (next_loop \<times> 'm cpu) option" where
  "arm_switch k M opcode s =
     (if k < 0x20
      then ([arm_case_00, arm_case_01, arm_case_02, arm_case_03, arm_case_04, arm_case_05, arm_case_06, arm_case_07,
             arm_case_08, arm_case_09, arm_case_0A, arm_case_0B, arm_case_0C, arm_case_0D, arm_case_0E, arm_case_0F,
             arm_case_10, arm_case_11, arm_case_12, arm_case_13, arm_case_14, arm_case_15, arm_case_16, arm_case_17,
             arm_case_18, arm_case_19, arm_case_1A, arm_case_1B, arm_case_1C, arm_case_1D, arm_case_1E, arm_case_1F] ! k)
            M opcode s
      else if k < 0x30 then arm_cases_20_2F k M opcode s
      else if k < 0x40 then arm_cases_30_3F k M opcode s
      else if k < 0x50 then arm_cases_40_4F k M opcode s
      else if k < 0x60 then arm_cases_50_5F k M opcode s
      else if k < 0x70 then arm_cases_60_6F k M opcode s
      else if k < 0x80 then arm_cases_70_7F k M opcode s
      else if k < 0xA0 then arm_block_case k M opcode s
      else if k < 0xB0 then arm_b M opcode s
      else if k < 0xC0 then arm_bl M opcode s
      else if k < 0xF0 then Some (Next, s)
      else arm_swi s)"

text \<open>One instruction: its condition, then the switch.\<close>

definition arm_instruction :: "'m bus \<Rightarrow> u32 \<Rightarrow> 'm cpu \<Rightarrow> (next_loop \<times> 'm cpu) option" where
  "arm_instruction M opcode s =
     (if cond_passed (unat (drop_bit 28 opcode)) s then arm_switch (field opcode 20 0xFF) M opcode s
      else Some (Next, pc_offset 4 s))"

section \<open>One round of the loop\<close>

text \<open>What follows a round: another instruction of either set, the rest of the machine, or the alert exit.\<close>

datatype after_round = Again_arm | Again_thumb | Update | Alert

definition end_of_instruction :: "'m bus \<Rightarrow> bool \<Rightarrow> 'm cpu \<Rightarrow> (after_round \<times> 'm cpu) option" where
  "end_of_instruction M thumb s = do {
     (half, full) \<leftarrow> arr_get (seq_cycles M (mem s)) (unat (drop_bit 24 (reg s REG_PC) AND 0xF));
     let s = s\<lparr>cycles := cycles s - (if thumb then half else full)\<rparr>;
     let s = (if reg s REG_PC = idle_loop_target M (mem s) \<and> 0 <s cycles s then s\<lparr>cycles := 0\<rparr> else s);
     if cpu_alert s AND (CPU_ALERT_HALT OR CPU_ALERT_IRQ) \<noteq> 0 then Some (Alert, collapse_flags s)
     else if 0 <s cycles s then Some (if thumb then Again_thumb else Again_arm, s)
     else Some (Update, collapse_flags s) }"

definition arm_round :: "'m bus \<Rightarrow> 'm cpu \<Rightarrow> (after_round \<times> 'm cpu) option" where
  "arm_round M s = do {
     s \<leftarrow> cheat_hook M (collapse_flags s);
     let s = set_reg REG_PC (reg s REG_PC AND NOT 3) s;
     (opcode, s) \<leftarrow> fetch M U32 s;
     (l, s) \<leftarrow> arm_instruction M opcode s;
     case l of Arm_loop \<Rightarrow> Some (Again_arm, s) | Thumb_loop \<Rightarrow> Some (Again_thumb, s)
     | Next \<Rightarrow> end_of_instruction M False s }"

end
