(* ===== verification/ThumbExec.thy ===== *)
theory ThumbExec
  imports ArmExec
begin

text \<open>
  The THUMB interpreter of \<^verbatim>\<open>cpu.cc\<close>: the instruction bodies of its macros and the instruction
  switch, by ranges of the top byte of the opcode as the source lists them.
\<close>

section \<open>Arithmetic\<close>

abbreviation (input) th_rd :: "u32 \<Rightarrow> nat" where "th_rd opcode \<equiv> field opcode 0 0x7"
abbreviation (input) th_rs :: "u32 \<Rightarrow> nat" where "th_rs opcode \<equiv> field opcode 3 0x7"
abbreviation (input) th_rn :: "u32 \<Rightarrow> nat" where "th_rn opcode \<equiv> field opcode 6 0x7"
abbreviation (input) th_r8 :: "u32 \<Rightarrow> nat" where "th_r8 opcode \<equiv> field opcode 8 0x7"
abbreviation (input) th_imm8 :: "u32 \<Rightarrow> u32" where "th_imm8 opcode \<equiv> opcode AND 0xFF"
abbreviation (input) th_imm5 :: "u32 \<Rightarrow> u32" where "th_imm5 opcode \<equiv> drop_bit 6 opcode AND 0x1F"

definition thumb_add :: "nat \<Rightarrow> u32 \<Rightarrow> u32 \<Rightarrow> bool \<Rightarrow> 'm cpu \<Rightarrow> 'm cpu" where
  "thumb_add rd a b src_c s =
     (let (dest, c) = add_result a b (of_bool src_c)
      in pc_offset 2 (set_reg rd dest (flags_add dest a b (s\<lparr>c_flag := c\<rparr>))))"

definition thumb_add_noflags :: "nat \<Rightarrow> u32 \<Rightarrow> u32 \<Rightarrow> 'm cpu \<Rightarrow> 'm cpu" where
  "thumb_add_noflags rd a b s = pc_offset 2 (set_reg rd (a + b) s)"

definition thumb_sub :: "nat \<Rightarrow> u32 \<Rightarrow> u32 \<Rightarrow> bool \<Rightarrow> 'm cpu \<Rightarrow> 'm cpu" where
  "thumb_sub rd a b src_c s =
     (let dest = a + NOT b + of_bool src_c
      in pc_offset 2 (set_reg rd dest (flags_sub dest a b src_c s)))"

definition thumb_logic :: "nat \<Rightarrow> u32 \<Rightarrow> 'm cpu \<Rightarrow> 'm cpu" where
  "thumb_logic rd dest s = pc_offset 2 (set_reg rd dest (flags_logic dest s))"

definition thumb_test_add :: "u32 \<Rightarrow> u32 \<Rightarrow> 'm cpu \<Rightarrow> 'm cpu" where
  "thumb_test_add a b s = (let dest = a + b in pc_offset 2 (flags_add dest a b (s\<lparr>c_flag := (dest < b)\<rparr>)))"

definition thumb_test_sub :: "u32 \<Rightarrow> u32 \<Rightarrow> 'm cpu \<Rightarrow> 'm cpu" where
  "thumb_test_sub a b s = pc_offset 2 (flags_sub (a - b) a b True s)"

definition thumb_test_logic :: "u32 \<Rightarrow> 'm cpu \<Rightarrow> 'm cpu" where
  "thumb_test_logic dest s = pc_offset 2 (flags_logic dest s)"

section \<open>Shifts\<close>

datatype shift_op = Lsl | Lsr | Asr | Ror

text \<open>By a register: the whole register is the amount. A rotation by more than 32 is undefined in C.\<close>

definition thumb_shift_reg :: "shift_op \<Rightarrow> u32 \<Rightarrow> u32 \<Rightarrow> bool \<Rightarrow> (u32 \<times> bool) option" where
  "thumb_shift_reg ty dest amount c =
     (let shift = unat amount in
      if shift = 0 then Some (dest, c)
      else case ty of
        Lsl \<Rightarrow> Some (if 31 < shift then (0, if shift = 32 then bit dest 0 else False)
                     else (push_bit shift dest, bit dest (32 - shift)))
      | Lsr \<Rightarrow> Some (if 31 < shift then (0, if shift = 32 then bit dest 31 else False)
                     else (drop_bit shift dest, bit dest (shift - 1)))
      | Asr \<Rightarrow> Some (if 31 < shift then (asr dest 31, bit (asr dest 31) 0)
                     else (asr dest shift, bit dest (shift - 1)))
      | Ror \<Rightarrow> map_option (\<lambda>x. (x, bit dest (shift - 1))) (ror dest shift))"

definition thumb_shift_imm :: "shift_op \<Rightarrow> u32 \<Rightarrow> nat \<Rightarrow> bool \<Rightarrow> (u32 \<times> bool) option" where
  "thumb_shift_imm ty v imm c =
     (case ty of
        Lsl \<Rightarrow> Some (if imm \<noteq> 0 then (push_bit imm v, bit v (32 - imm)) else (v, c))
      | Lsr \<Rightarrow> Some (if imm = 0 then (0, bit v 31) else (drop_bit imm v, bit v (imm - 1)))
      | Asr \<Rightarrow> Some (if imm = 0 then (asr v 31, bit (asr v 31) 0) else (asr v imm, bit v (imm - 1)))
      | Ror \<Rightarrow> (if imm = 0 then Some (rrx v c, bit v 0)
               else map_option (\<lambda>x. (x, bit v (imm - 1))) (ror v imm)))"

definition thumb_shift :: "nat \<Rightarrow> (u32 \<times> bool) option \<Rightarrow> 'm cpu \<Rightarrow> 'm cpu option" where
  "thumb_shift rd result s = do {
     (dest, c) \<leftarrow> result;
     Some (pc_offset 2 (set_reg rd dest (flags_logic dest (s\<lparr>c_flag := c\<rparr>)))) }"

section \<open>High registers\<close>

definition hi_rs :: "u32 \<Rightarrow> nat" where "hi_rs opcode = field opcode 3 0xF"

definition hi_rd :: "u32 \<Rightarrow> nat" where
  "hi_rd opcode = unat ((drop_bit 4 opcode AND 8) OR (opcode AND 7))"

definition thumb_hireg_op :: "(u32 \<Rightarrow> u32 \<Rightarrow> u32) \<Rightarrow> u32 \<Rightarrow> 'm cpu \<Rightarrow> 'm cpu" where
  "thumb_hireg_op expr opcode s =
     (let s = pc_offset 4 s; rd = hi_rd opcode; dest = expr (reg s rd) (reg s (hi_rs opcode)); s = pc_offset (- 2) s
      in if rd = 15 then set_reg REG_PC (dest AND NOT 1) s else set_reg rd dest s)"

definition thumb_hireg_cmp :: "u32 \<Rightarrow> 'm cpu \<Rightarrow> 'm cpu" where
  "thumb_hireg_cmp opcode s =
     (let s = pc_offset 4 s; a = reg s (hi_rd opcode); b = reg s (hi_rs opcode)
      in flags_sub (a - b) a b True (pc_offset (- 2) s))"

definition thumb_bx :: "u32 \<Rightarrow> 'm cpu \<Rightarrow> next_loop \<times> 'm cpu" where
  "thumb_bx opcode s =
     (let s = pc_offset 4 s; src = reg s (hi_rs opcode) in
      if src AND 1 \<noteq> 0 then (Next, set_reg REG_PC (src - 1) s)
      else (Arm_loop, collapse_flags
              (set_reg REG_CPSR (reg s REG_CPSR AND NOT 0x20) (set_reg REG_PC src s))))"

section \<open>Loads and stores\<close>

text \<open>The address is an expression over the registers once the program counter has advanced.\<close>

definition thumb_access_memory ::
    "'m bus \<Rightarrow> direction \<Rightarrow> ((nat \<Rightarrow> u32) \<Rightarrow> u32) \<Rightarrow> nat \<Rightarrow> access \<Rightarrow> 'm cpu \<Rightarrow> 'm cpu option" where
  "thumb_access_memory M dir address rd acc s =
     (let s = pc_offset 2 s in
      case dir of
        Ld \<Rightarrow> do { (v, s) \<leftarrow> load M acc (address (reg s)) s; Some (set_reg rd v s) }
      | St \<Rightarrow> store M acc (address (reg s)) (reg s rd) s)"

definition exec_thumb_block_mem :: "'m bus \<Rightarrow> direction \<Rightarrow> addr_mode \<Rightarrow> nat \<Rightarrow> u32 \<Rightarrow> 'm cpu \<Rightarrow> 'm cpu option" where
  "exec_thumb_block_mem M dir am rn reglist s = do {
     let base = reg s rn;
     let numops = bit_count (reglist AND 0xFF) + (if bit_count (drop_bit 8 reglist) \<noteq> 0 then 1 else 0);
     let endaddr = block_end am base numops;
     let s = pc_offset 2 (if writeback_first dir rn reglist then set_reg rn endaddr s else s);
     (address, s) \<leftarrow> block_loop M dir reglist [0..<8] (block_start am base numops) s;
     s \<leftarrow> (case dir of
             Ld \<Rightarrow> (if bit reglist REG_PC
                    then do { (v, s) \<leftarrow> load M Aligned32 address s; Some (set_reg REG_PC (v AND NOT 1) s) }
                    else Some s)
           | St \<Rightarrow> (if bit reglist REG_LR then store M Aligned32 address (reg s REG_LR) s else Some s));
     Some (if writeback_first dir rn reglist then s else set_reg rn endaddr s) }"

section \<open>Branches\<close>

definition thumb_conditional_branch :: "'m bus \<Rightarrow> bool \<Rightarrow> u32 \<Rightarrow> 'm cpu \<Rightarrow> 'm cpu option" where
  "thumb_conditional_branch M condition opcode s =
     (let offset = scast (ucast (opcode AND 0xFF) :: u8) :: u32;
          s = pc_offset (if condition then offset * 2 + 4 else 2) s
      in branch_cycles M False (reg s REG_PC) s)"

text \<open>The conditions of the cases \<^verbatim>\<open>0xD0\<close> to \<^verbatim>\<open>0xDD\<close>.\<close>

definition thumb_condition :: "nat \<Rightarrow> 'm cpu \<Rightarrow> bool" where
  "thumb_condition k s =
     (let n = n_flag s; z = z_flag s; c = c_flag s; v = v_flag s in
      [z, \<not> z, c, \<not> c, n, \<not> n, v, \<not> v, c \<and> \<not> z, \<not> c \<or> z, n = v, n \<noteq> v, \<not> z \<and> n = v, z \<or> n \<noteq> v] ! k)"

definition thumb_b :: "'m bus \<Rightarrow> u32 \<Rightarrow> 'm cpu \<Rightarrow> 'm cpu option" where
  "thumb_b M opcode s =
     (let s = pc_offset (signed_drop_bit 20 (push_bit 21 (opcode AND 0x7FF)) + 4) s
      in branch_cycles M False (reg s REG_PC) s)"

definition thumb_bl_low :: "u32 \<Rightarrow> 'm cpu \<Rightarrow> 'm cpu" where
  "thumb_bl_low opcode s =
     pc_offset 2 (set_reg REG_LR (reg s REG_PC + 4 + signed_drop_bit 9 (push_bit 21 (opcode AND 0x7FF))) s)"

definition thumb_bl_high :: "'m bus \<Rightarrow> u32 \<Rightarrow> 'm cpu \<Rightarrow> 'm cpu option" where
  "thumb_bl_high M opcode s =
     (let newlr = (reg s REG_PC + 2) OR 1; newpc = reg s REG_LR + (opcode AND 0x7FF) * 2
      in branch_cycles M False newpc (set_reg REG_PC newpc (set_reg REG_LR newlr s)))"

definition thumb_swi :: "'m cpu \<Rightarrow> (next_loop \<times> 'm cpu) option" where
  "thumb_swi s = map_option (Pair Arm_loop) (software_interrupt 2 s)"

section \<open>The instruction switch\<close>

definition thumb_cases_00_3F :: "nat \<Rightarrow> u32 \<Rightarrow> 'm cpu \<Rightarrow> 'm cpu option" where
  "thumb_cases_00_3F k opcode s =
     (let rd = th_rd opcode; vs = reg s (th_rs opcode); imm = field opcode 6 0x1F; r8 = th_r8 opcode in
      if k < 0x08 then thumb_shift rd (thumb_shift_imm Lsl vs imm (c_flag s)) s
      else if k < 0x10 then thumb_shift rd (thumb_shift_imm Lsr vs imm (c_flag s)) s
      else if k < 0x18 then thumb_shift rd (thumb_shift_imm Asr vs imm (c_flag s)) s
      else if k < 0x1A then Some (thumb_add rd vs (reg s (th_rn opcode)) False s)
      else if k < 0x1C then Some (thumb_sub rd vs (reg s (th_rn opcode)) True s)
      else if k < 0x1E then Some (thumb_add rd vs (drop_bit 6 opcode AND 0x7) False s)
      else if k < 0x20 then Some (thumb_sub rd vs (drop_bit 6 opcode AND 0x7) True s)
      else if k < 0x28 then Some (thumb_logic r8 (th_imm8 opcode) s)
      else if k < 0x30 then Some (thumb_test_sub (reg s r8) (th_imm8 opcode) s)
      else if k < 0x38 then Some (thumb_add r8 (reg s r8) (th_imm8 opcode) False s)
      else Some (thumb_sub r8 (reg s r8) (th_imm8 opcode) True s))"

text \<open>The sixteen register operations: the low bits of the case and the field below it.\<close>

definition thumb_cases_40_43 :: "nat \<Rightarrow> u32 \<Rightarrow> 'm cpu \<Rightarrow> 'm cpu option" where
  "thumb_cases_40_43 k opcode s =
     (let rd = th_rd opcode; d = reg s rd; x = reg s (th_rs opcode); c = c_flag s in
      [Some (thumb_logic rd (d AND x) s),
       Some (thumb_logic rd (d XOR x) s),
       thumb_shift rd (thumb_shift_reg Lsl d x c) s,
       thumb_shift rd (thumb_shift_reg Lsr d x c) s,
       thumb_shift rd (thumb_shift_reg Asr d x c) s,
       Some (thumb_add rd d x c s),
       Some (thumb_sub rd d x c s),
       thumb_shift rd (thumb_shift_reg Ror d x c) s,
       Some (thumb_test_logic (d AND x) s),
       Some (thumb_sub rd 0 x True s),
       Some (thumb_test_sub d x s),
       Some (thumb_test_add d x s),
       Some (thumb_logic rd (d OR x) s),
       Some (thumb_logic rd (d * x) s),
       Some (thumb_logic rd (d AND NOT x) s),
       Some (thumb_logic rd (NOT x) s)] ! (4 * (k - 0x40) + field opcode 6 0x3))"

definition thumb_cases_44_47 :: "nat \<Rightarrow> u32 \<Rightarrow> 'm cpu \<Rightarrow> next_loop \<times> 'm cpu" where
  "thumb_cases_44_47 k opcode s =
     (if k = 0x44 then (Next, thumb_hireg_op (\<lambda>d x. d + x) opcode s)
      else if k = 0x45 then (Next, thumb_hireg_cmp opcode s)
      else if k = 0x46 then (Next, thumb_hireg_op (\<lambda>d x. x) opcode s)
      else thumb_bx opcode s)"

definition thumb_cases_48_9F :: "nat \<Rightarrow> 'm bus \<Rightarrow> u32 \<Rightarrow> 'm cpu \<Rightarrow> 'm cpu option" where
  "thumb_cases_48_9F k M opcode s =
     (let rd = th_rd opcode; rb = th_rs opcode; ro = th_rn opcode; r8 = th_r8 opcode;
          indexed = (\<lambda>r. r rb + r ro); imm = th_imm5 opcode in
      if k < 0x50 then
        thumb_access_memory M Ld (\<lambda>r. ((r REG_PC - 2) AND NOT 2) + th_imm8 opcode * 4 + 4) r8 U32 s
      else if k < 0x52 then thumb_access_memory M St indexed rd U32 s
      else if k < 0x54 then thumb_access_memory M St indexed rd U16 s
      else if k < 0x56 then thumb_access_memory M St indexed rd U8 s
      else if k < 0x58 then thumb_access_memory M Ld indexed rd S8 s
      else if k < 0x5A then thumb_access_memory M Ld indexed rd U32 s
      else if k < 0x5C then thumb_access_memory M Ld indexed rd U16 s
      else if k < 0x5E then thumb_access_memory M Ld indexed rd U8 s
      else if k < 0x60 then thumb_access_memory M Ld indexed rd S16 s
      else if k < 0x68 then thumb_access_memory M St (\<lambda>r. r rb + imm * 4) rd U32 s
      else if k < 0x70 then thumb_access_memory M Ld (\<lambda>r. r rb + imm * 4) rd U32 s
      else if k < 0x78 then thumb_access_memory M St (\<lambda>r. r rb + imm) rd U8 s
      else if k < 0x80 then thumb_access_memory M Ld (\<lambda>r. r rb + imm) rd U8 s
      else if k < 0x88 then thumb_access_memory M St (\<lambda>r. r rb + imm * 2) rd U16 s
      else if k < 0x90 then thumb_access_memory M Ld (\<lambda>r. r rb + imm * 2) rd U16 s
      else if k < 0x98 then thumb_access_memory M St (\<lambda>r. r REG_SP + th_imm8 opcode * 4) r8 U32 s
      else thumb_access_memory M Ld (\<lambda>r. r REG_SP + th_imm8 opcode * 4) r8 U32 s)"

text \<open>Address arithmetic, \<^verbatim>\<open>PUSH\<close>, \<^verbatim>\<open>POP\<close> and block transfers; the encodings without a case do nothing.\<close>

definition thumb_cases_A0_CF :: "nat \<Rightarrow> 'm bus \<Rightarrow> u32 \<Rightarrow> 'm cpu \<Rightarrow> 'm cpu option" where
  "thumb_cases_A0_CF k M opcode s =
     (let r8 = th_r8 opcode; imm = opcode AND 0x7F; rlist = opcode AND 0xFF in
      if k < 0xA8 then Some (thumb_add_noflags r8 ((reg s REG_PC AND NOT 2) + 4) (rlist * 4) s)
      else if k < 0xB0 then Some (thumb_add_noflags r8 (reg s REG_SP) (rlist * 4) s)
      else if k < 0xB4 then
        Some (thumb_add_noflags 13 (reg s REG_SP) (if drop_bit 7 opcode AND 1 \<noteq> 0 then - (imm * 4) else imm * 4) s)
      else if k = 0xB4 then exec_thumb_block_mem M St Pre_dec REG_SP rlist s
      else if k = 0xB5 then exec_thumb_block_mem M St Pre_dec REG_SP (rlist OR push_bit REG_LR 1) s
      else if k = 0xBC then exec_thumb_block_mem M Ld Post_inc REG_SP rlist s
      else if k = 0xBD then exec_thumb_block_mem M Ld Post_inc REG_SP (rlist OR push_bit REG_PC 1) s
      else if k < 0xC0 then Some s
      else if k < 0xC8 then exec_thumb_block_mem M St Post_inc r8 rlist s
      else exec_thumb_block_mem M Ld Post_inc r8 rlist s)"

definition thumb_cases_D0_FF :: "nat \<Rightarrow> 'm bus \<Rightarrow> u32 \<Rightarrow> 'm cpu \<Rightarrow> (next_loop \<times> 'm cpu) option" where
  "thumb_cases_D0_FF k M opcode s =
     (if k < 0xDE then map_option (Pair Next) (thumb_conditional_branch M (thumb_condition (k - 0xD0) s) opcode s)
      else if k = 0xDE then Some (Next, s)
      else if k = 0xDF then thumb_swi s
      else if k < 0xE8 then map_option (Pair Next) (thumb_b M opcode s)
      else if k < 0xF0 then Some (Next, s)
      else if k < 0xF8 then Some (Next, thumb_bl_low opcode s)
      else map_option (Pair Next) (thumb_bl_high M opcode s))"

definition thumb_switch :: "nat \<Rightarrow> 'm bus \<Rightarrow> u32 \<Rightarrow> 'm cpu \<Rightarrow> (next_loop \<times> 'm cpu) option" where
  "thumb_switch k M opcode s =
     (if k < 0x40 then map_option (Pair Next) (thumb_cases_00_3F k opcode s)
      else if k < 0x44 then map_option (Pair Next) (thumb_cases_40_43 k opcode s)
      else if k < 0x48 then Some (thumb_cases_44_47 k opcode s)
      else if k < 0xA0 then map_option (Pair Next) (thumb_cases_48_9F k M opcode s)
      else if k < 0xD0 then map_option (Pair Next) (thumb_cases_A0_CF k M opcode s)
      else thumb_cases_D0_FF k M opcode s)"

section \<open>One round of the loop\<close>

definition thumb_round :: "'m bus \<Rightarrow> 'm cpu \<Rightarrow> (after_round \<times> 'm cpu) option" where
  "thumb_round M s = do {
     s \<leftarrow> cheat_hook M (collapse_flags s);
     let s = set_reg REG_PC (reg s REG_PC AND NOT 1) s;
     (opcode, s) \<leftarrow> fetch M U16 s;
     (l, s) \<leftarrow> thumb_switch (field opcode 8 0xFF) M opcode s;
     case l of Arm_loop \<Rightarrow> Some (Again_arm, s) | Thumb_loop \<Rightarrow> Some (Again_thumb, s)
     | Next \<Rightarrow> end_of_instruction M True s }"

text \<open>
  Both loops as \<^verbatim>\<open>execute_arm\<close> runs them until the rest of the machine is due or an alert is
  raised: nothing bounds the rounds an instruction stream takes (an instruction that jumps
  to a loop head skips the cycle count), so a run is a partial function.
\<close>

partial_function (option) run_rounds :: "'m bus \<Rightarrow> bool \<Rightarrow> 'm cpu \<Rightarrow> (after_round \<times> 'm cpu) option" where
  "run_rounds M thumb s = do {
     (l, s) \<leftarrow> (if thumb then thumb_round M s else arm_round M s);
     if l = Again_arm then run_rounds M False s
     else if l = Again_thumb then run_rounds M True s
     else Some (l, s) }"

definition execute_until_update :: "'m bus \<Rightarrow> 'm cpu \<Rightarrow> (after_round \<times> 'm cpu) option" where
  "execute_until_update M s =
     (let s = extract_flags (s\<lparr>cpu_alert := CPU_ALERT_NONE\<rparr>)
      in run_rounds M (reg s REG_CPSR AND 0x20 \<noteq> 0) s)"

end
