(* ===== verification/GbaRun.thy ===== *)
theory GbaRun
  imports GbaDma ThumbExec VideoLine
begin

text \<open>
  The machine running: the bus the processor sees, cheats (\<^verbatim>\<open>cheats.c\<close>), timers and events
  (\<^verbatim>\<open>main.c\<close>), the keys (\<^verbatim>\<open>input.c\<close>), the reset of the memory (\<^verbatim>\<open>gba_memory.c\<close>) and the loop of
  \<^verbatim>\<open>execute_arm\<close> over a frame. \<open>fuel\<close> bounds how deep transfers may start transfers; the
  results are \<open>None\<close> where it runs out.
\<close>

section \<open>The bus\<close>

definition gba_write :: "nat \<Rightarrow> width \<Rightarrow> u32 \<Rightarrow> u32 \<Rightarrow> gs \<Rightarrow> gs option" where
  "gba_write fuel w address v s = do {
     (a, s) \<leftarrow> write_memory (dma_transfer fuel) w address v s;
     Some (s\<lparr>cpu_alert := cpu_alert s OR a\<rparr>) }"

definition gba_store :: "nat \<Rightarrow> access \<Rightarrow> u32 \<Rightarrow> u32 \<Rightarrow> gs \<Rightarrow> gs option" where
  "gba_store fuel acc address v s =
     (let w = access_width acc in
      if acc = Aligned32 then do {
        s \<leftarrow> charge (g_ws_seq (mem s)) True address s;
        gba_write fuel W32 address v s }
      else (let address = address AND NOT (w_mask w) in do {
        s \<leftarrow> charge (g_ws_nseq (mem s)) (w = W32) address s;
        gba_write fuel w address v s }))"

section \<open>Cheats\<close>

definition peek :: "u32 \<Rightarrow> gs \<Rightarrow> (u32 \<times> gs) option" where
  "peek address s = read_memory W16 address s"

definition poke :: "nat \<Rightarrow> width \<Rightarrow> u32 \<Rightarrow> u32 \<Rightarrow> gs \<Rightarrow> gs option" where
  "poke fuel w address v s = map_option snd (write_memory (dma_transfer fuel) w address v s)"

fun slide_code :: "nat \<Rightarrow> nat \<Rightarrow> u32 \<Rightarrow> u16 \<Rightarrow> u32 \<Rightarrow> u16 \<Rightarrow> gs \<Rightarrow> gs option" where
  "slide_code fuel 0 address value aincr vincr s = Some s"
| "slide_code fuel (Suc n) address value aincr vincr s = do {
     s \<leftarrow> poke fuel W16 address (ucast value) s;
     slide_code fuel n (address + aincr) (value + vincr) aincr vincr s }"

text \<open>
  The super code copies the bytes of the following codes, six of each; \<open>i\<close> is the code the
  bytes come from, \<open>n\<close> the bytes left. The codes are read from the array, also past the count.
\<close>

function super_code :: "nat \<Rightarrow> cheat \<Rightarrow> nat \<Rightarrow> nat \<Rightarrow> u32 \<Rightarrow> nat \<Rightarrow> gs \<Rightarrow> (nat \<times> gs) option" where
  "super_code fuel c j limit address i s =
     (if limit \<le> j \<or> cheat_count c \<le> i then Some (i, s)
      else (let off = j mod 6; i = (if off = 0 then i + 1 else i) in do {
        (a, v) \<leftarrow> arr_get (cheat_codes c) i;
        let b = (if off < 4 then drop_bit (24 - off * 8) a else drop_bit (40 - off * 8) v);
        s \<leftarrow> poke fuel W8 address b s;
        super_code fuel c (j + 1) limit (address + 1) i s }))"
  by pat_completeness auto
termination by (relation "measure (\<lambda>(fuel, c, j, limit, a, i, s). limit - j)") auto

definition skip_if :: "bool \<Rightarrow> nat \<Rightarrow> gs \<Rightarrow> (nat \<times> gs) option" where
  "skip_if b i s = Some (if b then i + 1 else i, s)"

text \<open>One code; the result is the index of the last code it used.\<close>

definition cheat_code :: "nat \<Rightarrow> cheat \<Rightarrow> u16 \<Rightarrow> nat \<Rightarrow> u32 \<Rightarrow> u16 \<Rightarrow> gs \<Rightarrow> (nat \<times> gs) option" where
  "cheat_code fuel c pad i code value s =
     (let address = code AND 0xFFFFFFF; opcode = drop_bit 28 code; v = ucast value :: u32;
          update = (\<lambda>w a f. do { (x, s) \<leftarrow> read_memory w a s; s \<leftarrow> poke fuel w a (f x) s; Some (i, s) });
          test = (\<lambda>p. do { (x, s) \<leftarrow> peek address s; skip_if (p x) i s }) in
      if opcode = 2 then update W16 address (\<lambda>x. x OR v)
      else if opcode = 3 then map_option (Pair i) (poke fuel W8 address v s)
      else if opcode = 4 then
        (if i + 1 < cheat_count c then do {
           (a, d) \<leftarrow> arr_get (cheat_codes c) (i + 1);
           s \<leftarrow> slide_code fuel (unat (ucast a :: u16)) address value (ucast (ucast d :: u16)) (ucast (drop_bit 16 a)) s;
           Some (i + 1, s) }
         else Some (i, s))
      else if opcode = 5 then super_code fuel c 0 (unat value * 2) address i s
      else if opcode = 6 then update W16 address (\<lambda>x. x AND v)
      else if opcode = 7 then test (\<lambda>x. x \<noteq> v)
      else if opcode = 8 then map_option (Pair i) (poke fuel W16 address v s)
      else if opcode = 10 then test (\<lambda>x. x = v)
      else if opcode = 11 then test (\<lambda>x. x \<le> v)
      else if opcode = 12 then test (\<lambda>x. v \<le> x)
      else if opcode = 13 then
        (let k = drop_bit 4 address AND 0xF in
         skip_if ((k = 0 \<and> NOT pad AND 0x3FF = value) \<or> (k = 1 \<and> pad AND value = value) \<or> (k = 2 \<and> pad AND value = 0)) i s)
      else if opcode = 14 then
        (if address AND 1 \<noteq> 0 then update W32 (address AND NOT 1) (\<lambda>x. x + scast value)
         else update W16 address (\<lambda>x. x + v))
      else if opcode = 15 then test (\<lambda>x. x AND v = 0)
      else Some (i, s))"

declare super_code.simps [simp del]

lemma super_code_index: "super_code fuel c j limit address i s = Some (k, t) \<Longrightarrow> i \<le> k"
proof (induction "limit - j" arbitrary: j address i s rule: less_induct)
  case less
  have step: "super_code fuel c (Suc j) limit a i' s' = Some (k, t) \<Longrightarrow> j < limit \<Longrightarrow> i' \<le> k" for a i' s'
    by (rule less.hyps [of "Suc j"]) auto
  show ?case
    using less.prems by (subst (asm) super_code.simps)
      (auto simp: Let_def split: if_splits Option.bind_splits prod.splits dest!: step)
qed

lemma cheat_code_index: "cheat_code fuel c pad i code value s = Some (k, t) \<Longrightarrow> i \<le> k"
  by (auto simp: cheat_code_def Let_def skip_if_def split: if_splits Option.bind_splits dest: super_code_index)

function run_codes :: "nat \<Rightarrow> cheat \<Rightarrow> u16 \<Rightarrow> nat \<Rightarrow> gs \<Rightarrow> gs option" where
  "run_codes fuel c pad i s =
     (if cheat_count c \<le> i then Some s
      else case arr_get (cheat_codes c) i of None \<Rightarrow> None
      | Some (a, v) \<Rightarrow>
        (case cheat_code fuel c pad i a (ucast v) s of None \<Rightarrow> None
         | Some (k, s) \<Rightarrow> run_codes fuel c pad (k + 1) s))"
  by pat_completeness auto
termination
  by (relation "measure (\<lambda>(fuel, c, pad, i, s). cheat_count c - i)") (auto dest: cheat_code_index)

declare run_codes.simps [simp del]

fun run_cheats :: "nat \<Rightarrow> nat list \<Rightarrow> gs \<Rightarrow> gs option" where
  "run_cheats fuel [] s = Some s"
| "run_cheats fuel (i # is) s = do {
     c \<leftarrow> arr_get (cheats (g_cheats (mem s))) i;
     s \<leftarrow> (if cheat_active c then run_codes fuel c (0x3FF XOR ior s REG_P1) 0 s else Some s);
     run_cheats fuel is s }"

definition process_cheats :: "nat \<Rightarrow> gs \<Rightarrow> gs option" where
  "process_cheats fuel s = run_cheats fuel [0..<Suc (max_cheat (g_cheats (mem s)))] s"

definition cheat_hook_gba :: "nat \<Rightarrow> gs \<Rightarrow> gs option" where
  "cheat_hook_gba fuel s =
     (if reg s REG_PC = cheat_master_hook (g_cheats (mem s)) then process_cheats fuel s else Some s)"

definition wide_cycles :: "(u8 \<times> u8) list \<Rightarrow> (u32 \<times> u32) list" where
  "wide_cycles = map (map_prod ucast ucast)"

definition gba_bus :: "nat \<Rightarrow> gba bus" where
  "gba_bus fuel =
     \<lparr>load = gba_load, store = gba_store fuel, nseq_cycles = (\<lambda>m. wide_cycles (g_ws_nseq m)),
      seq_cycles = (\<lambda>m. wide_cycles (g_ws_seq m)), irq_pending = irq_pending_gba, fetch = gba_fetch,
      cheat_hook = cheat_hook_gba fuel, idle_loop_target = g_idle_loop_target\<rparr>"

section \<open>Timers\<close>

text \<open>A timer overflow plays a sample and refills the queue by DMA; the cycles of the transfers are returned.\<close>

definition refill_queue :: "nat \<Rightarrow> nat \<Rightarrow> nat \<Rightarrow> gs \<Rightarrow> (u32 \<times> gs) option" where
  "refill_queue fuel n chn s = do {
     d \<leftarrow> get_dma n s;
     if direct_sound_chan d = of_nat chn
     then map_option (\<lambda>(_, c, s). (c, s)) (dma_transfer fuel n s)
     else Some (0, s) }"

definition sound_timer :: "nat \<Rightarrow> u32 \<Rightarrow> nat \<Rightarrow> gs \<Rightarrow> (u32 \<times> gs) option" where
  "sound_timer fuel step chn s = do {
     (low, x) \<leftarrow> sound_timer_sample step chn (g_sound (mem s));
     let s = with_sound (\<lambda>_. x) s;
     if low then do {
       (c1, s) \<leftarrow> refill_queue fuel 1 chn s;
       (c2, s) \<leftarrow> refill_queue fuel 2 chn s;
       Some (c1 + c2, s) }
     else Some (0, s) }"

definition timer_sound :: "nat \<Rightarrow> nat \<Rightarrow> timer_type \<Rightarrow> gs \<Rightarrow> (u32 \<times> gs) option" where
  "timer_sound fuel n t s =
     (if n < 2 then do {
        (c0, s) \<leftarrow> (if tm_direct_sound_channels t AND 1 \<noteq> 0 then sound_timer fuel (tm_frequency_step t) 0 s else Some (0, s));
        t \<leftarrow> get_timer n s;
        (c1, s) \<leftarrow> (if tm_direct_sound_channels t AND 2 \<noteq> 0 then sound_timer fuel (tm_frequency_step t) 1 s else Some (0, s));
        Some (c0 + c1, s) }
      else Some (0, s))"

definition cascade :: "nat \<Rightarrow> gs \<Rightarrow> gs option" where
  "cascade n s =
     (if n = 3 then Some s
      else do {
        t \<leftarrow> get_timer (n + 1) s;
        Some (if tm_status t = TIMER_CASCADE
              then (let t = t\<lparr>tm_count := tm_count t - 1\<rparr>
                    in iow (REG_TM0D + 2 * (n + 1)) (ucast (- tm_count t)) (put_timer (n + 1) t s))
              else s) })"

text \<open>Timer \<open>n\<close> after \<open>completed\<close> cycles: its interrupt, the cycles of its transfers, the state.\<close>

definition update_timer :: "nat \<Rightarrow> u32 \<Rightarrow> nat \<Rightarrow> gs \<Rightarrow> (u16 \<times> u32 \<times> gs) option" where
  "update_timer fuel completed n s = do {
     t \<leftarrow> get_timer n s;
     if tm_status t = TIMER_INACTIVE then Some (0, 0, s)
     else do {
       let t = (if tm_status t \<noteq> TIMER_CASCADE then t\<lparr>tm_count := tm_count t - completed\<rparr> else t);
       let s = put_timer n t s;
       let s = (if tm_status t \<noteq> TIMER_CASCADE
                then iow (REG_TM0D + 2 * n) (ucast (- signed_drop_bit (unat (tm_prescale t)) (tm_count t))) s else s);
       if 0 <s tm_count t then Some (0, 0, s)
       else do {
         let irq = (if tm_irq t \<noteq> 0 then push_bit n 0x0008 else 0);
         s \<leftarrow> cascade n s;
         (c, s) \<leftarrow> timer_sound fuel n t s;
         t \<leftarrow> get_timer n s;
         Some (irq, c, put_timer n (t\<lparr>tm_count := tm_count t + push_bit (unat (tm_prescale t)) (tm_reload t)\<rparr>) s) } } }"

definition update_timers :: "nat \<Rightarrow> u32 \<Rightarrow> gs \<Rightarrow> (u16 \<times> u32 \<times> gs) option" where
  "update_timers fuel completed s = do {
     (i0, c0, s) \<leftarrow> update_timer fuel completed 0 s;
     (i1, c1, s) \<leftarrow> update_timer fuel completed 1 s;
     (i2, c2, s) \<leftarrow> update_timer fuel completed 2 s;
     (i3, c3, s) \<leftarrow> update_timer fuel completed 3 s;
     Some (i0 OR i1 OR i2 OR i3, c0 + c1 + c2 + c3, s) }"

section \<open>Video events\<close>

text \<open>
  The transfers waiting for a blanking period. \<open>channels\<close> are the channels left to look at,
  \<open>start\<close> the start type; the cycles are added to those already used.
\<close>

fun blank_dmas :: "nat \<Rightarrow> u32 \<Rightarrow> nat list \<Rightarrow> u32 \<Rightarrow> gs \<Rightarrow> (u32 \<times> gs) option" where
  "blank_dmas fuel start [] c s = Some (c, s)"
| "blank_dmas fuel start (i # is) c s = do {
     d \<leftarrow> get_dma i s;
     if start_type d = start then do {
       (_, used, s) \<leftarrow> dma_transfer fuel i s;
       blank_dmas fuel start is (c + used) s }
     else blank_dmas fuel start is c s }"

definition video_reload_counters :: "gs \<Rightarrow> gs" where
  "video_reload_counters s =
     upd (\<lambda>m. m\<lparr>g_affine_x := (signext28 (ior32 s REG_BG2X_L), signext28 (ior32 s REG_BG3X_L)),
                g_affine_y := (signext28 (ior32 s REG_BG2Y_L), signext28 (ior32 s REG_BG3Y_L))\<rparr>) s"

definition add_video :: "u32 \<Rightarrow> gs \<Rightarrow> gs" where
  "add_video d = upd (\<lambda>m. m\<lparr>g_video_count := g_video_count m + d\<rparr>)"

text \<open>An event gives the interrupts it raises, the DMA cycles used, whether a frame is complete.\<close>

definition enter_hblank :: "nat \<Rightarrow> u32 \<Rightarrow> u16 \<Rightarrow> gs \<Rightarrow> (u16 \<times> u16 \<times> u32 \<times> gs) option" where
  "enter_hblank fuel c dispstat s = do {
     let dispstat = dispstat OR 0x02;
     let s = add_video 272 s;
     (c, s) \<leftarrow> (if dispstat AND 0x01 = 0
       then do { s \<leftarrow> update_scanline s; blank_dmas fuel DMA_START_HBLANK [0..<4] c s }
       else Some (c, s));
     Some (if dispstat AND 0x10 \<noteq> 0 then 0x0002 else 0, dispstat, c, s) }"

definition complete_frame :: "nat \<Rightarrow> gs \<Rightarrow> gs option" where
  "complete_frame fuel s = do {
     s \<leftarrow> (if cheat_master_hook (g_cheats (mem s)) = 0xFFFFFFFF then process_cheats fuel s else Some s);
     s \<leftarrow> render_sound s;
     Some (upd (\<lambda>m. m\<lparr>g_frame_counter := g_frame_counter m + 1\<rparr>) s) }"

definition next_line :: "nat \<Rightarrow> u32 \<Rightarrow> u16 \<Rightarrow> u32 \<Rightarrow> gs \<Rightarrow> (u16 \<times> u16 \<times> u32 \<times> u32 \<times> bool \<times> gs) option" where
  "next_line fuel c dispstat vcount s = do {
     let s = add_video 960 s;
     let dispstat = dispstat AND NOT 0x02;
     let vcount = vcount + 1;
     if vcount = 160 then do {
       let dispstat = dispstat OR 0x01;
       (c, s) \<leftarrow> blank_dmas fuel DMA_START_VBLANK [0..<4] c (video_reload_counters s);
       Some (if dispstat AND 0x8 \<noteq> 0 then 0x0001 else 0, dispstat, vcount, c, False, s) }
     else if vcount = 228 then do {
       s \<leftarrow> complete_frame fuel s;
       Some (0, dispstat AND NOT 0x01, 0, c, True, s) }
     else Some (0, dispstat, vcount, c, False, s) }"

definition match_line :: "u16 \<Rightarrow> u32 \<Rightarrow> u16 \<times> u16" where
  "match_line dispstat vcount =
     (if vcount = ucast (drop_bit 8 dispstat)
      then (let d = dispstat OR 0x04 in (if d AND 0x20 \<noteq> 0 then 0x0004 else 0, d))
      else (0, dispstat AND NOT 0x04))"

definition video_event :: "nat \<Rightarrow> u32 \<Rightarrow> gs \<Rightarrow> (u16 \<times> u32 \<times> bool \<times> gs) option" where
  "video_event fuel c s =
     (let vcount = ucast (ior s REG_VCOUNT); dispstat = ior s REG_DISPSTAT in
      if dispstat AND 0x02 = 0 then do {
        (irq, dispstat, c, s) \<leftarrow> enter_hblank fuel c dispstat s;
        Some (irq, c, False, iow REG_DISPSTAT dispstat s) }
      else do {
        (irq, dispstat, vcount, c, frame, s) \<leftarrow> next_line fuel c dispstat vcount s;
        let (irq', dispstat) = match_line dispstat vcount;
        Some (irq OR irq', c, frame, iow REG_DISPSTAT dispstat (iow REG_VCOUNT (ucast vcount) s)) })"

section \<open>Events between runs of the processor\<close>

definition update_serial_port :: "(u16 \<times> u8 list) list \<Rightarrow> u32 \<Rightarrow> gs \<Rightarrow> (bool \<times> gs) option" where
  "update_serial_port polled completed s = do {
     (irq, sr) \<leftarrow> update_serial (g_session (mem s)) (g_cpu_ticks (mem s)) polled completed (g_serial (mem s));
     Some (irq, upd (\<lambda>m. m\<lparr>g_serial := sr\<rparr>) s) }"

text \<open>While a DMA holds the processor, its cycles run down.\<close>

definition dma_sleep :: "u32 \<Rightarrow> gs \<Rightarrow> gs" where
  "dma_sleep completed s =
     (if reg s CPU_HALT_STATE = CPU_DMA
      then (let z = reg s REG_SLEEP_CYCLES;
                z = (if z AND 0x80000000 \<noteq> 0 then z AND 0x7FFFFFFF else z - min z completed);
                s = set_reg REG_SLEEP_CYCLES z s
            in if z = 0 then set_reg CPU_HALT_STATE CPU_ACTIVE s
               else upd (\<lambda>m. m\<lparr>g_execute_cycles := min (g_execute_cycles m) z\<rparr>) s)
      else s)"

definition timer_event :: "timer_type \<Rightarrow> u32 \<Rightarrow> u32" where
  "timer_event t c = (if tm_status t = TIMER_PRESCALE \<and> tm_count t < c then tm_count t else c)"

text \<open>The cycles to the next event. The comparison with a timer is unsigned.\<close>

definition plan_cycles :: "u32 \<Rightarrow> gs \<Rightarrow> gs" where
  "plan_cycles completed s =
     (let c = (if 0 <s g_video_count (mem s) then g_video_count (mem s) else 0);
          c = min c (serial_next_event (g_serial (mem s)));
          s = dma_sleep completed (upd (\<lambda>m. m\<lparr>g_execute_cycles := c\<rparr>) s)
      in upd (\<lambda>m. m\<lparr>g_execute_cycles := fold timer_event (g_timers m) (g_execute_cycles m)\<rparr>) s)"

text \<open>
  One round of \<^verbatim>\<open>update_gba\<close>: the processor ran \<open>completed\<close> cycles. \<open>polled\<close> are the network
  packets that arrive in this round.
\<close>

definition update_round ::
    "nat \<Rightarrow> (u16 \<times> u8 list) list \<Rightarrow> u32 \<Rightarrow> gs \<Rightarrow> (u32 \<times> bool \<times> bool \<times> gs) option" where
  "update_round fuel polled remaining s = do {
     let completed = g_execute_cycles (mem s) - remaining;
     let s = upd (\<lambda>m. m\<lparr>g_cpu_ticks := g_cpu_ticks m + completed\<rparr>) s;
     (irq, c, s) \<leftarrow> update_timers fuel completed s;
     (ser, s) \<leftarrow> update_serial_port polled completed s;
     let irq = (if ser then irq OR 0x0080 else irq);
     let s = add_video (- completed) s;
     (irq', c, frame, s) \<leftarrow> (if 0 <s g_video_count (mem s) then Some (0, c, False, s) else video_event fuel c s);
     let irq = irq OR irq';
     let s = (if irq \<noteq> 0 then snd (flag_interrupt irq s) else s);
     (raised, s) \<leftarrow> check_and_raise_interrupts (gba_bus fuel) s;
     Some (c, frame, raised, plan_cycles completed s) }"

text \<open>The rounds until the processor is active or the frame ends; \<open>polls\<close> are the packets of each round.\<close>

partial_function (option) update_loop ::
    "nat \<Rightarrow> (nat \<Rightarrow> (u16 \<times> u8 list) list) \<Rightarrow> nat \<Rightarrow> u32 \<Rightarrow> bool \<Rightarrow> gs \<Rightarrow> (u32 \<times> bool \<times> bool \<times> gs) option" where
  "update_loop fuel polls k remaining changed s = do {
     (c, frame, raised, s) \<leftarrow> update_round fuel (polls k) remaining s;
     if reg s CPU_HALT_STATE \<noteq> CPU_ACTIVE \<and> \<not> frame
     then update_loop fuel polls (Suc k) 0 (changed \<or> raised) s
     else Some (c, frame, changed \<or> raised, s) }"

definition signed_min :: "u32 \<Rightarrow> u32 \<Rightarrow> u32" where "signed_min a b = (if a <s b then a else b)"
definition signed_max :: "u32 \<Rightarrow> u32 \<Rightarrow> u32" where "signed_max a b = (if b <s a then a else b)"

text \<open>
  The result: the cycles to run in the low bits, bit 30 for an interrupt, bit 31 for a
  frame. \<^verbatim>\<open>MIN(execute_cycles, dma_cycles)\<close> compares unsigned.
\<close>

definition update_gba ::
    "nat \<Rightarrow> (nat \<Rightarrow> (u16 \<times> u8 list) list) \<Rightarrow> u32 \<Rightarrow> gs \<Rightarrow> (u32 \<times> gs) option" where
  "update_gba fuel polls remaining s = do {
     (c, frame, raised, s) \<leftarrow> update_loop fuel polls 0 (signed_max remaining (- 64)) False s;
     let e = g_execute_cycles (mem s);
     let c = min e (signed_min 64 c);
     Some ((e - c) OR (if raised then 0x40000000 else 0) OR (if frame then 0x80000000 else 0), s) }"

section \<open>Keys\<close>

text \<open>\<open>pressed\<close> tells the state of the buttons of the frontend, by their libretro number.\<close>

definition btn_map :: "(nat \<times> u32) list" where
  "btn_map = [(10, 0x200), (11, 0x100), (5, 0x80), (4, 0x40), (6, 0x20), (7, 0x10), (3, 0x08), (2, 0x04),
     (0, 0x02), (8, 0x01)]"

definition pressed_keys :: "(nat \<Rightarrow> bool) \<Rightarrow> u32" where
  "pressed_keys pressed = fold (\<lambda>(pad, k) acc. acc OR (if pressed pad then k else 0)) btn_map 0"

text \<open>A turbo button: whether it is down in this frame, and its counter.\<close>

definition turbo :: "u32 \<Rightarrow> u32 \<Rightarrow> bool \<Rightarrow> u32 \<Rightarrow> bool \<times> u32" where
  "turbo period pulse down n =
     (if down then (n < pulse, if period \<le> n + 1 then 0 else n + 1) else (False, 0))"

definition trigger_key :: "nat \<Rightarrow> u32 \<Rightarrow> gs \<Rightarrow> gs option" where
  "trigger_key fuel key s =
     (let cnt = ucast (ior s REG_P1CNT) :: u32; hit = cnt AND key AND 0x3FF in
      if drop_bit 14 cnt AND 0x01 \<noteq> 0 \<and> (if drop_bit 15 cnt \<noteq> 0 then hit = cnt AND 0x3FF else hit \<noteq> 0)
      then map_option snd (check_and_raise_interrupts (gba_bus fuel) (snd (flag_interrupt 0x1000 s)))
      else Some s)"

text \<open>The keypad the Game Boy Player shows a game at its start.\<close>

definition gbp_keypad :: "gs \<Rightarrow> u32 \<Rightarrow> input_state \<Rightarrow> u32 \<times> input_state" where
  "gbp_keypad s key i =
     (let i = (if g_frame_counter (mem s) = 0 then i\<lparr>gbp_keypad_frames := 0, gbp_keypad_sent := False\<rparr> else i) in
      if serial_mode (g_session (mem s)) = SERIAL_MODE_GBP
      then (let i = (if \<not> gbp_keypad_sent i \<and> 0x08000000 \<le> reg s REG_PC \<and> reg s REG_PC < 0x0E000000
                     then i\<lparr>gbp_keypad_frames := 96, gbp_keypad_sent := True\<rparr> else i)
            in if 0 < gbp_keypad_frames i
               then (if gbp_keypad_frames i AND 1 \<noteq> 0 then 0x3FF else 0x30F,
                     i\<lparr>gbp_keypad_frames := gbp_keypad_frames i - 1\<rparr>)
               else (key, i))
      else (key, i\<lparr>gbp_keypad_frames := 0, gbp_keypad_sent := False\<rparr>))"

text \<open>Without the fast forward button, which only tells the frontend.\<close>

definition update_input :: "nat \<Rightarrow> u32 \<Rightarrow> u32 \<Rightarrow> (nat \<Rightarrow> bool) \<Rightarrow> gs \<Rightarrow> gs option" where
  "update_input fuel period pulse pressed s = do {
     let i = g_input (mem s);
     let (a, na) = turbo period pulse (pressed 9) (turbo_a_counter i);
     let (b, nb) = turbo period pulse (pressed 1) (turbo_b_counter i);
     let key = pressed_keys pressed OR (if a then 0x01 else 0) OR (if b then 0x02 else 0);
     let (key, i) = gbp_keypad s key (i\<lparr>turbo_a_counter := na, turbo_b_counter := nb\<rparr>);
     s \<leftarrow> (if key OR old_key i \<noteq> old_key i then trigger_key fuel key s else Some s);
     Some (iow REG_P1 (ucast (NOT key AND 0x3FF)) (upd (\<lambda>m. m\<lparr>g_input := i\<lparr>old_key := key\<rparr>\<rparr>) s)) }"

section \<open>Reset\<close>

definition idle_dma :: dma_transfer where
  "idle_dma = \<lparr>source_address = 0, dest_address = 0, dma_length = 0, repeat_type = 0, direct_sound_chan = 2,
     source_direction = 0, dest_direction = 0, length_type = 0, start_type = DMA_INACTIVE, dma_irq = 0\<rparr>"

definition reset_ioregs :: ioregs where
  "reset_ioregs = (\<lambda>_. 0)(REG_DISPCNT := 0x80, REG_P1 := 0x3FF, REG_BG2PA := 0x100, REG_BG2PD := 0x100,
     REG_BG3PA := 0x100, REG_BG3PD := 0x100, REG_RCNT := 0x8000)"

text \<open>The map entries of the RAM are the cases of \<open>memory_map_read\<close>.\<close>

definition init_memory :: "backup_kind \<Rightarrow> gs \<Rightarrow> gs" where
  "init_memory kind s =
     set_reg REG_BUS_VALUE 0xE129F000 (reload_timing_info (upd (\<lambda>m. m\<lparr>
       g_dma := replicate 4 idle_dma, g_dma_bus := 0,
       g_serial := (g_serial m)\<lparr>sr_regs := reset_ioregs,
         sr_rumble := (sr_rumble (g_serial m))\<lparr>rumble_enable_tick := 0, rumble_ticks := 0\<rparr>\<rparr>,
       g_oam := (\<lambda>_. 0), g_palette := (\<lambda>_. 0), g_iwram := (\<lambda>_. 0), g_ewram := (\<lambda>_. 0), g_vram := (\<lambda>_. 0),
       g_backup := backup_reset kind (g_backup m),
       g_gpio := (g_gpio m)\<lparr>rtc_state := RTC_DISABLED, gpio_data := 0, gpio_dir := 0, gpio_ctl := 0\<rparr>\<rparr>) s))"

definition reset_timer :: "u32 \<Rightarrow> timer_type" where
  "reset_timer channels = \<lparr>tm_count = 0x10000, tm_reload = 0x10000, tm_prescale = 0, tm_frequency_step = 0,
     tm_direct_sound_channels = channels, tm_irq = 0, tm_status = TIMER_INACTIVE\<rparr>"

definition init_main :: "gs \<Rightarrow> gs" where
  "init_main = upd (\<lambda>m. m\<lparr>g_timers := [reset_timer 3, reset_timer 0, reset_timer 0, reset_timer 0],
     g_frame_counter := 0, g_cpu_ticks := 0, g_execute_cycles := 960, g_video_count := 960\<rparr>)"

definition reset_gba :: "bool \<Rightarrow> backup_kind \<Rightarrow> gs \<Rightarrow> gs" where
  "reset_gba boot_game kind s =
     (let s = upd (\<lambda>m. let (g, r) = gbp_reset (g_cpu_ticks m) (sr_gbp (g_serial m)) (sr_rumble (g_serial m))
                       in m\<lparr>g_serial := (g_serial m)\<lparr>sr_gbp := g, sr_rumble := r\<rparr>\<rparr>) s;
          s = init_main (init_memory kind s)
      in with_sound (\<lambda>_. Sound.reset_sound) (init_cpu boot_game (mem s)))"

section \<open>A frame\<close>

text \<open>
  The loop of \<^verbatim>\<open>execute_arm\<close>: while the processor sleeps only events happen; then it runs until
  events are due. \<open>k\<close> counts the calls of \<^verbatim>\<open>update_gba\<close>.
\<close>

definition wake_step ::
    "nat \<Rightarrow> (nat \<Rightarrow> nat \<Rightarrow> (u16 \<times> u8 list) list) \<Rightarrow> nat \<Rightarrow> gs \<Rightarrow> (bool \<times> gs) option" where
  "wake_step fuel polls k s = do {
     (ret, s) \<leftarrow> update_gba fuel (polls k) (cycles s) s;
     if ret AND 0x80000000 \<noteq> 0 then Some (True, s)
     else Some (False, s\<lparr>cycles := ret AND 0x7FFF\<rparr>) }"

partial_function (option) frame_loop ::
    "nat \<Rightarrow> (nat \<Rightarrow> nat \<Rightarrow> (u16 \<times> u8 list) list) \<Rightarrow> nat \<Rightarrow> gs \<Rightarrow> gs option" where
  "frame_loop fuel polls k s = do {
     (stop, s) \<leftarrow> (if reg s CPU_HALT_STATE \<noteq> CPU_ACTIVE then wake_step fuel polls k s else Some (False, s));
     if stop then Some s
     else do {
       (l, s) \<leftarrow> execute_until_update (gba_bus fuel) s;
       if l = Alert then frame_loop fuel polls (k + 1) s
       else do {
         (stop, s) \<leftarrow> wake_step fuel polls (k + 1) s;
         if stop then Some s else frame_loop fuel polls (k + 2) s } } }"

text \<open>A frame of the frontend with the interpreter: keys, rumble, sticky pages, the run, the link adapters.\<close>

definition execute_arm :: "nat \<Rightarrow> (nat \<Rightarrow> nat \<Rightarrow> (u16 \<times> u8 list) list) \<Rightarrow> gs \<Rightarrow> gs option" where
  "execute_arm fuel polls s =
     frame_loop fuel polls 0
       (upd (\<lambda>m. m\<lparr>g_pc_block := None\<rparr>) s\<lparr>cycles := g_execute_cycles (mem s)\<rparr>)"

definition device_frame_update :: "gs \<Rightarrow> gs option" where
  "device_frame_update s =
     (let mode = serial_mode (g_session (mem s)); sr = g_serial (mem s) in
      if mode = SERIAL_MODE_RFU
      then Some (upd (\<lambda>m. m\<lparr>g_serial := sr\<lparr>sr_rfu := rfu_frame_update (sr_rfu sr)\<rparr>\<rparr>) s)
      else if mode = SERIAL_MODE_SERIAL_POKE
      then Some (upd (\<lambda>m. m\<lparr>g_serial := sr\<lparr>sr_poke := serialpoke_frame_update (unat (netplay_client_id (g_session (mem s)))) (sr_poke sr)\<rparr>\<rparr>) s)
      else Some s)"

definition run_frame ::
    "nat \<Rightarrow> (nat \<Rightarrow> nat \<Rightarrow> (u16 \<times> u8 list) list) \<Rightarrow> u32 \<Rightarrow> u32 \<Rightarrow> (nat \<Rightarrow> bool) \<Rightarrow> gs \<Rightarrow> gs option" where
  "run_frame fuel polls period pulse pressed s = do {
     s \<leftarrow> update_input fuel period pulse pressed s;
     let s = upd (\<lambda>m. m\<lparr>g_serial := (g_serial m)\<lparr>sr_rumble := rumble_frame_reset (g_cpu_ticks m) (sr_rumble (g_serial m))\<rparr>\<rparr>) s;
     s \<leftarrow> execute_arm fuel polls (upd (\<lambda>m. m\<lparr>g_pak := clear_gamepak_stickybits (g_pak m)\<rparr>) s);
     device_frame_update s }"

end
