(* ===== verification/CpuMode.thy ===== *)
theory CpuMode
  imports ThumbExec
begin

text \<open>
  Processor modes: the mode kept in \<^verbatim>\<open>reg[CPU_MODE]\<close> always is the one of the mode bits of the
  status register, and user code gains privileges only by entering an exception vector. The
  memory behind the processor is an interface (locale \<open>cpu_bus\<close>): its operations leave the
  registers of the processor alone.
\<close>

section \<open>What the memory leaves alone\<close>

definition cpu_view :: "'m cpu \<Rightarrow> u32 list \<times> u32 list list \<times> u32 list \<times> bool list" where
  "cpu_view s = (map (reg s) [0..<18], banks s, spsr_regs s, [n_flag s, z_flag s, c_flag s, v_flag s])"

lemma cpu_view_simps [simp]:
  "cpu_view (s\<lparr>mem := m\<rparr>) = cpu_view s" "cpu_view (s\<lparr>cycles := n\<rparr>) = cpu_view s"
  "cpu_view (s\<lparr>cpu_alert := a\<rparr>) = cpu_view s"
  by (simp_all add: cpu_view_def)

lemma cpu_view_set_reg [simp]: "17 < r \<Longrightarrow> cpu_view (set_reg r v s) = cpu_view s"
  by (auto simp: cpu_view_def set_reg_def)

lemma cpu_viewD: "cpu_view t = cpu_view s \<Longrightarrow> r < 18 \<Longrightarrow> reg t r = reg s r"
  using map_eq_conv [of "reg t" "[0..<18]" "reg s"] by (auto simp del: map_eq_conv upt_rec_numeral simp: cpu_view_def)

section \<open>The invariant\<close>

text \<open>
  The mode bits, the current mode and the sizes of the banks. \<open>cpu_ok\<close>: the three agree.
\<close>

definition banks_wf :: "'m cpu \<Rightarrow> bool" where
  "banks_wf s \<longleftrightarrow> length (banks s) = 7 \<and> list_all (\<lambda>b. length b = 7) (banks s) \<and> length (spsr_regs s) = 6"

definition mode_view :: "'m cpu \<Rightarrow> u32 \<times> u32 \<times> bool" where
  "mode_view s = (reg s CPU_MODE, reg s REG_CPSR AND 0xF, banks_wf s)"

definition cpu_ok :: "'m cpu \<Rightarrow> bool" where
  "cpu_ok s \<longleftrightarrow> reg s CPU_MODE = cpu_modes (reg s REG_CPSR) \<and> banks_wf s"

text \<open>The states in which an exception handler starts.\<close>

definition at_vector :: "'m cpu \<Rightarrow> bool" where
  "at_vector s \<longleftrightarrow> (reg s CPU_MODE = MODE_SUPERVISOR \<and> reg s REG_PC = 0x8)
     \<or> (reg s CPU_MODE = MODE_IRQ \<and> reg s REG_PC = 0x18)"

definition mode_step :: "'m cpu \<Rightarrow> 'm cpu \<Rightarrow> bool" where
  "mode_step s t \<longleftrightarrow>
     (cpu_ok s \<longrightarrow> cpu_ok t \<and> (reg s CPU_MODE = MODE_USER \<longrightarrow> reg t CPU_MODE = MODE_USER \<or> at_vector t))"

lemma mode_view_simps [simp]:
  "mode_view (s\<lparr>mem := m\<rparr>) = mode_view s" "mode_view (s\<lparr>cycles := n\<rparr>) = mode_view s"
  "mode_view (s\<lparr>cpu_alert := a\<rparr>) = mode_view s" "mode_view (s\<lparr>n_flag := b\<rparr>) = mode_view s"
  "mode_view (s\<lparr>z_flag := b\<rparr>) = mode_view s" "mode_view (s\<lparr>c_flag := b\<rparr>) = mode_view s"
  "mode_view (s\<lparr>v_flag := b\<rparr>) = mode_view s"
  by (simp_all add: mode_view_def banks_wf_def)

lemma mode_view_set_reg [simp]: "r \<noteq> REG_CPSR \<Longrightarrow> r \<noteq> CPU_MODE \<Longrightarrow> mode_view (set_reg r v s) = mode_view s"
  by (simp add: mode_view_def banks_wf_def set_reg_def)

lemma set_reg_at: "reg (set_reg r v s) q = (if q = r then v else reg s q)"
  by (simp add: set_reg_def)

lemma pc_offset_at: "q \<noteq> REG_PC \<Longrightarrow> reg (pc_offset d s) q = reg s q"
  by (simp add: pc_offset_def set_reg_def)

lemma mode_view_pc [simp]: "mode_view (pc_offset d s) = mode_view s"
  by (simp add: pc_offset_def)

lemma mode_view_cpsr [simp]:
  "w AND 0xF = reg s REG_CPSR AND 0xF \<Longrightarrow> mode_view (set_reg REG_CPSR w s) = mode_view s"
  by (simp add: mode_view_def banks_wf_def set_reg_def)

lemma field_below [simp]: "field w k 0xF < 16" "field w k 0x7 < 8"
proof -
  have "drop_bit k w AND 0xF \<le> 0xF" "drop_bit k w AND 0x7 \<le> 0x7" by (simp_all add: word_and_le1)
  then show "field w k 0xF < 16" "field w k 0x7 < 8" by (simp_all add: field_def word_le_nat_alt)
qed

lemma field_not_mode [simp]:
  "field w k 0xF \<noteq> 16" "field w k 0xF \<noteq> 17" "field w k 0x7 \<noteq> 16" "field w k 0x7 \<noteq> 17"
  using field_below [of w k] by linarith+

lemma cpu_modes_and: "cpu_modes (w AND 0xF) = cpu_modes w"
  by (simp add: cpu_modes_def)

lemma cpu_ok_view: "mode_view t = mode_view s \<Longrightarrow> cpu_ok s \<Longrightarrow> cpu_ok t"
  using cpu_modes_and [of "reg s REG_CPSR"] cpu_modes_and [of "reg t REG_CPSR"]
  by (auto simp: cpu_ok_def mode_view_def)

lemma mode_step_view: "mode_view t = mode_view s \<Longrightarrow> mode_step s t"
  by (auto simp: mode_step_def mode_view_def intro: cpu_ok_view [unfolded mode_view_def])

lemma mode_step_before: "mode_view t = mode_view s \<Longrightarrow> mode_step t u \<Longrightarrow> mode_step s u"
  using cpu_ok_view [of t s] by (auto simp: mode_step_def mode_view_def)

lemma mode_step_after: "mode_step s t \<Longrightarrow> mode_view u = mode_view t \<Longrightarrow> reg u REG_PC = reg t REG_PC \<Longrightarrow> mode_step s u"
  using cpu_ok_view [of u t] by (auto simp: mode_step_def mode_view_def at_vector_def)

lemma view_mode_view: "cpu_view t = cpu_view s \<Longrightarrow> mode_view t = mode_view s"
  by (auto simp: mode_view_def banks_wf_def dest: cpu_viewD) (auto simp: cpu_view_def)

section \<open>Flags, modes, exceptions\<close>

lemma mode_view_flags [simp]:
  "mode_view (extract_flags s) = mode_view s" "mode_view (flags_logic d s) = mode_view s"
  "mode_view (flags_add d a b s) = mode_view s" "mode_view (flags_sub d a b c s) = mode_view s"
  by (simp_all add: extract_flags_def Let_def flags_logic_def flags_add_def flags_sub_def)

lemma flag_word_low: "flag_word n z c v AND 0xF = 0"
  by (cases n; cases z; cases c; cases v; simp add: flag_word_def)

lemma mode_view_collapse [simp]: "mode_view (collapse_flags s) = mode_view s"
proof -
  have "(flag_word n z c v OR w AND 0xFF) AND 0xF = w AND 0xF" for n z c v and w :: u32
    using flag_word_low [of n z c v] by (simp add: word_ao_dist word_bw_assocs)
  then show ?thesis by (simp add: collapse_flags_def)
qed

lemma banks_wf_set_reg [simp]: "banks_wf (set_reg r v s) = banks_wf s"
  by (simp add: banks_wf_def set_reg_def)

lemma put_bank_view:
  "put_bank m b s = Some t \<Longrightarrow> reg t = reg s \<and> (banks_wf s \<longrightarrow> length b = 7 \<longrightarrow> banks_wf t)"
  by (auto simp: put_bank_def banks_wf_def arr_set_eq_Some list_all_length nth_list_update split: Option.bind_splits)

lemma put_spsr_view: "put_spsr m v s = Some t \<Longrightarrow> reg t = reg s \<and> banks_wf t = banks_wf s"
  by (auto simp: put_spsr_def banks_wf_def arr_set_eq_Some split: Option.bind_splits)

lemma put_spsr_mode: "put_spsr m v s = Some t \<Longrightarrow> mode_view t = mode_view s"
  by (auto simp: mode_view_def dest!: put_spsr_view)

lemma bank_length: "get_bank m s = Some b \<Longrightarrow> banks_wf s \<Longrightarrow> length b = 7"
  by (auto simp: get_bank_def arr_get_eq_Some banks_wf_def list_all_length)

lemma retire_bank_view: "retire_bank k m s = Some t \<Longrightarrow> reg t = reg s \<and> (banks_wf s \<longrightarrow> banks_wf t)"
  by (auto simp: retire_bank_def split: Option.bind_splits if_splits dest!: put_bank_view dest: bank_length)

lemma load_bank_view:
  "load_bank k m s = Some t \<Longrightarrow> banks_wf t = banks_wf s \<and> (\<forall>r\<ge>15. reg t r = reg s r)"
  by (cases "k = MODE_FIQ") (auto simp: load_bank_def banks_wf_def split: Option.bind_splits)

text \<open>A mode switch keeps the sizes, the status register and the program counter and sets the mode.\<close>

lemma set_cpu_mode_view:
  "set_cpu_mode m s = Some t \<Longrightarrow> (banks_wf s \<longrightarrow> banks_wf t) \<and> reg t CPU_MODE = m
     \<and> reg t REG_CPSR = reg s REG_CPSR \<and> reg t REG_PC = reg s REG_PC"
  by (auto simp: set_cpu_mode_def Let_def split: if_splits Option.bind_splits
      dest!: retire_bank_view load_bank_view) (auto simp: set_reg_def)

lemma cpu_ok_switch:
  "set_cpu_mode (cpu_modes w) s = Some t \<Longrightarrow> banks_wf s \<Longrightarrow> w = reg s REG_CPSR \<Longrightarrow> cpu_ok t"
  by (auto simp: cpu_ok_def dest: set_cpu_mode_view)

lemma enter_irq_ok: "enter_irq s = Some t \<Longrightarrow> banks_wf s \<Longrightarrow> cpu_ok t \<and> at_vector t"
  by (auto simp: enter_irq_def cpu_ok_def cpu_modes_def at_vector_def split: Option.bind_splits
      dest!: put_bank_view put_spsr_view set_cpu_mode_view dest: bank_length) (auto simp: set_reg_def)

lemma check_for_interrupts_step: "check_for_interrupts M s = Some (b, t) \<Longrightarrow> mode_step s t"
  by (auto simp: check_for_interrupts_def mode_step_def cpu_ok_def split: if_splits Option.bind_splits
      dest: enter_irq_ok [unfolded cpu_ok_def])

lemma software_interrupt_step: "software_interrupt r s = Some t \<Longrightarrow> mode_step s t"
proof (unfold mode_step_def, intro impI)
  assume si: "software_interrupt r s = Some t" and ok: "cpu_ok s"
  have m: "(w AND - 64 OR 147) AND 15 = 3" for w :: u32
    by (simp add: word_ao_dist word_bw_assocs)
  have "banks_wf s" using ok by (simp add: cpu_ok_def)
  then have "banks_wf t \<and> reg t CPU_MODE = MODE_SUPERVISOR \<and> reg t REG_CPSR AND 0xF = 3 \<and> reg t REG_PC = 0x8"
    using si by (auto simp: software_interrupt_def Let_def collapse_flags_def m split: Option.bind_splits
        dest!: put_bank_view put_spsr_view set_cpu_mode_view dest: bank_length) (auto simp: set_reg_def m)
  then show "cpu_ok t \<and> (reg s CPU_MODE = MODE_USER \<longrightarrow> reg t CPU_MODE = MODE_USER \<or> at_vector t)"
    using cpu_modes_and [of "reg t REG_CPSR"] by (simp add: cpu_ok_def at_vector_def cpu_modes_def)
qed

lemma mode_step_trans:
  "(cpu_ok s \<Longrightarrow> cpu_ok t \<and> (reg s CPU_MODE = MODE_USER \<longrightarrow> reg t CPU_MODE = MODE_USER)) \<Longrightarrow>
     mode_step t u \<Longrightarrow> mode_step s u"
  by (auto simp: mode_step_def)

lemma cpsr_mask_low:
  assumes "f < 4"
  shows "cpsr_mask f priv AND 0xFF = 0 \<or> cpsr_mask f False AND 0xFF = cpsr_mask f False AND 0x20"
    and "cpsr_mask f False AND 0xF = 0" and "cpsr_mask f priv AND 0xFF = 0 \<Longrightarrow> cpsr_mask f priv AND 0xF = 0"
proof -
  from assms have "f = 0 \<or> f = 1 \<or> f = 2 \<or> f = 3" by linarith
  then show "cpsr_mask f priv AND 0xFF = 0 \<or> cpsr_mask f False AND 0xFF = cpsr_mask f False AND 0x20"
    "cpsr_mask f False AND 0xF = 0" "cpsr_mask f priv AND 0xFF = 0 \<Longrightarrow> cpsr_mask f priv AND 0xF = 0"
    by (auto simp: cpsr_mask_def)
qed

lemma merge_low:
  fixes v w m :: u32
  assumes "m AND 0xF = 0"
  shows "(v AND m OR w AND NOT m) AND 0xF = w AND 0xF"
proof (rule bit_word_eqI)
  fix n assume "n < LENGTH(32)"
  have "bit (m AND 0xF) n = False" using assms by simp
  then show "bit ((v AND m OR w AND NOT m) AND 0xF) n = bit (w AND 0xF) n"
    using \<open>n < LENGTH(32)\<close> by (auto simp: bit_simps)
qed

lemma psr_store_step:
  assumes "arm_psr_store_cpsr M f v s = Some (b, t)" and "f < 4"
  shows "mode_step s t"
proof -
  define m where "m = cpsr_mask f (privileged (reg s CPU_MODE))"
  define u where "u = extract_flags (set_reg REG_CPSR ((v AND m) OR (reg s REG_CPSR AND NOT m)) s)"
  show ?thesis
  proof (cases "m AND 0xFF = 0")
    case True
    then have "m AND 0xF = 0" using cpsr_mask_low(3) [OF assms(2)] by (simp add: m_def)
    then have "mode_view u = mode_view s" by (simp add: u_def merge_low)
    then show ?thesis
      using assms(1) True by (simp add: arm_psr_store_cpsr_def Let_def flip: m_def u_def) (auto intro: mode_step_view)
  next
    case False
    obtain x where x: "set_cpu_mode (cpu_modes (reg u REG_CPSR)) u = Some x" "check_for_interrupts M x = Some (b, t)"
      using assms(1) False
      by (auto simp: arm_psr_store_cpsr_def Let_def simp flip: m_def u_def split: Option.bind_splits)
    show ?thesis
    proof (rule mode_step_trans [OF _ check_for_interrupts_step [OF x(2)]], intro conjI impI)
      assume ok: "cpu_ok s"
      then have "banks_wf u" by (simp add: cpu_ok_def u_def extract_flags_def Let_def banks_wf_def set_reg_def)
      then show "cpu_ok x" using x(1) by (rule_tac cpu_ok_switch) auto
      assume user: "reg s CPU_MODE = MODE_USER"
      then have "m AND 0xF = 0" using cpsr_mask_low(2) [OF assms(2)] by (simp add: m_def privileged_def)
      then have "reg u REG_CPSR AND 0xF = reg s REG_CPSR AND 0xF"
        by (simp add: u_def extract_flags_def Let_def set_reg_def merge_low)
      then have "cpu_modes (reg u REG_CPSR) = MODE_USER"
        using ok user cpu_modes_and by (metis cpu_ok_def)
      then show "reg x CPU_MODE = MODE_USER" using set_cpu_mode_view [OF x(1)] by simp
    qed
  qed
qed

lemma spsr_restore_step: "arm_spsr_restore M s = Some (l, t) \<Longrightarrow> mode_step s t"
proof -
  assume r: "arm_spsr_restore M s = Some (l, t)"
  show "mode_step s t"
  proof (cases "reg s CPU_MODE \<noteq> MODE_USER \<and> reg s CPU_MODE \<noteq> MODE_SYSTEM")
    case True
    then obtain psr x b where x: "set_cpu_mode (cpu_modes (reg (extract_flags (set_reg REG_CPSR psr s)) REG_CPSR))
        (extract_flags (set_reg REG_CPSR psr s)) = Some x" "check_for_interrupts M x = Some (b, t)"
      using r by (auto simp: arm_spsr_restore_def Let_def split: Option.bind_splits)
    show ?thesis
    proof (rule mode_step_trans [OF _ check_for_interrupts_step [OF x(2)]], intro conjI impI)
      assume "cpu_ok s"
      then have "banks_wf (extract_flags (set_reg REG_CPSR psr s))"
        by (simp add: cpu_ok_def extract_flags_def Let_def banks_wf_def set_reg_def)
      then show "cpu_ok x" using x(1) by (rule_tac cpu_ok_switch) auto
    qed (use True in simp)
  qed (use r in \<open>auto simp: arm_spsr_restore_def mode_step_view\<close>)
qed

lemma pc_flags [simp]: "reg (collapse_flags s) REG_PC = reg s REG_PC" "reg (extract_flags s) REG_PC = reg s REG_PC"
  by (simp_all add: collapse_flags_def extract_flags_def Let_def set_reg_at)

section \<open>Instructions without memory\<close>

named_theorems mode_steps \<open>one fact for each instruction body: it is a \<open>mode_step\<close>\<close>

lemma operand2_flags_view: "operand2_flags ty opcode s = Some (x, t) \<Longrightarrow> mode_view t = mode_view s"
  by (auto simp: operand2_flags_def split: operand.splits if_splits)

lemma restore_check_step:
  "spsr_restore_check M rd t = Some (l, u) \<Longrightarrow> mode_view t = mode_view s \<Longrightarrow> mode_step s u"
  by (auto simp: spsr_restore_check_def split: if_splits
      intro: mode_step_view mode_step_before dest: spsr_restore_step)

lemma data_proc_step [mode_steps]:
  "arm_data_proc f ty opcode s = Some (l, t) \<Longrightarrow> mode_step s t"
  "arm_data_proc_logic_flags M g ty opcode s = Some (l, t) \<Longrightarrow> mode_step s t"
  "arm_data_proc_add_flags M c ty opcode s = Some (l, t) \<Longrightarrow> mode_step s t"
  "arm_data_proc_sub_flags M r c ty opcode s = Some (l, t) \<Longrightarrow> mode_step s t"
  "arm_data_proc_test_logic g ty opcode s = Some (l, t) \<Longrightarrow> mode_step s t"
  "arm_data_proc_test_add ty opcode s = Some (l, t) \<Longrightarrow> mode_step s t"
  "arm_data_proc_test_sub ty opcode s = Some (l, t) \<Longrightarrow> mode_step s t"
  by (auto simp: arm_data_proc_def arm_data_proc_logic_flags_def arm_data_proc_add_flags_def
      arm_data_proc_sub_flags_def arm_data_proc_test_logic_def arm_data_proc_test_add_def
      arm_data_proc_test_sub_def Let_def
      split: Option.bind_splits prod.splits dest!: operand2_flags_view restore_check_step [where s = s]
      intro: mode_step_view)

lemma multiply_step [mode_steps]:
  "arm_multiply a f opcode s = Some (l, t) \<Longrightarrow> mode_step s t"
  "arm_multiply_long a f b opcode s = Some (l, t) \<Longrightarrow> mode_step s t"
  by (auto simp: arm_multiply_def arm_multiply_long_def Let_def intro!: mode_step_view)

lemma psr_pfield_less: "psr_pfield opcode < 4"
proof -
  have "(drop_bit 16 opcode AND 1) OR (drop_bit 18 opcode AND 2) = ((drop_bit 16 opcode AND 1) OR (drop_bit 18 opcode AND 2)) AND 3"
    by (simp add: word_ao_dist word_bw_assocs)
  also have "\<dots> \<le> 3" by (rule word_and_le1)
  finally show ?thesis by (simp add: psr_pfield_def word_le_nat_alt)
qed

lemma status_step [mode_steps]:
  "arm_mrs_cpsr opcode s = Some (l, t) \<Longrightarrow> mode_step s t"
  "arm_mrs_spsr opcode s = Some (l, t) \<Longrightarrow> mode_step s t"
  "arm_msr_cpsr M ty opcode s = Some (l, t) \<Longrightarrow> mode_step s t"
  "arm_msr_spsr ty opcode s = Some (l, t) \<Longrightarrow> mode_step s t"
  subgoal by (auto simp: arm_mrs_cpsr_def arm_psr_read_cpsr_def Let_def intro!: mode_step_view)
  subgoal by (auto simp: arm_mrs_spsr_def arm_psr_read_spsr_def Let_def split: Option.bind_splits intro!: mode_step_view)
  subgoal by (auto simp: arm_msr_cpsr_def Let_def split: Option.bind_splits
        intro: mode_step_before [of "pc_offset 4 s"] dest: psr_store_step [OF _ psr_pfield_less])
  subgoal by (auto simp: arm_msr_spsr_def arm_psr_store_spsr_def Let_def split: Option.bind_splits
        dest!: put_spsr_mode intro!: mode_step_view)
  done

lemma branch_cycles_view: "branch_cycles M b a s = Some t \<Longrightarrow> mode_view t = mode_view s"
  by (auto simp: branch_cycles_def split: Option.bind_splits)

lemma thumb_bit_low: "(w OR 0x20) AND 0xF = w AND (0xF :: u32)" "(w AND - 33) AND 0xF = w AND (0xF :: u32)"
  by (simp_all add: word_ao_dist word_bw_assocs)

lemma branch_step [mode_steps]:
  "arm_bx M opcode s = Some (l, t) \<Longrightarrow> mode_step s t"
  "arm_b M opcode s = Some (l, t) \<Longrightarrow> mode_step s t"
  "arm_bl M opcode s = Some (l, t) \<Longrightarrow> mode_step s t"
  "arm_swi s = Some (l, t) \<Longrightarrow> mode_step s t"
  by (auto simp: arm_bx_def arm_b_def arm_bl_def arm_swi_def Let_def thumb_bit_low set_reg_at pc_offset_at
      split: if_splits dest!: branch_cycles_view dest: software_interrupt_step intro: mode_step_view)

lemma hi_rd_less: "hi_rd opcode < 16"
proof -
  have "(drop_bit 4 opcode AND 8) OR (opcode AND 7) = ((drop_bit 4 opcode AND 8) OR (opcode AND 7)) AND 0xF"
    by (simp add: word_ao_dist word_bw_assocs)
  also have "\<dots> \<le> 0xF" by (rule word_and_le1)
  finally show ?thesis by (simp add: hi_rd_def word_le_nat_alt)
qed

lemma thumb_bodies_view [simp]:
  "r < 16 \<Longrightarrow> mode_view (thumb_add r a b c s) = mode_view s"
  "r < 16 \<Longrightarrow> mode_view (thumb_sub r a b c s) = mode_view s"
  "r < 16 \<Longrightarrow> mode_view (thumb_logic r a s) = mode_view s"
  "mode_view (thumb_test_add a b s) = mode_view s"
  "mode_view (thumb_test_sub a b s) = mode_view s"
  "mode_view (thumb_test_logic a s) = mode_view s"
  by (simp_all add: thumb_add_def thumb_sub_def thumb_logic_def thumb_test_add_def thumb_test_sub_def
      thumb_test_logic_def Let_def split: prod.splits)

lemma thumb_shift_view: "thumb_shift r x s = Some t \<Longrightarrow> r < 16 \<Longrightarrow> mode_view t = mode_view s"
  by (auto simp: thumb_shift_def split: Option.bind_splits)

lemma th_fields [simp]: "field w k 0x7 < 16"
  using field_below(2) [of w k] by linarith

lemma sixteen_cases: "i < 16 \<Longrightarrow> xs ! i = y \<Longrightarrow> length xs = 16 \<Longrightarrow> y \<in> set xs"
  by auto

lemma thumb_register_view:
  "thumb_cases_00_3F k opcode s = Some t \<Longrightarrow> mode_view t = mode_view s"
  "0x40 \<le> k \<Longrightarrow> k < 0x44 \<Longrightarrow> thumb_cases_40_43 k opcode s = Some t \<Longrightarrow> mode_view t = mode_view s"
  subgoal by (auto simp: thumb_cases_00_3F_def Let_def split: if_splits dest!: thumb_shift_view)
  subgoal premises p
  proof -
    have "drop_bit 6 opcode AND 0x3 \<le> 0x3" by (simp add: word_and_le1)
    then have "field opcode 6 0x3 < 4" by (simp add: field_def word_le_nat_alt)
    then have "4 * (k - 0x40) + field opcode 6 0x3 < 16" using p by linarith
    from sixteen_cases [OF this p(3) [unfolded thumb_cases_40_43_def Let_def]]
    show ?thesis by (auto dest!: thumb_shift_view [OF sym])
  qed
  done

lemma thumb_high_step: "thumb_cases_44_47 k opcode s = (l, t) \<Longrightarrow> mode_step s t"
  using hi_rd_less [of opcode]
  by (auto simp: thumb_cases_44_47_def thumb_hireg_op_def thumb_hireg_cmp_def thumb_bx_def Let_def
      thumb_bit_low set_reg_at pc_offset_at split: if_splits intro!: mode_step_view)

section \<open>The interface of the memory\<close>

locale cpu_bus =
  fixes M :: "'m bus"
  assumes load_view: "load M acc a s = Some (v, t) \<Longrightarrow> cpu_view t = cpu_view s"
    and store_view: "store M acc a v s = Some t \<Longrightarrow> cpu_view t = cpu_view s"
    and fetch_view: "fetch M acc s = Some (v, t) \<Longrightarrow> cpu_view t = cpu_view s"
    and hook_view: "cheat_hook M s = Some t \<Longrightarrow> cpu_view t = cpu_view s"
begin

lemma memory_mode:
  "load M acc a s = Some (v, t) \<Longrightarrow> mode_view t = mode_view s"
  "store M acc a v s = Some t \<Longrightarrow> mode_view t = mode_view s"
  "fetch M acc s = Some (v, t) \<Longrightarrow> mode_view t = mode_view s"
  "cheat_hook M s = Some t \<Longrightarrow> mode_view t = mode_view s"
  by (auto intro: view_mode_view dest: load_view store_view fetch_view hook_view)

lemma access_step [mode_steps]:
  "arm_access_memory M dir f ty acc wb g opcode s = Some (l, t) \<Longrightarrow> mode_step s t"
  "arm_swap M acc opcode s = Some (l, t) \<Longrightarrow> mode_step s t"
  by (auto simp: arm_access_memory_def arm_swap_def Let_def split: Option.bind_splits direction.splits if_splits
      dest!: memory_mode intro!: mode_step_view)

lemma block_loop_mode:
  "block_loop M dir rl is a s = Some (a', t) \<Longrightarrow> list_all (\<lambda>i. i < 16) is \<Longrightarrow> mode_view t = mode_view s"
  by (induction "is" arbitrary: a s)
    (auto split: if_splits direction.splits Option.bind_splits dest!: memory_mode)

lemma block_loop_registers:
  "block_loop M dir rl [0..<16] a s = Some (a', t) \<Longrightarrow> mode_view t = mode_view s"
  "block_loop M dir rl [0..<8] a s = Some (a', t) \<Longrightarrow> mode_view t = mode_view s"
  by (auto intro!: block_loop_mode simp: list_all_iff)

lemma block_mem_ok:
  assumes "exec_arm_block_mem M dir wb sbit am rn rl s = Some t" and "rn < 16" and "cpu_ok s"
  shows "cpu_ok t \<and> reg t CPU_MODE = reg s CPU_MODE"
proof -
  have rn: "rn \<noteq> REG_CPSR" "rn \<noteq> CPU_MODE" using assms(2) by auto
  define user where "user = (sbit \<and> (dir = St \<or> rn \<noteq> REG_PC))"
  obtain u where u: "(if user then set_cpu_mode MODE_USER s else Some s) = Some u"
    using assms(1) by (cases "if user then set_cpu_mode MODE_USER s else Some s")
      (auto simp: exec_arm_block_mem_def Let_def user_def)
  obtain v where v: "mode_view v = mode_view u"
    and t: "(if user then set_cpu_mode (cpu_modes (reg s REG_CPSR)) v else Some v) = Some t"
  proof -
    let ?u = "if wb \<and> writeback_first dir rn rl then set_reg rn (block_end am (reg s rn)
      (bit_count (drop_bit 8 rl) + bit_count (rl AND 0xFF))) u else u"
    obtain a w where w: "block_loop M dir rl [0..<16] (block_start am (reg s rn)
        (bit_count (drop_bit 8 rl) + bit_count (rl AND 0xFF))) (pc_offset 4 ?u) = Some (a, w)"
      and t: "(let v = (if wb \<and> \<not> writeback_first dir rn rl then set_reg rn (block_end am (reg s rn)
      (bit_count (drop_bit 8 rl) + bit_count (rl AND 0xFF))) w else w)
        in if user then set_cpu_mode (cpu_modes (reg s REG_CPSR)) v else Some v) = Some t"
      using assms(1) u by (auto simp: exec_arm_block_mem_def Let_def simp flip: user_def split: Option.bind_splits)
    have "mode_view w = mode_view u" using block_loop_registers(1) [OF w] rn by simp
    then show thesis using t rn by (intro that) (auto simp: Let_def)
  qed
  show ?thesis
  proof (cases user)
    case True
    have b: "banks_wf s" using assms(3) by (simp add: cpu_ok_def)
    have u': "banks_wf u" "reg u REG_CPSR = reg s REG_CPSR" using set_cpu_mode_view [of _ s u] u True b by auto
    have t': "banks_wf t" "reg t CPU_MODE = cpu_modes (reg s REG_CPSR)" "reg t REG_CPSR = reg v REG_CPSR"
      using set_cpu_mode_view [of _ v t] t True v u' by (auto simp: mode_view_def)
    have "reg v REG_CPSR AND 0xF = reg s REG_CPSR AND 0xF" using v u' by (simp add: mode_view_def)
    then have "cpu_modes (reg t REG_CPSR) = cpu_modes (reg s REG_CPSR)" using t' cpu_modes_and by metis
    then show ?thesis using t' assms(3) by (simp add: cpu_ok_def)
  next
    case False
    then show ?thesis using u v t assms(3) cpu_ok_view [of t s] by (auto simp: mode_view_def)
  qed
qed

lemma block_mem_step:
  "exec_arm_block_mem M dir wb sbit am (op_rn opcode) rl s = Some t \<Longrightarrow> mode_step s t"
  "exec_arm_block_mem M dir wb sbit am (op_rn opcode) rl s = Some u \<Longrightarrow> mode_step u t \<Longrightarrow> mode_step s t"
  by (auto simp: mode_step_def dest!: block_mem_ok)

lemma block_case_step [mode_steps]: "arm_block_case k M opcode s = Some (l, t) \<Longrightarrow> mode_step s t"
  by (auto simp: arm_block_case_def arm_spsr_restore_ldm_check_def Let_def split: Option.bind_splits if_splits
      intro: block_mem_step spsr_restore_step)

lemma data_case_step:
  "arm_case_00 M opcode s = Some (l, t) \<Longrightarrow> mode_step s t"
  "arm_case_01 M opcode s = Some (l, t) \<Longrightarrow> mode_step s t"
  "arm_case_02 M opcode s = Some (l, t) \<Longrightarrow> mode_step s t"
  "arm_case_03 M opcode s = Some (l, t) \<Longrightarrow> mode_step s t"
  "arm_case_04 M opcode s = Some (l, t) \<Longrightarrow> mode_step s t"
  "arm_case_05 M opcode s = Some (l, t) \<Longrightarrow> mode_step s t"
  "arm_case_06 M opcode s = Some (l, t) \<Longrightarrow> mode_step s t"
  "arm_case_07 M opcode s = Some (l, t) \<Longrightarrow> mode_step s t"
  "arm_case_08 M opcode s = Some (l, t) \<Longrightarrow> mode_step s t"
  "arm_case_09 M opcode s = Some (l, t) \<Longrightarrow> mode_step s t"
  "arm_case_0A M opcode s = Some (l, t) \<Longrightarrow> mode_step s t"
  "arm_case_0B M opcode s = Some (l, t) \<Longrightarrow> mode_step s t"
  "arm_case_0C M opcode s = Some (l, t) \<Longrightarrow> mode_step s t"
  "arm_case_0D M opcode s = Some (l, t) \<Longrightarrow> mode_step s t"
  "arm_case_0E M opcode s = Some (l, t) \<Longrightarrow> mode_step s t"
  "arm_case_0F M opcode s = Some (l, t) \<Longrightarrow> mode_step s t"
  by (auto simp: arm_case_00_def arm_case_01_def arm_case_02_def arm_case_03_def arm_case_04_def arm_case_05_def arm_case_06_def arm_case_07_def
      arm_case_08_def arm_case_09_def arm_case_0A_def arm_case_0B_def arm_case_0C_def arm_case_0D_def arm_case_0E_def arm_case_0F_def
      split: if_splits intro: mode_steps mode_step_view)

lemma data_case_step2:
  "arm_case_10 M opcode s = Some (l, t) \<Longrightarrow> mode_step s t"
  "arm_case_11 M opcode s = Some (l, t) \<Longrightarrow> mode_step s t"
  "arm_case_12 M opcode s = Some (l, t) \<Longrightarrow> mode_step s t"
  "arm_case_13 M opcode s = Some (l, t) \<Longrightarrow> mode_step s t"
  "arm_case_14 M opcode s = Some (l, t) \<Longrightarrow> mode_step s t"
  "arm_case_15 M opcode s = Some (l, t) \<Longrightarrow> mode_step s t"
  "arm_case_16 M opcode s = Some (l, t) \<Longrightarrow> mode_step s t"
  "arm_case_17 M opcode s = Some (l, t) \<Longrightarrow> mode_step s t"
  "arm_case_18 M opcode s = Some (l, t) \<Longrightarrow> mode_step s t"
  "arm_case_19 M opcode s = Some (l, t) \<Longrightarrow> mode_step s t"
  "arm_case_1A M opcode s = Some (l, t) \<Longrightarrow> mode_step s t"
  "arm_case_1B M opcode s = Some (l, t) \<Longrightarrow> mode_step s t"
  "arm_case_1C M opcode s = Some (l, t) \<Longrightarrow> mode_step s t"
  "arm_case_1D M opcode s = Some (l, t) \<Longrightarrow> mode_step s t"
  "arm_case_1E M opcode s = Some (l, t) \<Longrightarrow> mode_step s t"
  "arm_case_1F M opcode s = Some (l, t) \<Longrightarrow> mode_step s t"
  by (auto simp: arm_case_10_def arm_case_11_def arm_case_12_def arm_case_13_def arm_case_14_def arm_case_15_def arm_case_16_def arm_case_17_def
      arm_case_18_def arm_case_19_def arm_case_1A_def arm_case_1B_def arm_case_1C_def arm_case_1D_def arm_case_1E_def arm_case_1F_def
      split: if_splits intro: mode_steps mode_step_view)

lemma group_case_step:
  "arm_cases_20_2F k M opcode s = Some (l, t) \<Longrightarrow> mode_step s t"
  "arm_cases_30_3F k M opcode s = Some (l, t) \<Longrightarrow> mode_step s t"
  "arm_cases_40_4F k M opcode s = Some (l, t) \<Longrightarrow> mode_step s t"
  "arm_cases_50_5F k M opcode s = Some (l, t) \<Longrightarrow> mode_step s t"
  "arm_cases_60_6F k M opcode s = Some (l, t) \<Longrightarrow> mode_step s t"
  "arm_cases_70_7F k M opcode s = Some (l, t) \<Longrightarrow> mode_step s t"
  subgoal by (auto simp: arm_cases_20_2F_def split: if_splits intro: mode_steps)
  subgoal by (auto simp: arm_cases_30_3F_def split: if_splits intro: mode_steps)
  subgoal by (auto simp: arm_cases_40_4F_def split: if_splits intro: mode_steps)
  subgoal by (auto simp: arm_cases_50_5F_def split: if_splits intro: mode_steps)
  subgoal by (auto simp: arm_cases_60_6F_def split: if_splits intro: mode_steps)
  subgoal by (auto simp: arm_cases_70_7F_def split: if_splits intro: mode_steps)
  done

lemma low_case_step:
  "f \<in> set [arm_case_00, arm_case_01, arm_case_02, arm_case_03, arm_case_04, arm_case_05, arm_case_06,
     arm_case_07, arm_case_08, arm_case_09, arm_case_0A, arm_case_0B, arm_case_0C, arm_case_0D,
     arm_case_0E, arm_case_0F, arm_case_10, arm_case_11, arm_case_12, arm_case_13, arm_case_14,
     arm_case_15, arm_case_16, arm_case_17, arm_case_18, arm_case_19, arm_case_1A, arm_case_1B,
     arm_case_1C, arm_case_1D, arm_case_1E, arm_case_1F] \<Longrightarrow>
   f M opcode s = Some (l, t) \<Longrightarrow> mode_step s t"
  using data_case_step data_case_step2 by (auto simp only: list.set insert_iff empty_iff)

lemma arm_switch_step: "arm_switch k M opcode s = Some (l, t) \<Longrightarrow> mode_step s t"
proof (cases "k < 0x20")
  case True
  assume "arm_switch k M opcode s = Some (l, t)"
  then show ?thesis using True by (intro low_case_step [OF nth_mem, of k]) (simp_all add: arm_switch_def)
next
  case False
  assume "arm_switch k M opcode s = Some (l, t)"
  then show ?thesis
    using False by (auto simp: arm_switch_def split: if_splits intro: mode_steps group_case_step mode_step_view)
qed

lemma arm_instruction_step: "arm_instruction M opcode s = Some (l, t) \<Longrightarrow> mode_step s t"
  by (auto simp: arm_instruction_def split: if_splits intro: arm_switch_step mode_step_view)

lemma end_step: "end_of_instruction M b s = Some (l, t) \<Longrightarrow> mode_view t = mode_view s \<and> reg t REG_PC = reg s REG_PC"
  by (auto simp: end_of_instruction_def Let_def split: Option.bind_splits if_splits)

lemma arm_round_step: "arm_round M s = Some (l, t) \<Longrightarrow> mode_step s t"
proof -
  assume "arm_round M s = Some (l, t)"
  then obtain a op b x i where *: "cheat_hook M (collapse_flags s) = Some a"
    "fetch M U32 (set_reg REG_PC (reg a REG_PC AND NOT 3) a) = Some (op, b)" "arm_instruction M op b = Some (i, x)"
    and e: "t = x \<or> end_of_instruction M False x = Some (l, t)"
    by (auto simp: arm_round_def Let_def split: Option.bind_splits next_loop.splits)
  have "mode_view b = mode_view s" using memory_mode(3) [OF *(2)] memory_mode(4) [OF *(1)] by simp
  moreover have "mode_step b t"
    using arm_instruction_step [OF *(3)] e end_step [of False x l t] by (auto intro: mode_step_after)
  ultimately show ?thesis by (rule mode_step_before)
qed

lemma thumb_access_view: "thumb_access_memory M dir a rd acc s = Some t \<Longrightarrow> rd < 16 \<Longrightarrow> mode_view t = mode_view s"
  by (auto simp: thumb_access_memory_def Let_def split: direction.splits Option.bind_splits dest!: memory_mode)

lemma thumb_block_view: "exec_thumb_block_mem M dir am rn rl s = Some t \<Longrightarrow> rn < 16 \<Longrightarrow> mode_view t = mode_view s"
  by (auto simp: exec_thumb_block_mem_def Let_def split: direction.splits Option.bind_splits if_splits
      dest!: memory_mode block_loop_registers)

lemma thumb_memory_view:
  "thumb_cases_48_9F k M opcode s = Some t \<Longrightarrow> mode_view t = mode_view s"
  "thumb_cases_A0_CF k M opcode s = Some t \<Longrightarrow> mode_view t = mode_view s"
  subgoal by (auto simp: thumb_cases_48_9F_def Let_def split: if_splits dest!: thumb_access_view)
  subgoal by (auto simp: thumb_cases_A0_CF_def thumb_add_noflags_def Let_def split: if_splits dest!: thumb_block_view)
  done

lemma thumb_branch_step: "thumb_cases_D0_FF k M opcode s = Some (l, t) \<Longrightarrow> mode_step s t"
  by (auto simp: thumb_cases_D0_FF_def thumb_conditional_branch_def thumb_b_def thumb_bl_low_def thumb_bl_high_def
      thumb_swi_def Let_def split: if_splits dest!: branch_cycles_view dest: software_interrupt_step
      intro: mode_step_view)

lemma thumb_switch_step: "thumb_switch k M opcode s = Some (l, t) \<Longrightarrow> mode_step s t"
  by (auto simp: thumb_switch_def not_less split: if_splits dest!: thumb_register_view thumb_memory_view
      intro: thumb_branch_step thumb_high_step mode_step_view)

lemma thumb_round_step: "thumb_round M s = Some (l, t) \<Longrightarrow> mode_step s t"
proof -
  assume "thumb_round M s = Some (l, t)"
  then obtain a op b x i where *: "cheat_hook M (collapse_flags s) = Some a"
    "fetch M U16 (set_reg REG_PC (reg a REG_PC AND NOT 1) a) = Some (op, b)"
    "thumb_switch (field op 8 0xFF) M op b = Some (i, x)"
    and e: "t = x \<or> end_of_instruction M True x = Some (l, t)"
    by (auto simp: thumb_round_def Let_def split: Option.bind_splits next_loop.splits)
  have "mode_view b = mode_view s" using memory_mode(3) [OF *(2)] memory_mode(4) [OF *(1)] by simp
  moreover have "mode_step b t"
    using thumb_switch_step [OF *(3)] e end_step [of True x l t] by (auto intro: mode_step_after)
  ultimately show ?thesis by (rule mode_step_before)
qed

text \<open>A whole run keeps the invariant.\<close>

lemma run_rounds_ok: "run_rounds M b s = Some r \<Longrightarrow> cpu_ok s \<Longrightarrow> cpu_ok (snd r)"
proof -
  have "run_rounds M' b s = Some r \<Longrightarrow> M' = M \<Longrightarrow> cpu_ok s \<Longrightarrow> cpu_ok (snd r)" for M'
  proof (induction rule: run_rounds.raw_induct [rotated 1, consumes 1])
    case (1 run N b s r)
    obtain l t where t: "(if b then thumb_round N s else arm_round N s) = Some (l, t)"
      and r: "(if l = Again_arm then run N False t else if l = Again_thumb then run N True t else Some (l, t)) = Some r"
      using 1(2) by (auto split: Option.bind_splits)
    have "mode_step s t" using t 1(3) arm_round_step thumb_round_step by (auto split: if_splits)
    then have "cpu_ok t" using 1(4) by (simp add: mode_step_def)
    then show ?case using r 1(1) [OF _ 1(3)] by (auto split: if_splits)
  qed
  then show "run_rounds M b s = Some r \<Longrightarrow> cpu_ok s \<Longrightarrow> cpu_ok (snd r)" by simp
qed

lemma execute_until_update_ok: "execute_until_update M s = Some r \<Longrightarrow> cpu_ok s \<Longrightarrow> cpu_ok (snd r)"
  by (auto simp: execute_until_update_def Let_def intro!: run_rounds_ok intro: cpu_ok_view [of _ s])

end

end
