(* ===== verification/GbaFrame.thy ===== *)
theory GbaFrame
  imports GbaRun CpuMode
begin

text \<open>
  The memory of the machine leaves the processor alone: no read, write, DMA transfer,
  instruction fetch or cheat changes a register the program sees, a flag or a bank. The bus of
  theory \<open>GbaRun\<close> is so a \<open>cpu_bus\<close>, and the facts of theory \<open>CpuMode\<close> hold for the whole
  emulator.
\<close>

named_theorems frames \<open>an operation of the memory keeps the view of the processor\<close>

lemma pure_frames [simp]:
  "cpu_view (upd f s) = cpu_view s" "cpu_view (iow r v s) = cpu_view s"
  "cpu_view (write_dmareg r n v s) = cpu_view s" "cpu_view (with_sound g s) = cpu_view s"
  "cpu_view (put_timer n t s) = cpu_view s" "cpu_view (put_dma n d s) = cpu_view s"
  by (simp_all add: upd_def iow_def write_dmareg_def with_sound_def put_timer_def put_dma_def)

lemma register_frames [simp]:
  "cpu_view (reload_timing_info s) = cpu_view s" "cpu_view (write_affine r v s) = cpu_view s"
  "cpu_view (write_dispcnt v s) = cpu_view s" "cpu_view (setup_dma n value s d) = cpu_view s"
  "cpu_view (snd (flag_interrupt irq s)) = cpu_view s"
  by (simp_all add: reload_timing_info_def write_affine_def write_dispcnt_def setup_dma_def flag_interrupt_def Let_def)

section \<open>Reads\<close>

lemma page_fault_frame [frames]: "page_fault i s = Some (e, t) \<Longrightarrow> cpu_view t = cpu_view s"
  by (auto simp: page_fault_def Let_def split: Option.bind_splits)

lemma gamepak_frame [frames]: "read_memory_gamepak w a s = Some (v, t) \<Longrightarrow> cpu_view t = cpu_view s"
  by (auto simp: read_memory_gamepak_def rom_slot_def Let_def split: Option.bind_splits option.splits dest: frames)

lemma backup_wide_frame [frames]: "read_backup_wide w a s = Some (v, t) \<Longrightarrow> cpu_view t = cpu_view s"
  by (auto simp: read_backup_wide_def Let_def split: Option.bind_splits)

lemma read_mapped_frame [frames]: "read_mapped w a s = Some (v, t) \<Longrightarrow> cpu_view t = cpu_view s"
  by (auto simp: read_mapped_def Let_def split: if_splits Option.bind_splits dest: frames)

lemma read_memory_frame [frames]: "read_memory w a s = Some (v, t) \<Longrightarrow> cpu_view t = cpu_view s"
proof (induction w a s "(v, t)" arbitrary: v t rule: read_memory.raw_induct [rotated 1, consumes 1])
  case (1 run w a s)
  then show ?case
    by (fastforce split: if_splits Option.bind_splits dest: frames)
qed

lemma slow_read_frame [frames]: "slow_read acc a s = Some (v, t) \<Longrightarrow> cpu_view t = cpu_view s"
  by (auto simp: slow_read_def read_memory16_signed_def split: if_splits dest: frames)

lemma charge_frame [frames]: "charge ws b a s = Some t \<Longrightarrow> cpu_view t = cpu_view s"
  by (auto simp: charge_def split: if_splits Option.bind_splits)

lemma load_frame: "gba_load acc a s = Some (v, t) \<Longrightarrow> cpu_view t = cpu_view s"
  by (auto simp: gba_load_def load_aligned32_def fast_read_memory_def Let_def
      split: if_splits Option.bind_splits option.splits dest!: frames)

lemma look_up_frame [frames]: "look_up r s = Some (b, t) \<Longrightarrow> cpu_view t = cpu_view s"
  by (auto simp: look_up_def Let_def split: Option.bind_splits option.splits dest!: frames)

lemma fetch_frame: "gba_fetch acc s = Some (v, t) \<Longrightarrow> cpu_view t = cpu_view s"
  by (auto simp: gba_fetch_def check_pc_region_def Let_def
      split: Option.bind_splits option.splits if_splits dest!: frames)

section \<open>Registers\<close>

lemma render_sound_frame [frames]: "render_sound s = Some t \<Longrightarrow> cpu_view t = cpu_view s"
  by (auto simp: render_sound_def Let_def split: Option.bind_splits option.splits)

lemma with_tone_frame [frames]: "with_tone i f s = Some t \<Longrightarrow> cpu_view t = cpu_view s"
  by (auto simp: with_tone_def split: Option.bind_splits)

lemma tone_frames [frames]:
  "tone_control_low i r value s = Some t \<Longrightarrow> cpu_view t = cpu_view s"
  "tone_control_high i r value s = Some t \<Longrightarrow> cpu_view t = cpu_view s"
  "tone_control_sweep value s = Some t \<Longrightarrow> cpu_view t = cpu_view s"
  "wave_control value s = Some t \<Longrightarrow> cpu_view t = cpu_view s"
  "tone_control_low_wave value s = Some t \<Longrightarrow> cpu_view t = cpu_view s"
  "tone_control_high_wave value s = Some t \<Longrightarrow> cpu_view t = cpu_view s"
  "noise_control value s = Some t \<Longrightarrow> cpu_view t = cpu_view s"
  "gbc_trigger_sound value s = Some t \<Longrightarrow> cpu_view t = cpu_view s"
  by (auto simp: tone_control_low_def tone_control_high_def tone_control_sweep_def wave_control_def
      tone_control_low_wave_def tone_control_high_wave_def noise_control_def gbc_trigger_sound_def Let_def
      split: Option.bind_splits dest!: frames)

lemma sound_frames [frames]:
  "trigger_sound value s = Some t \<Longrightarrow> cpu_view t = cpu_view s"
  "sound_control_x value s = Some t \<Longrightarrow> cpu_view t = cpu_view s"
  "sound_wave_write r value s = Some t \<Longrightarrow> cpu_view t = cpu_view s"
  "queue_samples c value s = Some t \<Longrightarrow> cpu_view t = cpu_view s"
  by (auto simp: trigger_sound_def sound_control_x_def sound_wave_write_def queue_samples_def Let_def
      split: Option.bind_splits dest!: frames)

lemma write_sound_frame [frames]: "write_sound_register r value s = Some t \<Longrightarrow> cpu_view t = cpu_view s"
  by (auto simp: write_sound_register_def split: if_splits dest: frames)

lemma timer_frames [frames]:
  "count_timer n value s = Some t \<Longrightarrow> cpu_view t = cpu_view s"
  "start_timer n value tm s = Some t \<Longrightarrow> cpu_view t = cpu_view s"
  by (auto simp: count_timer_def start_timer_def Let_def split: Option.bind_splits if_splits)

lemma trigger_timer_frame [frames]: "trigger_timer n value s = Some t \<Longrightarrow> cpu_view t = cpu_view s"
  by (auto simp: trigger_timer_def split: Option.bind_splits if_splits dest: frames)

lemma write_serial_frame [frames]: "write_serial b v s = Some t \<Longrightarrow> cpu_view t = cpu_view s"
  by (auto simp: write_serial_def Let_def split: Option.bind_splits if_splits)

lemma no_alert_frame: "no_alert r = Some (a, t) \<Longrightarrow> r = Some t"
  by (auto simp: no_alert_def)

text \<open>A transfer engine that leaves the processor alone.\<close>

definition dma_frame :: "dma_run \<Rightarrow> bool" where
  "dma_frame dma \<longleftrightarrow> (\<forall>n s a c t. dma n s = Some (a, c, t) \<longrightarrow> cpu_view t = cpu_view s)"

lemma trigger_dma_frame: "trigger_dma dma n value s = Some (a, t) \<Longrightarrow> dma_frame dma \<Longrightarrow> cpu_view t = cpu_view s"
  by (auto simp: trigger_dma_def dma_frame_def Let_def split: Option.bind_splits if_splits)

lemma write_io16_frame: "write_io_register16 dma address v s = Some (a, t) \<Longrightarrow> dma_frame dma \<Longrightarrow> cpu_view t = cpu_view s"
  by (auto simp: write_io_register16_def Let_def split: if_splits
      dest!: no_alert_frame dest: frames trigger_dma_frame)

lemma write_io_frame: "write_io_register dma w address v s = Some (a, t) \<Longrightarrow> dma_frame dma \<Longrightarrow> cpu_view t = cpu_view s"
  by (cases w) (auto simp: write_io_register_def write_io_register8_def write_io_register32_def Let_def
      split: if_splits Option.bind_splits dest!: no_alert_frame write_io16_frame dest: frames)

section \<open>Writes and transfers\<close>

lemma store_frames [frames]:
  "write_palette w address v s = Some t \<Longrightarrow> cpu_view t = cpu_view s"
  "write_vram w address v s = Some t \<Longrightarrow> cpu_view t = cpu_view s"
  "write_ewram w address v s = Some t \<Longrightarrow> cpu_view t = cpu_view s"
  "write_iwram w address v s = Some t \<Longrightarrow> cpu_view t = cpu_view s"
  "write_oam w address v s = Some t \<Longrightarrow> cpu_view t = cpu_view s"
  "write_gpio16 address v s = Some t \<Longrightarrow> cpu_view t = cpu_view s"
  "with_backup f s = Some t \<Longrightarrow> cpu_view t = cpu_view s"
  by (auto simp: write_palette_def write_palette16_def write_palette32_def write_vram_def write_ewram_def
      write_iwram_def write_oam_def write_gpio16_def with_backup_def Let_def
      split: Option.bind_splits width.splits)

lemma write_memory_frame: "write_memory dma w address v s = Some (a, t) \<Longrightarrow> dma_frame dma \<Longrightarrow> cpu_view t = cpu_view s"
  by (auto simp: write_memory_def Let_def split: if_splits dest!: no_alert_frame frames dest: write_io_frame)

lemma dma_block_frame [frames]: "dma_block ptr s = Some (b, t) \<Longrightarrow> cpu_view t = cpu_view s"
  by (auto simp: dma_block_def Let_def split: Option.bind_splits option.splits dest: frames)

lemma dma_read_frame [frames]: "dma_read r w ptr l cur s = Some (v, c, t) \<Longrightarrow> cpu_view t = cpu_view s"
  by (auto simp: dma_read_def Let_def split: dma_region.splits Option.bind_splits option.splits if_splits dest: frames)

lemma dma_write_frame: "dma_write dma r w ptr v s = Some (a, t) \<Longrightarrow> dma_frame dma \<Longrightarrow> cpu_view t = cpu_view s"
  by (auto simp: dma_write_def split: dma_region.splits Option.bind_splits
      dest!: no_alert_frame frames dest: write_io_frame write_memory_frame)

lemma tfloop_frame: "dma_tfloop dma sr dr w ss ds n l s = Some (k, t) \<Longrightarrow> dma_frame dma \<Longrightarrow> cpu_view t = cpu_view s"
  by (induction n arbitrary: l s) (auto split: Option.bind_splits dest!: frames dma_write_frame)

lemma tf_loop_frame: "dma_tf_loop dma w src dst ss ds wb n c s = Some (a, t) \<Longrightarrow> dma_frame dma \<Longrightarrow> cpu_view t = cpu_view s"
  by (auto simp: dma_tf_loop_def Let_def split: if_splits Option.bind_splits dest!: frames tfloop_frame)

lemma copy_frame: "dma_transfer_copy dma c src dst n s = Some (a, t) \<Longrightarrow> dma_frame dma \<Longrightarrow> cpu_view t = cpu_view s"
  by (auto simp: dma_transfer_copy_def Let_def split: if_splits Option.bind_splits dest!: tf_loop_frame)

lemma parts_frame: "dma_copy_parts dma c src dst d s = Some (a, t) \<Longrightarrow> dma_frame dma \<Longrightarrow> cpu_view t = cpu_view s"
  by (auto simp: dma_copy_parts_def dma_split_def Let_def split: if_splits Option.bind_splits dest!: copy_frame)

lemma dma_body_frame: "dma_frame dma \<Longrightarrow> dma_frame (dma_body dma)"
  unfolding dma_frame_def [of "dma_body dma"]
  by (auto simp: dma_body_def flag_interrupt_def Let_def split: if_splits Option.bind_splits dest!: parts_frame)

lemma dma_transfer_frame: "dma_frame (dma_transfer fuel)"
  by (induction fuel) (simp_all add: dma_body_frame, simp add: dma_frame_def)

lemma store_frame: "gba_store fuel acc a v s = Some t \<Longrightarrow> cpu_view t = cpu_view s"
  by (auto simp: gba_store_def gba_write_def Let_def split: if_splits Option.bind_splits
      dest!: frames write_memory_frame [OF _ dma_transfer_frame])

section \<open>Cheats\<close>

lemma poke_frame [frames]: "poke fuel w a v s = Some t \<Longrightarrow> cpu_view t = cpu_view s"
  by (auto simp: poke_def dest!: write_memory_frame [OF _ dma_transfer_frame])

lemma slide_frame [frames]: "slide_code fuel n a v ai vi s = Some t \<Longrightarrow> cpu_view t = cpu_view s"
  by (induction n arbitrary: a v s) (auto split: Option.bind_splits dest!: frames)

lemma super_frame [frames]: "super_code fuel c j limit a i s = Some (k, t) \<Longrightarrow> cpu_view t = cpu_view s"
proof (induction "limit - j" arbitrary: j a i s rule: less_induct)
  case less
  have step: "super_code fuel c (Suc j) limit a' i' s' = Some (k, t) \<Longrightarrow> j < limit \<Longrightarrow> cpu_view t = cpu_view s'" for a' i' s'
    by (rule less.hyps [of "Suc j"]) auto
  show ?case
    using less.prems by (subst (asm) super_code.simps)
      (auto simp: Let_def split: if_splits Option.bind_splits prod.splits dest!: frames step)
qed

lemma cheat_code_frame [frames]: "cheat_code fuel c pad i code v s = Some (k, t) \<Longrightarrow> cpu_view t = cpu_view s"
  by (auto simp: cheat_code_def Let_def skip_if_def peek_def split: if_splits Option.bind_splits dest!: frames)

lemma run_codes_frame [frames]: "run_codes fuel c pad i s = Some t \<Longrightarrow> cpu_view t = cpu_view s"
proof (induction "cheat_count c - i" arbitrary: i s rule: less_induct)
  case less
  have step: "run_codes fuel c pad (Suc k) s' = Some t \<Longrightarrow> i \<le> k \<Longrightarrow> i < cheat_count c \<Longrightarrow> cpu_view t = cpu_view s'" for k s'
    by (rule less.hyps [of "Suc k"]) auto
  have both: "cheat_code fuel c pad i code v s = Some (k, t) \<Longrightarrow> i \<le> k \<and> cpu_view t = cpu_view s" for code v k t
    using cheat_code_index cheat_code_frame by blast
  show ?case
    using less.prems by (subst (asm) run_codes.simps)
      (auto split: if_splits option.splits prod.splits dest!: both step)
qed

lemma run_cheats_frame [frames]: "run_cheats fuel is s = Some t \<Longrightarrow> cpu_view t = cpu_view s"
  by (induction "is" arbitrary: s) (auto split: Option.bind_splits if_splits dest!: frames)

lemma hook_frame: "cheat_hook_gba fuel s = Some t \<Longrightarrow> cpu_view t = cpu_view s"
  by (auto simp: cheat_hook_gba_def process_cheats_def split: if_splits dest!: frames)

section \<open>The bus of the machine\<close>

interpretation gba: cpu_bus "gba_bus fuel" for fuel
  by unfold_locales (auto simp: gba_bus_def dest: load_frame store_frame fetch_frame hook_frame)

section \<open>Events\<close>

text \<open>Drawing a line does not concern the processor either.\<close>

lemma update_scanline_frame [frames]: "update_scanline s = Some t \<Longrightarrow> cpu_view t = cpu_view s"
  by (auto simp: update_scanline_def sort_objs_def order_obj_def draw_line_def advance_references_def Let_def
      split: Option.bind_splits if_splits prod.splits)

lemma event_frames [simp]:
  "cpu_view (video_reload_counters s) = cpu_view s" "cpu_view (add_video d s) = cpu_view s"
  "cpu_view (dma_sleep c s) = cpu_view s" "cpu_view (plan_cycles c s) = cpu_view s"
proof -
  show d: "cpu_view (dma_sleep c s) = cpu_view s" for c s by (simp add: dma_sleep_def Let_def)
  show "cpu_view (video_reload_counters s) = cpu_view s" "cpu_view (add_video d s) = cpu_view s"
    by (simp_all add: video_reload_counters_def add_video_def)
  show "cpu_view (plan_cycles c s) = cpu_view s" by (simp add: plan_cycles_def Let_def d)
qed

lemma transfer_frame [frames]: "dma_transfer fuel n s = Some (a, c, t) \<Longrightarrow> cpu_view t = cpu_view s"
  using dma_transfer_frame [of fuel] by (simp add: dma_frame_def)

lemma refill_frame [frames]: "refill_queue fuel n c s = Some (x, t) \<Longrightarrow> cpu_view t = cpu_view s"
  by (auto simp: refill_queue_def split: Option.bind_splits if_splits dest: frames)

lemma sound_timer_frame [frames]: "sound_timer fuel st c s = Some (x, t) \<Longrightarrow> cpu_view t = cpu_view s"
  by (auto simp: sound_timer_def Let_def split: Option.bind_splits if_splits dest!: frames)

lemma timer_sound_frame [frames]: "timer_sound fuel n tm s = Some (x, t) \<Longrightarrow> cpu_view t = cpu_view s"
  by (auto simp: timer_sound_def split: Option.bind_splits if_splits dest!: frames)

lemma cascade_frame [frames]: "cascade n s = Some t \<Longrightarrow> cpu_view t = cpu_view s"
  by (auto simp: cascade_def Let_def split: Option.bind_splits if_splits)

lemma update_timer_frame [frames]: "update_timer fuel c n s = Some (i, x, t) \<Longrightarrow> cpu_view t = cpu_view s"
  by (auto simp: update_timer_def Let_def split: Option.bind_splits if_splits dest!: frames)

lemma update_timers_frame [frames]: "update_timers fuel c s = Some (i, x, t) \<Longrightarrow> cpu_view t = cpu_view s"
  by (auto simp: update_timers_def split: Option.bind_splits dest!: frames)

lemma blank_dmas_frame [frames]: "blank_dmas fuel st is c s = Some (x, t) \<Longrightarrow> cpu_view t = cpu_view s"
  by (induction "is" arbitrary: c s) (auto split: Option.bind_splits if_splits dest!: frames)

lemma complete_frame_frame [frames]: "complete_frame fuel s = Some t \<Longrightarrow> cpu_view t = cpu_view s"
  by (auto simp: complete_frame_def process_cheats_def split: Option.bind_splits if_splits dest!: frames)

lemma next_line_frame [frames]: "next_line fuel c d v s = Some (i, d', v', x, b, t) \<Longrightarrow> cpu_view t = cpu_view s"
  by (auto simp: next_line_def Let_def split: Option.bind_splits if_splits dest!: frames)

lemma enter_hblank_frame [frames]:
  "enter_hblank fuel c d s = Some (i, d', x, t) \<Longrightarrow> cpu_view t = cpu_view s"
  by (auto simp: enter_hblank_def Let_def split: Option.bind_splits if_splits dest!: frames)

lemma video_event_frame [frames]:
  "video_event fuel c s = Some (i, x, b, t) \<Longrightarrow> cpu_view t = cpu_view s"
  by (auto simp: video_event_def Let_def split: Option.bind_splits if_splits prod.splits
      dest!: frames)

lemma serial_port_frame [frames]: "update_serial_port p c s = Some (b, t) \<Longrightarrow> cpu_view t = cpu_view s"
  by (auto simp: update_serial_port_def split: Option.bind_splits)

section \<open>The invariant through a frame\<close>

lemma cpu_ok_frame: "cpu_view t = cpu_view s \<Longrightarrow> cpu_ok s \<Longrightarrow> cpu_ok t"
  by (rule cpu_ok_view [OF view_mode_view])

lemma cpu_ok_simps [simp]:
  "cpu_ok (s\<lparr>cycles := n\<rparr>) = cpu_ok s" "cpu_ok (upd f g) = cpu_ok g" "cpu_ok (iow r v g) = cpu_ok g"
  "cpu_ok (snd (flag_interrupt irq g)) = cpu_ok g"
  by (metis cpu_ok_frame cpu_view_simps(2) pure_frames(1,2) register_frames(5))+

lemma raise_ok: "check_and_raise_interrupts M s = Some (b, t) \<Longrightarrow> cpu_ok s \<Longrightarrow> cpu_ok t"
proof -
  assume r: "check_and_raise_interrupts M s = Some (b, t)" and ok: "cpu_ok s"
  have "cpu_ok (set_reg REG_BUS_VALUE v s)" for v by (rule cpu_ok_frame [OF _ ok]) simp
  moreover have "cpu_ok (wake_up u)" if "cpu_ok u" for u :: "'a cpu"
    by (rule cpu_ok_frame [OF _ that]) (simp add: wake_up_def)
  ultimately show "cpu_ok t"
    using r ok by (auto simp: check_and_raise_interrupts_def cpu_ok_def split: if_splits Option.bind_splits
        dest!: enter_irq_ok [unfolded cpu_ok_def])
qed

lemma raise_frame:
  "check_and_raise_interrupts M u = Some (b, v) \<Longrightarrow> cpu_view u = cpu_view s \<Longrightarrow> cpu_ok s \<Longrightarrow> cpu_ok v"
  by (blast intro: raise_ok cpu_ok_frame)

lemma flag_frame: "cpu_view (if b then snd (flag_interrupt irq s) else s) = cpu_view s"
  by simp

lemma plan_ok: "cpu_ok t \<Longrightarrow> cpu_ok (plan_cycles c t)"
  by (rule cpu_ok_frame) simp_all

lemma update_round_ok:
  "update_round fuel p r s = Some (c, f, b, t) \<Longrightarrow> cpu_ok s \<Longrightarrow> cpu_ok t"
  unfolding update_round_def Let_def
  by (auto split: Option.bind_splits if_splits
      dest!: frames intro!: plan_ok elim!: raise_frame [where s = s])

lemma update_loop_ok:
  "update_loop fuel polls k r b s = Some x \<Longrightarrow> cpu_ok s \<Longrightarrow> cpu_ok (snd (snd (snd x)))"
proof (induction rule: update_loop.raw_induct [rotated 1, consumes 1])
  case (1 run fuel polls k r b s x)
  then obtain c f i t where t: "update_round fuel (polls k) r s = Some (c, f, i, t)"
    and x: "(if reg t CPU_HALT_STATE \<noteq> CPU_ACTIVE \<and> \<not> f then run fuel polls (Suc k) 0 (b \<or> i) t
             else Some (c, f, b \<or> i, t)) = Some x"
    by (auto split: Option.bind_splits)
  have "cpu_ok t" by (rule update_round_ok [OF t 1(3)])
  then show ?case using x 1(1) by (auto split: if_splits)
qed

lemma wake_step_ok: "wake_step fuel polls k s = Some (b, t) \<Longrightarrow> cpu_ok s \<Longrightarrow> cpu_ok t"
  by (auto simp: wake_step_def update_gba_def Let_def split: Option.bind_splits if_splits
      dest!: update_loop_ok)

lemma frame_loop_ok: "frame_loop fuel polls k s = Some t \<Longrightarrow> cpu_ok s \<Longrightarrow> cpu_ok t"
proof (induction rule: frame_loop.raw_induct [rotated 1, consumes 1])
  case (1 run fuel polls k s t)
  note wake = wake_step_ok [of fuel polls]
  obtain b u where u: "(if reg s CPU_HALT_STATE \<noteq> CPU_ACTIVE then wake_step fuel polls k s else Some (False, s))
      = Some (b, u)" using 1(2) by (auto split: Option.bind_splits)
  have ok: "cpu_ok u" using u wake 1(3) by (auto split: if_splits)
  show ?case
  proof (cases b)
    case True
    then show ?thesis using 1(2) u ok by simp
  next
    case False
    then obtain l v where v: "execute_until_update (gba_bus fuel) u = Some (l, v)"
      and rest: "(if l = Alert then run fuel polls (k + 1) v
           else wake_step fuel polls (k + 1) v \<bind> (\<lambda>(stop, s). if stop then Some s else run fuel polls (k + 2) s)) = Some t"
      using 1(2) u by (auto split: Option.bind_splits)
    have "cpu_ok v" using gba.execute_until_update_ok [OF v ok] by simp
    then show ?thesis using rest wake 1(1) by (auto split: if_splits Option.bind_splits)
  qed
qed

lemma update_input_ok: "update_input fuel period pulse pressed s = Some t \<Longrightarrow> cpu_ok s \<Longrightarrow> cpu_ok t"
  by (auto simp: update_input_def trigger_key_def Let_def split: Option.bind_splits if_splits prod.splits
      dest!: raise_ok)

lemma run_frame_ok:
  "run_frame fuel polls period pulse pressed s = Some t \<Longrightarrow> cpu_ok s \<Longrightarrow> cpu_ok t"
  by (auto simp: run_frame_def execute_arm_def device_frame_update_def Let_def split: Option.bind_splits if_splits
      dest!: update_input_ok frame_loop_ok)

end
