(* ===== verification/SerialPortProps.thy ===== *)
theory SerialPortProps
  imports SerialPort
begin

text \<open>
  What the serial port guarantees: whatever the game writes and the network delivers,
  the emulated devices stay in their arrays; an exchange ends after its cycles with one
  interrupt; the Game Boy Player answers its fixed sequence; the session admits a bounded
  number of clients.
\<close>

section \<open>Game Boy Player\<close>

lemma gbp_seq_length [simp]: "length gbp_seq = 16"
  by (simp add: gbp_seq_def)

fun gbp_run :: "u32 \<Rightarrow> u32 \<Rightarrow> u32 list \<Rightarrow> gbp \<Rightarrow> rumble \<Rightarrow> (u32 list \<times> gbp \<times> rumble) option" where
  "gbp_run ticks pc [] g r = Some ([], g, r)"
| "gbp_run ticks pc (v # vs) g r = do {
     (w, g, r) \<leftarrow> gbp_transfer ticks pc v g r;
     (ws, g, r) \<leftarrow> gbp_run ticks pc vs g r;
     Some (w # ws, g, r) }"

lemma gbp_run_mid:
  assumes "gbp_seq_n g + length vs < 16"
  shows "\<exists>g'. gbp_run ticks pc vs g r = Some (take (length vs) (drop (gbp_seq_n g) gbp_seq), g', r) \<and>
     gbp_seq_n g' = gbp_seq_n g + length vs \<and> gbp_rumble g' = gbp_rumble g \<and>
     gbp_allow_rumble g' = (gbp_allow_rumble g \<or> (vs \<noteq> [] \<and> 0x08000000 \<le> pc \<and> pc < 0x0E000000))"
  using assms
proof (induction vs arbitrary: g)
  case (Cons v vs)
  let ?g = "g\<lparr>gbp_seq_n := gbp_seq_n g + 1, gbp_allow_rumble := gbp_allow_rumble g \<or> (0x08000000 \<le> pc \<and> pc < 0x0E000000)\<rparr>"
  have "gbp_transfer ticks pc v g r = Some (gbp_seq ! gbp_seq_n g, ?g, r)"
    using Cons.prems by (simp add: gbp_transfer_def)
  moreover have "drop (gbp_seq_n g) gbp_seq = gbp_seq ! gbp_seq_n g # drop (Suc (gbp_seq_n g)) gbp_seq"
    using Cons.prems by (simp add: Cons_nth_drop_Suc)
  ultimately show ?case using Cons.IH [of ?g] Cons.prems by auto
qed simp

text \<open>C15: the Game Boy Player handshake. From position 0 any sixteen words are answered by the
  sixteen words of the fixed sequence and the device is at position 0 again; once the
  program has run from the cartridge, the motor then follows bit 1 of the last word.\<close>

theorem gbp_handshake:
  assumes "gbp_seq_n g = 0" "length vs = 15" "0x08000000 \<le> pc" "pc < 0x0E000000"
  shows "gbp_run ticks pc (vs @ [v]) g r =
     Some (gbp_seq, \<lparr>gbp_seq_n = 0, gbp_rumble = (v AND 2 \<noteq> 0), gbp_allow_rumble = True\<rparr>,
           write_rumble ticks (gbp_rumble g) (v AND 2 \<noteq> 0) r)"
proof -
  have app: "gbp_run ticks pc (a @ b) h q = do {
     (x, h, q) \<leftarrow> gbp_run ticks pc a h q; (y, h, q) \<leftarrow> gbp_run ticks pc b h q; Some (x @ y, h, q) }" for a b h q
    by (induction a arbitrary: h q) (auto split: prod.splits Option.bind_splits)
  from gbp_run_mid [of g vs ticks pc r] assms obtain g' where
    g': "gbp_run ticks pc vs g r = Some (take 15 gbp_seq, g', r)" "gbp_seq_n g' = 15"
      "gbp_rumble g' = gbp_rumble g" "gbp_allow_rumble g'" by auto
  have last: "gbp_transfer ticks pc v g' r = Some (gbp_seq ! 15,
      \<lparr>gbp_seq_n = 0, gbp_rumble = (v AND 2 \<noteq> 0), gbp_allow_rumble = True\<rparr>,
      write_rumble ticks (gbp_rumble g) (v AND 2 \<noteq> 0) r)"
    using g' by (cases g') (simp add: gbp_transfer_def Let_def)
  have "take 15 gbp_seq @ [gbp_seq ! 15] = gbp_seq" by (simp add: gbp_seq_def)
  then show ?thesis using g' last by (simp add: app)
qed

lemma gbp_handshake_witness:
  "gbp_run 7 0x08000100 (replicate 15 0 @ [2]) \<lparr>gbp_seq_n = 0, gbp_rumble = False, gbp_allow_rumble = False\<rparr>
      \<lparr>rumble_enable_tick = 0, rumble_ticks = 0\<rparr> =
     Some (gbp_seq, \<lparr>gbp_seq_n = 0, gbp_rumble = True, gbp_allow_rumble = True\<rparr>,
           \<lparr>rumble_enable_tick = 7, rumble_ticks = 0\<rparr>)"
  using gbp_handshake [where g = "\<lparr>gbp_seq_n = 0, gbp_rumble = False, gbp_allow_rumble = False\<rparr>"
      and vs = "replicate 15 0" and pc = "0x08000100" and ticks = 7 and v = 2
      and r = "\<lparr>rumble_enable_tick = 0, rumble_ticks = 0\<rparr>"]
  by (simp add: write_rumble_def del: gbp_run.simps)

lemma gbp_state_roundtrip:
  assumes "gbp_seq_n g < 16"
  shows "gbp_set_state (gbp_get_state g) = g"
proof -
  have "\<forall>n \<in> {0..<16}. \<forall>a b. gbp_set_state (gbp_get_state \<lparr>gbp_seq_n = n, gbp_rumble = a, gbp_allow_rumble = b\<rparr>)
      = \<lparr>gbp_seq_n = n, gbp_rumble = a, gbp_allow_rumble = b\<rparr>"
    by (simp add: gbp_set_state_def gbp_get_state_def atLeastLessThan_nat_numeral all_bool_eq)
  with assms show ?thesis by (cases g) auto
qed

lemma gbp_transfer_total:
  assumes "gbp_seq_n g < 16"
  shows "\<exists>w g' r'. gbp_transfer ticks pc v g r = Some (w, g', r') \<and> gbp_seq_n g' < 16"
  using assms by (simp add: gbp_transfer_def Let_def)

section \<open>Ending an exchange\<close>

fun serial_run :: "session \<Rightarrow> u32 \<Rightarrow> u32 list \<Rightarrow> serial \<Rightarrow> (bool list \<times> serial) option" where
  "serial_run ss ticks [] s = Some ([], s)"
| "serial_run ss ticks (c # cs) s = do {
     (irq, s) \<leftarrow> update_serial ss ticks [] c s;
     (irqs, s) \<leftarrow> serial_run ss ticks cs s;
     Some (irq # irqs, s) }"

lemma serial_run_counting:
  assumes "serial_mode ss = SERIAL_MODE_GBP" "sum_list (map unat cs) < unat (serial_irq_cycles s)"
  shows "\<exists>t. serial_run ss ticks cs s = Some (replicate (length cs) False, t) \<and>
     t = s\<lparr>serial_irq_cycles := serial_irq_cycles t\<rparr> \<and>
     unat (serial_irq_cycles t) = unat (serial_irq_cycles s) - sum_list (map unat cs)"
  using assms(2)
proof (induction cs arbitrary: s)
  case (Cons c cs)
  let ?s = "s\<lparr>serial_irq_cycles := serial_irq_cycles s - c\<rparr>"
  have lt: "c < serial_irq_cycles s" using Cons.prems by (simp add: word_less_nat_alt)
  then have u: "unat (serial_irq_cycles s - c) = unat (serial_irq_cycles s) - unat c"
    by (simp add: unat_sub order_less_imp_le)
  have "serial_irq_cycles s \<noteq> 0" using Cons.prems by auto
  then have "update_serial ss ticks [] c s = Some (False, ?s)"
    using lt assms(1) by (simp add: update_serial_def device_update_def count_irq_def)
  moreover have "sum_list (map unat cs) < unat (serial_irq_cycles ?s)" using Cons.prems u by simp
  from Cons.IH [OF this] u obtain t where
    "serial_run ss ticks cs ?s = Some (replicate (length cs) False, t)"
    "t = ?s\<lparr>serial_irq_cycles := serial_irq_cycles t\<rparr>"
    "unat (serial_irq_cycles t) = unat (serial_irq_cycles s) - unat c - sum_list (map unat cs)" by auto
  ultimately show ?case by (intro exI [of _ t]) simp
qed simp

text \<open>C14: a Game Boy Player exchange ends once, on time. However the cycles are cut, no
  interrupt is raised before the 8192 cycles of the exchange have passed; the update that
  reaches them clears the busy bit, raises SI, and raises an interrupt exactly when the
  game enabled it.\<close>

theorem gbp_exchange_completes:
  assumes "serial_mode ss = SERIAL_MODE_GBP" "serial_irq_cycles s = 0" "gbp_seq_n (sr_gbp s) < 16"
    and "read_ioreg (sr_regs s) REG_RCNT AND 0x8000 = 0"
    and "value AND 0x2000 = 0" "value AND 0x80 \<noteq> 0" "value AND 0x1 = 0"
    and "sum_list (map unat cs) < 8192" "8192 \<le> sum_list (map unat cs) + unat c"
  shows "\<exists>s1 t. write_siocnt ss ticks pc value s = Some s1 \<and>
     serial_run ss ticks (cs @ [c]) s1 = Some (replicate (length cs) False @ [value AND 0x4000 \<noteq> 0], t) \<and>
     serial_irq_cycles t = 0 \<and> read_ioreg (sr_regs t) REG_SIOCNT AND 0x80 = 0 \<and>
     read_ioreg (sr_regs t) REG_SIOCNT AND 0x4 \<noteq> 0"
proof -
  let ?old = "read_ioreg (sr_regs s) REG_SIOCNT"
  let ?nv = "(value AND 0x7F8B) OR (?old AND 0x4)"
  have bits: "((v AND 0x7F8B) OR (o' AND 0x4)) AND 0x2000 = v AND 0x2000"
    "((v AND 0x7F8B) OR (o' AND 0x4)) AND 0x80 = v AND 0x80"
    "((v AND 0x7F8B) OR (o' AND 0x4)) AND 0x1 = v AND 0x1"
    "((v AND 0x7F8B) OR (o' AND 0x4)) AND 0x4000 = v AND 0x4000" for v o' :: u16
    by (simp_all add: bit.conj_disj_distrib2 and.assoc)
  have nm: "get_serial_mode ?nv (read_ioreg (sr_regs s) REG_RCNT) = SERIAL_NORMAL"
    using assms(4,5) bits by (simp add: get_serial_mode_def)
  obtain w g r where tr: "gbp_transfer ticks pc (read_ioreg32 (sr_regs s) REG_SIODATA32_L) (sr_gbp s) (sr_rumble s) = Some (w, g, r)"
    using gbp_transfer_total [OF assms(3)] by blast
  let ?s1 = "wreg REG_SIOCNT ?nv ((put_data32 w (s\<lparr>sr_gbp := g, sr_rumble := r\<rparr>))\<lparr>serial_irq_cycles := 8192\<rparr>)"
  have w: "write_siocnt ss ticks pc value s = Some ?s1"
    using nm tr assms(1,2,6,7) bits by (simp add: write_siocnt_def siocnt_gbp_def Let_def)
  have i: "serial_irq_cycles ?s1 = 8192" by (simp add: wreg_def)
  from serial_run_counting [OF assms(1), of cs ?s1 ticks] assms(8) obtain u where
    u: "serial_run ss ticks cs ?s1 = Some (replicate (length cs) False, u)"
      "u = ?s1\<lparr>serial_irq_cycles := serial_irq_cycles u\<rparr>"
      "unat (serial_irq_cycles u) = 8192 - sum_list (map unat cs)"
    unfolding i by auto
  have ru: "read_ioreg (sr_regs u) REG_SIOCNT = ?nv" "read_ioreg (sr_regs u) REG_RCNT = read_ioreg (sr_regs s) REG_RCNT"
    using arg_cong [OF u(2), of "\<lambda>x. read_ioreg (sr_regs x) REG_SIOCNT"]
      arg_cong [OF u(2), of "\<lambda>x. read_ioreg (sr_regs x) REG_RCNT"]
    by (simp_all add: wreg_def put_data32_def)
  have c: "serial_irq_cycles u \<noteq> 0" "\<not> c < serial_irq_cycles u"
    using u(3) assms(8,9) by (auto simp: word_less_nat_alt)
  let ?t = "wreg REG_SIOCNT ((?nv AND NOT 0x80) OR 0x4) (u\<lparr>serial_irq_cycles := 0\<rparr>)"
  have fin: "((x AND NOT 0x80) OR 0x4) AND 0x4000 = x AND 0x4000" "((x AND NOT 0x80) OR 0x4) AND 0x80 = 0"
    "((x AND NOT 0x80) OR 0x4) AND 0x4 \<noteq> 0" for x :: u16
    by (simp_all add: bit.conj_disj_distrib2 and.assoc word_eq_iff_unsigned)
  have "update_serial ss ticks [] c u = Some (value AND 0x4000 \<noteq> 0, ?t)"
    using assms(1) c nm ru bits(4) fin(1)
    by (simp add: update_serial_def device_update_def count_irq_def finish_transfer_def wreg_def Let_def)
  moreover have app: "serial_run ss ticks (a @ b) h = do {
     (x, h) \<leftarrow> serial_run ss ticks a h; (y, h) \<leftarrow> serial_run ss ticks b h; Some (x @ y, h) }" for a b h
    by (induction a arbitrary: h) (auto split: prod.splits Option.bind_splits)
  ultimately have "serial_run ss ticks (cs @ [c]) ?s1 =
      Some (replicate (length cs) False @ [value AND 0x4000 \<noteq> 0], ?t)"
    using u(1) by simp
  moreover have "read_ioreg (sr_regs ?t) REG_SIOCNT = (?nv AND NOT 0x80) OR 0x4" "serial_irq_cycles ?t = 0"
    by (simp_all add: wreg_def)
  ultimately show ?thesis using w fin(2,3) by metis
qed

definition serial_boot :: serial where
  "serial_boot = \<lparr>serial_irq_cycles = 0, sr_regs = (\<lambda>_. 0), sr_rfu = rfu_boot, sr_poke = poke_boot,
     sr_aw = aw_boot, sr_gbp = \<lparr>gbp_seq_n = 0, gbp_rumble = False, gbp_allow_rumble = False\<rparr>,
     sr_rumble = \<lparr>rumble_enable_tick = 0, rumble_ticks = 0\<rparr>\<rparr>"

lemma gbp_exchange_completes_witness:
  "\<exists>s1 t. write_siocnt \<lparr>serial_mode = 1, netplay_client_id = 0, netplay_num_clients = 0\<rparr> 0 0 0x4080 serial_boot = Some s1 \<and>
     serial_run \<lparr>serial_mode = 1, netplay_client_id = 0, netplay_num_clients = 0\<rparr> 0 ([5000, 3000] @ [192]) s1
       = Some (replicate (length [5000, 3000 :: u32]) False @ [(0x4080 :: u16) AND 0x4000 \<noteq> 0], t) \<and>
     serial_irq_cycles t = 0 \<and> read_ioreg (sr_regs t) REG_SIOCNT AND 0x80 = 0 \<and>
     read_ioreg (sr_regs t) REG_SIOCNT AND 0x4 \<noteq> 0"
  by (rule gbp_exchange_completes) (simp_all add: serial_boot_def read_ioreg_def)

section \<open>Mode detection in RCNT writes\<close>

text \<open>A write to RCNT takes effect with the mode of the previous value. While RCNT selects a
  serial mode (bit 15 clear), no value written, not even one that selects the GPIO mode and
  pulls the reset pin, resets the wireless adapter.\<close>

theorem rcnt_reset_missed:
  assumes "read_ioreg (sr_regs s) REG_RCNT AND 0x8000 = 0"
  shows "sr_rfu (write_rcnt ss ticks value s) = sr_rfu s"
  using assms
  by (auto simp: write_rcnt_def get_serial_mode_def Let_def wreg_def serialproto_reset_def)

lemma rcnt_reset_missed_witness:
  "sr_rfu (write_rcnt \<lparr>serial_mode = 2, netplay_client_id = 0, netplay_num_clients = 0\<rparr> 5 0x8020 serial_boot) = rfu_boot"
  using rcnt_reset_missed [of serial_boot] by (simp add: serial_boot_def read_ioreg_def)

section \<open>Clients of a session\<close>

fun connect_many :: "nat \<Rightarrow> session \<Rightarrow> session option" where
  "connect_many 0 ss = Some ss"
| "connect_many (Suc n) ss = do { (ok, ss) \<leftarrow> netpacket_connected ss; connect_many n ss }"

text \<open>A session of a multiplayer mode never counts more clients than its devices can
  address: however many ask, at most 31 join a wireless session and at most 3 a cable
  session.\<close>

lemma session_clients_bounded:
  assumes "2 \<le> serial_mode ss" "serial_mode ss \<le> 5"
    and "netplay_num_clients ss \<le> (if serial_mode ss = SERIAL_MODE_RFU then 31 else 3)"
  shows "\<exists>t. connect_many n ss = Some t \<and> serial_mode t = serial_mode ss \<and>
     netplay_num_clients t \<le> (if serial_mode ss = SERIAL_MODE_RFU then 31 else 3)"
  using assms
proof (induction n arbitrary: ss)
  case (Suc n)
  let ?m = "if serial_mode ss = SERIAL_MODE_RFU then 31 else 3 :: u32"
  have "serial_mode ss = 2 \<or> serial_mode ss = 3 \<or> serial_mode ss = 4 \<or> serial_mode ss = 5"
    using Suc.prems by auto
  then have m: "max_clients (serial_mode ss) = Some ?m"
    by (auto simp: max_clients_def)
  have le: "?m \<le> netplay_num_clients ss \<or> netplay_num_clients ss + 1 \<le> ?m"
    using Suc.prems(3) by (metis inc_le linorder_not_less)
  show ?case
  proof (cases "?m \<le> netplay_num_clients ss")
    case True
    then show ?thesis using Suc.IH [OF Suc.prems] m by (simp add: netpacket_connected_def)
  next
    case False
    with le have "netplay_num_clients ss + 1 \<le> ?m" by blast
    then show ?thesis
      using Suc.IH [of "ss\<lparr>netplay_num_clients := netplay_num_clients ss + 1\<rparr>"] Suc.prems m False
      by (simp add: netpacket_connected_def)
  qed
qed simp

lemma session_clients_bounded_witness:
  "\<exists>t. connect_many 100 \<lparr>serial_mode = 3, netplay_client_id = 0, netplay_num_clients = 0\<rparr> = Some t \<and>
     serial_mode t = 3 \<and> netplay_num_clients t \<le> 3"
  using session_clients_bounded [of "\<lparr>serial_mode = 3, netplay_client_id = 0, netplay_num_clients = 0\<rparr>" 100]
  by (simp del: connect_many.simps)

text \<open>In the modes with no network device the limit wraps: 0 - 1 is the largest word, so
  every client is accepted.\<close>

lemma session_limit_wraps:
  assumes "serial_mode ss \<in> {SERIAL_MODE_DISABLED, SERIAL_MODE_GBP, SERIAL_MODE_AUTO}"
    and "netplay_num_clients ss < 0xFFFFFFFF"
  shows "netpacket_connected ss = Some (True, ss\<lparr>netplay_num_clients := netplay_num_clients ss + 1\<rparr>)"
proof -
  have "max_clients (serial_mode ss) = Some 0xFFFFFFFF"
    using assms(1) by (auto simp: max_clients_def)
  with assms(2) show ?thesis by (simp add: netpacket_connected_def)
qed

lemma session_limit_wraps_witness:
  "netpacket_connected \<lparr>serial_mode = 1, netplay_client_id = 0, netplay_num_clients = 500\<rparr>
     = Some (True, \<lparr>serial_mode = 1, netplay_client_id = 0, netplay_num_clients = 501\<rparr>)"
  using session_limit_wraps [of "\<lparr>serial_mode = 1, netplay_client_id = 0, netplay_num_clients = 500\<rparr>"] by simp

section \<open>The whole port\<close>

definition session_ok :: "session \<Rightarrow> bool" where
  "session_ok ss \<longleftrightarrow> serial_mode ss \<in> {SERIAL_MODE_DISABLED, SERIAL_MODE_GBP, SERIAL_MODE_RFU,
      SERIAL_MODE_SERIAL_POKE, SERIAL_MODE_AUTO}
     \<and> (serial_mode ss = SERIAL_MODE_SERIAL_POKE \<longrightarrow> netplay_client_id ss < 4)"

definition serial_wf :: "session \<Rightarrow> serial \<Rightarrow> bool" where
  "serial_wf ss s \<longleftrightarrow> rfu_wf (sr_rfu s) \<and> gbp_seq_n (sr_gbp s) < 16 \<and>
     (serial_mode ss = SERIAL_MODE_SERIAL_POKE \<longrightarrow> poke_wf (unat (netplay_client_id ss)) (sr_poke s))"

datatype serial_event =
    EvSiocnt u32 u32 u16
  | EvRcnt u32 u16
  | EvReg nat u16
  | EvCycles u32 "(u16 \<times> u8 list) list" u32
  | EvPacket u32 "u8 list" u16

fun serial_step :: "session \<Rightarrow> serial_event \<Rightarrow> serial \<Rightarrow> serial option" where
  "serial_step ss (EvSiocnt ticks pc v) s = write_siocnt ss ticks pc v s"
| "serial_step ss (EvRcnt ticks v) s = Some (write_rcnt ss ticks v s)"
| "serial_step ss (EvReg r v) s = Some (wreg r v s)"
| "serial_step ss (EvCycles ticks polled c) s = map_option snd (update_serial ss ticks polled c s)"
| "serial_step ss (EvPacket ticks buf cid) s = netpacket_receive ss ticks buf cid s"

text \<open>What the code relies on, per attached device: a game sends at most 24 words in one command of the
  wireless adapter, whose packets are those its own senders build; a packet of the Pokemon cable
  comes from one of four devices.\<close>

fun serial_env_ok :: "session \<Rightarrow> serial_event \<Rightarrow> serial \<Rightarrow> bool" where
  "serial_env_ok ss (EvSiocnt ticks pc v) s =
     (serial_mode ss = SERIAL_MODE_RFU \<longrightarrow> game_word_ok (read_ioreg32 (sr_regs s) REG_SIODATA32_L) (sr_rfu s))"
| "serial_env_ok ss (EvCycles ticks polled c) s = (serial_mode ss = SERIAL_MODE_RFU \<longrightarrow> list_all (net_ok \<circ> snd) polled)"
| "serial_env_ok ss (EvPacket ticks buf cid) s =
     ((serial_mode ss = SERIAL_MODE_RFU \<longrightarrow> net_ok buf) \<and> (serial_mode ss = SERIAL_MODE_SERIAL_POKE \<longrightarrow> cid < 4))"
| "serial_env_ok ss (EvRcnt ticks v) s = True"
| "serial_env_ok ss (EvReg r v) s = True"

lemma serial_wf_regs [simp]:
  "serial_wf ss (wreg r v s) = serial_wf ss s" "serial_wf ss (put_data32 w s) = serial_wf ss s"
  "serial_wf ss (s\<lparr>serial_irq_cycles := c\<rparr>) = serial_wf ss s"
  by (simp_all add: serial_wf_def wreg_def put_data32_def)

lemma serialproto_reset_wf: "serial_wf ss s \<Longrightarrow> serial_wf ss (serialproto_reset s)"
  by (simp add: serial_wf_def serialproto_reset_def poke_reset_wf)

lemma siocnt_rfu_ok:
  assumes "serial_wf ss s" "game_word_ok (read_ioreg32 (sr_regs s) REG_SIODATA32_L) (sr_rfu s)"
  shows "\<exists>t. siocnt_rfu ticks v s = Some t \<and> serial_wf ss t"
proof -
  have "rfu_wf (sr_rfu s)" using assms(1) by (simp add: serial_wf_def)
  from rfu_transfer_total [OF this assms(2), of ticks] obtain w t where
    "rfu_transfer ticks (read_ioreg32 (sr_regs s) REG_SIODATA32_L) (sr_rfu s) = Some (w, t)" "rfu_wf t" by blast
  then show ?thesis using assms(1) by (auto simp: siocnt_rfu_def Let_def) (simp_all add: serial_wf_def)
qed

lemma siocnt_gbp_ok:
  assumes "serial_wf ss s"
  shows "\<exists>t. siocnt_gbp ticks pc v s = Some t \<and> serial_wf ss t"
proof -
  have "gbp_seq_n (sr_gbp s) < 16" using assms by (simp add: serial_wf_def)
  from gbp_transfer_total [OF this] obtain w g r where
    "gbp_transfer ticks pc (read_ioreg32 (sr_regs s) REG_SIODATA32_L) (sr_gbp s) (sr_rumble s) = Some (w, g, r)"
    "gbp_seq_n g < 16" by blast
  then show ?thesis using assms by (auto simp: siocnt_gbp_def) (simp add: serial_wf_def)
qed

lemma siocnt_multi_ok:
  assumes "serial_wf ss s" "session_ok ss"
  shows "\<exists>t. siocnt_multi ss v s = Some t \<and> serial_wf ss t"
proof (cases "netplay_client_id ss = 0 \<and> serial_mode ss = SERIAL_MODE_SERIAL_POKE")
  case True
  then have "poke_wf 0 (sr_poke s)" using assms(1) by (simp add: serial_wf_def)
  from serialpoke_master_send_ok [OF this, of "sr_regs s"] obtain p regs where
    "serialpoke_master_send (sr_poke s) (sr_regs s) = Some (p, regs)" "poke_wf 0 p" by blast
  then show ?thesis using assms True
    by (auto simp: siocnt_multi_def Let_def session_ok_def) (simp_all add: serial_wf_def)
qed (use assms in \<open>auto simp: siocnt_multi_def session_ok_def Let_def\<close>)

lemma write_siocnt_ok:
  assumes "serial_wf ss s" "session_ok ss" "serial_env_ok ss (EvSiocnt ticks pc v) s"
  shows "\<exists>t. write_siocnt ss ticks pc v s = Some t \<and> serial_wf ss t"
proof -
  let ?nv = "(v AND 0x7F8B) OR (read_ioreg (sr_regs s) REG_SIOCNT AND 0x4)"
  let ?mv = "(?nv AND 0xFF83) OR serial_mul_siocnt ss"
  have t1: "\<exists>t. siocnt_rfu ticks ?nv s = Some t \<and> serial_wf ss t" if "serial_mode ss = SERIAL_MODE_RFU"
    using siocnt_rfu_ok [OF assms(1), of ticks ?nv] assms(3) that by simp
  from siocnt_gbp_ok [OF assms(1), of ticks pc ?nv] obtain t2 where
    t2: "siocnt_gbp ticks pc ?nv s = Some t2" "serial_wf ss t2" by blast
  from siocnt_multi_ok [OF assms(1,2), of ?mv] obtain t3 where
    t3: "siocnt_multi ss ?mv s = Some t3" "serial_wf ss t3" by blast
  from siocnt_multi_ok [OF serialproto_reset_wf [OF assms(1)] assms(2), of ?mv] obtain t4 where
    t4: "siocnt_multi ss ?mv (serialproto_reset s) = Some t4" "serial_wf ss t4" by blast
  show ?thesis
    unfolding write_siocnt_def Let_def
    using t1 by (cases "get_serial_mode ?nv (read_ioreg (sr_regs s) REG_RCNT)")
      (auto simp: t2 t3 t4 assms(1))
qed

lemma write_rcnt_ok: "serial_wf ss s \<Longrightarrow> serial_wf ss (write_rcnt ss ticks v s)"
proof -
  assume s: "serial_wf ss s"
  then have "serial_wf ss (s\<lparr>sr_rfu := rfu_reset ticks (sr_rfu s)\<rparr>)"
    by (simp add: serial_wf_def rfu_reset_wf rfu_wf_def [of "sr_rfu s"])
  with s serialproto_reset_wf [of ss "wreg REG_RCNT v s"] show ?thesis
    by (auto simp: write_rcnt_def Let_def split: serial_kind.splits) (auto simp: serial_wf_def wreg_def)
qed

lemma device_update_ok:
  assumes "serial_wf ss s" "session_ok ss" "serial_env_ok ss (EvCycles ticks polled c) s"
  shows "\<exists>irq t. device_update ss ticks polled c s = Some (irq, t) \<and> serial_wf ss t"
proof -
  consider "serial_mode ss = SERIAL_MODE_RFU" | "serial_mode ss = SERIAL_MODE_SERIAL_POKE"
    | "serial_mode ss \<in> {SERIAL_MODE_DISABLED, SERIAL_MODE_GBP, SERIAL_MODE_AUTO}"
    using assms(2) by (auto simp: session_ok_def)
  then show ?thesis
  proof cases
    case 1
    then show ?thesis using rfu_update_total [of "sr_rfu s" polled ticks c "sr_regs s"] assms(1,3)
      by (auto simp: device_update_def serial_wf_def)
  next
    case 2
    then have "unat (netplay_client_id ss) < 4" "poke_wf (unat (netplay_client_id ss)) (sr_poke s)"
      using assms(1,2) by (simp_all add: session_ok_def serial_wf_def word_less_nat_alt)
    from serialpoke_update_ok [OF this(2,1), of c "sr_regs s"] show ?thesis
      using 2 assms(1) by (auto simp: device_update_def serial_wf_def)
  next
    case 3
    then show ?thesis using assms(1) by (auto simp: device_update_def)
  qed
qed

lemma update_serial_ok:
  assumes "serial_wf ss s" "session_ok ss" "serial_env_ok ss (EvCycles ticks polled c) s"
  shows "\<exists>irq t. update_serial ss ticks polled c s = Some (irq, t) \<and> serial_wf ss t"
proof -
  obtain irq t where d: "device_update ss ticks polled c s = Some (irq, t)" "serial_wf ss t"
    using device_update_ok [OF assms] by blast
  have ci: "serial_wf ss (snd (count_irq c t))" using d(2) by (simp add: count_irq_def)
  then have "serial_wf ss (snd (finish_transfer (snd (count_irq c t))))"
    by (auto simp: finish_transfer_def Let_def split: serial_kind.splits)
  with ci d show ?thesis
    by (cases "count_irq c t"; cases "finish_transfer (snd (count_irq c t))")
      (auto simp: update_serial_def Let_def)
qed

lemma netpacket_receive_ok:
  assumes "serial_wf ss s" "session_ok ss" "serial_env_ok ss (EvPacket ticks buf cid) s"
  shows "\<exists>t. netpacket_receive ss ticks buf cid s = Some t \<and> serial_wf ss t"
proof -
  consider "serial_mode ss = SERIAL_MODE_RFU" | "serial_mode ss = SERIAL_MODE_SERIAL_POKE"
    | "serial_mode ss \<in> {SERIAL_MODE_DISABLED, SERIAL_MODE_GBP, SERIAL_MODE_AUTO}"
    using assms(2) by (auto simp: session_ok_def)
  then show ?thesis
  proof cases
    case 1
    then obtain r where "rfu_net_receive ticks buf cid (sr_rfu s) = Some r" "rfu_wf r"
      using rfu_net_receive_total [of "sr_rfu s" buf ticks cid] assms(1,3)
      by (auto simp: serial_wf_def rfu_wf_def net_post_def dest: fsm_same_link)
    then show ?thesis using 1 assms(1) by (auto simp: netpacket_receive_def serial_wf_def)
  next
    case 2
    then have "unat cid < 4" "poke_wf (unat (netplay_client_id ss)) (sr_poke s)"
      using assms(1,3) by (simp_all add: serial_wf_def word_less_nat_alt)
    from serialpoke_net_receive_ok [OF this(2,1), of buf] show ?thesis
      using 2 assms(1) by (auto simp: netpacket_receive_def serial_wf_def)
  next
    case 3
    then show ?thesis using assms(1) by (auto simp: netpacket_receive_def)
  qed
qed

text \<open>C13: the serial port never leaves its arrays while it is unconnected, emulates a Game Boy Player, the
  wireless adapter or the Pokemon link cable with at most four devices, or has yet to choose: from a well-formed
  state every write of a register, update and packet succeeds and leaves a well-formed
  state. Two bounds are what the code relies on: in a wireless session a game sends at most 24 words in
  one command, and the packets are those the senders of the adapter build; the packets of
  a Pokemon session come from four devices. The Advance Wars cable is not part of the claim.\<close>

theorem serial_port_safe:
  assumes "serial_wf ss s" "session_ok ss" "serial_env_ok ss e s"
  shows "\<exists>t. serial_step ss e s = Some t \<and> serial_wf ss t"
proof (cases e)
  case (EvSiocnt ticks pc v)
  then show ?thesis using write_siocnt_ok [OF assms(1,2), of ticks pc v] assms(3) by simp
next
  case (EvRcnt ticks v)
  then show ?thesis using write_rcnt_ok [OF assms(1)] by simp
next
  case (EvReg r v)
  then show ?thesis using assms(1) by simp
next
  case (EvCycles ticks polled c)
  then obtain irq t where "update_serial ss ticks polled c s = Some (irq, t)" "serial_wf ss t"
    using update_serial_ok [OF assms(1,2), of ticks polled c] assms(3) by auto
  then show ?thesis using EvCycles by simp
next
  case (EvPacket ticks buf cid)
  then show ?thesis using netpacket_receive_ok [OF assms(1,2), of ticks buf cid] assms(3) by simp
qed

lemma serial_port_safe_witness:
  "\<exists>t. serial_step \<lparr>serial_mode = 3, netplay_client_id = 0, netplay_num_clients = 1\<rparr> (EvSiocnt 0 0 0x2083) serial_boot = Some t \<and>
     serial_wf \<lparr>serial_mode = 3, netplay_client_id = 0, netplay_num_clients = 1\<rparr> t"
proof (rule serial_port_safe)
  show "serial_wf \<lparr>serial_mode = 3, netplay_client_id = 0, netplay_num_clients = 1\<rparr> serial_boot"
    using rfu_boot_wf poke_reach_wf [OF poke_start, of 0] by (simp add: serial_wf_def serial_boot_def)
qed (simp_all add: session_ok_def serial_boot_def game_word_ok_def rfu_boot_def)

end
