(* ===== verification/BackupProps.thy ===== *)
theory BackupProps
  imports Backup
begin

text \<open>
  Correctness of the save memory: no sequence of accesses leaves the array, a block
  written to the EEPROM is read back, and the flash command sequences program, erase and
  switch banks without touching anything else.
\<close>

section \<open>The invariant\<close>

definition eeprom_block :: "u32 \<Rightarrow> bool" where
  "eeprom_block a \<longleftrightarrow> unat a + 8 \<le> BACKUP_SIZE"

definition eeprom_fsm :: "backup \<Rightarrow> bool" where
  "eeprom_fsm s \<longleftrightarrow> (case eeprom_mode s of
     EEPROM_BASE_MODE \<Rightarrow> eeprom_counter s < 2
   | EEPROM_ADDRESS_MODE \<Rightarrow> eeprom_counter s < eeprom_bits (eeprom_size s) \<and> drop_bit 16 (eeprom_address s) = 0
   | EEPROM_WRITE_ADDRESS_MODE \<Rightarrow> eeprom_counter s < eeprom_bits (eeprom_size s) \<and> drop_bit 16 (eeprom_address s) = 0
   | EEPROM_WRITE_MODE \<Rightarrow> eeprom_counter s < 64 \<and> eeprom_block (eeprom_address s)
   | EEPROM_READ_MODE \<Rightarrow> eeprom_counter s < 64 \<and> eeprom_block (eeprom_address s)
   | EEPROM_READ_HEADER_MODE \<Rightarrow> eeprom_counter s < 4 \<and> eeprom_block (eeprom_address s)
   | EEPROM_ADDRESS_FOOTER_MODE \<Rightarrow> eeprom_counter s = 0 \<and> eeprom_block (eeprom_address s)
   | EEPROM_WRITE_FOOTER_MODE \<Rightarrow> eeprom_counter s = 0)"

definition backup_wf :: "backup \<Rightarrow> bool" where
  "backup_wf s \<longleftrightarrow> length (gamepak_backup s) = BACKUP_SIZE \<and> flash_bank_num s \<le> 1 \<and> eeprom_fsm s"

lemma eeprom_fsm_upd [simp]:
  "eeprom_fsm (s\<lparr>gamepak_backup := b\<rparr>) = eeprom_fsm s"
  "eeprom_fsm (s\<lparr>backup_type := k\<rparr>) = eeprom_fsm s"
  "eeprom_fsm (s\<lparr>flash_mode := m\<rparr>) = eeprom_fsm s"
  "eeprom_fsm (s\<lparr>flash_command_position := p\<rparr>) = eeprom_fsm s"
  "eeprom_fsm (s\<lparr>flash_bank_cnt := c\<rparr>) = eeprom_fsm s"
  "eeprom_fsm (s\<lparr>flash_bank_num := n\<rparr>) = eeprom_fsm s"
  by (simp_all add: eeprom_fsm_def cong: eeprom_mode_t.case_cong)

lemma backup_reset_wf: "length (gamepak_backup s) = BACKUP_SIZE \<Longrightarrow> backup_wf (backup_reset k s)"
  by (simp add: backup_wf_def eeprom_fsm_def backup_reset_def)

lemma full_address_bound:
  assumes "address \<le> 0xFFFF" "flash_bank_num s \<le> 1"
  shows "full_address address s = unat address + 65536 * unat (flash_bank_num s)"
    and "full_address address s < BACKUP_SIZE"
proof -
  have a: "unat address \<le> 65535" "unat (flash_bank_num s) \<le> 1"
    using assms by (simp_all add: word_le_nat_alt)
  then have "unat (65536 * flash_bank_num s) = 65536 * unat (flash_bank_num s)"
    by (simp add: unat_word_ariths)
  with a show "full_address address s = unat address + 65536 * unat (flash_bank_num s)"
    by (simp add: full_address_def unat_word_ariths)
  with a show "full_address address s < BACKUP_SIZE" by simp
qed

lemma sector_le: "(address :: u32) AND 0xF000 \<le> 0xF000"
  by (simp add: word_and_le1)

lemma fill_backup_wf:
  assumes "backup_wf s" "off + n \<le> BACKUP_SIZE"
  shows "\<exists>t. fill_backup off n s = Some t \<and> backup_wf t"
  using assms by (simp add: fill_backup_def arr_blit_def backup_wf_def)

lemma store_backup_wf:
  assumes "backup_wf s" "i < BACKUP_SIZE"
  shows "\<exists>t. store_backup i v s = Some t \<and> backup_wf t"
  using assms by (simp add: store_backup_def backup_wf_def)

lemma backup_wf_upd [simp]:
  "backup_wf (s\<lparr>backup_type := k\<rparr>) = backup_wf s"
  "backup_wf (s\<lparr>flash_mode := m\<rparr>) = backup_wf s"
  "backup_wf (s\<lparr>flash_command_position := p\<rparr>) = backup_wf s"
  "backup_wf (s\<lparr>flash_bank_cnt := c\<rparr>) = backup_wf s"
  by (simp_all add: backup_wf_def)

lemma settle_type_wf [simp]: "backup_wf (settle_type s) = backup_wf s"
  by (simp add: settle_type_def)

lemma flash_command_wf:
  assumes "backup_wf s"
  shows "\<exists>t. flash_command v s = Some t \<and> backup_wf t"
  using assms fill_backup_wf [of s 0 BACKUP_SIZE] by (auto simp: flash_command_def Let_def)

lemma write_5555_wf:
  assumes "backup_wf s"
  shows "\<exists>t. write_5555 v s = Some t \<and> backup_wf t"
proof -
  define s1 where "s1 = (if flash_command_position s = 0 \<and> v = 0xAA
      then s\<lparr>backup_type := BACKUP_FLASH, flash_command_position := 1\<rparr> else s)"
  have s1: "backup_wf s1" using assms by (simp add: s1_def)
  obtain s2 where s2: "(if flash_command_position s1 = 2
      then map_option (\<lambda>s. s\<lparr>flash_command_position := 0\<rparr>) (flash_command v s1) else Some s1) = Some s2"
      "backup_wf s2"
    using flash_command_wf [OF s1, of v] s1 by (cases "flash_command_position s1 = 2") auto
  from store_backup_wf [OF s2(2), of "0x5555" v] s2 show ?thesis
    by (simp add: write_5555_def Let_def flip: s1_def)
qed

lemma write_backup_wf:
  assumes "backup_wf s" "address \<le> 0xFFFF"
  shows "\<exists>t. write_backup address v s = Some t \<and> backup_wf t"
proof -
  let ?s = "settle_type s" and ?v = "v AND 0xFF"
  have w: "backup_wf ?s" using assms by simp
  then have b: "flash_bank_num ?s \<le> 1" by (simp add: backup_wf_def)
  have u: "unat address < BACKUP_SIZE" using assms(2) by (simp add: word_le_nat_alt)
  have sec: "address AND 0xF000 \<le> 0xFFFF"
    by (rule order_trans [OF sector_le]) simp
  have f: "full_address (address AND 0xF000) ?s + 4096 \<le> BACKUP_SIZE"
    using full_address_bound(1) [OF sec b] sector_le [of address] b
    unfolding word_le_nat_alt by simp
  have bank: "(?v AND 1) \<le> (1 :: u32)" by (rule word_and_le1)
  have bs: "backup_wf (?s\<lparr>flash_bank_num := ?v AND 1, flash_mode := FLASH_BASE_MODE\<rparr>)"
    using w bank by (simp add: backup_wf_def)
  show ?thesis
    using assms(1) w bs write_5555_wf [OF w, of ?v] fill_backup_wf [OF w f]
      store_backup_wf [OF w full_address_bound(2) [OF assms(2) b], of ?v] store_backup_wf [OF w u, of ?v]
    unfolding write_backup_def Let_def by (auto split: if_splits)
qed

lemma read_backup_wf:
  assumes "backup_wf s" "address \<le> 0xFFFF"
  shows "\<exists>v t. read_backup address s = Some (v, t) \<and> backup_wf t"
proof -
  let ?s = "settle_type s"
  have w: "backup_wf ?s" "flash_bank_num ?s \<le> 1" "length (gamepak_backup ?s) = BACKUP_SIZE"
    using assms settle_type_wf [of s] unfolding backup_wf_def by auto
  have u: "unat address < BACKUP_SIZE" using assms(2) by (simp add: word_le_nat_alt)
  show ?thesis
    using assms(1) w u full_address_bound(2) [OF assms(2) w(2)]
    unfolding read_backup_def Let_def by auto
qed

section \<open>EEPROM steps\<close>

lemma bit_address_step:
  assumes "drop_bit 16 (a :: u32) = 0"
  shows "drop_bit 16 (a OR push_bit (15 - n) (v AND 1)) = 0"
proof -
  have "drop_bit 16 (push_bit (15 - n) (v AND 1)) = (0 :: u32)"
    by (rule bit_word_eqI) (auto simp: bit_simps)
  with assms show ?thesis by (simp add: drop_bit_or)
qed

lemma eeprom_block_address:
  assumes "drop_bit 16 (a :: u32) = 0" "n = 10 \<or> n = 2"
  shows "eeprom_block (push_bit 3 (drop_bit n a))"
proof -
  have "unat a div 65536 = 0"
    using assms(1) unat_drop_bit_eq [of 16 a] by (simp add: drop_bit_eq_div)
  then have a: "unat a < 65536" by (simp add: div_eq_0_iff)
  then have "unat (drop_bit n a) \<le> 16383"
    using assms(2) by (auto simp: drop_bit_eq_div unat_div_distrib)
  then have "unat (push_bit 3 (drop_bit n a)) = 8 * unat (drop_bit n a)"
    by (simp add: push_bit_eq_mult unat_word_ariths)
  with \<open>unat (drop_bit n a) \<le> 16383\<close> show ?thesis by (simp add: eeprom_block_def)
qed

lemma eeprom_index_eq:
  assumes "eeprom_block (eeprom_address s)" "eeprom_counter s < 64"
  shows "eeprom_index s = unat (eeprom_address s) + eeprom_counter s div 8"
    and "eeprom_index s < BACKUP_SIZE"
proof -
  have c: "eeprom_counter s div 8 < 8" using assms(2) by auto
  then show e: "eeprom_index s = unat (eeprom_address s) + eeprom_counter s div 8"
    using assms(1) by (simp add: eeprom_index_def eeprom_block_def unat_word_ariths unat_of_nat)
  from c assms(1) show "eeprom_index s < BACKUP_SIZE" by (simp add: e eeprom_block_def)
qed

lemma eeprom_bits_bounds: "2 \<le> eeprom_bits z" "eeprom_bits z \<le> 14"
  by (simp_all add: eeprom_bits_def)

lemma eeprom_addressing_wf:
  assumes "backup_wf s" "eeprom_mode s = EEPROM_ADDRESS_MODE \<or> eeprom_mode s = EEPROM_WRITE_ADDRESS_MODE"
  shows "\<exists>t. eeprom_addressing v s = Some t \<and> backup_wf t"
proof -
  let ?n = "if eeprom_size s = EEPROM_512_BYTE then 10 else 2 :: nat"
  let ?a = "eeprom_address s OR push_bit (15 - eeprom_counter s mod 16) (v AND 1)"
  have d: "drop_bit 16 (eeprom_address s) = 0" and c: "eeprom_counter s < eeprom_bits (eeprom_size s)"
    using assms by (auto simp: backup_wf_def eeprom_fsm_def)
  note d' = bit_address_step [OF d, of "eeprom_counter s mod 16" v]
  note blk = eeprom_block_address [OF d', of ?n]
  have l: "unat (push_bit 3 (drop_bit ?n ?a)) + 8 \<le> length (gamepak_backup s)"
    using blk assms(1) by (simp add: eeprom_block_def backup_wf_def)
  show ?thesis
    using assms l blk c d'
    by (auto simp: eeprom_addressing_def Let_def arr_blit_def backup_wf_def eeprom_fsm_def)
qed

lemma eeprom_command_wf:
  assumes "backup_wf s" "eeprom_mode s = EEPROM_BASE_MODE"
  shows "\<exists>t. eeprom_command v s = Some t \<and> backup_wf t"
  using assms eeprom_bits_bounds(1) [of "eeprom_size s"]
  by (auto simp: eeprom_command_def Let_def backup_wf_def eeprom_fsm_def)

lemma eeprom_store_bit_wf:
  assumes "backup_wf s" "eeprom_mode s = EEPROM_WRITE_MODE"
  shows "\<exists>t. eeprom_store_bit v s = Some t \<and> backup_wf t"
  using assms eeprom_index_eq(2) [of s]
  by (auto simp: eeprom_store_bit_def Let_def backup_wf_def eeprom_fsm_def)

lemma write_eeprom_wf:
  assumes "backup_wf s"
  shows "\<exists>t. write_eeprom v s = Some t \<and> backup_wf t"
proof (cases "eeprom_mode s")
  case EEPROM_WRITE_FOOTER_MODE
  with assms show ?thesis by (simp add: write_eeprom_def backup_wf_def eeprom_fsm_def)
next
  case EEPROM_ADDRESS_FOOTER_MODE
  with assms show ?thesis by (simp add: write_eeprom_def backup_wf_def eeprom_fsm_def)
qed (use assms eeprom_command_wf [of s v] eeprom_addressing_wf [of s v] eeprom_store_bit_wf [of s v]
     in \<open>simp_all add: write_eeprom_def\<close>)

lemma read_eeprom_wf:
  assumes "backup_wf s"
  shows "\<exists>v t. read_eeprom s = Some (v, t) \<and> backup_wf t"
proof (cases "eeprom_mode s")
  case EEPROM_READ_MODE
  with assms eeprom_index_eq(2) [of s] show ?thesis
    by (simp add: read_eeprom_def Let_def backup_wf_def eeprom_fsm_def)
next
  case EEPROM_READ_HEADER_MODE
  with assms show ?thesis by (simp add: read_eeprom_def Let_def backup_wf_def eeprom_fsm_def)
qed (use assms in \<open>simp_all add: read_eeprom_def\<close>)

lemma detect_eeprom_size_wf: "backup_wf s \<Longrightarrow> backup_wf (detect_eeprom_size n d l s)"
  by (auto simp: detect_eeprom_size_def backup_wf_def eeprom_fsm_def eeprom_bits_def
      split: eeprom_mode_t.splits if_splits)

section \<open>Every sequence of accesses\<close>

text \<open>An access of the game; \<^verbatim>\<open>read_memory\<close> and \<^verbatim>\<open>write_memory\<close> mask the address.\<close>

datatype backup_op =
  ReadBackup u32 | WriteBackup u32 u32 | WriteEeprom u32 | ReadEeprom | StartDma u32 u32 u16
| ResetBackup backup_kind

definition backup_exec :: "backup_op \<Rightarrow> backup \<Rightarrow> backup option" where
  "backup_exec x s = (case x of
     ReadBackup a \<Rightarrow> map_option snd (read_backup (a AND 0xFFFF) s)
   | WriteBackup a v \<Rightarrow> write_backup (a AND 0xFFFF) v s
   | WriteEeprom v \<Rightarrow> write_eeprom v s
   | ReadEeprom \<Rightarrow> map_option snd (read_eeprom s)
   | StartDma n d l \<Rightarrow> Some (detect_eeprom_size n d l s)
   | ResetBackup k \<Rightarrow> Some (backup_reset k s))"

fun backup_run :: "backup_op list \<Rightarrow> backup \<Rightarrow> backup option" where
  "backup_run [] s = Some s"
| "backup_run (x # xs) s = do { s \<leftarrow> backup_exec x s; backup_run xs s }"

lemma backup_exec_wf:
  assumes "backup_wf s"
  shows "\<exists>t. backup_exec x s = Some t \<and> backup_wf t"
proof -
  have a: "(a AND 0xFFFF) \<le> (0xFFFF :: u32)" for a by (rule word_and_le1)
  show ?thesis
  proof (cases x)
    case (ReadBackup a')
    then show ?thesis using read_backup_wf [OF assms a [of a']] by (auto simp: backup_exec_def)
  next
    case (WriteBackup a' v)
    then show ?thesis using write_backup_wf [OF assms a [of a'], of v] by (auto simp: backup_exec_def)
  next
    case (WriteEeprom v)
    then show ?thesis using write_eeprom_wf [OF assms, of v] by (auto simp: backup_exec_def)
  next
    case ReadEeprom
    then show ?thesis using read_eeprom_wf [OF assms] by (auto simp: backup_exec_def)
  next
    case (StartDma n d l)
    then show ?thesis using detect_eeprom_size_wf [OF assms] by (auto simp: backup_exec_def)
  next
    case (ResetBackup k)
    then show ?thesis using assms backup_reset_wf by (simp add: backup_exec_def backup_wf_def)
  qed
qed

lemma backup_run_wf:
  "backup_wf s \<Longrightarrow> \<exists>t. backup_run xs s = Some t \<and> backup_wf t"
proof (induction xs arbitrary: s)
  case (Cons x xs)
  from backup_exec_wf [OF Cons.prems, of x] obtain t where
    t: "backup_exec x s = Some t" "backup_wf t" by auto
  with Cons.IH [OF t(2)] show ?case by simp
qed simp

section \<open>Writing a block and reading it back\<close>

text \<open>
  What a game shifts out and in, most significant bit first: \<open>eeprom_send\<close> writes bits,
  \<open>eeprom_recv\<close> reads them.
\<close>

fun eeprom_send :: "bool list \<Rightarrow> backup \<Rightarrow> backup option" where
  "eeprom_send [] s = Some s"
| "eeprom_send (b # bs) s = do { s \<leftarrow> write_eeprom (of_bool b) s; eeprom_send bs s }"

fun eeprom_recv :: "nat \<Rightarrow> backup \<Rightarrow> (bool list \<times> backup) option" where
  "eeprom_recv 0 s = Some ([], s)"
| "eeprom_recv (Suc n) s = do {
     (v, s) \<leftarrow> read_eeprom s;
     (bs, s) \<leftarrow> eeprom_recv n s;
     Some ((v \<noteq> 0) # bs, s) }"

definition addr_bits :: "nat \<Rightarrow> u32 \<Rightarrow> bool list" where
  "addr_bits n blk = map (\<lambda>i. bit blk (n - 1 - i)) [0..<n]"

definition write_request :: "nat \<Rightarrow> u32 \<Rightarrow> u8 list \<Rightarrow> bool list" where
  "write_request n blk ws = [True, False] @ addr_bits n blk @ concat (map byte_bits ws) @ [False]"

definition read_request :: "nat \<Rightarrow> u32 \<Rightarrow> bool list" where
  "read_request n blk = [True, True] @ addr_bits n blk @ [False]"

definition eeprom_ready :: "backup \<Rightarrow> bool" where
  "eeprom_ready s \<longleftrightarrow> eeprom_mode s = EEPROM_BASE_MODE \<and> eeprom_counter s = 0 \<and> eeprom_address s AND 3 = 0"

lemma eeprom_send_append:
  "eeprom_send (xs @ ys) s = do { s \<leftarrow> eeprom_send xs s; eeprom_send ys s }"
  by (induction xs arbitrary: s) (auto split: option.splits bind_splits)

lemma eeprom_recv_add:
  "eeprom_recv (m + n) s =
     do { (xs, s) \<leftarrow> eeprom_recv m s; (ys, s) \<leftarrow> eeprom_recv n s; Some (xs @ ys, s) }"
  by (induction m arbitrary: s) (auto split: option.splits bind_splits simp: case_prod_beta)

lemma of_bool_and_1 [simp]: "(of_bool b :: u32) AND 1 = of_bool b" by simp

lemma command_bits:
  assumes "eeprom_ready s"
  shows "eeprom_send [True, b] s = Some (s\<lparr>backup_type := BACKUP_EEPROM, eeprom_counter := 0,
           eeprom_address := 0, eeprom_mode := (if b then EEPROM_ADDRESS_MODE else EEPROM_WRITE_ADDRESS_MODE)\<rparr>)"
proof -
  have a: "(eeprom_address s OR 2) AND 3 = 2" "((eeprom_address s OR 2) OR 1) AND 3 = 3"
    using assms by (simp_all add: eeprom_ready_def and.commute [of _ 3] bit.conj_disj_distrib)
  show ?thesis
    using assms a by (cases b) (simp_all add: eeprom_ready_def write_eeprom_def eeprom_command_def Let_def)
qed

lemma drop_bit_small: "unat (blk :: u32) < 2 ^ n \<Longrightarrow> drop_bit n blk = 0"
  by (rule word_unat_eq_iff [THEN iffD2]) (simp only: unat_drop_bit_eq, simp add: drop_bit_eq_div)

lemma address_grows:
  assumes "k < n" "n \<le> 14"
  shows "push_bit (16 - k) (drop_bit (n - k) (blk :: u32)) OR push_bit (15 - k) (of_bool (bit blk (n - 1 - k)))
       = push_bit (16 - Suc k) (drop_bit (n - Suc k) blk)" (is "?l = ?r")
proof (rule bit_word_eqI)
  fix i assume "i < LENGTH(32)"
  consider "i < 15 - k" | "i = 15 - k" | "15 - k < i" by linarith
  then show "bit ?l i = bit ?r i"
  proof cases
    case 3
    then have "n - k + (i - (16 - k)) = n - Suc k + (i - (15 - k))" "16 - k \<le> i" "\<not> i + k \<le> 15" using assms by auto
    with 3 show ?thesis using assms \<open>i < LENGTH(32)\<close> by (simp add: bit_simps)
  qed (use assms in \<open>auto simp: bit_simps\<close>)
qed

definition addressing :: "backup \<Rightarrow> bool" where
  "addressing s \<longleftrightarrow> eeprom_mode s = EEPROM_ADDRESS_MODE \<or> eeprom_mode s = EEPROM_WRITE_ADDRESS_MODE"

lemma address_bits_prefix:
  assumes "addressing s" "eeprom_counter s = 0" "eeprom_address s = 0" "unat blk < 2 ^ n"
    and "n = eeprom_bits (eeprom_size s)" "k < n"
  shows "eeprom_send (take k (addr_bits n blk)) s =
           Some (s\<lparr>eeprom_address := push_bit (16 - k) (drop_bit (n - k) blk), eeprom_counter := k\<rparr>)"
  using assms(6)
proof (induction k)
  case 0
  have "drop_bit n blk = 0" using assms(4) by (rule drop_bit_small)
  with assms show ?case by simp
next
  case (Suc k)
  then have k: "k < n" "n \<le> 14" using eeprom_bits_bounds(2) assms(5) by auto
  have t: "take (Suc k) (addr_bits n blk) = take k (addr_bits n blk) @ [bit blk (n - 1 - k)]"
    using k by (simp add: addr_bits_def take_Suc_conv_app_nth)
  have c: "Suc k \<noteq> eeprom_bits (eeprom_size s)" "k mod 16 = k" using Suc.prems k assms(5) by auto
  show ?case
    unfolding t eeprom_send_append Suc.IH [OF k(1)]
    using c assms(1) address_grows [OF k, of blk]
    by (auto simp: write_eeprom_def addressing_def eeprom_addressing_def Let_def)
qed

lemma address_bits_all:
  assumes "addressing s" "eeprom_counter s = 0" "eeprom_address s = 0" "unat blk < 2 ^ n"
    and "n = eeprom_bits (eeprom_size s)" "length (gamepak_backup s) = BACKUP_SIZE"
  shows "eeprom_send (addr_bits n blk) s = Some
     (if eeprom_mode s = EEPROM_ADDRESS_MODE
      then s\<lparr>eeprom_address := push_bit 3 blk, eeprom_mode := EEPROM_ADDRESS_FOOTER_MODE\<rparr>
      else s\<lparr>eeprom_address := push_bit 3 blk, eeprom_mode := EEPROM_WRITE_MODE,
             gamepak_backup := take (8 * unat blk) (gamepak_backup s) @ replicate 8 0
                                 @ drop (8 * unat blk + 8) (gamepak_backup s)\<rparr>)"
proof -
  let ?k = "n - 1"
  have n: "2 \<le> n" "n \<le> 14" "n = 6 \<or> n = 14"
    using eeprom_bits_bounds [of "eeprom_size s"] assms(5) by (auto simp: eeprom_bits_def)
  have a: "addr_bits n blk = take ?k (addr_bits n blk) @ [bit blk 0]"
    using n take_Suc_conv_app_nth [of ?k "addr_bits n blk"] by (simp add: addr_bits_def)
  have "(2 :: nat) ^ n \<le> 2 ^ 14" using n(2) by (intro power_increasing) auto
  with assms(4) have b: "unat blk < 16384" by simp
  then have pb: "unat (push_bit 3 blk) = 8 * unat blk"
    by (simp add: push_bit_eq_mult unat_word_ariths)
  have g: "push_bit (16 - ?k) (drop_bit (n - ?k) blk) OR push_bit (15 - ?k) (of_bool (bit blk 0))
      = push_bit (16 - n) blk"
    using address_grows [where k = ?k and n = n and blk = blk] n by simp
  have d: "drop_bit (if eeprom_size s = EEPROM_512_BYTE then 10 else 2) (push_bit (16 - n) blk) = blk"
  proof -
    have "(if eeprom_size s = EEPROM_512_BYTE then 10 else 2) = 16 - n"
      using assms(5) by (simp add: eeprom_bits_def)
    moreover have "drop_bit (16 - n) (push_bit (16 - n) blk) = blk"
    proof (rule bit_word_eqI)
      fix i assume i: "i < LENGTH(32)"
      have z: "\<not> bit blk i" if "14 \<le> i"
      proof -
        have "(2 :: nat) ^ 14 \<le> 2 ^ i" using that by (intro power_increasing) auto
        with b have "unat blk < 2 ^ i" by simp
        then show ?thesis by (simp add: bit_iff_odd_drop_bit drop_bit_small)
      qed
      show "bit (drop_bit (16 - n) (push_bit (16 - n) blk)) i = bit blk i"
        using n z i by (cases "14 \<le> i") (auto simp: bit_simps)
    qed
    ultimately show ?thesis by simp
  qed
  have c: "?k mod 16 = ?k" "Suc ?k = eeprom_bits (eeprom_size s)" using n assms(5) by auto
  have p: "eeprom_send (take ?k (addr_bits n blk)) s =
           Some (s\<lparr>eeprom_address := push_bit (16 - ?k) (drop_bit (n - ?k) blk), eeprom_counter := ?k\<rparr>)"
    using n by (intro address_bits_prefix assms) auto
  show ?thesis
    unfolding arg_cong [where f = "\<lambda>bs. eeprom_send bs s", OF a] eeprom_send_append p
    using assms(1,2,6) b c d g pb
    by (auto simp: write_eeprom_def addressing_def eeprom_addressing_def Let_def arr_blit_def)
qed

lemma byte_grows:
  assumes "k < 8"
  shows "push_bit (8 - k) (drop_bit (8 - k) (w :: u8)) OR push_bit (7 - k) (of_bool (bit w (7 - k)))
       = push_bit (8 - Suc k) (drop_bit (8 - Suc k) w)" (is "?l = ?r")
proof (rule bit_word_eqI)
  fix i assume "i < LENGTH(8)"
  consider "i < 7 - k" | "i = 7 - k" | "7 - k < i" by linarith
  then show "bit ?l i = bit ?r i"
  proof cases
    case 3
    then have "8 + (i + k - 8) - k = i" "7 + (i + k - 7) - k = i" "8 - k \<le> i" "\<not> i + k \<le> 7"
      using assms by auto
    then show ?thesis using 3 assms \<open>i < LENGTH(8)\<close> by (simp add: bit_simps)
  qed (use assms in \<open>auto simp: bit_simps\<close>)
qed

lemma drop_byte [simp]: "drop_bit 8 (w :: u8) = 0"
  by (rule bit_word_eqI) (auto simp: bit_simps dest: bit_imp_le_length)

definition writing :: "nat \<Rightarrow> backup \<Rightarrow> bool" where
  "writing i s \<longleftrightarrow> eeprom_mode s = EEPROM_WRITE_MODE \<and> eeprom_counter s = 8 * i \<and>
     eeprom_block (eeprom_address s) \<and> length (gamepak_backup s) = BACKUP_SIZE"

lemma store_bit_index:
  assumes "writing i s" "i < 8" "k < 8"
  shows "eeprom_index (s\<lparr>eeprom_counter := 8 * i + k, gamepak_backup := b\<rparr>) = unat (eeprom_address s) + i"
    and "unat (eeprom_address s) + i < BACKUP_SIZE"
  using assms eeprom_index_eq(1) [of "s\<lparr>eeprom_counter := 8 * i + k, gamepak_backup := b\<rparr>"]
  by (simp_all add: writing_def eeprom_block_def)

lemma byte_prefix:
  assumes "writing i s" "i < 8" "gamepak_backup s ! (unat (eeprom_address s) + i) = 0" "k < 8"
  shows "eeprom_send (take k (byte_bits w)) s =
     Some (s\<lparr>eeprom_counter := 8 * i + k,
             gamepak_backup := (gamepak_backup s)[unat (eeprom_address s) + i := push_bit (8 - k) (drop_bit (8 - k) w)]\<rparr>)"
  using assms(4)
proof (induction k)
  case 0
  have "(gamepak_backup s)[unat (eeprom_address s) + i := 0] = gamepak_backup s"
    using assms(3) by (metis list_update_id)
  with assms show ?case by (simp add: writing_def)
next
  case (Suc k)
  then have k: "k < 8" "8 * i + Suc k \<noteq> 64" using assms(2) by auto
  note ix = store_bit_index [OF assms(1,2) k(1)]
  show ?case
    unfolding byte_bits_take [OF k(1)] eeprom_send_append Suc.IH [OF k(1)]
    using k assms(1) ix byte_grows [OF k(1), of w]
    by (cases "bit w (7 - k)") (simp_all add: write_eeprom_def writing_def eeprom_store_bit_def Let_def)
qed

lemma byte_store:
  assumes "writing i s" "i < 8" "gamepak_backup s ! (unat (eeprom_address s) + i) = 0"
  shows "eeprom_send (byte_bits w) s = Some (s\<lparr>eeprom_counter := (if i = 7 then 0 else 8 * Suc i),
     eeprom_mode := (if i = 7 then EEPROM_WRITE_FOOTER_MODE else EEPROM_WRITE_MODE),
     gamepak_backup := (gamepak_backup s)[unat (eeprom_address s) + i := w]\<rparr>)"
proof -
  have b: "eeprom_send (byte_bits w) s = eeprom_send (take 7 (byte_bits w) @ [bit w 0]) s"
    using byte_bits_take [of 7 w] by simp
  have p: "eeprom_send (take 7 (byte_bits w)) s = Some (s\<lparr>eeprom_counter := 8 * i + 7,
       gamepak_backup := (gamepak_backup s)[unat (eeprom_address s) + i := push_bit 1 (drop_bit 1 w)]\<rparr>)"
    using byte_prefix [OF assms, of 7 w] by simp
  note ix = store_bit_index [OF assms(1,2), of 7]
  have c: "Suc (8 * i + 7) = 64 \<longleftrightarrow> i = 7" by auto
  show ?thesis
    unfolding b eeprom_send_append p
    using assms(1) ix c byte_grows [of 7 w]
    by (cases "bit w 0") (simp_all add: write_eeprom_def writing_def eeprom_store_bit_def Let_def)
qed

lemma block_store:
  assumes "writing i s" "i + length ws = 8" "0 < length ws"
    and "\<forall>j < length ws. gamepak_backup s ! (unat (eeprom_address s) + i + j) = 0"
  shows "eeprom_send (concat (map byte_bits ws)) s = Some (s\<lparr>eeprom_counter := 0,
     eeprom_mode := EEPROM_WRITE_FOOTER_MODE,
     gamepak_backup := take (unat (eeprom_address s) + i) (gamepak_backup s) @ ws
        @ drop (unat (eeprom_address s) + i + length ws) (gamepak_backup s)\<rparr>)"
  using assms
proof (induction ws arbitrary: i s)
  case (Cons w ws)
  let ?a = "unat (eeprom_address s) + i"
  let ?t = "s\<lparr>eeprom_counter := (if i = 7 then 0 else 8 * Suc i),
     eeprom_mode := (if i = 7 then EEPROM_WRITE_FOOTER_MODE else EEPROM_WRITE_MODE),
     gamepak_backup := (gamepak_backup s)[?a := w]\<rparr>"
  have st: "eeprom_send (byte_bits w) s = Some ?t"
    using Cons.prems by (intro byte_store) auto
  have len: "?a + length (w # ws) \<le> length (gamepak_backup s)"
    using Cons.prems by (simp add: writing_def eeprom_block_def)
  then have up: "take (Suc ?a) ((gamepak_backup s)[?a := w]) = take ?a (gamepak_backup s) @ [w]"
      "drop (Suc ?a + n) ((gamepak_backup s)[?a := w]) = drop (Suc ?a + n) (gamepak_backup s)" for n
    by (auto simp: take_Suc_conv_app_nth take_update_cancel)
  show ?case
  proof (cases ws)
    case Nil
    then show ?thesis
      using Cons.prems st len by (simp add: eeprom_send_append upd_conv_take_nth_drop)
  next
    case (Cons w' ws')
    then have "writing (Suc i) ?t" "Suc i + length ws = 8" "0 < length ws"
      using Cons.prems by (auto simp: writing_def)
    moreover have "\<forall>j < length ws. gamepak_backup ?t ! (unat (eeprom_address ?t) + Suc i + j) = 0"
    proof (intro allI impI)
      fix j assume "j < length ws"
      with Cons.prems(4) [rule_format, of "Suc j"]
      show "gamepak_backup ?t ! (unat (eeprom_address ?t) + Suc i + j) = 0" by simp
    qed
    ultimately show ?thesis
      using Cons.IH [of "Suc i" ?t] st up(1) up(2) [of "length ws"] Cons by (simp add: eeprom_send_append)
  qed
qed simp

definition block_bit :: "backup \<Rightarrow> nat \<Rightarrow> bool" where
  "block_bit s c = bit (gamepak_backup s ! (unat (eeprom_address s) + c div 8)) (7 - c mod 8)"

lemma low_bit_nonzero: "(ucast (drop_bit k (x :: u8)) AND 1 \<noteq> (0 :: u32)) = bit x k"
proof -
  have "(y AND 1 \<noteq> 0) = bit y 0" for y :: u32 by (simp add: and_one_eq odd_iff_mod_2_eq_one bit_0)
  then show ?thesis by (simp only: bit_simps) simp
qed

lemmas low_bit_zero = low_bit_nonzero [of 0, simplified]

lemma recv_block:
  assumes "eeprom_mode s = EEPROM_READ_MODE" "eeprom_block (eeprom_address s)"
    and "length (gamepak_backup s) = BACKUP_SIZE" "eeprom_counter s + n = 64" "0 < n"
  shows "eeprom_recv n s = Some (map (block_bit s) [eeprom_counter s..<64],
           s\<lparr>eeprom_counter := 0, eeprom_mode := EEPROM_BASE_MODE\<rparr>)"
  using assms
proof (induction n arbitrary: s)
  case (Suc n)
  let ?c = "eeprom_counter s"
  have c: "?c < 64" using Suc.prems by simp
  note ix = eeprom_index_eq [OF Suc.prems(2) c]
  have up: "[?c..<64] = ?c # [Suc ?c..<64]" using c by (rule upt_conv_Cons)
  have r: "read_eeprom s = Some (ucast (drop_bit (7 - ?c mod 8) (gamepak_backup s ! (unat (eeprom_address s) + ?c div 8))) AND 1,
      if ?c = 63 then s\<lparr>eeprom_counter := 0, eeprom_mode := EEPROM_BASE_MODE\<rparr> else s\<lparr>eeprom_counter := Suc ?c\<rparr>)"
    using Suc.prems ix by (simp add: read_eeprom_def Let_def)
  show ?case
  proof (cases "n = 0")
    case True
    then have "?c = 63" using Suc.prems by simp
    with True r up show ?thesis by (simp add: low_bit_zero block_bit_def)
  next
    case False
    let ?t = "s\<lparr>eeprom_counter := Suc ?c\<rparr>"
    have "eeprom_recv n ?t = Some (map (block_bit ?t) [Suc ?c..<64], ?t\<lparr>eeprom_counter := 0, eeprom_mode := EEPROM_BASE_MODE\<rparr>)"
      using False Suc.prems Suc.IH [of ?t] by simp
    moreover have "block_bit ?t = block_bit s" by (simp add: block_bit_def fun_eq_iff)
    moreover have "?c \<noteq> 63" using False Suc.prems by simp
    ultimately show ?thesis using r up by (simp add: low_bit_nonzero block_bit_def)
  qed
qed simp

lemma recv_header:
  assumes "eeprom_mode s = EEPROM_READ_HEADER_MODE" "eeprom_counter s = 0"
  shows "eeprom_recv 4 s = Some (replicate 4 False, s\<lparr>eeprom_mode := EEPROM_READ_MODE, eeprom_counter := 0\<rparr>)"
  using assms by (simp add: numeral_eq_Suc read_eeprom_def Let_def)

lemma block_bits:
  assumes "length ws = 8" "\<And>i. i < 8 \<Longrightarrow> gamepak_backup s ! (unat (eeprom_address s) + i) = ws ! i"
  shows "map (block_bit s) [0..<64] = concat (map byte_bits ws)"
proof -
  have "map (block_bit s) [0..<64] = map (\<lambda>c. bit (ws ! (c div 8)) (7 - c mod 8)) [0..<64]"
    using assms(2) by (intro map_cong) (auto simp: block_bit_def)
  moreover obtain a b c d e f g h where "ws = [a, b, c, d, e, f, g, h]"
    using assms(1) by (auto simp: length_Suc_conv numeral_eq_Suc)
  ultimately show ?thesis by (simp add: byte_bits_def upt_rec)
qed

lemma addressed:
  assumes "backup_wf s" "eeprom_ready s" "n = eeprom_bits (eeprom_size s)" "unat blk < 2 ^ n"
  shows "eeprom_send ([True, False] @ addr_bits n blk) s = Some (s\<lparr>backup_type := BACKUP_EEPROM,
      eeprom_counter := 0, eeprom_address := push_bit 3 blk, eeprom_mode := EEPROM_WRITE_MODE,
      gamepak_backup := take (8 * unat blk) (gamepak_backup s) @ replicate 8 0
                          @ drop (8 * unat blk + 8) (gamepak_backup s)\<rparr>)"
    and "eeprom_send ([True, True] @ addr_bits n blk) s = Some (s\<lparr>backup_type := BACKUP_EEPROM,
      eeprom_counter := 0, eeprom_address := push_bit 3 blk, eeprom_mode := EEPROM_ADDRESS_FOOTER_MODE\<rparr>)"
proof -
  let ?s = "\<lambda>m. s\<lparr>backup_type := BACKUP_EEPROM, eeprom_counter := 0, eeprom_address := 0, eeprom_mode := m\<rparr>"
  have l: "length (gamepak_backup s) = BACKUP_SIZE" using assms(1) by (simp add: backup_wf_def)
  show "eeprom_send ([True, False] @ addr_bits n blk) s = Some (s\<lparr>backup_type := BACKUP_EEPROM,
      eeprom_counter := 0, eeprom_address := push_bit 3 blk, eeprom_mode := EEPROM_WRITE_MODE,
      gamepak_backup := take (8 * unat blk) (gamepak_backup s) @ replicate 8 0
                          @ drop (8 * unat blk + 8) (gamepak_backup s)\<rparr>)"
    unfolding eeprom_send_append command_bits [OF assms(2)]
    using address_bits_all [of "?s EEPROM_WRITE_ADDRESS_MODE" blk n] assms l by (simp add: addressing_def)
  show "eeprom_send ([True, True] @ addr_bits n blk) s = Some (s\<lparr>backup_type := BACKUP_EEPROM,
      eeprom_counter := 0, eeprom_address := push_bit 3 blk, eeprom_mode := EEPROM_ADDRESS_FOOTER_MODE\<rparr>)"
    unfolding eeprom_send_append command_bits [OF assms(2)]
    using address_bits_all [of "?s EEPROM_ADDRESS_MODE" blk n] assms l by (simp add: addressing_def)
qed

lemma block_address:
  assumes "unat (blk :: u32) < 2 ^ eeprom_bits z"
  shows "unat (push_bit 3 blk) = 8 * unat blk" "eeprom_block (push_bit 3 blk)" "push_bit 3 blk AND 3 = 0"
proof -
  have "(2 :: nat) ^ eeprom_bits z \<le> 2 ^ 14" by (intro power_increasing eeprom_bits_bounds) simp
  with assms have b: "unat blk < 16384" by simp
  then show u: "unat (push_bit 3 blk) = 8 * unat blk" by (simp add: push_bit_eq_mult unat_word_ariths)
  with b show "eeprom_block (push_bit 3 blk)" by (simp add: eeprom_block_def)
  have m: "(3 :: u32) = mask 2" by (simp add: mask_eq_exp_minus_1)
  show "push_bit 3 blk AND 3 = 0" unfolding m by (rule bit_word_eqI) (auto simp: bit_simps)
qed

lemma eeprom_written:
  assumes "backup_wf s" "eeprom_ready s" "n = eeprom_bits (eeprom_size s)" "unat blk < 2 ^ n" "length ws = 8"
  shows "eeprom_send (write_request n blk ws) s = Some (s\<lparr>backup_type := BACKUP_EEPROM,
      eeprom_counter := 0, eeprom_address := push_bit 3 blk, eeprom_mode := EEPROM_BASE_MODE,
      gamepak_backup := take (8 * unat blk) (gamepak_backup s) @ ws @ drop (8 * unat blk + 8) (gamepak_backup s)\<rparr>)"
proof -
  let ?B = "gamepak_backup s" and ?a = "8 * unat blk"
  let ?w = "s\<lparr>backup_type := BACKUP_EEPROM, eeprom_counter := 0, eeprom_address := push_bit 3 blk,
      eeprom_mode := EEPROM_WRITE_MODE, gamepak_backup := take ?a ?B @ replicate 8 0 @ drop (?a + 8) ?B\<rparr>"
  note blk = block_address [of blk "eeprom_size s", folded assms(3), OF assms(4)]
  have l: "?a + 8 \<le> length ?B" "length ?B = BACKUP_SIZE"
    using blk assms(1) by (auto simp: backup_wf_def eeprom_block_def)
  have "writing 0 ?w" using l blk by (simp add: writing_def)
  moreover have "\<forall>j < 8. gamepak_backup ?w ! (unat (eeprom_address ?w) + 0 + j) = 0"
    using l blk by (simp add: nth_append)
  ultimately have st: "eeprom_send (concat (map byte_bits ws)) ?w = Some (?w\<lparr>eeprom_counter := 0,
      eeprom_mode := EEPROM_WRITE_FOOTER_MODE,
      gamepak_backup := take ?a ?B @ ws @ drop (?a + 8) ?B\<rparr>)"
    using block_store [of 0 ?w ws] assms(5) blk l by simp
  have d: "write_request n blk ws = ([True, False] @ addr_bits n blk) @ concat (map byte_bits ws) @ [False]"
    by (simp add: write_request_def)
  show ?thesis
    unfolding d eeprom_send_append [of "[True, False] @ addr_bits n blk"] addressed(1) [OF assms(1-4)] using st
    by (simp add: eeprom_send_append write_eeprom_def)
qed

text \<open>C16: an EEPROM block written by the game is the block it reads back. For both sizes of
  the chip, any block number and any eight bytes, the write request changes exactly those bytes,
  and the read request that follows returns four zero bits and then the bytes, most significant
  bit first, leaving the chip ready for the next command.\<close>

theorem eeprom_block_roundtrip:
  assumes "backup_wf s" "eeprom_ready s" "n = eeprom_bits (eeprom_size s)" "unat blk < 2 ^ n" "length ws = 8"
  shows "\<exists>s1 s2 t. eeprom_send (write_request n blk ws) s = Some s1 \<and>
     eeprom_send (read_request n blk) s1 = Some s2 \<and>
     eeprom_recv 68 s2 = Some (replicate 4 False @ concat (map byte_bits ws), t) \<and> eeprom_ready t \<and>
     gamepak_backup t = take (8 * unat blk) (gamepak_backup s) @ ws @ drop (8 * unat blk + 8) (gamepak_backup s)"
proof -
  let ?B = "take (8 * unat blk) (gamepak_backup s) @ ws @ drop (8 * unat blk + 8) (gamepak_backup s)"
  let ?s1 = "s\<lparr>backup_type := BACKUP_EEPROM, eeprom_counter := 0, eeprom_address := push_bit 3 blk,
      eeprom_mode := EEPROM_BASE_MODE, gamepak_backup := ?B\<rparr>"
  note blk = block_address [of blk "eeprom_size s", folded assms(3), OF assms(4)]
  have l: "8 * unat blk + 8 \<le> length (gamepak_backup s)" "length ?B = BACKUP_SIZE"
    using blk assms(1,5) by (auto simp: backup_wf_def eeprom_block_def)
  have w: "backup_wf ?s1" "eeprom_ready ?s1" "n = eeprom_bits (eeprom_size ?s1)"
    using l blk assms by (auto simp: backup_wf_def eeprom_ready_def eeprom_fsm_def)
  let ?s2 = "?s1\<lparr>eeprom_mode := EEPROM_READ_HEADER_MODE\<rparr>"
  let ?s3 = "?s1\<lparr>eeprom_mode := EEPROM_READ_MODE\<rparr>"
  have rd: "read_request n blk = ([True, True] @ addr_bits n blk) @ [False]" by (simp add: read_request_def)
  have s2: "eeprom_send (read_request n blk) ?s1 = Some ?s2"
    unfolding rd eeprom_send_append [of "[True, True] @ addr_bits n blk"] addressed(2) [OF w assms(4)] by (simp add: write_eeprom_def)
  have h: "eeprom_recv 4 ?s2 = Some (replicate 4 False, ?s3)"
    using recv_header [of ?s2] by simp
  have b: "map (block_bit ?s3) [0..<64] = concat (map byte_bits ws)"
    using l blk assms(5) by (intro block_bits) (auto simp: nth_append)
  have r: "eeprom_recv 64 ?s3 = Some (concat (map byte_bits ws), ?s1)"
    using recv_block [of ?s3 64] l blk b by simp
  have "eeprom_recv (4 + 64) ?s2 = Some (replicate 4 False @ concat (map byte_bits ws), ?s1)"
    unfolding eeprom_recv_add h using r by simp
  then have "eeprom_recv 68 ?s2 = Some (replicate 4 False @ concat (map byte_bits ws), ?s1)" by simp
  with eeprom_written [OF assms] s2 w(2) show ?thesis
    by - (rule exI [of _ ?s1], rule exI [of _ ?s2], rule exI [of _ ?s1], simp)
qed

definition blank_backup :: backup where
  "blank_backup = \<lparr>backup_type = BACKUP_UNKN, flash_mode = FLASH_BASE_MODE, flash_command_position = 0,
     flash_bank_num = 0, flash_bank_cnt = FLASH_SIZE_64KB, flash_device_id = 0x1C,
     eeprom_size = EEPROM_512_BYTE, eeprom_mode = EEPROM_BASE_MODE, eeprom_address = 0,
     eeprom_counter = 0, gamepak_backup = replicate BACKUP_SIZE 0xFF\<rparr>"

lemma blank_backup_wf: "backup_wf blank_backup" "eeprom_ready blank_backup"
  "eeprom_bits (eeprom_size blank_backup) = 6"
  by (simp_all add: blank_backup_def backup_wf_def eeprom_ready_def eeprom_fsm_def eeprom_bits_def)

lemma eeprom_block_roundtrip_witness:
  "\<exists>s1 s2 t. eeprom_send (write_request 6 5 [1, 2, 3, 4, 5, 6, 7, 0x80]) blank_backup = Some s1 \<and>
     eeprom_send (read_request 6 5) s1 = Some s2 \<and>
     eeprom_recv 68 s2 = Some (replicate 4 False @ concat (map byte_bits [1, 2, 3, 4, 5, 6, 7, 0x80]), t) \<and>
     eeprom_ready t \<and> gamepak_backup t = take (8 * unat (5 :: u32)) (gamepak_backup blank_backup) @
       [1, 2, 3, 4, 5, 6, 7, 0x80] @ drop (8 * unat (5 :: u32) + 8) (gamepak_backup blank_backup)"
  by (rule eeprom_block_roundtrip [OF blank_backup_wf(1,2)]) (simp_all add: blank_backup_wf)

section \<open>Flash command sequences\<close>

fun flash_writes :: "(u32 \<times> u32) list \<Rightarrow> backup \<Rightarrow> backup option" where
  "flash_writes [] s = Some s"
| "flash_writes ((a, v) # ws) s = do { s \<leftarrow> write_backup a v s; flash_writes ws s }"

definition flash_ready :: "backup \<Rightarrow> bool" where
  "flash_ready s \<longleftrightarrow> backup_type s \<noteq> BACKUP_EEPROM \<and> flash_mode s = FLASH_BASE_MODE
     \<and> flash_command_position s = 0"

lemma settle_simps [simp]:
  "flash_mode (settle_type s) = flash_mode s" "flash_command_position (settle_type s) = flash_command_position s"
  "flash_bank_num (settle_type s) = flash_bank_num s" "gamepak_backup (settle_type s) = gamepak_backup s"
  "full_address a (settle_type s) = full_address a s" "flash_bank_cnt (settle_type s) = flash_bank_cnt s"
  "(settle_type s)\<lparr>backup_type := k\<rparr> = s\<lparr>backup_type := k\<rparr>"
  by (simp_all add: settle_type_def full_address_def)

lemma flash_unlock:
  assumes "backup_type s \<noteq> BACKUP_EEPROM" "flash_mode s \<noteq> FLASH_WRITE_MODE" "flash_command_position s = 0"
  shows "flash_writes [(0x5555, 0xAA), (0x2AAA, 0x55)] s =
           Some (s\<lparr>backup_type := BACKUP_FLASH, flash_command_position := 2\<rparr>)"
proof -
  have a: "write_backup 0x5555 0xAA s = Some (s\<lparr>backup_type := BACKUP_FLASH, flash_command_position := 1\<rparr>)"
    using assms by (simp add: write_backup_def write_5555_def Let_def)
  have b: "write_backup 0x2AAA 0x55 (s\<lparr>backup_type := BACKUP_FLASH, flash_command_position := 1\<rparr>)
      = Some (s\<lparr>backup_type := BACKUP_FLASH, flash_command_position := 2\<rparr>)"
    by (simp add: write_backup_def settle_type_def)
  from a b show ?thesis by simp
qed

lemma flash_writes_append:
  "flash_writes (xs @ ys) s = do { s \<leftarrow> flash_writes xs s; flash_writes ys s }"
  by (induction xs s rule: flash_writes.induct) (auto split: option.splits bind_splits)

lemma flash_third:
  "write_backup 0x5555 v (s\<lparr>backup_type := BACKUP_FLASH, flash_command_position := 2\<rparr>) =
     (if flash_mode s = FLASH_WRITE_MODE then Some (s\<lparr>backup_type := BACKUP_FLASH, flash_command_position := 2\<rparr>)
      else do { t \<leftarrow> flash_command (v AND 0xFF) (s\<lparr>backup_type := BACKUP_FLASH, flash_command_position := 2\<rparr>);
                (let t = t\<lparr>flash_command_position := 0\<rparr> in
                 if backup_type t = BACKUP_SRAM then store_backup 0x5555 (v AND 0xFF) t else Some t) })"
  by (cases "flash_command (v AND 0xFF) (s\<lparr>backup_type := BACKUP_FLASH, flash_command_position := 2\<rparr>)")
     (simp_all add: write_backup_def write_5555_def settle_type_def Let_def)

lemma flash_enter_write:
  assumes "flash_ready s"
  shows "flash_writes [(0x5555, 0xAA), (0x2AAA, 0x55), (0x5555, 0xA0)] s = Some (s\<lparr>backup_type := BACKUP_FLASH,
           flash_command_position := 0, flash_mode := FLASH_WRITE_MODE\<rparr>)"
proof -
  let ?u = "[(0x5555, 0xAA), (0x2AAA, 0x55)] :: (u32 \<times> u32) list"
  have u: "flash_writes ?u s = Some (s\<lparr>backup_type := BACKUP_FLASH, flash_command_position := 2\<rparr>)"
    using assms by (intro flash_unlock) (simp_all add: flash_ready_def)
  have "flash_writes (?u @ [(0x5555, 0xA0)]) s = Some (s\<lparr>backup_type := BACKUP_FLASH,
           flash_command_position := 0, flash_mode := FLASH_WRITE_MODE\<rparr>)"
    unfolding flash_writes_append u
    using assms by (simp add: flash_ready_def flash_third flash_command_def)
  then show ?thesis by simp
qed

lemma flash_enter_erase:
  assumes "flash_ready s"
  shows "flash_writes [(0x5555, 0xAA), (0x2AAA, 0x55), (0x5555, 0x80), (0x5555, 0xAA), (0x2AAA, 0x55)] s =
     Some (s\<lparr>backup_type := BACKUP_FLASH, flash_command_position := 2, flash_mode := FLASH_ERASE_MODE\<rparr>)"
proof -
  let ?m = "s\<lparr>backup_type := BACKUP_FLASH, flash_command_position := 0, flash_mode := FLASH_ERASE_MODE\<rparr>"
  let ?u = "[(0x5555, 0xAA), (0x2AAA, 0x55)] :: (u32 \<times> u32) list"
  have u: "flash_writes ?u s = Some (s\<lparr>backup_type := BACKUP_FLASH, flash_command_position := 2\<rparr>)"
    using assms by (intro flash_unlock) (simp_all add: flash_ready_def)
  have m: "flash_writes (?u @ [(0x5555, 0x80)]) s = Some ?m"
    unfolding flash_writes_append u
    using assms by (simp add: flash_ready_def flash_third flash_command_def)
  have "flash_writes ((?u @ [(0x5555, 0x80)]) @ ?u) s = Some (?m\<lparr>backup_type := BACKUP_FLASH, flash_command_position := 2\<rparr>)"
    unfolding flash_writes_append [of "?u @ [(0x5555, 0x80)]"] m
    using flash_unlock [of ?m] by (simp del: flash_writes.simps)
  then show ?thesis by simp
qed

lemma blank_flash_ready: "flash_ready blank_backup"
  by (simp add: blank_backup_def flash_ready_def)

text \<open>C17: programming a flash byte. The four writes of the command change exactly the addressed
  byte of the selected bank, which then reads back, and leave the chip ready.\<close>

theorem flash_program:
  assumes "backup_wf s" "flash_ready s" "a \<le> 0xFFFF"
  shows "\<exists>t. flash_writes [(0x5555, 0xAA), (0x2AAA, 0x55), (0x5555, 0xA0), (a, v)] s = Some t \<and>
     gamepak_backup t = (gamepak_backup s)[full_address a s := ucast (v AND 0xFF)] \<and>
     read_backup a t = Some (ucast (v AND 0xFF), t) \<and> flash_ready t \<and> backup_wf t"
proof -
  let ?e = "s\<lparr>backup_type := BACKUP_FLASH, flash_command_position := 0, flash_mode := FLASH_WRITE_MODE\<rparr>"
  let ?B = "(gamepak_backup s)[full_address a s := ucast (v AND 0xFF)]"
  let ?t = "?e\<lparr>gamepak_backup := ?B, flash_mode := FLASH_BASE_MODE\<rparr>"
  have b: "full_address a s < length (gamepak_backup s)"
    using full_address_bound(2) [OF assms(3)] assms(1) by (simp add: backup_wf_def)
  have f: "full_address a ?e = full_address a s" "full_address a ?t = full_address a s"
    by (simp_all add: full_address_def)
  have "write_backup a v ?e = map_option (\<lambda>s. s\<lparr>flash_mode := FLASH_BASE_MODE\<rparr>) (store_backup (full_address a ?e) (v AND 0xFF) ?e)"
    by (simp add: write_backup_def settle_type_def Let_def)
  also have "\<dots> = Some ?t" using b unfolding f by (simp add: store_backup_def)
  finally have w: "write_backup a v ?e = Some ?t" .
  have "flash_writes ([(0x5555, 0xAA), (0x2AAA, 0x55), (0x5555, 0xA0)] @ [(a, v)]) s = Some ?t"
    unfolding flash_writes_append flash_enter_write [OF assms(2)] using w by simp
  then have "flash_writes [(0x5555, 0xAA), (0x2AAA, 0x55), (0x5555, 0xA0), (a, v)] s = Some ?t" by simp
  moreover have "read_backup a ?t = Some (ucast (v AND 0xFF), ?t)"
    using b by (simp add: read_backup_def settle_type_def Let_def full_address_def)
  moreover have "backup_wf ?t" "flash_ready ?t"
    using assms by (simp_all add: backup_wf_def flash_ready_def)
  ultimately show ?thesis by (intro exI [of _ ?t]) simp
qed

lemma flash_program_witness:
  "\<exists>t. flash_writes [(0x5555, 0xAA), (0x2AAA, 0x55), (0x5555, 0xA0), (0x1234, 0x42)] blank_backup = Some t \<and>
     gamepak_backup t = (gamepak_backup blank_backup)[full_address 0x1234 blank_backup := ucast (0x42 AND 0xFF :: u32)] \<and>
     read_backup 0x1234 t = Some (ucast (0x42 AND 0xFF :: u32), t) \<and> flash_ready t \<and> backup_wf t"
  by (rule flash_program [OF blank_backup_wf(1) blank_flash_ready]) simp

text \<open>C18: erasing a flash sector. After the six writes of the command the 4 KB sector of the
  addressed byte in the selected bank reads 0xFF and no other byte has changed.\<close>

theorem flash_erase_sector:
  assumes "backup_wf s" "flash_ready s" "a \<le> 0xFFFF" "a \<noteq> 0x5555"
  shows "\<exists>t. flash_writes [(0x5555, 0xAA), (0x2AAA, 0x55), (0x5555, 0x80), (0x5555, 0xAA), (0x2AAA, 0x55), (a, 0x30)] s
       = Some t \<and> flash_ready t \<and> backup_wf t \<and>
     gamepak_backup t = take (full_address (a AND 0xF000) s) (gamepak_backup s) @ replicate 4096 0xFF
                         @ drop (full_address (a AND 0xF000) s + 4096) (gamepak_backup s)"
proof -
  let ?o = "full_address (a AND 0xF000) s"
  let ?B = "take ?o (gamepak_backup s) @ replicate 4096 0xFF @ drop (?o + 4096) (gamepak_backup s)"
  let ?e = "s\<lparr>backup_type := BACKUP_FLASH, flash_command_position := 2, flash_mode := FLASH_ERASE_MODE\<rparr>"
  let ?t = "?e\<lparr>gamepak_backup := ?B, flash_mode := FLASH_BASE_MODE, flash_command_position := 0\<rparr>"
  have sec: "a AND 0xF000 \<le> 0xFFFF" by (rule order_trans [OF sector_le]) simp
  have nb: "flash_bank_num s \<le> 1" using assms(1) by (simp add: backup_wf_def)
  have b: "?o + 4096 \<le> length (gamepak_backup s)" "length (gamepak_backup s) = BACKUP_SIZE"
    using full_address_bound(1) [OF sec nb] sector_le [of a] assms(1) nb
    unfolding word_le_nat_alt backup_wf_def by simp_all
  have f: "full_address (a AND 0xF000) ?e = ?o" by (simp add: full_address_def)
  have "write_backup a 0x30 ?e = map_option (\<lambda>s. s\<lparr>flash_mode := FLASH_BASE_MODE, flash_command_position := 0\<rparr>)
      (fill_backup (full_address (a AND 0xF000) ?e) 4096 ?e)"
    using assms(4) by (simp add: write_backup_def settle_type_def Let_def)
  also have "\<dots> = Some ?t" using b unfolding f by (simp add: fill_backup_def arr_blit_def)
  finally have w: "write_backup a 0x30 ?e = Some ?t" .
  have "flash_writes ([(0x5555, 0xAA), (0x2AAA, 0x55), (0x5555, 0x80), (0x5555, 0xAA), (0x2AAA, 0x55)] @ [(a, 0x30)]) s
      = Some ?t"
    unfolding flash_writes_append flash_enter_erase [OF assms(2)] using w by simp
  then have "flash_writes [(0x5555, 0xAA), (0x2AAA, 0x55), (0x5555, 0x80), (0x5555, 0xAA), (0x2AAA, 0x55), (a, 0x30)] s
      = Some ?t" by simp
  moreover have "backup_wf ?t" "flash_ready ?t"
    using assms b by (simp_all add: backup_wf_def flash_ready_def)
  ultimately show ?thesis by (intro exI [of _ ?t]) simp
qed

lemma flash_erase_sector_witness:
  "\<exists>t. flash_writes [(0x5555, 0xAA), (0x2AAA, 0x55), (0x5555, 0x80), (0x5555, 0xAA), (0x2AAA, 0x55), (0x3000, 0x30)]
         blank_backup = Some t \<and> flash_ready t \<and> backup_wf t \<and>
     gamepak_backup t = take (full_address (0x3000 AND 0xF000) blank_backup) (gamepak_backup blank_backup)
       @ replicate 4096 0xFF
       @ drop (full_address (0x3000 AND 0xF000) blank_backup + 4096) (gamepak_backup blank_backup)"
  by (rule flash_erase_sector [OF blank_backup_wf(1) blank_flash_ready]) simp_all

text \<open>
  The type detection of \<^verbatim>\<open>write_backup\<close> is one way: a game whose memory is known to be SRAM
  and that stores 0xAA at 0x5555 is taken for a flash game and the byte is lost.
\<close>

lemma sram_taken_for_flash:
  assumes "backup_type s = BACKUP_SRAM" "flash_mode s = FLASH_BASE_MODE" "flash_command_position s = 0"
  shows "write_backup 0x5555 0xAA s = Some (s\<lparr>backup_type := BACKUP_FLASH, flash_command_position := 1\<rparr>)"
  using assms by (simp add: write_backup_def write_5555_def settle_type_def Let_def)

text \<open>C19: the save memory is never accessed out of bounds. From a reset with the 128 KB array,
  every sequence of SRAM, flash and EEPROM accesses, EEPROM transfers and resets is defined and
  leaves the array at its size.\<close>

theorem backup_no_undefined_behaviour:
  assumes "length (gamepak_backup s) = BACKUP_SIZE"
  shows "\<exists>t. backup_run xs (backup_reset k s) = Some t \<and> length (gamepak_backup t) = BACKUP_SIZE"
  using backup_run_wf [OF backup_reset_wf [OF assms, of k], of xs] by (auto simp: backup_wf_def)

lemma backup_no_undefined_behaviour_witness:
  "\<exists>t. backup_run [WriteBackup 0x5555 0xAA, ReadEeprom, WriteEeprom 1] (backup_reset BACKUP_UNKN blank_backup) = Some t
     \<and> length (gamepak_backup t) = BACKUP_SIZE"
  by (rule backup_no_undefined_behaviour) (simp add: blank_backup_def)

end
