(* ===== verification/GbaProps.thy ===== *)
theory GbaProps
  imports GbaFrame SerialPortProps BackupProps
begin

text \<open>
  Properties of the machine as a whole.
\<close>

section \<open>A machine to try things on\<close>

definition bare_backup :: backup where
  "bare_backup = \<lparr>backup_type = BACKUP_UNKN, flash_mode = FLASH_BASE_MODE, flash_command_position = 0,
     flash_bank_num = 0, flash_bank_cnt = FLASH_SIZE_64KB, flash_device_id = 0x1C,
     eeprom_size = EEPROM_512_BYTE, eeprom_mode = EEPROM_BASE_MODE, eeprom_address = 0,
     eeprom_counter = 0, gamepak_backup = replicate BACKUP_SIZE 0xFF\<rparr>"

definition bare_gpio :: gpio where
  "bare_gpio = \<lparr>rtc_enabled = False, rumble_enabled = False, gpio_data = 0, gpio_dir = 0, gpio_ctl = 0,
     gpio_rom = None, rtc_state = RTC_DISABLED, rtc_command = 0, rtc_data = 0, rtc_data_bits = 0,
     rtc_status = 0x40, rtc_bit_count = 0, gp_rumble = \<lparr>rumble_enable_tick = 0, rumble_ticks = 0\<rparr>\<rparr>"

definition bare_pak :: pak where
  "bare_pak = \<lparr>blk_queue = [], lru_head = 0, lru_tail = 0, sticky_bit = replicate 32 0,
     memory_map = replicate 0x2000 None, buffers = [], buffer_count = 0, gamepak_size = 0, file_blocks = 0,
     mirror_1m = False\<rparr>"

text \<open>No cartridge, no link, all memories zero but the program \<open>p\<close> at the start of the internal work RAM.\<close>

definition bare_machine :: "bytes \<Rightarrow> gba" where
  "bare_machine p =
     \<lparr>g_bios = (\<lambda>_. 0), g_ewram = (\<lambda>_. 0), g_iwram = (\<lambda>i. if 0x8000 \<le> i then p (i - 0x8000) else 0), g_vram = (\<lambda>_. 0),
      g_palette = (\<lambda>_. 0), g_palette_converted = (\<lambda>_. 0), g_oam = (\<lambda>_. 0), g_backup = bare_backup,
      g_gpio = bare_gpio, g_pak = bare_pak, g_file = [], g_serial = serial_boot\<lparr>sr_regs := reset_ioregs\<rparr>,
      g_session = \<lparr>serial_mode = 0, netplay_client_id = 0, netplay_num_clients = 0\<rparr>,
      g_dma = replicate 4 idle_dma, g_dma_bus = 0,
      g_timers = [reset_timer 3, reset_timer 0, reset_timer 0, reset_timer 0],
      g_sound = Sound.reset_sound, g_wave_update = False, g_freq_bits = 16,
      g_ws_seq = ws_cyc_init, g_ws_nseq = ws_cyc_init, g_affine_x = (0, 0), g_affine_y = (0, 0),
      g_cpu_ticks = 0, g_frame_counter = 0, g_execute_cycles = 960, g_video_count = 960,
      g_now = \<lparr>tm_sec = 0, tm_min = 0, tm_hour = 0, tm_mday = 1, tm_mon = 0, tm_year = 100, tm_wday = 6\<rparr>,
      g_cheats = \<lparr>cheats = [], max_cheat = 0, cheat_master_hook = 0xFFFFFFFF\<rparr>,
      g_idle_loop_target = 0xFFFFFFFF,
      g_input = \<lparr>old_key = 0, turbo_a_counter = 0, turbo_b_counter = 0, gbp_keypad_frames = 0, gbp_keypad_sent = False\<rparr>,
      g_pc_block = Some (0x600, B_iwram),
      g_video = \<lparr>gba_screen_pixels = replicate (161 * 240) 0xFFFF, skip_next_frame = 0, sprite_limit = True,
        stack_line = replicate 240 0,
        obj_priority_list = (\<lambda>_ _. []), obj_alpha_count = (\<lambda>_. 0)\<rparr>\<rparr>"

text \<open>The processor about to run the instruction \<open>op\<close> there.\<close>

definition at_program :: "u32 \<Rightarrow> u32 \<Rightarrow> gs" where
  "at_program cpsr op =
     (let s = init_cpu True (bare_machine (\<lambda>i. if i < 4 then ucast (drop_bit (8 * i) op) else 0))
      in s\<lparr>reg := (reg s)(REG_PC := 0x03000000, REG_CPSR := cpsr, CPU_MODE := cpu_modes cpsr), cycles := 100\<rparr>)"

lemma bare_fields [simp]:
  "g_iwram (bare_machine p) = (\<lambda>i. if 0x8000 \<le> i then p (i - 0x8000) else 0)"
  "g_pc_block (bare_machine p) = Some (0x600, B_iwram)"
  "g_cheats (bare_machine p) = \<lparr>cheats = [], max_cheat = 0, cheat_master_hook = 0xFFFFFFFF\<rparr>"
  "g_serial (bare_machine p) = serial_boot\<lparr>sr_regs := reset_ioregs\<rparr>"
  "g_ws_seq (bare_machine p) = ws_cyc_init" "g_ws_nseq (bare_machine p) = ws_cyc_init"
  "g_idle_loop_target (bare_machine p) = 0xFFFFFFFF"
  by (simp_all add: bare_machine_def)

lemma bus_fields [simp]:
  "load (gba_bus fuel) = gba_load" "store (gba_bus fuel) = gba_store fuel" "fetch (gba_bus fuel) = gba_fetch"
  "cheat_hook (gba_bus fuel) = cheat_hook_gba fuel" "irq_pending (gba_bus fuel) = irq_pending_gba"
  "seq_cycles (gba_bus fuel) = (\<lambda>m. wide_cycles (g_ws_seq m))"
  "nseq_cycles (gba_bus fuel) = (\<lambda>m. wide_cycles (g_ws_nseq m))"
  "idle_loop_target (gba_bus fuel) = g_idle_loop_target"
  by (simp_all add: gba_bus_def)

lemma word_of_bytes:
  "ucast (ucast w :: u8) OR push_bit 8 (ucast (ucast (drop_bit 8 w) :: u8)) OR push_bit 16 (ucast (ucast (drop_bit 16 w) :: u8))
     OR push_bit 24 (ucast (ucast (drop_bit 24 w) :: u8)) = (w :: u32)" (is "?l = w")
proof (rule bit_word_eqI)
  fix n assume "n < LENGTH(32)"
  then consider "n < 8" | "8 \<le> n" "n < 16" | "16 \<le> n" "n < 24" | "24 \<le> n" "n < 32" by fastforce
  then show "bit ?l n = bit w n" by cases (auto simp: bit_simps)
qed

lemma start_arm:
  "arm_round (gba_bus fuel) (at_program 0x10 op) =
     do { (l, s) \<leftarrow> arm_instruction (gba_bus fuel) op (at_program 0x10 op);
          case l of Arm_loop \<Rightarrow> Some (Again_arm, s) | Thumb_loop \<Rightarrow> Some (Again_thumb, s)
          | Next \<Rightarrow> end_of_instruction (gba_bus fuel) False s }"
proof -
  have c: "collapse_flags (at_program 0x10 op) = at_program 0x10 op"
    by (simp add: at_program_def init_cpu_def Let_def collapse_flags_def flag_word_def set_reg_def
        fun_upd_twist [of "17 :: nat" 16])
  have p: "reg (at_program 0x10 op) 15 = 0x03000000" "mem (at_program 0x10 op) = bare_machine (\<lambda>i. if i < 4 then ucast (drop_bit (8 * i) op) else 0)"
    by (simp_all add: at_program_def init_cpu_def Let_def)
  have r: "set_reg 15 0x03000000 (at_program 0x10 op) = at_program 0x10 op"
    by (simp add: at_program_def init_cpu_def Let_def set_reg_def fun_upd_twist [of "17 :: nat" 15] fun_upd_twist [of "16 :: nat" 15])
  have h: "cheat_hook_gba fuel (at_program 0x10 op) = Some (at_program 0x10 op)"
    by (simp add: cheat_hook_gba_def p)
  have f: "gba_fetch U32 (at_program 0x10 op) = Some (op, at_program 0x10 op)"
    by (simp add: gba_fetch_def check_pc_region_def p read_block_def readaddress_def access_width_def w_bytes_def
        le_value_def word_of_bytes)
  show ?thesis by (simp add: arm_round_def c h r f p Let_def)
qed

section \<open>Modes\<close>

lemma reset_ok: "cpu_ok (reset_gba boot kind s)"
proof -
  have "cpu_ok (init_cpu boot m)" for m :: gba
    by (simp add: cpu_ok_def init_cpu_def Let_def cpu_modes_def banks_wf_def)
  then show ?thesis by (simp add: reset_gba_def Let_def with_sound_def)
qed

text \<open>C29: code in user mode gains privileges only through an exception: after any instruction of
  either set the processor is still in user mode, or it is at the software interrupt
  vector in supervisor mode or at the interrupt vector in interrupt mode. No write of the status register and no
  load with the user bit set escapes.\<close>

theorem user_code_confined:
  assumes "cpu_ok s" and "reg s CPU_MODE = MODE_USER"
    and "(if thumb then thumb_round (gba_bus fuel) s else arm_round (gba_bus fuel) s) = Some (l, t)"
  shows "reg t CPU_MODE = MODE_USER
    \<or> reg t CPU_MODE = MODE_SUPERVISOR \<and> reg t REG_PC = 0x8
    \<or> reg t CPU_MODE = MODE_IRQ \<and> reg t REG_PC = 0x18"
  using assms gba.arm_round_step [of fuel s l t] gba.thumb_round_step [of fuel s l t]
  by (cases thumb) (auto simp: mode_step_def at_vector_def)

lemma user_msr_runs: "\<exists>l t. arm_round (gba_bus 0) (at_program 0x10 0xE321F0D3) = Some (l, t)"
  unfolding start_arm
  by (simp add: arm_instruction_def cond_passed_def arm_switch_def field_def at_program_def init_cpu_def Let_def
     arm_cases_30_3F_def arm_msr_cpsr_def arm_psr_src_def ror_def pc_offset_def set_reg_def
     psr_pfield_def arm_psr_store_cpsr_def privileged_def cpsr_mask_def extract_flags_def set_cpu_mode_def cpu_modes_def
     check_for_interrupts_def irq_pending_gba_def read_ioreg_def reset_ioregs_def
     end_of_instruction_def wide_cycles_def ws_cyc_init_def arr_get_def)

lemma user_code_confined_witness:
  "\<exists>l t. arm_round (gba_bus 0) (at_program 0x10 0xE321F0D3) = Some (l, t) \<and>
     (reg t CPU_MODE = MODE_USER
      \<or> reg t CPU_MODE = MODE_SUPERVISOR \<and> reg t REG_PC = 0x8
      \<or> reg t CPU_MODE = MODE_IRQ \<and> reg t REG_PC = 0x18)"
proof -
  obtain l t where r: "arm_round (gba_bus 0) (at_program 0x10 0xE321F0D3) = Some (l, t)" using user_msr_runs by blast
  have "cpu_ok (at_program 0x10 0xE321F0D3)" "reg (at_program 0x10 0xE321F0D3) CPU_MODE = MODE_USER"
    by (simp_all add: cpu_ok_def at_program_def init_cpu_def Let_def banks_wf_def cpu_modes_def)
  from user_code_confined [OF this, of False 0 l t] r show ?thesis by auto
qed

end
