(* ===== verification/VideoProps.thy ===== *)
theory VideoProps
  imports VideoSafe GbaProps
begin

text \<open>
  Properties of the scan line renderer.
\<close>

section \<open>A line stays inside its arrays\<close>

text \<open>The sizes of the arrays, and lists that match the object memory unless they are out of date.\<close>

definition video_ok :: "gs \<Rightarrow> bool" where
  "video_ok s \<longleftrightarrow> length (gba_screen_pixels (g_video (mem s))) = 161 * 240
     \<and> length (stack_line (g_video (mem s))) = 240 \<and> (reg s OAM_UPDATED = 0 \<longrightarrow> objs_listed s)"

lemma sort_objs_ok:
  assumes "video_ok s"
  shows "\<exists>t. sort_objs s = Some t \<and> objs_listed t \<and> reg t OAM_UPDATED = 0
    \<and> gba_screen_pixels (g_video (mem t)) = gba_screen_pixels (g_video (mem s))
    \<and> stack_line (g_video (mem t)) = stack_line (g_video (mem s))
    \<and> ioregs_of t = ioregs_of s"
proof (cases "reg s OAM_UPDATED = 0")
  case True
  then show ?thesis using assms by (simp add: sort_objs_def video_ok_def)
next
  case False
  let ?v = "unat (ior s REG_DISPCNT AND 7)"
  obtain t where t: "order_obj ?v s = Some t" by (simp add: order_obj_lists)
  then have "objs_listed (set_reg OAM_UPDATED 0 t)"
    using order_obj_listed [OF t] by (simp add: objs_listed_def sprite_of_def oam16_def set_reg_def)
  then show ?thesis
    using False t by (auto simp: sort_objs_def order_obj_lists set_reg_def upd_def ioregs_of_def)
qed

lemma line_ready_ioregs:
  assumes "ioregs_of t = ioregs_of s"
  shows "ior t = ior s" "tiles_inside t = tiles_inside s"
proof -
  show i: "ior t = ior s" using assms by (simp add: ior_def [abs_def])
  show "tiles_inside t = tiles_inside s" unfolding tiles_inside_def text_inside_def i ..
qed

lemma window_pass_inside:
  assumes "line_ready s" "at + 480 \<le> n"
  shows "pass_inside n at (window_pass w s layers at)"
proof -
  have "pass_inside n at (\<lambda>start stop. render_scanline_conditional s layers start stop at 0x3F)"
    unfolding pass_inside_def
  proof (intro allI impI)
    fix start stop :: nat assume b: "start \<le> stop" "stop \<le> 240"
    show "draws n at (at + 480) (render_scanline_conditional s layers start stop at 0x3F)"
      by (rule draws_mono [OF draws_conditional [OF assms(1) b]]) (use assms(2) b in auto)
  qed
  then show ?thesis
    using assms windowout_inside windowobj_inside window_n_inside by (auto simp: window_pass_def)
qed

lemma draw_line_ok:
  assumes "line_ready s" "length (gba_screen_pixels (g_video (mem s))) = 161 * 240"
  shows "\<exists>t. draw_line s = Some t
    \<and> same_outside (unat (ior s REG_VCOUNT) * 240) (unat (ior s REG_VCOUNT) * 240 + 480)
        (gba_screen_pixels (g_video (mem s))) (gba_screen_pixels (g_video (mem t)))
    \<and> stack_line (g_video (mem t)) = stack_line (g_video (mem s)) \<and> objs_listed t
    \<and> reg t = reg s \<and> ior t = ior s"
proof -
  let ?at = "unat (ior s REG_VCOUNT) * 240" and ?screen = "gba_screen_pixels (g_video (mem s))"
  have v: "unat (ior s REG_VCOUNT) < 160" using assms(1) by (simp add: line_ready_def)
  then have room: "?at + 480 \<le> length ?screen" using assms(2) by simp
  obtain layers where layers: "order_layers (drop_bit 8 (ior s REG_DISPCNT) AND active_layers ! unat (ior s REG_DISPCNT AND 7))
      (unat (ior s REG_VCOUNT)) s = Some layers" using order_layers_Some(1) [OF v] by blast
  have "\<exists>c. render_scanline_window s layers ?at ?screen = Some c \<and> same_outside ?at (?at + 480) ?screen c"
    using window_pass_inside [OF assms(1) order_refl, of ?at] drawsD [OF _ room]
    by (simp add: render_scanline_window_def pass_inside_def)
  moreover have "\<exists>c. arr_blit ?screen ?at (replicate 240 0xFFFF) = Some c \<and> same_outside ?at (?at + 480) ?screen c"
    using room by (auto simp: arr_blit_def same_outside_def nth_append)
  ultimately obtain c where
    "(if ior s REG_DISPCNT AND 0x80 \<noteq> 0 then arr_blit ?screen ?at (replicate 240 0xFFFF)
      else render_scanline_window s layers ?at ?screen) = Some c" "same_outside ?at (?at + 480) ?screen c"
    by (cases "ior s REG_DISPCNT AND 0x80 \<noteq> 0") auto
  moreover have "objs_listed (upd (\<lambda>m. m\<lparr>g_video := (g_video m)\<lparr>gba_screen_pixels := c\<rparr>\<rparr>) s)"
    using assms(1) by (simp add: line_ready_def objs_listed_def Let_def) (simp add: upd_def)
  ultimately show ?thesis
    by (simp add: draw_line_def layers Let_def GBA_SCREEN_PITCH_def)
       (simp add: upd_def ior_def ioregs_of_def fun_eq_iff)
qed

lemma advance_keeps: "g_video (mem (advance_references s)) = g_video (mem s)" "reg (advance_references s) = reg s"
    "g_oam (mem (advance_references s)) = g_oam (mem s)"
  by (simp_all add: advance_references_def upd_def split: prod.splits)

lemma objs_listed_cong: "g_video (mem t) = g_video (mem s) \<Longrightarrow> g_oam (mem t) = g_oam (mem s) \<Longrightarrow> objs_listed t = objs_listed s"
  by (simp add: objs_listed_def sprite_of_def oam16_def)

text \<open>What a line may change at all.\<close>

lemma update_scanline_effect:
  assumes "update_scanline s = Some t"
  shows "mem t = (mem s)\<lparr>g_video := g_video (mem t), g_affine_x := g_affine_x (mem t), g_affine_y := g_affine_y (mem t)\<rparr>"
    and "r \<noteq> OAM_UPDATED \<Longrightarrow> reg t r = reg s r"
  using assms
  by (auto simp: update_scanline_def sort_objs_def order_obj_def draw_line_def advance_references_def Let_def upd_def set_reg_def
      split: Option.bind_splits if_splits prod.splits)

lemma line_drawn:
  assumes "video_ok s" "unat (ior s REG_DISPCNT AND 7) < 3" "tiles_inside s" "unat (ior s REG_VCOUNT) < 160"
  shows "\<exists>t. update_scanline s = Some t \<and> video_ok t
    \<and> same_outside (unat (ior s REG_VCOUNT) * 240) ((unat (ior s REG_VCOUNT) + 2) * 240)
        (gba_screen_pixels (g_video (mem s))) (gba_screen_pixels (g_video (mem t)))"
proof (cases "skip_next_frame (g_video (mem s)) = 0")
  case False
  then show ?thesis using assms(1) by (simp add: update_scanline_def)
next
  case True
  obtain t where t: "sort_objs s = Some t" "objs_listed t" "reg t OAM_UPDATED = 0"
    "gba_screen_pixels (g_video (mem t)) = gba_screen_pixels (g_video (mem s))"
    "stack_line (g_video (mem t)) = stack_line (g_video (mem s))" "ioregs_of t = ioregs_of s"
    using sort_objs_ok [OF assms(1)] by blast
  note io = line_ready_ioregs [OF t(6)]
  have "line_ready t" using assms t(2,5) io by (simp add: line_ready_def video_ok_def)
  moreover have "length (gba_screen_pixels (g_video (mem t))) = 161 * 240" using assms(1) t(4) by (simp add: video_ok_def)
  ultimately obtain u where u: "draw_line t = Some u"
    "same_outside (unat (ior t REG_VCOUNT) * 240) (unat (ior t REG_VCOUNT) * 240 + 480)
        (gba_screen_pixels (g_video (mem t))) (gba_screen_pixels (g_video (mem u)))"
    "stack_line (g_video (mem u)) = stack_line (g_video (mem t))" "objs_listed u" "reg u = reg t" "ior u = ior t"
    using draw_line_ok by blast
  let ?w = "if ior u REG_DISPCNT AND 7 \<noteq> 0 then advance_references u else u"
  have w: "g_video (mem ?w) = g_video (mem u)" "g_oam (mem ?w) = g_oam (mem u)" by (simp_all add: advance_keeps)
  have "video_ok ?w"
    using assms(1) u t w same_outside_length [OF u(2)] objs_listed_cong [OF w] by (simp add: video_ok_def)
  moreover have "update_scanline s = Some ?w" using True t(1) u(1) by (simp add: update_scanline_def)
  ultimately show ?thesis using u(2) t(4) io w by (simp add: algebra_simps)
qed

text \<open>C34: in the tile modes a scan line is drawn without an access outside any array, whatever the
  game has put into the video memory, the object memory, the palettes and the registers, as long
  as no text layer shows tiles of 256 colours from the last character block. Only the
  pixels of the line change, and those of the line below, which object windows use as a scratch
  area and which the buffer has one of more than the screen. The sizes of the buffers and the
  object lists stay in order for the next line.\<close>

theorem tile_line_safe:
  assumes "video_ok s" "unat (ior s REG_DISPCNT AND 7) < 3" "tiles_inside s" "unat (ior s REG_VCOUNT) < 160"
  shows "\<exists>t. update_scanline s = Some t \<and> video_ok t
    \<and> same_outside (unat (ior s REG_VCOUNT) * 240) ((unat (ior s REG_VCOUNT) + 2) * 240)
        (gba_screen_pixels (g_video (mem s))) (gba_screen_pixels (g_video (mem t)))"
  using assms by (rule line_drawn)

text \<open>A machine in mode 0 with an empty background.\<close>

definition blank_screen :: gs where
  "blank_screen = iow REG_DISPCNT 0x0100 (at_program 0x10 0)"

lemma tile_line_safe_witness:
  "\<exists>t. update_scanline blank_screen = Some t \<and> video_ok t
    \<and> same_outside (unat (ior blank_screen REG_VCOUNT) * 240) ((unat (ior blank_screen REG_VCOUNT) + 2) * 240)
        (gba_screen_pixels (g_video (mem blank_screen))) (gba_screen_pixels (g_video (mem t)))"
proof (rule tile_line_safe)
  have video: "g_video (mem blank_screen) = g_video (bare_machine (\<lambda>i. 0))"
    by (simp add: blank_screen_def iow_def upd_def at_program_def init_cpu_def Let_def bare_machine_def)
  then show "video_ok blank_screen"
    by (simp add: video_ok_def objs_listed_def bare_machine_def)
qed (simp_all add: blank_screen_def iow_def upd_def ior_def ioregs_of_def at_program_def init_cpu_def Let_def bare_fields
      reset_ioregs_def read_ioreg_def write_ioreg_def tiles_inside_def text_inside_def REG_BGxCNT_def)

end
