(* ===== verification/GbaLive.thy ===== *)
theory GbaLive
  imports VideoProps
begin

text \<open>
  A sleeping machine: frames end although the processor never runs.
\<close>

section \<open>Machines in which nothing happens but video\<close>

text \<open>
  The processor is halted or stopped, no interrupt is enabled that could wake it, the timers
  stand, no transfer waits for a blanking period, the sound is off, no cheat is active and
  no link is connected.
\<close>

definition calm :: "gs \<Rightarrow> bool" where
  "calm s \<longleftrightarrow> (reg s CPU_HALT_STATE = CPU_HALT \<or> reg s CPU_HALT_STATE = CPU_STOP) \<and> ior s REG_IE = 0
     \<and> length (g_timers (mem s)) = 4 \<and> list_all (\<lambda>t. tm_status t = TIMER_INACTIVE) (g_timers (mem s))
     \<and> length (g_dma (mem s)) = 4
     \<and> list_all (\<lambda>d. start_type d \<noteq> DMA_START_HBLANK \<and> start_type d \<noteq> DMA_START_VBLANK) (g_dma (mem s))
     \<and> sound_on (g_sound (mem s)) \<noteq> 1
     \<and> max_cheat (g_cheats (mem s)) < length (cheats (g_cheats (mem s)))
     \<and> list_all (\<lambda>c. \<not> cheat_active c) (cheats (g_cheats (mem s)))
     \<and> serial_mode (g_session (mem s)) = SERIAL_MODE_DISABLED \<and> serial_irq_cycles (g_serial (mem s)) = 0
     \<and> unat (ior s REG_DISPCNT AND 7) < 3 \<and> tiles_inside s"

definition calm_view ::
    "gs \<Rightarrow> u32 \<times> u16 list \<times> timer_type list \<times> dma_transfer list \<times> u32 \<times> cheat_list \<times> session \<times> u32" where
  "calm_view s = (reg s CPU_HALT_STATE, map (ior s) [REG_IE, REG_DISPCNT, 4, 5, 6, 7], g_timers (mem s), g_dma (mem s),
     sound_on (g_sound (mem s)), g_cheats (mem s), g_session (mem s), serial_irq_cycles (g_serial (mem s)))"

lemma calm_cong: "calm_view t = calm_view s \<Longrightarrow> calm t = calm s"
proof -
  assume v: "calm_view t = calm_view s"
  have "ior t (REG_BGxCNT n) = ior s (REG_BGxCNT n)" if "n < 4" for n
    using v that by (cases n rule: nat.exhaust [case_names 0 Suc])
      (auto simp: calm_view_def REG_BGxCNT_def less_Suc_eq numeral_eq_Suc)
  then have "tiles_inside t = tiles_inside s"
    using v by (simp add: tiles_inside_def text_inside_def calm_view_def cong: conj_cong)
  then show ?thesis using v by (simp add: calm_def calm_view_def)
qed

lemma calm_view_simps [simp]:
  "calm_view (upd (\<lambda>m. m\<lparr>g_cpu_ticks := a m\<rparr>) s) = calm_view s"
  "calm_view (upd (\<lambda>m. m\<lparr>g_execute_cycles := a m\<rparr>) s) = calm_view s"
  "calm_view (upd (\<lambda>m. m\<lparr>g_frame_counter := a m\<rparr>) s) = calm_view s"
  "calm_view (upd (\<lambda>m. m\<lparr>g_pc_block := b m\<rparr>) s) = calm_view s"
  "calm_view (upd (\<lambda>m. m\<lparr>g_pak := c m\<rparr>) s) = calm_view s"
  "calm_view (upd (\<lambda>m. m\<lparr>g_input := d m\<rparr>) s) = calm_view s"
  "calm_view (upd (\<lambda>m. m\<lparr>g_serial := (g_serial m)\<lparr>sr_rumble := e m\<rparr>\<rparr>) s) = calm_view s"
  "calm_view (s\<lparr>cycles := n\<rparr>) = calm_view s"
  "calm_view (add_video k s) = calm_view s" "calm_view (video_reload_counters s) = calm_view s"
  "calm_view (iow REG_VCOUNT v s) = calm_view s" "calm_view (iow REG_DISPSTAT v s) = calm_view s"
  "calm_view (iow REG_IF v s) = calm_view s" "calm_view (iow REG_P1 v s) = calm_view s"
  "calm_view (iow REG_SOUNDCNT_X v s) = calm_view s"
  by (simp_all add: calm_view_def upd_def iow_def ior_def ioregs_of_def add_video_def video_reload_counters_def)

text \<open>What tells how far the frame has come: registers, cycle counters and the picture.\<close>

definition time_view :: "gs \<Rightarrow> u16 \<times> u16 \<times> u32 \<times> u32 \<times> u32 \<times> bool" where
  "time_view s = (ior s REG_VCOUNT, ior s REG_DISPSTAT, g_video_count (mem s), g_execute_cycles (mem s),
     g_frame_counter (mem s), video_ok s)"

lemma time_view_simps [simp]:
  "time_view (upd (\<lambda>m. m\<lparr>g_cpu_ticks := a m\<rparr>) s) = time_view s"
  "time_view (upd (\<lambda>m. m\<lparr>g_pc_block := b m\<rparr>) s) = time_view s"
  "time_view (upd (\<lambda>m. m\<lparr>g_pak := c m\<rparr>) s) = time_view s"
  "time_view (upd (\<lambda>m. m\<lparr>g_input := d m\<rparr>) s) = time_view s"
  "time_view (upd (\<lambda>m. m\<lparr>g_serial := (g_serial m)\<lparr>sr_rumble := e m\<rparr>\<rparr>) s) = time_view s"
  "time_view (s\<lparr>cycles := n\<rparr>) = time_view s"
  "time_view (video_reload_counters s) = time_view s"
  "time_view (iow REG_IF v s) = time_view s" "time_view (iow REG_P1 v s) = time_view s"
  "time_view (iow REG_SOUNDCNT_X v s) = time_view s"
  by (simp_all add: time_view_def upd_def iow_def ior_def ioregs_of_def add_video_def video_reload_counters_def
      video_ok_def objs_listed_def sprite_of_def oam16_def)

section \<open>The parts of an event that do nothing\<close>

lemma calm_nth:
  assumes "calm s" "n < 4"
  shows "get_timer n s = Some (g_timers (mem s) ! n)" "tm_status (g_timers (mem s) ! n) = TIMER_INACTIVE"
    "get_dma n s = Some (g_dma (mem s) ! n)" "start_type (g_dma (mem s) ! n) \<noteq> DMA_START_HBLANK"
    "start_type (g_dma (mem s) ! n) \<noteq> DMA_START_VBLANK"
  using assms by (simp_all add: calm_def get_timer_def get_dma_def arr_get_def list_all_length)

lemma calm_timers: "calm s \<Longrightarrow> update_timers fuel c s = Some (0, 0, s)"
  by (simp add: update_timers_def update_timer_def calm_nth)

lemma calm_dmas:
  assumes "calm s" "start = DMA_START_HBLANK \<or> start = DMA_START_VBLANK"
  shows "blank_dmas fuel start [0..<4] c s = Some (c, s)"
  using assms calm_nth [OF assms(1)] by (auto simp: upt_conv_Cons)

lemma calm_serial: "calm s \<Longrightarrow> update_serial_port polled c s = Some (False, s)"
  by (simp add: calm_def update_serial_port_def update_serial_def device_update_def count_irq_def upd_def)

lemma calm_cheats: "calm s \<Longrightarrow> process_cheats fuel s = Some s"
proof -
  assume s: "calm s"
  have run: "run_cheats fuel is s = Some s" if "set is \<subseteq> {..max_cheat (g_cheats (mem s))}" for "is"
    using that s by (induction "is") (auto simp: calm_def arr_get_def list_all_length)
  show ?thesis unfolding process_cheats_def by (rule run) auto
qed

lemma calm_sound:
  assumes "calm s"
  shows "\<exists>t. render_sound s = Some t \<and> calm_view t = calm_view s \<and> time_view t = time_view s"
proof -
  have off: "sound_on (g_sound (mem s)) \<noteq> 1" using assms by (simp add: calm_def)
  have x: "calm_view (upd (\<lambda>m. m\<lparr>g_sound := x\<rparr>) s) = calm_view s" "time_view (upd (\<lambda>m. m\<lparr>g_sound := x\<rparr>) s) = time_view s"
    if "sound_on x = sound_on (g_sound (mem s))" for x
    using that by (simp_all add: calm_view_def time_view_def upd_def ior_def ioregs_of_def video_ok_def objs_listed_def
        sprite_of_def oam16_def)
  show ?thesis using off by (auto simp: render_sound_def render_gbc_sound_def Let_def x)
qed

lemma calm_interrupts: "calm s \<Longrightarrow> check_and_raise_interrupts (gba_bus fuel) s = Some (False, s)"
  by (simp add: calm_def check_and_raise_interrupts_def cpu_has_interrupt_def irq_pending_gba_def ior_def ioregs_of_def Let_def)

lemma calm_flag [simp]:
  "calm_view (snd (flag_interrupt irq s)) = calm_view s" "time_view (snd (flag_interrupt irq s)) = time_view s"
  by (simp_all add: flag_interrupt_def Let_def)

section \<open>One event\<close>

text \<open>A sleeping machine at line \<open>v\<close> of the frame, in its blanking period or not, \<open>d\<close> cycles before its next video event.\<close>

definition at_line :: "nat \<Rightarrow> bool \<Rightarrow> u32 \<Rightarrow> gs \<Rightarrow> bool" where
  "at_line v blank d s \<longleftrightarrow> calm s \<and> video_ok s \<and> v < 228 \<and> ior s REG_VCOUNT = of_nat v
     \<and> (bit (ior s REG_DISPSTAT) 1 \<longleftrightarrow> blank) \<and> (160 \<le> v \<longrightarrow> bit (ior s REG_DISPSTAT) 0)
     \<and> g_video_count (mem s) = d"

lemma at_line_cong:
  "calm_view t = calm_view s \<Longrightarrow> time_view t = time_view s \<Longrightarrow> at_line v b d t = at_line v b d s"
  using calm_cong [of t s] by (simp add: at_line_def time_view_def)

lemma flag_bits: "(w :: u16) AND 0x02 = 0 \<longleftrightarrow> \<not> bit w 1" "w AND 0x01 = 0 \<longleftrightarrow> \<not> bit w 0"
  using and_exp_eq_0_iff_not_bit [of w 1] and_exp_eq_0_iff_not_bit [of w 0] by simp_all

lemma line_view:
  assumes "update_scanline s = Some t"
  shows "calm_view t = calm_view s" "ior t = ior s" "g_video_count (mem t) = g_video_count (mem s)"
    "g_execute_cycles (mem t) = g_execute_cycles (mem s)" "g_frame_counter (mem t) = g_frame_counter (mem s)"
proof -
  obtain v ax ay where m: "mem t = (mem s)\<lparr>g_video := v, g_affine_x := ax, g_affine_y := ay\<rparr>"
    using update_scanline_effect(1) [OF assms] by blast
  show "ior t = ior s" by (simp add: ior_def [abs_def] ioregs_of_def m)
  then show "calm_view t = calm_view s" using update_scanline_effect(2) [OF assms, of CPU_HALT_STATE]
    by (simp add: calm_view_def m)
  show "g_video_count (mem t) = g_video_count (mem s)" "g_execute_cycles (mem t) = g_execute_cycles (mem s)"
    "g_frame_counter (mem t) = g_frame_counter (mem s)" by (simp_all add: m)
qed

lemma video_ok_simps [simp]:
  "video_ok (iow r v s) = video_ok s" "video_ok (add_video k s) = video_ok s"
  "video_ok (upd (\<lambda>m. m\<lparr>g_frame_counter := a m\<rparr>) s) = video_ok s"
  by (simp_all add: iow_def add_video_def upd_def video_ok_def objs_listed_def sprite_of_def oam16_def)

lemma time_simps [simp]:
  "ior (iow r v s) q = (if q = r then v else ior s q)" "ior (add_video k s) = ior s"
  "ior (upd (\<lambda>m. m\<lparr>g_frame_counter := a m\<rparr>) s) = ior s"
  "g_video_count (mem (iow r v s)) = g_video_count (mem s)" "g_execute_cycles (mem (iow r v s)) = g_execute_cycles (mem s)"
  "g_frame_counter (mem (iow r v s)) = g_frame_counter (mem s)"
  "g_video_count (mem (add_video k s)) = g_video_count (mem s) + k"
  "g_execute_cycles (mem (add_video k s)) = g_execute_cycles (mem s)"
  "g_frame_counter (mem (add_video k s)) = g_frame_counter (mem s)"
  by (simp_all add: iow_def add_video_def upd_def ior_def [abs_def] ioregs_of_def)

text \<open>The end of the visible part of a line.\<close>

lemma hblank_event:
  assumes "at_line v False d s"
  shows "\<exists>irq t. video_event fuel c s = Some (irq, c, False, t) \<and> at_line v True (d + 272) t
    \<and> g_frame_counter (mem t) = g_frame_counter (mem s)"
proof -
  note a = assms [unfolded at_line_def]
  let ?d = "ior s REG_DISPSTAT OR 0x02" and ?s = "add_video 272 s"
  have b: "bit ?d 1" "bit ?d 0 = bit (ior s REG_DISPSTAT) 0" by (simp_all add: bit_or_iff bit_numeral_rec)
  have calm: "calm ?s" using a calm_cong [of ?s s] by simp
  obtain u where u: "(if ?d AND 0x01 = 0 then do { s \<leftarrow> update_scanline ?s; blank_dmas fuel DMA_START_HBLANK [0..<4] c s }
      else Some (c, ?s)) = Some (c, u)" "calm_view u = calm_view s" "ior u = ior s" "video_ok u"
      "g_video_count (mem u) = d + 272" "g_frame_counter (mem u) = g_frame_counter (mem s)"
  proof (cases "bit (ior s REG_DISPSTAT) 0")
    case True
    then show ?thesis using that [of ?s] a b(2) by (simp add: flag_bits)
  next
    case False
    then have "v < 160" using a by auto
    then obtain u where l: "update_scanline ?s = Some u" "video_ok u"
      using line_drawn [of ?s] a calm by (auto simp: calm_def unsigned_of_nat take_bit_nat_eq_self)
    note v = line_view [OF l(1)]
    have "calm u" using calm calm_cong [OF v(1)] by simp
    then show ?thesis using that [of u] False b(2) a l v calm_dmas [of u] by (simp add: flag_bits)
  qed
  have "video_event fuel c s = Some (if ?d AND 0x10 \<noteq> 0 then 0x0002 else 0, c, False, iow REG_DISPSTAT ?d u)"
    using a u(1) by (simp add: video_event_def enter_hblank_def flag_bits Let_def del: bit_0)
  moreover have "at_line v True (d + 272) (iow REG_DISPSTAT ?d u)"
    using a u b calm_cong [of "iow REG_DISPSTAT ?d u" s] by (simp add: at_line_def del: bit_0)
  ultimately show ?thesis using u(6) by auto
qed

text \<open>The end of a frame.\<close>

lemma calm_frame:
  assumes "calm s"
  shows "\<exists>t. complete_frame fuel s = Some t \<and> calm_view t = calm_view s \<and> ior t REG_VCOUNT = ior s REG_VCOUNT
    \<and> ior t REG_DISPSTAT = ior s REG_DISPSTAT \<and> g_video_count (mem t) = g_video_count (mem s) \<and> video_ok t = video_ok s
    \<and> g_frame_counter (mem t) = g_frame_counter (mem s) + 1"
proof -
  obtain u where u: "render_sound s = Some u" "calm_view u = calm_view s" "time_view u = time_view s"
    using calm_sound [OF assms] by blast
  then have "complete_frame fuel s = Some (upd (\<lambda>m. m\<lparr>g_frame_counter := g_frame_counter m + 1\<rparr>) u)"
    using calm_cheats [OF assms] by (simp add: complete_frame_def)
  moreover have "g_video_count (mem (upd (\<lambda>m. m\<lparr>g_frame_counter := g_frame_counter m + 1\<rparr>) u)) = g_video_count (mem u)"
    "g_frame_counter (mem (upd (\<lambda>m. m\<lparr>g_frame_counter := g_frame_counter m + 1\<rparr>) u)) = g_frame_counter (mem u) + 1"
    by (simp_all add: upd_def)
  ultimately show ?thesis using u(2,3) by (simp add: time_view_def)
qed

lemma match_bits:
  "bit (snd (match_line d v)) 0 = bit d 0" "bit (snd (match_line d v)) 1 = bit d 1"
  by (simp_all add: match_line_def Let_def bit_or_iff bit_and_iff bit_not_iff bit_numeral_rec)

lemma of_nat_u32: "m < 2 ^ 32 \<Longrightarrow> k < 2 ^ 32 \<Longrightarrow> (of_nat m :: u32) = of_nat k \<longleftrightarrow> m = k"
  by (simp add: word_unat_eq_iff unsigned_of_nat take_bit_nat_eq_self)

text \<open>The next line, or the next frame.\<close>

lemma next_line_calm:
  assumes "at_line v True d s"
  shows "\<exists>irq e u. next_line fuel c (ior s REG_DISPSTAT) (ucast (of_nat v :: u16)) s
        = Some (irq, e, of_nat (if v = 227 then 0 else v + 1), c, v = 227, u)
    \<and> \<not> bit e 1 \<and> (v < 227 \<and> 159 \<le> v \<longrightarrow> bit e 0) \<and> calm_view u = calm_view s \<and> video_ok u
    \<and> g_video_count (mem u) = d + 960 \<and> g_frame_counter (mem u) = g_frame_counter (mem s) + (if v = 227 then 1 else 0)"
proof -
  note a = assms [unfolded at_line_def]
  let ?s = "add_video 960 s" and ?d = "ior s REG_DISPSTAT AND NOT 0x02"
  have calm: "calm ?s" "calm (video_reload_counters ?s)"
    using a calm_cong [of ?s s] calm_cong [of "video_reload_counters ?s" s] by simp_all
  have b: "\<not> bit ?d 1" "bit ?d 0 = bit (ior s REG_DISPSTAT) 0" by (simp_all add: bit_and_iff bit_not_iff bit_numeral_rec)
  have n: "ucast (of_nat v :: u16) + 1 = (of_nat (v + 1) :: u32)"
  proof -
    have "ucast (of_nat v :: u16) = (of_nat v :: u32)"
      using a by (simp add: word_unat_eq_iff unsigned_ucast_eq unsigned_of_nat take_bit_nat_eq_self)
    then show ?thesis by simp
  qed
  have eq: "of_nat (v + 1) = (160 :: u32) \<longleftrightarrow> v = 159" "of_nat (v + 1) = (228 :: u32) \<longleftrightarrow> v = 227"
    using a of_nat_u32 [of "v + 1" 160] of_nat_u32 [of "v + 1" 228] by auto
  note nl = next_line_def [of fuel c "ior s REG_DISPSTAT" "ucast (of_nat v :: u16)" s, unfolded Let_def n eq]
  consider "v = 159" | "v = 227" | "v \<noteq> 159" "v \<noteq> 227" by blast
  then show ?thesis
  proof cases
    case 1
    have "time_view (video_reload_counters ?s) = time_view ?s" by simp
    then have "video_ok (video_reload_counters ?s)" "g_video_count (mem (video_reload_counters ?s)) = d + 960"
        "g_frame_counter (mem (video_reload_counters ?s)) = g_frame_counter (mem s)"
      using a by (simp_all add: time_view_def)
    then show ?thesis unfolding nl using 1 calm_dmas [OF calm(2)] b by (simp add: bit_or_iff bit_numeral_rec)
  next
    case 2
    then show ?thesis unfolding nl using calm_frame [OF calm(1), of fuel] a b
      by (auto simp: bit_and_iff bit_not_iff bit_numeral_rec)
  next
    case 3
    then show ?thesis unfolding nl using a b by auto
  qed
qed

lemma line_event:
  assumes "at_line v True d s"
  shows "\<exists>irq t. video_event fuel c s = Some (irq, c, v = 227, t) \<and> at_line (if v = 227 then 0 else v + 1) False (d + 960) t
    \<and> g_frame_counter (mem t) = g_frame_counter (mem s) + (if v = 227 then 1 else 0)"
proof -
  note a = assms [unfolded at_line_def]
  let ?w = "if v = 227 then 0 else v + 1"
  obtain irq e u where l: "next_line fuel c (ior s REG_DISPSTAT) (ucast (of_nat v :: u16)) s = Some (irq, e, of_nat ?w, c, v = 227, u)"
      "\<not> bit e 1" "v < 227 \<and> 159 \<le> v \<longrightarrow> bit e 0" "calm_view u = calm_view s" "video_ok u"
      "g_video_count (mem u) = d + 960" "g_frame_counter (mem u) = g_frame_counter (mem s) + (if v = 227 then 1 else 0)"
    using next_line_calm [OF assms, of fuel c] by blast
  let ?m = "match_line e (of_nat ?w)"
  let ?t = "iow REG_DISPSTAT (snd ?m) (iow REG_VCOUNT (ucast (of_nat ?w :: u32)) u)"
  have w: "ucast (of_nat ?w :: u32) = (of_nat ?w :: u16)"
    using a by (simp add: word_unat_eq_iff unsigned_ucast_eq unsigned_of_nat take_bit_nat_eq_self)
  have "video_event fuel c s = Some (irq OR fst ?m, c, v = 227, ?t)"
    using a l(1) by (simp add: video_event_def flag_bits split_def Let_def del: bit_0)
  moreover have "at_line ?w False (d + 960) ?t"
    using a l w match_bits [of e "of_nat ?w"] calm_cong [of ?t s] by (auto simp: at_line_def simp del: bit_0)
  ultimately show ?thesis using l(7) by auto
qed

section \<open>Rounds\<close>

lemma fold_idle: "list_all (\<lambda>t. tm_status t = TIMER_INACTIVE) ts \<Longrightarrow> fold timer_event ts c = c"
  by (induction ts) (auto simp: timer_event_def)

text \<open>The next event is the one of the video.\<close>

lemma plan_calm:
  assumes "at_line v b d s" "0 <s d"
  shows "at_line v b d (plan_cycles x s)" "g_execute_cycles (mem (plan_cycles x s)) = d"
    "g_frame_counter (mem (plan_cycles x s)) = g_frame_counter (mem s)"
proof -
  note a = assms(1) [unfolded at_line_def]
  let ?e = "\<lambda>c. upd (\<lambda>m. m\<lparr>g_execute_cycles := c\<rparr>) s"
  have n: "serial_next_event (g_serial (mem s)) = NOT 0" and h: "reg s CPU_HALT_STATE \<noteq> CPU_DMA"
    and t: "list_all (\<lambda>t. tm_status t = TIMER_INACTIVE) (g_timers (mem s))"
    using a by (auto simp: calm_def serial_next_event_def)
  have "plan_cycles x s = ?e d"
    using assms(2) a n h by (simp add: plan_cycles_def dma_sleep_def fold_idle [OF t] Let_def min_absorb1) (simp add: upd_def fold_idle [OF t])
  moreover have "at_line v b d (?e d)"
    using a calm_cong [of "?e d" s] by (simp add: at_line_def)
      (simp add: upd_def ior_def ioregs_of_def video_ok_def objs_listed_def sprite_of_def oam16_def)
  ultimately show "at_line v b d (plan_cycles x s)" "g_execute_cycles (mem (plan_cycles x s)) = d"
    "g_frame_counter (mem (plan_cycles x s)) = g_frame_counter (mem s)" by (simp_all add: upd_def)
qed

text \<open>A round up to the event.\<close>

lemma round_event:
  assumes "at_line v b d s" "g_execute_cycles (mem s) = d"
  defines "fin \<equiv> b \<and> v = 227"
  defines "v' \<equiv> if fin then 0 else if b then v + 1 else v" and "d' \<equiv> if b then 960 else 272"
  shows "\<exists>t. update_round fuel p 0 s = Some (0, fin, False, t) \<and> at_line v' (\<not> b) d' t \<and> g_execute_cycles (mem t) = d'
    \<and> g_frame_counter (mem t) = g_frame_counter (mem s) + (if fin then 1 else 0)"
proof -
  let ?s = "upd (\<lambda>m. m\<lparr>g_cpu_ticks := g_cpu_ticks m + d\<rparr>) s"
  let ?u = "add_video (- d) ?s"
  have s: "at_line v b d ?s" using at_line_cong [of ?s s] assms(1) by simp
  then have calm: "calm ?s" by (simp add: at_line_def)
  have u: "at_line v b 0 ?u" using s calm_cong [of ?u ?s] by (simp add: at_line_def)
  have c: "g_frame_counter (mem ?u) = g_frame_counter (mem s)" by (simp add: upd_def)
  obtain irq x where x: "video_event fuel 0 ?u = Some (irq, 0, fin, x)" "at_line v' (\<not> b) d' x"
      "g_frame_counter (mem x) = g_frame_counter (mem s) + (if fin then 1 else 0)"
    using hblank_event [of v 0 ?u fuel 0] line_event [of v 0 ?u fuel 0] u c
    by (cases b) (auto simp: fin_def v'_def d'_def split: if_splits)
  let ?y = "if irq \<noteq> 0 then snd (flag_interrupt irq x) else x"
  have y: "at_line v' (\<not> b) d' ?y" "g_frame_counter (mem ?y) = g_frame_counter (mem x)"
    using at_line_cong [of ?y x] x(2) by (auto simp: flag_interrupt_def Let_def)
  then have calm_y: "calm ?y" by (simp add: at_line_def)
  have d': "0 <s d'" by (simp add: d'_def word_sless_alt)
  have "update_round fuel p 0 s = Some (0, fin, False, plan_cycles d ?y)"
    using calm_timers [OF calm] calm_serial [OF calm] calm_interrupts [OF calm_y] x(1) u
    by (cases "irq = 0") (simp_all add: update_round_def Let_def assms(2) at_line_def)
  then show ?thesis using plan_calm [OF y(1) d'] y(2) x(3) by auto
qed

text \<open>A round before the event: the processor gives back \<open>r\<close> of its cycles.\<close>

lemma round_wait:
  assumes "at_line v b d s" and e: "e = d - (g_execute_cycles (mem s) - r)" and "0 <s e"
  shows "\<exists>t. update_round fuel p r s = Some (0, False, False, t) \<and> at_line v b e t
    \<and> g_execute_cycles (mem t) = e \<and> g_frame_counter (mem t) = g_frame_counter (mem s)"
proof -
  let ?n = "g_execute_cycles (mem s) - r"
  let ?s = "upd (\<lambda>m. m\<lparr>g_cpu_ticks := g_cpu_ticks m + ?n\<rparr>) s"
  let ?u = "add_video (- ?n) ?s"
  have s: "at_line v b d ?s" using at_line_cong [of ?s s] assms(1) by simp
  then have calm: "calm ?s" by (simp add: at_line_def)
  have u: "at_line v b e ?u" using s calm_cong [of ?u ?s] by (simp add: at_line_def e)
  then have calm_u: "calm ?u" and d: "g_video_count (mem ?u) = e" by (simp_all add: at_line_def del: time_simps)
  have c: "g_frame_counter (mem ?u) = g_frame_counter (mem s)" by (simp add: upd_def)
  have "update_round fuel p r s = Some (0, False, False, plan_cycles ?n ?u)"
    using calm_timers [OF calm] calm_serial [OF calm] calm_interrupts [OF calm_u] assms(3) d
    by (simp add: update_round_def Let_def del: time_simps)
  then show ?thesis using plan_calm [OF u assms(3)] c by auto
qed

lemma calm_sleeps: "at_line v b d s \<Longrightarrow> reg s CPU_HALT_STATE \<noteq> CPU_ACTIVE"
  by (auto simp: at_line_def calm_def)

text \<open>The events left in a frame: two for each line.\<close>

lemma loop_ends:
  assumes "at_line v b d s" "g_execute_cycles (mem s) = d"
  shows "\<exists>t. update_loop fuel polls k 0 changed s = Some (0, True, changed, t) \<and> at_line 0 False 960 t
    \<and> g_execute_cycles (mem t) = 960 \<and> g_frame_counter (mem t) = g_frame_counter (mem s) + 1"
  using assms
proof (induction "2 * (228 - v) - (if b then 1 else 0)" arbitrary: v b d s k rule: less_induct)
  case less
  have v: "v < 228" using less.prems(1) by (simp add: at_line_def)
  obtain t where t: "update_round fuel (polls k) 0 s = Some (0, b \<and> v = 227, False, t)"
    "at_line (if b \<and> v = 227 then 0 else if b then v + 1 else v) (\<not> b) (if b then 960 else 272) t"
    "g_execute_cycles (mem t) = (if b then 960 else 272)"
    "g_frame_counter (mem t) = g_frame_counter (mem s) + (if b \<and> v = 227 then 1 else 0)"
    using round_event [OF less.prems, of fuel "polls k"] by blast
  show ?case
  proof (cases "b \<and> v = 227")
    case True
    then show ?thesis using t by (subst update_loop.simps) simp
  next
    case False
    let ?v = "if b then v + 1 else v"
    have "2 * (228 - ?v) - (if \<not> b then 1 else 0) < 2 * (228 - v) - (if b then 1 else 0 :: nat)" using v by auto
    moreover have "at_line ?v (\<not> b) (if b then 960 else 272) t" using t(2) False by (simp split: if_splits)
    ultimately have "\<exists>u. update_loop fuel polls (Suc k) 0 changed t = Some (0, True, changed, u) \<and> at_line 0 False 960 u
        \<and> g_execute_cycles (mem u) = 960 \<and> g_frame_counter (mem u) = g_frame_counter (mem t) + 1"
      using less.hyps t(3) by blast
    then show ?thesis using t False calm_sleeps [OF t(2)] by (subst update_loop.simps) auto
  qed
qed

section \<open>Frames\<close>

text \<open>A sleeping machine anywhere in a frame.\<close>

definition asleep :: "gs \<Rightarrow> bool" where
  "asleep s \<longleftrightarrow> calm s \<and> video_ok s \<and> unat (ior s REG_VCOUNT) < 228
     \<and> (160 \<le> unat (ior s REG_VCOUNT) \<longrightarrow> bit (ior s REG_DISPSTAT) 0)
     \<and> 0 <s g_video_count (mem s) \<and> 0 \<le>s g_execute_cycles (mem s)"

lemma asleep_at_line:
  "asleep s \<Longrightarrow> at_line (unat (ior s REG_VCOUNT)) (bit (ior s REG_DISPSTAT) 1) (g_video_count (mem s)) s"
  by (simp add: asleep_def at_line_def)

lemma at_line_asleep: "at_line 0 False 960 s \<Longrightarrow> g_execute_cycles (mem s) = 960 \<Longrightarrow> asleep s"
  by (simp add: asleep_def at_line_def word_sless_alt word_sle_eq)

lemma asleep_cong: "calm_view t = calm_view s \<Longrightarrow> time_view t = time_view s \<Longrightarrow> asleep t = asleep s"
  using calm_cong [of t s] by (simp add: asleep_def time_view_def)

lemma input_calm:
  assumes "calm s"
  shows "\<exists>t. update_input fuel period pulse pressed s = Some t \<and> calm_view t = calm_view s \<and> time_view t = time_view s"
proof -
  have "calm (snd (flag_interrupt 0x1000 s))" using assms calm_cong [of "snd (flag_interrupt 0x1000 s)" s] by simp
  then have "\<exists>t. trigger_key fuel key s = Some t \<and> calm_view t = calm_view s \<and> time_view t = time_view s" for key
    using calm_interrupts by (simp add: trigger_key_def Let_def)
  then show ?thesis by (auto simp: update_input_def split_def Let_def split: Option.bind_splits) (metis option.distinct(1) option.inject)+
qed

text \<open>The call of \<^verbatim>\<open>update_gba\<close> once the processor sleeps, with \<open>r\<close> cycles it did not use.\<close>

lemma update_gba_sleeps:
  assumes "at_line v b d s" "signed_max r (- 64) = r" "0 <s d - (g_execute_cycles (mem s) - r)"
  shows "\<exists>ret t. update_gba fuel polls r s = Some (ret, t) \<and> ret AND 0x80000000 \<noteq> 0
    \<and> asleep t \<and> ior t REG_VCOUNT = 0 \<and> g_frame_counter (mem t) = g_frame_counter (mem s) + 1"
proof -
  obtain t e where t: "update_round fuel (polls 0) r s = Some (0, False, False, t)" "at_line v b e t"
      "g_execute_cycles (mem t) = e" "g_frame_counter (mem t) = g_frame_counter (mem s)"
    using round_wait [OF assms(1) refl assms(3)] by blast
  obtain u where u: "update_loop fuel polls (Suc 0) 0 False t = Some (0, True, False, u)" "at_line 0 False 960 u"
      "g_execute_cycles (mem u) = 960" "g_frame_counter (mem u) = g_frame_counter (mem s) + 1"
    using loop_ends [OF t(2,3), of fuel polls "Suc 0" False] t(4) by auto
  have "update_loop fuel polls 0 r False s = Some (0, True, False, u)"
    using t(1) u(1) calm_sleeps [OF t(2)] by (subst update_loop.simps) simp
  then have "update_gba fuel polls r s = Some (960 OR 0x80000000, u)"
    using assms(2) u(3) by (simp add: update_gba_def signed_min_def word_sless_alt)
  then show ?thesis using at_line_asleep [OF u(2,3)] u(2,4) by (auto simp: at_line_def)
qed

lemma update_gba_asleep:
  assumes "asleep s"
  shows "\<exists>ret t. update_gba fuel polls (g_execute_cycles (mem s)) s = Some (ret, t) \<and> ret AND 0x80000000 \<noteq> 0
    \<and> asleep t \<and> ior t REG_VCOUNT = 0 \<and> g_frame_counter (mem t) = g_frame_counter (mem s) + 1"
  using assms
  by (intro update_gba_sleeps [OF asleep_at_line [OF assms]])
    (auto simp: asleep_def signed_max_def word_sless_alt word_sle_eq)


text \<open>A game that has drawn its title and halted.\<close>

definition sleeping :: gs where
  "sleeping = upd (\<lambda>m. m\<lparr>g_cheats := (g_cheats m)\<lparr>cheats := [\<lparr>cheat_active = False, cheat_codes = [], cheat_count = 0\<rparr>]\<rparr>\<rparr>)
     (set_reg CPU_HALT_STATE CPU_HALT blank_screen)"

lemma sleeping_asleep: "asleep sleeping"
proof -
  have "video_ok sleeping" by (simp add: sleeping_def blank_screen_def at_program_def init_cpu_def Let_def video_ok_def
      upd_def iow_def set_reg_def bare_machine_def objs_listed_def)
  moreover have "ior sleeping r = (if r = REG_DISPCNT then 0x0100 else reset_ioregs r)" for r
    by (simp add: sleeping_def blank_screen_def ior_def ioregs_of_def upd_def set_reg_def iow_def at_program_def
        init_cpu_def Let_def read_ioreg_def write_ioreg_def)
  moreover have "reg sleeping CPU_HALT_STATE = CPU_HALT" by (simp add: sleeping_def upd_def set_reg_def)
  ultimately show ?thesis
    by (simp add: asleep_def calm_def reset_ioregs_def tiles_inside_def text_inside_def REG_BGxCNT_def)
      (simp add: sleeping_def blank_screen_def upd_def set_reg_def iow_def at_program_def init_cpu_def Let_def bare_machine_def
        reset_timer_def idle_dma_def Sound.reset_sound_def serial_boot_def word_sless_alt word_sle_eq list_all_iff)
qed


end
