(* ===== verification/GbaReach.thy ===== *)
theory GbaReach
  imports GbaLive
begin

text \<open>
  The states the emulator goes through, from the reset on, whether or not a frame ever ends.
\<close>

section \<open>Steps\<close>

text \<open>
  One step: an instruction of either set, a round of events with any packets, the entry of
  the interpreter, a new number of cycles to run, and what a frame does before and after
  its run. A round of the interpreter that is not the one the status register asks for, or
  a step out of turn, is allowed as well; the claims hold all the same.
\<close>

inductive emu_step :: "gs \<Rightarrow> gs \<Rightarrow> bool" where
  arm: "arm_round (gba_bus fuel) s = Some (l, t) \<Longrightarrow> emu_step s t"
| thumb: "thumb_round (gba_bus fuel) s = Some (l, t) \<Longrightarrow> emu_step s t"
| events: "update_round fuel polled remaining s = Some (c, frame, raised, t) \<Longrightarrow> emu_step s t"
| enter: "emu_step s (extract_flags (s\<lparr>cpu_alert := CPU_ALERT_NONE\<rparr>))"
| budget: "emu_step s (s\<lparr>cycles := n\<rparr>)"
| keys: "update_input fuel period pulse pressed s = Some t \<Longrightarrow> emu_step s t"
| rumble: "emu_step s (upd (\<lambda>m. m\<lparr>g_serial := (g_serial m)\<lparr>sr_rumble := rumble_frame_reset (g_cpu_ticks m) (sr_rumble (g_serial m))\<rparr>\<rparr>) s)"
| pages: "emu_step s (upd (\<lambda>m. m\<lparr>g_pak := clear_gamepak_stickybits (g_pak m)\<rparr>) s)"
| region: "emu_step s (upd (\<lambda>m. m\<lparr>g_pc_block := None\<rparr>) s)"
| link: "device_frame_update s = Some t \<Longrightarrow> emu_step s t"

inductive emu_reach :: "gs \<Rightarrow> bool" where
  reset: "emu_reach (reset_gba boot kind s)"
| step: "emu_reach s \<Longrightarrow> emu_step s t \<Longrightarrow> emu_reach t"

lemma emu_steps_reach: "emu_step\<^sup>*\<^sup>* s t \<Longrightarrow> emu_reach s \<Longrightarrow> emu_reach t"
  by (induction rule: rtranclp_induct) (auto intro: emu_reach.step)

section \<open>Frames are made of steps\<close>

lemma first_step: "emu_step s t \<Longrightarrow> emu_step\<^sup>*\<^sup>* t u \<Longrightarrow> emu_step\<^sup>*\<^sup>* s u"
  by (rule converse_rtranclp_into_rtranclp)

lemma last_step: "emu_step\<^sup>*\<^sup>* s t \<Longrightarrow> emu_step t u \<Longrightarrow> emu_step\<^sup>*\<^sup>* s u"
  by (rule rtranclp.rtrancl_into_rtrancl)

lemma rounds_step: "run_rounds (gba_bus fuel) b s = Some r \<Longrightarrow> emu_step\<^sup>*\<^sup>* s (snd r)"
proof -
  have "run_rounds M b s = Some r \<Longrightarrow> M = gba_bus fuel \<Longrightarrow> emu_step\<^sup>*\<^sup>* s (snd r)" for M
  proof (induction rule: run_rounds.raw_induct [rotated 1, consumes 1])
    case (1 run M b s r)
    then obtain l t where t: "(if b then thumb_round M s else arm_round M s) = Some (l, t)"
      and r: "(if l = Again_arm then run M False t else if l = Again_thumb then run M True t else Some (l, t)) = Some r"
      by (auto split: Option.bind_splits)
    have "emu_step s t" using t 1(3) by (auto split: if_splits intro: emu_step.arm emu_step.thumb)
    then show ?case using r 1(1) [of M _ t r] 1(3)
      by (auto split: if_splits intro: first_step)
  qed
  then show "run_rounds (gba_bus fuel) b s = Some r \<Longrightarrow> emu_step\<^sup>*\<^sup>* s (snd r)" by blast
qed

lemma execute_step: "execute_until_update (gba_bus fuel) s = Some (l, t) \<Longrightarrow> emu_step\<^sup>*\<^sup>* s t"
  unfolding execute_until_update_def Let_def
  by (rule first_step [OF emu_step.enter]) (metis rounds_step snd_conv)

lemma loop_step: "update_loop fuel polls k r b s = Some x \<Longrightarrow> emu_step\<^sup>*\<^sup>* s (snd (snd (snd x)))"
proof (induction rule: update_loop.raw_induct [rotated 1, consumes 1])
  case (1 run fuel polls k r b s x)
  then obtain c f i t where t: "update_round fuel (polls k) r s = Some (c, f, i, t)"
    and x: "(if reg t CPU_HALT_STATE \<noteq> CPU_ACTIVE \<and> \<not> f then run fuel polls (Suc k) 0 (b \<or> i) t
             else Some (c, f, b \<or> i, t)) = Some x"
    by (auto split: Option.bind_splits)
  have "emu_step s t" by (rule emu_step.events [OF t])
  then show ?case using x 1(1) [of fuel polls "Suc k" 0 "b \<or> i" t x] by (cases x) (auto split: if_splits intro: first_step)
qed

lemma wake_steps: "wake_step fuel polls k s = Some (b, t) \<Longrightarrow> emu_step\<^sup>*\<^sup>* s t"
  by (auto simp: wake_step_def update_gba_def Let_def split: Option.bind_splits if_splits
      dest!: loop_step intro: last_step [OF _ emu_step.budget])

lemma frame_loop_steps: "frame_loop fuel polls k s = Some t \<Longrightarrow> emu_step\<^sup>*\<^sup>* s t"
proof (induction rule: frame_loop.raw_induct [rotated 1, consumes 1])
  case (1 run fuel polls k s t)
  obtain b u where u: "(if reg s CPU_HALT_STATE \<noteq> CPU_ACTIVE then wake_step fuel polls k s else Some (False, s))
      = Some (b, u)" using 1(2) by (auto split: Option.bind_splits)
  have s: "emu_step\<^sup>*\<^sup>* s u" using u wake_steps by (auto split: if_splits)
  show ?case
  proof (cases b)
    case True
    then show ?thesis using 1(2) u s by simp
  next
    case False
    then obtain l v where v: "execute_until_update (gba_bus fuel) u = Some (l, v)"
      and rest: "(if l = Alert then run fuel polls (k + 1) v
           else wake_step fuel polls (k + 1) v \<bind> (\<lambda>(stop, s). if stop then Some s else run fuel polls (k + 2) s)) = Some t"
      using 1(2) u by (auto split: Option.bind_splits)
    have sv: "emu_step\<^sup>*\<^sup>* s v" using rtranclp_trans [OF s execute_step [OF v]] .
    have "emu_step\<^sup>*\<^sup>* v t" using rest wake_steps [of fuel polls "k + 1" v] 1(1)
      by (auto split: if_splits Option.bind_splits intro: rtranclp_trans)
    then show ?thesis using sv by (rule rtranclp_trans [rotated])
  qed
qed

text \<open>A frame that returns has gone through steps only.\<close>

lemma frame_steps:
  assumes "run_frame fuel polls period pulse pressed s = Some t"
  shows "emu_step\<^sup>*\<^sup>* s t"
proof -
  obtain a b where a: "update_input fuel period pulse pressed s = Some a"
    and b: "execute_arm fuel polls (upd (\<lambda>m. m\<lparr>g_pak := clear_gamepak_stickybits (g_pak m)\<rparr>)
        (upd (\<lambda>m. m\<lparr>g_serial := (g_serial m)\<lparr>sr_rumble := rumble_frame_reset (g_cpu_ticks m) (sr_rumble (g_serial m))\<rparr>\<rparr>) a)) = Some b"
    and t: "device_frame_update b = Some t"
    using assms by (auto simp: run_frame_def Let_def split: Option.bind_splits)
  let ?r = "upd (\<lambda>m. m\<lparr>g_serial := (g_serial m)\<lparr>sr_rumble := rumble_frame_reset (g_cpu_ticks m) (sr_rumble (g_serial m))\<rparr>\<rparr>) a"
  let ?p = "upd (\<lambda>m. m\<lparr>g_pak := clear_gamepak_stickybits (g_pak m)\<rparr>) ?r"
  have "emu_step\<^sup>*\<^sup>* (upd (\<lambda>m. m\<lparr>g_pc_block := None\<rparr>) ?p\<lparr>cycles := g_execute_cycles (mem ?p)\<rparr>) b"
    using frame_loop_steps [OF b [unfolded execute_arm_def]] .
  then have "emu_step\<^sup>*\<^sup>* (upd (\<lambda>m. m\<lparr>g_pc_block := None\<rparr>) ?p) b" by (rule first_step [OF emu_step.budget])
  then have "emu_step\<^sup>*\<^sup>* ?p b" by (rule first_step [OF emu_step.region])
  then have "emu_step\<^sup>*\<^sup>* ?r b" by (rule first_step [OF emu_step.pages])
  then have "emu_step\<^sup>*\<^sup>* a b" by (rule first_step [OF emu_step.rumble])
  then have "emu_step\<^sup>*\<^sup>* s b" by (rule first_step [OF emu_step.keys [OF a]])
  then show ?thesis by (rule last_step [OF _ emu_step.link [OF t]])
qed

section \<open>Modes\<close>

lemma step_ok: "emu_step s t \<Longrightarrow> cpu_ok s \<Longrightarrow> cpu_ok t"
proof (induction rule: emu_step.induct)
  case (enter s)
  then show ?case by (rule cpu_ok_view [rotated]) simp
qed (auto simp: device_frame_update_def Let_def split: if_splits
    dest: gba.arm_round_step gba.thumb_round_step update_round_ok update_input_ok simp: mode_step_def)

lemma reach_ok: "emu_reach s \<Longrightarrow> cpu_ok s"
  by (induction rule: emu_reach.induct) (auto intro: reset_ok step_ok)

section \<open>A start of the machine that ends its first frame\<close>

text \<open>
  A BIOS that goes to interrupt mode, \<^verbatim>\<open>MSR CPSR_c, #0xD2\<close>, and halts: \<^verbatim>\<open>MOV r0, #0x04000000\<close>,
  \<^verbatim>\<open>STRB r0, [r0, #0x301]\<close>.
\<close>

definition boot_code :: bytes where
  "boot_code i = (if i < 12 then ucast (drop_bit (8 * (i mod 4)) ([0xE321F0D2, 0xE3A00301, 0xE5C00301 :: u32] ! (i div 4))) else 0)"

definition boot_machine :: gba where
  "boot_machine = (bare_machine (\<lambda>i. 0))\<lparr>g_bios := boot_code,
     g_cheats := \<lparr>cheats = [\<lparr>cheat_active = False, cheat_codes = [], cheat_count = 0\<rparr>], max_cheat = 0,
       cheat_master_hook = 0xFFFFFFFF\<rparr>\<rparr>"

definition booted :: gs where
  "booted = reset_gba False BACKUP_UNKN (init_cpu True boot_machine)"

definition in_bios :: "nat \<Rightarrow> u32 \<Rightarrow> u32 \<Rightarrow> gs \<Rightarrow> bool" where
  "in_bios n mode c s \<longleftrightarrow> reg s REG_PC = of_nat (4 * n) \<and> reg s CPU_MODE = mode \<and> cycles s = c \<and> cpu_alert s = 0
     \<and> g_bios (mem s) = boot_code \<and> (g_pc_block (mem s) = None \<or> g_pc_block (mem s) = Some (0, B_bios))
     \<and> cheat_master_hook (g_cheats (mem s)) = 0xFFFFFFFF \<and> g_idle_loop_target (mem s) = 0xFFFFFFFF
     \<and> length (g_ws_seq (mem s)) = 16 \<and> g_ws_seq (mem s) ! 0 = (1, 1)
     \<and> length (g_ws_nseq (mem s)) = 16 \<and> g_ws_nseq (mem s) ! 4 = (1, 1)
     \<and> \<not> irq_pending_gba (mem s) \<and> cpu_ok s"

lemma boot_words:
  "le_value W32 boot_code 0 = 0xE321F0D2" "le_value W32 boot_code 4 = 0xE3A00301" "le_value W32 boot_code 8 = 0xE5C00301"
  by (simp_all add: le_value_def boot_code_def)

text \<open>What the three instructions leave as it is.\<close>

definition same_machine :: "gs \<Rightarrow> gs \<Rightarrow> bool" where
  "same_machine s t \<longleftrightarrow> calm_view t = calm_view s \<and> time_view t = time_view s"

lemma views_cong:
  assumes "mem t = mem s" "reg t CPU_HALT_STATE = reg s CPU_HALT_STATE" "reg t OAM_UPDATED = reg s OAM_UPDATED"
  shows "same_machine s t"
proof -
  have "ior t = ior s" by (simp add: ior_def [abs_def] ioregs_of_def assms)
  then show ?thesis
    by (simp add: same_machine_def calm_view_def time_view_def video_ok_def objs_listed_def sprite_of_def oam16_def assms)
qed

lemma bios_round:
  assumes "in_bios n mode c s" "n < 3"
  shows "\<exists>u. arm_round (gba_bus fuel) s =
      do { (l, t) \<leftarrow> arm_instruction (gba_bus fuel) ([0xE321F0D2, 0xE3A00301, 0xE5C00301] ! n) u;
           case l of Arm_loop \<Rightarrow> Some (Again_arm, t) | Thumb_loop \<Rightarrow> Some (Again_thumb, t)
           | Next \<Rightarrow> end_of_instruction (gba_bus fuel) False t }
    \<and> in_bios n mode c u \<and> (\<forall>r. r \<noteq> 16 \<longrightarrow> reg u r = reg s r) \<and> same_machine s u"
proof -
  note a = assms(1) [unfolded in_bios_def]
  let ?u = "collapse_flags s"
  let ?v = "if g_pc_block (mem s) = None
    then upd (\<lambda>m. m\<lparr>g_pc_block := Some (0, B_bios)\<rparr>) (upd (\<lambda>m. m\<lparr>g_pak := touch_gamepak_page 0 (g_pak m)\<rparr>) ?u) else ?u"
  consider "n = 0" | "n = 1" | "n = 2" using assms(2) by linarith
  then have pc: "reg s REG_PC AND NOT 3 = reg s REG_PC" "unat (drop_bit 15 (reg s REG_PC)) = 0" "unat (reg s REG_PC AND 0x7FFF) = 4 * n"
      "reg s REG_PC \<noteq> 0xFFFFFFFF" "le_value W32 boot_code (4 * n) = [0xE321F0D2, 0xE3A00301, 0xE5C00301] ! n"
    using a by (cases; simp add: boot_words)+
  have u: "reg ?u r = reg s r" if "r \<noteq> 16" for r using that by (simp add: collapse_flags_def set_reg_def)
  have r: "set_reg REG_PC (reg s REG_PC AND - 4) ?u = ?u"
  proof -
    have "(reg ?u)(15 := reg s 15) = reg ?u" using u [of 15] by (intro fun_upd_idem) simp
    then have "?u\<lparr>reg := (reg ?u)(15 := reg s 15)\<rparr> = ?u" by (simp only:) simp
    moreover have "reg s REG_PC AND - 4 = reg s REG_PC" using pc(1) by simp
    ultimately show ?thesis by (simp only: set_reg_def)
  qed
  have h: "cheat_hook_gba fuel ?u = Some ?u" using a u [of 15] pc(4) by (simp add: cheat_hook_gba_def collapse_flags_def set_reg_def)
  have m: "mem ?u = mem s" by (simp add: collapse_flags_def set_reg_def)
  have "check_pc_region ?u = Some (B_bios, ?v)"
    using a pc(2) u [of 15] m by (auto simp: check_pc_region_def look_up_def memory_map_read_def Let_def)
  moreover have "read_block W32 B_bios (reg ?v REG_PC AND 0x7FFF) ?v = Some ([0xE321F0D2, 0xE3A00301, 0xE5C00301] ! n)"
    using a pc(3,5) u [of 15] m assms(2) by (simp add: read_block_def readaddress_def w_bytes_def upd_def)
  ultimately have f: "gba_fetch U32 ?u = Some ([0xE321F0D2, 0xE3A00301, 0xE5C00301] ! n, ?v)"
    by (simp add: gba_fetch_def access_width_def)
  have ok: "cpu_ok ?v" using a by (auto intro: cpu_ok_view [of _ s])
  have same: "same_machine s ?u" by (rule views_cong) (simp_all add: u m)
  have "in_bios n mode c ?v" "\<forall>r. r \<noteq> 16 \<longrightarrow> reg ?v r = reg s r"
    using a u ok m by (auto simp: in_bios_def upd_def collapse_flags_def set_reg_def irq_pending_gba_def)
  moreover have "same_machine s ?v" using same by (auto simp: same_machine_def)
  ultimately show ?thesis
    by (intro exI [of _ ?v]) (simp add: arm_round_def h r f Let_def)
qed

lemma in_bios_next:
  assumes "in_bios n mode c s" "mem t = mem s" "cycles t = cycles s" "cpu_alert t = cpu_alert s" "cpu_ok t"
    "reg t REG_PC = of_nat (4 * k)" "reg t CPU_MODE = mode'"
  shows "in_bios k mode' c t"
  using assms by (simp add: in_bios_def)

lemma mode_switch:
  assumes "banks_wf s" "reg s CPU_MODE = MODE_SUPERVISOR"
  shows "\<exists>t. set_cpu_mode MODE_IRQ s = Some t \<and> mem t = mem s \<and> cycles t = cycles s \<and> cpu_alert t = cpu_alert s
    \<and> reg t REG_PC = reg s REG_PC \<and> reg t CPU_MODE = MODE_IRQ \<and> reg t CPU_HALT_STATE = reg s CPU_HALT_STATE
    \<and> reg t OAM_UPDATED = reg s OAM_UPDATED"
  using assms by (simp add: set_cpu_mode_def Let_def retire_bank_def load_bank_def get_bank_def put_bank_def arr_get_def
      arr_set_def banks_wf_def set_reg_def bank_index_def)

lemma irq_mode:
  assumes "in_bios 0 MODE_SUPERVISOR c s"
  shows "\<exists>t. arm_instruction (gba_bus fuel) 0xE321F0D2 s = Some (Next, t) \<and> in_bios 1 MODE_IRQ c t \<and> same_machine s t"
proof -
  have ok: "cpu_ok s" and irq: "\<not> irq_pending_gba (mem s)" and r: "reg s REG_PC = 0" "reg s CPU_MODE = MODE_SUPERVISOR"
    using assms by (simp_all add: in_bios_def)
  let ?s = "extract_flags (set_reg REG_CPSR (0xC2 OR (reg s REG_CPSR AND NOT 0xEF)) (pc_offset 4 s))"
  have w: "cpu_modes (0xC2 OR (reg s REG_CPSR AND NOT 0xEF)) = MODE_IRQ"
  proof -
    have "(0xC2 OR (reg s REG_CPSR AND NOT 0xEF)) AND 0xF = 2"
      by (simp add: word_ao_dist and.assoc)
    then show ?thesis by (simp add: cpu_modes_def)
  qed
  have e: "reg ?s REG_CPSR = 0xC2 OR (reg s REG_CPSR AND NOT 0xEF)" by (simp add: extract_flags_def set_reg_def Let_def)
  obtain t where t: "set_cpu_mode MODE_IRQ ?s = Some t" "mem t = mem s" "cycles t = cycles s" "cpu_alert t = cpu_alert s"
      "reg t REG_PC = 4" "reg t CPU_MODE = MODE_IRQ" "reg t CPU_HALT_STATE = reg s CPU_HALT_STATE"
      "reg t OAM_UPDATED = reg s OAM_UPDATED"
    using mode_switch [of ?s] ok r by (auto simp: cpu_ok_def banks_wf_def extract_flags_def set_reg_def pc_offset_def Let_def)
  have run: "arm_instruction (gba_bus fuel) 0xE321F0D2 s = Some (Next, t)"
    using t irq r w e
    by (simp add: arm_instruction_def cond_passed_def field_def arm_switch_def arm_cases_30_3F_def arm_msr_cpsr_def
      arm_psr_src_def ror_def psr_pfield_def arm_psr_store_cpsr_def privileged_def cpsr_mask_def check_for_interrupts_def
      pc_offset_at Let_def)
  have "cpu_ok t" using gba.arm_instruction_step [OF run] ok by (simp add: mode_step_def)
  then have "in_bios 1 MODE_IRQ c t" using t by (intro in_bios_next [OF assms]) simp_all
  then show ?thesis using run views_cong [of t s] t by blast
qed

lemma base_of_io:
  assumes "in_bios 1 mode c s"
  shows "\<exists>t. arm_instruction (gba_bus fuel) 0xE3A00301 s = Some (Next, t) \<and> in_bios 2 mode c t \<and> same_machine s t
    \<and> reg t 0 = 0x04000000"
proof -
  have i: "data_imm 0xE3A00301 = Some 0x04000000"
    by (simp add: data_imm_def ror_def field_def)
  let ?t = "set_reg 0 0x04000000 (pc_offset (- 4) (pc_offset 8 s))"
  have run: "arm_instruction (gba_bus fuel) 0xE3A00301 s = Some (Next, ?t)"
    by (simp add: arm_instruction_def cond_passed_def field_def arm_switch_def arm_cases_30_3F_def arm_data_proc_def
        operand2_def i Let_def)
  have ok: "cpu_ok ?t" using gba.arm_instruction_step [OF run] assms by (simp add: mode_step_def in_bios_def)
  then have "in_bios 2 mode c ?t"
    using assms by (intro in_bios_next [OF assms _ _ _ ok]) (simp_all add: in_bios_def pc_offset_def set_reg_def)
  moreover have "same_machine s ?t" by (rule views_cong) (simp_all add: pc_offset_def set_reg_def)
  ultimately show ?thesis using run by (auto simp: set_reg_def)
qed

lemma halting:
  assumes "in_bios 2 mode c s" "reg s 0 = 0x04000000"
  shows "\<exists>t. arm_instruction (gba_bus fuel) 0xE5C00301 s = Some (Next, t) \<and> mem t = mem s \<and> cycles t = c - 1
    \<and> cpu_alert t = CPU_ALERT_HALT \<and> reg t REG_PC = 12 \<and> reg t CPU_HALT_STATE = CPU_HALT \<and> reg t OAM_UPDATED = reg s OAM_UPDATED"
  using assms
  by (simp add: in_bios_def arm_instruction_def cond_passed_def field_def arm_switch_def arm_cases_50_5F_def
      arm_access_memory_def trans_offset_def apply_off_def Let_def pc_offset_def set_reg_def gba_store_def access_width_def w_mask_def
      charge_def region_def arr_get_def gba_write_def write_memory_def narrow_def write_io_register_def write_io_register8_def)

text \<open>The interpreter's run from the reset to the halt.\<close>

lemma next_instruction:
  assumes "in_bios n mode c s" "n < 3" "0 <s c - 1"
  shows "\<exists>t. end_of_instruction (gba_bus fuel) False s = Some (Again_arm, t) \<and> in_bios n mode (c - 1) t
    \<and> reg t = reg s \<and> same_machine s t"
proof -
  have ok: "cpu_ok s" using assms(1) by (simp add: in_bios_def)
  consider "n = 0" | "n = 1" | "n = 2" using assms(2) by linarith
  then have "end_of_instruction (gba_bus fuel) False s = Some (Again_arm, s\<lparr>cycles := c - 1\<rparr>)"
    using assms(1,3) by cases (simp_all add: in_bios_def end_of_instruction_def wide_cycles_def arr_get_def)
  moreover have "in_bios n mode (c - 1) (s\<lparr>cycles := c - 1\<rparr>)" using assms(1) ok by (simp add: in_bios_def)
  ultimately show ?thesis by (simp add: views_cong)
qed

lemma same_halted:
  "same_machine s t \<Longrightarrow> same_machine (set_reg CPU_HALT_STATE CPU_HALT s) (set_reg CPU_HALT_STATE CPU_HALT t)"
  by (simp add: same_machine_def calm_view_def time_view_def ior_def ioregs_of_def set_reg_def video_ok_def
      objs_listed_def sprite_of_def oam16_def)

lemma halt_round:
  assumes "in_bios 2 mode 958 s" "reg s 0 = 0x04000000"
  shows "\<exists>t. arm_round (gba_bus fuel) s = Some (Alert, t) \<and> cycles t = 956 \<and> same_machine (set_reg CPU_HALT_STATE CPU_HALT s) t"
proof -
  obtain u where u: "arm_round (gba_bus fuel) s =
      do { (l, t) \<leftarrow> arm_instruction (gba_bus fuel) 0xE5C00301 u;
           case l of Arm_loop \<Rightarrow> Some (Again_arm, t) | Thumb_loop \<Rightarrow> Some (Again_thumb, t)
           | Next \<Rightarrow> end_of_instruction (gba_bus fuel) False t }"
      "in_bios 2 mode 958 u" "reg u 0 = 0x04000000" "reg u OAM_UPDATED = reg s OAM_UPDATED" "same_machine s u"
    using bios_round [OF assms(1), of fuel] assms(2) by auto
  obtain t where t: "arm_instruction (gba_bus fuel) 0xE5C00301 u = Some (Next, t)" "mem t = mem u" "cycles t = 957"
      "cpu_alert t = CPU_ALERT_HALT" "reg t REG_PC = 12" "reg t CPU_HALT_STATE = CPU_HALT" "reg t OAM_UPDATED = reg u OAM_UPDATED"
    using halting [OF u(2,3), of fuel] by auto
  have e: "end_of_instruction (gba_bus fuel) False t = Some (Alert, collapse_flags (t\<lparr>cycles := 956\<rparr>))"
    using t u(2) by (simp add: in_bios_def end_of_instruction_def wide_cycles_def arr_get_def)
  have "same_machine (set_reg CPU_HALT_STATE CPU_HALT u) t"
    using t by (intro views_cong) (simp_all add: set_reg_def)
  moreover have "same_machine t (collapse_flags (t\<lparr>cycles := 956\<rparr>))"
    by (rule views_cong) (simp_all add: collapse_flags_def set_reg_def)
  moreover have "same_machine (set_reg CPU_HALT_STATE CPU_HALT s) (set_reg CPU_HALT_STATE CPU_HALT u)"
    using u(5) by (rule same_halted)
  ultimately have "same_machine (set_reg CPU_HALT_STATE CPU_HALT s) (collapse_flags (t\<lparr>cycles := 956\<rparr>))"
    by (simp add: same_machine_def)
  then show ?thesis using u(1) t(1) e by (simp add: collapse_flags_def set_reg_def)
qed

lemma boot_run:
  assumes "in_bios 0 MODE_SUPERVISOR 960 s"
  shows "\<exists>m t. arm_round (gba_bus fuel) s = Some (Again_arm, m) \<and> reg m CPU_MODE = MODE_IRQ
    \<and> run_rounds (gba_bus fuel) False s = Some (Alert, t) \<and> cycles t = 956
    \<and> same_machine (set_reg CPU_HALT_STATE CPU_HALT s) t"
proof -
  have one: "\<exists>t. arm_round (gba_bus fuel) s = Some (Again_arm, t) \<and> in_bios (n + 1) mode' (c - 1) t \<and> same_machine s t
      \<and> (n = 1 \<longrightarrow> reg t 0 = 0x04000000)"
    if "in_bios n mode c s" "n < 2" "0 <s c - 1"
      and i: "\<And>u. in_bios n mode c u \<Longrightarrow> \<exists>t. arm_instruction (gba_bus fuel) ([0xE321F0D2, 0xE3A00301, 0xE5C00301] ! n) u = Some (Next, t)
        \<and> in_bios (n + 1) mode' c t \<and> same_machine u t \<and> (n = 1 \<longrightarrow> reg t 0 = 0x04000000)"
    for n mode mode' c s
  proof -
    from bios_round [OF that(1), of fuel] that(2) obtain u where u: "in_bios n mode c u" "same_machine s u"
      "arm_round (gba_bus fuel) s =
        do { (l, t) \<leftarrow> arm_instruction (gba_bus fuel) ([0xE321F0D2, 0xE3A00301, 0xE5C00301] ! n) u;
             case l of Arm_loop \<Rightarrow> Some (Again_arm, t) | Thumb_loop \<Rightarrow> Some (Again_thumb, t)
             | Next \<Rightarrow> end_of_instruction (gba_bus fuel) False t }" by auto
    from i [OF u(1)] obtain t where t: "arm_instruction (gba_bus fuel) ([0xE321F0D2, 0xE3A00301, 0xE5C00301] ! n) u = Some (Next, t)"
      "in_bios (n + 1) mode' c t" "same_machine u t" "n = 1 \<longrightarrow> reg t 0 = 0x04000000" by blast
    show ?thesis using next_instruction [OF t(2) _ that(3), of fuel] that(2) u t by (auto simp: same_machine_def)
  qed
  obtain a where a: "arm_round (gba_bus fuel) s = Some (Again_arm, a)" "in_bios 1 MODE_IRQ 959 a" "same_machine s a"
    using one [OF assms, of MODE_IRQ] irq_mode by (auto simp: word_sless_alt)
  obtain b where b: "arm_round (gba_bus fuel) a = Some (Again_arm, b)" "in_bios 2 MODE_IRQ 958 b" "same_machine a b"
      "reg b 0 = 0x04000000"
    using one [OF a(2), of MODE_IRQ] base_of_io by (auto simp: word_sless_alt numeral_2_eq_2)
  obtain t where t: "arm_round (gba_bus fuel) b = Some (Alert, t)" "cycles t = 956"
      "same_machine (set_reg CPU_HALT_STATE CPU_HALT b) t"
    using halt_round [OF b(2,4)] by blast
  have "run_rounds (gba_bus fuel) False s = Some (Alert, t)"
    using a(1) b(1) t(1) by (simp add: run_rounds.simps)
  moreover have "same_machine (set_reg CPU_HALT_STATE CPU_HALT s) t"
    using same_halted [OF a(3)] same_halted [OF b(3)] t(3) by (simp add: same_machine_def)
  moreover have "reg a CPU_MODE = MODE_IRQ" using a(2) by (simp add: in_bios_def)
  ultimately show ?thesis using a(1) t(2) by blast
qed

section \<open>The first frame\<close>

lemma booted_reg:
  "reg booted r = ((\<lambda>_. 0)(REG_SP := 0x03007F00, REG_PC := 0, REG_CPSR := 0xD3, CPU_MODE := MODE_SUPERVISOR)) r"
  by (simp add: booted_def reset_gba_def init_cpu_def with_sound_def upd_def Let_def)

lemma booted_mem:
  "mem booted = (mem (init_main (init_memory BACKUP_UNKN
      (init_cpu True (boot_machine\<lparr>g_serial := (g_serial boot_machine)\<lparr>
         sr_gbp := fst (gbp_reset 0 (sr_gbp (g_serial boot_machine)) (sr_rumble (g_serial boot_machine))),
         sr_rumble := snd (gbp_reset 0 (sr_gbp (g_serial boot_machine)) (sr_rumble (g_serial boot_machine)))\<rparr>\<rparr>)))))\<lparr>g_sound := Sound.reset_sound\<rparr>"
  by (simp add: booted_def reset_gba_def with_sound_def upd_def Let_def init_cpu_def boot_machine_def bare_machine_def split_def)

lemma booted_fields:
  "g_bios (mem booted) = boot_code" "g_cheats (mem booted) = g_cheats boot_machine"
  "g_idle_loop_target (mem booted) = 0xFFFFFFFF" "sr_regs (g_serial (mem booted)) = reset_ioregs"
  "serial_irq_cycles (g_serial (mem booted)) = 0" "g_dma (mem booted) = replicate 4 idle_dma"
  "g_timers (mem booted) = [reset_timer 3, reset_timer 0, reset_timer 0, reset_timer 0]"
  "g_sound (mem booted) = Sound.reset_sound" "g_session (mem booted) = g_session boot_machine"
  "g_execute_cycles (mem booted) = 960" "g_video_count (mem booted) = 960" "g_video (mem booted) = g_video boot_machine"
  "g_input (mem booted) = g_input boot_machine" "g_frame_counter (mem booted) = 0"
  by (simp_all add: booted_mem init_main_def init_memory_def reload_timing_info_def upd_def Let_def init_cpu_def set_reg_def
      boot_machine_def bare_machine_def serial_boot_def)

lemma booted_waits:
  "length (g_ws_seq (mem booted)) = 16" "g_ws_seq (mem booted) ! 0 = (1, 1)"
  "length (g_ws_nseq (mem booted)) = 16" "g_ws_nseq (mem booted) ! 4 = (1, 1)"
  by (simp_all add: booted_mem init_main_def init_memory_def reload_timing_info_def upd_def Let_def init_cpu_def set_reg_def
      boot_machine_def bare_machine_def ws_cyc_init_def rom_seq_def rom_nonseq_def)

definition halted :: gs where "halted = set_reg CPU_HALT_STATE CPU_HALT booted"

lemma halted_at_line: "at_line 0 False 960 halted"
proof -
  have "ior halted r = reset_ioregs r" for r
    by (simp add: halted_def ior_def ioregs_of_def set_reg_def booted_fields read_ioreg_def)
  moreover have "mem halted = mem booted" "reg halted CPU_HALT_STATE = CPU_HALT" by (simp_all add: halted_def set_reg_def)
  moreover have "video_ok halted"
    by (simp add: halted_def video_ok_def set_reg_def booted_fields boot_machine_def bare_machine_def objs_listed_def)
  ultimately show ?thesis
    by (simp add: at_line_def calm_def booted_fields reset_ioregs_def tiles_inside_def text_inside_def REG_BGxCNT_def
        boot_machine_def bare_machine_def reset_timer_def idle_dma_def Sound.reset_sound_def list_all_iff)
qed

text \<open>What the frontend does after the keys and before the run.\<close>

definition frame_start :: "gs \<Rightarrow> gs" where
  "frame_start s = upd (\<lambda>m. m\<lparr>g_pc_block := None\<rparr>)
     (upd (\<lambda>m. m\<lparr>g_pak := clear_gamepak_stickybits (g_pak m)\<rparr>)
       (upd (\<lambda>m. m\<lparr>g_serial := (g_serial m)\<lparr>sr_rumble := rumble_frame_reset (g_cpu_ticks m) (sr_rumble (g_serial m))\<rparr>\<rparr>)
         s))\<lparr>cycles := 960\<rparr>"

lemma no_keys: "update_input fuel period pulse (\<lambda>_. False) booted = Some (iow REG_P1 0x3FF booted)"
proof -
  have "upd (\<lambda>m. m\<lparr>g_input := g_input boot_machine\<rparr>) booted = booted"
    unfolding booted_fields(13) [symmetric] by (simp add: upd_def)
  then show ?thesis
    by (simp add: update_input_def turbo_def pressed_keys_def btn_map_def gbp_keypad_def booted_fields Let_def)
      (simp add: boot_machine_def bare_machine_def)
qed

lemma start_ready:
  defines "s \<equiv> extract_flags (frame_start (iow REG_P1 0x3FF booted)\<lparr>cpu_alert := CPU_ALERT_NONE\<rparr>)"
  shows "in_bios 0 MODE_SUPERVISOR 960 s" "same_machine halted (set_reg CPU_HALT_STATE CPU_HALT s)"
proof -
  have "cpu_ok (frame_start (iow REG_P1 0x3FF booted))" by (simp add: frame_start_def booted_def reset_ok)
  then have "cpu_ok s" by (auto simp: s_def intro: cpu_ok_view [of _ "frame_start (iow REG_P1 0x3FF booted)"])
  moreover have "mem s = mem (frame_start (iow REG_P1 0x3FF booted))" "reg s = reg booted" "cycles s = 960" "cpu_alert s = 0"
    by (simp_all add: s_def extract_flags_def Let_def frame_start_def upd_def iow_def)
  ultimately show "in_bios 0 MODE_SUPERVISOR 960 s"
    by (simp add: in_bios_def booted_reg)
      (simp add: frame_start_def upd_def iow_def booted_fields booted_waits boot_machine_def irq_pending_gba_def
        read_ioreg_def write_ioreg_def reset_ioregs_def)
  have "same_machine booted (frame_start (iow REG_P1 0x3FF booted))" by (simp add: frame_start_def same_machine_def)
  moreover have "same_machine (frame_start (iow REG_P1 0x3FF booted)) s"
    by (rule views_cong) (simp_all add: s_def extract_flags_def Let_def)
  ultimately have "same_machine booted s" by (simp add: same_machine_def)
  then show "same_machine halted (set_reg CPU_HALT_STATE CPU_HALT s)"
    unfolding halted_def by (rule same_halted)
qed

lemma boot_frame:
  "\<exists>m t. emu_reach m \<and> reg m CPU_MODE = MODE_IRQ
    \<and> run_frame fuel polls period pulse (\<lambda>_. False) booted = Some t"
proof -
  let ?f = "frame_start (iow REG_P1 0x3FF booted)" and ?s = "extract_flags (frame_start (iow REG_P1 0x3FF booted)\<lparr>cpu_alert := CPU_ALERT_NONE\<rparr>)"
  obtain m t where m: "arm_round (gba_bus fuel) ?s = Some (Again_arm, m)" "reg m CPU_MODE = MODE_IRQ"
    and t: "run_rounds (gba_bus fuel) False ?s = Some (Alert, t)" "cycles t = 956"
      "same_machine (set_reg CPU_HALT_STATE CPU_HALT ?s) t"
    using boot_run [OF start_ready(1), of fuel] by blast
  have r: "emu_reach booted" unfolding booted_def by (rule emu_reach.reset)
  let ?k = "iow REG_P1 0x3FF booted"
  let ?r = "upd (\<lambda>m. m\<lparr>g_serial := (g_serial m)\<lparr>sr_rumble := rumble_frame_reset (g_cpu_ticks m) (sr_rumble (g_serial m))\<rparr>\<rparr>) ?k"
  let ?p = "upd (\<lambda>m. m\<lparr>g_pak := clear_gamepak_stickybits (g_pak m)\<rparr>) ?r"
  have "emu_reach ?k" by (rule emu_reach.step [OF r emu_step.keys [OF no_keys]])
  then have "emu_reach ?r" by (rule emu_reach.step [OF _ emu_step.rumble])
  then have "emu_reach ?p" by (rule emu_reach.step [OF _ emu_step.pages])
  then have "emu_reach (upd (\<lambda>m. m\<lparr>g_pc_block := None\<rparr>) ?p)" by (rule emu_reach.step [OF _ emu_step.region])
  then have "emu_reach ?f" unfolding frame_start_def by (rule emu_reach.step [OF _ emu_step.budget])
  then have "emu_reach ?s" by (rule emu_reach.step [OF _ emu_step.enter])
  then have reach: "emu_reach m" by (rule emu_reach.step [OF _ emu_step.arm [OF m(1)]])
  have same: "same_machine halted t" using start_ready(2) t(3) by (simp add: same_machine_def)
  have l: "at_line 0 False 960 t" using halted_at_line at_line_cong [of t halted] same by (simp add: same_machine_def)
  have "g_execute_cycles (mem t) = 960" using same by (simp add: same_machine_def time_view_def halted_def set_reg_def booted_fields)
  then obtain ret u where u: "update_gba fuel (polls 1) (cycles t) t = Some (ret, u)" "ret AND 0x80000000 \<noteq> 0" "asleep u"
    using update_gba_sleeps [OF l, of 956 fuel "polls 1"] t(2) by (auto simp: signed_max_def word_sless_alt)
  have sleeps: "reg t CPU_HALT_STATE \<noteq> CPU_ACTIVE" using calm_sleeps [OF l] .
  have flag: "reg ?s REG_CPSR AND 0x20 = 0"
    by (simp add: extract_flags_def Let_def frame_start_def booted_reg upd_def iow_def)
  have "frame_loop fuel polls 1 t = Some u"
    using u sleeps by (subst frame_loop.simps) (simp add: wake_step_def)
  moreover have "execute_until_update (gba_bus fuel) ?f = Some (Alert, t)"
    using t(1) flag by (simp add: execute_until_update_def Let_def)
  moreover have "reg ?f CPU_HALT_STATE = CPU_ACTIVE"
    by (simp add: frame_start_def booted_reg upd_def iow_def)
  ultimately have "frame_loop fuel polls 0 ?f = Some u"
    by (subst frame_loop.simps) simp
  moreover have "serial_mode (g_session (mem u)) = SERIAL_MODE_DISABLED" using u(3) by (simp add: asleep_def calm_def)
  moreover have "g_execute_cycles (mem ?p) = 960" by (simp add: upd_def iow_def booted_fields)
  ultimately have "run_frame fuel polls period pulse (\<lambda>_. False) booted = Some u"
    by (simp add: run_frame_def no_keys execute_arm_def device_frame_update_def frame_start_def Let_def)
  then show ?thesis using reach m(2) by blast
qed

section \<open>The mode\<close>

text \<open>C28: the processor mode is consistent in every state the emulator reaches after the reset, inside a frame or
  between two, whether or not the frame ever ends: the mode in \<open>CPU_MODE\<close>, which selects the
  banked registers, is the one of the mode bits of the status register, and the banks keep
  their sizes. The states are those after any number of instructions, transfers, interrupts, timer and video events,
  network packets and key presses; a frame that returns ends in one of them.\<close>

theorem mode_follows_status:
  assumes "emu_reach s"
  shows "reg s CPU_MODE = cpu_modes (reg s REG_CPSR) \<and> banks_wf s
    \<and> (\<forall>t. run_frame fuel polls period pulse pressed s = Some t \<longrightarrow> emu_reach t)"
  using reach_ok [OF assms] emu_steps_reach [OF frame_steps assms] by (auto simp: cpu_ok_def)

lemma mode_follows_status_witness:
  "\<exists>m t. emu_reach m \<and> reg m CPU_MODE = MODE_IRQ \<and> cpu_modes (reg m REG_CPSR) = MODE_IRQ
    \<and> run_frame 0 (\<lambda>_ _. []) 8 4 (\<lambda>_. False) booted = Some t \<and> emu_reach t \<and> reg t CPU_MODE = cpu_modes (reg t REG_CPSR)"
proof -
  have r: "emu_reach booted" unfolding booted_def by (rule emu_reach.reset)
  obtain m t where m: "emu_reach m" "reg m CPU_MODE = MODE_IRQ"
    and t: "run_frame 0 (\<lambda>_ _. []) 8 4 (\<lambda>_. False) booted = Some t"
    using boot_frame by blast
  have "emu_reach t" using mode_follows_status [OF r] t by blast
  then show ?thesis using m t mode_follows_status [of m] mode_follows_status [of t] by metis
qed

end
