(* ===== verification/GbaHangs.thy ===== *)
theory GbaHangs
  imports GbaProps
begin

text \<open>
  Programs that stop the emulator: runs that never come back, as \<open>None\<close> of the partial
  functions for the loops.
\<close>

section \<open>Jumps between the two instruction sets\<close>

text \<open>An ARM \<open>BX r0\<close> and the THUMB \<open>BX r1\<close> it jumps to, which jumps back.\<close>

definition ping_pong :: "gs \<Rightarrow> bool" where
  "ping_pong s \<longleftrightarrow>
     g_pc_block (mem s) = Some (0x600, B_iwram)
     \<and> le_value W32 (g_iwram (mem s)) 0x8000 = 0xE12FFF10 \<and> le_value W16 (g_iwram (mem s)) 0x8004 = 0x4708
     \<and> reg s 0 = 0x03000005 \<and> reg s 1 = 0x03000000
     \<and> cheat_master_hook (g_cheats (mem s)) \<notin> {0x03000000, 0x03000004}"

lemma ping_pong_view: "mem t = mem s \<Longrightarrow> reg t 0 = reg s 0 \<Longrightarrow> reg t 1 = reg s 1 \<Longrightarrow> ping_pong t = ping_pong s"
  by (simp add: ping_pong_def)

lemma field_BX: "field 0xE12FFF10 20 0xFF = 0x12" "field 0x4708 8 0xFF = 0x47"
  "field 0xE12FFF10 0 0xF = 0" "field 0x4708 3 0xF = 1"
  by (simp_all add: field_def)

lemma arm_half:
  assumes "ping_pong s" "reg s REG_PC = 0x03000000"
  shows "\<exists>t. arm_round (gba_bus fuel) s = Some (Again_thumb, t) \<and> ping_pong t \<and> reg t REG_PC = 0x03000004 \<and> cycles t = cycles s"
proof -
  have f: "gba_fetch U32 (set_reg 15 0x03000000 (collapse_flags s)) = Some (0xE12FFF10, set_reg 15 0x03000000 (collapse_flags s))"
    using assms
    by (simp add: ping_pong_def gba_fetch_def check_pc_region_def collapse_flags_def set_reg_def read_block_def
        readaddress_def access_width_def w_bytes_def)
  have h: "cheat_hook_gba fuel (collapse_flags s) = Some (collapse_flags s)"
    using assms by (auto simp: ping_pong_def cheat_hook_gba_def collapse_flags_def set_reg_def)
  show ?thesis
    using assms
    by (simp add: arm_round_def h f Let_def arm_instruction_def cond_passed_def field_BX arm_switch_def arm_case_12_def arm_bx_def)
      (simp add: ping_pong_def pc_offset_def set_reg_def collapse_flags_def)
qed

lemma thumb_half:
  assumes "ping_pong s" "reg s REG_PC = 0x03000004"
  shows "\<exists>t. thumb_round (gba_bus fuel) s = Some (Again_arm, t) \<and> ping_pong t \<and> reg t REG_PC = 0x03000000 \<and> cycles t = cycles s"
proof -
  have f: "gba_fetch U16 (set_reg 15 0x03000004 (collapse_flags s)) = Some (0x4708, set_reg 15 0x03000004 (collapse_flags s))"
    using assms
    by (simp add: ping_pong_def gba_fetch_def check_pc_region_def collapse_flags_def set_reg_def read_block_def
        readaddress_def access_width_def w_bytes_def)
  have h: "cheat_hook_gba fuel (collapse_flags s) = Some (collapse_flags s)"
    using assms by (auto simp: ping_pong_def cheat_hook_gba_def collapse_flags_def set_reg_def)
  show ?thesis
    using assms
    by (simp add: thumb_round_def h f Let_def field_BX thumb_switch_def thumb_cases_44_47_def thumb_bx_def hi_rs_def)
      (simp add: ping_pong_def pc_offset_def set_reg_def collapse_flags_def)
qed

text \<open>C33: a program whose ARM and THUMB halves jump to each other with \<open>BX\<close> hangs the emulator: the two
  jumps skip the end of the instruction, where cycles are charged and events are polled, so the
  interpreter never returns to the rest of the machine, however many cycles were left.\<close>

theorem interworking_hang:
  assumes "ping_pong s" and "reg s REG_PC = 0x03000000"
  shows "run_rounds (gba_bus fuel) False s = None"
proof -
  have "run_rounds M b s = Some r \<Longrightarrow> M = gba_bus fuel \<Longrightarrow> ping_pong s \<Longrightarrow>
      reg s REG_PC = (if b then 0x03000004 else 0x03000000) \<Longrightarrow> False" for M b s r
  proof (induction rule: run_rounds.raw_induct [rotated 1, consumes 1])
    case (1 run M b s r)
    obtain t where "(if b then thumb_round M s else arm_round M s) = Some (if b then Again_arm else Again_thumb, t)"
      "ping_pong t" "reg t REG_PC = (if b then 0x03000000 else 0x03000004)"
      using arm_half [of s fuel] thumb_half [of s fuel] 1(3-5) by (cases b) auto
    then show False using 1(1) [of M "\<not> b" t r] 1(2,3) by (cases b) auto
  qed
  from this [of "gba_bus fuel" False s] assms show ?thesis
    by (cases "run_rounds (gba_bus fuel) False s") auto
qed

definition ping_pong_start :: gs where
  "ping_pong_start =
     (let s = init_cpu True (bare_machine (\<lambda>i. [0x10, 0xFF, 0x2F, 0xE1, 0x08, 0x47] ! i))
      in s\<lparr>reg := (reg s)(0 := 0x03000005, 1 := 0x03000000, REG_PC := 0x03000000), cycles := 960\<rparr>)"

lemma interworking_hang_witness: "run_rounds (gba_bus 0) False ping_pong_start = None"
  by (rule interworking_hang)
    (simp_all add: ping_pong_def ping_pong_start_def init_cpu_def Let_def le_value_def)

end
