(* ===== verification/SoundProps.thy ===== *)
theory SoundProps
  imports GbaIo
begin

text \<open>
  Properties of the direct sound channels: a timer overflow plays one sample of the queue and
  stays inside the queue and the output ring, and it returns for every timer setting but one.
\<close>

section \<open>The invariant of the channels\<close>

definition slot_ok :: "u32 \<Rightarrow> bool" where
  "slot_ok i \<longleftrightarrow> even i \<and> i < 0x10000"

definition ds_ok :: "direct_sound \<Rightarrow> bool" where
  "ds_ok ds \<longleftrightarrow> length (fifo ds) = 32 \<and> fifo_base ds < 32 \<and> fifo_top ds < 32
     \<and> slot_ok (buffer_index ds) \<and> fifo_fractional ds \<le> 0xFFFFFF \<and> ds_status ds \<le> 3"

definition direct_sound_ok :: "sound_state \<Rightarrow> bool" where
  "direct_sound_ok s \<longleftrightarrow> length (direct_sound_channel s) = 2 \<and> list_all ds_ok (direct_sound_channel s)
     \<and> length (sound_buffer s) = BUFFER_SIZE"

lemma even_unat: "even (unat w) = even w" for w :: "'a :: len word"
proof -
  have "bit (unat w) 0 = bit w 0" by (simp only: bit_unsigned_iff) simp
  then show ?thesis by (simp only: bit_0) blast
qed

lemma next_slot_ok: "slot_ok i \<Longrightarrow> slot_ok (next_slot i)"
proof -
  assume i: "slot_ok i"
  have "next_slot i < 0x10000"
    unfolding next_slot_def using word_mod_less_divisor [of "0x10000 :: u32" "i + 2"] by simp
  moreover have "next_slot i = take_bit 16 (i + 2)"
    by (simp add: next_slot_def take_bit_eq_mod)
  ultimately show ?thesis using i by (simp add: slot_ok_def)
qed

lemma add_sample_ok:
  "i < length buf \<Longrightarrow> \<exists>buf'. add_sample i v buf = Some buf' \<and> length buf' = length buf"
  by (simp add: add_sample_def arr_get_def arr_set_def)

lemma place_sample_ok:
  assumes "slot_ok i" "length buf = BUFFER_SIZE"
  shows "\<exists>buf'. place_sample st v (unat i) buf = Some buf' \<and> length buf' = BUFFER_SIZE"
proof -
  have "unat i < 0x10000" "even (unat i)" using assms(1) by (simp_all add: slot_ok_def word_less_nat_alt even_unat)
  then have "unat i + 1 < 0x10000" by presburger
  then show ?thesis using assms(2)
    by (auto simp: place_sample_def add_sample_def arr_get_def arr_set_def)
qed

section \<open>The output loop\<close>

lemma ds_render_step: "ds_render st cur nxt step f i buf = Some r \<Longrightarrow> step = 0 \<Longrightarrow> 0xFFFFFF < f"
proof (induction rule: ds_render.raw_induct [rotated 1, consumes 1])
  case (1 run st cur nxt step f i buf r)
  then show ?case by (auto simp: not_le split: Option.bind_splits if_splits)
qed

lemma ds_render_stuck: "f \<le> 0xFFFFFF \<Longrightarrow> ds_render st cur nxt 0 f i buf = None"
  using ds_render_step [of st cur nxt 0 f i buf] by (cases "ds_render st cur nxt 0 f i buf") auto

lemma ds_render_ends:
  assumes "0 < step" "step \<le> 0xAAAAAAAA"
  shows "slot_ok i \<Longrightarrow> length buf = BUFFER_SIZE \<Longrightarrow>
     \<exists>f' i' buf'. ds_render st cur nxt step f i buf = Some (f', i', buf') \<and> slot_ok i' \<and> length buf' = BUFFER_SIZE"
proof (induction "0x1000000 - unat f" arbitrary: f i buf rule: less_induct)
  case less
  show ?case
  proof (cases "f \<le> 0xFFFFFF")
    case True
    then have u: "unat (f + step) = unat f + unat step" and f: "unat f < 0x1000000"
      using assms by (simp_all add: word_le_nat_alt unat_plus_if_size word_size) 
    obtain buf' where b: "(if st = 0 \<or> 3 < st then Some buf else place_sample st (interpolate cur nxt f) (unat i) buf) = Some buf'"
        "length buf' = BUFFER_SIZE"
      using place_sample_ok [OF less.prems, of st "interpolate cur nxt f"] less.prems(2) by (cases "st = 0 \<or> 3 < st") auto
    have "0x1000000 - unat (f + step) < 0x1000000 - unat f" using u f assms(1) by (simp add: word_less_nat_alt)
    from less.hyps [OF this next_slot_ok [OF less.prems(1)] b(2)] show ?thesis
      using True b(1) by (subst ds_render.simps) simp
  next
    case False
    then show ?thesis using less.prems by (subst ds_render.simps) simp
  qed
qed

lemma fifo_sample_ok: "ds_ok ds \<Longrightarrow> \<exists>v. fifo_sample ds = Some v"
  by (simp add: ds_ok_def fifo_sample_def arr_get_def word_less_nat_alt)

lemma ds_timer_eq:
  assumes "ds_ok ds" and "length buf = BUFFER_SIZE" and "step \<le> 0xAAAAAAAA"
  shows "(step = 0 \<longrightarrow> ds_timer on step buf ds = None) \<and>
    (0 < step \<longrightarrow> (\<exists>low buf' ds'. ds_timer on step buf ds = Some (low, buf', ds')
      \<and> length buf' = BUFFER_SIZE \<and> ds_ok ds' \<and> fifo_base ds' = (fifo_base ds + 1) mod 32))"
proof -
  let ?d = "ds\<lparr>fifo_base := (fifo_base ds + 1) mod 32\<rparr>"
  have base: "(fifo_base ds + 1) mod 32 < 32" by (rule word_mod_less_divisor) simp
  then have d: "ds_ok ?d" using assms(1) by (simp add: ds_ok_def)
  obtain cur nxt where cur: "fifo_sample ds = Some cur" and nxt: "fifo_sample ?d = Some nxt"
    using fifo_sample_ok assms(1) d by blast
  have st: "\<not> 3 < ds_status ds" and f: "fifo_fractional ds \<le> 0xFFFFFF" and i: "slot_ok (buffer_index ds)"
    using assms(1) by (auto simp: ds_ok_def not_less)
  have low: "frac AND 0xFFFFFF \<le> (0xFFFFFF :: u32)" for frac by (rule word_and_le1)
  show ?thesis
  proof (cases "step = 0")
    case True
    then show ?thesis by (simp add: ds_timer_def cur nxt Let_def ds_render_stuck f st)
  next
    case False
    then have "0 < step" by (simp add: word_neq_0_conv)
    from ds_render_ends [OF this assms(3) i assms(2)] have r: "\<And>s c n. \<exists>f' i' buf'.
        ds_render s c n step (fifo_fractional ds) (buffer_index ds) buf = Some (f', i', buf') \<and> slot_ok i' \<and> length buf' = BUFFER_SIZE" .
    obtain f1 i1 b1 where r1: "ds_render (ds_status ds) (signed_drop_bit (unat (volume_halve ds)) cur)
        (signed_drop_bit (unat (volume_halve ds)) nxt) step (fifo_fractional ds) (buffer_index ds) buf = Some (f1, i1, b1)"
        "slot_ok i1" "length b1 = BUFFER_SIZE" using r by blast
    obtain f2 i2 b2 where r2: "ds_render 0 cur nxt step (fifo_fractional ds) (buffer_index ds) buf = Some (f2, i2, b2)"
        "slot_ok i2" "length b2 = BUFFER_SIZE" using r by blast
    show ?thesis using False d st low r1 r2
      by (cases "on = 1") (auto simp: ds_timer_def cur nxt Let_def ds_ok_def)
  qed
qed

section \<open>The frequency step of a timer\<close>

lemma nat_word_of: "unat w = n \<Longrightarrow> w = of_nat n" for w :: "'a :: len word"
  by (auto simp: word_eq_iff_unsigned)

lemma unat_of_nat64: "n < 2 ^ 64 \<Longrightarrow> unat (of_nat n :: 64 word) = n"
  by (simp add: unsigned_of_nat take_bit_nat_eq_self)

text \<open>The step of a period of \<open>D\<close> cycles, for the two output rates of 2^15 and 2^16 samples a second.\<close>

lemma timer_step_value:
  assumes "1 \<le> D" "D \<le> 0x4000000" "bits \<le> 16"
  shows "timer_frequency_step bits D = Some (of_nat (2 ^ (48 - bits) div unat D))"
proof -
  have D: "1 \<le> unat D" "unat D \<le> 0x4000000" using assms by (simp_all add: word_le_nat_alt)
  let ?w = "2 ^ bits * ucast D :: 64 word"
  have p: "(2 :: nat) ^ bits \<le> 2 ^ 16" using assms(3) by (rule power_increasing) simp
  have u: "unat (ucast D :: 64 word) = unat D"
    using D by (simp add: unsigned_ucast_eq take_bit_nat_eq_self)
  have b: "unat (2 ^ bits :: 64 word) = 2 ^ bits"
    using p unat_of_nat64 [of "2 ^ bits"] by simp
  have "2 ^ bits * unat D \<le> 2 ^ 16 * 0x4000000" using p D(2) by (rule mult_le_mono)
  then have w: "unat ?w = 2 ^ bits * unat D"
    using unat_mult_lem [of "2 ^ bits :: 64 word" "ucast D"] u b by simp
  then have w0: "?w \<noteq> 0" using D by (metis mult_eq_0_iff not_one_le_zero power_not_zero unat_0 zero_neq_numeral)
  have e: "(0x1000000000000 :: nat) = 2 ^ bits * 2 ^ (48 - bits)" using assms(3) by (simp flip: power_add)
  have "unat ((0x1000000000000 :: 64 word) div ?w) = 0x1000000000000 div (2 ^ bits * unat D)"
    by (simp add: unat_div w)
  also have "\<dots> = 2 ^ (48 - bits) div unat D" unfolding e by (rule div_mult_mult1) simp
  finally have "unat ((0x1000000000000 :: 64 word) div ?w) = 2 ^ (48 - bits) div unat D" .
  then have "(0x1000000000000 :: 64 word) div ?w = of_nat (2 ^ (48 - bits) div unat D)"
    by (metis nat_word_of)
  moreover have "2 ^ (48 - bits) div unat D < (2 :: nat) ^ 64"
    using power_increasing [of "48 - bits" 48 "2 :: nat"] by (intro le_less_trans [OF div_le_dividend]) simp
  then have "take_bit 64 (2 ^ (48 - bits) div unat D) = 2 ^ (48 - bits) div unat D"
    by (rule take_bit_nat_eq_self)
  ultimately show ?thesis using w0
    by (simp add: timer_frequency_step_def sound_frequency_def base_rate_def Let_def unsigned_of_nat)
qed

lemma timer_step_bounds:
  assumes "1 \<le> D" "D \<le> 0x4000000" "bits \<in> {15, 16}" "timer_frequency_step bits D = Some st"
  shows "st \<le> 0xAAAAAAAA" "st = 0 \<longleftrightarrow> D = 1 \<or> bits = 15 \<and> D = 2"
proof -
  let ?q = "2 ^ (48 - bits) div unat D :: nat"
  have D: "1 \<le> unat D" "unat D \<le> 0x4000000" using assms by (simp_all add: word_le_nat_alt)
  have st: "st = of_nat ?q" using timer_step_value [OF assms(1,2), of bits] assms(3,4) by auto
  have eq: "D = 1 \<longleftrightarrow> unat D = 1" "D = 2 \<longleftrightarrow> unat D = 2" by (simp_all add: word_unat_eq_iff)
  have "st \<le> 0xAAAAAAAA \<and> (st = 0 \<longleftrightarrow> D = 1 \<or> bits = 15 \<and> D = 2)"
  proof (cases "unat D = 1 \<or> bits = 15 \<and> unat D = 2")
    case True
    then show ?thesis using assms(3) eq by (auto simp: st)
  next
    case False
    then have "?q \<le> 0xAAAAAAAA"
      using D assms(3) div_le_mono2 [of 2 "unat D" "2 ^ 32"] div_le_mono2 [of 3 "unat D" "2 ^ 33"] by auto
    moreover have "0 < ?q" using D assms(3) by (auto simp: div_greater_zero_iff)
    moreover have "unat st = ?q"
      using \<open>?q \<le> 0xAAAAAAAA\<close> by (simp add: st unsigned_of_nat take_bit_nat_eq_self)
    ultimately show ?thesis using False eq by (auto simp: word_le_nat_alt)
  qed
  then show "st \<le> 0xAAAAAAAA" "st = 0 \<longleftrightarrow> D = 1 \<or> bits = 15 \<and> D = 2" by blast+
qed

text \<open>
  The reload value of a timer as the hardware takes it: \<open>0x10000\<close> less the value written, shifted
  by one of the four prescalers.
\<close>

lemma timer_period:
  fixes v :: u32
  assumes "v < 0x10000" "p \<in> {0, 6, 8, 10}"
  shows "1 \<le> push_bit p (0x10000 - v)" "push_bit p (0x10000 - v) \<le> 0x4000000"
    "push_bit p (0x10000 - v) = 1 \<longleftrightarrow> p = 0 \<and> v = 0xFFFF"
    "push_bit p (0x10000 - v) = 2 \<longleftrightarrow> p = 0 \<and> v = 0xFFFE"
proof -
  define w where "w = 0x10000 - v"
  have w: "unat w = 0x10000 - unat v" and v: "unat v < 0x10000"
    using assms(1) by (simp_all add: w_def word_less_nat_alt unat_sub word_le_nat_alt)
  then have r: "1 \<le> unat w" "unat w \<le> 0x10000" by auto
  have u: "unat (push_bit p w) = unat w * 2 ^ p"
    using assms(2) r unat_mult_lem [of w "2 ^ p"] by (auto simp: push_bit_eq_mult)
  have p: "(1 :: nat) \<le> 2 ^ p" "(2 :: nat) ^ p \<le> 1024" using assms(2) by auto
  have "1 \<le> unat w * 2 ^ p" "unat w * 2 ^ p \<le> 0x10000 * 1024"
    using r p mult_le_mono [of 1 "unat w" 1 "2 ^ p"] mult_le_mono [of "unat w" "0x10000" "2 ^ p" 1024] by simp_all
  then show "1 \<le> push_bit p (0x10000 - v)" "push_bit p (0x10000 - v) \<le> 0x4000000"
    using u by (simp_all add: word_le_nat_alt w_def)
  have eq: "push_bit p w = 1 \<longleftrightarrow> unat w * 2 ^ p = 1" "push_bit p w = 2 \<longleftrightarrow> unat w * 2 ^ p = 2"
    using u by (simp_all add: word_unat_eq_iff)
  have n: "unat w * 2 ^ p = 1 \<longleftrightarrow> unat w = 1 \<and> p = 0" "unat w * 2 ^ p = 2 \<longleftrightarrow> unat w = 2 \<and> p = 0"
    using assms(2) by auto
  have v': "unat w = 1 \<longleftrightarrow> v = 0xFFFF" "unat w = 2 \<longleftrightarrow> v = 0xFFFE"
    using w v by (auto simp: word_unat_eq_iff)
  show "push_bit p (0x10000 - v) = 1 \<longleftrightarrow> p = 0 \<and> v = 0xFFFF"
    "push_bit p (0x10000 - v) = 2 \<longleftrightarrow> p = 0 \<and> v = 0xFFFE"
    unfolding w_def [symmetric] eq n v' by auto
qed

section \<open>Which timers hang the emulator\<close>

text \<open>C32: a sound timer overflow returns for every reload value and prescaler but one at the output rate of
  65536 samples a second, and but two at 32768, the rates the emulator offers. A timer that
  reloads \<open>0xFFFF\<close> without prescaling, or \<open>0xFFFE\<close> at the lower rate, gets a frequency step that is a
  multiple of 2^32, which 32 bits hold as 0, and the output loop of its first overflow never
  ends; with any other setting the overflow returns and keeps the queue and ring positions
  inside their arrays.\<close>

theorem sound_timer_returns:
  assumes "direct_sound_ok s" and "chn < 2" and "v < 0x10000" and "p \<in> {0, 6, 8, 10}" and "bits \<in> {15, 16}"
    and "timer_frequency_step bits (push_bit p (0x10000 - v)) = Some st"
  shows "if p = 0 \<and> (v = 0xFFFF \<or> bits = 15 \<and> v = 0xFFFE) then sound_timer_sample st chn s = None
    else \<exists>low t. sound_timer_sample st chn s = Some (low, t) \<and> direct_sound_ok t"
proof -
  note per = timer_period [OF assms(3,4)]
  note st = timer_step_bounds [OF per(1,2) assms(5,6)]
  obtain ds where ds: "arr_get (direct_sound_channel s) chn = Some ds" "ds_ok ds"
    using assms(1,2) by (auto simp: direct_sound_ok_def arr_get_def list_all_length)
  have buf: "length (sound_buffer s) = BUFFER_SIZE" using assms(1) by (simp add: direct_sound_ok_def)
  note eq = ds_timer_eq [OF ds(2) buf st(1), of "sound_on s"]
  have upd: "ds_ok d \<Longrightarrow> list_all ds_ok ((direct_sound_channel s)[chn := d])" for d
    using assms(1) set_update_subset_insert [of "direct_sound_channel s" chn d]
    by (auto simp: direct_sound_ok_def list_all_iff)
  have "st = 0 \<longleftrightarrow> p = 0 \<and> (v = 0xFFFF \<or> bits = 15 \<and> v = 0xFFFE)" unfolding st(2) per(3,4) by blast
  then show ?thesis
    using eq ds(1) assms(1)
    by (cases "st = 0") (auto simp: sound_timer_sample_def word_neq_0_conv direct_sound_ok_def upd)
qed

lemma sound_timer_returns_witness:
  "(\<exists>low t. sound_timer_sample 0x200000 0 reset_sound = Some (low, t) \<and> direct_sound_ok t)"
  using sound_timer_returns [where s = reset_sound and chn = 0 and v = "0xF000" and p = 0 and bits = 15 and st = "0x200000"]
  by (simp add: direct_sound_ok_def ds_ok_def slot_ok_def reset_sound_def timer_frequency_step_def
      sound_frequency_def base_rate_def Let_def list_all_iff)

end
