(* ===== verification/ReadProps.thy ===== *)
theory ReadProps
  imports GbaProps
begin

text \<open>
  The fast path of a load through \<^verbatim>\<open>memory_map_read\<close> gives what the slow path gives.
\<close>

section \<open>Offsets\<close>

lemma unat_drop: "unat (drop_bit n w) = unat w div 2 ^ n" for w :: "'a :: len word"
  unfolding drop_bit_eq_div [of n "unat w", symmetric] by (rule unat_drop_bit_eq)

lemma unat_mask: "unat (w AND mask n) = unat w mod 2 ^ n" for w :: "'a :: len word"
  unfolding take_bit_eq_mask [symmetric] take_bit_eq_mod [of n "unat w", symmetric] by (rule unsigned_take_bit_eq)

lemma unat_low:
  "unat (a AND 0x7FFF) = unat a mod 0x8000" "unat (a AND 0x3FFF) = unat a mod 0x4000"
  "unat (a AND 0x3FFFF) = unat a mod 0x40000" "unat (a AND 0x1FFFF) = unat a mod 0x20000"
  "unat (a AND 0x3FF) = unat a mod 0x400" for a :: u32
  using unat_mask [of a 15] unat_mask [of a 14] unat_mask [of a 18] unat_mask [of a 17] unat_mask [of a 10]
  by (simp_all add: mask_eq_exp_minus_1)

text \<open>The 32 KB page of an address, and the address in it.\<close>

definition page :: "u32 \<Rightarrow> nat" where
  "page a = unat (drop_bit 15 a)"

lemma page_region: "page a = unat a div 0x8000" "region a = unat a div 0x1000000" "page a div 0x200 = region a"
  by (simp_all add: page_def region_def unat_drop flip: div_mult2_eq)

lemma ewram_offset: "of_nat (page a mod 8 * PAGE) + (a AND 0x7FFF) = a AND 0x3FFFF"
proof -
  have "unat a mod (0x8000 * 8) = 0x8000 * (unat a div 0x8000 mod 8) + unat a mod 0x8000" by (rule mod_mult2_eq)
  then have "unat (a AND 0x3FFFF) = page a mod 8 * PAGE + unat (a AND 0x7FFF)"
    by (simp add: page_region unat_low)
  then have "(of_nat (unat (a AND 0x3FFFF)) :: u32) = of_nat (page a mod 8 * PAGE + unat (a AND 0x7FFF))" by (rule arg_cong)
  then show ?thesis by simp
qed

lemma vram_page: "of_nat (min (page a mod 4) 2 * PAGE) + (a AND 0x7FFF) = vram_offset a"
proof -
  have m: "unat a mod (0x8000 * 4) = 0x8000 * (unat a div 0x8000 mod 4) + unat a mod 0x8000" by (rule mod_mult2_eq)
  then have "unat (a AND 0x1FFFF) = page a mod 4 * PAGE + unat (a AND 0x7FFF)"
    by (simp add: page_region unat_low)
  then have "(of_nat (unat (a AND 0x1FFFF)) :: u32) = of_nat (page a mod 4 * PAGE + unat (a AND 0x7FFF))" by (rule arg_cong)
  then have a: "a AND 0x1FFFF = of_nat (page a mod 4 * PAGE) + (a AND 0x7FFF)" by simp
  have "0x18000 \<le> a AND 0x1FFFF \<longleftrightarrow> page a mod 4 = 3"
    using m mod_less_divisor [of 4 "page a"] by (simp add: word_le_nat_alt unat_low page_region) linarith
  then show ?thesis using a mod_less_divisor [of 4 "page a"] by (auto simp: vram_offset_def Let_def min_def)
qed

lemma offsets:
  "of_nat (page a mod 8) * 0x8000 + (a AND 0x7FFF) = a AND 0x3FFFF"
  "of_nat (min (page a mod 4) 2) * 0x8000 + (a AND 0x7FFF) = vram_offset a"
  "0x8000 + (a AND 0x7FFF) = (a AND 0x7FFF) + 0x8000"
  using ewram_offset [of a] vram_page [of a] by simp_all

section \<open>The regions with a map entry\<close>

text \<open>
  The addresses the fast path gets right: below the bounds of the BIOS and the registers inside
  their 32 KB pages, ROM inside the cartridge, and no EEPROM in the way.
\<close>

definition in_bounds :: "u32 \<Rightarrow> gs \<Rightarrow> bool" where
  "in_bounds a s \<longleftrightarrow> a < 0x10000000
     \<and> (region a = 0 \<longrightarrow> a < 0x4000 \<and> reg s REG_PC < 0x4000)
     \<and> (region a = 4 \<longrightarrow> a AND 0x7FFF < 0x400)
     \<and> (8 \<le> region a \<longrightarrow> unat (a AND 0x1FFFFFF) < gamepak_size (g_pak (mem s)))
     \<and> (region a = 0xD \<longrightarrow> backup_type (g_backup (mem s)) \<noteq> BACKUP_EEPROM)"

lemma page_cases:
  "page a < 0x200 \<longleftrightarrow> region a = 0" "page a < 0x400 \<longleftrightarrow> region a < 2" "page a < 0x600 \<longleftrightarrow> region a < 3"
  "page a < 0x800 \<longleftrightarrow> region a < 4" "page a < 0xA00 \<longleftrightarrow> region a < 5" "page a < 0xC00 \<longleftrightarrow> region a < 6"
  "page a < 0xE00 \<longleftrightarrow> region a < 7" "page a < 0x1000 \<longleftrightarrow> region a < 8" "page a < 0x1C00 \<longleftrightarrow> region a < 14"
  using page_region(3) [of a] by (auto simp: div_less_iff_less_mult simp flip: page_region(3))

lemma low_address: "a < 0x4000 \<Longrightarrow> a AND 0x7FFF = a AND 0x3FFF" for a :: u32
  by (simp add: word_unat_eq_iff unat_low word_less_nat_alt)

lemma low_register: "a AND 0x7FFF < 0x400 \<Longrightarrow> a AND 0x7FFF = a AND 0x3FF" for a :: u32
proof -
  assume "a AND 0x7FFF < 0x400"
  then have "unat a mod 0x8000 < 0x400" by (simp add: word_less_nat_alt unat_low)
  moreover have "unat a mod 0x8000 mod 0x400 = unat a mod 0x400" by (rule mod_mod_cancel) simp
  ultimately show ?thesis by (simp add: word_unat_eq_iff unat_low)
qed

lemma block_is_mapped:
  assumes "memory_map_read (page a) s = Some (Some blk)" and "in_bounds a s"
  shows "read_mapped w a s = map_option (\<lambda>v. (v, s)) (read_block w blk (a AND 0x7FFF) s)"
proof -
  consider "region a = 0" | "region a = 2" | "region a = 3" | "region a = 4" | "region a = 6"
    | "8 \<le> region a" "region a < 14"
    using assms(1) by (fastforce simp: memory_map_read_def page_cases split: if_splits)
  then show ?thesis
  proof cases
    case 6
    then obtain e where "blk = B_rom e" "arr_get (memory_map (g_pak (mem s))) (page a) = Some (Some e)"
      using assms(1) by (auto simp: memory_map_read_def page_cases split: if_splits)
    then show ?thesis
      using 6 assms(2)
      by (auto simp: read_mapped_def Let_def in_bounds_def read_memory_gamepak_def rom_slot_def read_block_def
          simp flip: page_def split: Option.bind_splits)
  qed (use assms in \<open>auto simp: memory_map_read_def page_cases read_mapped_def Let_def in_bounds_def read_block_def
      offsets low_address split: if_splits dest: low_register\<close>)
qed

lemma finish_aligned: "a AND w_mask w = 0 \<Longrightarrow> finish_read w a v = Some (if w = W8 then v AND 0xFF else v)"
proof -
  assume al: "a AND w_mask w = 0"
  have "ror v 0 = Some v" by (simp add: ror_def)
  moreover have "a AND 1 = 0" if "w = W16" using al that by (simp add: w_mask_def)
  moreover have "a AND 3 = 0" if "w = W32" using al that by (simp add: w_mask_def)
  ultimately show ?thesis by (cases w) (simp_all add: finish_read_def)
qed

lemma align_same: "a AND m = 0 \<Longrightarrow> a AND NOT m = a" for a m :: u32
proof (rule bit_word_eqI)
  fix n assume "a AND m = 0"
  then have "\<not> bit (a AND m) n" by simp
  then show "n < LENGTH(32) \<Longrightarrow> bit (a AND NOT m) n = bit a n" by (auto simp: bit_simps)
qed

lemma aligned_read:
  assumes "memory_map_read (page a) s = Some (Some blk)" "in_bounds a s" "a AND w_mask w = 0"
  shows "read_memory w a s = map_option (\<lambda>v. (if w = W8 then v AND 0xFF else v, s)) (read_block w blk (a AND 0x7FFF) s)"
proof -
  have "\<not> is_open a"
    using assms(1,2) by (auto simp: is_open_def Let_def in_bounds_def memory_map_read_def page_cases split: if_splits)
  then show ?thesis
    using block_is_mapped [OF assms(1,2), of w] finish_aligned [OF assms(3)]
    by (subst read_memory.simps) (auto simp: align_same [OF assms(3)] split: Option.bind_splits option.splits)
qed

lemma and_mask_parts: "a AND (0xF0000000 OR m) = 0 \<longleftrightarrow> a AND 0xF0000000 = 0 \<and> a AND m = 0" for a m :: u32
  by (simp add: word_ao_dist2 or_eq_0_iff)

lemma high_nibble: "a < 0x10000000 \<Longrightarrow> a AND 0xF0000000 = 0" for a :: u32
proof -
  assume "a < 0x10000000"
  then have "unat (a AND mask 28) = unat a" by (simp add: unat_mask word_less_nat_alt)
  then have "a = a AND 0xFFFFFFF" by (simp add: word_unat_eq_iff mask_eq_exp_minus_1)
  then have "a AND 0xF0000000 = (a AND 0xFFFFFFF) AND 0xF0000000" by simp
  then show ?thesis by (simp add: word_bw_assocs)
qed

lemma convert_low: "convert_read acc (if access_width acc = W8 then v AND 0xFF else v) = convert_read acc v"
proof -
  have "(ucast (v AND mask 8) :: u8) = ucast v" by (rule bit_word_eqI) (auto simp: bit_simps)
  then have "(ucast (v AND 0xFF) :: u8) = ucast v" by (simp add: mask_eq_exp_minus_1)
  then show ?thesis by (cases acc) (simp_all add: convert_read_def access_width_def word_bw_assocs)
qed

text \<open>C31: where the memories end where their pages do, the fast path of a load is the slow one: an aligned
  access of any type to an address whose page has an entry in \<^verbatim>\<open>memory_map_read\<close> reads through the entry
  exactly the value that the region dispatch of the slow path gives, on the same state, after the same wait
  states. The address is below 0x10000000; in the BIOS region it is below 0x4000 and so is the program
  counter; among the registers its offset in the page is below 0x400; in the ROM it lies inside the
  cartridge; and in region 0xD there is no EEPROM. Elsewhere the two paths differ, as the lemmas after
  the witness show for the BIOS and the registers.\<close>

theorem fast_read_agrees:
  assumes "memory_map_read (page a) s = Some (Some blk)" and "in_bounds a s" and "a AND w_mask (access_width acc) = 0"
    and "charge (g_ws_nseq (mem s)) (access_width acc = W32) a s = Some u"
  shows "fast_read_memory acc a s = map_option (\<lambda>(v, t). (convert_read acc v, t)) (slow_read acc a u)"
proof -
  obtain n where u: "u = s\<lparr>cycles := n\<rparr>"
    using assms(2,4) by (auto simp: in_bounds_def charge_def split: if_splits Option.bind_splits)
  have "memory_map_read i u = memory_map_read i s" for i by (simp add: u memory_map_read_def)
  then have map: "memory_map_read (page a) u = Some (Some blk)" using assms(1) by simp
  have inb: "in_bounds a u" using assms(2) by (simp add: u in_bounds_def)
  have pc: "\<not> (region a = 0 \<and> 0x4000 \<le> reg u REG_PC)" using inb by (auto simp: in_bounds_def)
  have al: "a AND (0xF0000000 OR w_mask (access_width acc)) = 0"
    using assms(3) inb by (simp add: and_mask_parts high_nibble in_bounds_def)
  have fast: "fast_read_memory acc a s = map_option (\<lambda>v. (convert_read acc v, u)) (read_block (access_width acc) blk (a AND 0x7FFF) u)"
    using assms(4) pc al map by (auto simp: fast_read_memory_def Let_def page_def)
  show ?thesis
  proof (cases "acc = S16")
    case True
    then have "a AND 1 = 0" using assms(3) by (simp add: access_width_def w_mask_def)
    moreover have "(ucast (ucast x :: u32) :: u16) = x" for x :: u16 by (rule bit_word_eqI) (auto simp: bit_simps)
    ultimately show ?thesis
      using True fast aligned_read [OF map inb, of W16] assms(3)
      by (auto simp: slow_read_def read_memory16_signed_def access_width_def option.map_comp o_def convert_read_def)
  next
    case False
    then show ?thesis
      using fast aligned_read [OF map inb assms(3)] convert_low [of acc]
      by (auto simp: slow_read_def option.map_comp o_def split_def)
  qed
qed

lemma fast_read_agrees_witness:
  "fast_read_memory S16 0x03000002 (at_program 0x10 0xE321F0D3) =
     map_option (\<lambda>(v, t). (convert_read S16 v, t))
       (slow_read S16 0x03000002 ((at_program 0x10 0xE321F0D3)\<lparr>cycles := 99\<rparr>))"
  by (rule fast_read_agrees [where blk = B_iwram])
    (simp_all add: page_def memory_map_read_def in_bounds_def region_def access_width_def w_mask_def charge_def
      at_program_def init_cpu_def Let_def ws_cyc_init_def arr_get_def)

section \<open>Past the end of a page\<close>

text \<open>
  The pages of the map are 32 KB long, the BIOS is 16 KB and the register array 1 KB: behind
  their ends the fast path leaves the array, where the slow path wraps or answers without it.
\<close>

lemma charge_keeps: "charge ws b a s = Some u \<Longrightarrow> mem u = mem s \<and> reg u = reg s"
  by (auto simp: charge_def split: if_splits Option.bind_splits)

lemma fast_path:
  assumes "region a = r" "r = 0 \<and> reg s REG_PC < 0x4000 \<or> r = 4" "a AND w_mask (access_width acc) = 0" "fast_read_memory acc a s = Some (v, t)"
  shows "\<exists>u. read_block (access_width acc) (if r = 0 then B_bios else B_io) (a AND 0x7FFF) u \<noteq> None"
proof -
  obtain u where u: "charge (g_ws_nseq (mem s)) (access_width acc = W32) a s = Some u"
    using assms(4) by (auto simp: fast_read_memory_def Let_def split: Option.bind_splits)
  note k = charge_keeps [OF u]
  have "unat a div 0x1000000 < 16" using assms(1,2) page_region(2) [of a] by auto
  then have "unat a < 0x10000000" by (simp add: div_less_iff_less_mult)
  then have low: "a < 0x10000000" by (simp add: word_less_nat_alt)
  then have al: "a AND (0xF0000000 OR w_mask (access_width acc)) = 0"
    using assms(3) by (simp add: and_mask_parts high_nibble)
  have "r = 0 \<Longrightarrow> page a < 0x200" "r \<noteq> 0 \<Longrightarrow> page a < 0xA00 \<and> \<not> page a < 0x800"
    using page_cases(1,4,5) [of a] assms(1,2) by auto
  then have m: "memory_map_read (page a) u = Some (Some (if r = 0 then B_bios else B_io))"
    by (cases "r = 0") (auto simp: memory_map_read_def)
  have pc: "\<not> (region a = 0 \<and> 0x4000 \<le> reg u REG_PC)" using assms(1,2) k by auto
  have "read_block (access_width acc) (if r = 0 then B_bios else B_io) (a AND 0x7FFF) u \<noteq> None"
    using assms(4) u pc al m by (auto simp: fast_read_memory_def Let_def page_def)
  then show ?thesis by blast
qed

lemma past_end:
  "0x4000 \<le> off \<Longrightarrow> read_block w B_bios off u = None" "0x400 \<le> off \<Longrightarrow> read_block w B_io off u = None"
  by (cases w; simp add: read_block_def readaddress_def w_bytes_def word_le_nat_alt)+

lemma bios_read_overrun:
  assumes "region a = 0" "reg s REG_PC < 0x4000" "0x4000 \<le> a AND 0x7FFF" "a AND w_mask (access_width acc) = 0"
  shows "fast_read_memory acc a s = None"
  using fast_path [OF assms(1) _ assms(4)] past_end(1) [OF assms(3)] assms(2)
  by (cases "fast_read_memory acc a s") auto

lemma register_read_overrun:
  assumes "region a = 4" "0x400 \<le> a AND 0x7FFF" "a AND w_mask (access_width acc) = 0"
  shows "fast_read_memory acc a s = None"
  using fast_path [OF assms(1) _ assms(3)] past_end(2) [OF assms(2)]
  by (cases "fast_read_memory acc a s") auto

end
