(* ===== verification/IrqProps.thy ===== *)
theory IrqProps
  imports GbaProps
begin

text \<open>
  An interrupt is transparent to the code it interrupts.
\<close>

section \<open>Entry\<close>

lemma irq_bank: "bank_index MODE_IRQ = 1"
  by (simp add: bank_index_def)

text \<open>The banks after the entry: the return address, and the stack pointers of the old mode.\<close>

lemma enter_irq_banks:
  assumes "banks_wf s" and "i = bank_index (reg s CPU_MODE)" and "i \<noteq> 1" "i < 7"
    and "reg s CPU_MODE \<noteq> MODE_IRQ" "reg s CPU_MODE \<noteq> MODE_FIQ"
  shows "enter_irq s = Some (s\<lparr>
       spsr_regs := (spsr_regs s)[1 := reg s REG_CPSR],
       banks := (banks s)[1 := (banks s ! 1)[6 := reg s REG_PC + 4], i := (banks s ! i)[5 := reg s REG_SP, 6 := reg s REG_LR]],
       reg := (reg s)(REG_CPSR := 0xD2, REG_PC := 0x18, REG_SP := banks s ! 1 ! 5, REG_LR := reg s REG_PC + 4,
         CPU_MODE := MODE_IRQ)\<rparr>)"
  using assms
  by (simp add: enter_irq_def set_cpu_mode_def Let_def irq_bank get_bank_def put_bank_def put_spsr_def retire_bank_def
      load_bank_def arr_get_def arr_set_def banks_wf_def set_reg_def list_all_length nth_list_update)

section \<open>Return\<close>

text \<open>\<^verbatim>\<open>SUBS PC, LR, #4\<close> in interrupt mode, with the status register of another mode in its bank.\<close>

lemma subs_pc:
  "\<exists>u. arm_instruction M 0xE25EF004 s = arm_spsr_restore M u \<and> reg u = (reg s)(REG_PC := reg s REG_LR - 4)
     \<and> banks u = banks s \<and> spsr_regs u = spsr_regs s \<and> mem u = mem s"
proof -
  have "(17179869188 :: u32) = 4" by simp
  then have d: "data_imm 0xE25EF004 = Some 4" by (simp add: data_imm_def ror_def field_def)
  show ?thesis
    by (simp add: arm_instruction_def cond_passed_def arm_switch_def field_def arm_cases_20_2F_def d
        arm_data_proc_sub_flags_def pc_offset_def set_reg_def Let_def operand2_def spsr_restore_check_def
        flags_sub_def flags_logic_def)
      (rule exI, rule conjI, rule refl, simp)
qed

lemma restore_mode:
  assumes "banks_wf s" and "reg s CPU_MODE = MODE_IRQ" and "\<not> irq_pending M (mem s)"
    and "psr = spsr_regs s ! 1" and "m = cpu_modes psr" and "m \<noteq> MODE_IRQ" "m \<noteq> MODE_FIQ" and "i = bank_index m" "i \<noteq> 1" "i < 7"
  shows "\<exists>t. arm_spsr_restore M s = Some (if psr AND 0x20 \<noteq> 0 then Thumb_loop else Next, t) \<and>
     reg t = (reg s)(REG_CPSR := psr, REG_SP := banks s ! i ! 5, REG_LR := banks s ! i ! 6, CPU_MODE := m)"
  using assms
  by (simp add: arm_spsr_restore_def get_spsr_def irq_bank arr_get_def banks_wf_def extract_flags_def set_reg_def Let_def
      set_cpu_mode_def retire_bank_def load_bank_def get_bank_def put_bank_def arr_set_def check_for_interrupts_def)

lemma cpu_modes_cases:
  "cpu_modes w \<in> {MODE_USER, MODE_FIQ, MODE_IRQ, MODE_SUPERVISOR, MODE_ABORT, MODE_UNDEFINED, MODE_INVALID, MODE_SYSTEM}"
proof -
  have "w AND 0xF \<le> 0xF" by (rule word_and_le1)
  then have "unat (w AND 0xF) < 16" by (simp add: word_le_nat_alt)
  then have "cpu_modes w \<in> set [MODE_USER, MODE_FIQ, MODE_IRQ, MODE_SUPERVISOR, MODE_INVALID, MODE_INVALID, MODE_INVALID,
     MODE_ABORT, MODE_INVALID, MODE_INVALID, MODE_INVALID, MODE_UNDEFINED, MODE_INVALID, MODE_INVALID, MODE_INVALID, MODE_SYSTEM]"
    unfolding cpu_modes_def by (intro nth_mem) simp
  then show ?thesis by auto
qed

lemma bank_of_mode:
  "cpu_ok s \<Longrightarrow> reg s CPU_MODE \<noteq> MODE_IRQ \<Longrightarrow> bank_index (reg s CPU_MODE) \<noteq> 1 \<and> bank_index (reg s CPU_MODE) < 7"
  using cpu_modes_cases [of "reg s REG_CPSR"] by (auto simp: cpu_ok_def bank_index_def)

lemma wake_up_same: "banks (wake_up s) = banks s" "spsr_regs (wake_up s) = spsr_regs s" "r \<noteq> 18 \<Longrightarrow> reg (wake_up s) r = reg s r"
  by (simp_all add: wake_up_def set_reg_def)

text \<open>C30: an interrupt is transparent to code in any mode but those of interrupt and fast interrupt: when
  the processor leaves user, system, supervisor, abort or undefined mode for the interrupt vector and its handler
  leaves the registers, banks and saved status as it found them and acknowledges the interrupt, the return
  instruction \<^verbatim>\<open>SUBS PC, LR, #4\<close> brings back every register, the program counter, the status register,
  the mode, and the instruction set of the interrupted code. The two modes left out lose registers: an
  interrupt inside interrupt mode overwrites the link register of that mode, and the switch out of fast interrupt
  mode does not save its r8 to r12.\<close>

theorem irq_transparent:
  assumes "cpu_ok s" and "reg s CPU_MODE \<noteq> MODE_IRQ" "reg s CPU_MODE \<noteq> MODE_FIQ"
    and "check_and_raise_interrupts M s = Some (True, u)"
    and "\<forall>r<15. reg v r = reg u r" "reg v CPU_MODE = reg u CPU_MODE" "banks v = banks u" "spsr_regs v = spsr_regs u"
    and "\<not> irq_pending M (mem v)"
  shows "\<exists>t. arm_instruction M 0xE25EF004 v = Some (if reg s REG_CPSR AND 0x20 \<noteq> 0 then Thumb_loop else Next, t)
    \<and> (\<forall>r<18. reg t r = reg s r)"
proof -
  define i where "i = bank_index (reg s CPU_MODE)"
  note i = bank_of_mode [OF assms(1,2), folded i_def]
  define s0 where "s0 = set_reg REG_BUS_VALUE 0xe55ec002 s"
  have s0: "banks s0 = banks s" "spsr_regs s0 = spsr_regs s" "\<And>r. r \<noteq> 19 \<Longrightarrow> reg s0 r = reg s r" "banks_wf s0"
    using assms(1) by (simp_all add: s0_def set_reg_def cpu_ok_def banks_wf_def)
  obtain w where w: "enter_irq s0 = Some w" "u = wake_up w"
    using assms(4) by (auto simp: check_and_raise_interrupts_def s0_def split: if_splits Option.bind_splits)
  have wf: "banks_wf w" using enter_irq_ok [OF w(1) s0(4)] by (simp add: cpu_ok_def)
  have len: "i < length (banks s)" "1 < length (spsr_regs s)" "length (banks s ! i) = 7"
    using s0 i by (simp_all add: banks_wf_def list_all_length)
  have w': "spsr_regs w ! 1 = reg s REG_CPSR" "banks w ! i ! 5 = reg s REG_SP" "banks w ! i ! 6 = reg s REG_LR"
      "reg w REG_LR = reg s REG_PC + 4" "reg w CPU_MODE = MODE_IRQ" "\<forall>r<13. reg w r = reg s r"
    using enter_irq_banks [OF s0(4), of i] w(1) i assms(2,3) s0 len by (auto simp: i_def)
  obtain x where x: "arm_instruction M 0xE25EF004 v = arm_spsr_restore M x" "reg x = (reg v)(REG_PC := reg v REG_LR - 4)"
      "banks x = banks v" "spsr_regs x = spsr_regs v" "mem x = mem v" using subs_pc by blast
  have v: "reg v REG_LR = reg s REG_PC + 4" "reg v CPU_MODE = MODE_IRQ" "\<forall>r<13. reg v r = reg s r"
    using assms(5,6) w(2) w'(4-6) by (simp_all add: wake_up_same)
  have xs: "banks_wf x" "spsr_regs x ! 1 = reg s REG_CPSR" "banks x = banks w"
    using wf w' x(3,4) assms(7,8) w(2) by (simp_all add: wake_up_same banks_wf_def)
  have m: "cpu_modes (reg s REG_CPSR) = reg s CPU_MODE" using assms(1) by (simp add: cpu_ok_def)
  obtain t where "arm_spsr_restore M x = Some (if reg s REG_CPSR AND 0x20 \<noteq> 0 then Thumb_loop else Next, t)"
    and t: "reg t = (reg x)(REG_CPSR := reg s REG_CPSR, REG_SP := banks x ! i ! 5, REG_LR := banks x ! i ! 6, CPU_MODE := reg s CPU_MODE)"
    using restore_mode [of x M "reg s REG_CPSR" "reg s CPU_MODE" i] xs v(2) x(2,5) assms(2,3,9) m i by (auto simp: i_def)
  moreover have "\<forall>r<18. reg t r = reg s r"
  proof (intro allI impI)
    fix r :: nat assume "r < 18"
    then consider "r < 13" | "r = 13" | "r = 14" | "r = 15" | "r = 16" | "r = 17" by linarith
    then show "reg t r = reg s r" using v xs(3) w'(2,3) by cases (simp_all add: t x(2))
  qed
  ultimately show ?thesis using x(1) by auto
qed

text \<open>User code with an interrupt pending, and the handler's acknowledgement.\<close>

definition irq_sample :: gs where
  "irq_sample = iow REG_IME 1 (iow REG_IE 1 (iow REG_IF 1 (at_program 0x10 0)))"

lemma irq_transparent_witness:
  "\<exists>u t. check_and_raise_interrupts (gba_bus 0) irq_sample = Some (True, u) \<and>
     arm_instruction (gba_bus 0) 0xE25EF004 (iow REG_IF 0 u)
       = Some (if reg irq_sample REG_CPSR AND 0x20 \<noteq> 0 then Thumb_loop else Next, t)
     \<and> (\<forall>r<18. reg t r = reg irq_sample r)"
proof -
  have ok: "cpu_ok irq_sample" "reg irq_sample 17 = 0" "reg irq_sample 16 = 0x10"
    by (simp_all add: irq_sample_def cpu_ok_def at_program_def init_cpu_def Let_def banks_wf_def cpu_modes_def iow_def upd_def)
  have "cpu_has_interrupt (gba_bus 0) irq_sample"
    by (simp add: cpu_has_interrupt_def ok irq_pending_gba_def Let_def)
      (simp add: irq_sample_def iow_def upd_def read_ioreg_def write_ioreg_def)
  moreover obtain w where "enter_irq (set_reg 19 0xe55ec002 irq_sample) = Some w"
    using ok enter_irq_banks [of "set_reg 19 0xe55ec002 irq_sample" 0] by (auto simp: set_reg_at bank_index_def cpu_ok_def)
  ultimately have u: "check_and_raise_interrupts (gba_bus 0) irq_sample = Some (True, wake_up w)"
    by (simp add: check_and_raise_interrupts_def)
  have "\<not> irq_pending (gba_bus 0) (mem (iow REG_IF 0 (wake_up w)))"
    by (simp add: irq_pending_gba_def iow_def upd_def read_ioreg_def write_ioreg_def Let_def)
  from irq_transparent [OF ok(1) _ _ u _ _ _ _ this] ok u show ?thesis
    by (auto simp: iow_def upd_def)
qed

end
