(* ===== verification/VideoBlendProps.thy ===== *)
theory VideoBlendProps
  imports VideoBlend
begin

text \<open>
  The colour effects against arithmetic on the three channels of a colour: the products on the
  spread word never run into each other.
\<close>

section \<open>Channels\<close>

definition red :: "u16 \<Rightarrow> nat" where "red p = unat (drop_bit 11 p)"
definition green :: "u16 \<Rightarrow> nat" where "green p = unat (take_bit 6 (drop_bit 5 p))"
definition blue :: "u16 \<Rightarrow> nat" where "blue p = unat (take_bit 5 p)"

definition rgb565 :: "nat \<Rightarrow> nat \<Rightarrow> nat \<Rightarrow> u16" where
  "rgb565 r g b = push_bit 11 (of_nat r) OR push_bit 5 (of_nat g) OR of_nat b"

text \<open>Three numbers of at most 11 bits side by side.\<close>

definition lanes :: "u32 \<Rightarrow> u32 \<Rightarrow> u32 \<Rightarrow> u32" where
  "lanes r g b = b OR push_bit 11 r OR push_bit 21 g"

lemma masks: "BLND_MSK = mask 5 OR push_bit 11 (mask 5) OR push_bit 21 (mask 6)"
  "SATR_MSK = push_bit 11 (mask 5)" "SATG_MSK = push_bit 21 (mask 6)" "SATB_MSK = mask 5"
  by (simp_all add: BLND_MSK_def SATR_MSK_def SATG_MSK_def SATB_MSK_def mask_eq_exp_minus_1)

lemma overflow_tests: "w AND OVFG_MSK \<noteq> 0 \<longleftrightarrow> bit w 27" "w AND OVFR_MSK \<noteq> 0 \<longleftrightarrow> bit w 16" "w AND OVFB_MSK \<noteq> 0 \<longleftrightarrow> bit w 5"
proof -
  have m: "OVFG_MSK = 2 ^ 27" "OVFR_MSK = 2 ^ 16" "OVFB_MSK = 2 ^ 5" by (simp_all add: OVFG_MSK_def OVFR_MSK_def OVFB_MSK_def)
  show "w AND OVFG_MSK \<noteq> 0 \<longleftrightarrow> bit w 27" "w AND OVFR_MSK \<noteq> 0 \<longleftrightarrow> bit w 16" "w AND OVFB_MSK \<noteq> 0 \<longleftrightarrow> bit w 5"
    by (simp_all only: m and_exp_eq_0_iff_not_bit not_not)
qed

lemma spread_lanes: "spread_color p = lanes (of_nat (red p)) (of_nat (green p)) (of_nat (blue p))"
proof -
  have c: "(of_nat (red p) :: u32) = ucast (drop_bit 11 p)" "(of_nat (green p) :: u32) = ucast (take_bit 6 (drop_bit 5 p))"
    "(of_nat (blue p) :: u32) = ucast (take_bit 5 p)"
    by (simp_all add: red_def green_def blue_def)
  show ?thesis
    unfolding spread_color_def lanes_def c masks by (rule bit_word_eqI) (auto simp: bit_simps dest: bit_imp_le_length)
qed

lemma no_high_bit: "unat (w :: u32) < 2 ^ k \<Longrightarrow> bit w n \<Longrightarrow> n < k"
proof -
  assume "unat w < 2 ^ k" "bit w n"
  then have "take_bit k w = w" by (simp add: word_unat_eq_iff unsigned_take_bit_eq take_bit_nat_eq_self)
  with \<open>bit w n\<close> show "n < k" by (metis bit_take_bit_iff)
qed

lemma lanes_add:
  assumes "unat b < 2 ^ 11" "unat r < 2 ^ 10"
  shows "lanes r g b = b + r * 2 ^ 11 + g * 2 ^ 21"
proof -
  have "b OR push_bit 11 r = b + push_bit 11 r"
    by (rule disjunctive_add [symmetric]) (auto simp: bit_simps dest!: no_high_bit [OF assms(1)])
  moreover have "(b OR push_bit 11 r) OR push_bit 21 g = (b OR push_bit 11 r) + push_bit 21 g"
    by (rule disjunctive_add [symmetric]) (auto simp: bit_simps dest!: no_high_bit [OF assms(1)] no_high_bit [OF assms(2)])
  ultimately show ?thesis by (simp add: lanes_def push_bit_eq_mult or.assoc [symmetric])
qed

section \<open>Saturation\<close>

lemma bit_masked:
  "bit (w AND BLND_MSK) n \<longleftrightarrow> bit w n \<and> (n < 5 \<or> 11 \<le> n \<and> n < 16 \<or> 21 \<le> n \<and> n < 27)"
  by (auto simp: masks bit_simps dest: bit_imp_le_length)

lemma bit_saturate:
  "bit (saturate w) n \<longleftrightarrow> bit w n \<or> bit w 5 \<and> n < 5 \<or> bit w 16 \<and> 11 \<le> n \<and> n < 16 \<or> bit w 27 \<and> 21 \<le> n \<and> n < 27"
proof -
  have any: "w AND (OVFR_MSK OR OVFG_MSK OR OVFB_MSK) \<noteq> 0 \<longleftrightarrow> bit w 5 \<or> bit w 16 \<or> bit w 27"
  proof -
    have "w AND (OVFR_MSK OR OVFG_MSK OR OVFB_MSK) = (w AND OVFR_MSK) OR (w AND OVFG_MSK) OR (w AND OVFB_MSK)"
      by (rule bit_word_eqI) (auto simp: bit_simps)
    then show ?thesis using overflow_tests [of w] by (auto simp: or_eq_0_iff)
  qed
  show ?thesis
    unfolding saturate_def Let_def any overflow_tests
    by (auto simp: masks bit_simps dest: bit_imp_le_length)
qed

text \<open>A channel of a product, shifted back: \<open>k\<close> bits, all ones after an overflow.\<close>

definition channel :: "bool \<Rightarrow> nat \<Rightarrow> u32 \<Rightarrow> u32" where
  "channel sat k x = (if sat \<and> bit x (k + 4) then mask k else take_bit k (drop_bit 4 x))"

lemma join_lanes:
  assumes "unat b < 2 ^ 10" "unat r < 2 ^ 10" "unat g < 2 ^ 11"
  shows "join_color ((if sat then saturate (drop_bit 4 (lanes r g b)) else drop_bit 4 (lanes r g b)) AND BLND_MSK)
    = push_bit 11 (ucast (channel sat 5 r)) OR push_bit 5 (ucast (channel sat 6 g)) OR ucast (channel sat 5 b)"
proof (rule bit_word_eqI)
  fix n assume "n < LENGTH(16)"
  then have n: "n < 16" by simp
  let ?p = "(if sat then saturate (drop_bit 4 (lanes r g b)) else drop_bit 4 (lanes r g b)) AND BLND_MSK"
  have l: "bit (lanes r g b) i \<longleftrightarrow> (if i < 11 then bit b i else if i < 21 then bit r (i - 11) else i < 32 \<and> bit g (i - 21))" for i
    using no_high_bit [OF assms(1), of i] no_high_bit [OF assms(2), of "i - 11"]
    by (auto simp: lanes_def bit_simps dest: bit_imp_le_length)
  have j: "bit (join_color ?p) n \<longleftrightarrow> bit ?p n \<or> bit ?p (n + 16)"
    using n by (auto simp: join_color_def bit_simps add.commute)
  consider "n < 5" | "5 \<le> n" "n < 11" | "11 \<le> n" by linarith
  then show "bit (join_color ?p) n = bit (push_bit 11 (ucast (channel sat 5 r)) OR push_bit 5 (ucast (channel sat 6 g)) OR ucast (channel sat 5 b) :: u16) n"
  proof cases
    case 1
    then show ?thesis unfolding j bit_masked
      by (auto simp: bit_saturate bit_simps l channel_def add.commute)
  next
    case 2
    then show ?thesis unfolding j bit_masked
      by (auto simp: bit_saturate bit_simps l channel_def add.commute)
  next
    case 3
    then show ?thesis using n unfolding j bit_masked
      by (auto simp: bit_saturate bit_simps l channel_def add.commute)
  qed
qed

lemma channel_min:
  assumes "unat x < 2 ^ (k + 5)" "\<not> sat \<Longrightarrow> unat x < 2 ^ (k + 4)" "k < 28"
  shows "channel sat k x = of_nat (min (2 ^ k - 1) (unat x div 16))"
proof -
  have b: "bit x (k + 4) \<longleftrightarrow> 2 ^ (k + 4) \<le> unat x"
  proof -
    have "bit x (k + 4) \<longleftrightarrow> odd (unat x div 2 ^ (k + 4))"
      using assms(3) by (simp add: bit_iff_odd [symmetric] bit_unsigned_iff)
    moreover have "unat x div 2 ^ (k + 4) < 2"
      using assms(1) by (intro less_mult_imp_div_less) (simp add: power_add)
    moreover have "unat x div 2 ^ (k + 4) = 0 \<longleftrightarrow> unat x < 2 ^ (k + 4)" by (simp add: div_eq_0_iff)
    ultimately show ?thesis by (auto simp: less_2_cases_iff)
  qed
  show ?thesis
  proof (cases "bit x (k + 4)")
    case True
    then have "2 ^ k \<le> unat x div 16" using b by (simp add: less_eq_div_iff_mult_less_eq power_add)
    then have "min (2 ^ k - 1) (unat x div 16) = 2 ^ k - 1" by simp
    moreover have "sat" using True b assms(2) by auto
    ultimately show ?thesis using True by (simp add: channel_def mask_eq_exp_minus_1 of_nat_diff)
  next
    case False
    then have small: "unat x div 16 < 2 ^ k" using b by (intro less_mult_imp_div_less) (simp add: power_add)
    have "take_bit k (drop_bit 4 x) = of_nat (unat x div 16)"
    proof -
      have u: "unat (drop_bit 4 x) = unat x div 16" by (simp only: unat_drop_bit_eq) (simp add: drop_bit_eq_div)
      have "drop_bit 4 x = of_nat (unat (drop_bit 4 x))" by simp
      then have "drop_bit 4 x = of_nat (unat x div 16)" by (simp only: u)
      then show ?thesis using small by (simp add: take_bit_of_nat take_bit_nat_eq_self)
    qed
    moreover have "min (2 ^ k - 1) (unat x div 16) = unat x div 16" using small by simp
    ultimately show ?thesis using False by (simp add: channel_def)
  qed
qed

lemma channel_less: "red p < 32" "green p < 64" "blue p < 32"
proof -
  show "red p < 32" using unsigned_less [of p, where 'a = nat]
    unfolding red_def by (simp only: unat_drop_bit_eq) (simp add: drop_bit_eq_div)
  show "green p < 64" "blue p < 32"
    using take_bit_nat_less_exp [of 6 "unat (drop_bit 5 p)"] take_bit_nat_less_exp [of 5 "unat p"]
    by (simp_all add: green_def blue_def unsigned_take_bit_eq)
qed

lemma spread_sum: "spread_color p = of_nat (blue p) + of_nat (red p) * 2 ^ 11 + of_nat (green p) * 2 ^ 21"
proof -
  have "unat (of_nat (blue p) :: u32) < 2 ^ 11" "unat (of_nat (red p) :: u32) < 2 ^ 10"
    using channel_less [of p] by (simp_all add: unsigned_of_nat take_bit_nat_eq_self)
  from lanes_add [OF this] show ?thesis by (simp add: spread_lanes)
qed

lemma factor_le: "unat (factor v sh) \<le> 16"
  by (simp add: factor_def min_def word_le_nat_alt)

text \<open>The product of a channel with factors of at most 16 as numbers.\<close>

lemma weighted:
  assumes "x < 64" "y < 64" "unat a \<le> 16" "unat b \<le> 16"
  shows "unat (of_nat x * a + of_nat y * b :: u32) = x * unat a + y * unat b"
proof -
  have "x * unat a \<le> 63 * 16" "y * unat b \<le> 63 * 16" using assms by (intro mult_le_mono; simp)+
  moreover have "of_nat x * a + of_nat y * b = of_nat (x * unat a + y * unat b)" by simp
  ultimately show ?thesis by (simp only: unsigned_of_nat) (simp add: take_bit_nat_eq_self)
qed

lemma channel_u16: "k < 28 \<Longrightarrow> ucast (of_nat (min (2 ^ k - 1) v) :: u32) = (of_nat (min (2 ^ k - 1) v) :: u16)"
proof -
  have "min (2 ^ k - 1) v < 2 ^ 32" if "k < 28"
    using power_strict_increasing [of k 32 "2 :: nat"] that by (simp add: min_def) linarith
  then show "k < 28 \<Longrightarrow> ?thesis"
    by (simp add: word_unat_eq_iff unsigned_ucast_eq unsigned_of_nat take_bit_nat_eq_self)
qed

definition blend_channel :: "nat \<Rightarrow> u32 \<Rightarrow> u32 \<Rightarrow> nat \<Rightarrow> nat \<Rightarrow> nat" where
  "blend_channel top_value a b x y = min top_value ((x * unat a + y * unat b) div 16)"

lemma blend_colors_rgb:
  assumes "unat a \<le> 16" "unat b \<le> 16"
  shows "blend_colors (16 < a + b) a b p q =
    rgb565 (blend_channel 31 a b (red p) (red q)) (blend_channel 63 a b (green p) (green q)) (blend_channel 31 a b (blue p) (blue q))"
proof -
  let ?x = "\<lambda>c. of_nat (c p) * a + of_nat (c q) * b :: u32"
  let ?n = "\<lambda>c. c p * unat a + c q * unat b"
  have u: "unat (?x red) = ?n red" "unat (?x green) = ?n green" "unat (?x blue) = ?n blue"
    using channel_less [of p] channel_less [of q] assms by (intro weighted; simp)+
  have sum: "unat (a + b) = unat a + unat b" using assms by (intro unat_add_lem [THEN iffD1]) simp
  have bound: "?n c \<le> m * (unat a + unat b)" if "c p \<le> m" "c q \<le> m" for c m
    unfolding distrib_left by (intro add_mono mult_le_mono1 that)
  have le: "?n red \<le> 31 * (unat a + unat b)" "?n green \<le> 63 * (unat a + unat b)" "?n blue \<le> 31 * (unat a + unat b)"
    using channel_less [of p] channel_less [of q] by (intro bound; simp)+
  have big: "?n red < 2 ^ 10" "?n green < 2 ^ 11" "?n blue < 2 ^ 10" using le assms by simp_all
  have small: "?n red < 2 ^ 9" "?n green < 2 ^ 10" "?n blue < 2 ^ 9" if "\<not> 16 < a + b"
    using le that sum by (simp_all add: word_less_nat_alt)
  have "spread_color p * a + spread_color q * b = lanes (?x red) (?x green) (?x blue)"
    using lanes_add [of "?x blue" "?x red" "?x green"] u big by (simp add: spread_sum algebra_simps)
  then have "blend_colors (16 < a + b) a b p q =
      push_bit 11 (ucast (channel (16 < a + b) 5 (?x red))) OR push_bit 5 (ucast (channel (16 < a + b) 6 (?x green)))
      OR ucast (channel (16 < a + b) 5 (?x blue))"
    using join_lanes [of "?x blue" "?x red" "?x green"] u big by (simp add: blend_colors_def Let_def)
  moreover have "channel (16 < a + b) 5 (?x red) = of_nat (min (2 ^ 5 - 1) (?n red div 16))"
    "channel (16 < a + b) 6 (?x green) = of_nat (min (2 ^ 6 - 1) (?n green div 16))"
    "channel (16 < a + b) 5 (?x blue) = of_nat (min (2 ^ 5 - 1) (?n blue div 16))"
    using channel_min [of "?x red" 5 "16 < a + b"] channel_min [of "?x green" 6 "16 < a + b"]
      channel_min [of "?x blue" 5 "16 < a + b"] u big small by simp_all
  ultimately show ?thesis
    by (simp only: rgb565_def blend_channel_def) (simp add: channel_u16 [of 5, simplified] channel_u16 [of 6, simplified])
qed

section \<open>Fading\<close>

lemma bit_lanes:
  assumes "unat b < 2 ^ 10" "unat r < 2 ^ 10"
  shows "bit (lanes r g b) i \<longleftrightarrow> (if i < 11 then bit b i else if i < 21 then bit r (i - 11) else i < 32 \<and> bit g (i - 21))"
  using no_high_bit [OF assms(1), of i] no_high_bit [OF assms(2), of "i - 11"]
  by (auto simp: lanes_def bit_simps dest: bit_imp_le_length)

lemma mask_lanes:
  assumes "unat b < 2 ^ 10" "unat r < 2 ^ 10"
  shows "drop_bit 4 (lanes r g b) AND BLND_MSK
    = lanes (take_bit 5 (drop_bit 4 r)) (take_bit 6 (drop_bit 4 g)) (take_bit 5 (drop_bit 4 b))"
proof (rule bit_word_eqI)
  fix n assume "n < LENGTH(32)"
  then consider "n < 5" | "5 \<le> n" "n < 11" | "11 \<le> n" "n < 16" | "16 \<le> n" "n < 21" | "21 \<le> n" "n < 27" | "27 \<le> n" "n < 32"
    by fastforce
  then show "bit (drop_bit 4 (lanes r g b) AND BLND_MSK) n
      = bit (lanes (take_bit 5 (drop_bit 4 r)) (take_bit 6 (drop_bit 4 g)) (take_bit 5 (drop_bit 4 b))) n"
    unfolding bit_masked bit_drop_bit_eq o_def bit_lanes [OF assms]
    by cases (auto simp: lanes_def bit_simps add.commute)
qed

lemma join_small:
  assumes "unat b < 2 ^ 5" "unat r < 2 ^ 5" "unat g < 2 ^ 6"
  shows "join_color (lanes r g b AND BLND_MSK) = push_bit 11 (ucast r) OR push_bit 5 (ucast g) OR ucast b"
proof (rule bit_word_eqI)
  fix n assume "n < LENGTH(16)"
  then have n: "n < 16" by simp
  have l: "bit (lanes r g b) i \<longleftrightarrow> (if i < 11 then bit b i else if i < 21 then bit r (i - 11) else i < 32 \<and> bit g (i - 21))" for i
    using assms by (intro bit_lanes) simp_all
  have j: "bit (join_color (lanes r g b AND BLND_MSK)) n \<longleftrightarrow> bit (lanes r g b AND BLND_MSK) n \<or> bit (lanes r g b AND BLND_MSK) (n + 16)"
    using n by (auto simp: join_color_def bit_simps add.commute)
  show "bit (join_color (lanes r g b AND BLND_MSK)) n = bit (push_bit 11 (ucast r) OR push_bit 5 (ucast g) OR ucast b :: u16) n"
    unfolding j bit_masked l using n
    by (auto simp: bit_simps dest: no_high_bit [OF assms(1)] no_high_bit [OF assms(2)] no_high_bit [OF assms(3)])
qed

definition fade_channel :: "bool \<Rightarrow> nat \<Rightarrow> u32 \<Rightarrow> nat \<Rightarrow> nat" where
  "fade_channel dark top_value f x = (if dark then 0 else top_value * unat f div 16) + x * (16 - unat f) div 16"

lemma small_part:
  assumes "x \<le> 63" "unat f \<le> 16" "x \<le> 2 ^ k - 1" "k < 28"
  shows "take_bit k (drop_bit 4 (of_nat x * f :: u32)) = of_nat (x * unat f div 16)"
proof -
  have u: "unat (of_nat x * f :: u32) = x * unat f" using weighted [of x 0 f 0] assms(1,2) by simp
  have "x * unat f \<le> x * 16" using assms(2) by simp
  moreover have "x < 2 ^ k" using assms(3) by (simp add: Suc_le_eq [symmetric] le_diff_conv2)
  ultimately have lt: "x * unat f div 16 < 2 ^ k" by (intro less_mult_imp_div_less) linarith
  have "unat (drop_bit 4 (of_nat x * f)) = x * unat f div 16" by (simp only: unat_drop_bit_eq u) (simp add: drop_bit_eq_div)
  moreover have "drop_bit 4 (of_nat x * f) = of_nat (unat (drop_bit 4 (of_nat x * f)))" by simp
  ultimately have "drop_bit 4 (of_nat x * f) = of_nat (x * unat f div 16)" by (simp only:)
  then show ?thesis using lt by (simp add: take_bit_of_nat take_bit_nat_eq_self)
qed

lemma scaled_lanes:
  assumes "r < 32" "g < 64" "b < 32" "unat f \<le> 16"
  shows "drop_bit 4 ((of_nat b + of_nat r * 2 ^ 11 + of_nat g * 2 ^ 21) * f) AND BLND_MSK
    = of_nat (b * unat f div 16) + of_nat (r * unat f div 16) * 2 ^ 11 + of_nat (g * unat f div 16) * (2 ^ 21 :: u32)"
proof -
  have u: "unat (of_nat b * f :: u32) = b * unat f" "unat (of_nat r * f :: u32) = r * unat f"
    using weighted [of b 0 f 0] weighted [of r 0 f 0] assms by simp_all
  have le: "b * unat f \<le> 31 * 16" "r * unat f \<le> 31 * 16" "g * unat f \<le> 63 * 16"
    using assms by (intro mult_le_mono; simp)+
  have big: "unat (of_nat b * f :: u32) < 2 ^ 10" "unat (of_nat r * f :: u32) < 2 ^ 10" using u le by simp_all
  have "(of_nat b + of_nat r * 2 ^ 11 + of_nat g * 2 ^ 21) * f = lanes (of_nat r * f) (of_nat g * f) (of_nat b * f)"
    using lanes_add [of "of_nat b * f" "of_nat r * f" "of_nat g * f"] big by (simp add: algebra_simps)
  then have "drop_bit 4 ((of_nat b + of_nat r * 2 ^ 11 + of_nat g * 2 ^ 21) * f) AND BLND_MSK
      = lanes (of_nat (r * unat f div 16)) (of_nat (g * unat f div 16)) (of_nat (b * unat f div 16))"
    using mask_lanes [OF big, of "of_nat g * f"] small_part [of r f 5] small_part [of g f 6] small_part [of b f 5] assms by simp
  also have "\<dots> = of_nat (b * unat f div 16) + of_nat (r * unat f div 16) * 2 ^ 11 + of_nat (g * unat f div 16) * 2 ^ 21"
    using le by (intro lanes_add) (simp_all add: unsigned_of_nat take_bit_nat_eq_self)
  finally show ?thesis .
qed

lemma div_sum_le: "a div 16 + b div 16 \<le> (a + b) div (16 :: nat)"
  by (simp add: div_add1_eq [of a b])

lemma fade_channel_le:
  assumes "x \<le> top_value" "unat f \<le> 16"
  shows "fade_channel dark top_value f x \<le> top_value"
proof -
  have "top_value * unat f div 16 + x * (16 - unat f) div 16 \<le> (top_value * unat f + x * (16 - unat f)) div 16"
    by (rule div_sum_le)
  also have "\<dots> \<le> (top_value * unat f + top_value * (16 - unat f)) div 16"
    using assms(1) by (intro div_le_mono add_left_mono mult_le_mono1)
  also have "top_value * unat f + top_value * (16 - unat f) = top_value * 16"
    using assms(2) by (simp add: distrib_left [symmetric])
  finally show ?thesis by (simp add: fade_channel_def)
qed

lemma fade_color_rgb:
  assumes "unat f \<le> 16"
  shows "fade_color dark f p =
    rgb565 (fade_channel dark 31 f (red p)) (fade_channel dark 63 f (green p)) (fade_channel dark 31 f (blue p))"
proof -
  let ?g = "16 - f"
  have g: "unat ?g = 16 - unat f" using assms by (simp add: unat_sub_if')
  let ?c = "fade_channel dark"
  have le: "?c 31 f (red p) \<le> 31" "?c 63 f (green p) \<le> 63" "?c 31 f (blue p) \<le> 31"
    using channel_less [of p] assms by (intro fade_channel_le; simp)+
  have pb: "drop_bit 4 (spread_color p * ?g) AND BLND_MSK
      = of_nat (blue p * (16 - unat f) div 16) + of_nat (red p * (16 - unat f) div 16) * 2 ^ 11
        + of_nat (green p * (16 - unat f) div 16) * 2 ^ 21"
    using scaled_lanes [of "red p" "green p" "blue p" ?g] channel_less [of p] g by (simp add: spread_sum)
  have white: "BLND_MSK = of_nat 31 + of_nat 31 * 2 ^ 11 + of_nat 63 * 2 ^ 21"
    by (simp add: BLND_MSK_def SATR_MSK_def SATG_MSK_def SATB_MSK_def)
  have pa: "drop_bit 4 (BLND_MSK * f) AND BLND_MSK
      = of_nat (31 * unat f div 16) + of_nat (31 * unat f div 16) * 2 ^ 11 + of_nat (63 * unat f div 16) * 2 ^ 21"
    using scaled_lanes [of 31 63 31 f] assms by (simp only: white [symmetric])
  have "(if dark then 0 else drop_bit 4 (BLND_MSK * f) AND BLND_MSK) + (drop_bit 4 (spread_color p * ?g) AND BLND_MSK)
      = of_nat (?c 31 f (blue p)) + of_nat (?c 31 f (red p)) * 2 ^ 11 + of_nat (?c 63 f (green p)) * 2 ^ 21"
    unfolding pa pb by (simp add: fade_channel_def algebra_simps)
  also have "\<dots> = lanes (of_nat (?c 31 f (red p))) (of_nat (?c 63 f (green p))) (of_nat (?c 31 f (blue p)))"
    using le by (intro lanes_add [symmetric]) (simp_all add: unsigned_of_nat take_bit_nat_eq_self)
  finally show ?thesis
    using le join_small [of "of_nat (?c 31 f (blue p))" "of_nat (?c 31 f (red p))" "of_nat (?c 63 f (green p))"]
    by (simp add: fade_color_def Let_def rgb565_def unsigned_of_nat take_bit_nat_eq_self)
qed

section \<open>Property\<close>

text \<open>C36: blending and fading are exact on each channel. A blended channel is the sum of the two
  weighted channels, in sixteenths rounded down, limited to the largest value of the channel; a
  channel faded to white or black is the sum of the rounded parts. The factors are those of the
  registers, limited to 16, so no product of one channel changes another.\<close>

theorem color_effects_per_channel:
  "blend_colors (16 < factor v 0 + factor v 8) (factor v 0) (factor v 8) p q =
     rgb565 (min 31 ((red p * unat (factor v 0) + red q * unat (factor v 8)) div 16))
            (min 63 ((green p * unat (factor v 0) + green q * unat (factor v 8)) div 16))
            (min 31 ((blue p * unat (factor v 0) + blue q * unat (factor v 8)) div 16))
   \<and> fade_color dark (factor w 0) p =
     rgb565 (fade_channel dark 31 (factor w 0) (red p)) (fade_channel dark 63 (factor w 0) (green p))
            (fade_channel dark 31 (factor w 0) (blue p))"
  using blend_colors_rgb [OF factor_le factor_le, of v 0 v 8 p q] fade_color_rgb [OF factor_le, of dark w 0 p]
  by (simp add: blend_channel_def)

end
