(* ===== verification/VideoBitmapProps.thy ===== *)
theory VideoBitmapProps
  imports GbaProps
begin

text \<open>
  The blitter for bitmaps that are not scaled against the general walk: where the bitmap meets
  the interval both draw the same; where it begins right of it the blitter writes past the
  interval.
\<close>

section \<open>Loops\<close>

lemma foldo_value:
  "map_option snd (foldo (\<lambda>i (l, b). do { b \<leftarrow> h i b; Some (w i l, b) }) xs (l, b)) = foldo h xs b"
proof (induction xs arbitrary: l b)
  case (Cons x xs)
  then show ?case by (cases "h x b") simp_all
qed simp

lemma foldo_set_blit:
  "k \<noteq> 0 \<Longrightarrow> foldo (\<lambda>i b. arr_set b (d + i) (g i)) [0..<k] buf =
     (if d + k \<le> length buf then Some (take d buf @ map g [0..<k] @ drop (d + k) buf) else None)"
proof (induction k)
  case (Suc k)
  show ?case
  proof (cases "k = 0")
    case True
    then show ?thesis by (auto simp: arr_set_def upd_conv_take_nth_drop)
  next
    case False
    have "(take d buf @ map g [0..<k] @ drop (d + k) buf)[d + k := v] = take d buf @ map g [0..<k] @ v # drop (Suc (d + k)) buf"
      if "d + k < length buf" for v
      using that by (simp add: list_update_append min_def) (simp add: list_update_append Cons_nth_drop_Suc [symmetric])
    then show ?thesis using Suc False by (auto simp: arr_set_def)
  qed
qed simp

section \<open>Positions\<close>

lemma signed_of_int: "- (2 ^ 31) \<le> z \<Longrightarrow> z < 2 ^ 31 \<Longrightarrow> sint (word_of_int z :: u32) = z"
  by (simp add: signed_of_int signed_take_bit_int_eq_self)

lemma drop_position:
  assumes "- (2 ^ 31) \<le> z" "z < 2 ^ 31"
  shows "signed_drop_bit 8 (word_of_int z :: u32) = word_of_int (z div 256)"
proof -
  have "sint (signed_drop_bit 8 (word_of_int z :: u32)) = z div 256"
    using assms by (simp add: sint_signed_drop_bit_eq signed_of_int drop_bit_eq_div)
  moreover have "word_of_int (sint w) = w" for w :: u32 by simp
  ultimately show ?thesis by metis
qed

lemma pix_of_int:
  assumes "0 \<le> z" "z < 2 ^ 31"
  shows "pix_of (word_of_int z) = nat (z div 256)"
  using assms by (simp add: pix_of_def drop_position unsigned_of_int take_bit_int_eq_self)

lemma pix_of_negative:
  assumes "- (2 ^ 31) \<le> z" "z < 0"
  shows "2 ^ 31 \<le> pix_of (word_of_int z)"
proof -
  have "- (2 ^ 23) \<le> z div 256" "z div 256 < 0" using assms by simp_all
  moreover from this have "(z div 256 + 2 ^ 32) mod 2 ^ 32 = z div 256 + 2 ^ 32" by (intro mod_pos_pos_trivial) simp_all
  ultimately have "take_bit 32 (z div 256) = z div 256 + 2 ^ 32" by (simp add: take_bit_eq_mod)
  then show ?thesis using assms \<open>- (2 ^ 23) \<le> z div 256\<close> by (simp add: pix_of_def drop_position unsigned_of_int)
qed

section \<open>The walk of an unscaled bitmap\<close>

lemma foldo_shift: "foldo f (map Suc xs) st = foldo (\<lambda>i. f (Suc i)) xs st"
  by (induction xs arbitrary: st) auto

lemma upt_Suc_shift: "[0..<Suc m] = 0 # map Suc [0..<m]"
  by (simp add: upt_conv_Cons map_Suc_upt)

lemma within_int:
  assumes "- (2 ^ 31) \<le> z" "z < 2 ^ 31" "pix_of y < h" "w \<le> 240"
  shows "within w h (word_of_int z, y) \<longleftrightarrow> 0 \<le> z \<and> z div 256 < int w"
proof (cases "0 \<le> z")
  case True
  then show ?thesis using assms by (simp add: within_def pix_of_int nat_less_iff)
next
  case False
  then have "2 ^ 31 \<le> pix_of (word_of_int z)" using assms(1) by (intro pix_of_negative) simp_all
  then show ?thesis using False assms(4) by (simp add: within_def)
qed

lemma step_int: "walk False 256 0 (word_of_int z, y) = (word_of_int (z + 256), y)"
  by (simp add: walk_def)

text \<open>The pixels left of the bitmap are skipped; the bitmap begins at the first position that is not negative.\<close>

lemma skip_unscaled:
  assumes "- (2 ^ 31) \<le> z" "z + 256 * int cnt < 2 ^ 31" "pix_of y < h" "0 < w" "w \<le> 240" "z < 256 * int w"
  shows "walk_skip (within w h) (walk False 256 0) (\<lambda>_. Some) cnt d (word_of_int z, y) buf =
    (let k = min cnt (nat ((255 - z) div 256)) in Some (cnt - k, d + k, (word_of_int (z + 256 * int k), y), buf))"
  using assms(1,2,6)
proof (induction cnt arbitrary: d z)
  case (Suc cnt)
  have w: "within w h (word_of_int z, y) \<longleftrightarrow> 0 \<le> z \<and> z div 256 < int w"
    using Suc.prems assms by (intro within_int) auto
  show ?case
  proof (cases "0 \<le> z")
    case True
    then have "nat ((255 - z) div 256) = 0" "z div 256 < int w" using Suc.prems(3) by auto
    then show ?thesis using w True by (simp add: Let_def)
  next
    case False
    then have "walk_skip (within w h) (walk False 256 0) (\<lambda>_. Some) (Suc cnt) d (word_of_int z, y) buf
        = walk_skip (within w h) (walk False 256 0) (\<lambda>_. Some) cnt (d + 1) (word_of_int (z + 256), y) buf"
      using w by (simp add: step_int)
    also have "\<dots> = (let k = min cnt (nat ((255 - (z + 256)) div 256)) in
        Some (cnt - k, d + 1 + k, (word_of_int (z + 256 + 256 * int k), y), buf))"
      using Suc.prems False assms(4) by (intro Suc.IH) auto
    moreover have "nat ((255 - z) div 256) = Suc (nat ((255 - (z + 256)) div 256))" using False by linarith
    ultimately show ?thesis by (simp add: Let_def algebra_simps)
  qed
qed (use assms in \<open>auto simp: Let_def\<close>)

text \<open>Then they are drawn one by one up to the end of the bitmap or of the interval.\<close>

lemma draw_unscaled:
  assumes "0 \<le> z" "z + 256 * int cnt < 2 ^ 31" "pix_of y < h" "w \<le> 240"
  shows "map_option (\<lambda>x. snd (snd x)) (walk_draw (within w h) (walk False 256 0) mosaic mosh look put cnt d (word_of_int z, y) l buf) =
    map_option snd (foldo (\<lambda>i (l, b). do {
        l \<leftarrow> latch mosaic mosh (look (word_of_int (z + 256 * int i), y)) l;
        b \<leftarrow> put (fst l) (d + i) b;
        Some (latch_next mosaic l, b) }) [0..<min cnt (w - nat (z div 256))] (l, buf))"
  using assms(1,2)
proof (induction cnt arbitrary: d z l buf)
  case (Suc cnt)
  have w: "within w h (word_of_int z, y) \<longleftrightarrow> z div 256 < int w"
    using Suc.prems assms by (subst within_int) auto
  show ?case
  proof (cases "z div 256 < int w")
    case False
    then have "w - nat (z div 256) = 0" by simp
    then show ?thesis using w False by simp
  next
    case True
    let ?m = "min cnt (w - nat ((z + 256) div 256))"
    have n: "min (Suc cnt) (w - nat (z div 256)) = Suc ?m" using True Suc.prems(1) by linarith
    let ?step = "\<lambda>l b. do {
        l \<leftarrow> latch mosaic mosh (look (word_of_int z, y)) l;
        b \<leftarrow> put (fst l) d b;
        Some (latch_next mosaic l, b) }"
    show ?thesis
    proof (cases "?step l buf")
      case None
      then show ?thesis using w True
        by (auto simp: n upt_Suc_shift simp del: upt_Suc split: Option.bind_splits)
    next
      case (Some a)
      obtain l' b where a: "a = (l', b)" by (cases a)
      have IH: "map_option (\<lambda>x. snd (snd x)) (walk_draw (within w h) (walk False 256 0) mosaic mosh look put cnt (d + 1)
            (word_of_int (z + 256), y) l' b) =
          map_option snd (foldo (\<lambda>i (l, b). do {
            l \<leftarrow> latch mosaic mosh (look (word_of_int (z + 256 + 256 * int i), y)) l;
            b \<leftarrow> put (fst l) (d + 1 + i) b;
            Some (latch_next mosaic l, b) }) [0..<?m] (l', b))"
        using Suc.prems by (intro Suc.IH) auto
      then show ?thesis using w True Some a
        by (auto simp: n upt_Suc_shift foldo_shift step_int algebra_simps simp del: upt_Suc split: Option.bind_splits)
    qed
  qed
qed simp

section \<open>The blitter\<close>

lemma negative_of_int: "- (2 ^ 31) \<le> z \<Longrightarrow> z < 2 ^ 31 \<Longrightarrow> (word_of_int z :: u32) <s 0 \<longleftrightarrow> z < 0"
  by (simp add: word_sless_alt signed_of_int)

lemma small_word: "0 \<le> z \<Longrightarrow> z < 2 ^ 32 \<Longrightarrow> unat (word_of_int z :: u32) = nat z"
  by (simp add: unsigned_of_int take_bit_int_eq_self)

text \<open>Where the blitter starts, and how many pixels it writes.\<close>

lemma blit_unfold:
  assumes "- (2 ^ 30) \<le> z" "z < 2 ^ 30"
  shows "blit_bitmap rd mode wide width mosaic mosh s src start stop at (word_of_int z, y) pal buf =
    (let k = (if z < 0 then (255 - z) div 256 else 0); x = (if z < 0 then 0 else z div 256) in
     map_option snd (foldo (\<lambda>i (l, buf). do {
       l \<leftarrow> latch mosaic mosh (bitmap_value wide (g_vram (mem s)) src (nat x + pix_of y * width + i)) l;
       buf \<leftarrow> bitmap_pixel_write rd mode pal (color_flags s 2) (fst l) (at + unat (start + word_of_int k) + i) buf;
       Some (latch_next mosaic l, buf) })
       [0..<unat (min (stop - (start + word_of_int k)) (of_nat width - word_of_int x))] ((0, 0), buf)))"
proof (cases "z < 0")
  case True
  have "signed_drop_bit 8 (255 - word_of_int z :: u32) = word_of_int ((255 - z) div 256)"
    using assms True drop_position [of "255 - z"] by simp
  then show ?thesis
    using True assms negative_of_int [of z] by (simp add: blit_bitmap_def Let_def)
next
  case False
  have "unat (word_of_int (z div 256) :: u32) = nat (z div 256)" using assms False by (intro small_word) auto
  then show ?thesis
    using False assms negative_of_int [of z] drop_position [of z] by (simp add: blit_bitmap_def Let_def)
qed

text \<open>The unsigned counts of the blitter do not wrap when the bitmap meets the interval.\<close>

lemma blit_range:
  assumes "0 \<le> k" "k \<le> int (stop - start)" "start \<le> stop" "stop \<le> 240" "0 \<le> v" "v < 256 * int width" "width \<le> 240"
  shows "unat (of_nat start + word_of_int k :: u32) = start + nat k"
    "unat (min (of_nat stop - (of_nat start + word_of_int k)) (of_nat width - word_of_int (v div 256)) :: u32)
      = min (stop - start - nat k) (width - nat (v div 256))"
proof -
  show "unat (of_nat start + word_of_int k :: u32) = start + nat k"
    using small_word [of "int start + k"] assms by (simp add: nat_add_distrib)
  have "unat (of_nat stop - (of_nat start + word_of_int k) :: u32) = stop - start - nat k"
    using small_word [of "int stop - (int start + k)"] assms by (simp add: nat_diff_distrib nat_add_distrib)
  moreover have "unat (of_nat width - word_of_int (v div 256) :: u32) = width - nat (v div 256)"
    using small_word [of "int width - v div 256"] assms(5-7) by (simp add: nat_diff_distrib)
  ultimately show "unat (min (of_nat stop - (of_nat start + word_of_int k)) (of_nat width - word_of_int (v div 256)) :: u32)
      = min (stop - start - nat k) (width - nat (v div 256))"
    by (simp add: min_def word_le_nat_alt)
qed

text \<open>Reading a row from its first pixel on is looking the pixels up one by one.\<close>

lemma row_as_walk:
  assumes "0 \<le> v" "v < 2 ^ 30" "cnt \<le> 240" "pix_of y < height" "width \<le> 240"
  shows "map_option snd (foldo (\<lambda>i (l, b). do {
        l \<leftarrow> latch mosaic mosh (bitmap_value wide vm src (nat (v div 256) + pix_of y * width + i)) l;
        b \<leftarrow> put (fst l) (d + i) b;
        Some (latch_next mosaic l, b) }) [0..<min cnt (width - nat (v div 256))] (l, buf)) =
    map_option (\<lambda>x. snd (snd x)) (walk_draw (within width height) (walk False 256 0) mosaic mosh
      (\<lambda>p. bitmap_value wide vm src (pix_of (fst p) + pix_of (snd p) * width)) put cnt d (word_of_int v, y) l buf)"
proof -
  have v2: "v + 256 * int cnt < 2 ^ 31" using assms(2,3) by simp
  have look: "nat (v div 256) + pix_of y * width + i = pix_of (word_of_int (v + 256 * int i)) + pix_of y * width"
    if "i \<in> set [0..<min cnt (width - nat (v div 256))]" for i
    using that assms(1-3) by (subst pix_of_int) (auto simp: nat_add_distrib)
  show ?thesis
    by (subst draw_unscaled [OF assms(1) v2 assms(4,5)])
      (auto intro!: arg_cong [where f = "map_option snd"] foldo_cong simp: look)
qed

text \<open>C38: where an unscaled bitmap meets the interval to draw, or begins at its end, the blitter draws
  exactly what the general renderer draws, with and without mosaic, in every mode and target.\<close>

theorem blitter_matches_walk:
  assumes "ior s REG_BG2PA = 256" "ior s REG_BG2PC = 0" "start \<le> stop" "stop \<le> 240" "0 < width" "width \<le> 240"
    "pix_of (snd source) < height"
    "- 256 * int (stop - start) \<le> sint (fst source)" "sint (fst source) < 256 * int width"
  shows "blit_bitmap rd mode wide width mosaic mosh s src (of_nat start) (of_nat stop) at source pal buf =
    walk_bitmap rd mode wide width height False mosaic mosh s src start stop at source pal buf"
proof -
  define z where "z = sint (fst source)"
  obtain y where src: "source = (word_of_int z, y)" by (cases source) (simp add: z_def)
  have z: "- 256 * int (stop - start) \<le> z" "z < 256 * int width" using assms(8,9) by (simp_all add: z_def)
  have small: "- (2 ^ 30) \<le> z" "z < 2 ^ 30" "- (2 ^ 31) \<le> z" "z + 256 * int (stop - start) < 2 ^ 31"
    using z assms(4,6) by simp_all
  define k where "k = (if z < 0 then (255 - z) div 256 else 0)"
  have k: "0 \<le> k" "k \<le> int (stop - start)" "nat ((255 - z) div 256) = nat k"
    using z by (auto simp: k_def)
  define v where "v = z + 256 * k"
  have v: "0 \<le> v" "v div 256 = (if z < 0 then 0 else z div 256)" "v < 256 * int width" "v < 2 ^ 30"
    using z assms(5,6) by (auto simp: v_def k_def)
  have y: "pix_of y < height" and cnt: "stop - start - nat k \<le> 240" using assms(4,7) src by simp_all
  note range = blit_range [OF k(1,2) assms(3,4) v(1,3) assms(6)]
  have "blit_bitmap rd mode wide width mosaic mosh s src (of_nat start) (of_nat stop) at source pal buf =
    map_option (\<lambda>x. snd (snd x)) (walk_draw (within width height) (walk False 256 0) mosaic mosh
      (\<lambda>p. bitmap_value wide (g_vram (mem s)) src (pix_of (fst p) + pix_of (snd p) * width))
      (\<lambda>v. bitmap_pixel_write rd mode pal (color_flags s 2) v)
      (stop - start - nat k) (at + (start + nat k)) (word_of_int v, y) (0, 0) buf)"
    unfolding src blit_unfold [OF small(1,2)] Let_def k_def [symmetric] v(2) [symmetric] range
    by (rule row_as_walk [OF v(1,4) cnt y assms(6)])
  moreover have "walk_skip (within width height) (walk False 256 0) (\<lambda>_. Some) (stop - start) (at + start) source buf
      = Some (stop - start - nat k, at + (start + nat k), (word_of_int v, y), buf)"
    using skip_unscaled [OF small(3,4), of y height width "at + start" buf] assms(5-7) z(2) k src by (simp add: Let_def v_def)
  moreover have "signed16 256 = 256" "signed16 0 = 0" by (simp_all add: signed16_def)
  ultimately show ?thesis
    by (auto simp: walk_bitmap_def Let_def assms(1,2) map_option_case split: option.splits Option.bind_splits)
qed

text \<open>A machine with an unscaled bitmap, whose first pixel is at \<open>- x\<close>.\<close>

definition bitmap_machine :: "int \<Rightarrow> gs" where
  "bitmap_machine x = iow REG_BG2PA 256 (upd (\<lambda>m. m\<lparr>g_affine_x := (word_of_int x, 0)\<rparr>) (at_program 0x10 0))"

lemma bitmap_machine_simps [simp]:
  "ior (bitmap_machine x) REG_BG2PA = 256" "ior (bitmap_machine x) REG_BG2PC = 0"
  "affine_reference (bitmap_machine x) 2 = (word_of_int x, 0)"
  by (simp_all add: bitmap_machine_def iow_def upd_def ior_def ioregs_of_def read_ioreg_def write_ioreg_def at_program_def
      init_cpu_def Let_def reset_ioregs_def affine_reference_def bare_machine_def)

lemma blitter_matches_walk_witness:
  "blit_bitmap FULLCOLOR 3 True 240 False 1 (bitmap_machine (- 512)) 0 (of_nat 0) (of_nat 4) 0 (word_of_int (- 512), 0) (\<lambda>_. None) (replicate 4 0) =
    walk_bitmap FULLCOLOR 3 True 240 160 False False 1 (bitmap_machine (- 512)) 0 0 4 0 (word_of_int (- 512), 0) (\<lambda>_. None)
      (replicate 4 (0 :: 16 word))"
  by (rule blitter_matches_walk) (simp_all add: pix_of_def signed_of_int)

section \<open>The overrun\<close>

lemma bitmap_value_wide:
  assumes "i < 38400"
  shows "bitmap_value True vm 0 i = Some (the (vhalf vm (2 * int i)))"
  using assms by (simp add: bitmap_value_def vhalf_def vget_def w_bytes_def)

text \<open>C39: a bitmap that begins right of the line makes the blitter write a whole line of 240 pixels there, past
  the line: the count of pixels is a C unsigned difference that has wrapped. Where the buffer
  ends before that, as the buffer of one line on the stack and the frame buffer on its last
  lines do, it writes past the buffer.\<close>

theorem blitter_overrun:
  assumes "fst (affine_reference s 2) = word_of_int (- 256 * int k)" "240 < k" "k < 2 ^ 20"
    "pix_of (snd (affine_reference s 2)) < 160"
  shows "render_scanline_bitmap FULLCOLOR 3 True 240 160 BLIT False s 0 240 at pal buf =
    (if at + k + 240 \<le> length buf
     then Some (take (at + k) buf
       @ map (\<lambda>i. ucast (convert_palette (the (vhalf (g_vram (mem s)) (2 * int (pix_of (snd (affine_reference s 2)) * 240 + i)))))) [0..<240]
       @ drop (at + k + 240) buf)
     else None)"
proof -
  let ?y = "snd (affine_reference s 2)"
  let ?z = "- 256 * int k"
  let ?px = "\<lambda>i. the (vhalf (g_vram (mem s)) (2 * int (pix_of ?y * 240 + i)))"
  have z: "?z < 0" "(255 - ?z) div 256 = int k" "- (2 ^ 30) \<le> ?z" "?z < 2 ^ 30" using assms(2,3) by simp_all
  have start: "unat (0 + word_of_int (int k) :: u32) = k" using small_word [of "int k"] assms(3) by simp
  have w: "word_of_int (2 ^ 32 + (240 - int k)) = (of_nat 240 - (0 + word_of_int (int k)) :: u32)" by simp
  have "unat (of_nat 240 - (0 + word_of_int (int k)) :: u32) = nat (2 ^ 32 + (240 - int k))"
    by (subst w [symmetric], rule small_word) (use assms(2,3) in simp_all)
  then have cnt: "unat (min (of_nat 240 - (0 + word_of_int (int k))) (of_nat 240 - word_of_int 0) :: u32) = 240"
    using assms(3) by (simp add: min_def word_le_nat_alt)
  have pixel: "bitmap_value True (g_vram (mem s)) 0 (pix_of ?y * 240 + i) = Some (?px i)" if "i < 240" for i
    using bitmap_value_wide [of "pix_of ?y * 240 + i"] that assms(4) by simp
  have "render_scanline_bitmap FULLCOLOR 3 True 240 160 BLIT False s 0 240 at pal buf
      = blit_bitmap FULLCOLOR 3 True 240 False 1 s 0 0 (of_nat 240) at (word_of_int ?z, ?y) pal buf"
    using assms(1,4) by (simp add: render_scanline_bitmap_def mosaic_h_def Let_def)
  also have "\<dots> = map_option snd (foldo (\<lambda>i (l, buf). do {
       l \<leftarrow> latch False 1 (bitmap_value True (g_vram (mem s)) 0 (nat 0 + pix_of ?y * 240 + i)) l;
       buf \<leftarrow> bitmap_pixel_write FULLCOLOR 3 pal (color_flags s 2) (fst l) (at + k + i) buf;
       Some (latch_next False l, buf) }) [0..<240] ((0, 0), buf))"
    unfolding blit_unfold [OF z(3,4)] Let_def z(2) if_P [OF z(1)] start cnt ..
  also have "\<dots> = map_option snd (foldo (\<lambda>i (l, buf). do {
       buf \<leftarrow> arr_set buf (at + k + i) (ucast (convert_palette (?px i)));
       Some ((?px i, 1 :: nat), buf) }) [0..<240] ((0, 0), buf))"
    by (intro arg_cong [where f = "map_option snd"] foldo_cong refl)
       (auto simp: latch_def latch_next_def pixel bitmap_pixel_write_def)
  also have "\<dots> = foldo (\<lambda>i buf. arr_set buf (at + k + i) (ucast (convert_palette (?px i)))) [0..<240] buf"
    by (rule foldo_value)
  also have "\<dots> = (if at + k + 240 \<le> length buf
     then Some (take (at + k) buf @ map (\<lambda>i. ucast (convert_palette (?px i))) [0..<240] @ drop (at + k + 240) buf) else None)"
    by (rule foldo_set_blit) simp
  finally show ?thesis .
qed

lemma blitter_overrun_witness:
  "render_scanline_bitmap FULLCOLOR 3 True 240 160 BLIT False (bitmap_machine (- 256 * int 241)) 0 240 0 (\<lambda>_. None)
     (replicate 240 (0 :: 16 word)) = None"
  by (subst blitter_overrun [where k = 241]) (simp_all add: pix_of_def)

end
