(* ===== verification/ArmAluProps.thy ===== *)
theory ArmAluProps
  imports ArmAlu
begin

text \<open>
  The shifter and the flags against the architecture: shifts as arithmetic on integers, carry
  and overflow as results that leave the unsigned and the signed range.
\<close>

section \<open>Reference\<close>

datatype shift_kind = LSL | LSR | ASR | ROR | RRX

text \<open>Value and carry of a shift by \<open>n\<close>, as the architecture defines them.\<close>

definition ref_shift :: "shift_kind \<Rightarrow> nat \<Rightarrow> u32 \<Rightarrow> bool \<Rightarrow> u32 \<times> bool" where
  "ref_shift k n v c =
     (case k of
        LSL \<Rightarrow> if n = 0 then (v, c) else (of_int (uint v * 2 ^ n), odd (uint v * 2 ^ n div 2 ^ 32))
      | LSR \<Rightarrow> if n = 0 then (v, c) else (of_int (uint v div 2 ^ n), odd (uint v div 2 ^ (n - 1)))
      | ASR \<Rightarrow> if n = 0 then (v, c) else (of_int (sint v div 2 ^ n), odd (sint v div 2 ^ (n - 1)))
      | ROR \<Rightarrow> if n = 0 then (v, c) else (word_rotr n v, bit (word_rotr n v) 31)
      | RRX \<Rightarrow> (of_int ((uint v + (if c then 2 ^ 32 else 0)) div 2), odd (uint v)))"

text \<open>Which shift an opcode asks for: an immediate amount of zero has a special meaning.\<close>

definition ref_operand :: "u32 \<Rightarrow> (nat \<Rightarrow> u32) \<Rightarrow> shift_kind \<times> nat \<times> u32" where
  "ref_operand opcode r =
     (let k = field opcode 5 0x3; imm = field opcode 7 0x1F; v = r (op_rm opcode) in
      if bit opcode 4
      then ([LSL, LSR, ASR, ROR] ! k, unat (r (op_rs opcode) AND 0xFF), v + (if op_rm opcode = 15 then 4 else 0))
      else if k = 0 then (LSL, imm, v)
      else if k = 1 then (LSR, if imm = 0 then 32 else imm, v)
      else if k = 2 then (ASR, if imm = 0 then 32 else imm, v)
      else if imm = 0 then (RRX, 1, v)
      else (ROR, imm, v))"

section \<open>Shifts\<close>

lemma lsl_value: "(of_int (uint v * 2 ^ n) :: u32) = push_bit n v"
  by (simp add: push_bit_eq_mult)

lemma lsl_carry: "odd (uint (v :: u32) * 2 ^ n div 2 ^ 32) \<longleftrightarrow> n \<le> 32 \<and> bit v (32 - n)"
proof -
  have "odd (uint v * 2 ^ n div 2 ^ 32) \<longleftrightarrow> bit (push_bit n (uint v)) 32"
    by (simp only: bit_iff_odd push_bit_eq_mult)
  then show ?thesis by (simp add: bit_simps)
qed

lemma lsr_value: "(of_int (uint v div 2 ^ n) :: u32) = drop_bit n v"
  unfolding drop_bit_eq_div [symmetric] by (rule bit_word_eqI) (simp add: bit_simps bit_word_of_int_iff)

lemma lsr_carry: "odd (uint (v :: u32) div 2 ^ n) \<longleftrightarrow> bit v n"
  by (simp add: bit_simps flip: bit_iff_odd)

lemma asr_value: "(of_int (sint v div 2 ^ n) :: u32) = asr v n"
  unfolding asr_def
  by (simp flip: drop_bit_eq_div sint_signed_drop_bit_eq)

lemma asr_carry: "odd (sint (v :: u32) div 2 ^ n) \<longleftrightarrow> bit v (min n 31)"
  by (auto simp: bit_simps min_def simp flip: bit_iff_odd)

lemma rrx_value: "(of_int ((uint v + (if c then 2 ^ 32 else 0)) div 2) :: u32) = rrx v c"
proof -
  have "uint v AND push_bit 32 (of_bool c) = 0"
    by (rule bit_eqI) (auto simp: bit_simps dest: bit_imp_le_length)
  from disjunctive_add_eq_or [OF this]
  have e: "uint v + (if c then 2 ^ 32 else 0) = uint v OR push_bit 32 (of_bool c)"
    by (cases c) (simp_all add: push_bit_eq_mult)
  have "(of_int (drop_bit 1 (uint v OR push_bit 32 (of_bool c))) :: u32) = rrx v c"
    by (rule bit_word_eqI) (auto simp: rrx_def bit_simps bit_word_of_int_iff)
  then show ?thesis by (simp only: e drop_bit_eq_div) simp
qed

lemma mod_32: "k < 32 \<Longrightarrow> n \<le> 32 \<Longrightarrow> (k + n) mod 32 = (if k + n < 32 then k + n else k + n - 32)" for k n :: nat
  by (auto simp: not_less le_mod_geq)

lemma ror_rotr:
  assumes "n \<le> 32"
  shows "ror v n = Some (word_rotr n v)"
proof -
  have "bit (drop_bit n v OR push_bit (32 - n) v) i = bit (word_rotr n v) i" if i: "i < 32" for i
  proof (cases "i + n < 32")
    case True
    then have "\<not> 32 - n \<le> i" by arith
    with i assms True show ?thesis by (simp add: bit_or_iff bit_drop_bit_eq bit_push_bit_iff bit_word_rotr_iff mod_32 add.commute)
  next
    case False
    then have "\<not> bit v (n + i)" by (auto dest: bit_imp_le_length)
    moreover have "i - (32 - n) = i + n - 32" "32 - n \<le> i" using False assms by arith+
    ultimately show ?thesis using i assms False
      by (simp add: bit_or_iff bit_drop_bit_eq bit_push_bit_iff bit_word_rotr_iff mod_32)
  qed
  then have "drop_bit n v OR push_bit (32 - n) v = word_rotr n v" by (intro bit_word_eqI) simp
  with assms show ?thesis by (simp add: ror_def)
qed

lemma rotr_carry: "0 < n \<Longrightarrow> n \<le> 32 \<Longrightarrow> bit (word_rotr n (v :: u32)) 31 \<longleftrightarrow> bit v (n - 1)"
  using mod_32 [of 31 n] by (auto simp: bit_word_rotr_iff)


section \<open>The shifter\<close>

lemma field_mask: "field opcode sh (mask n) = take_bit n (drop_bit sh (unat opcode))"
proof -
  have "unat opcode < 2 ^ LENGTH(32)" by (rule unsigned_less)
  then have "take_bit 32 (unat opcode) = unat opcode" by (simp add: take_bit_nat_eq_self_iff)
  then show ?thesis
    unfolding field_def take_bit_eq_mask [symmetric] by (simp add: unsigned_take_bit_eq unsigned_drop_bit_eq)
qed

lemma field_masks: "(0x7 :: u32) = mask 3" "(0x3 :: u32) = mask 2" "(0xF :: u32) = mask 4" "(0x1F :: u32) = mask 5"
  by (simp_all add: mask_eq_exp_minus_1)

lemma field_less:
  "field opcode sh 0x7 < 8" "field opcode sh 0x3 < 4" "field opcode sh 0xF < 16" "field opcode sh 0x1F < 32"
  by (simp_all only: field_masks field_mask)
    (use take_bit_nat_less_exp [of 3] take_bit_nat_less_exp [of 2] take_bit_nat_less_exp [of 4]
      take_bit_nat_less_exp [of 5] in simp_all)

lemma field_split: "field opcode 4 0x7 = 2 * field opcode 5 0x3 + of_bool (bit opcode 4)"
proof -
  have d: "drop_bit 4 n div 2 = drop_bit 5 n" for n :: nat
    by (simp add: drop_bit_eq_div div_mult2_eq flip: div_mult2_eq)
  have "take_bit (Suc 2) (drop_bit 4 n) = 2 * take_bit 2 (drop_bit 5 n) + of_bool (bit n 4)" for n :: nat
    by (simp only: take_bit_Suc d) (simp add: bit_iff_odd drop_bit_eq_div mod_2_eq_odd)
  from this [of "unat opcode"] show ?thesis
    by (simp only: field_masks field_mask) (simp add: bit_unsigned_iff)
qed

text \<open>A rotation by a register is defined for amounts up to the width of the word.\<close>

definition shift_defined :: "u32 \<Rightarrow> (nat \<Rightarrow> u32) \<Rightarrow> bool" where
  "shift_defined opcode r \<longleftrightarrow> (case ref_operand opcode r of (k, n, v) \<Rightarrow> k = ROR \<longrightarrow> n \<le> 32)"

lemmas ref_facts = lsl_value lsl_carry lsr_value lsr_carry asr_value asr_carry

lemma asr_31: "32 \<le> n \<Longrightarrow> asr (v :: u32) 31 = asr v n"
  by (rule bit_word_eqI) (auto simp: asr_def bit_simps min_def Suc_le_eq)

lemma bit_asr: "bit (asr v n) 0 = bit (v :: u32) (min n 31)"
  by (auto simp: asr_def bit_simps min_def)


lemma asr_0 [simp]: "asr v 0 = v"
  by (simp add: asr_def)

lemma ref_lsl: "ref_shift LSL n v c =
    (if n = 0 then (v, c) else if 31 < n then (0, n = 32 \<and> bit v 0) else (push_bit n v, bit v (32 - n)))"
proof -
  have "31 < n \<Longrightarrow> push_bit n v = 0" by (rule bit_word_eqI) (auto simp: bit_simps)
  then show ?thesis unfolding ref_shift_def shift_kind.case ref_facts by auto
qed

lemma ref_lsr: "ref_shift LSR n v c =
    (if n = 0 then (v, c) else if 31 < n then (0, n = 32 \<and> bit v 31) else (drop_bit n v, bit v (n - 1)))"
proof -
  have "31 < n \<Longrightarrow> drop_bit n v = 0" by (rule bit_word_eqI) (auto simp: bit_simps dest: bit_imp_le_length)
  moreover have "31 < n \<Longrightarrow> bit v (n - 1) \<longleftrightarrow> n = 32 \<and> bit v 31"
    by (cases "n = 32") (auto dest: bit_imp_le_length)
  ultimately show ?thesis unfolding ref_shift_def shift_kind.case ref_facts by auto
qed

lemma ref_asr: "ref_shift ASR n v c =
    (if n = 0 then (v, c) else if 31 < n then (asr v 31, bit v 31) else (asr v n, bit v (n - 1)))"
proof -
  have "31 < n \<Longrightarrow> min (n - 1) 31 = 31" "31 < n \<Longrightarrow> asr v n = asr v 31"
    by (auto simp: asr_31 [of n v])
  then show ?thesis unfolding ref_shift_def shift_kind.case ref_facts by auto
qed

lemma rotr_0 [simp]: "word_rotr 0 v = (v :: u32)"
  by (rule bit_word_eqI) (simp add: bit_word_rotr_iff)

lemma ref_ror: "n \<le> 32 \<Longrightarrow> ref_shift ROR n v c = (if n = 0 then (v, c) else (word_rotr n v, bit v (n - 1)))"
  by (simp add: ref_shift_def rotr_carry)

lemma ref_rrx: "ref_shift RRX n v c = (rrx v c, bit v 0)"
  using rrx_value [of v c] lsr_carry [of v 0] by (simp add: ref_shift_def)

lemmas ref_cases = ref_lsl ref_lsr ref_asr ref_ror ref_rrx

lemmas shifter_defs = reg_sh_flags_def reg_sh_def ref_operand_def shift_register_def shift_defined_def Let_def

lemma shift_kind_cases:
  obtains "field opcode 5 0x3 = 0" | "field opcode 5 0x3 = 1" | "field opcode 5 0x3 = 2" | "field opcode 5 0x3 = 3"
  using field_less(2) [of opcode 5] by linarith

text \<open>C25: wherever C defines the shifts, the operand a data processing instruction takes from
  the barrel shifter, and the carry it leaves, are those of the architecture.\<close>

theorem barrel_shifter:
  assumes "shift_defined opcode r"
  shows "reg_sh_flags opcode r c = Some (case ref_operand opcode r of (k, n, v) \<Rightarrow> ref_shift k n v c)
    \<and> reg_sh opcode r c = map_option fst (reg_sh_flags opcode r c)"
proof (cases rule: shift_kind_cases [of opcode])
  case 1
  then show ?thesis using field_less(4) [of opcode 7]
    by (cases "bit opcode 4") (auto simp: field_split shifter_defs ref_cases not_less)
next
  case 2
  then show ?thesis using field_less(4) [of opcode 7]
    by (cases "bit opcode 4") (auto simp: field_split shifter_defs ref_cases not_less)
next
  case 3
  then show ?thesis using field_less(4) [of opcode 7]
    by (cases "bit opcode 4") (auto simp: field_split shifter_defs ref_cases not_less bit_asr)
next
  case 4
  then show ?thesis using assms field_less(4) [of opcode 7]
    by (cases "bit opcode 4") (auto simp: field_split shifter_defs ref_cases ror_rotr)
qed


section \<open>Carry and overflow\<close>

lemma uint_range: "0 \<le> uint (w :: u32)" "uint (w :: u32) < 4294967296"
  using uint_lt2p [of w] by simp_all

lemma sign_bit: "bit (w :: u32) 31 \<longleftrightarrow> 2147483648 \<le> uint w"
proof -
  have "uint w div 2 ^ 31 = (if 2147483648 \<le> uint w then 1 else 0)"
    using uint_range [of w] by (cases "2147483648 \<le> uint w") (simp_all add: div_pos_geq div_pos_pos_trivial)
  then show ?thesis using lsr_carry [of w 31] by (auto split: if_splits)
qed

lemma sint_uint_cases: "sint (w :: u32) = uint w - (if 2147483648 \<le> uint w then 4294967296 else 0)"
proof -
  have "take_bit 32 (uint w) = uint w" using uint_range [of w] by (simp add: take_bit_int_eq_self_iff)
  then show ?thesis
    by (simp add: sint_uint signed_take_bit_eq_take_bit_minus bit_uint_iff flip: sign_bit)
qed

lemma uint_add_cases:
  "uint (a + b :: u32) = uint a + uint b - (if 4294967296 \<le> uint a + uint b then 4294967296 else 0)"
  using uint_range [of a] uint_range [of b] by (simp add: uint_plus_if_size word_size)

lemma uint_sub_cases: "uint (a - b :: u32) = uint a - uint b + (if uint a < uint b then 4294967296 else 0)"
  using uint_range [of a] uint_range [of b] by (auto simp: uint_sub_if_size word_size)


text \<open>The same facts on integers, with \<open>m\<close> the size of the range and \<open>h\<close> half of it.\<close>

lemma int_add_overflow:
  fixes a b c d h m :: int
  assumes "0 \<le> a" "a < m" "0 \<le> b" "b < m" "0 \<le> c" "c \<le> 1" "m = 2 * h"
    "d = a + b + c - (if m \<le> a + b + c then m else 0)"
  shows "((h \<le> a \<longleftrightarrow> h \<le> b) \<and> (h \<le> a \<longleftrightarrow> \<not> h \<le> d)) \<longleftrightarrow>
    d - (if h \<le> d then m else 0) \<noteq> a - (if h \<le> a then m else 0) + (b - (if h \<le> b then m else 0)) + c"
  using assms by (auto split: if_splits)

lemma int_sub_overflow:
  fixes a b c d h m :: int
  assumes "0 \<le> a" "a < m" "0 \<le> b" "b < m" "0 \<le> c" "c \<le> 1" "m = 2 * h"
    "d = a - b - c + (if a - b - c < 0 then m else 0)"
  shows "((h \<le> a \<longleftrightarrow> \<not> h \<le> b) \<and> (h \<le> b \<longleftrightarrow> h \<le> d)) \<longleftrightarrow>
    d - (if h \<le> d then m else 0) \<noteq> a - (if h \<le> a then m else 0) - (b - (if h \<le> b then m else 0)) - c"
  using assms by (auto split: if_splits)

lemma int_add_twice:
  fixes a b c d e m :: int
  assumes "0 \<le> a" "a < m" "0 \<le> b" "b < m" "0 \<le> c" "c \<le> 1"
    "d = a + b - (if m \<le> a + b then m else 0)" "e = d + c - (if m \<le> d + c then m else 0)"
  shows "e = a + b + c - (if m \<le> a + b + c then m else 0)" "d < b \<or> e < c \<longleftrightarrow> m \<le> a + b + c"
  using assms by (auto split: if_splits)

lemma int_sub_twice:
  fixes a b c d e m :: int
  assumes "0 \<le> a" "a < m" "0 \<le> b" "b < m" "0 \<le> c" "c \<le> 1"
    "d = a - b + (if a < b then m else 0)" "e = d - c + (if d < c then m else 0)"
  shows "e = a - b - c + (if a - b - c < 0 then m else 0)"
  using assms by (auto split: if_splits)

lemma uint_of_bool: "uint (of_bool c :: u32) = of_bool c"
  by simp

lemmas carry_facts = uint_range uint_of_bool

lemma uint_add_carry:
  "uint (a + b + of_bool c :: u32) = uint a + uint b + of_bool c
     - (if 4294967296 \<le> uint a + uint b + of_bool c then 4294967296 else 0)"
  by (rule int_add_twice(1) [OF _ _ _ _ _ _ uint_add_cases uint_add_cases [of "a + b" "of_bool c", unfolded uint_of_bool]])
    (simp_all add: uint_range)

lemma sub_carry_eq: "a + NOT b + of_bool c = a - b - of_bool (\<not> c)" for a b :: u32
  by (simp add: not_eq_complement)

lemma uint_sub_carry:
  "uint (a + NOT b + of_bool c :: u32) = uint a - uint b - of_bool (\<not> c)
     + (if uint a - uint b - of_bool (\<not> c) < 0 then 4294967296 else 0)"
  unfolding sub_carry_eq
  by (rule int_sub_twice [OF _ _ _ _ _ _ uint_sub_cases uint_sub_cases [of "a - b" "of_bool (\<not> c)", unfolded uint_of_bool]])
    (simp_all add: uint_range)

section \<open>Carry and overflow against the architecture\<close>

lemma add_result_ref:
  "add_result a b (of_bool c) = (a + b + of_bool c, 4294967296 \<le> uint a + uint b + of_bool c)"
proof -
  have "uint (a + b) < uint b \<or> uint (a + b + of_bool c) < of_bool c \<longleftrightarrow> 4294967296 \<le> uint a + uint b + of_bool c"
    by (rule int_add_twice(2) [OF _ _ _ _ _ _ uint_add_cases uint_add_cases [of "a + b" "of_bool c", unfolded uint_of_bool]])
      (simp_all add: uint_range)
  then show ?thesis unfolding add_result_def Let_def word_less_alt uint_of_bool by simp
qed

text \<open>Overflow: the signed result is not the sum or difference of the signed operands.\<close>

lemma add_overflow_ref:
  "bit (NOT (a XOR b) AND (a XOR (a + b + of_bool c))) 31
     \<longleftrightarrow> sint (a + b + of_bool c :: u32) \<noteq> sint a + sint b + of_bool c"
proof -
  have "bit (NOT (a XOR b) AND (a XOR d)) 31 \<longleftrightarrow> (bit a 31 \<longleftrightarrow> bit b 31) \<and> (bit a 31 \<longleftrightarrow> \<not> bit d 31)" for d :: u32
    by (auto simp: bit_simps)
  then show ?thesis
    unfolding sign_bit sint_uint_cases
    by (simp only:) (rule int_add_overflow, simp_all add: uint_range uint_add_carry)
qed

lemma sub_borrow_ref:
  "(if c then b \<le> a else b < a) \<longleftrightarrow> 0 \<le> uint (a :: u32) - uint b - of_bool (\<not> c)"
  by (auto simp: word_le_def word_less_alt)

lemma sub_overflow_ref:
  "bit ((a XOR b) AND (NOT b XOR (a + NOT b + of_bool c))) 31
     \<longleftrightarrow> sint (a + NOT b + of_bool c :: u32) \<noteq> sint a - sint b - of_bool (\<not> c)"
proof -
  have "bit ((a XOR b) AND (NOT b XOR d)) 31 \<longleftrightarrow> (bit a 31 \<longleftrightarrow> \<not> bit b 31) \<and> (bit b 31 \<longleftrightarrow> bit d 31)" for d :: u32
    by (auto simp: bit_simps)
  then show ?thesis
    unfolding sign_bit sint_uint_cases
    by (simp only:) (rule int_sub_overflow, simp_all add: uint_range uint_sub_carry)
qed

section \<open>Arithmetic instructions\<close>

lemma reg_pc_offset [simp]: "reg (pc_offset d s) r = (if r = 15 then reg s 15 + d else reg s r)"
  by (simp add: pc_offset_def set_reg_def)

lemma reg_set_reg [simp]: "reg (set_reg q v s) r = (if r = q then v else reg s r)"
  by (simp add: set_reg_def)

lemma set_reg_flags [simp]:
  "n_flag (set_reg q v s) = n_flag s" "z_flag (set_reg q v s) = z_flag s"
  "c_flag (set_reg q v s) = c_flag s" "v_flag (set_reg q v s) = v_flag s"
  "mem (set_reg q v s) = mem s" "banks (set_reg q v s) = banks s" "spsr_regs (set_reg q v s) = spsr_regs s"
  by (simp_all add: set_reg_def)

lemma pc_offset_flags [simp]:
  "n_flag (pc_offset d s) = n_flag s" "z_flag (pc_offset d s) = z_flag s"
  "c_flag (pc_offset d s) = c_flag s" "v_flag (pc_offset d s) = v_flag s"
  "mem (pc_offset d s) = mem s" "banks (pc_offset d s) = banks s" "spsr_regs (pc_offset d s) = spsr_regs s"
  by (simp_all add: pc_offset_def)

lemma flags_logic_simps [simp]:
  "z_flag (flags_logic d s) = (d = 0)" "n_flag (flags_logic d s) = bit d 31"
  "c_flag (flags_logic d s) = c_flag s" "v_flag (flags_logic d s) = v_flag s"
  "reg (flags_logic d s) = reg s" "mem (flags_logic d s) = mem s"
  "banks (flags_logic d s) = banks s" "spsr_regs (flags_logic d s) = spsr_regs s"
  by (simp_all add: flags_logic_def)

lemma negative_bit: "bit (w :: u32) 31 \<longleftrightarrow> sint w < 0"
  using uint_range [of w] by (simp add: sign_bit sint_uint_cases)

text \<open>What the flags of a sum \<open>a + b + c\<close> and a difference \<open>a - b - not c\<close> must be.\<close>

definition sum_flags :: "u32 \<Rightarrow> u32 \<Rightarrow> bool \<Rightarrow> 'm cpu \<Rightarrow> bool" where
  "sum_flags a b c s \<longleftrightarrow> (let d = a + b + of_bool c in
     (z_flag s \<longleftrightarrow> d = 0) \<and> (n_flag s \<longleftrightarrow> sint d < 0)
     \<and> (c_flag s \<longleftrightarrow> 2 ^ 32 \<le> uint a + uint b + of_bool c)
     \<and> (v_flag s \<longleftrightarrow> sint d \<noteq> sint a + sint b + of_bool c))"

definition difference_flags :: "u32 \<Rightarrow> u32 \<Rightarrow> bool \<Rightarrow> 'm cpu \<Rightarrow> bool" where
  "difference_flags a b c s \<longleftrightarrow> (let d = a - b - of_bool (\<not> c) in
     (z_flag s \<longleftrightarrow> d = 0) \<and> (n_flag s \<longleftrightarrow> sint d < 0)
     \<and> (c_flag s \<longleftrightarrow> 0 \<le> uint a - uint b - of_bool (\<not> c))
     \<and> (v_flag s \<longleftrightarrow> sint d \<noteq> sint a - sint b - of_bool (\<not> c)))"

lemma flags_add_ref:
  "snd (add_result a b (of_bool c)) \<longleftrightarrow> 2 ^ 32 \<le> uint a + uint b + of_bool c"
  "v_flag (flags_add (a + b + of_bool c) a b s) \<longleftrightarrow> sint (a + b + of_bool c) \<noteq> sint a + sint b + of_bool c"
  using add_overflow_ref [of a b c] by (simp_all add: add_result_ref flags_add_def)

lemma flags_sub_ref:
  "c_flag (flags_sub (a + NOT b + of_bool c) a b c s) \<longleftrightarrow> 0 \<le> uint a - uint b - of_bool (\<not> c)"
  "v_flag (flags_sub (a + NOT b + of_bool c) a b c s) \<longleftrightarrow> sint (a + NOT b + of_bool c) \<noteq> sint a - sint b - of_bool (\<not> c)"
  using sub_overflow_ref [of a b c] sub_borrow_ref [of c b a] by (simp_all add: flags_sub_def)

lemma flags_simps [simp]:
  "reg (flags_add d a b s) = reg s" "reg (flags_sub d a b c s) = reg s"
  "z_flag (flags_add d a b s) = (d = 0)" "n_flag (flags_add d a b s) = bit d 31"
  "z_flag (flags_sub d a b c s) = (d = 0)" "n_flag (flags_sub d a b c s) = bit d 31"
  "c_flag (flags_add d a b s) = c_flag s"
  by (simp_all add: flags_add_def flags_sub_def)

lemma sum_flags_add:
  "sum_flags a b c (set_reg r v (pc_offset k (flags_add (a + b + of_bool c) a b
     (s\<lparr>c_flag := snd (add_result a b (of_bool c))\<rparr>))))"
  unfolding sum_flags_def Let_def set_reg_flags pc_offset_flags flags_add_ref flags_simps negative_bit
  by (intro conjI refl) simp

lemma difference_flags_sub:
  "difference_flags a b c (set_reg r v (pc_offset k (flags_sub (a + NOT b + of_bool c) a b c s)))"
  unfolding difference_flags_def Let_def set_reg_flags pc_offset_flags flags_sub_ref flags_simps negative_bit
    sub_carry_eq [symmetric]
  by (intro conjI refl)

lemma add_flags_run:
  assumes "operand2 ty opcode (pc_offset 8 s) = Some x" "op_rd opcode \<noteq> 15" "a = reg (pc_offset 8 s) (op_rn opcode)"
  shows "arm_data_proc_add_flags M c ty opcode s = Some (Next, set_reg (op_rd opcode) (a + x + of_bool c)
     (pc_offset (- 4) (flags_add (a + x + of_bool c) a x ((pc_offset 8 s)\<lparr>c_flag := snd (add_result a x (of_bool c))\<rparr>))))"
  using assms(1,2)
  by (simp only: arm_data_proc_add_flags_def spsr_restore_check_def assms(3) Let_def add_result_ref bind.simps prod.case
      snd_conv if_False)

lemma sub_flags_run:
  assumes "operand2 ty opcode (pc_offset 8 s) = Some x" "op_rd opcode \<noteq> 15" "n = reg (pc_offset 8 s) (op_rn opcode)"
    "a = (if swap then x else n)" "b = (if swap then n else x)"
  shows "arm_data_proc_sub_flags M swap c ty opcode s = Some (Next, set_reg (op_rd opcode) (a + NOT b + of_bool c)
     (pc_offset (- 4) (flags_sub (a + NOT b + of_bool c) a b c (pc_offset 8 s))))"
  using assms(1,2)
  by (cases swap) (simp_all only: arm_data_proc_sub_flags_def spsr_restore_check_def assms(3-5) Let_def bind.simps prod.case
      if_False if_True)

text \<open>C26: an instruction that adds or subtracts with flags, in either order and with either carry, leaves
  in its destination register the exact result, a carry that tells whether the unsigned result left its range,
  and an overflow flag that tells whether the signed result did. The destination is a register
  other than the program counter; with the program counter the instruction is the return from an
  exception, which takes its flags from the saved status register.\<close>

theorem arithmetic_flags:
  assumes "operand2 ty opcode (pc_offset 8 s) = Some x" "op_rd opcode \<noteq> 15"
    "n = reg (pc_offset 8 s) (op_rn opcode)" "a = (if swap then x else n)" "b = (if swap then n else x)"
  shows "(\<exists>t. arm_data_proc_add_flags M c ty opcode s = Some (Next, t)
      \<and> reg t (op_rd opcode) = n + x + of_bool c \<and> reg t 15 = reg s 15 + 4 \<and> sum_flags n x c t)
    \<and> (\<exists>t. arm_data_proc_sub_flags M swap c ty opcode s = Some (Next, t)
      \<and> reg t (op_rd opcode) = a - b - of_bool (\<not> c) \<and> reg t 15 = reg s 15 + 4 \<and> difference_flags a b c t)"
proof (intro conjI exI)
  show "sum_flags n x c (set_reg (op_rd opcode) (n + x + of_bool c)
     (pc_offset (- 4) (flags_add (n + x + of_bool c) n x ((pc_offset 8 s)\<lparr>c_flag := snd (add_result n x (of_bool c))\<rparr>))))"
    by (rule sum_flags_add)
  show "difference_flags a b c (set_reg (op_rd opcode) (a + NOT b + of_bool c)
     (pc_offset (- 4) (flags_sub (a + NOT b + of_bool c) a b c (pc_offset 8 s))))"
    by (rule difference_flags_sub)
qed (use add_flags_run [OF assms(1-3)] sub_flags_run [OF assms] assms(2) in \<open>simp_all only: reg_set_reg reg_pc_offset
    flags_simps cpu.simps if_True if_False simp_thms sub_carry_eq\<close>, simp_all)

lemma int_signed_less:
  fixes a b d h m :: int
  assumes "0 \<le> a" "a < m" "0 \<le> b" "b < m" "m = 2 * h" "d = a - b + (if a < b then m else 0)"
  shows "(h \<le> d \<longleftrightarrow> (h \<le> a \<longleftrightarrow> \<not> h \<le> b) \<and> (h \<le> b \<longleftrightarrow> h \<le> d)) \<longleftrightarrow>
    b - (if h \<le> b then m else 0) \<le> a - (if h \<le> a then m else 0)"
  using assms by (auto split: if_splits)

text \<open>The processor at the start of a game: the examples run on it.\<close>

definition boot_cpu :: "unit cpu" where
  "boot_cpu = init_cpu True ()"

definition no_bus :: "unit bus" where
  "no_bus = \<lparr>load = (\<lambda>_ _ s. None), store = (\<lambda>_ _ _ s. None), nseq_cycles = (\<lambda>_. replicate 16 (1, 1)),
     seq_cycles = (\<lambda>_. replicate 16 (1, 1)), irq_pending = (\<lambda>_. False),
     fetch = (\<lambda>_ _. None), cheat_hook = Some, idle_loop_target = (\<lambda>_. 0)\<rparr>"

lemma arithmetic_flags_witness:
  "\<exists>t. arm_data_proc_add_flags no_bus True Imm 0xE2B11005 boot_cpu = Some (Next, t)
     \<and> reg t 1 = 6 \<and> sum_flags 0 5 True t"
proof -
  have x: "operand2 Imm 0xE2B11005 (pc_offset 8 boot_cpu) = Some 5" "op_rd 0xE2B11005 = 1" "op_rn 0xE2B11005 = 1"
    "reg (pc_offset 8 boot_cpu) 1 = 0" by code_simp+
  from arithmetic_flags [where ty = Imm and opcode = "0xE2B11005" and s = boot_cpu and x = 5 and n = 0 and swap = False
      and a = 0 and b = 5 and c = True and M = no_bus, unfolded x, simplified]
  show ?thesis by auto
qed

text \<open>C27: after a comparison the condition codes tell how the operands are related, as
  unsigned and as signed numbers.\<close>

theorem compare_conditions:
  assumes "operand2 ty opcode (pc_offset 8 s) = Some b" "a = reg (pc_offset 8 s) (op_rn opcode)"
  shows "\<exists>t. arm_data_proc_test_sub ty opcode s = Some (Next, t)
    \<and> cond_passed 0x0 t = (a = b) \<and> cond_passed 0x1 t = (a \<noteq> b)
    \<and> cond_passed 0x2 t = (b \<le> a) \<and> cond_passed 0x3 t = (a < b)
    \<and> cond_passed 0x8 t = (b < a) \<and> cond_passed 0x9 t = (a \<le> b)
    \<and> cond_passed 0xA t = (sint b \<le> sint a) \<and> cond_passed 0xB t = (sint a < sint b)
    \<and> cond_passed 0xC t = (sint b < sint a) \<and> cond_passed 0xD t = (sint a \<le> sint b)"
proof -
  let ?t = "pc_offset (- 4) (flags_sub (a - b) a b True (pc_offset 8 s))"
  have run: "arm_data_proc_test_sub ty opcode s = Some (Next, ?t)"
    using assms by (simp add: arm_data_proc_test_sub_def Let_def)
  have zc: "z_flag ?t = (a = b)" "c_flag ?t = (b \<le> a)" by (simp_all add: flags_sub_def)
  have "(bit (a - b) 31 \<longleftrightarrow> v_flag ?t) \<longleftrightarrow> sint b \<le> sint a"
  proof -
    have "v_flag ?t \<longleftrightarrow> (bit a 31 \<longleftrightarrow> \<not> bit b 31) \<and> (bit b 31 \<longleftrightarrow> bit (a - b) 31)"
      by (auto simp: flags_sub_def bit_simps)
    then show ?thesis
      unfolding sign_bit sint_uint_cases
      by (simp only:) (rule int_signed_less [OF _ _ _ _ _ uint_sub_cases], simp_all add: uint_range)
  qed
  then have nv: "(n_flag ?t \<longleftrightarrow> v_flag ?t) \<longleftrightarrow> sint b \<le> sint a" by simp
  have eq: "a = b \<longleftrightarrow> sint a = sint b" by (auto intro: signed_word_eqI)
  show ?thesis
    by (rule exI [of _ ?t]) (use run zc nv eq in \<open>auto simp: cond_passed_def Let_def\<close>)
qed


lemma compare_conditions_witness:
  "\<exists>t. arm_data_proc_test_sub Imm 0xE3510005 boot_cpu = Some (Next, t) \<and> \<not> cond_passed 0x2 t \<and> cond_passed 0xB t"
proof -
  have x: "operand2 Imm 0xE3510005 (pc_offset 8 boot_cpu) = Some 5" "op_rn 0xE3510005 = 1"
    "reg (pc_offset 8 boot_cpu) 1 = 0" by code_simp+
  from compare_conditions [where ty = Imm and opcode = "0xE3510005" and s = boot_cpu and b = 5 and a = 0, unfolded x]
  show ?thesis by auto
qed

lemma barrel_shifter_witness:
  "reg_sh_flags 0x40 (\<lambda>_. 0x80000001) False = Some (0xFFFFFFFF, True)"
proof -
  have d: "shift_defined 0x40 (\<lambda>_. 0x80000001)" by code_simp
  have "ref_operand 0x40 (\<lambda>_. 0x80000001) = (ASR, 32, 0x80000001)" by code_simp
  moreover have "ref_shift ASR 32 (0x80000001 :: u32) False = (0xFFFFFFFF, True)" by code_simp
  ultimately show ?thesis using barrel_shifter [OF d, of False] by simp
qed

text \<open>A rotation by a register holding 33 or more is left open by C.\<close>

lemma ror_register_undefined: "reg_sh 0x0171 (\<lambda>_. 33) c = None"
  by (simp add: reg_sh_def shift_register_def field_def ror_def)

end
