(* ===== verification/Bson.thy ===== *)
theory Bson
  imports GpspPrelude
begin

text \<open>
  The BSON subset of \<^verbatim>\<open>savestate.c\<close> and \<^verbatim>\<open>savestate.h\<close>. A C pointer into a state is the
  list of bytes from there to the end of the memory it points into, and \<open>None\<close> is reading
  past that end. A key is a string without the terminating zero.
\<close>

abbreviation (input) BSON_TYPE_DOC :: u8 where "BSON_TYPE_DOC \<equiv> 0x03"
abbreviation (input) BSON_TYPE_ARR :: u8 where "BSON_TYPE_ARR \<equiv> 0x04"
abbreviation (input) BSON_TYPE_BIN :: u8 where "BSON_TYPE_BIN \<equiv> 0x05"
abbreviation (input) BSON_TYPE_INT32 :: u8 where "BSON_TYPE_INT32 \<equiv> 0x10"

definition ascii :: "string \<Rightarrow> u8 list" where
  "ascii s = map (\<lambda>c. of_nat (of_char c)) s"

definition cstring :: "string \<Rightarrow> u8 list" where
  "cstring s = ascii s @ [0]"

section \<open>Writing\<close>

definition bson_write_int32 :: "string \<Rightarrow> u32 \<Rightarrow> u8 list" where
  "bson_write_int32 k v = [0x10] @ cstring k @ le_bytes v"

definition array_key :: "nat \<Rightarrow> u8 list" where
  "array_key n = [of_nat (48 + n div 10), of_nat (48 + n mod 10), 0]"

definition bson_write_int32array :: "string \<Rightarrow> u32 list \<Rightarrow> u8 list" where
  "bson_write_int32array k vs =
     [0x4] @ cstring k @ le_bytes (of_nat (5 + length vs * 8))
       @ concat (map (\<lambda>n. [0x10] @ array_key n @ le_bytes (vs ! n)) [0..<length vs]) @ [0]"

definition bson_write_bytes :: "string \<Rightarrow> u8 list \<Rightarrow> u8 list" where
  "bson_write_bytes k bs = [0x05] @ cstring k @ le_bytes (of_nat (length bs)) @ [0] @ bs"

text \<open>\<^verbatim>\<open>bson_start_document\<close>, the fields, and \<^verbatim>\<open>bson_finish_document\<close>, which stores the size.\<close>

definition bson_sized :: "u8 list \<Rightarrow> u8 list" where
  "bson_sized body = le_bytes (of_nat (length body + 5)) @ body @ [0]"

definition bson_document :: "string \<Rightarrow> u8 list \<Rightarrow> u8 list" where
  "bson_document k body = [0x03] @ cstring k @ bson_sized body"

section \<open>Reading\<close>

definition bson_read_u32 :: "u8 list \<Rightarrow> u32 option" where
  "bson_read_u32 p = (if 4 \<le> length p then Some (leupack32 p) else None)"

fun strlen :: "u8 list \<Rightarrow> nat option" where
  "strlen [] = None"
| "strlen (x # xs) = (if x = 0 then Some 0 else map_option Suc (strlen xs))"

text \<open>How far \<^verbatim>\<open>p\<close> moves over the value of a field of type \<open>tp\<close>.\<close>

definition value_size :: "u8 \<Rightarrow> u8 list \<Rightarrow> nat option" where
  "value_size tp p =
     (if tp = BSON_TYPE_DOC \<or> tp = BSON_TYPE_ARR then map_option unat (bson_read_u32 p)
      else if tp = BSON_TYPE_BIN then map_option (\<lambda>w. unat (w + 1 + 4)) (bson_read_u32 p)
      else if tp = BSON_TYPE_INT32 then Some 4
      else Some 0)"

text \<open>
  The search loop shared by \<^verbatim>\<open>bson_contains_key\<close> and \<^verbatim>\<open>bson_find_key\<close>: \<open>off\<close> is \<^verbatim>\<open>p - srcp\<close>.
  The result is the type of the field found and the pointer to its value.
\<close>

function bson_scan :: "string \<Rightarrow> nat \<Rightarrow> nat \<Rightarrow> u8 list \<Rightarrow> (u8 \<times> u8 list) option option" where
  "bson_scan k doclen off [] = None"
| "bson_scan k doclen off (tp # q) =
     (if tp = 0 \<or> doclen \<le> off then Some None
      else do {
        n \<leftarrow> strlen q;
        if take (n + 1) q = cstring k then Some (Some (tp, drop (n + 1) q))
        else do {
          sz \<leftarrow> value_size tp (drop (n + 1) q);
          bson_scan k doclen (off + 1 + (n + 1) + sz) (drop (n + 1 + sz) q) } })"
  by pat_completeness auto
termination by (relation "measure (\<lambda>(k, d, n, p). length p)") auto

definition bson_search :: "u8 list \<Rightarrow> string \<Rightarrow> (u8 \<times> u8 list) option option" where
  "bson_search src k = do { doclen \<leftarrow> bson_read_u32 src; bson_scan k (unat doclen) 4 (drop 4 src) }"

definition bson_contains_key :: "u8 list \<Rightarrow> string \<Rightarrow> u8 \<Rightarrow> bool option" where
  "bson_contains_key src k keytype =
     map_option (\<lambda>r. case r of None \<Rightarrow> False | Some (tp, p) \<Rightarrow> tp = keytype) (bson_search src k)"

definition bson_find_key :: "u8 list \<Rightarrow> string \<Rightarrow> u8 list option option" where
  "bson_find_key src k = map_option (map_option snd) (bson_search src k)"

text \<open>A null document gives a null pointer; the inner option of a result is the success flag.\<close>

definition find_in :: "u8 list option \<Rightarrow> string \<Rightarrow> u8 list option option" where
  "find_in src k = (case src of None \<Rightarrow> Some None | Some d \<Rightarrow> bson_find_key d k)"

definition bson_read_int32 :: "u8 list option \<Rightarrow> string \<Rightarrow> u32 option option" where
  "bson_read_int32 src k = do {
     r \<leftarrow> find_in src k;
     (case r of None \<Rightarrow> Some None | Some p \<Rightarrow> map_option Some (bson_read_u32 p)) }"

fun read_items :: "nat \<Rightarrow> u8 list \<Rightarrow> u32 list option" where
  "read_items 0 p = Some []"
| "read_items (Suc n) p = do {
     v \<leftarrow> bson_read_u32 (drop 4 p);
     vs \<leftarrow> read_items n (drop 8 p);
     Some (v # vs) }"

definition bson_read_int32_array :: "u8 list option \<Rightarrow> string \<Rightarrow> nat \<Rightarrow> u32 list option option" where
  "bson_read_int32_array src k cnt = do {
     r \<leftarrow> find_in src k;
     (case r of
        None \<Rightarrow> Some None
      | Some p \<Rightarrow> do {
          arrsz \<leftarrow> bson_read_u32 p;
          if arrsz < 5 then Some None
          else if unat (drop_bit 3 (arrsz - 5)) \<noteq> cnt then Some None
          else map_option Some (read_items cnt (drop 4 p)) }) }"

definition bson_read_bytes :: "u8 list option \<Rightarrow> string \<Rightarrow> nat \<Rightarrow> u8 list option option" where
  "bson_read_bytes src k cnt = do {
     r \<leftarrow> find_in src k;
     (case r of
        None \<Rightarrow> Some None
      | Some p \<Rightarrow> do {
          bufsz \<leftarrow> bson_read_u32 p;
          if unat bufsz \<noteq> cnt then Some None else map_option Some (arr_slice p 5 cnt) }) }"

section \<open>Documents as data\<close>

text \<open>The fields a writer emits, in order; \<open>enc\<close> is what the macros write for them.\<close>

datatype field = FInt string u32 | FBytes string "u8 list" | FArr string "u32 list" | FDoc string "field list"

fun enc :: "field \<Rightarrow> u8 list" where
  "enc (FInt k v) = bson_write_int32 k v"
| "enc (FBytes k bs) = bson_write_bytes k bs"
| "enc (FArr k vs) = bson_write_int32array k vs"
| "enc (FDoc k fs) = bson_document k (concat (map enc fs))"

definition enc_doc :: "field list \<Rightarrow> u8 list" where
  "enc_doc fs = bson_sized (concat (map enc fs))"

primrec field_key :: "field \<Rightarrow> string" where
  "field_key (FInt k v) = k"
| "field_key (FBytes k bs) = k"
| "field_key (FArr k vs) = k"
| "field_key (FDoc k fs) = k"

primrec field_type :: "field \<Rightarrow> u8" where
  "field_type (FInt k v) = BSON_TYPE_INT32"
| "field_type (FBytes k bs) = BSON_TYPE_BIN"
| "field_type (FArr k vs) = BSON_TYPE_ARR"
| "field_type (FDoc k fs) = BSON_TYPE_DOC"

primrec payload :: "field \<Rightarrow> u8 list" where
  "payload (FInt k v) = le_bytes v"
| "payload (FBytes k bs) = le_bytes (of_nat (length bs)) @ [0] @ bs"
| "payload (FArr k vs) = le_bytes (of_nat (5 + length vs * 8))
       @ concat (map (\<lambda>n. [0x10] @ array_key n @ le_bytes (vs ! n)) [0..<length vs]) @ [0]"
| "payload (FDoc k fs) = enc_doc fs"

definition lookup :: "string \<Rightarrow> field list \<Rightarrow> field option" where
  "lookup k fs = find (\<lambda>f. field_key f = k) fs"

end
