(* ===== verification/BsonProps.thy ===== *)
theory BsonProps
  imports Bson
begin

text \<open>
  Reading what was written: in a document whose fields have distinct keys, every field is
  found with its type and its value, whatever follows the document in memory.
\<close>

section \<open>Strings\<close>

definition key_ok :: "string \<Rightarrow> bool" where
  "key_ok k \<longleftrightarrow> (\<forall>c \<in> set k. c \<noteq> CHR 0x00)"

lemma byte_of_char_eq: "(of_nat (of_char c) :: u8) = of_nat (of_char d) \<longleftrightarrow> c = d"
proof
  assume "(of_nat (of_char c) :: u8) = of_nat (of_char d)"
  then have "unat (of_nat (of_char c) :: u8) = unat (of_nat (of_char d) :: u8)" by simp
  moreover have "(of_char x :: nat) < 256" for x :: char by simp
  ultimately have "(of_char c :: nat) = of_char d" by (simp add: unat_of_nat)
  then show "c = d" by (simp add: of_char_eq_iff)
qed simp

lemma byte_of_char_zero: "(of_nat (of_char c) :: u8) = 0 \<longleftrightarrow> c = CHR 0x00"
  using byte_of_char_eq [of c "CHR 0x00"] by simp

lemma ascii_inj: "ascii a = ascii b \<longleftrightarrow> a = b"
proof -
  have "inj (\<lambda>c. of_nat (of_char c) :: u8)" by (rule injI) (simp add: byte_of_char_eq)
  then show ?thesis unfolding ascii_def by (rule inj_map_eq_map)
qed

lemma cstring_inj [simp]: "cstring a = cstring b \<longleftrightarrow> a = b"
  by (simp add: cstring_def ascii_inj)

lemma length_cstring [simp]: "length (cstring k) = Suc (length k)"
  by (simp add: cstring_def ascii_def)

lemma strlen_cstring: "key_ok k \<Longrightarrow> strlen (cstring k @ r) = Some (length k)"
  by (induction k) (simp_all add: key_ok_def cstring_def ascii_def byte_of_char_zero)

section \<open>One field\<close>

lemma unat_of_nat_small: "n < 2 ^ 32 \<Longrightarrow> unat (of_nat n :: u32) = n"
  by (simp add: unat_of_nat)

lemma read_le_bytes [simp]: "bson_read_u32 (le_bytes w @ r) = Some w"
  by (simp add: bson_read_u32_def)

lemma length_sized [simp]: "length (bson_sized body) = length body + 5"
  by (simp add: bson_sized_def)

lemma length_items: "length (concat (map (\<lambda>n. [0x10] @ array_key n @ le_bytes (vs ! n)) ns)) = 8 * length ns"
  by (induction ns) (simp_all add: array_key_def)

lemmas length_items_simp [simp] = length_items [simplified]

lemma enc_split: "enc f = [field_type f] @ cstring (field_key f) @ payload f"
  by (cases f) (simp_all add: bson_write_int32_def bson_write_bytes_def bson_write_int32array_def bson_document_def enc_doc_def)

text \<open>Keys without zeros and sizes of 32 bits.\<close>

definition field_ok :: "field \<Rightarrow> bool" where
  "field_ok f \<longleftrightarrow> key_ok (field_key f) \<and> length (payload f) + 8 < 2 ^ 32"

lemma value_size_payload:
  assumes "length (payload f) + 8 < 2 ^ 32"
  shows "value_size (field_type f) (payload f @ r) = Some (length (payload f))"
proof (cases f)
  case (FInt k v)
  then show ?thesis by (simp add: value_size_def)
next
  case (FBytes k bs)
  with assms have l: "length bs + 5 < 2 ^ 32" by simp
  then have "unat (of_nat (length bs) + 1 + 4 :: u32) = length bs + 5"
    using unat_of_nat_small [of "length bs + 5"] by (simp add: add.commute)
  with FBytes show ?thesis by (simp add: value_size_def)
next
  case (FArr k vs)
  with assms have "5 + length vs * 8 < 2 ^ 32" by (simp add: length_items)
  from unat_of_nat_small [OF this] FArr show ?thesis by (simp add: value_size_def length_items)
next
  case (FDoc k fs)
  with assms have "length (concat (map enc fs)) + 5 < 2 ^ 32" by (simp add: enc_doc_def)
  from unat_of_nat_small [OF this] FDoc show ?thesis by (simp add: value_size_def enc_doc_def bson_sized_def)
qed

lemma field_type_nonzero [simp]: "field_type f \<noteq> 0"
  by (cases f) simp_all

lemma scan_field:
  assumes "field_ok f" "off < doclen"
  shows "bson_scan k doclen off (enc f @ r) =
     (if field_key f = k then Some (Some (field_type f, payload f @ r))
      else bson_scan k doclen (off + length (enc f)) r)"
proof -
  let ?q = "cstring (field_key f) @ payload f @ r"
  have n: "strlen ?q = Some (length (field_key f))"
    using assms(1) strlen_cstring by (simp add: field_ok_def)
  have t: "take (length (field_key f) + 1) ?q = cstring (field_key f)"
    "drop (length (field_key f) + 1) ?q = payload f @ r" by simp_all
  have v: "value_size (field_type f) (payload f @ r) = Some (length (payload f))"
    using assms(1) value_size_payload by (simp add: field_ok_def)
  have d: "drop (length (field_key f) + 1 + length (payload f)) ?q = r" by simp
  have l: "length (enc f) = 1 + (length (field_key f) + 1) + length (payload f)" by (simp add: enc_split)
  have "bson_scan k doclen off (enc f @ r) = bson_scan k doclen off (field_type f # ?q)" by (simp add: enc_split)
  also have "\<dots> = (if field_key f = k then Some (Some (field_type f, payload f @ r))
      else bson_scan k doclen (off + length (enc f)) r)"
    using assms(2) n t v d l by (simp del: append_assoc add: add.assoc)
  finally show ?thesis .
qed

section \<open>Documents\<close>

text \<open>\<open>has src f\<close>: the document at \<open>src\<close> holds the field \<open>f\<close> under its key.\<close>

definition has :: "u8 list \<Rightarrow> field \<Rightarrow> bool" where
  "has src f \<longleftrightarrow> (\<exists>r. bson_search src (field_key f) = Some (Some (field_type f, payload f @ r)))"

definition lacks :: "u8 list \<Rightarrow> string \<Rightarrow> bool" where
  "lacks src k \<longleftrightarrow> bson_search src k = Some None"

definition doc_ok :: "field list \<Rightarrow> bool" where
  "doc_ok fs \<longleftrightarrow> (\<forall>f \<in> set fs. key_ok (field_key f)) \<and> length (enc_doc fs) + 8 < 2 ^ 32"

lemma doc_ok_fields: "doc_ok fs \<Longrightarrow> f \<in> set fs \<Longrightarrow> field_ok f"
proof -
  assume d: "doc_ok fs" "f \<in> set fs"
  from d(2) have "length (payload f) \<le> length (concat (map enc fs))"
    by (induction fs) (auto simp: enc_split)
  with d show "field_ok f" by (simp add: doc_ok_def field_ok_def enc_doc_def)
qed

lemma doc_ok_nested: "doc_ok fs \<Longrightarrow> FDoc k gs \<in> set fs \<Longrightarrow> \<forall>g \<in> set gs. key_ok (field_key g) \<Longrightarrow> doc_ok gs"
  using doc_ok_fields [of fs "FDoc k gs"] by (simp add: doc_ok_def field_ok_def)

lemma scan_fields:
  assumes "\<forall>f \<in> set fs. field_ok f" "off + length (concat (map enc fs)) < doclen"
  shows "bson_scan k doclen off (concat (map enc fs) @ [0] @ r) =
     Some (case dropWhile (\<lambda>f. field_key f \<noteq> k) fs of
             [] \<Rightarrow> None
           | f # gs \<Rightarrow> Some (field_type f, payload f @ concat (map enc gs) @ [0] @ r))"
  using assms
proof (induction fs arbitrary: off)
  case (Cons f fs)
  then show ?case by (simp add: scan_field)
qed simp

lemma search_doc:
  assumes "doc_ok fs"
  shows "bson_search (enc_doc fs @ r) k =
     Some (case dropWhile (\<lambda>f. field_key f \<noteq> k) fs of
             [] \<Rightarrow> None
           | f # gs \<Rightarrow> Some (field_type f, payload f @ concat (map enc gs) @ [0] @ r))"
proof -
  let ?body = "concat (map enc fs)"
  have "unat (of_nat (length ?body + 5) :: u32) = length ?body + 5"
    using assms by (intro unat_of_nat_small) (simp add: doc_ok_def enc_doc_def)
  then show ?thesis
    using assms doc_ok_fields [OF assms] scan_fields [of fs 4 "length ?body + 5" k r]
    by (simp add: bson_search_def enc_doc_def bson_sized_def)
qed

lemma dropWhile_keys:
  "distinct (map field_key fs) \<Longrightarrow> f \<in> set fs \<Longrightarrow>
     \<exists>gs. dropWhile (\<lambda>g. field_key g \<noteq> field_key f) fs = f # gs"
  by (induction fs) auto

lemma has_doc:
  assumes "doc_ok fs" "distinct (map field_key fs)" "f \<in> set fs"
  shows "has (enc_doc fs @ r) f"
  using dropWhile_keys [OF assms(2,3)] search_doc [OF assms(1), of r "field_key f"]
  unfolding has_def by fastforce

lemma lacks_doc:
  assumes "doc_ok fs" "k \<notin> set (map field_key fs)"
  shows "lacks (enc_doc fs @ r) k"
proof -
  have "dropWhile (\<lambda>f. field_key f \<noteq> k) fs = []" using assms(2) by auto
  with search_doc [OF assms(1), of r k] show ?thesis by (simp add: lacks_def)
qed

section \<open>Reading a field\<close>

lemma read_int32_has [simp]: "has src (FInt k v) \<Longrightarrow> bson_read_int32 (Some src) k = Some (Some v)"
  by (auto simp: has_def bson_read_int32_def find_in_def bson_find_key_def)

lemma contains_has [simp]: "has src f \<Longrightarrow> field_key f = k \<Longrightarrow> bson_contains_key src k tp = Some (field_type f = tp)"
  by (auto simp: has_def bson_contains_key_def)

lemma contains_lacks [simp]: "lacks src k \<Longrightarrow> bson_contains_key src k tp = Some False"
  by (simp add: lacks_def bson_contains_key_def)

lemma find_lacks [simp]: "lacks src k \<Longrightarrow> bson_find_key src k = Some None"
  by (simp add: lacks_def bson_find_key_def)

lemma read_int32_lacks [simp]: "lacks src k \<Longrightarrow> bson_read_int32 (Some src) k = Some None"
  by (simp add: bson_read_int32_def find_in_def)

lemma read_int32_null [simp]: "bson_read_int32 None k = Some None"
  by (simp add: bson_read_int32_def find_in_def)

lemma read_bytes_has [simp]:
  assumes "has src (FBytes k bs)" "cnt = length bs" "length bs < 2 ^ 32"
  shows "bson_read_bytes (Some src) k cnt = Some (Some bs)"
proof -
  obtain r where r: "bson_find_key src k = Some (Some (le_bytes (of_nat (length bs)) @ [0] @ bs @ r))"
    using assms(1) by (auto simp: has_def bson_find_key_def)
  have "arr_slice (le_bytes (of_nat (length bs)) @ [0] @ bs @ r) 5 (length bs) = Some bs"
    by (simp add: arr_slice_def)
  with r assms(2) unat_of_nat_small [OF assms(3)] show ?thesis
    by (simp add: bson_read_bytes_def find_in_def)
qed

lemma read_items_enc:
  "read_items (length ns) (concat (map (\<lambda>n. [0x10] @ array_key n @ le_bytes (vs ! n)) ns) @ r) = Some (map ((!) vs) ns)"
  by (induction ns) (simp_all add: array_key_def)

lemma read_array_has [simp]:
  assumes "has src (FArr k vs)" "cnt = length vs" "5 + length vs * 8 < 2 ^ 32"
  shows "bson_read_int32_array (Some src) k cnt = Some (Some vs)"
proof -
  let ?n = "of_nat (5 + length vs * 8) :: u32"
  let ?items = "concat (map (\<lambda>n. [0x10] @ array_key n @ le_bytes (vs ! n)) [0..<length vs])"
  obtain r where r: "bson_find_key src k = Some (Some (le_bytes ?n @ ?items @ [0] @ r))"
    using assms(1) by (auto simp: has_def bson_find_key_def)
  have u: "unat ?n = 5 + length vs * 8" by (rule unat_of_nat_small [OF assms(3)])
  then have "5 \<le> ?n" unfolding word_le_nat_alt by simp
  then have s: "unat (?n - 5) = length vs * 8" using u by (simp only: unat_sub) simp
  have "unat (drop_bit 3 (?n - 5)) = length vs"
    unfolding unat_drop_bit_eq s by (simp add: drop_bit_eq_div)
  moreover have "read_items (length vs) (?items @ [0] @ r) = Some vs"
    using read_items_enc [of "[0..<length vs]" vs "[0] @ r"] by (simp add: map_nth)
  ultimately show ?thesis
    using r assms(2) \<open>5 \<le> ?n\<close> by (simp add: bson_read_int32_array_def find_in_def not_less)
qed

lemma find_doc_has:
  "has src (FDoc k fs) \<Longrightarrow> \<exists>r. bson_find_key src k = Some (Some (enc_doc fs @ r))"
  by (auto simp: has_def bson_find_key_def)

end
