(* ===== verification/Savestate.thy ===== *)
theory Savestate
  imports Bson EmuState
begin

text \<open>
  Saving and loading the machine: the section writers and readers of \<^verbatim>\<open>cpu.cc\<close>, \<^verbatim>\<open>input.c\<close>,
  \<^verbatim>\<open>main.c\<close>, \<^verbatim>\<open>gba_memory.c\<close> and \<^verbatim>\<open>sound.c\<close>, and \<^verbatim>\<open>gba_save_state\<close> and \<^verbatim>\<open>gba_load_state\<close> of
  \<^verbatim>\<open>savestate.c\<close>. A writer gives the fields it writes. A reader gives the success flag and the
  state with whatever was overwritten up to there; \<open>None\<close> is a read outside the buffer.
\<close>

type_synonym 's reader = "'s \<Rightarrow> (bool \<times> 's) option"

fun all_of :: "'s reader list \<Rightarrow> 's reader" where
  "all_of [] s = Some (True, s)"
| "all_of (r # rs) s = do { (ok, s) \<leftarrow> r s; if ok then all_of rs s else Some (False, s) }"

definition store :: "'a option option \<Rightarrow> ('a \<Rightarrow> 's \<Rightarrow> 's) \<Rightarrow> 's reader" where
  "store r put s = map_option (\<lambda>v. case v of None \<Rightarrow> (False, s) | Some x \<Rightarrow> (True, put x s)) r"

definition int32_to :: "u8 list option \<Rightarrow> string \<Rightarrow> (u32 \<Rightarrow> 's \<Rightarrow> 's) \<Rightarrow> 's reader" where
  "int32_to p k = store (bson_read_int32 p k)"

definition bytes_to :: "u8 list option \<Rightarrow> string \<Rightarrow> nat \<Rightarrow> (u8 list \<Rightarrow> 's \<Rightarrow> 's) \<Rightarrow> 's reader" where
  "bytes_to p k n = store (bson_read_bytes p k n)"

definition array_to :: "u8 list option \<Rightarrow> string \<Rightarrow> nat \<Rightarrow> (u32 list \<Rightarrow> 's \<Rightarrow> 's) \<Rightarrow> 's reader" where
  "array_to p k n = store (bson_read_int32_array p k n)"

text \<open>A field that may be missing, with what the code does then.\<close>

definition optional :: "'s reader \<Rightarrow> ('s \<Rightarrow> 's) \<Rightarrow> 's reader" where
  "optional r dflt s = map_option (\<lambda>(ok, s). (True, if ok then s else dflt s)) (r s)"

text \<open>Reading into element \<open>i\<close> of an array of structures.\<close>

definition element :: "('s \<Rightarrow> 'c list) \<Rightarrow> ('c list \<Rightarrow> 's \<Rightarrow> 's) \<Rightarrow> nat \<Rightarrow> 'c reader \<Rightarrow> 's reader" where
  "element get put i r s = do {
     c \<leftarrow> arr_get (get s) i;
     (ok, c) \<leftarrow> r c;
     Some (ok, put ((get s)[i := c]) s) }"

fun contains_all :: "u8 list \<Rightarrow> string list \<Rightarrow> u8 \<Rightarrow> bool option" where
  "contains_all p [] tp = Some True"
| "contains_all p (k # ks) tp = do {
     b \<leftarrow> bson_contains_key p k tp;
     if b then contains_all p ks tp else Some False }"

text \<open>A document that must be there: the check or the read fails without it.\<close>

definition with_doc :: "u8 list option option \<Rightarrow> 'r \<Rightarrow> (u8 list \<Rightarrow> 'r option) \<Rightarrow> 'r option" where
  "with_doc r missing body = do { p \<leftarrow> r; (case p of None \<Rightarrow> Some missing | Some q \<Rightarrow> body q) }"

definition check_both :: "bool option \<Rightarrow> bool option \<Rightarrow> bool option" where
  "check_both a b = do { x \<leftarrow> a; if x then b else Some False }"

definition digit_name :: "nat \<Rightarrow> string" where
  "digit_name i = [char_of (48 + i)]"

section \<open>Processor\<close>

definition cpu_check_savestate :: "u8 list \<Rightarrow> bool option" where
  "cpu_check_savestate src = with_doc (bson_find_key src ''cpu'') False (\<lambda>p.
     check_both (contains_all p [''bus-value''] BSON_TYPE_INT32)
       (contains_all p [''regs'', ''spsr'', ''regmod''] BSON_TYPE_ARR))"

definition cpu_read_savestate :: "u8 list \<Rightarrow> cpu_state reader" where
  "cpu_read_savestate src s = do {
     p \<leftarrow> bson_find_key src ''cpu'';
     all_of [
       int32_to p ''bus-value'' (\<lambda>v s. s\<lparr>bus_value := v\<rparr>),
       array_to p ''regs'' 19 (\<lambda>v s. s\<lparr>regs := v\<rparr>),
       array_to p ''spsr'' 6 (\<lambda>v s. s\<lparr>spsr := v\<rparr>),
       array_to p ''regmod'' (7 * 7) (\<lambda>v s. s\<lparr>reg_mode := v\<rparr>)] s }"

definition cpu_write_savestate :: "cpu_state \<Rightarrow> field list" where
  "cpu_write_savestate s = [FDoc ''cpu'' [
     FArr ''regs'' (regs s), FArr ''spsr'' (spsr s), FArr ''regmod'' (reg_mode s),
     FInt ''bus-value'' (bus_value s)]]"

section \<open>Input\<close>

definition input_check_savestate :: "u8 list \<Rightarrow> bool option" where
  "input_check_savestate src = with_doc (bson_find_key src ''input'') False (\<lambda>p.
     bson_contains_key p ''prevkey'' BSON_TYPE_INT32)"

definition input_read_savestate :: "u8 list \<Rightarrow> input_state reader" where
  "input_read_savestate src s = with_doc (bson_find_key src ''input'') (False, s) (\<lambda>p.
     all_of [
       int32_to (Some p) ''prevkey'' (\<lambda>v s. s\<lparr>old_key := v\<rparr>),
       optional (int32_to (Some p) ''turbo-a'' (\<lambda>v s. s\<lparr>turbo_a_counter := v\<rparr>)) (\<lambda>s. s\<lparr>turbo_a_counter := 0\<rparr>),
       optional (int32_to (Some p) ''turbo-b'' (\<lambda>v s. s\<lparr>turbo_b_counter := v\<rparr>)) (\<lambda>s. s\<lparr>turbo_b_counter := 0\<rparr>),
       optional (int32_to (Some p) ''gbp-frames'' (\<lambda>v s. s\<lparr>gbp_keypad_frames := v\<rparr>)) (\<lambda>s. s\<lparr>gbp_keypad_frames := 0\<rparr>),
       optional (int32_to (Some p) ''gbp-sent'' (\<lambda>v s. s\<lparr>gbp_keypad_sent := (v \<noteq> 0)\<rparr>)) (\<lambda>s. s\<lparr>gbp_keypad_sent := False\<rparr>)] s)"

definition input_write_savestate :: "input_state \<Rightarrow> field list" where
  "input_write_savestate s = [FDoc ''input'' [
     FInt ''prevkey'' (old_key s), FInt ''turbo-a'' (turbo_a_counter s), FInt ''turbo-b'' (turbo_b_counter s),
     FInt ''gbp-frames'' (gbp_keypad_frames s), FInt ''gbp-sent'' (if gbp_keypad_sent s then 1 else 0)]]"

section \<open>Main loop and timers\<close>

definition timer_vars :: "string list" where
  "timer_vars = [''count'', ''reload'', ''prescale'', ''freq-step'', ''dsc'', ''irq'', ''status'']"

fun timers_check :: "u8 list \<Rightarrow> nat list \<Rightarrow> bool option" where
  "timers_check p [] = Some True"
| "timers_check p (i # is) = with_doc (bson_find_key p (digit_name i)) False (\<lambda>q.
     check_both (contains_all q timer_vars BSON_TYPE_INT32) (timers_check p is))"

definition main_check_savestate :: "u8 list \<Rightarrow> bool option" where
  "main_check_savestate src = do {
     p1 \<leftarrow> bson_find_key src ''emu'';
     p2 \<leftarrow> bson_find_key src ''timers'';
     (case (p1, p2) of
        (Some q1, Some q2) \<Rightarrow>
          check_both (contains_all q1 [''cpu-ticks'', ''exec-cycles'', ''video-count'', ''sleep-cycles''] BSON_TYPE_INT32)
            (timers_check q2 [0, 1, 2, 3])
      | _ \<Rightarrow> Some False) }"

definition timer_read :: "u8 list option \<Rightarrow> timer_type reader" where
  "timer_read p = all_of [
     int32_to p ''count'' (\<lambda>v t. t\<lparr>tm_count := v\<rparr>),
     int32_to p ''reload'' (\<lambda>v t. t\<lparr>tm_reload := v\<rparr>),
     int32_to p ''prescale'' (\<lambda>v t. t\<lparr>tm_prescale := v\<rparr>),
     int32_to p ''freq-step'' (\<lambda>v t. t\<lparr>tm_frequency_step := v\<rparr>),
     int32_to p ''dsc'' (\<lambda>v t. t\<lparr>tm_direct_sound_channels := v\<rparr>),
     int32_to p ''irq'' (\<lambda>v t. t\<lparr>tm_irq := v\<rparr>),
     int32_to p ''status'' (\<lambda>v t. t\<lparr>tm_status := v\<rparr>)]"

definition timer_fields :: "timer_type \<Rightarrow> field list" where
  "timer_fields t = [
     FInt ''count'' (tm_count t), FInt ''reload'' (tm_reload t), FInt ''prescale'' (tm_prescale t),
     FInt ''freq-step'' (tm_frequency_step t), FInt ''dsc'' (tm_direct_sound_channels t),
     FInt ''irq'' (tm_irq t), FInt ''status'' (tm_status t)]"

definition nth_timer :: "u8 list \<Rightarrow> nat \<Rightarrow> main_state reader" where
  "nth_timer p2 i s = do {
     p \<leftarrow> bson_find_key p2 (digit_name i);
     element timers (\<lambda>v s. s\<lparr>timers := v\<rparr>) i (timer_read p) s }"

definition main_read_savestate :: "u8 list \<Rightarrow> main_state reader" where
  "main_read_savestate src s = do {
     p1 \<leftarrow> bson_find_key src ''emu'';
     p2 \<leftarrow> bson_find_key src ''timers'';
     (case (p1, p2) of
        (Some q1, Some q2) \<Rightarrow> all_of [
          int32_to p1 ''cpu-ticks'' (\<lambda>v s. s\<lparr>cpu_ticks := v\<rparr>),
          int32_to p1 ''exec-cycles'' (\<lambda>v s. s\<lparr>execute_cycles := v\<rparr>),
          int32_to p1 ''video-count'' (\<lambda>v s. s\<lparr>video_count := v\<rparr>),
          int32_to p1 ''sleep-cycles'' (\<lambda>v s. s\<lparr>sleep_cycles := v\<rparr>),
          optional (int32_to p1 ''frame-count'' (\<lambda>v s. s\<lparr>frame_counter := v\<rparr>)) (\<lambda>s. s\<lparr>frame_counter := 60 * 10\<rparr>),
          optional (int32_to p1 ''serial-irq-cycles'' (\<lambda>v s. s\<lparr>irq_cycles := v\<rparr>)) (\<lambda>s. s\<lparr>irq_cycles := 0\<rparr>),
          optional (int32_to p1 ''rand-state'' (\<lambda>v s. s\<lparr>random_state := v\<rparr>)) (\<lambda>s. s),
          optional (int32_to p1 ''gbp-state'' (\<lambda>v s. s\<lparr>gbp_dev := gbp_set_state v\<rparr>)) (\<lambda>s. s),
          nth_timer q2 0, nth_timer q2 1, nth_timer q2 2, nth_timer q2 3] s
      | _ \<Rightarrow> Some (False, s)) }"

definition main_write_savestate :: "main_state \<Rightarrow> field list" where
  "main_write_savestate s = [
     FDoc ''emu'' [
       FInt ''frame-count'' (frame_counter s), FInt ''cpu-ticks'' (cpu_ticks s),
       FInt ''exec-cycles'' (execute_cycles s), FInt ''video-count'' (video_count s),
       FInt ''sleep-cycles'' (sleep_cycles s), FInt ''serial-irq-cycles'' (irq_cycles s),
       FInt ''rand-state'' (random_state s), FInt ''gbp-state'' (gbp_get_state (gbp_dev s))],
     FDoc ''timers'' (map (\<lambda>i. FDoc (digit_name i) (timer_fields (timers s ! i))) [0, 1, 2, 3])]"

section \<open>Memories, backup and DMA\<close>

definition backup_vars :: "string list" where
  "backup_vars = [''backup-type'', ''flash-mode'', ''flash-cmd-pos'', ''flash-bank-num'', ''flash-dev-id'',
     ''flash-size'', ''eeprom-size'', ''eeprom-mode'', ''eeprom-addr'', ''eeprom-counter'',
     ''rtc-state'', ''rtc-write-mode'', ''rtc-cmd'', ''rtc-status'', ''rtc-data-bit-cnt'', ''rtc-bit-cnt'']"

definition dma_vars :: "string list" where
  "dma_vars = [''src-addr'', ''dst-addr'', ''src-dir'', ''dst-dir'', ''len'', ''size'', ''repeat'', ''start'', ''dsc'', ''irq'']"

text \<open>
  The loop over the channels. The code uses the same variable \<^verbatim>\<open>i\<close> for the inner loop over
  the names, so the outer loop goes on from the number of names.
\<close>

function dma_check :: "u8 list \<Rightarrow> nat \<Rightarrow> bool option" where
  "dma_check doc i =
     (if i < 4 then with_doc (bson_find_key doc (digit_name i)) False (\<lambda>p.
        check_both (contains_all p dma_vars BSON_TYPE_INT32) (dma_check doc (length dma_vars + 1)))
      else Some True)"
  by pat_completeness auto
termination by (relation "measure (\<lambda>(doc, i). 4 - i)") (auto simp: dma_vars_def)

definition memory_check_savestate :: "u8 list \<Rightarrow> bool option" where
  "memory_check_savestate src = do {
     memdoc \<leftarrow> bson_find_key src ''memory'';
     bakdoc \<leftarrow> bson_find_key src ''backup'';
     dmadoc \<leftarrow> bson_find_key src ''dma'';
     (case (memdoc, bakdoc, dmadoc) of
        (Some m, Some b, Some d) \<Rightarrow>
          check_both (contains_all m [''iwram'', ''ewram'', ''vram'', ''oamram'', ''palram'', ''ioregs''] BSON_TYPE_BIN)
          (check_both (contains_all m [''dma-bus''] BSON_TYPE_INT32)
          (check_both (contains_all b backup_vars BSON_TYPE_INT32)
          (check_both (contains_all b [''gpio-regs''] BSON_TYPE_BIN)
          (check_both (contains_all b [''rtc-data-words''] BSON_TYPE_ARR)
            (dma_check d 0)))))
      | _ \<Rightarrow> Some False) }"

definition dma_read :: "u8 list option \<Rightarrow> dma_transfer reader" where
  "dma_read p = all_of [
     int32_to p ''src-addr'' (\<lambda>v d. d\<lparr>source_address := v\<rparr>),
     int32_to p ''dst-addr'' (\<lambda>v d. d\<lparr>dest_address := v\<rparr>),
     int32_to p ''src-dir'' (\<lambda>v d. d\<lparr>source_direction := v\<rparr>),
     int32_to p ''dst-dir'' (\<lambda>v d. d\<lparr>dest_direction := v\<rparr>),
     int32_to p ''len'' (\<lambda>v d. d\<lparr>dma_length := v\<rparr>),
     int32_to p ''size'' (\<lambda>v d. d\<lparr>length_type := v\<rparr>),
     int32_to p ''repeat'' (\<lambda>v d. d\<lparr>repeat_type := v\<rparr>),
     int32_to p ''start'' (\<lambda>v d. d\<lparr>start_type := v\<rparr>),
     int32_to p ''dsc'' (\<lambda>v d. d\<lparr>direct_sound_chan := v\<rparr>),
     int32_to p ''irq'' (\<lambda>v d. d\<lparr>dma_irq := v\<rparr>)]"

definition dma_fields :: "dma_transfer \<Rightarrow> field list" where
  "dma_fields d = [
     FInt ''src-addr'' (source_address d), FInt ''dst-addr'' (dest_address d),
     FInt ''src-dir'' (source_direction d), FInt ''dst-dir'' (dest_direction d),
     FInt ''len'' (dma_length d), FInt ''size'' (length_type d), FInt ''repeat'' (repeat_type d),
     FInt ''start'' (start_type d), FInt ''dsc'' (direct_sound_chan d), FInt ''irq'' (dma_irq d)]"

definition nth_dma :: "u8 list \<Rightarrow> nat \<Rightarrow> memory_state reader" where
  "nth_dma dmadoc i s = do {
     p \<leftarrow> bson_find_key dmadoc (digit_name i);
     element dma_channels (\<lambda>v s. s\<lparr>dma_channels := v\<rparr>) i (dma_read p) s }"

text \<open>Two 32-bit words as one 64-bit word, low word first.\<close>

definition words64 :: "u32 list \<Rightarrow> 64 word" where
  "words64 ws = ucast (ws ! 0) OR push_bit 32 (ucast (ws ! 1))"

definition split64 :: "64 word \<Rightarrow> u32 list" where
  "split64 w = [ucast w, ucast (drop_bit 32 w)]"

definition memory_read_savestate :: "u8 list \<Rightarrow> memory_state reader" where
  "memory_read_savestate src s = do {
     memdoc \<leftarrow> bson_find_key src ''memory'';
     bakdoc \<leftarrow> bson_find_key src ''backup'';
     dmadoc \<leftarrow> bson_find_key src ''dma'';
     (case (memdoc, bakdoc, dmadoc) of
        (Some m, Some b, Some d) \<Rightarrow> do {
          (ok, s) \<leftarrow> all_of [
            bytes_to memdoc ''iwram'' 0x8000 (\<lambda>v s. s\<lparr>iwram := v\<rparr>),
            bytes_to memdoc ''ewram'' 0x40000 (\<lambda>v s. s\<lparr>ewram := v\<rparr>),
            bytes_to memdoc ''vram'' 0x18000 (\<lambda>v s. s\<lparr>vram := v\<rparr>),
            bytes_to memdoc ''oamram'' 1024 (\<lambda>v s. s\<lparr>oam_ram := v\<rparr>),
            bytes_to memdoc ''palram'' 1024 (\<lambda>v s. s\<lparr>palette_ram := v\<rparr>),
            bytes_to memdoc ''ioregs'' 1024 (\<lambda>v s. s\<lparr>io_registers := v\<rparr>),
            int32_to memdoc ''dma-bus'' (\<lambda>v s. s\<lparr>dma_bus_val := v\<rparr>),
            int32_to bakdoc ''backup-type'' (\<lambda>v s. s\<lparr>v_backup_type := v\<rparr>),
            int32_to bakdoc ''flash-mode'' (\<lambda>v s. s\<lparr>v_flash_mode := v\<rparr>),
            int32_to bakdoc ''flash-cmd-pos'' (\<lambda>v s. s\<lparr>v_flash_command_position := v\<rparr>),
            int32_to bakdoc ''flash-bank-num'' (\<lambda>v s. s\<lparr>v_flash_bank_num := v\<rparr>),
            int32_to bakdoc ''flash-dev-id'' (\<lambda>v s. s\<lparr>v_flash_device_id := v\<rparr>),
            int32_to bakdoc ''flash-size'' (\<lambda>v s. s\<lparr>v_flash_bank_cnt := v\<rparr>),
            int32_to bakdoc ''eeprom-size'' (\<lambda>v s. s\<lparr>v_eeprom_size := v\<rparr>),
            int32_to bakdoc ''eeprom-mode'' (\<lambda>v s. s\<lparr>v_eeprom_mode := v\<rparr>),
            int32_to bakdoc ''eeprom-addr'' (\<lambda>v s. s\<lparr>v_eeprom_address := v\<rparr>),
            int32_to bakdoc ''eeprom-counter'' (\<lambda>v s. s\<lparr>v_eeprom_counter := v\<rparr>),
            bytes_to bakdoc ''gpio-regs'' 3 (\<lambda>v s. s\<lparr>v_gpio_regs := v\<rparr>),
            int32_to bakdoc ''rtc-state'' (\<lambda>v s. s\<lparr>v_rtc_state := v\<rparr>),
            int32_to bakdoc ''rtc-write-mode'' (\<lambda>v s. s\<lparr>v_rtc_write_mode := v\<rparr>),
            int32_to bakdoc ''rtc-cmd'' (\<lambda>v s. s\<lparr>v_rtc_command := v\<rparr>),
            int32_to bakdoc ''rtc-status'' (\<lambda>v s. s\<lparr>v_rtc_status := v\<rparr>),
            int32_to bakdoc ''rtc-data-bit-cnt'' (\<lambda>v s. s\<lparr>v_rtc_data_bits := v\<rparr>),
            int32_to bakdoc ''rtc-bit-cnt'' (\<lambda>v s. s\<lparr>v_rtc_bit_count := v\<rparr>)] s;
          if \<not> ok then Some (False, s)
          else do {
            r \<leftarrow> bson_read_int32_array bakdoc ''rtc-data-words'' 2;
            (case r of
               None \<Rightarrow> Some (False, s)
             | Some rtc_data_array \<Rightarrow> do {
                 (ok, s) \<leftarrow> all_of [
                   optional (array_to bakdoc ''rtc-base-time'' 2 (\<lambda>v s. s\<lparr>v_rtc_base_time := words64 v\<rparr>)) (\<lambda>s. s),
                   nth_dma d 0, nth_dma d 1, nth_dma d 2, nth_dma d 3] s;
                 Some (ok, if ok then s\<lparr>v_rtc_data := words64 rtc_data_array\<rparr> else s) }) } }
      | _ \<Rightarrow> Some (False, s)) }"

definition memory_write_savestate :: "memory_state \<Rightarrow> field list" where
  "memory_write_savestate s = [
     FDoc ''memory'' [
       FBytes ''iwram'' (iwram s), FBytes ''ewram'' (ewram s), FBytes ''vram'' (vram s),
       FBytes ''oamram'' (oam_ram s), FBytes ''palram'' (palette_ram s),
       FBytes ''ioregs'' (io_registers s), FInt ''dma-bus'' (dma_bus_val s)],
     FDoc ''backup'' [
       FInt ''backup-type'' (v_backup_type s), FInt ''flash-mode'' (v_flash_mode s),
       FInt ''flash-cmd-pos'' (v_flash_command_position s), FInt ''flash-bank-num'' (v_flash_bank_num s),
       FInt ''flash-dev-id'' (v_flash_device_id s), FInt ''flash-size'' (v_flash_bank_cnt s),
       FInt ''eeprom-size'' (v_eeprom_size s), FInt ''eeprom-mode'' (v_eeprom_mode s),
       FInt ''eeprom-addr'' (v_eeprom_address s), FInt ''eeprom-counter'' (v_eeprom_counter s),
       FBytes ''gpio-regs'' (v_gpio_regs s), FInt ''rtc-state'' (v_rtc_state s),
       FInt ''rtc-write-mode'' (v_rtc_write_mode s), FInt ''rtc-cmd'' (v_rtc_command s),
       FInt ''rtc-status'' (v_rtc_status s), FInt ''rtc-data-bit-cnt'' (v_rtc_data_bits s),
       FInt ''rtc-bit-cnt'' (v_rtc_bit_count s), FArr ''rtc-data-words'' (split64 (v_rtc_data s)),
       FArr ''rtc-base-time'' (split64 (v_rtc_base_time s))],
     FDoc ''dma'' (map (\<lambda>i. FDoc (digit_name i) (dma_fields (dma_channels s ! i))) [0, 1, 2, 3])]"

section \<open>Sound\<close>

definition ds_vars :: "string list" where
  "ds_vars = [''status'', ''volume'', ''fifo-base'', ''fifo-top'', ''fifo-frac'', ''buf-idx'']"

definition gs_vars :: "string list" where
  "gs_vars = [''status'', ''rate'', ''freq-step'', ''sample-idx'', ''tick-cnt'', ''volume'',
     ''active'', ''enable'', ''env-vol0'', ''env-vol'', ''env-dir'', ''env-status'',
     ''env-ticks0'', ''env-ticks'', ''sweep-status'', ''sweep-dir'', ''sweep-ticks0'',
     ''sweep-ticks'', ''sweep-shift'', ''wav-type'', ''wav-bank'', ''wav-vol'',
     ''len-status'', ''len-ticks'', ''noise-type'', ''sample-tbl'']"

text \<open>Both channel loops share their variable with the inner loop, as the DMA loop does.\<close>

function ds_check :: "u8 list \<Rightarrow> nat \<Rightarrow> bool option" where
  "ds_check doc i =
     (if i < 2 then with_doc (bson_find_key doc (''ds'' @ digit_name i)) False (\<lambda>p.
        check_both (contains_all p ds_vars BSON_TYPE_INT32)
        (check_both (contains_all p [''fifo-bytes''] BSON_TYPE_BIN) (ds_check doc (length ds_vars + 1))))
      else Some True)"
  by pat_completeness auto
termination by (relation "measure (\<lambda>(doc, i). 2 - i)") (auto simp: ds_vars_def)

function gs_check :: "u8 list \<Rightarrow> nat \<Rightarrow> bool option" where
  "gs_check doc i =
     (if i < 4 then with_doc (bson_find_key doc (''gs'' @ digit_name i)) False (\<lambda>p.
        check_both (contains_all p gs_vars BSON_TYPE_INT32) (gs_check doc (length gs_vars + 1)))
      else Some True)"
  by pat_completeness auto
termination by (relation "measure (\<lambda>(doc, i). 4 - i)") (auto simp: gs_vars_def)

definition sound_check_savestate :: "u8 list \<Rightarrow> bool option" where
  "sound_check_savestate src = with_doc (bson_find_key src ''sound'') False (\<lambda>p.
     check_both (contains_all p [''on'', ''buf-base'', ''gbc-buf-idx'', ''gbc-last-cpu-ticks'',
        ''gbc-partial-ticks'', ''gbc-ms-vol-left'', ''gbc-ms-vol-right'', ''gbc-ms-vol''] BSON_TYPE_INT32)
     (check_both (contains_all p [''wav-samples''] BSON_TYPE_BIN)
     (check_both (ds_check p 0) (gs_check p 0))))"

definition ds_read :: "u8 list option \<Rightarrow> direct_sound reader" where
  "ds_read p = all_of [
     int32_to p ''status'' (\<lambda>v c. c\<lparr>ds_status := v\<rparr>),
     int32_to p ''volume'' (\<lambda>v c. c\<lparr>volume_halve := v\<rparr>),
     int32_to p ''fifo-base'' (\<lambda>v c. c\<lparr>fifo_base := v\<rparr>),
     int32_to p ''fifo-top'' (\<lambda>v c. c\<lparr>fifo_top := v\<rparr>),
     int32_to p ''fifo-frac'' (\<lambda>v c. c\<lparr>fifo_fractional := v\<rparr>),
     bytes_to p ''fifo-bytes'' 32 (\<lambda>v c. c\<lparr>fifo := v\<rparr>),
     int32_to p ''buf-idx'' (\<lambda>v c. c\<lparr>buffer_index := v\<rparr>)]"

definition ds_fields :: "direct_sound \<Rightarrow> field list" where
  "ds_fields c = [
     FInt ''status'' (ds_status c), FInt ''volume'' (volume_halve c), FInt ''fifo-base'' (fifo_base c),
     FInt ''fifo-top'' (fifo_top c), FInt ''fifo-frac'' (fifo_fractional c),
     FBytes ''fifo-bytes'' (fifo c), FInt ''buf-idx'' (buffer_index c)]"

definition gs_read :: "u8 list option \<Rightarrow> gbc_sound reader" where
  "gs_read p = all_of [
     int32_to p ''status'' (\<lambda>v c. c\<lparr>gs_status := v\<rparr>),
     int32_to p ''rate'' (\<lambda>v c. c\<lparr>rate := v\<rparr>),
     int32_to p ''freq-step'' (\<lambda>v c. c\<lparr>frequency_step := v\<rparr>),
     int32_to p ''sample-idx'' (\<lambda>v c. c\<lparr>sample_index := v\<rparr>),
     int32_to p ''tick-cnt'' (\<lambda>v c. c\<lparr>tick_counter := v\<rparr>),
     int32_to p ''volume'' (\<lambda>v c. c\<lparr>total_volume := v\<rparr>),
     int32_to p ''active'' (\<lambda>v c. c\<lparr>active_flag := v\<rparr>),
     int32_to p ''enable'' (\<lambda>v c. c\<lparr>master_enable := v\<rparr>),
     int32_to p ''env-vol0'' (\<lambda>v c. c\<lparr>envelope_initial_volume := v\<rparr>),
     int32_to p ''env-vol'' (\<lambda>v c. c\<lparr>envelope_volume := v\<rparr>),
     int32_to p ''env-dir'' (\<lambda>v c. c\<lparr>envelope_direction := v\<rparr>),
     int32_to p ''env-status'' (\<lambda>v c. c\<lparr>envelope_status := v\<rparr>),
     int32_to p ''env-ticks0'' (\<lambda>v c. c\<lparr>envelope_initial_ticks := v\<rparr>),
     int32_to p ''env-ticks'' (\<lambda>v c. c\<lparr>envelope_ticks := v\<rparr>),
     int32_to p ''sweep-status'' (\<lambda>v c. c\<lparr>sweep_status := v\<rparr>),
     int32_to p ''sweep-dir'' (\<lambda>v c. c\<lparr>sweep_direction := v\<rparr>),
     int32_to p ''sweep-ticks0'' (\<lambda>v c. c\<lparr>sweep_initial_ticks := v\<rparr>),
     int32_to p ''sweep-ticks'' (\<lambda>v c. c\<lparr>sweep_ticks := v\<rparr>),
     int32_to p ''sweep-shift'' (\<lambda>v c. c\<lparr>sweep_shift := v\<rparr>),
     int32_to p ''wav-type'' (\<lambda>v c. c\<lparr>wave_type := v\<rparr>),
     int32_to p ''wav-bank'' (\<lambda>v c. c\<lparr>wave_bank := v\<rparr>),
     int32_to p ''wav-vol'' (\<lambda>v c. c\<lparr>wave_volume := v\<rparr>),
     int32_to p ''len-status'' (\<lambda>v c. c\<lparr>length_status := v\<rparr>),
     int32_to p ''len-ticks'' (\<lambda>v c. c\<lparr>length_ticks := v\<rparr>),
     int32_to p ''noise-type'' (\<lambda>v c. c\<lparr>noise_type := v\<rparr>),
     int32_to p ''sample-tbl'' (\<lambda>v c. c\<lparr>sample_table_idx := v\<rparr>)]"

definition gs_fields :: "gbc_sound \<Rightarrow> field list" where
  "gs_fields c = [
     FInt ''status'' (gs_status c), FInt ''rate'' (rate c), FInt ''freq-step'' (frequency_step c),
     FInt ''sample-idx'' (sample_index c), FInt ''tick-cnt'' (tick_counter c), FInt ''volume'' (total_volume c),
     FInt ''active'' (active_flag c), FInt ''enable'' (master_enable c),
     FInt ''env-vol0'' (envelope_initial_volume c), FInt ''env-vol'' (envelope_volume c),
     FInt ''env-dir'' (envelope_direction c), FInt ''env-status'' (envelope_status c),
     FInt ''env-ticks0'' (envelope_initial_ticks c), FInt ''env-ticks'' (envelope_ticks c),
     FInt ''sweep-status'' (sweep_status c), FInt ''sweep-dir'' (sweep_direction c),
     FInt ''sweep-ticks0'' (sweep_initial_ticks c), FInt ''sweep-ticks'' (sweep_ticks c),
     FInt ''sweep-shift'' (sweep_shift c), FInt ''wav-type'' (wave_type c),
     FInt ''wav-bank'' (wave_bank c), FInt ''wav-vol'' (wave_volume c),
     FInt ''len-status'' (length_status c), FInt ''len-ticks'' (length_ticks c),
     FInt ''noise-type'' (noise_type c), FInt ''sample-tbl'' (sample_table_idx c), FInt ''env-step'' 0]"

definition nth_ds :: "u8 list option \<Rightarrow> nat \<Rightarrow> sound_state reader" where
  "nth_ds snddoc i s = do {
     p \<leftarrow> find_in snddoc (''ds'' @ digit_name i);
     element direct_sound_channel (\<lambda>v s. s\<lparr>direct_sound_channel := v\<rparr>) i (ds_read p) s }"

definition nth_gs :: "u8 list option \<Rightarrow> nat \<Rightarrow> sound_state reader" where
  "nth_gs snddoc i s = do {
     p \<leftarrow> find_in snddoc (''gs'' @ digit_name i);
     element gbc_sound_channel (\<lambda>v s. s\<lparr>gbc_sound_channel := v\<rparr>) i (gs_read p) s }"

definition sound_read_savestate :: "u8 list \<Rightarrow> sound_state reader" where
  "sound_read_savestate src s = do {
     p \<leftarrow> bson_find_key src ''sound'';
     all_of [
       int32_to p ''on'' (\<lambda>v s. s\<lparr>sound_on := v\<rparr>),
       int32_to p ''buf-base'' (\<lambda>v s. s\<lparr>sound_buffer_base := v\<rparr>),
       int32_to p ''gbc-buf-idx'' (\<lambda>v s. s\<lparr>gbc_sound_buffer_index := v\<rparr>),
       int32_to p ''gbc-last-cpu-ticks'' (\<lambda>v s. s\<lparr>gbc_sound_last_cpu_ticks := v\<rparr>),
       int32_to p ''gbc-partial-ticks'' (\<lambda>v s. s\<lparr>gbc_sound_partial_ticks := v\<rparr>),
       int32_to p ''gbc-ms-vol-left'' (\<lambda>v s. s\<lparr>gbc_sound_master_volume_left := v\<rparr>),
       int32_to p ''gbc-ms-vol-right'' (\<lambda>v s. s\<lparr>gbc_sound_master_volume_right := v\<rparr>),
       int32_to p ''gbc-ms-vol'' (\<lambda>v s. s\<lparr>gbc_sound_master_volume := v\<rparr>),
       bytes_to p ''wav-samples'' 64 (\<lambda>v s. s\<lparr>wave_samples := v\<rparr>),
       nth_ds p 0, nth_ds p 1,
       nth_gs p 0, nth_gs p 1, nth_gs p 2, nth_gs p 3]
     (s\<lparr>sound_buffer := replicate BUFFER_SIZE 0\<rparr>) }"

definition sound_write_savestate :: "sound_state \<Rightarrow> field list" where
  "sound_write_savestate s = [FDoc ''sound'' ([
     FInt ''on'' (sound_on s), FInt ''buf-base'' (sound_buffer_base s),
     FInt ''gbc-buf-idx'' (gbc_sound_buffer_index s),
     FInt ''gbc-last-cpu-ticks'' (gbc_sound_last_cpu_ticks s),
     FInt ''gbc-partial-ticks'' (gbc_sound_partial_ticks s),
     FInt ''gbc-ms-vol-left'' (gbc_sound_master_volume_left s),
     FInt ''gbc-ms-vol-right'' (gbc_sound_master_volume_right s),
     FInt ''gbc-ms-vol'' (gbc_sound_master_volume s), FBytes ''wav-samples'' (wave_samples s)]
     @ map (\<lambda>i. FDoc (''ds'' @ digit_name i) (ds_fields (direct_sound_channel s ! i))) [0, 1]
     @ map (\<lambda>i. FDoc (''gs'' @ digit_name i) (gs_fields (gbc_sound_channel s ! i))) [0, 1, 2, 3])]"

section \<open>The whole state\<close>

abbreviation (input) GBA_STATE_MEM_SIZE :: nat where "GBA_STATE_MEM_SIZE \<equiv> 425984"
abbreviation (input) GBA_STATE_MAGIC :: u32 where "GBA_STATE_MAGIC \<equiv> 0x06BAC0DE"
abbreviation (input) GBA_STATE_VERSION :: u32 where "GBA_STATE_VERSION \<equiv> 0x00010004"

text \<open>\<open>dst\<close> is what the buffer held before: it shows through in the padding field.\<close>

definition state_fields :: "machine \<Rightarrow> field list" where
  "state_fields s =
     [FInt ''info-magic'' GBA_STATE_MAGIC, FInt ''info-version'' GBA_STATE_VERSION]
       @ cpu_write_savestate (m_cpu s) @ input_write_savestate (m_input s) @ main_write_savestate (m_main s)
       @ memory_write_savestate (m_memory s) @ sound_write_savestate (m_sound s)"

definition gba_save_state :: "machine \<Rightarrow> u8 list \<Rightarrow> u8 list" where
  "gba_save_state s dst =
     (let wr = 4 + length (concat (map enc (state_fields s)));
          padsize = GBA_STATE_MEM_SIZE - wr - (1 + 9 + 4 + 1 + 1)
      in enc_doc (state_fields s @ [FBytes ''zpadding'' (take padsize (drop (wr + 15) dst))]))"

definition check_sections :: "u8 list \<Rightarrow> bool option" where
  "check_sections src =
     check_both (cpu_check_savestate src) (check_both (input_check_savestate src)
     (check_both (main_check_savestate src) (check_both (memory_check_savestate src)
       (sound_check_savestate src))))"

definition section_to :: "('m \<Rightarrow> 's) \<Rightarrow> ('s \<Rightarrow> 'm \<Rightarrow> 'm) \<Rightarrow> 's reader \<Rightarrow> 'm reader" where
  "section_to get put r m = map_option (\<lambda>(ok, s). (ok, put s m)) (r (get m))"

definition read_sections :: "u8 list \<Rightarrow> machine reader" where
  "read_sections src = all_of [
     section_to m_cpu (\<lambda>v m. m\<lparr>m_cpu := v\<rparr>) (cpu_read_savestate src),
     section_to m_input (\<lambda>v m. m\<lparr>m_input := v\<rparr>) (input_read_savestate src),
     section_to m_main (\<lambda>v m. m\<lparr>m_main := v\<rparr>) (main_read_savestate src),
     section_to m_memory (\<lambda>v m. m\<lparr>m_memory := v\<rparr>) (memory_read_savestate src),
     section_to m_sound (\<lambda>v m. m\<lparr>m_sound := v\<rparr>) (sound_read_savestate src)]"

definition has_int32 :: "u8 list \<Rightarrow> string \<Rightarrow> u32 \<Rightarrow> bool option" where
  "has_int32 src k v = map_option (\<lambda>r. r = Some v) (bson_read_int32 (Some src) k)"

definition gba_load_state :: "u8 list \<Rightarrow> machine reader" where
  "gba_load_state src s = do {
     docsize \<leftarrow> bson_read_u32 src;
     if unat docsize \<noteq> GBA_STATE_MEM_SIZE then Some (False, s)
     else do {
       valid \<leftarrow> check_both (has_int32 src ''info-magic'' GBA_STATE_MAGIC)
                 (check_both (has_int32 src ''info-version'' GBA_STATE_VERSION) (check_sections src));
       if valid then read_sections src s else Some (False, s) } }"

end
