(* ===== verification/SavestateProps.thy ===== *)
theory SavestateProps
  imports BsonProps Savestate SerialPortProps
begin

text \<open>
  Loading what was saved: each section of the state is found by its check and read back by
  its reader, which is the interface \<open>savestate_section\<close>; together they restore the machine.
\<close>

section \<open>Fields in a document\<close>

text \<open>\<open>holds src fs\<close>: the document at \<open>src\<close> holds all of the fields \<open>fs\<close>.\<close>

definition holds :: "u8 list \<Rightarrow> field list \<Rightarrow> bool" where
  "holds src fs \<longleftrightarrow> (\<forall>f \<in> set fs. has src f \<and> length (payload f) + 8 < 2 ^ 32)"

definition keys_ok :: "field list \<Rightarrow> bool" where
  "keys_ok fs \<longleftrightarrow> distinct (map field_key fs) \<and> (\<forall>f \<in> set fs. key_ok (field_key f))"

lemma holds_doc: "keys_ok fs \<Longrightarrow> length (enc_doc fs) + 8 < 2 ^ 32 \<Longrightarrow> holds (enc_doc fs @ r) fs"
proof -
  assume a: "keys_ok fs" "length (enc_doc fs) + 8 < 2 ^ 32"
  then have d: "doc_ok fs" by (simp add: doc_ok_def keys_ok_def)
  then show ?thesis
    using a has_doc [OF d] doc_ok_fields [OF d] by (simp add: holds_def keys_ok_def field_ok_def)
qed

lemma holds_append [simp]: "holds src (fs @ gs) \<longleftrightarrow> holds src fs \<and> holds src gs"
  by (auto simp: holds_def)

lemma holds_Cons [simp]: "holds src (f # fs) \<longleftrightarrow> has src f \<and> length (payload f) + 8 < 2 ^ 32 \<and> holds src fs"
  by (auto simp: holds_def)

lemma holds_Nil [simp]: "holds src []"
  by (simp add: holds_def)

lemma holds_sub:
  assumes "has src (FDoc k fs)" "length (payload (FDoc k fs)) + 8 < 2 ^ 32" "keys_ok fs"
  obtains p where "bson_find_key src k = Some (Some p)" "holds p fs"
proof -
  from find_doc_has [OF assms(1)] obtain r where r: "bson_find_key src k = Some (Some (enc_doc fs @ r))" by blast
  show ?thesis by (rule that [OF r]) (use assms in \<open>simp add: holds_doc\<close>)
qed

lemma digit_names [simp]:
  "digit_name 0 = ''0''" "digit_name (Suc 0) = ''1''" "digit_name 2 = ''2''" "digit_name 3 = ''3''"
  by (simp_all add: digit_name_def char_of_eq_iff take_bit_eq_mod)

section \<open>Readers\<close>

lemma int32_to_has [simp]: "has src (FInt k v) \<Longrightarrow> int32_to (Some src) k put s = Some (True, put v s)"
  by (simp add: int32_to_def store_def)

lemma bytes_to_has [simp]:
  "has src (FBytes k bs) \<Longrightarrow> length bs = n \<Longrightarrow> length bs < 2 ^ 32 \<Longrightarrow> bytes_to (Some src) k n put s = Some (True, put bs s)"
  by (simp add: bytes_to_def store_def)

lemma array_to_has [simp]:
  "has src (FArr k vs) \<Longrightarrow> length vs = n \<Longrightarrow> 5 + length vs * 8 < 2 ^ 32 \<Longrightarrow>
     array_to (Some src) k n put s = Some (True, put vs s)"
  by (simp add: array_to_def store_def)

lemma optional_True [simp]: "r s = Some (True, s') \<Longrightarrow> optional r d s = Some (True, s')"
  by (simp add: optional_def)

lemma element_ok:
  "i < length (get s) \<Longrightarrow> r (get s ! i) = Some (True, c) \<Longrightarrow>
     element get put i r s = Some (True, put ((get s)[i := c]) s)"
  by (simp add: element_def)

lemma check_both_True [simp]: "check_both (Some True) b = b"
  by (simp add: check_both_def)

lemma with_doc_Some [simp]: "with_doc (Some (Some p)) m body = body p"
  by (simp add: with_doc_def)

lemma with_doc_None [simp]: "with_doc (Some None) m body = Some m"
  by (simp add: with_doc_def)

lemma four_updates: "length xs = 4 \<Longrightarrow> length ys = 4 \<Longrightarrow> xs[0 := ys ! 0, Suc 0 := ys ! Suc 0, 2 := ys ! 2, 3 := ys ! 3] = ys"
  by (rule nth_equalityI) (auto simp: less_Suc_eq numeral_eq_Suc)

lemma two_updates: "length xs = 2 \<Longrightarrow> length ys = 2 \<Longrightarrow> xs[0 := ys ! 0, Suc 0 := ys ! Suc 0] = ys"
  by (rule nth_equalityI) (auto simp: less_Suc_eq numeral_eq_Suc)

section \<open>The interface of a section\<close>

locale savestate_section =
  fixes fields :: "'s \<Rightarrow> field list"
    and check :: "u8 list \<Rightarrow> bool option"
    and reader :: "u8 list \<Rightarrow> 's reader"
    and wf :: "'s \<Rightarrow> bool"
    and restored :: "'s \<Rightarrow> 's"
    and size :: nat
  assumes check_law: "wf s \<Longrightarrow> holds src (fields s) \<Longrightarrow> check src = Some True"
    and read_law: "wf s \<Longrightarrow> wf s0 \<Longrightarrow> holds src (fields s) \<Longrightarrow> reader src s0 = Some (True, restored s)"
    and size_law: "wf s \<Longrightarrow> length (concat (map enc (fields s))) = size"
begin

lemma load_section:
  "wf s \<Longrightarrow> wf (get m) \<Longrightarrow> holds src (fields s) \<Longrightarrow>
     section_to get put (reader src) m = Some (True, put (restored s) m)"
  by (simp add: section_to_def read_law)

lemma own_document:
  assumes "wf s" "keys_ok (fields s)" "size + 16 < 2 ^ 32"
  shows "check (enc_doc (fields s) @ r) = Some True \<and>
    (wf s0 \<longrightarrow> reader (enc_doc (fields s) @ r) s0 = Some (True, restored s))"
proof -
  have "holds (enc_doc (fields s) @ r) (fields s)"
    using assms size_law [of s] by (intro holds_doc) (simp_all add: enc_doc_def)
  with assms(1) show ?thesis by (simp add: check_law read_law)
qed

end

lemmas enc_lengths = bson_write_int32_def bson_write_bytes_def bson_write_int32array_def bson_document_def length_items

section \<open>Processor and input\<close>

interpretation cpu_section: savestate_section cpu_write_savestate cpu_check_savestate cpu_read_savestate cpu_wf "\<lambda>s. s" 652
proof
  fix s s0 src
  assume wf: "cpu_wf s" and wf0: "cpu_wf s0" and h: "holds src (cpu_write_savestate s)"
  obtain p where p: "bson_find_key src ''cpu'' = Some (Some p)"
    and f: "holds p [FArr ''regs'' (regs s), FArr ''spsr'' (spsr s), FArr ''regmod'' (reg_mode s), FInt ''bus-value'' (bus_value s)]"
    using h by (auto simp: cpu_write_savestate_def keys_ok_def key_ok_def elim: holds_sub)
  show "cpu_read_savestate src s0 = Some (True, s)"
    using p f wf by (clarsimp simp: cpu_read_savestate_def cpu_wf_def)
next
  fix s src
  assume wf: "cpu_wf s" and h: "holds src (cpu_write_savestate s)"
  obtain p where p: "bson_find_key src ''cpu'' = Some (Some p)"
    and f: "holds p [FArr ''regs'' (regs s), FArr ''spsr'' (spsr s), FArr ''regmod'' (reg_mode s), FInt ''bus-value'' (bus_value s)]"
    using h by (auto simp: cpu_write_savestate_def keys_ok_def key_ok_def elim: holds_sub)
  show "cpu_check_savestate src = Some True"
    using p f by (clarsimp simp: cpu_check_savestate_def)
next
  fix s assume "cpu_wf s"
  then show "length (concat (map enc (cpu_write_savestate s))) = 652"
    by (simp add: cpu_write_savestate_def cpu_wf_def enc_lengths)
qed

interpretation input_section: savestate_section input_write_savestate input_check_savestate input_read_savestate
  "\<lambda>s. True" "\<lambda>s. s" 81
proof
  fix s s0 src
  assume h: "holds src (input_write_savestate s)"
  obtain p where p: "bson_find_key src ''input'' = Some (Some p)"
    and f: "holds p [FInt ''prevkey'' (old_key s), FInt ''turbo-a'' (turbo_a_counter s), FInt ''turbo-b'' (turbo_b_counter s),
       FInt ''gbp-frames'' (gbp_keypad_frames s), FInt ''gbp-sent'' (if gbp_keypad_sent s then 1 else 0)]"
    using h by (auto simp: input_write_savestate_def keys_ok_def key_ok_def elim: holds_sub)
  show "input_read_savestate src s0 = Some (True, s)"
    using p f by (clarsimp simp: input_read_savestate_def)
  show "input_check_savestate src = Some True"
    using p f by (clarsimp simp: input_check_savestate_def)
next
  fix s show "length (concat (map enc (input_write_savestate s))) = 81"
    by (simp add: input_write_savestate_def enc_lengths)
qed

section \<open>Main loop and timers\<close>

lemma timer_read_ok: "holds p (timer_fields t) \<Longrightarrow> timer_read (Some p) t0 = Some (True, t)"
  by (clarsimp simp: timer_fields_def timer_read_def)

lemma timer_keys [simp]: "keys_ok (timer_fields t)"
  by (simp add: timer_fields_def keys_ok_def key_ok_def)

lemma timer_size [simp]: "length (concat (map enc (timer_fields t))) = 82"
  by (simp add: timer_fields_def enc_lengths)

lemma nth_timer_ok [simp]:
  assumes "has q (FDoc (digit_name i) (timer_fields t))" "i < length (timers s)"
  shows "nth_timer q i s = Some (True, s\<lparr>timers := (timers s)[i := t]\<rparr>)"
proof -
  obtain p where "bson_find_key q (digit_name i) = Some (Some p)" "holds p (timer_fields t)"
    using assms(1) by (rule holds_sub) (simp_all add: enc_doc_def)
  with assms(2) show ?thesis by (simp add: nth_timer_def element_ok timer_read_ok)
qed


lemma timer_found [simp]:
  assumes "has q (FDoc (digit_name i) (timer_fields t))"
  shows "timers_check q (i # is) = timers_check q is"
proof -
  obtain p where "bson_find_key q (digit_name i) = Some (Some p)" "holds p (timer_fields t)"
    using assms by (rule holds_sub) (simp_all add: enc_doc_def)
  then show ?thesis by (clarsimp simp: timer_vars_def timer_fields_def)
qed

interpretation main_section: savestate_section main_write_savestate main_check_savestate main_read_savestate
  main_wf "\<lambda>s. s" 521
proof
  fix s s0 :: main_state and src
  let ?emu = "[FInt ''frame-count'' (frame_counter s), FInt ''cpu-ticks'' (cpu_ticks s),
       FInt ''exec-cycles'' (execute_cycles s), FInt ''video-count'' (video_count s),
       FInt ''sleep-cycles'' (sleep_cycles s), FInt ''serial-irq-cycles'' (irq_cycles s),
       FInt ''rand-state'' (random_state s), FInt ''gbp-state'' (gbp_get_state (gbp_dev s))]"
  let ?tms = "map (\<lambda>i. FDoc (digit_name i) (timer_fields (timers s ! i))) [0, 1, 2, 3]"
  assume wf: "main_wf s" and wf0: "main_wf s0" and h: "holds src (main_write_savestate s)"
  obtain p q where p: "bson_find_key src ''emu'' = Some (Some p)" "holds p ?emu"
    and q: "bson_find_key src ''timers'' = Some (Some q)" "holds q ?tms"
    using h by (auto simp: main_write_savestate_def keys_ok_def key_ok_def elim!: holds_sub)
  show "main_read_savestate src s0 = Some (True, s)"
    using p q wf wf0 four_updates [of "timers s0" "timers s"]
    by (clarsimp simp: main_read_savestate_def main_wf_def gbp_state_roundtrip)
  show "main_check_savestate src = Some True"
    using p q by (clarsimp simp: main_check_savestate_def simp del: timers_check.simps(2))
next
  fix s assume "main_wf s"
  show "length (concat (map enc (main_write_savestate s))) = 521"
    by (simp add: main_write_savestate_def enc_lengths)
qed

section \<open>Memories, backup and DMA\<close>

lemma words64_split [simp]: "words64 (split64 w) = w"
  by (rule bit_word_eqI) (auto simp: words64_def split64_def bit_simps)

lemma length_split64 [simp]: "length (split64 w) = 2"
  by (simp add: split64_def)

lemma dma_read_ok: "holds p (dma_fields d) \<Longrightarrow> dma_read (Some p) d0 = Some (True, d)"
  by (clarsimp simp: dma_fields_def dma_read_def)

lemma dma_keys [simp]: "keys_ok (dma_fields d)"
  by (simp add: dma_fields_def keys_ok_def key_ok_def)

lemma dma_size [simp]: "length (concat (map enc (dma_fields d))) = 114"
  by (simp add: dma_fields_def enc_lengths)

lemma nth_dma_ok [simp]:
  assumes "has q (FDoc (digit_name i) (dma_fields d))" "i < length (dma_channels s)"
  shows "nth_dma q i s = Some (True, s\<lparr>dma_channels := (dma_channels s)[i := d]\<rparr>)"
proof -
  obtain p where "bson_find_key q (digit_name i) = Some (Some p)" "holds p (dma_fields d)"
    using assms(1) by (rule holds_sub) (simp_all add: enc_doc_def)
  with assms(2) show ?thesis by (simp add: nth_dma_def element_ok dma_read_ok)
qed

text \<open>The check of the channels is over after the first one.\<close>

lemma dma_check_ok:
  assumes "has q (FDoc (digit_name 0) (dma_fields d))"
  shows "dma_check q 0 = Some True"
proof -
  obtain p where "bson_find_key q (digit_name 0) = Some (Some p)" "holds p (dma_fields d)"
    using assms by (rule holds_sub) (simp_all add: enc_doc_def)
  then show ?thesis by (clarsimp simp: dma_fields_def dma_vars_def)
qed

definition memory_fields :: "memory_state \<Rightarrow> field list" where
  "memory_fields s = [
       FBytes ''iwram'' (iwram s), FBytes ''ewram'' (ewram s), FBytes ''vram'' (vram s),
       FBytes ''oamram'' (oam_ram s), FBytes ''palram'' (palette_ram s),
       FBytes ''ioregs'' (io_registers s), FInt ''dma-bus'' (dma_bus_val s)]"

definition backup_fields :: "memory_state \<Rightarrow> field list" where
  "backup_fields s = [
       FInt ''backup-type'' (v_backup_type s), FInt ''flash-mode'' (v_flash_mode s),
       FInt ''flash-cmd-pos'' (v_flash_command_position s), FInt ''flash-bank-num'' (v_flash_bank_num s),
       FInt ''flash-dev-id'' (v_flash_device_id s), FInt ''flash-size'' (v_flash_bank_cnt s),
       FInt ''eeprom-size'' (v_eeprom_size s), FInt ''eeprom-mode'' (v_eeprom_mode s),
       FInt ''eeprom-addr'' (v_eeprom_address s), FInt ''eeprom-counter'' (v_eeprom_counter s),
       FBytes ''gpio-regs'' (v_gpio_regs s), FInt ''rtc-state'' (v_rtc_state s),
       FInt ''rtc-write-mode'' (v_rtc_write_mode s), FInt ''rtc-cmd'' (v_rtc_command s),
       FInt ''rtc-status'' (v_rtc_status s), FInt ''rtc-data-bit-cnt'' (v_rtc_data_bits s),
       FInt ''rtc-bit-cnt'' (v_rtc_bit_count s), FArr ''rtc-data-words'' (split64 (v_rtc_data s)),
       FArr ''rtc-base-time'' (split64 (v_rtc_base_time s))]"

definition dma_docs :: "memory_state \<Rightarrow> field list" where
  "dma_docs s = map (\<lambda>i. FDoc (digit_name i) (dma_fields (dma_channels s ! i))) [0, 1, 2, 3]"

lemma memory_write_alt:
  "memory_write_savestate s =
     [FDoc ''memory'' (memory_fields s), FDoc ''backup'' (backup_fields s), FDoc ''dma'' (dma_docs s)]"
  by (simp add: memory_write_savestate_def memory_fields_def backup_fields_def dma_docs_def)

lemma memory_keys [simp]: "keys_ok (memory_fields s)" "keys_ok (backup_fields s)" "keys_ok (dma_docs s)"
  by (simp_all add: memory_fields_def backup_fields_def dma_docs_def keys_ok_def key_ok_def)

lemma memory_size [simp]: "memory_wf s \<Longrightarrow> length (concat (map enc (memory_fields s))) = 396375"
  by (simp add: memory_wf_def memory_fields_def enc_lengths)

lemma backup_size [simp]: "memory_wf s \<Longrightarrow> length (concat (map enc (backup_fields s))) = 372"
  by (simp add: memory_wf_def backup_fields_def enc_lengths)

lemma dma_docs_size [simp]: "length (concat (map enc (dma_docs s))) = 488"
  by (simp add: dma_docs_def enc_lengths)

lemma memory_docs:
  assumes "memory_wf s" "holds src (memory_write_savestate s)"
  obtains m b d where "bson_find_key src ''memory'' = Some (Some m)" "holds m (memory_fields s)"
    "bson_find_key src ''backup'' = Some (Some b)" "holds b (backup_fields s)"
    "bson_find_key src ''dma'' = Some (Some d)" "holds d (dma_docs s)"
proof -
  have h: "has src (FDoc ''memory'' (memory_fields s))" "has src (FDoc ''backup'' (backup_fields s))"
    "has src (FDoc ''dma'' (dma_docs s))"
    using assms(2) by (simp_all add: memory_write_alt)
  obtain m where m: "bson_find_key src ''memory'' = Some (Some m)" "holds m (memory_fields s)"
    using h(1) by (rule holds_sub) (simp_all add: enc_doc_def assms(1))
  obtain b where b: "bson_find_key src ''backup'' = Some (Some b)" "holds b (backup_fields s)"
    using h(2) by (rule holds_sub) (simp_all add: enc_doc_def assms(1))
  obtain d where d: "bson_find_key src ''dma'' = Some (Some d)" "holds d (dma_docs s)"
    using h(3) by (rule holds_sub) (simp_all add: enc_doc_def)
  from m b d show ?thesis by (rule that)
qed


interpretation memory_section: savestate_section memory_write_savestate memory_check_savestate memory_read_savestate
  memory_wf "\<lambda>s. s" 397271
proof
  fix s s0 :: memory_state and src
  assume wf: "memory_wf s" and wf0: "memory_wf s0" and h: "holds src (memory_write_savestate s)"
  obtain m b d where f: "bson_find_key src ''memory'' = Some (Some m)" "holds m (memory_fields s)"
    "bson_find_key src ''backup'' = Some (Some b)" "holds b (backup_fields s)"
    "bson_find_key src ''dma'' = Some (Some d)" "holds d (dma_docs s)"
    using wf h by (rule memory_docs)
  have four: "(dma_channels s0)[0 := dma_channels s ! 0, Suc 0 := dma_channels s ! Suc 0,
      2 := dma_channels s ! 2, 3 := dma_channels s ! 3] = dma_channels s"
    using wf wf0 by (intro four_updates) (simp_all add: memory_wf_def)
  show "memory_read_savestate src s0 = Some (True, s)"
    using f four wf wf0
    by (clarsimp simp: memory_read_savestate_def memory_wf_def memory_fields_def backup_fields_def dma_docs_def)
  show "memory_check_savestate src = Some True"
    using f dma_check_ok [of d "dma_channels s ! 0"]
    by (clarsimp simp: memory_check_savestate_def memory_fields_def backup_fields_def dma_docs_def backup_vars_def
        simp del: dma_check.simps)
next
  fix s assume "memory_wf s"
  then show "length (concat (map enc (memory_write_savestate s))) = 397271"
    by (simp add: memory_write_alt enc_lengths)
qed


section \<open>Sound\<close>

lemma ds_read_ok: "holds p (ds_fields c) \<Longrightarrow> length (fifo c) = 32 \<Longrightarrow> ds_read (Some p) c0 = Some (True, c)"
  by (clarsimp simp: ds_fields_def ds_read_def)

lemma gs_read_ok: "holds p (gs_fields c) \<Longrightarrow> gs_read (Some p) c0 = Some (True, c)"
  by (clarsimp simp: gs_fields_def gs_read_def)

lemma channel_keys [simp]: "keys_ok (ds_fields c)" "keys_ok (gs_fields g)"
  by (simp_all add: ds_fields_def gs_fields_def keys_ok_def key_ok_def)

lemma ds_size [simp]: "length (fifo c) = 32 \<Longrightarrow> length (concat (map enc (ds_fields c))) = 130"
  by (simp add: ds_fields_def enc_lengths)

lemma gs_size [simp]: "length (concat (map enc (gs_fields c))) = 393"
  by (simp add: gs_fields_def enc_lengths)

lemma nth_ds_ok:
  assumes "has q (FDoc (''ds'' @ digit_name i) (ds_fields c))" "i < length (direct_sound_channel s)" "length (fifo c) = 32"
  shows "nth_ds (Some q) i s = Some (True, s\<lparr>direct_sound_channel := (direct_sound_channel s)[i := c]\<rparr>)"
proof -
  obtain p where "bson_find_key q (''ds'' @ digit_name i) = Some (Some p)" "holds p (ds_fields c)"
    using assms(1) by (rule holds_sub) (simp_all add: enc_doc_def assms(3))
  with assms(2,3) show ?thesis by (simp add: nth_ds_def find_in_def element_ok ds_read_ok)
qed

lemma nth_gs_ok:
  assumes "has q (FDoc (''gs'' @ digit_name i) (gs_fields c))" "i < length (gbc_sound_channel s)"
  shows "nth_gs (Some q) i s = Some (True, s\<lparr>gbc_sound_channel := (gbc_sound_channel s)[i := c]\<rparr>)"
proof -
  obtain p where "bson_find_key q (''gs'' @ digit_name i) = Some (Some p)" "holds p (gs_fields c)"
    using assms(1) by (rule holds_sub) (simp_all add: enc_doc_def)
  with assms(2) show ?thesis by (simp add: nth_gs_def find_in_def element_ok gs_read_ok)
qed

lemma ds_check_ok:
  assumes "has q (FDoc (''ds'' @ digit_name 0) (ds_fields c))" "length (fifo c) = 32"
  shows "ds_check q 0 = Some True"
proof -
  obtain p where "bson_find_key q (''ds'' @ digit_name 0) = Some (Some p)" "holds p (ds_fields c)"
    using assms(1) by (rule holds_sub) (simp_all add: enc_doc_def assms(2))
  then show ?thesis by (clarsimp simp: ds_fields_def ds_vars_def)
qed

lemma gs_check_ok:
  assumes "has q (FDoc (''gs'' @ digit_name 0) (gs_fields c))"
  shows "gs_check q 0 = Some True"
proof -
  obtain p where "bson_find_key q (''gs'' @ digit_name 0) = Some (Some p)" "holds p (gs_fields c)"
    using assms(1) by (rule holds_sub) (simp_all add: enc_doc_def)
  then show ?thesis by (clarsimp simp: gs_fields_def gs_vars_def)
qed

definition sound_fields :: "sound_state \<Rightarrow> field list" where
  "sound_fields s = [
     FInt ''on'' (sound_on s), FInt ''buf-base'' (sound_buffer_base s),
     FInt ''gbc-buf-idx'' (gbc_sound_buffer_index s),
     FInt ''gbc-last-cpu-ticks'' (gbc_sound_last_cpu_ticks s),
     FInt ''gbc-partial-ticks'' (gbc_sound_partial_ticks s),
     FInt ''gbc-ms-vol-left'' (gbc_sound_master_volume_left s),
     FInt ''gbc-ms-vol-right'' (gbc_sound_master_volume_right s),
     FInt ''gbc-ms-vol'' (gbc_sound_master_volume s), FBytes ''wav-samples'' (wave_samples s),
     FDoc ''ds0'' (ds_fields (direct_sound_channel s ! 0)), FDoc ''ds1'' (ds_fields (direct_sound_channel s ! Suc 0)),
     FDoc ''gs0'' (gs_fields (gbc_sound_channel s ! 0)), FDoc ''gs1'' (gs_fields (gbc_sound_channel s ! Suc 0)),
     FDoc ''gs2'' (gs_fields (gbc_sound_channel s ! 2)), FDoc ''gs3'' (gs_fields (gbc_sound_channel s ! 3))]"

lemma sound_write_alt: "sound_write_savestate s = [FDoc ''sound'' (sound_fields s)]"
  by (simp add: sound_write_savestate_def sound_fields_def)

lemma sound_keys [simp]: "keys_ok (sound_fields s)"
  by (simp add: sound_fields_def keys_ok_def key_ok_def)

lemma sound_fifos [simp]: "sound_wf s \<Longrightarrow> length (fifo (direct_sound_channel s ! 0)) = 32"
  "sound_wf s \<Longrightarrow> length (fifo (direct_sound_channel s ! Suc 0)) = 32"
  by (simp_all add: sound_wf_def)

lemma sound_size [simp]: "sound_wf s \<Longrightarrow> length (concat (map enc (sound_fields s))) = 2119"
  by (simp add: sound_fields_def enc_lengths) (simp add: sound_wf_def)

definition sound_restored :: "sound_state \<Rightarrow> sound_state" where
  "sound_restored s = s\<lparr>sound_buffer := replicate BUFFER_SIZE 0\<rparr>"

interpretation sound_section: savestate_section sound_write_savestate sound_check_savestate sound_read_savestate
  sound_wf sound_restored 2131
proof
  fix s s0 :: sound_state and src
  assume wf: "sound_wf s" and wf0: "sound_wf s0" and h: "holds src (sound_write_savestate s)"
  have d: "has src (FDoc ''sound'' (sound_fields s))" using h by (simp add: sound_write_alt)
  obtain p where f: "bson_find_key src ''sound'' = Some (Some p)" "holds p (sound_fields s)"
    using d by (rule holds_sub) (simp_all add: enc_doc_def wf)
  have four: "(gbc_sound_channel s0)[0 := gbc_sound_channel s ! 0, Suc 0 := gbc_sound_channel s ! Suc 0,
      2 := gbc_sound_channel s ! 2, 3 := gbc_sound_channel s ! 3] = gbc_sound_channel s"
    using wf wf0 by (intro four_updates) (simp_all add: sound_wf_def)
  have two: "(direct_sound_channel s0)[0 := direct_sound_channel s ! 0, Suc 0 := direct_sound_channel s ! Suc 0]
      = direct_sound_channel s"
    using wf wf0 by (intro two_updates) (simp_all add: sound_wf_def)
  show "sound_read_savestate src s0 = Some (True, sound_restored s)"
    using f four two wf wf0 sound_fifos [OF wf]
    by (clarsimp simp: sound_read_savestate_def sound_wf_def sound_fields_def nth_ds_ok nth_gs_ok sound_restored_def)
  show "sound_check_savestate src = Some True"
    using f sound_fifos [OF wf] ds_check_ok [of p "direct_sound_channel s ! 0"] gs_check_ok [of p "gbc_sound_channel s ! 0"]
    by (clarsimp simp: sound_check_savestate_def sound_fields_def simp del: ds_check.simps gs_check.simps)
next
  fix s assume "sound_wf s"
  then show "length (concat (map enc (sound_write_savestate s))) = 2131"
    by (simp add: sound_write_alt enc_lengths)
qed

section \<open>The whole state\<close>

definition info_fields :: "field list" where
  "info_fields = [FInt ''info-magic'' GBA_STATE_MAGIC, FInt ''info-version'' GBA_STATE_VERSION]"

lemma state_fields_alt:
  "state_fields s = info_fields @ cpu_write_savestate (m_cpu s) @ input_write_savestate (m_input s)
     @ main_write_savestate (m_main s) @ memory_write_savestate (m_memory s) @ sound_write_savestate (m_sound s)"
  by (simp add: state_fields_def info_fields_def)

lemma head_size:
  "machine_wf s \<Longrightarrow> length (concat (map enc (info_fields @ cpu_write_savestate (m_cpu s) @ input_write_savestate (m_input s)
     @ main_write_savestate (m_main s) @ memory_write_savestate (m_memory s)))) = 398559"
  by (simp add: machine_wf_def cpu_section.size_law input_section.size_law main_section.size_law
      memory_section.size_law info_fields_def bson_write_int32_def)

lemma state_size: "machine_wf s \<Longrightarrow> length (concat (map enc (state_fields s))) = 400690"
  using head_size [of s] by (simp add: state_fields_alt machine_wf_def sound_section.size_law)

lemma state_keys: "keys_ok (state_fields s @ [FBytes ''zpadding'' pad])"
  by (simp add: state_fields_def cpu_write_savestate_def input_write_savestate_def main_write_savestate_def
      memory_write_savestate_def sound_write_savestate_def keys_ok_def key_ok_def)

lemma checks_pass:
  assumes "machine_wf s"
    "holds src (cpu_write_savestate (m_cpu s) @ input_write_savestate (m_input s)
       @ main_write_savestate (m_main s) @ memory_write_savestate (m_memory s))"
  shows "check_sections src = sound_check_savestate src"
  using assms
  by (clarsimp simp: check_sections_def machine_wf_def cpu_section.check_law input_section.check_law [OF TrueI]
      main_section.check_law memory_section.check_law)

lemma reads_pass:
  assumes "machine_wf s" "machine_wf s0"
    "holds src (cpu_write_savestate (m_cpu s) @ input_write_savestate (m_input s)
       @ main_write_savestate (m_main s) @ memory_write_savestate (m_memory s))"
  shows "read_sections src s0 = section_to m_sound (\<lambda>v m. m\<lparr>m_sound := v\<rparr>) (sound_read_savestate src) (s\<lparr>m_sound := m_sound s0\<rparr>)"
proof -
  let ?snd = "section_to m_sound (\<lambda>v m. m\<lparr>m_sound := v\<rparr>) (sound_read_savestate src)"
  have last: "all_of [?snd] m = ?snd m" for m
    by (cases "?snd m") auto
  have eq: "s0\<lparr>m_cpu := m_cpu s, m_input := m_input s, m_main := m_main s, m_memory := m_memory s\<rparr> = s\<lparr>m_sound := m_sound s0\<rparr>"
    by (rule machine.equality) simp_all
  have "read_sections src s0 = all_of [?snd] (s0\<lparr>m_cpu := m_cpu s, m_input := m_input s, m_main := m_main s, m_memory := m_memory s\<rparr>)"
    using assms unfolding read_sections_def machine_wf_def
    by (clarsimp simp: cpu_section.load_section input_section.load_section [OF TrueI TrueI]
        main_section.load_section memory_section.load_section simp del: all_of.simps(1))
  with last show ?thesis by (simp only: eq)
qed


text \<open>Any document with the fields of a state and the size of a state loads.\<close>

lemma load_document:
  assumes "keys_ok (state_fields s @ fs)" "length (enc_doc (state_fields s @ fs)) = GBA_STATE_MEM_SIZE"
    "machine_wf s" "machine_wf s0"
  shows "gba_load_state (enc_doc (state_fields s @ fs) @ r) s0 = Some (True, s\<lparr>m_sound := sound_restored (m_sound s)\<rparr>)"
proof -
  let ?src = "enc_doc (state_fields s @ fs) @ r"
  have h: "holds ?src (state_fields s)"
    using holds_doc [OF assms(1), of r] assms(2) by simp
  then have snd: "holds ?src (sound_write_savestate (m_sound s))"
    and rest: "holds ?src (cpu_write_savestate (m_cpu s) @ input_write_savestate (m_input s)
       @ main_write_savestate (m_main s) @ memory_write_savestate (m_memory s))"
    and info: "has ?src (FInt ''info-magic'' GBA_STATE_MAGIC)" "has ?src (FInt ''info-version'' GBA_STATE_VERSION)"
    by (simp_all add: state_fields_def)
  have size: "bson_read_u32 ?src = Some (of_nat GBA_STATE_MEM_SIZE)"
    using assms(2) by (simp add: enc_doc_def bson_sized_def)
  have "sound_wf (m_sound s)" "sound_wf (m_sound s0)" using assms(3,4) by (simp_all add: machine_wf_def)
  then have "check_sections ?src = Some True"
    "read_sections ?src s0 = Some (True, s\<lparr>m_sound := sound_restored (m_sound s)\<rparr>)"
    using checks_pass [OF assms(3) rest] reads_pass [OF assms(3,4) rest]
      sound_section.check_law [OF _ snd] sound_section.read_law [OF _ _ snd]
    by (simp_all add: section_to_def)
  then show ?thesis
    using size info by (simp add: gba_load_state_def has_int32_def)
qed

lemma save_document:
  assumes "machine_wf s" "length dst = GBA_STATE_MEM_SIZE"
  obtains pad where "gba_save_state s dst = enc_doc (state_fields s @ [FBytes ''zpadding'' pad])" "length pad = 25274"
proof -
  let ?pad = "take 25274 (drop 400709 dst)"
  have "gba_save_state s dst = enc_doc (state_fields s @ [FBytes ''zpadding'' ?pad])"
    by (simp add: gba_save_state_def state_size [OF assms(1)] Let_def)
  moreover have "length ?pad = 25274" using assms(2) by simp
  ultimately show ?thesis by (rule that)
qed

lemma save_size:
  assumes "machine_wf s" "length dst = GBA_STATE_MEM_SIZE"
  shows "length (gba_save_state s dst) = GBA_STATE_MEM_SIZE"
proof -
  obtain pad where p: "gba_save_state s dst = enc_doc (state_fields s @ [FBytes ''zpadding'' pad])" "length pad = 25274"
    using assms by (rule save_document)
  have "length (enc (FBytes ''zpadding'' pad)) = 25289" using p(2) by (simp add: enc_lengths)
  with p(1) state_size [OF assms(1)] show ?thesis
    by (simp add: enc_doc_def del: enc.simps)
qed

definition zero_timer :: timer_type where
  "zero_timer = \<lparr>tm_count = 0, tm_reload = 0, tm_prescale = 0, tm_frequency_step = 0,
     tm_direct_sound_channels = 0, tm_irq = 0, tm_status = 0\<rparr>"

definition zero_dma :: dma_transfer where
  "zero_dma = \<lparr>source_address = 0, dest_address = 0, dma_length = 0, repeat_type = 0, direct_sound_chan = 0,
     source_direction = 0, dest_direction = 0, length_type = 0, start_type = 0, dma_irq = 0\<rparr>"

definition zero_ds :: direct_sound where
  "zero_ds = \<lparr>fifo = replicate 32 0, fifo_base = 0, fifo_top = 0, fifo_fractional = 0, buffer_index = 0,
     ds_status = 0, volume_halve = 0\<rparr>"

definition zero_gs :: gbc_sound where
  "zero_gs = \<lparr>rate = 0, frequency_step = 0, sample_index = 0, tick_counter = 0, total_volume = 0,
     envelope_initial_volume = 0, envelope_volume = 0, envelope_direction = 0, envelope_status = 0,
     envelope_ticks = 0, envelope_initial_ticks = 0, sweep_status = 0, sweep_direction = 0, sweep_ticks = 0,
     sweep_initial_ticks = 0, sweep_shift = 0, length_status = 0, length_ticks = 0, noise_type = 0,
     wave_type = 0, wave_bank = 0, wave_volume = 0, gs_status = 0, active_flag = 0, master_enable = 0,
     sample_table_idx = 0\<rparr>"

text \<open>A machine with cleared memories: the examples below are about it.\<close>

definition zero_machine :: machine where
  "zero_machine = \<lparr>
     m_cpu = \<lparr>regs = replicate 19 0, spsr = replicate 6 0x10, reg_mode = replicate 49 0, bus_value = 0\<rparr>,
     m_input = \<lparr>old_key = 0, turbo_a_counter = 0, turbo_b_counter = 0, gbp_keypad_frames = 0, gbp_keypad_sent = False\<rparr>,
     m_main = \<lparr>frame_counter = 0, cpu_ticks = 0, execute_cycles = 960, video_count = 960, sleep_cycles = 0,
       irq_cycles = 0, random_state = 0,
       gbp_dev = \<lparr>gbp_seq_n = 0, gbp_rumble = False, gbp_allow_rumble = False\<rparr>, timers = replicate 4 zero_timer\<rparr>,
     m_memory = \<lparr>iwram = replicate 0x8000 0, ewram = replicate 0x40000 0, vram = replicate 0x18000 0,
       oam_ram = replicate 1024 0, palette_ram = replicate 1024 0, io_registers = replicate 1024 0,
       dma_bus_val = 0, v_backup_type = 0, v_flash_mode = 0, v_flash_command_position = 0, v_flash_bank_num = 0,
       v_flash_device_id = 0, v_flash_bank_cnt = 0, v_eeprom_size = 0, v_eeprom_mode = 0, v_eeprom_address = 0,
       v_eeprom_counter = 0, v_gpio_regs = replicate 3 0, v_rtc_state = 0, v_rtc_write_mode = 0, v_rtc_command = 0,
       v_rtc_status = 0, v_rtc_data_bits = 0, v_rtc_bit_count = 0, v_rtc_data = 0, v_rtc_base_time = 0,
       dma_channels = replicate 4 zero_dma\<rparr>,
     m_sound = \<lparr>sound_on = 0, sound_buffer_base = 0, gbc_sound_buffer_index = 0, gbc_sound_last_cpu_ticks = 0,
       gbc_sound_partial_ticks = 0, gbc_sound_master_volume_left = 0, gbc_sound_master_volume_right = 0,
       gbc_sound_master_volume = 0, wave_samples = replicate 64 0, direct_sound_channel = replicate 2 zero_ds,
       gbc_sound_channel = replicate 4 zero_gs, sound_buffer = replicate BUFFER_SIZE 0\<rparr>\<rparr>"

lemma zero_machine_wf: "machine_wf zero_machine"
  by (simp add: machine_wf_def cpu_wf_def main_wf_def memory_wf_def sound_wf_def zero_machine_def zero_ds_def)

text \<open>C23: a savestate fills its buffer exactly, and loading it into any machine restores
  everything that was saved; only the ring of rendered samples comes back silent.\<close>

theorem savestate_roundtrip:
  assumes "machine_wf s" "machine_wf s0" "length dst = GBA_STATE_MEM_SIZE"
  shows "length (gba_save_state s dst) = GBA_STATE_MEM_SIZE
    \<and> gba_load_state (gba_save_state s dst) s0 = Some (True, s\<lparr>m_sound := sound_restored (m_sound s)\<rparr>)"
proof -
  obtain pad where p: "gba_save_state s dst = enc_doc (state_fields s @ [FBytes ''zpadding'' pad])"
    using assms(1,3) by (rule save_document)
  have l: "length (gba_save_state s dst) = GBA_STATE_MEM_SIZE" using assms(1,3) by (rule save_size)
  with load_document [OF state_keys _ assms(1,2), of pad "[]"] p show ?thesis by simp
qed

lemma savestate_roundtrip_witness:
  "gba_load_state (gba_save_state zero_machine (replicate GBA_STATE_MEM_SIZE 0)) zero_machine
     = Some (True, zero_machine\<lparr>m_sound := sound_restored (m_sound zero_machine)\<rparr>)"
  using savestate_roundtrip [OF zero_machine_wf zero_machine_wf, of "replicate GBA_STATE_MEM_SIZE 0"]
  by (simp only: length_replicate simp_thms)

section \<open>What the checks miss\<close>

definition without :: "string \<Rightarrow> field list \<Rightarrow> field list" where
  "without k fs = filter (\<lambda>f. field_key f \<noteq> k) fs"

text \<open>A state whose sound section has no second direct sound channel.\<close>

definition truncated_state :: "machine \<Rightarrow> u8 list \<Rightarrow> u8 list" where
  "truncated_state s pad = enc_doc (info_fields @ cpu_write_savestate (m_cpu s) @ input_write_savestate (m_input s)
     @ main_write_savestate (m_main s) @ memory_write_savestate (m_memory s)
     @ [FDoc ''sound'' (without ''ds1'' (sound_fields (m_sound s))), FBytes ''zpadding'' pad])"

lemma without_ds1:
  "without ''ds1'' (sound_fields s) = filter (\<lambda>f. field_key f \<noteq> ''ds1'') (sound_fields s)"
  "keys_ok (without ''ds1'' (sound_fields s))"
  "sound_wf s \<Longrightarrow> length (concat (map enc (without ''ds1'' (sound_fields s)))) = 1979"
  by (simp_all add: without_def sound_fields_def keys_ok_def key_ok_def enc_lengths) (simp add: sound_wf_def)

lemma truncated_size:
  "machine_wf s \<Longrightarrow> length pad = 25414 \<Longrightarrow> length (truncated_state s pad) = GBA_STATE_MEM_SIZE"
  using head_size [of s] without_ds1(3) [of "m_sound s"]
  by (simp add: truncated_state_def enc_doc_def enc_lengths machine_wf_def)

lemma truncated_keys:
  "keys_ok (info_fields @ cpu_write_savestate (m_cpu s) @ input_write_savestate (m_input s)
     @ main_write_savestate (m_main s) @ memory_write_savestate (m_memory s)
     @ [FDoc ''sound'' fs, FBytes ''zpadding'' pad])"
  by (simp add: info_fields_def cpu_write_savestate_def input_write_savestate_def main_write_savestate_def
      memory_write_savestate_def keys_ok_def key_ok_def)

definition truncated_fields :: "machine \<Rightarrow> u8 list \<Rightarrow> field list" where
  "truncated_fields s pad = info_fields @ cpu_write_savestate (m_cpu s) @ input_write_savestate (m_input s)
     @ main_write_savestate (m_main s) @ memory_write_savestate (m_memory s)
     @ [FDoc ''sound'' (without ''ds1'' (sound_fields (m_sound s))), FBytes ''zpadding'' pad]"

lemma truncated_holds:
  assumes "machine_wf s" "length pad = 25414"
  shows "holds (truncated_state s pad) (truncated_fields s pad)"
proof -
  have e: "truncated_state s pad = enc_doc (truncated_fields s pad) @ []"
    by (simp add: truncated_state_def truncated_fields_def)
  then have "length (enc_doc (truncated_fields s pad)) = GBA_STATE_MEM_SIZE"
    using truncated_size [OF assms] by simp
  then show ?thesis
    unfolding e by (intro holds_doc) (simp_all only: truncated_fields_def truncated_keys, simp_all)
qed

lemma ds_read_null: "ds_read None c = Some (False, c)"
  by (simp add: ds_read_def int32_to_def store_def)

lemma nth_ds_missing:
  "lacks q (''ds'' @ digit_name i) \<Longrightarrow> i < length (direct_sound_channel s) \<Longrightarrow> nth_ds (Some q) i s = Some (False, s)"
  by (simp add: nth_ds_def find_in_def element_def ds_read_null)

lemma truncated_sound:
  assumes "machine_wf s" "machine_wf s0" "length pad = 25414"
  shows "sound_check_savestate (truncated_state s pad) = Some True"
    and "\<exists>s'. sound_read_savestate (truncated_state s pad) (m_sound s0) = Some (False, s')
           \<and> direct_sound_channel s' ! 1 = direct_sound_channel (m_sound s0) ! 1"
proof -
  let ?fs = "without ''ds1'' (sound_fields (m_sound s))"
  have wf: "sound_wf (m_sound s)" "sound_wf (m_sound s0)" using assms(1,2) by (simp_all add: machine_wf_def)
  have "holds (truncated_state s pad) [FDoc ''sound'' ?fs]"
    using truncated_holds [OF assms(1,3)] by (simp add: truncated_fields_def)
  then have h: "has (truncated_state s pad) (FDoc ''sound'' ?fs)" by simp
  from find_doc_has [OF h] obtain r where p: "bson_find_key (truncated_state s pad) ''sound'' = Some (Some (enc_doc ?fs @ r))"
    by blast
  have d: "doc_ok ?fs" "length (enc_doc ?fs) + 8 < 2 ^ 32"
    using without_ds1(2,3) wf(1) by (simp_all add: doc_ok_def keys_ok_def enc_doc_def)
  obtain q where q: "q = enc_doc ?fs @ r" by simp
  have f: "holds q ?fs" using holds_doc [OF without_ds1(2) d(2), where r = r] by (simp only: q)
  have "''ds1'' \<notin> set (map field_key ?fs)" by (auto simp: without_def)
  from lacks_doc [OF d(1) this, of r] have m: "lacks q (''ds'' @ digit_name 1)" by (simp add: q)
  note p = p [folded q]
  show "sound_check_savestate (truncated_state s pad) = Some True"
    using p f sound_fifos [OF wf(1)] ds_check_ok [of q "direct_sound_channel (m_sound s) ! 0"]
      gs_check_ok [of q "gbc_sound_channel (m_sound s) ! 0"]
    by (clarsimp simp: sound_check_savestate_def sound_fields_def without_def simp del: ds_check.simps gs_check.simps)
  show "\<exists>s'. sound_read_savestate (truncated_state s pad) (m_sound s0) = Some (False, s')
           \<and> direct_sound_channel s' ! 1 = direct_sound_channel (m_sound s0) ! 1"
    using p f m wf sound_fifos [OF wf(1)]
    by (clarsimp simp: sound_read_savestate_def sound_wf_def sound_fields_def without_def nth_ds_ok nth_ds_missing)
qed

text \<open>C24: the loop over the direct sound channels shares its variable with the loop over the
  names, so a state without the second channel passes every check; loading it fails, but
  only after the processor and the memories of the running machine were overwritten.\<close>

theorem check_misses_channels:
  assumes "machine_wf s" "machine_wf s0" "length pad = 25414"
  shows "check_sections (truncated_state s pad) = Some True
    \<and> (\<exists>s'. gba_load_state (truncated_state s pad) s0 = Some (False, s') \<and> m_cpu s' = m_cpu s
      \<and> m_memory s' = m_memory s \<and> direct_sound_channel (m_sound s') ! 1 = direct_sound_channel (m_sound s0) ! 1)"
proof -
  let ?src = "truncated_state s pad"
  have h: "holds ?src (info_fields @ cpu_write_savestate (m_cpu s) @ input_write_savestate (m_input s)
       @ main_write_savestate (m_main s) @ memory_write_savestate (m_memory s))"
    using truncated_holds [OF assms(1,3)] by (simp add: truncated_fields_def)
  then have rest: "holds ?src (cpu_write_savestate (m_cpu s) @ input_write_savestate (m_input s)
       @ main_write_savestate (m_main s) @ memory_write_savestate (m_memory s))" by simp
  have c: "check_sections ?src = Some True"
    using checks_pass [OF assms(1) rest] truncated_sound(1) [OF assms] by simp
  have "bson_read_u32 ?src = Some (of_nat GBA_STATE_MEM_SIZE)"
    using truncated_size [OF assms(1,3)] by (simp add: truncated_state_def enc_doc_def bson_sized_def)
  then have "gba_load_state ?src s0 = read_sections ?src s0"
    using h c by (clarsimp simp: gba_load_state_def has_int32_def info_fields_def)
  with c show ?thesis
    using truncated_sound(2) [OF assms] reads_pass [OF assms(1,2) rest] by (auto simp: section_to_def)
qed

lemma check_misses_channels_witness:
  "\<exists>s'. check_sections (truncated_state zero_machine (replicate 25414 0)) = Some True
    \<and> gba_load_state (truncated_state zero_machine (replicate 25414 0)) zero_machine = Some (False, s')"
  using check_misses_channels [OF zero_machine_wf zero_machine_wf length_replicate [of 25414 0]] by blast

text \<open>
  The search walks by the sizes it reads and looks at a byte before it compares the offset
  with the size of the document: an embedded size larger than the buffer makes it read outside.
\<close>

lemma crafted_size_overread:
  assumes "4 + length rest \<le> unat n" "4 < unat w"
  shows "bson_read_int32 (Some (le_bytes w @ [BSON_TYPE_DOC, 0] @ le_bytes n @ rest)) ''info-magic'' = None"
  using assms by (simp add: bson_read_int32_def find_in_def bson_find_key_def bson_search_def bson_read_u32_def
      value_size_def cstring_def ascii_def not_le)

end
