(* ===== verification/GpioProps.thy ===== *)
theory GpioProps
  imports Gpio
begin

text \<open>
  The clock protocol as a game drives it: selecting the chip, shifting a command in, and
  shifting the answer out, all through writes to the port.
\<close>

section \<open>Driving the port\<close>

fun gpio_run :: "u32 \<Rightarrow> tm \<Rightarrow> (u32 \<times> u32) list \<Rightarrow> gpio \<Rightarrow> gpio" where
  "gpio_run ticks now [] s = s"
| "gpio_run ticks now ((a, v) # ws) s = gpio_run ticks now ws (write_gpio ticks now a v s)"

lemma gpio_run_append: "gpio_run ticks now (xs @ ys) s = gpio_run ticks now ys (gpio_run ticks now xs s)"
  by (induction xs arbitrary: s) auto

text \<open>One bit: the clock low with the data, then high.\<close>

definition bit_writes :: "bool \<Rightarrow> (u32 \<times> u32) list" where
  "bit_writes b = [(0xC4, 4 OR push_bit 1 (of_bool b)), (0xC4, 5 OR push_bit 1 (of_bool b))]"

definition byte_lsb :: "u8 \<Rightarrow> bool list" where
  "byte_lsb w = map (bit w) [0..<8]"

definition select_chip :: "(u32 \<times> u32) list" where
  "select_chip = [(0xC6, 7), (0xC4, 1), (0xC4, 5)]"

definition command_writes :: "u8 \<Rightarrow> (u32 \<times> u32) list" where
  "command_writes c = select_chip @ concat (map bit_writes (byte_bits c))"

fun rtc_read :: "u32 \<Rightarrow> tm \<Rightarrow> nat \<Rightarrow> gpio \<Rightarrow> bool list" where
  "rtc_read ticks now 0 s = []"
| "rtc_read ticks now (Suc n) s =
     (let s = gpio_run ticks now [(0xC4, 4), (0xC4, 5)] s in bit (gpio_data s) 1 # rtc_read ticks now n s)"

section \<open>Steps of the protocol\<close>

lemma update_romregs_fields [simp]:
  "rtc_enabled (update_gpio_romregs s) = rtc_enabled s" "gpio_data (update_gpio_romregs s) = gpio_data s"
  "gpio_dir (update_gpio_romregs s) = gpio_dir s" "rtc_state (update_gpio_romregs s) = rtc_state s"
  "rtc_command (update_gpio_romregs s) = rtc_command s" "rtc_data (update_gpio_romregs s) = rtc_data s"
  "rtc_data_bits (update_gpio_romregs s) = rtc_data_bits s" "rtc_status (update_gpio_romregs s) = rtc_status s"
  "rtc_bit_count (update_gpio_romregs s) = rtc_bit_count s"
  by (simp_all add: update_gpio_romregs_def)

text \<open>The port with the chip selected and the clock high.\<close>

definition selected :: "u8 \<Rightarrow> gpio \<Rightarrow> bool" where
  "selected dir s \<longleftrightarrow> rtc_enabled s \<and> gpio_dir s = dir \<and> (gpio_data s = 5 \<or> gpio_data s = 7)"

definition receiving :: "u32 \<Rightarrow> int \<Rightarrow> u32 \<Rightarrow> gpio \<Rightarrow> bool" where
  "receiving c n st s \<longleftrightarrow> selected 7 s \<and> rtc_state s = RTC_COMMAND \<and> rtc_command s = c
     \<and> rtc_bit_count s = n \<and> rtc_status s = st"

definition inputting :: "64 word \<Rightarrow> u32 \<Rightarrow> gpio \<Rightarrow> bool" where
  "inputting d n s \<longleftrightarrow> selected 7 s \<and> rtc_state s = RTC_INPUT_DATA \<and> rtc_data s = d \<and> rtc_data_bits s = n"

definition outputting :: "64 word \<Rightarrow> u32 \<Rightarrow> gpio \<Rightarrow> bool" where
  "outputting d n s \<longleftrightarrow> selected 5 s \<and> rtc_state s = RTC_OUTPUT_DATA \<and> rtc_data s = d \<and> rtc_data_bits s = n"

lemma data_write:
  assumes "rtc_enabled s" "d = (gpio_data s AND NOT (gpio_dir s)) OR (ucast v AND gpio_dir s)"
    and "gpio_data s AND 7 \<noteq> d AND 7"
  shows "\<exists>r rom. write_gpio ticks now 0xC4 v s =
     (write_rtc now (gpio_data s AND 7) (d AND 7) (s\<lparr>gpio_data := d\<rparr>))\<lparr>gp_rumble := r, gpio_rom := rom\<rparr>"
proof -
  let ?s = "s\<lparr>gpio_data := d\<rparr>"
  let ?w = "write_rtc now (gpio_data s AND 7) (d AND 7) ?s"
  have r: "\<exists>r. (if rumble_enabled t \<and> p then t\<lparr>gp_rumble := x\<rparr> else t) = t\<lparr>gp_rumble := r\<rparr>" for p x and t :: gpio
    by (cases "rumble_enabled t \<and> p") (auto intro: exI [of _ "gp_rumble t"])
  have u: "\<exists>rom. update_gpio_romregs t = t\<lparr>gpio_rom := rom\<rparr>" for t
    by (auto simp: update_gpio_romregs_def intro: exI [of _ "gpio_rom t"])
  obtain r where r: "(if rumble_enabled ?w \<and> gpio_data s AND 8 \<noteq> gpio_data ?w AND 8
       then ?w\<lparr>gp_rumble := write_rumble ticks (gpio_data s AND 8 \<noteq> 0) (gpio_data ?w AND 8 \<noteq> 0) (gp_rumble ?w)\<rparr>
       else ?w) = ?w\<lparr>gp_rumble := r\<rparr>"
    using r by metis
  obtain rom where rom: "update_gpio_romregs (?w\<lparr>gp_rumble := r\<rparr>) = ?w\<lparr>gp_rumble := r, gpio_rom := rom\<rparr>"
    using u by blast
  have "write_gpio ticks now 0xC4 v s = update_gpio_romregs (?w\<lparr>gp_rumble := r\<rparr>)"
    unfolding r [symmetric] using assms by (simp add: write_gpio_def Let_def)
  with rom show ?thesis by auto
qed

text \<open>What the clock sees of the two writes of a bit.\<close>

lemma clock_bit:
  assumes "selected dir s" "dir = 7 \<or> dir = 5"
    and "n = (if dir = 7 then if b then 7 else 5 else gpio_data s)"
  shows "\<exists>r rom. gpio_run ticks now (bit_writes b) s =
     (rtc_clock now n (s\<lparr>gpio_data := n\<rparr>))\<lparr>gp_rumble := r, gpio_rom := rom\<rparr>"
proof -
  define m :: u8 where "m = (if n = 5 then 4 else 6)"
  have n: "n = 5 \<or> n = 7" using assms by (auto simp: selected_def)
  have f: "m = (gpio_data s AND NOT (gpio_dir s)) OR (ucast (4 OR push_bit 1 (of_bool b) :: u32) AND gpio_dir s)"
    using assms by (cases b) (auto simp: selected_def m_def)
  have g: "n = (m AND NOT (gpio_dir s)) OR (ucast (5 OR push_bit 1 (of_bool b) :: u32) AND gpio_dir s)"
    using assms by (cases b) (auto simp: selected_def m_def)
  have ne: "gpio_data s AND 7 \<noteq> m AND 7" "m AND 7 \<noteq> n AND 7"
    using assms(1) n by (auto simp: selected_def m_def)
  have low: "write_rtc now (gpio_data s AND 7) (m AND 7) t = t" for t
    using assms(1) n by (auto simp: selected_def m_def write_rtc_def Let_def)
  have high: "write_rtc now (m AND 7) (n AND 7) t = rtc_clock now n t" for t
    using n by (auto simp: m_def write_rtc_def Let_def)
  have e: "rtc_enabled s" using assms(1) by (simp add: selected_def)
  obtain r1 rom1 where a: "write_gpio ticks now 0xC4 (4 OR push_bit 1 (of_bool b)) s =
     s\<lparr>gpio_data := m, gp_rumble := r1, gpio_rom := rom1\<rparr>" (is "_ = ?t")
    using data_write [OF e f ne(1), of ticks now] unfolding low by auto
  obtain r2 rom2 where b: "write_gpio ticks now 0xC4 (5 OR push_bit 1 (of_bool b)) ?t =
     (rtc_clock now n (?t\<lparr>gpio_data := n\<rparr>))\<lparr>gp_rumble := r2, gpio_rom := rom2\<rparr>"
  proof -
    have "rtc_enabled ?t" "n = (gpio_data ?t AND NOT (gpio_dir ?t)) OR (ucast (5 OR push_bit 1 (of_bool b) :: u32) AND gpio_dir ?t)"
      "gpio_data ?t AND 7 \<noteq> n AND 7" "\<And>x. write_rtc now (gpio_data ?t AND 7) (n AND 7) x = rtc_clock now n x"
      using e g ne(2) high by simp_all
    from data_write [OF this(1-3), of ticks now] this(4) that show thesis by auto
  qed
  have c: "(rtc_clock now n (t\<lparr>gp_rumble := x, gpio_rom := y\<rparr>)) =
     (rtc_clock now n t)\<lparr>gp_rumble := x, gpio_rom := y\<rparr>" for t x y
    by (cases "rtc_state t") (simp_all add: rtc_clock_def rtc_start_def Let_def)
  have eq: "?t\<lparr>gpio_data := n\<rparr> = (s\<lparr>gpio_data := n\<rparr>)\<lparr>gp_rumble := r1, gpio_rom := rom1\<rparr>"
    by (rule gpio.equality) simp_all
  have d: "rtc_clock now n (?t\<lparr>gpio_data := n\<rparr>) =
     (rtc_clock now n (s\<lparr>gpio_data := n\<rparr>))\<lparr>gp_rumble := r1, gpio_rom := rom1\<rparr>"
    unfolding eq by (rule c)
  have "gpio_run ticks now (bit_writes b) s = (rtc_clock now n (s\<lparr>gpio_data := n\<rparr>))\<lparr>gp_rumble := r2, gpio_rom := rom2\<rparr>"
    using b unfolding d bit_writes_def gpio_run.simps a by simp
  then show ?thesis by blast
qed

lemma bit_of_new: "ucast (drop_bit 1 (if b then 7 else 5 :: u8)) AND 1 = (of_bool b :: 'a :: len word)"
  by (cases b) simp_all

lemma command_bit:
  assumes "receiving c n st s" "n \<noteq> 7"
  shows "receiving (push_bit 1 c OR of_bool b) (n + 1) st (gpio_run ticks now (bit_writes b) s)"
proof -
  obtain r rom where "gpio_run ticks now (bit_writes b) s =
     (rtc_clock now (if b then 7 else 5) (s\<lparr>gpio_data := if b then 7 else 5\<rparr>))\<lparr>gp_rumble := r, gpio_rom := rom\<rparr>"
    using clock_bit [of 7 s _ b ticks now] assms(1) by (auto simp: receiving_def)
  then show ?thesis
    using assms by (simp add: receiving_def selected_def rtc_clock_def Let_def bit_of_new del: of_bool_eq)
qed

lemma command_last_bit:
  assumes "receiving c 7 st s" "t = gpio_run ticks now (bit_writes b) s"
  shows "\<exists>d r rom. t = (rtc_start now (s\<lparr>gpio_data := d, rtc_command := push_bit 1 c OR of_bool b, rtc_bit_count := 8\<rparr>))
           \<lparr>rtc_bit_count := 0, gp_rumble := r, gpio_rom := rom\<rparr> \<and> (d = 5 \<or> d = 7)"
proof -
  obtain r rom where r: "t = (rtc_clock now (if b then 7 else 5) (s\<lparr>gpio_data := if b then 7 else 5\<rparr>))
      \<lparr>gp_rumble := r, gpio_rom := rom\<rparr>"
    using clock_bit [of 7 s _ b ticks now] assms by (auto simp: receiving_def)
  show ?thesis
    by (rule exI [of _ "if b then 7 else 5"], rule exI [of _ r], rule exI [of _ rom])
       (use assms(1) in \<open>simp add: r receiving_def rtc_clock_def Let_def bit_of_new del: of_bool_eq\<close>)
qed

text \<open>Shifting in a byte.\<close>

definition shift_in :: "bool list \<Rightarrow> 'a :: len word \<Rightarrow> 'a word" where
  "shift_in bs c = foldl (\<lambda>c b. push_bit 1 c OR of_bool b) c bs"

lemma shift_in_snoc: "shift_in (bs @ [b]) c = push_bit 1 (shift_in bs c) OR of_bool b"
  by (simp add: shift_in_def)

lemma command_prefix:
  assumes "receiving 0 0 st s" "length bs < 8"
  shows "receiving (shift_in bs 0) (int (length bs)) st (gpio_run ticks now (concat (map bit_writes bs)) s)"
  using assms(2)
proof (induction bs rule: rev_induct)
  case Nil
  then show ?case using assms(1) by (simp add: shift_in_def)
next
  case (snoc b bs)
  then have "receiving (shift_in bs 0) (int (length bs)) st (gpio_run ticks now (concat (map bit_writes bs)) s)"
    "int (length bs) \<noteq> 7" by auto
  from command_bit [OF this, of b ticks now] show ?case
    by (simp add: shift_in_snoc gpio_run_append add.commute)
qed

lemma byte_bits_split: "byte_bits w = butlast (byte_bits w) @ [bit w 0]" "length (butlast (byte_bits w)) = 7"
  by (simp_all add: byte_bits_def upt_rec)

lemma bit_shift_in:
  "bit (shift_in bs 0 :: 'a :: len word) i \<longleftrightarrow> i < length bs \<and> i < LENGTH('a) \<and> bs ! (length bs - 1 - i)"
proof (induction bs arbitrary: i rule: rev_induct)
  case (snoc b bs)
  show ?case
    unfolding shift_in_snoc
    by (cases i) (simp_all only: bit_simps snoc.IH, auto simp: nth_append)
qed (simp add: shift_in_def)

lemma shift_in_byte: "shift_in (byte_bits w) 0 = (ucast w :: u32)"
proof (rule bit_word_eqI)
  fix i assume "i < LENGTH(32)"
  then show "bit (shift_in (byte_bits w) 0 :: u32) i = bit (ucast w :: u32) i"
    using bit_imp_le_length [of w i] by (cases "i < 8") (auto simp: bit_shift_in bit_simps byte_bits_def)
qed

lemma command_received:
  assumes "receiving 0 0 st s" "t = gpio_run ticks now (concat (map bit_writes (byte_bits w))) s"
  shows "\<exists>s' d r rom. receiving (shift_in (butlast (byte_bits w)) 0) 7 st s' \<and> (d = 5 \<or> d = 7) \<and>
     t = (rtc_start now (s'\<lparr>gpio_data := d, rtc_command := ucast w, rtc_bit_count := 8\<rparr>))
           \<lparr>rtc_bit_count := 0, gp_rumble := r, gpio_rom := rom\<rparr>"
proof -
  let ?s' = "gpio_run ticks now (concat (map bit_writes (butlast (byte_bits w)))) s"
  have r: "receiving (shift_in (butlast (byte_bits w)) 0) 7 st ?s'"
    using command_prefix [OF assms(1), of "butlast (byte_bits w)"] byte_bits_split(2) by simp
  have t: "t = gpio_run ticks now (bit_writes (bit w 0)) ?s'"
    using arg_cong [OF byte_bits_split(1), of "\<lambda>bs. gpio_run ticks now (concat (map bit_writes bs)) s" w]
    by (simp add: assms(2) gpio_run_append)
  have u: "push_bit 1 (shift_in (butlast (byte_bits w)) 0) OR of_bool (bit w 0) = (ucast w :: u32)"
    unfolding shift_in_snoc [symmetric] byte_bits_split(1) [of w, symmetric] by (rule shift_in_byte)
  from command_last_bit [OF r t] r show ?thesis unfolding u by blast
qed

section \<open>Reading and writing data\<close>

lemma low_bit_cases: "(ucast (d :: 64 word) AND 1 :: u8) = of_bool (bit d 0)"
  by (rule bit_word_eqI) (auto simp: bit_simps)

lemma output_bit:
  assumes "outputting d n s" "t = gpio_run ticks now [(0xC4, 4), (0xC4, 5)] s"
  shows "bit (gpio_data t) 1 = bit d 0" and "n \<noteq> 1 \<Longrightarrow> outputting (drop_bit 1 d) (n - 1) t"
proof -
  have w: "[(0xC4, 4), (0xC4, 5)] = bit_writes False" by (simp add: bit_writes_def)
  obtain r rom where t: "t = (rtc_clock now (gpio_data s) (s\<lparr>gpio_data := gpio_data s\<rparr>))
      \<lparr>gp_rumble := r, gpio_rom := rom\<rparr>"
    using clock_bit [of 5 s "gpio_data s" False ticks now] assms by (auto simp: outputting_def w)
  show "bit (gpio_data t) 1 = bit d 0"
    using assms(1) by (auto simp: t outputting_def selected_def rtc_clock_def Let_def low_bit_cases bit_simps)
  show "n \<noteq> 1 \<Longrightarrow> outputting (drop_bit 1 d) (n - 1) t"
    using assms(1) by (auto simp: t outputting_def selected_def rtc_clock_def Let_def low_bit_cases)
qed

lemma rtc_read_bits:
  assumes "outputting d (of_nat n) s" "n < 2 ^ 32"
  shows "rtc_read ticks now n s = map (bit d) [0..<n]"
  using assms
proof (induction n arbitrary: d s)
  case (Suc n)
  let ?t = "gpio_run ticks now [(0xC4, 4), (0xC4, 5)] s"
  note o = output_bit [OF Suc.prems(1) refl, of ticks now]
  have m: "map (bit d) [0..<Suc n] = bit d 0 # map (bit (drop_bit 1 d)) [0..<n]"
    by (simp add: map_upt_Suc bit_simps del: upt_Suc)
  show ?case
  proof (cases n)
    case 0
    then show ?thesis using o(1) by (simp add: Let_def)
  next
    case (Suc k)
    have "(of_nat (Suc n) :: u32) \<noteq> 1"
    proof
      assume "(of_nat (Suc n) :: u32) = 1"
      then have "unat (of_nat (Suc n) :: u32) = 1" by simp
      then show False using Suc Suc.prems(2) unfolding unat_of_nat by simp
    qed
    with o(2) have "outputting (drop_bit 1 d) (of_nat n) ?t" by simp
    with Suc.IH [of "drop_bit 1 d" ?t] Suc.prems(2) o(1) m show ?thesis
      by (simp add: Let_def del: gpio_run.simps upt_Suc)
  qed
qed simp

lemma input_bit:
  assumes "inputting d n s" "t = gpio_run ticks now (bit_writes b) s"
  shows "selected 7 t" and "n \<noteq> 1 \<Longrightarrow> inputting (push_bit 1 d OR of_bool b) (n - 1) t"
    and "n = 1 \<Longrightarrow> rtc_status t = ucast (push_bit 1 d OR of_bool b)"
proof -
  obtain r rom where t: "t = (rtc_clock now (if b then 7 else 5) (s\<lparr>gpio_data := if b then 7 else 5\<rparr>))
      \<lparr>gp_rumble := r, gpio_rom := rom\<rparr>"
    using clock_bit [of 7 s "if b then 7 else 5" b ticks now] assms by (auto simp: inputting_def)
  show "selected 7 t" "n \<noteq> 1 \<Longrightarrow> inputting (push_bit 1 d OR of_bool b) (n - 1) t"
    "n = 1 \<Longrightarrow> rtc_status t = ucast (push_bit 1 d OR of_bool b)"
    using assms(1) by (simp_all add: t inputting_def selected_def rtc_clock_def Let_def bit_of_new del: of_bool_eq)
qed

lemma input_bits:
  assumes "inputting 0 (of_nat (Suc (length bs))) s" "length bs < 8"
    and "t = gpio_run ticks now (concat (map bit_writes (bs @ [b]))) s"
  shows "rtc_status t = ucast (shift_in (bs @ [b]) 0 :: 64 word)" and "selected 7 t"
proof -
  have "inputting (shift_in xs 0) (of_nat (Suc (length ys))) (gpio_run ticks now (concat (map bit_writes xs)) s)"
    if "bs = xs @ ys" for xs ys
    using that
  proof (induction xs arbitrary: ys rule: rev_induct)
    case Nil
    then show ?case using assms by (simp add: shift_in_def)
  next
    case (snoc x xs)
    then have i: "inputting (shift_in xs 0) (of_nat (Suc (length (x # ys))))
        (gpio_run ticks now (concat (map bit_writes xs)) s)" by simp
    have "(of_nat (Suc (length (x # ys))) :: u32) \<noteq> 1"
    proof
      assume "(of_nat (Suc (length (x # ys))) :: u32) = 1"
      then have "unat (of_nat (Suc (length (x # ys))) :: u32) = 1" by simp
      then show False using snoc.prems assms(2) unfolding unat_of_nat by simp
    qed
    from input_bit(2) [OF i refl this, where ticks = ticks and now = now and b = x] show ?case
      by (simp add: shift_in_snoc gpio_run_append)
  qed
  from this [of bs "[]"] have i: "inputting (shift_in bs 0) 1 (gpio_run ticks now (concat (map bit_writes bs)) s)"
    by simp
  have t: "t = gpio_run ticks now (bit_writes b) (gpio_run ticks now (concat (map bit_writes bs)) s)"
    by (simp add: assms(3) gpio_run_append)
  show "rtc_status t = ucast (shift_in (bs @ [b]) 0 :: 64 word)" "selected 7 t"
    using input_bit [OF i t] by (simp_all add: shift_in_snoc)
qed

section \<open>Whole exchanges\<close>

lemma direction_write:
  "\<exists>rom. write_gpio ticks now 0xC6 v s = s\<lparr>gpio_dir := ucast v AND 0xF, gpio_rom := rom\<rparr>"
proof -
  have "\<exists>rom. update_gpio_romregs t = t\<lparr>gpio_rom := rom\<rparr>" for t
    by (auto simp: update_gpio_romregs_def intro: exI [of _ "gpio_rom t"])
  from this [of "s\<lparr>gpio_dir := ucast v AND 0xF\<rparr>"] show ?thesis
    by (simp add: write_gpio_def Let_def)
qed

lemma select_receives:
  assumes "rtc_enabled s" "gpio_data s = 0 \<or> gpio_data s = 5 \<or> gpio_data s = 7"
  shows "receiving 0 0 (rtc_status s) (gpio_run ticks now select_chip s)"
proof -
  obtain rom0 where a: "write_gpio ticks now 0xC6 7 s = s\<lparr>gpio_dir := 7, gpio_rom := rom0\<rparr>" (is "_ = ?a")
    using direction_write [of ticks now 7 s] by auto
  have low: "write_rtc now (gpio_data ?a AND 7) (1 AND 7) t = t\<lparr>rtc_state := RTC_IDLE, rtc_command := 0, rtc_bit_count := 0\<rparr>" for t
    by (simp add: write_rtc_def)
  have ia: "rtc_enabled ?a" "1 = (gpio_data ?a AND NOT (gpio_dir ?a)) OR (ucast (1 :: u32) AND gpio_dir ?a)"
    "gpio_data ?a AND 7 \<noteq> 1 AND 7"
    using assms by auto
  obtain r1 rom1 where b: "write_gpio ticks now 0xC4 1 ?a = (?a\<lparr>gpio_data := 1, rtc_state := RTC_IDLE, rtc_command := 0,
      rtc_bit_count := 0, gp_rumble := r1, gpio_rom := rom1\<rparr>)" (is "_ = ?b")
    using data_write [OF ia, of ticks now] unfolding low by auto
  have high: "write_rtc now (gpio_data ?b AND 7) (5 AND 7) t = t\<lparr>rtc_state := RTC_COMMAND\<rparr>" for t
    by (simp add: write_rtc_def Let_def)
  have ib: "rtc_enabled ?b" "5 = (gpio_data ?b AND NOT (gpio_dir ?b)) OR (ucast (5 :: u32) AND gpio_dir ?b)"
    "gpio_data ?b AND 7 \<noteq> 5 AND 7"
    using assms by auto
  obtain r2 rom2 where c: "write_gpio ticks now 0xC4 5 ?b = (?b\<lparr>gpio_data := 5, rtc_state := RTC_COMMAND,
      gp_rumble := r2, gpio_rom := rom2\<rparr>)"
    using data_write [OF ib, of ticks now] unfolding high by auto
  show ?thesis
    unfolding select_chip_def gpio_run.simps a b c using assms(1) by (simp add: receiving_def selected_def)
qed

definition shows_data :: "nat \<Rightarrow> 64 word \<Rightarrow> gpio \<Rightarrow> bool" where
  "shows_data n d s \<longleftrightarrow> selected 7 s \<and> rtc_state s = RTC_OUTPUT_DATA \<and> rtc_data s = d \<and> rtc_data_bits s = of_nat n"

lemma output_command:
  assumes "receiving 0 0 st s" "t = gpio_run ticks now (concat (map bit_writes (byte_bits w))) s"
  shows "w = 0x65 \<Longrightarrow> shows_data 56 (time_full now) t"
    and "w = 0x67 \<Longrightarrow> shows_data 24 (time_short now) t"
    and "w = 0x63 \<Longrightarrow> shows_data 8 (ucast st) t"
    and "w = 0x62 \<Longrightarrow> inputting 0 8 t"
proof -
  obtain s' d r rom c where
    t: "t = (rtc_start now (s'\<lparr>gpio_data := d, rtc_command := ucast w, rtc_bit_count := 8\<rparr>))
           \<lparr>rtc_bit_count := 0, gp_rumble := r, gpio_rom := rom\<rparr>"
    and s': "receiving c 7 st s'" and d: "d = 5 \<or> d = 7"
    using command_received [OF assms] by blast
  show "w = 0x65 \<Longrightarrow> shows_data 56 (time_full now) t" "w = 0x67 \<Longrightarrow> shows_data 24 (time_short now) t"
    "w = 0x63 \<Longrightarrow> shows_data 8 (ucast st) t" "w = 0x62 \<Longrightarrow> inputting 0 8 t"
    using s' d by (simp_all add: t rtc_start_def shows_data_def receiving_def selected_def inputting_def)
qed

lemma read_shown:
  assumes "shows_data n d s" "n < 2 ^ 32"
  shows "rtc_read ticks now n (gpio_run ticks now [(0xC6, 5)] s) = map (bit d) [0..<n]"
proof -
  obtain rom where "write_gpio ticks now 0xC6 5 s = s\<lparr>gpio_dir := 5, gpio_rom := rom\<rparr>"
    using direction_write [of ticks now 5 s] by auto
  then have "outputting d (of_nat n) (gpio_run ticks now [(0xC6, 5)] s)"
    using assms(1) by (auto simp: shows_data_def outputting_def selected_def)
  then show ?thesis using assms(2) by (rule rtc_read_bits)
qed

lemma bits_of_fields:
  "map (bit (time_full t)) [0..<56] = concat (map byte_lsb
     [encode_bcd (of_int (tm_year t)), encode_bcd (of_int (tm_mon t + 1)), encode_bcd (of_int (tm_mday t)),
      encode_bcd (of_int (tm_wday t)), encode_bcd (of_int (tm_hour t)), encode_bcd (of_int (tm_min t)),
      encode_bcd (of_int (tm_sec t))])"
proof -
  have "map (bit (ucast a OR push_bit 8 (ucast b) OR push_bit 16 (ucast c) OR push_bit 24 (ucast d)
      OR push_bit 32 (ucast e) OR push_bit 40 (ucast f) OR push_bit 48 (ucast g) :: 64 word)) [0..<56]
    = concat (map byte_lsb [a, b, c, d, e, f, g])" for a b c d e f g :: u8
    by (simp add: byte_lsb_def upt_rec bit_simps)
  then show ?thesis unfolding time_full_def .
qed

text \<open>C20: the clock reports the date and time. A game that selects the chip, sends the command
  for the full time, most significant bit first, and turns the data pin around reads 56 bits:
  the year, month, day, day of week, hours, minutes and seconds in BCD, each least significant
  bit first.\<close>

theorem rtc_reports_time:
  assumes "rtc_enabled s"
  shows "rtc_read ticks now 56 (gpio_run ticks now (command_writes 0x65 @ [(0xC6, 5)]) (gpio_reset s)) =
     concat (map byte_lsb
       [encode_bcd (of_int (tm_year now)), encode_bcd (of_int (tm_mon now + 1)), encode_bcd (of_int (tm_mday now)),
        encode_bcd (of_int (tm_wday now)), encode_bcd (of_int (tm_hour now)), encode_bcd (of_int (tm_min now)),
        encode_bcd (of_int (tm_sec now))])"
proof -
  have "rtc_enabled (gpio_reset s)" "gpio_data (gpio_reset s) = 0" using assms by (simp_all add: gpio_reset_def)
  then have r: "receiving 0 0 (rtc_status (gpio_reset s)) (gpio_run ticks now select_chip (gpio_reset s))"
    by (intro select_receives) auto
  from read_shown [OF output_command(1) [OF r refl refl], of ticks now]
  have "rtc_read ticks now 56 (gpio_run ticks now (command_writes 0x65 @ [(0xC6, 5)]) (gpio_reset s)) =
      map (bit (time_full now)) [0..<56]"
    by (simp add: command_writes_def gpio_run_append)
  then show ?thesis by (simp only: bits_of_fields)
qed

definition sample_gpio :: gpio where
  "sample_gpio = \<lparr>rtc_enabled = True, rumble_enabled = False, gpio_data = 0, gpio_dir = 0, gpio_ctl = 0,
     gpio_rom = None, rtc_state = RTC_DISABLED, rtc_command = 0, rtc_data = 0, rtc_data_bits = 0,
     rtc_status = 0x40, rtc_bit_count = 0, gp_rumble = \<lparr>rumble_enable_tick = 0, rumble_ticks = 0\<rparr>\<rparr>"

definition sample_time :: tm where
  "sample_time = \<lparr>tm_sec = 59, tm_min = 30, tm_hour = 13, tm_mday = 24, tm_mon = 11, tm_year = 124, tm_wday = 2\<rparr>"

lemma rtc_reports_time_witness:
  "rtc_read 0 sample_time 56 (gpio_run 0 sample_time (command_writes 0x65 @ [(0xC6, 5)]) (gpio_reset sample_gpio)) =
     concat (map byte_lsb
       [encode_bcd (of_int (tm_year sample_time)), encode_bcd (of_int (tm_mon sample_time + 1)),
        encode_bcd (of_int (tm_mday sample_time)), encode_bcd (of_int (tm_wday sample_time)),
        encode_bcd (of_int (tm_hour sample_time)), encode_bcd (of_int (tm_min sample_time)),
        encode_bcd (of_int (tm_sec sample_time))])"
  by (rule rtc_reports_time) (simp add: sample_gpio_def)

lemma encode_bcd_digits:
  "unat (encode_bcd v) = 16 * (unat v mod 100 div 10) + unat v mod 10"
proof -
  let ?x = "v mod 100 div 10" and ?y = "v mod 100 mod 10"
  have u: "unat ?x = unat v mod 100 div 10" "unat ?y = unat v mod 100 mod 10"
    by (simp_all add: unat_div_distrib unat_mod_distrib)
  have d: "m < 100 \<Longrightarrow> m div 10 < 10" "k mod 10 < 10" "n mod 100 mod 10 = n mod 10" for m k n :: nat
    by (simp_all add: mod_mod_cancel)
  have h: "unat ?x < 10" "unat ?y < 10" unfolding u by (rule d, simp, rule d)
  have "unat (encode_bcd v) = unat (?x * 16 + ?y)" by (simp add: encode_bcd_def Let_def)
  also have "\<dots> = ((unat ?x * 16) mod 256 + unat ?y) mod 256" by (simp only: unat_word_ariths) simp
  also have "\<dots> = 16 * unat ?x + unat ?y" using h by simp
  also have "\<dots> = 16 * (unat v mod 100 div 10) + unat v mod 10" unfolding u d(3) ..
  finally show ?thesis .
qed

text \<open>The status register is read back reversed. The eight bits a game writes with the
  write-status command come back from the read-status command in the opposite order: input is
  taken most significant bit first and output is given least significant bit first.\<close>

lemma rtc_status_reversed:
  assumes "rtc_enabled s" "length bs = 8"
  shows "rtc_read ticks now 8 (gpio_run ticks now
     (command_writes 0x62 @ concat (map bit_writes bs) @ command_writes 0x63 @ [(0xC6, 5)]) (gpio_reset s)) = rev bs"
proof -
  let ?run = "gpio_run ticks now"
  obtain xs b where bs: "bs = xs @ [b]" "length xs = 7"
    using assms(2) by (cases bs rule: rev_cases) auto
  have "rtc_enabled (gpio_reset s)" "gpio_data (gpio_reset s) = 0" using assms by (simp_all add: gpio_reset_def)
  then have r: "receiving 0 0 (rtc_status (gpio_reset s)) (?run select_chip (gpio_reset s))"
    by (intro select_receives) auto
  define s1 where "s1 = ?run (command_writes 0x62) (gpio_reset s)"
  have i: "inputting 0 (of_nat (Suc (length xs))) s1"
    using output_command(4) [OF r refl refl] bs(2) by (simp add: s1_def command_writes_def gpio_run_append)
  define s2 where "s2 = ?run (concat (map bit_writes bs)) s1"
  have s2: "rtc_status s2 = ucast (shift_in bs 0 :: 64 word)" "selected 7 s2"
    using input_bits [OF i _ refl, where ticks = ticks and now = now and b = b] bs by (simp_all add: s2_def)
  then have "receiving 0 0 (rtc_status s2) (?run select_chip s2)"
    by (intro select_receives) (auto simp: selected_def)
  from read_shown [OF output_command(3) [OF this refl refl], where ticks = ticks and now = now]
  have "rtc_read ticks now 8 (?run (command_writes 0x63 @ [(0xC6, 5)]) s2) = map (bit (ucast (rtc_status s2) :: 64 word)) [0..<8]"
    by (simp add: command_writes_def gpio_run_append)
  also have "\<dots> = map (\<lambda>i. rev bs ! i) [0..<length (rev bs)]"
    using assms(2) by (simp add: s2(1) bit_simps bit_shift_in rev_nth)
  also have "\<dots> = rev bs" by (rule map_nth)
  finally show ?thesis by (simp add: gpio_run_append s2_def s1_def)
qed

lemma rtc_status_reversed_witness:
  "rtc_read 0 sample_time 8 (gpio_run 0 sample_time
     (command_writes 0x62 @ concat (map bit_writes [False, True, False, False, False, False, False, False])
        @ command_writes 0x63 @ [(0xC6, 5)]) (gpio_reset sample_gpio)) =
   rev [False, True, False, False, False, False, False, False]"
  by (rule rtc_status_reversed) (simp_all add: sample_gpio_def)

end
